(* ===== verification/Prelude.thy ===== *)
theory Prelude
  imports Main "HOL-Library.Word"
begin

text \<open>
  Shared vocabulary of the development: the machine integer types of the C sources (LP64 data
  model: \<open>unsigned long\<close>, \<open>size_t\<close> and pointers are 64 bits wide, \<open>int\<close> is 32 bits), the
  result type of operations whose C code may have no defined outcome, checked array accesses, and
  the arithmetic lemmas on free-running 16-bit ring indices that the virtqueue proofs rest on.

  A C \<open>int\<close> that only carries a status code or a small count is a HOL \<open>int\<close>; a value that is
  stored in, or wraps around at, a fixed width is a word of that width. A pointer is its 64-bit
  address, with 0 for NULL.
\<close>

unbundle bit_operations_syntax

type_synonym u8 = "8 word"
type_synonym u16 = "16 word"
type_synonym u32 = "32 word"
type_synonym u64 = "64 word"
type_synonym ptr = "64 word"

abbreviation NULL :: ptr where "NULL \<equiv> 0"

subsection \<open>Results of C operations\<close>

text \<open>
  What may happen instead of a normal return: an access outside an array, a dereferenced NULL
  pointer, the use or release of a pointer to no live object, a failed assertion (which stops the
  processor), or a loop that never ends.
\<close>

datatype c_fault = Out_of_bounds | Null_deref | Bad_pointer | Assert_failed | Hang

type_synonym 'a cres = "c_fault + 'a"

fun cbind :: "'a cres \<Rightarrow> ('a \<Rightarrow> 'b cres) \<Rightarrow> 'b cres" where
  "cbind (Inl e) f = Inl e"
| "cbind (Inr a) f = f a"

lemma cbind_assoc: "cbind (cbind m f) g = cbind m (\<lambda>x. cbind (f x) g)"
  by (cases m) auto

lemma cbind_cong [fundef_cong]:
  "m = m' \<Longrightarrow> (\<And>a. m' = Inr a \<Longrightarrow> f a = g a) \<Longrightarrow> cbind m f = cbind m' g"
  by (cases m') auto

text \<open>Reading and writing an array element, with the bounds the C object has.\<close>

definition rd :: "'a list \<Rightarrow> nat \<Rightarrow> 'a cres" where
  "rd xs i = (if i < length xs then Inr (xs ! i) else Inl Out_of_bounds)"

definition wr :: "'a list \<Rightarrow> nat \<Rightarrow> 'a \<Rightarrow> 'a list cres" where
  "wr xs i x = (if i < length xs then Inr (xs[i := x]) else Inl Out_of_bounds)"

named_theorems cres_simps \<open>unfolding of checked results\<close>
named_theorems ring_simps \<open>arithmetic of free-running ring indices\<close>

lemma cbind_eq_Inr [cres_simps]: "cbind m f = Inr r \<longleftrightarrow> (\<exists>a. m = Inr a \<and> f a = Inr r)"
  by (cases m) auto

lemma cbind_eq_Inl [cres_simps]:
  "cbind m f = Inl e \<longleftrightarrow> m = Inl e \<or> (\<exists>a. m = Inr a \<and> f a = Inl e)"
  by (cases m) auto

lemma rd_eq_Inr [cres_simps]: "rd xs i = Inr x \<longleftrightarrow> i < length xs \<and> x = xs ! i"
  by (auto simp: rd_def)

lemma rd_in [simp]: "i < length xs \<Longrightarrow> rd xs i = Inr (xs ! i)"
  by (simp add: rd_def)

lemma rd_out [simp]: "\<not> i < length xs \<Longrightarrow> rd xs i = Inl Out_of_bounds"
  by (simp add: rd_def)

lemma wr_eq_Inr [cres_simps]: "wr xs i x = Inr ys \<longleftrightarrow> i < length xs \<and> ys = xs[i := x]"
  by (auto simp: wr_def)

lemma wr_in [simp]: "i < length xs \<Longrightarrow> wr xs i x = Inr (xs[i := x])"
  by (simp add: wr_def)

lemma wr_out [simp]: "\<not> i < length xs \<Longrightarrow> wr xs i x = Inl Out_of_bounds"
  by (simp add: wr_def)

subsection \<open>C strings\<close>

text \<open>\<open>cstrn n s\<close> is what \<open>strncpy\<close> and \<open>strncmp\<close> with bound \<open>n\<close> see of \<open>s\<close>.\<close>

definition cstrn :: "nat \<Rightarrow> u8 list \<Rightarrow> u8 list" where
  "cstrn n s = take n (takeWhile (\<lambda>b. b \<noteq> 0) s)"

definition strncpy :: "u8 list \<Rightarrow> nat \<Rightarrow> u8 list" where
  "strncpy s n = (let c = cstrn n s in c @ replicate (n - length c) 0)"

definition strncmp_eq :: "u8 list \<Rightarrow> u8 list \<Rightarrow> nat \<Rightarrow> bool" where
  "strncmp_eq s t n \<longleftrightarrow> cstrn n s = cstrn n t"

subsection \<open>Powers of two and index masks\<close>

definition pow2 :: "'a::len word \<Rightarrow> bool" where
  "pow2 n \<longleftrightarrow> n \<noteq> 0 \<and> n AND (n - 1) = 0"

lemma nat_and_pred_zero_pow2: "0 < n \<Longrightarrow> n AND (n - 1) = 0 \<Longrightarrow> \<exists>k. n = (2::nat) ^ k"
proof (induction n rule: less_induct)
  case (less n)
  show ?case
  proof (cases "even n")
    case True
    then obtain m where m: "n = 2 * m" by (elim evenE)
    with less.prems have m0: "0 < m" by simp
    have pred: "n - 1 = Suc (2 * (m - 1))" using m m0 by simp
    have "n AND (n - 1) = 2 * (m AND (m - 1))"
      unfolding pred unfolding m by (subst and_nat_unfold) simp
    with less.prems have "m AND (m - 1) = 0" by simp
    with less.IH [of m] m m0 obtain k where "m = 2 ^ k" by auto
    with m show ?thesis by (intro exI [of _ "Suc k"]) simp
  next
    case False
    then obtain m where m: "n = Suc (2 * m)" by (auto elim!: oddE)
    have "n AND (n - 1) = 2 * (m AND m)"
      unfolding m by (subst and_nat_unfold) simp
    with less.prems have "m = 0" by simp
    with m show ?thesis by (intro exI [of _ 0]) simp
  qed
qed

lemma pow2_unat: "pow2 n \<Longrightarrow> \<exists>k. unat n = 2 ^ k"
proof -
  assume p: "pow2 n"
  have pos: "0 < unat n" using p by (simp add: pow2_def unat_gt_0)
  have "unat (n - 1) = unat n - 1"
    using p by (simp add: pow2_def unat_minus_one)
  then have "unat n AND (unat n - 1) = unat (n AND (n - 1))"
    by (simp add: unsigned_and_eq)
  also have "\<dots> = 0" using p by (simp add: pow2_def)
  finally show ?thesis using pos by (intro nat_and_pred_zero_pow2)
qed

lemma unat_and_pred [ring_simps]:
  assumes "pow2 n"
  shows "unat (i AND (n - 1)) = unat i mod unat n"
proof -
  obtain k where k: "unat n = 2 ^ k" using pow2_unat [OF assms] by blast
  have "unat (n - 1) = 2 ^ k - 1"
    using assms k by (simp add: pow2_def unat_minus_one)
  then have "unat (i AND (n - 1)) = unat i AND mask k"
    by (simp add: unsigned_and_eq mask_eq_exp_minus_1)
  then show ?thesis by (simp add: k take_bit_eq_mask [symmetric] take_bit_eq_mod)
qed

lemma word_split_mask: "x = (x AND m) + (x AND NOT m)" for x m :: "'a::len word"
proof -
  have "(x AND m) AND (x AND NOT m) = 0"
    by (rule bit_word_eqI) (auto simp: bit_simps)
  moreover have "(x AND m) OR (x AND NOT m) = x"
    by (rule bit_word_eqI) (auto simp: bit_simps)
  ultimately show ?thesis
    using word_plus_and_or [of "x AND m" "x AND NOT m"] by simp
qed

subsection \<open>Words and natural numbers\<close>

lemma unat_of_nat_lt: "k < 2 ^ LENGTH('a) \<Longrightarrow> unat (of_nat k :: 'a::len word) = k"
  by (simp add: unsigned_of_nat take_bit_nat_eq_self)

lemma unat_plus_lt:
  "unat x + unat y < 2 ^ LENGTH('a) \<Longrightarrow> unat (x + y) = unat x + unat (y :: 'a::len word)"
  by (simp add: unat_word_ariths)

lemma unat_mult_lt:
  "unat x * unat y < 2 ^ LENGTH('a) \<Longrightarrow> unat (x * y) = unat x * unat (y :: 'a::len word)"
  by (simp add: unat_word_ariths)

lemma signed_take_bit_id: "0 \<le> i \<Longrightarrow> i < 2 ^ n \<Longrightarrow> signed_take_bit n i = (i::int)"
  by (simp add: signed_take_bit_int_eq_self)

lemma unat_ucast_up:
  "LENGTH('a) \<le> LENGTH('b) \<Longrightarrow> unat (ucast (w :: 'a::len word) :: 'b::len word) = unat w"
  by (simp add: unsigned_ucast_eq take_bit_nat_eq_self order_less_le_trans [OF unsigned_less])

lemma ucast_16_32_16 [simp]: "(ucast (ucast (x :: u16) :: u32) :: u16) = x"
  by (rule bit_word_eqI) (auto simp: bit_simps)

end
