(* ===== verification/Metal.thy ===== *)
theory Metal
  imports Prelude
begin

text \<open>
  The interface to libmetal, which is not part of the sources. Its functions are parameters of the
  model: \<open>bitmap_ops\<close> are the bitmap functions, \<open>io_ops\<close> the functions on I/O regions. The locales
  state what their documentation promises and the code relies on: \<open>metal_bitmap\<close> that a bitmap is a
  set of bits, \<open>metal_region\<close> that a region is a block of memory which is accessed by offset. Both are
  interpreted: on an array of 64-bit longs, and on a directly mapped block with the bounds handling
  of libmetal. A mutex that the caller holds already is never granted, so that acquiring it again is
  the fault \<open>Hang\<close>.

  Memory is a map from addresses to bytes; integers are stored little-endian.
\<close>

type_synonym mem = "ptr \<Rightarrow> u8"

subsection \<open>Bytes\<close>

definition rd_bytes :: "mem \<Rightarrow> ptr \<Rightarrow> nat \<Rightarrow> u8 list" where
  "rd_bytes m p n = map (\<lambda>i. m (p + of_nat i)) [0..<n]"

definition wr_bytes :: "mem \<Rightarrow> ptr \<Rightarrow> u8 list \<Rightarrow> mem" where
  "wr_bytes m p bs = (\<lambda>a. if unat (a - p) < length bs then bs ! unat (a - p) else m a)"

definition le_bytes :: "nat \<Rightarrow> 'a::len word \<Rightarrow> u8 list" where
  "le_bytes n w = map (\<lambda>i. ucast (drop_bit (8 * i) w)) [0..<n]"

primrec le_word :: "u8 list \<Rightarrow> 'a::len word" where
  "le_word [] = 0"
| "le_word (b # bs) = ucast b OR push_bit 8 (le_word bs)"

abbreviation rd16 :: "mem \<Rightarrow> ptr \<Rightarrow> u16" where "rd16 m p \<equiv> le_word (rd_bytes m p 2)"
abbreviation rd32 :: "mem \<Rightarrow> ptr \<Rightarrow> u32" where "rd32 m p \<equiv> le_word (rd_bytes m p 4)"
abbreviation rd64 :: "mem \<Rightarrow> ptr \<Rightarrow> u64" where "rd64 m p \<equiv> le_word (rd_bytes m p 8)"
abbreviation wr8 :: "mem \<Rightarrow> ptr \<Rightarrow> u8 \<Rightarrow> mem" where "wr8 m p b \<equiv> wr_bytes m p [b]"
abbreviation wr32 :: "mem \<Rightarrow> ptr \<Rightarrow> u32 \<Rightarrow> mem" where "wr32 m p w \<equiv> wr_bytes m p (le_bytes 4 w)"

lemma length_rd_bytes [simp]: "length (rd_bytes m p n) = n"
  by (simp add: rd_bytes_def)

lemma length_le_bytes [simp]: "length (le_bytes n w) = n"
  by (simp add: le_bytes_def)

lemma rd_bytes_nth [simp]: "i < n \<Longrightarrow> rd_bytes m p n ! i = m (p + of_nat i)"
  by (simp add: rd_bytes_def)

lemma rd_bytes_Suc: "rd_bytes m p (Suc n) = m p # rd_bytes m (p + 1) n"
  by (simp add: rd_bytes_def upt_conv_Cons map_Suc_upt [symmetric] add.assoc del: upt_Suc map_Suc_upt)

lemma rd_bytes_0 [simp]: "rd_bytes m p 0 = []"
  by (simp add: rd_bytes_def)

lemma rd_bytes_append: "rd_bytes m p (a + b) = rd_bytes m p a @ rd_bytes m (p + of_nat a) b"
  by (rule nth_equalityI) (auto simp: nth_append add.assoc simp flip: of_nat_add)

lemma rd_bytes_slice:
  assumes "rd_bytes m p n = bs" and "a + k \<le> n"
  shows "rd_bytes m (p + of_nat a) k = take k (drop a bs)"
proof -
  have "n = a + (k + (n - a - k))" using assms(2) by simp
  then have "bs = rd_bytes m p (a + (k + (n - a - k)))" using assms(1) by metis
  also have "\<dots> = rd_bytes m p a @ rd_bytes m (p + of_nat a) k @
      rd_bytes m (p + of_nat a + of_nat k) (n - a - k)"
    by (simp only: rd_bytes_append)
  finally show ?thesis by simp
qed

lemma bit_le_word:
  "bit (le_word bs :: 'a::len word) i \<longleftrightarrow>
     i < LENGTH('a) \<and> i div 8 < length bs \<and> bit (bs ! (i div 8)) (i mod 8)"
proof (induction bs arbitrary: i)
  case (Cons b bs)
  show ?case
  proof (cases "i < 8")
    case True
    then show ?thesis by (auto simp: bit_simps bit_imp_le_length)
  next
    case False
    then have i: "i div 8 = Suc ((i - 8) div 8)" "i mod 8 = (i - 8) mod 8"
      using div_add_self2 [of 8 "i - 8"] mod_add_self2 [of "i - 8" 8] by simp_all
    have b: "\<not> bit b i" using False bit_imp_le_length [of b i] by auto
    show ?thesis using False i b Cons.IH [of "i - 8"] by (auto simp: bit_simps)
  qed
qed simp

lemma le_word_bytes:
  "LENGTH('a) \<le> 8 * n \<Longrightarrow> le_word (le_bytes n w) = (w :: 'a::len word)"
proof (rule bit_word_eqI)
  fix i assume n: "LENGTH('a) \<le> 8 * n" and i: "i < LENGTH('a)"
  have d: "i div 8 < n" using n i by simp
  then show "bit (le_word (le_bytes n w) :: 'a word) i = bit w i"
    using i by (auto simp: bit_le_word le_bytes_def bit_simps)
qed

lemma unat_of_nat_64: "n < 2 ^ 64 \<Longrightarrow> unat (of_nat n :: u64) = n"
  by (rule unat_of_nat_lt) simp

lemma unat_of_nat_32: "n < 2 ^ 32 \<Longrightarrow> unat (of_nat n :: u32) = n"
  by (rule unat_of_nat_lt) simp

lemma sint_word_of_int: "- (2 ^ 31) \<le> x \<Longrightarrow> x < 2 ^ 31 \<Longrightarrow> sint (word_of_int x :: u32) = x"
  unfolding sint_sbintrunc' by (rule signed_take_bit_int_eq_self) simp_all

lemma sint_unat_small: "unat x < 2 ^ 31 \<Longrightarrow> sint (x :: u32) = int (unat x)"
proof -
  assume "unat x < 2 ^ 31"
  then have "int (unat x) < int (2 ^ 31)" by (simp only: of_nat_less_iff)
  then have "uint x < 2 ^ 31" by simp
  moreover have "- (2 ^ 31) \<le> uint x" by (rule order_trans [OF _ unsigned_greater_eq]) simp
  ultimately show ?thesis using signed_take_bit_int_eq_self [of 31 "uint x"] by (simp add: sint_uint)
qed

lemma rd_wr_same:
  assumes "length bs = n" and "n \<le> 2 ^ 64"
  shows "rd_bytes (wr_bytes m p bs) p n = bs"
  using assms by (intro nth_equalityI) (auto simp: wr_bytes_def unat_of_nat_64)

text \<open>A block of \<open>n\<close> bytes at \<open>p\<close>, and blocks that do not meet.\<close>

definition disjoint_blocks :: "ptr \<Rightarrow> nat \<Rightarrow> ptr \<Rightarrow> nat \<Rightarrow> bool" where
  "disjoint_blocks p n q k \<longleftrightarrow> (\<forall>i < n. k \<le> unat (p + of_nat i - q))"

lemma rd_wr_other: "disjoint_blocks p n q (length bs) \<Longrightarrow> rd_bytes (wr_bytes m q bs) p n = rd_bytes m p n"
  by (rule nth_equalityI) (auto simp: wr_bytes_def disjoint_blocks_def not_less)

lemma disjoint_blocks_mono: "disjoint_blocks p n q k \<Longrightarrow> n' \<le> n \<Longrightarrow> k' \<le> k \<Longrightarrow> disjoint_blocks p n' q k'"
  unfolding disjoint_blocks_def by (meson order_trans less_le_trans)

lemma disjoint_blocks_sub:
  assumes "disjoint_blocks p n q k" and "a + k' \<le> k"
  shows "disjoint_blocks p n (q + of_nat a) k'"
  unfolding disjoint_blocks_def
proof (intro allI impI)
  fix i assume "i < n"
  define x where "x = p + of_nat i - q"
  have x: "a + k' \<le> unat x" using assms \<open>i < n\<close> by (auto simp: disjoint_blocks_def x_def)
  then have u: "unat (of_nat a :: u64) = a" using unsigned_less [of x, where 'a = nat] by (intro unat_of_nat_64) simp
  have "unat (x - of_nat a) = unat x - a" using x u by (subst unat_sub) (simp_all add: word_le_nat_alt)
  then show "k' \<le> unat (p + of_nat i - (q + of_nat a))" 
    using x by (simp add: x_def diff_diff_eq)
qed

lemma rd_wr_part:
  assumes "off + n \<le> length bs" and "length bs < 2 ^ 64"
  shows "rd_bytes (wr_bytes m p bs) (p + of_nat off) n = take n (drop off bs)"
proof (rule nth_equalityI)
  fix i assume i: "i < length (rd_bytes (wr_bytes m p bs) (p + of_nat off) n)"
  then have "unat (of_nat (off + i) :: u64) = off + i" using assms by (intro unat_of_nat_64) simp
  moreover have "p + of_nat off + of_nat i - p = (of_nat (off + i) :: u64)" by simp
  ultimately show "rd_bytes (wr_bytes m p bs) (p + of_nat off) n ! i = take n (drop off bs) ! i"
    using i assms by (simp add: wr_bytes_def del: of_nat_add)
qed (use assms in simp)

lemma disjoint_blocks_offset:
  assumes "a + n \<le> b \<or> b + k \<le> a" and "a + n < 2 ^ 64" and "b + k < 2 ^ 64"
  shows "disjoint_blocks (p + of_nat a) n (p + of_nat b) k"
  unfolding disjoint_blocks_def
proof (intro allI impI)
  fix i assume i: "i < n"
  have e: "p + of_nat a + of_nat i - (p + of_nat b) = (of_nat (a + i) - of_nat b :: u64)" by simp
  have u: "unat (of_nat (a + i) :: u64) = a + i" "unat (of_nat b :: u64) = b"
    using assms i by (auto simp del: of_nat_add intro!: unat_of_nat_64)
  have "unat (of_nat (a + i) - of_nat b :: u64) =
      (if b \<le> a + i then a + i - b else a + i + 2 ^ 64 - b)"
    by (subst unat_sub_if') (simp only: u, simp)
  then show "k \<le> unat (p + of_nat a + of_nat i - (p + of_nat b))"
    unfolding e using assms i by (auto split: if_splits)
qed

subsection \<open>Bitmaps\<close>

record 'b bitmap_ops =
  next_clear_bit :: "'b \<Rightarrow> nat \<Rightarrow> nat \<Rightarrow> nat"
  set_bit_at :: "'b \<Rightarrow> nat \<Rightarrow> 'b"
  clear_bit_at :: "'b \<Rightarrow> nat \<Rightarrow> 'b"
  is_bit_set :: "'b \<Rightarrow> nat \<Rightarrow> int"

text \<open>
  \<open>bits b\<close> are the set bits among the first \<open>size\<close>. \<open>next_clear_bit b start max\<close> is the first clear
  bit from \<open>start\<close> on, and \<open>max\<close> when there is none before; \<open>is_bit_set\<close> is positive for a set bit.
\<close>

locale metal_bitmap =
  fixes ops :: "'b bitmap_ops" and bits :: "'b \<Rightarrow> nat set" and nbits :: nat and valid :: "'b \<Rightarrow> bool"
  assumes set_bits: "valid b \<Longrightarrow> i < nbits \<Longrightarrow> valid (set_bit_at ops b i) \<and> bits (set_bit_at ops b i) = insert i (bits b)"
    and clear_bits: "valid b \<Longrightarrow> i < nbits \<Longrightarrow> valid (clear_bit_at ops b i) \<and> bits (clear_bit_at ops b i) = bits b - {i}"
    and is_set: "valid b \<Longrightarrow> i < nbits \<Longrightarrow> (if i \<in> bits b then 0 < is_bit_set ops b i else is_bit_set ops b i = 0)"
    and next_clear_from_start: "valid b \<Longrightarrow> s \<le> mx \<Longrightarrow> mx \<le> nbits \<Longrightarrow>
      s \<le> next_clear_bit ops b s mx \<and> next_clear_bit ops b s mx \<le> mx \<and>
      (next_clear_bit ops b s mx < mx \<longrightarrow> next_clear_bit ops b s mx \<notin> bits b) \<and>
      {s..<next_clear_bit ops b s mx} \<subseteq> bits b"
    and bits_bound: "valid b \<Longrightarrow> bits b \<subseteq> {..<nbits}"
begin

lemma next_clear: "valid b \<Longrightarrow> mx \<le> nbits \<Longrightarrow> next_clear_bit ops b 0 mx \<le> mx \<and>
    (next_clear_bit ops b 0 mx < mx \<longrightarrow> next_clear_bit ops b 0 mx \<notin> bits b) \<and>
    {..<next_clear_bit ops b 0 mx} \<subseteq> bits b"
  using next_clear_from_start [of b 0 mx] by (simp add: lessThan_atLeast0)

lemma next_clear_full: "valid b \<Longrightarrow> next_clear_bit ops b 0 nbits = nbits \<longleftrightarrow> bits b = {..<nbits}"
proof
  assume "valid b" and "next_clear_bit ops b 0 nbits = nbits"
  then show "bits b = {..<nbits}" using next_clear [of b nbits] bits_bound [of b] by simp
next
  assume v: "valid b" and f: "bits b = {..<nbits}"
  show "next_clear_bit ops b 0 nbits = nbits"
    using next_clear [OF v order_refl] unfolding f by (meson lessThan_iff nat_less_le)
qed

lemma next_clear_free:
  "valid b \<Longrightarrow> next_clear_bit ops b 0 nbits < nbits \<Longrightarrow> next_clear_bit ops b 0 nbits \<notin> bits b"
  using next_clear [of b nbits] by auto

end

text \<open>The bitmap as an array of longs, and its interpretation.\<close>

definition long_bits :: "u64 list \<Rightarrow> nat set" where
  "long_bits b = {i. i div 64 < length b \<and> bit (b ! (i div 64)) (i mod 64)}"

function next_clear_from :: "u64 list \<Rightarrow> nat \<Rightarrow> nat \<Rightarrow> nat" where
  "next_clear_from b i mx =
     (if i < mx \<and> i div 64 < length b \<and> bit (b ! (i div 64)) (i mod 64) then next_clear_from b (Suc i) mx
      else if i < mx then i else mx)"

  by pat_completeness auto
termination by (relation "measure (\<lambda>(b, i, mx). mx - i)") auto

declare next_clear_from.simps [simp del]

definition long_bitmap :: "u64 list bitmap_ops" where
  "long_bitmap =
     \<lparr>next_clear_bit = next_clear_from,
      set_bit_at = (\<lambda>b i. b[i div 64 := Bit_Operations.set_bit (i mod 64) (b ! (i div 64))]),
      clear_bit_at = (\<lambda>b i. b[i div 64 := unset_bit (i mod 64) (b ! (i div 64))]),
      is_bit_set = (\<lambda>b i. if bit (b ! (i div 64)) (i mod 64) then 1 else 0)\<rparr>"

lemma next_clear_from_spec:
  "i \<le> mx \<Longrightarrow> i \<le> next_clear_from b i mx \<and> next_clear_from b i mx \<le> mx \<and>
   (next_clear_from b i mx < mx \<longrightarrow> next_clear_from b i mx \<notin> long_bits b) \<and>
   {i..<next_clear_from b i mx} \<subseteq> long_bits b"
proof (induction b i mx rule: next_clear_from.induct)
  case (1 b i mx)
  show ?case
  proof (cases "i < mx \<and> i div 64 < length b \<and> bit (b ! (i div 64)) (i mod 64)")
    case True
    with 1 have IH: "Suc i \<le> next_clear_from b (Suc i) mx \<and> next_clear_from b (Suc i) mx \<le> mx \<and>
        (next_clear_from b (Suc i) mx < mx \<longrightarrow> next_clear_from b (Suc i) mx \<notin> long_bits b) \<and>
        {Suc i..<next_clear_from b (Suc i) mx} \<subseteq> long_bits b" by simp
    have eq: "next_clear_from b i mx = next_clear_from b (Suc i) mx"
      using True by (subst next_clear_from.simps) simp
    have i: "i \<in> long_bits b" using True by (simp add: long_bits_def)
    have "{i..<next_clear_from b (Suc i) mx} = insert i {Suc i..<next_clear_from b (Suc i) mx}"
      using IH by auto
    then show ?thesis unfolding eq using IH i by simp
  next
    case False
    then have eq: "next_clear_from b i mx = i" using 1
      by (subst next_clear_from.simps) auto
    show ?thesis unfolding eq using False 1 by (auto simp: long_bits_def)
  qed
qed

lemma div_mod_eq_64: "i div 64 = j div 64 \<Longrightarrow> i mod 64 = j mod 64 \<Longrightarrow> i = (j::nat)"
  by (metis div_mult_mod_eq)

lemma long_bits_upd:
  assumes "i div 64 < length b"
  shows "long_bits (b[i div 64 := w]) =
    {j. j div 64 < length b \<and> (if j div 64 = i div 64 then bit w (j mod 64) else j \<in> long_bits b)}"
  using assms by (auto simp: long_bits_def nth_list_update split: if_splits)

lemma long_bits_set:
  assumes "i div 64 < length b"
  shows "long_bits (b[i div 64 := Bit_Operations.set_bit (i mod 64) (b ! (i div 64))]) = insert i (long_bits b)"
proof (rule set_eqI)
  fix j
  show "j \<in> long_bits (b[i div 64 := Bit_Operations.set_bit (i mod 64) (b ! (i div 64))]) \<longleftrightarrow>
      j \<in> insert i (long_bits b)"
    using assms div_mod_eq_64 [of j i]
    by (cases "j div 64 = i div 64"; cases "j = i") (simp_all add: long_bits_upd bit_simps, auto simp: long_bits_def)
qed

lemma long_bits_clear:
  assumes "i div 64 < length b"
  shows "long_bits (b[i div 64 := unset_bit (i mod 64) (b ! (i div 64))]) = long_bits b - {i}"
proof (rule set_eqI)
  fix j
  show "j \<in> long_bits (b[i div 64 := unset_bit (i mod 64) (b ! (i div 64))]) \<longleftrightarrow>
      j \<in> long_bits b - {i}"
    using assms div_mod_eq_64 [of j i]
    by (cases "j div 64 = i div 64"; cases "j = i") (simp_all add: long_bits_upd bit_simps, auto simp: long_bits_def)
qed

interpretation longs: metal_bitmap long_bitmap long_bits "64 * k" "\<lambda>b. length b = k"
  for k
proof unfold_locales
  fix b :: "u64 list" and i :: nat
  assume l: "length b = k" and i: "i < 64 * k"
  have d: "i div 64 < k" using i by (simp add: div_less_iff_less_mult mult.commute)
  show "length (set_bit_at long_bitmap b i) = k \<and>
      long_bits (set_bit_at long_bitmap b i) = insert i (long_bits b)"
    using l d by (simp add: long_bitmap_def long_bits_set long_bits_clear)
  show "length (clear_bit_at long_bitmap b i) = k \<and>
      long_bits (clear_bit_at long_bitmap b i) = long_bits b - {i}"
    using l d by (simp add: long_bitmap_def long_bits_set long_bits_clear)
  show "if i \<in> long_bits b then 0 < is_bit_set long_bitmap b i else is_bit_set long_bitmap b i = 0"
    using l d by (simp add: long_bitmap_def long_bits_def)
next
  fix b :: "u64 list" and s mx :: nat
  assume "length b = k" and "s \<le> mx" and "mx \<le> 64 * k"
  then show "s \<le> next_clear_bit long_bitmap b s mx \<and> next_clear_bit long_bitmap b s mx \<le> mx \<and>
      (next_clear_bit long_bitmap b s mx < mx \<longrightarrow> next_clear_bit long_bitmap b s mx \<notin> long_bits b) \<and>
      {s..<next_clear_bit long_bitmap b s mx} \<subseteq> long_bits b"
    using next_clear_from_spec [of s mx b] by (simp add: long_bitmap_def)
next
  fix b :: "u64 list"
  assume "length b = k"
  then show "long_bits b \<subseteq> {..<64 * k}"
    by (auto simp: long_bits_def div_less_iff_less_mult mult.commute)
qed

subsection \<open>Blocks of bytes\<close>

text \<open>\<open>n\<close> bytes of a block from an offset on.\<close>

definition sub_bytes :: "u8 list \<Rightarrow> nat \<Rightarrow> nat \<Rightarrow> u8 list cres" where
  "sub_bytes bs off n = (if off + n \<le> length bs then Inr (take n (drop off bs)) else Inl Out_of_bounds)"

text \<open>The error number of the C library.\<close>

definition EINVAL :: int where "EINVAL = 22"

subsection \<open>Mutexes\<close>

definition mutex_acquire :: "bool \<Rightarrow> bool cres" where
  "mutex_acquire held = (if held then Inl Hang else Inr True)"

lemma mutex_acquire_free [simp]: "mutex_acquire False = Inr True"
  by (simp add: mutex_acquire_def)

lemma mutex_acquire_held [simp]: "mutex_acquire True = Inl Hang"
  by (simp add: mutex_acquire_def)

subsection \<open>I/O regions\<close>

definition METAL_BAD_OFFSET :: u64 where "METAL_BAD_OFFSET = - 1"

record io_ops =
  io_virt_to_offset :: "ptr \<Rightarrow> ptr \<Rightarrow> u64"
  io_phys_to_offset :: "ptr \<Rightarrow> u64 \<Rightarrow> u64"
  io_virt_to_phys :: "ptr \<Rightarrow> ptr \<Rightarrow> u64"
  io_phys_to_virt :: "ptr \<Rightarrow> u64 \<Rightarrow> ptr"
  io_block_write :: "ptr \<Rightarrow> u64 \<Rightarrow> u8 list \<Rightarrow> int \<Rightarrow> mem \<Rightarrow> int \<times> mem"
  io_block_read :: "ptr \<Rightarrow> u64 \<Rightarrow> int \<Rightarrow> mem \<Rightarrow> int \<times> u8 list"
  io_block_set :: "ptr \<Rightarrow> u64 \<Rightarrow> u8 \<Rightarrow> int \<Rightarrow> mem \<Rightarrow> int \<times> mem"
  io_read8 :: "ptr \<Rightarrow> u64 \<Rightarrow> mem \<Rightarrow> u8"
  io_write8 :: "ptr \<Rightarrow> u64 \<Rightarrow> u8 \<Rightarrow> mem \<Rightarrow> mem"
  io_read32 :: "ptr \<Rightarrow> u64 \<Rightarrow> mem \<Rightarrow> u32"
  io_write32 :: "ptr \<Rightarrow> u64 \<Rightarrow> u32 \<Rightarrow> mem \<Rightarrow> mem"

text \<open>
  The region \<open>io\<close> maps \<open>size\<close> bytes at virtual address \<open>base\<close> and physical address \<open>phys\<close>. The laws
  speak only about accesses inside it.
\<close>

locale metal_region =
  fixes ops :: io_ops and io :: ptr and base :: ptr and phys :: u64 and sz :: nat
  assumes size_fits: "sz < 2 ^ 63"
    and virt_to_offset: "unat (va - base) < sz \<Longrightarrow> io_virt_to_offset ops io va = va - base"
    and virt_to_phys: "unat (va - base) < sz \<Longrightarrow> io_virt_to_phys ops io va = phys + (va - base)"
    and phys_to_virt: "unat (pa - phys) < sz \<Longrightarrow> io_phys_to_virt ops io pa = base + (pa - phys)"
    and phys_to_offset: "unat (pa - phys) < sz \<Longrightarrow> io_phys_to_offset ops io pa = pa - phys"
    and block_write: "unat off + length bs \<le> sz \<Longrightarrow>
      io_block_write ops io off bs (int (length bs)) m = (int (length bs), wr_bytes m (base + off) bs)"
    and block_read: "unat off + n \<le> sz \<Longrightarrow>
      io_block_read ops io off (int n) m = (int n, rd_bytes m (base + off) n)"
    and block_set: "unat off + n \<le> sz \<Longrightarrow>
      io_block_set ops io off b (int n) m = (int n, wr_bytes m (base + off) (replicate n b))"
    and read8: "unat off < sz \<Longrightarrow> io_read8 ops io off m = m (base + off)"
    and write8: "unat off < sz \<Longrightarrow> io_write8 ops io off b m = wr8 m (base + off) b"
    and read32: "unat off + 4 \<le> sz \<Longrightarrow> io_read32 ops io off m = rd32 m (base + off)"
    and write32: "unat off + 4 \<le> sz \<Longrightarrow> io_write32 ops io off w m = wr32 m (base + off) w"
begin

text \<open>An access through a pointer: translate it to an offset, then access the region.\<close>

lemma write_at:
  "unat (va - base) < sz \<Longrightarrow> unat (va - base) + length bs \<le> sz \<Longrightarrow>
   io_block_write ops io (io_virt_to_offset ops io va) bs (int (length bs)) m =
     (int (length bs), wr_bytes m va bs)"
  by (simp add: virt_to_offset block_write)

lemma read_at:
  "unat (va - base) < sz \<Longrightarrow> unat (va - base) + n \<le> sz \<Longrightarrow>
   io_block_read ops io (io_virt_to_offset ops io va) (int n) m = (int n, rd_bytes m va n)"
  by (simp add: virt_to_offset block_read)

lemma set_at:
  "unat (va - base) < sz \<Longrightarrow> unat (va - base) + n \<le> sz \<Longrightarrow>
   io_block_set ops io (io_virt_to_offset ops io va) b (int n) m = (int n, wr_bytes m va (replicate n b))"
  by (simp add: virt_to_offset block_set)

lemma virt_phys_virt:
  "unat (va - base) < sz \<Longrightarrow> io_phys_to_virt ops io (io_virt_to_phys ops io va) = va"
  by (simp add: virt_to_phys phys_to_virt)

end

text \<open>
  Directly mapped regions. \<open>reg io\<close> gives the base address, physical address and size of a region;
  an access past the end is cut off, one that starts past the end fails with \<open>-ERANGE\<close>.
\<close>

definition flat_len :: "nat \<Rightarrow> u64 \<Rightarrow> int \<Rightarrow> int" where
  "flat_len n off len = min len (int n - int (unat off))"

definition flat_io :: "(ptr \<Rightarrow> ptr \<times> u64 \<times> nat) \<Rightarrow> io_ops" where
  "flat_io reg =
     \<lparr>io_virt_to_offset = (\<lambda>io va. case reg io of (b, p, n) \<Rightarrow>
        if unat (va - b) < n then va - b else METAL_BAD_OFFSET),
      io_phys_to_offset = (\<lambda>io pa. case reg io of (b, p, n) \<Rightarrow>
        if unat (pa - p) < n then pa - p else METAL_BAD_OFFSET),
      io_virt_to_phys = (\<lambda>io va. case reg io of (b, p, n) \<Rightarrow>
        if unat (va - b) < n then p + (va - b) else - 1),
      io_phys_to_virt = (\<lambda>io pa. case reg io of (b, p, n) \<Rightarrow>
        if unat (pa - p) < n then b + (pa - p) else NULL),
      io_block_write = (\<lambda>io off bs len m. case reg io of (b, p, n) \<Rightarrow>
        if n < unat off then (- 34, m)
        else (flat_len n off len, wr_bytes m (b + off) (take (nat (flat_len n off len)) bs))),
      io_block_read = (\<lambda>io off len m. case reg io of (b, p, n) \<Rightarrow>
        if n < unat off then (- 34, [])
        else (flat_len n off len, rd_bytes m (b + off) (nat (flat_len n off len)))),
      io_block_set = (\<lambda>io off v len m. case reg io of (b, p, n) \<Rightarrow>
        if n < unat off then (- 34, m)
        else (flat_len n off len, wr_bytes m (b + off) (replicate (nat (flat_len n off len)) v))),
      io_read8 = (\<lambda>io off m. case reg io of (b, p, n) \<Rightarrow> m (b + off)),
      io_write8 = (\<lambda>io off v m. case reg io of (b, p, n) \<Rightarrow> wr8 m (b + off) v),
      io_read32 = (\<lambda>io off m. case reg io of (b, p, n) \<Rightarrow> rd32 m (b + off)),
      io_write32 = (\<lambda>io off v m. case reg io of (b, p, n) \<Rightarrow> wr32 m (b + off) v)\<rparr>"

lemma flat_len_in: "unat off + k \<le> n \<Longrightarrow> flat_len n off (int k) = int k"
  unfolding flat_len_def by (rule min_absorb1) linarith

text \<open>The region of \<open>n\<close> bytes at \<open>b\<close> that a platform registers, with physical address \<open>p\<close>.\<close>

definition flat_region :: "ptr \<Rightarrow> u64 \<Rightarrow> 31 word \<Rightarrow> io_ops" where
  "flat_region b p n = flat_io (\<lambda>io. (b, p, unat n))"

lemma flat_io_region:
  assumes "reg io = (b, p, n)" and "k \<le> n" and "k < 2 ^ 63"
  shows "metal_region (flat_io reg) io b p k"
proof
  show "k < 2 ^ 63" by (rule assms)
qed (use assms(1,2) in \<open>auto simp: flat_io_def flat_len_in\<close>)

interpretation flat: metal_region "flat_region b p n" io b p "unat n"
  for b p io n
  unfolding flat_region_def using unsigned_less [of n, where 'a = nat]
  by (intro flat_io_region [of "\<lambda>io. (b, p, unat n)" io b p "unat n" "unat n"]) simp_all

end
