(* ===== verification/Rpmsg.thy ===== *)
theory Rpmsg
  imports Metal
begin

text \<open>
  Endpoints and addresses: \<open>lib/rpmsg/rpmsg.c\<close>, \<open>lib/rpmsg/rpmsg_internal.h\<close> and the inline
  functions of \<open>lib/include/openamp/rpmsg.h\<close>, one definition per function.

  The state \<open>rpmsg_state\<close> holds the device, the endpoints that its list of endpoint pointers refers
  to, and the addresses of the two. A transport extends the record with its own fields. The
  transport's \<open>ops.send_offchannel_raw\<close> is the parameter \<open>send\<close>; the locale \<open>rpmsg_transport\<close> states
  what endpoint management relies on: sending leaves the device and the endpoints alone. The bitmap
  functions of libmetal are the parameter \<open>bo\<close>.

  A C string argument is its bytes up to, not including, the terminating zero; NULL is \<open>None\<close>. The
  name field of an endpoint is an array of \<open>RPMSG_NAME_SIZE\<close> bytes.
\<close>

subsection \<open>Constants\<close>

definition RPMSG_NAME_SIZE :: nat where "RPMSG_NAME_SIZE = 32"
definition RPMSG_ADDR_BMP_SIZE :: nat where "RPMSG_ADDR_BMP_SIZE = 128"
definition RPMSG_NS_EPT_ADDR :: u32 where "RPMSG_NS_EPT_ADDR = 0x35"
definition RPMSG_RESERVED_ADDRESSES :: u32 where "RPMSG_RESERVED_ADDRESSES = 1024"
definition RPMSG_ADDR_ANY :: u32 where "RPMSG_ADDR_ANY = 0xFFFFFFFF"

definition RPMSG_SUCCESS :: int where "RPMSG_SUCCESS = 0"
definition RPMSG_ERR_NO_MEM :: int where "RPMSG_ERR_NO_MEM = -2001"
definition RPMSG_ERR_NO_BUFF :: int where "RPMSG_ERR_NO_BUFF = -2002"
definition RPMSG_ERR_PARAM :: int where "RPMSG_ERR_PARAM = -2003"
definition RPMSG_ERR_DEV_STATE :: int where "RPMSG_ERR_DEV_STATE = -2004"
definition RPMSG_ERR_BUFF_SIZE :: int where "RPMSG_ERR_BUFF_SIZE = -2005"
definition RPMSG_ERR_INIT :: int where "RPMSG_ERR_INIT = -2006"
definition RPMSG_ERR_ADDR :: int where "RPMSG_ERR_ADDR = -2007"

definition RPMSG_NS_CREATE :: u32 where "RPMSG_NS_CREATE = 0"
definition RPMSG_NS_DESTROY :: u32 where "RPMSG_NS_DESTROY = 1"

lemmas rpmsg_const_defs = RPMSG_NAME_SIZE_def RPMSG_ADDR_BMP_SIZE_def RPMSG_NS_EPT_ADDR_def
  RPMSG_RESERVED_ADDRESSES_def RPMSG_ADDR_ANY_def RPMSG_NS_CREATE_def RPMSG_NS_DESTROY_def

lemmas rpmsg_status_defs = RPMSG_SUCCESS_def RPMSG_ERR_NO_MEM_def RPMSG_ERR_NO_BUFF_def
  RPMSG_ERR_PARAM_def RPMSG_ERR_DEV_STATE_def RPMSG_ERR_BUFF_SIZE_def RPMSG_ERR_INIT_def
  RPMSG_ERR_ADDR_def

subsection \<open>State\<close>

record rpmsg_endpoint =
  ep_name :: "u8 list"
  ep_rdev :: ptr
  ep_addr :: u32
  ep_dest_addr :: u32
  ep_cb :: ptr
  ep_ns_unbind_cb :: ptr
  ep_priv :: ptr

record 'b rpmsg_device =
  endpoints :: "ptr list"
  ns_ept :: ptr
  bitmap :: 'b
  lock :: bool
  ns_bind_cb :: ptr
  send_offchannel_raw :: ptr
  support_ns :: bool

record 'b rpmsg_state =
  self :: ptr
  rdev :: "'b rpmsg_device"
  epts :: "ptr \<Rightarrow> rpmsg_endpoint option"

record rpmsg_hdr =
  hdr_src :: u32
  hdr_dst :: u32
  hdr_reserved :: u32
  hdr_len :: u16
  hdr_flags :: u16

record rpmsg_ns_msg =
  ns_name :: "u8 list"
  ns_addr :: u32
  ns_flags :: u32

text \<open>Both structures are packed.\<close>

definition hdr_bytes :: "rpmsg_hdr \<Rightarrow> u8 list" where
  "hdr_bytes h = le_bytes 4 (hdr_src h) @ le_bytes 4 (hdr_dst h) @ le_bytes 4 (hdr_reserved h) @
     le_bytes 2 (hdr_len h) @ le_bytes 2 (hdr_flags h)"

definition ns_msg_bytes :: "rpmsg_ns_msg \<Rightarrow> u8 list" where
  "ns_msg_bytes g = ns_name g @ le_bytes 4 (ns_addr g) @ le_bytes 4 (ns_flags g)"

definition get_ept :: "('b, 'x) rpmsg_state_scheme \<Rightarrow> ptr \<Rightarrow> rpmsg_endpoint cres" where
  "get_ept st p = (case epts st p of None \<Rightarrow> Inl Null_deref | Some e \<Rightarrow> Inr e)"

definition put_ept :: "('b, 'x) rpmsg_state_scheme \<Rightarrow> ptr \<Rightarrow> rpmsg_endpoint \<Rightarrow> ('b, 'x) rpmsg_state_scheme" where
  "put_ept st p e = st\<lparr>epts := (epts st)(p \<mapsto> e)\<rparr>"

definition lock_dev :: "('b, 'x) rpmsg_state_scheme \<Rightarrow> ('b, 'x) rpmsg_state_scheme cres" where
  "lock_dev st = cbind (mutex_acquire (lock (rdev st))) (\<lambda>b. Inr (st\<lparr>rdev := (rdev st)\<lparr>lock := b\<rparr>\<rparr>))"

definition unlock_dev :: "('b, 'x) rpmsg_state_scheme \<Rightarrow> ('b, 'x) rpmsg_state_scheme" where
  "unlock_dev st = st\<lparr>rdev := (rdev st)\<lparr>lock := False\<rparr>\<rparr>"

subsection \<open>Addresses\<close>

definition rpmsg_get_address :: "'b bitmap_ops \<Rightarrow> 'b \<Rightarrow> nat \<Rightarrow> u32 \<times> 'b" where
  "rpmsg_get_address bo bm sz =
     (let nextbit = next_clear_bit bo bm 0 sz
      in if nextbit < sz
         then (RPMSG_RESERVED_ADDRESSES + of_nat nextbit, set_bit_at bo bm nextbit)
         else (RPMSG_ADDR_ANY, bm))"

definition rpmsg_release_address :: "'b bitmap_ops \<Rightarrow> 'b \<Rightarrow> nat \<Rightarrow> u32 \<Rightarrow> 'b" where
  "rpmsg_release_address bo bm sz addr =
     (let a = sint addr - sint RPMSG_RESERVED_ADDRESSES
      in if 0 \<le> a \<and> a < int sz then clear_bit_at bo bm (nat a) else bm)"

definition rpmsg_is_address_set :: "'b bitmap_ops \<Rightarrow> 'b \<Rightarrow> nat \<Rightarrow> u32 \<Rightarrow> int" where
  "rpmsg_is_address_set bo bm sz addr =
     (let a = sint addr - sint RPMSG_RESERVED_ADDRESSES
      in if 0 \<le> a \<and> a < int sz then is_bit_set bo bm (nat a) else RPMSG_ERR_PARAM)"

definition rpmsg_set_address :: "'b bitmap_ops \<Rightarrow> 'b \<Rightarrow> nat \<Rightarrow> u32 \<Rightarrow> int \<times> 'b" where
  "rpmsg_set_address bo bm sz addr =
     (let a = sint addr - sint RPMSG_RESERVED_ADDRESSES
      in if 0 \<le> a \<and> a < int sz then (RPMSG_SUCCESS, set_bit_at bo bm (nat a))
         else (RPMSG_ERR_PARAM, bm))"

subsection \<open>Sending\<close>

type_synonym ('b, 'x) rpmsg_sender =
  "u32 \<Rightarrow> u32 \<Rightarrow> u8 list \<Rightarrow> int \<Rightarrow> bool \<Rightarrow> ('b, 'x) rpmsg_state_scheme \<Rightarrow>
   (int \<times> ('b, 'x) rpmsg_state_scheme) cres"

definition rpmsg_send_offchannel_raw ::
  "('b, 'x) rpmsg_sender \<Rightarrow> ptr \<Rightarrow> u32 \<Rightarrow> u32 \<Rightarrow> u8 list option \<Rightarrow> int \<Rightarrow> bool \<Rightarrow>
   ('b, 'x) rpmsg_state_scheme \<Rightarrow> (int \<times> ('b, 'x) rpmsg_state_scheme) cres" where
  "rpmsg_send_offchannel_raw send ept src dst data sz wait st =
     (if ept = NULL then Inr (RPMSG_ERR_PARAM, st)
      else cbind (get_ept st ept) (\<lambda>e.
        if ep_rdev e = NULL \<or> dst = RPMSG_ADDR_ANY then Inr (RPMSG_ERR_PARAM, st)
        else case data of
          None \<Rightarrow> Inr (RPMSG_ERR_PARAM, st)
        | Some d \<Rightarrow>
            if send_offchannel_raw (rdev st) \<noteq> NULL then send src dst d sz wait st
            else Inr (RPMSG_ERR_PARAM, st)))"

definition rpmsg_send :: "('b, 'x) rpmsg_sender \<Rightarrow> ptr \<Rightarrow> u8 list option \<Rightarrow> int \<Rightarrow>
  ('b, 'x) rpmsg_state_scheme \<Rightarrow> (int \<times> ('b, 'x) rpmsg_state_scheme) cres" where
  "rpmsg_send send ept data len st = cbind (get_ept st ept) (\<lambda>e.
     rpmsg_send_offchannel_raw send ept (ep_addr e) (ep_dest_addr e) data len True st)"

definition rpmsg_sendto :: "('b, 'x) rpmsg_sender \<Rightarrow> ptr \<Rightarrow> u8 list option \<Rightarrow> int \<Rightarrow> u32 \<Rightarrow>
  ('b, 'x) rpmsg_state_scheme \<Rightarrow> (int \<times> ('b, 'x) rpmsg_state_scheme) cres" where
  "rpmsg_sendto send ept data len dst st = cbind (get_ept st ept) (\<lambda>e.
     rpmsg_send_offchannel_raw send ept (ep_addr e) dst data len True st)"

definition rpmsg_send_offchannel :: "('b, 'x) rpmsg_sender \<Rightarrow> ptr \<Rightarrow> u32 \<Rightarrow> u32 \<Rightarrow> u8 list option \<Rightarrow>
  int \<Rightarrow> ('b, 'x) rpmsg_state_scheme \<Rightarrow> (int \<times> ('b, 'x) rpmsg_state_scheme) cres" where
  "rpmsg_send_offchannel send ept src dst data len st =
     rpmsg_send_offchannel_raw send ept src dst data len True st"

definition rpmsg_trysend :: "('b, 'x) rpmsg_sender \<Rightarrow> ptr \<Rightarrow> u8 list option \<Rightarrow> int \<Rightarrow>
  ('b, 'x) rpmsg_state_scheme \<Rightarrow> (int \<times> ('b, 'x) rpmsg_state_scheme) cres" where
  "rpmsg_trysend send ept data len st = cbind (get_ept st ept) (\<lambda>e.
     rpmsg_send_offchannel_raw send ept (ep_addr e) (ep_dest_addr e) data len False st)"

definition rpmsg_trysendto :: "('b, 'x) rpmsg_sender \<Rightarrow> ptr \<Rightarrow> u8 list option \<Rightarrow> int \<Rightarrow> u32 \<Rightarrow>
  ('b, 'x) rpmsg_state_scheme \<Rightarrow> (int \<times> ('b, 'x) rpmsg_state_scheme) cres" where
  "rpmsg_trysendto send ept data len dst st = cbind (get_ept st ept) (\<lambda>e.
     rpmsg_send_offchannel_raw send ept (ep_addr e) dst data len False st)"

definition rpmsg_trysend_offchannel :: "('b, 'x) rpmsg_sender \<Rightarrow> ptr \<Rightarrow> u32 \<Rightarrow> u32 \<Rightarrow> u8 list option \<Rightarrow>
  int \<Rightarrow> ('b, 'x) rpmsg_state_scheme \<Rightarrow> (int \<times> ('b, 'x) rpmsg_state_scheme) cres" where
  "rpmsg_trysend_offchannel send ept src dst data len st =
     rpmsg_send_offchannel_raw send ept src dst data len False st"

definition rpmsg_send_ns_message :: "('b, 'x) rpmsg_sender \<Rightarrow> ptr \<Rightarrow> u32 \<Rightarrow>
  ('b, 'x) rpmsg_state_scheme \<Rightarrow> (int \<times> ('b, 'x) rpmsg_state_scheme) cres" where
  "rpmsg_send_ns_message send ept flags st = cbind (get_ept st ept) (\<lambda>e.
     let ns_msg = \<lparr>ns_name = strncpy (ep_name e) RPMSG_NAME_SIZE, ns_addr = ep_addr e, ns_flags = flags\<rparr>;
         bs = ns_msg_bytes ns_msg in
     cbind (rpmsg_send_offchannel_raw send ept (ep_addr e) RPMSG_NS_EPT_ADDR (Some bs)
              (int (length bs)) True st) (\<lambda>(ret, st').
       if ret < 0 then Inr (ret, st') else Inr (RPMSG_SUCCESS, st')))"

subsection \<open>Endpoints\<close>

definition rpmsg_initialize_ept ::
  "rpmsg_endpoint \<Rightarrow> u8 list option \<Rightarrow> u32 \<Rightarrow> u32 \<Rightarrow> ptr \<Rightarrow> ptr \<Rightarrow> rpmsg_endpoint" where
  "rpmsg_initialize_ept e name src dest cb ns_unbind_cb =
     e\<lparr>ep_name := strncpy (case name of None \<Rightarrow> [] | Some s \<Rightarrow> s) RPMSG_NAME_SIZE,
       ep_addr := src, ep_dest_addr := dest, ep_cb := cb, ep_ns_unbind_cb := ns_unbind_cb\<rparr>"

definition rpmsg_init_ept ::
  "rpmsg_endpoint \<Rightarrow> u8 list option \<Rightarrow> u32 \<Rightarrow> u32 \<Rightarrow> ptr \<Rightarrow> ptr \<Rightarrow> rpmsg_endpoint" where
  "rpmsg_init_ept e name src dest cb ns_unbind_cb =
     e\<lparr>ep_name := strncpy (case name of None \<Rightarrow> [] | Some s \<Rightarrow> s) RPMSG_NAME_SIZE,
       ep_addr := src, ep_dest_addr := dest, ep_cb := cb, ep_ns_unbind_cb := ns_unbind_cb\<rparr>"

definition is_rpmsg_ept_ready :: "('b, 'x) rpmsg_state_scheme \<Rightarrow> ptr \<Rightarrow> bool cres" where
  "is_rpmsg_ept_ready st ept =
     (if ept = NULL then Inr False
      else cbind (get_ept st ept) (\<lambda>e. Inr (ep_rdev e \<noteq> NULL \<and> ep_dest_addr e \<noteq> RPMSG_ADDR_ANY)))"

text \<open>The test that the loop of \<open>rpmsg_get_endpoint\<close> makes on each endpoint.\<close>

definition ept_matches :: "u8 list option \<Rightarrow> u32 \<Rightarrow> u32 \<Rightarrow> rpmsg_endpoint \<Rightarrow> bool" where
  "ept_matches name addr dest_addr e \<longleftrightarrow>
     (if addr \<noteq> RPMSG_ADDR_ANY \<and> ep_addr e = addr then True
      else if addr = ep_addr e \<and> dest_addr = ep_dest_addr e then True
      else case name of
        None \<Rightarrow> False
      | Some s \<Rightarrow>
          if \<not> strncmp_eq (ep_name e) s RPMSG_NAME_SIZE then False
          else if dest_addr \<noteq> RPMSG_ADDR_ANY \<and> ep_dest_addr e = dest_addr then True
          else addr = RPMSG_ADDR_ANY \<and> ep_dest_addr e = RPMSG_ADDR_ANY)"

fun rpmsg_get_endpoint_loop ::
  "('b, 'x) rpmsg_state_scheme \<Rightarrow> u8 list option \<Rightarrow> u32 \<Rightarrow> u32 \<Rightarrow> ptr list \<Rightarrow> ptr cres" where
  "rpmsg_get_endpoint_loop st name addr dest_addr [] = Inr NULL"
| "rpmsg_get_endpoint_loop st name addr dest_addr (p # ps) =
     cbind (get_ept st p) (\<lambda>e.
       if ept_matches name addr dest_addr e then Inr p
       else rpmsg_get_endpoint_loop st name addr dest_addr ps)"

definition rpmsg_get_endpoint ::
  "('b, 'x) rpmsg_state_scheme \<Rightarrow> u8 list option \<Rightarrow> u32 \<Rightarrow> u32 \<Rightarrow> ptr cres" where
  "rpmsg_get_endpoint st name addr dest_addr =
     rpmsg_get_endpoint_loop st name addr dest_addr (endpoints (rdev st))"

definition rpmsg_get_ept_from_addr :: "('b, 'x) rpmsg_state_scheme \<Rightarrow> u32 \<Rightarrow> ptr cres" where
  "rpmsg_get_ept_from_addr st addr = rpmsg_get_endpoint st None addr RPMSG_ADDR_ANY"

definition rpmsg_unregister_endpoint ::
  "'b bitmap_ops \<Rightarrow> ptr \<Rightarrow> ('b, 'x) rpmsg_state_scheme \<Rightarrow> ('b, 'x) rpmsg_state_scheme cres" where
  "rpmsg_unregister_endpoint bo ept st = cbind (get_ept st ept) (\<lambda>e.
     if ep_rdev e = NULL then Inl Null_deref
     else cbind (lock_dev st) (\<lambda>st1.
       let d = rdev st1;
           bm = (if ep_addr e \<noteq> RPMSG_ADDR_ANY
                 then rpmsg_release_address bo (bitmap d) RPMSG_ADDR_BMP_SIZE (ep_addr e) else bitmap d);
           st2 = st1\<lparr>rdev := d\<lparr>bitmap := bm, endpoints := remove1 ept (endpoints d)\<rparr>\<rparr>
       in Inr (unlock_dev (put_ept st2 ept (e\<lparr>ep_rdev := NULL\<rparr>)))))"

definition rpmsg_register_endpoint ::
  "ptr \<Rightarrow> ('b, 'x) rpmsg_state_scheme \<Rightarrow> ('b, 'x) rpmsg_state_scheme cres" where
  "rpmsg_register_endpoint ept st = cbind (get_ept st ept) (\<lambda>e.
     Inr ((put_ept st ept (e\<lparr>ep_rdev := self st\<rparr>))
            \<lparr>rdev := (rdev st)\<lparr>endpoints := endpoints (rdev st) @ [ept]\<rparr>\<rparr>))"

text \<open>
  The first part of \<open>rpmsg_create_ept\<close>, under the lock: find the address. The result is the status,
  and whether the code goes on (\<open>Some addr\<close>) or jumps to \<open>ret_status\<close> (\<open>None\<close>).
\<close>

definition rpmsg_create_addr :: "'b bitmap_ops \<Rightarrow> 'b \<Rightarrow> u32 \<Rightarrow> int \<times> u32 option \<times> 'b" where
  "rpmsg_create_addr bo bm src =
     (if src = RPMSG_ADDR_ANY then
        let (addr, bm') = rpmsg_get_address bo bm RPMSG_ADDR_BMP_SIZE
        in if addr = RPMSG_ADDR_ANY then (RPMSG_ERR_ADDR, None, bm') else (RPMSG_SUCCESS, Some addr, bm')
      else if RPMSG_RESERVED_ADDRESSES \<le> src then
        let status = rpmsg_is_address_set bo bm RPMSG_ADDR_BMP_SIZE src
        in if status = 0 then (status, Some src, snd (rpmsg_set_address bo bm RPMSG_ADDR_BMP_SIZE src))
           else if 0 < status then (RPMSG_ERR_ADDR, None, bm)
           else (status, None, bm)
      else (RPMSG_SUCCESS, Some src, bm))"

definition rpmsg_create_ept ::
  "'b bitmap_ops \<Rightarrow> ('b, 'x) rpmsg_sender \<Rightarrow> ptr \<Rightarrow> u8 list option \<Rightarrow> u32 \<Rightarrow> u32 \<Rightarrow> ptr \<Rightarrow> ptr \<Rightarrow>
   ('b, 'x) rpmsg_state_scheme \<Rightarrow> (int \<times> ('b, 'x) rpmsg_state_scheme) cres" where
  "rpmsg_create_ept bo send ept name src dest cb unbind_cb st =
     (if ept = NULL then Inr (RPMSG_ERR_PARAM, st)
      else cbind (lock_dev st) (\<lambda>st1.
        case rpmsg_create_addr bo (bitmap (rdev st1)) src of
          (status, None, bm) \<Rightarrow> Inr (status, unlock_dev (st1\<lparr>rdev := (rdev st1)\<lparr>bitmap := bm\<rparr>\<rparr>))
        | (status, Some addr, bm) \<Rightarrow>
            let st2 = st1\<lparr>rdev := (rdev st1)\<lparr>bitmap := bm\<rparr>\<rparr> in
            cbind (get_ept st2 ept) (\<lambda>e.
            let e' = rpmsg_initialize_ept e name addr dest cb unbind_cb in
            cbind (rpmsg_register_endpoint ept (put_ept st2 ept e')) (\<lambda>st3.
            let st4 = unlock_dev st3 in
            cbind (if ep_name e' ! 0 \<noteq> 0 \<and> support_ns (rdev st4) \<and> ep_dest_addr e' = RPMSG_ADDR_ANY
                   then rpmsg_send_ns_message send ept RPMSG_NS_CREATE st4
                   else Inr (status, st4)) (\<lambda>(status', st5).
              if status' \<noteq> 0
              then cbind (rpmsg_unregister_endpoint bo ept st5) (\<lambda>st6. Inr (status', st6))
              else Inr (status', st5))))))"

definition rpmsg_destroy_ept ::
  "'b bitmap_ops \<Rightarrow> ('b, 'x) rpmsg_sender \<Rightarrow> ptr \<Rightarrow> ('b, 'x) rpmsg_state_scheme \<Rightarrow>
   ('b, 'x) rpmsg_state_scheme cres" where
  "rpmsg_destroy_ept bo send ept st =
     (if ept = NULL then Inr st
      else cbind (get_ept st ept) (\<lambda>e.
        if ep_rdev e = NULL then Inr st
        else cbind (if ep_name e ! 0 \<noteq> 0 \<and> support_ns (rdev st) \<and> RPMSG_RESERVED_ADDRESSES \<le> ep_addr e
                    then cbind (rpmsg_send_ns_message send ept RPMSG_NS_DESTROY st) (\<lambda>(r, st'). Inr st')
                    else Inr st) (\<lambda>st1. rpmsg_unregister_endpoint bo ept st1)))"

end
