(* ===== verification/Retarget.thy ===== *)
theory Retarget
  imports Rpmsg
begin

text \<open>
  The proxy: \<open>lib/proxy/rpmsg_retarget.c\<close> and \<open>lib/include/openamp/rpmsg_retarget.h\<close>, which turn the file
  operations of the C library into requests to the other processor, one definition per function.

  The world holds the rpmsg state, the proxies by their address, the default proxy and the private
  memory of the processor. The endpoint of a proxy is its first member and has the same address. What
  is not in the file is the parameter record \<open>rpc_env\<close>: the bitmap functions and the transport, the
  poll function and the shutdown callback of the application, and what interrupt handlers do
  between two tests of a waiting loop; the number of the test is an argument. A waiting loop runs on fuel
  and hangs without it. The addresses of local buffers on the stack are arguments.
\<close>

subsection \<open>Messages\<close>

definition OPEN_SYSCALL_ID :: u32 where "OPEN_SYSCALL_ID = 1"
definition CLOSE_SYSCALL_ID :: u32 where "CLOSE_SYSCALL_ID = 2"
definition WRITE_SYSCALL_ID :: u32 where "WRITE_SYSCALL_ID = 3"
definition READ_SYSCALL_ID :: u32 where "READ_SYSCALL_ID = 4"
definition TERM_SYSCALL_ID :: u32 where "TERM_SYSCALL_ID = 6"
definition MAX_BUF_LEN :: nat where "MAX_BUF_LEN = 496"
definition SYSCALL_SIZE :: nat where "SYSCALL_SIZE = 16"

lemmas syscall_id_defs = OPEN_SYSCALL_ID_def CLOSE_SYSCALL_ID_def WRITE_SYSCALL_ID_def READ_SYSCALL_ID_def
  TERM_SYSCALL_ID_def

lemmas rpc_size_defs = MAX_BUF_LEN_def SYSCALL_SIZE_def

record rpmsg_rpc_syscall =
  sc_id :: u32
  int_field1 :: u32
  int_field2 :: u32
  data_len :: u32

definition syscall_bytes :: "rpmsg_rpc_syscall \<Rightarrow> u8 list" where
  "syscall_bytes c = le_bytes 4 (sc_id c) @ le_bytes 4 (int_field1 c) @ le_bytes 4 (int_field2 c) @ le_bytes 4 (data_len c)"

subsection \<open>State\<close>

record rpmsg_rpc_data =
  rc_ept_destroyed :: bool
  rc_nacked :: bool
  rc_respbuf :: ptr
  rc_respbuf_len :: u64
  rc_poll :: ptr
  rc_poll_arg :: ptr
  rc_shutdown_cb :: ptr
  rc_lock :: bool
  rc_lock_live :: bool
  rc_buflock :: bool

record 's rpc_world =
  rw_rpmsg :: 's
  rw_rpcs :: "ptr \<Rightarrow> rpmsg_rpc_data option"
  rw_default :: ptr
  rw_mem :: mem

record ('b, 's) rpc_env =
  re_bitmap :: "'b bitmap_ops"
  re_send :: "u32 \<Rightarrow> u32 \<Rightarrow> u8 list \<Rightarrow> int \<Rightarrow> bool \<Rightarrow> 's \<Rightarrow> (int \<times> 's) cres"
  re_poll :: "nat \<Rightarrow> ptr \<Rightarrow> ptr \<Rightarrow> 's rpc_world \<Rightarrow> 's rpc_world cres"
  re_other :: "nat \<Rightarrow> 's rpc_world \<Rightarrow> 's rpc_world cres"
  re_shutdown :: "ptr \<Rightarrow> ptr \<Rightarrow> 's rpc_world \<Rightarrow> 's rpc_world cres"

type_synonym ('b, 'x) rpc_w = "('b, 'x) rpmsg_state_scheme rpc_world"
type_synonym ('b, 'x) rpc_e = "('b, ('b, 'x) rpmsg_state_scheme) rpc_env"

definition RPC_EPT_CB :: ptr where "RPC_EPT_CB = 0x300"
definition RPC_UNBIND :: ptr where "RPC_UNBIND = 0x310"

definition get_rpc :: "'s rpc_world \<Rightarrow> ptr \<Rightarrow> rpmsg_rpc_data cres" where
  "get_rpc w p = (case rw_rpcs w p of None \<Rightarrow> Inl Null_deref | Some d \<Rightarrow> Inr d)"

definition put_rpc :: "ptr \<Rightarrow> rpmsg_rpc_data \<Rightarrow> 's rpc_world \<Rightarrow> 's rpc_world" where
  "put_rpc p d w = w\<lparr>rw_rpcs := (rw_rpcs w)(p \<mapsto> d)\<rparr>"

lemma get_put_rpc [simp]: "get_rpc (put_rpc p d w) p = Inr d"
  by (simp add: get_rpc_def put_rpc_def)

lemma put_rpc_sel [simp]:
  "rw_rpmsg (put_rpc p d w) = rw_rpmsg w" "rw_default (put_rpc p d w) = rw_default w" "rw_mem (put_rpc p d w) = rw_mem w"
  "rw_rpcs (put_rpc p d w) = (rw_rpcs w)(p \<mapsto> d)"
  by (simp_all add: put_rpc_def)

subsection \<open>Callbacks\<close>

text \<open>\<open>data\<close> is the receive buffer from the payload on, of which \<open>len\<close> bytes are the message.\<close>

definition rpmsg_rpc_ept_cb ::
  "('b, 'x) rpc_e \<Rightarrow> ptr \<Rightarrow> u8 list option \<Rightarrow> u64 \<Rightarrow> ('b, 'x) rpc_w \<Rightarrow> (int \<times> ('b, 'x) rpc_w) cres" where
  "rpmsg_rpc_ept_cb env ept data len w =
     (case data of None \<Rightarrow> Inr (RPMSG_SUCCESS, w)
      | Some d \<Rightarrow>
          if ept = NULL then Inr (RPMSG_SUCCESS, w)
          else cbind (sub_bytes d 0 4) (\<lambda>id.
            if le_word id = TERM_SYSCALL_ID then
              cbind (rpmsg_destroy_ept (re_bitmap env) (re_send env) ept (rw_rpmsg w)) (\<lambda>s.
              Inr (RPMSG_SUCCESS, w\<lparr>rw_rpmsg := s\<rparr>))
            else
              cbind (get_rpc w ept) (\<lambda>rpc.
              cbind (mutex_acquire (rc_buflock rpc)) (\<lambda>_.
              cbind (if rc_respbuf rpc \<noteq> NULL \<and> rc_respbuf_len rpc \<noteq> 0 then
                       cbind (sub_bytes d 0 (unat (if rc_respbuf_len rpc < len then rc_respbuf_len rpc else len))) (\<lambda>bs.
                       Inr (wr_bytes (rw_mem w) (rc_respbuf rpc) bs))
                     else Inr (rw_mem w)) (\<lambda>m.
              Inr (RPMSG_SUCCESS, put_rpc ept (rpc\<lparr>rc_nacked := False, rc_buflock := False\<rparr>) (w\<lparr>rw_mem := m\<rparr>)))))))"

definition rpmsg_service_unbind :: "('b, 'x) rpc_e \<Rightarrow> ptr \<Rightarrow> ('b, 'x) rpc_w \<Rightarrow> ('b, 'x) rpc_w cres" where
  "rpmsg_service_unbind env ept w =
     cbind (get_rpc w ept) (\<lambda>rpc.
     let w1 = put_rpc ept (rpc\<lparr>rc_ept_destroyed := True\<rparr>) w in
     cbind (rpmsg_destroy_ept (re_bitmap env) (re_send env) ept (rw_rpmsg w1)) (\<lambda>s.
     let w2 = put_rpc ept (rpc\<lparr>rc_ept_destroyed := True, rc_nacked := False\<rparr>) (w1\<lparr>rw_rpmsg := s\<rparr>) in
     if rc_shutdown_cb rpc \<noteq> NULL then re_shutdown env (rc_shutdown_cb rpc) ept w2 else Inr w2))"

subsection \<open>Set-up and requests\<close>

text \<open>The body of both waiting loops, and the loops themselves.\<close>

definition rpc_poll_once :: "('b, 'x) rpc_e \<Rightarrow> ptr \<Rightarrow> nat \<Rightarrow> ('b, 'x) rpc_w \<Rightarrow> ('b, 'x) rpc_w cres" where
  "rpc_poll_once env rpc i w =
     cbind (get_rpc w rpc) (\<lambda>d.
     cbind (if rc_poll d \<noteq> NULL then re_poll env i (rc_poll d) (rc_poll_arg d) w else Inr w) (re_other env i))"

fun rpc_wait_ready :: "nat \<Rightarrow> ('b, 'x) rpc_e \<Rightarrow> ptr \<Rightarrow> nat \<Rightarrow> ('b, 'x) rpc_w \<Rightarrow> ('b, 'x) rpc_w cres" where
  "rpc_wait_ready 0 env rpc i w = Inl Hang"
| "rpc_wait_ready (Suc fuel) env rpc i w =
     cbind (is_rpmsg_ept_ready (rw_rpmsg w) rpc) (\<lambda>ready.
     if ready then Inr w else cbind (rpc_poll_once env rpc i w) (rpc_wait_ready fuel env rpc (Suc i)))"

fun rpc_wait_ack :: "nat \<Rightarrow> ('b, 'x) rpc_e \<Rightarrow> ptr \<Rightarrow> nat \<Rightarrow> ('b, 'x) rpc_w \<Rightarrow> ('b, 'x) rpc_w cres" where
  "rpc_wait_ack 0 env rpc i w = Inl Hang"
| "rpc_wait_ack (Suc fuel) env rpc i w =
     cbind (get_rpc w rpc) (\<lambda>d.
     let w1 = put_rpc rpc (d\<lparr>rc_nacked := True\<rparr>) w in
     if rc_nacked d then cbind (rpc_poll_once env rpc i w1) (rpc_wait_ack fuel env rpc (Suc i)) else Inr w1)"

definition rpmsg_rpc_init ::
  "nat \<Rightarrow> ('b, 'x) rpc_e \<Rightarrow> ptr \<Rightarrow> ptr \<Rightarrow> u8 list option \<Rightarrow> u32 \<Rightarrow> u32 \<Rightarrow> ptr \<Rightarrow> ptr \<Rightarrow> ptr \<Rightarrow> ('b, 'x) rpc_w \<Rightarrow>
   (int \<times> ('b, 'x) rpc_w) cres" where
  "rpmsg_rpc_init fuel env rpc dev ept_name ept_addr ept_raddr poll_arg poll shutdown_cb w =
     (if rpc = NULL \<or> dev = NULL then Inr (- EINVAL, w)
      else cbind (get_rpc w rpc) (\<lambda>d.
        let d1 = d\<lparr>rc_buflock := False, rc_lock := False, rc_lock_live := True, rc_shutdown_cb := shutdown_cb,
                   rc_poll_arg := poll_arg, rc_poll := poll, rc_ept_destroyed := False, rc_respbuf := NULL,
                   rc_respbuf_len := 0, rc_nacked := True\<rparr> in
        cbind (rpmsg_create_ept (re_bitmap env) (re_send env) rpc ept_name ept_addr ept_raddr RPC_EPT_CB RPC_UNBIND
                 (rw_rpmsg w)) (\<lambda>(ret, s).
        let w1 = put_rpc rpc d1 (w\<lparr>rw_rpmsg := s\<rparr>) in
        if ret \<noteq> 0 then Inr (- EINVAL, put_rpc rpc (d1\<lparr>rc_lock := False\<rparr>) w1)
        else cbind (rpc_wait_ready fuel env rpc 0 w1) (\<lambda>w2. Inr (0, w2)))))"

definition rpmsg_rpc_release :: "('b, 'x) rpc_e \<Rightarrow> ptr \<Rightarrow> ('b, 'x) rpc_w \<Rightarrow> ('b, 'x) rpc_w cres" where
  "rpmsg_rpc_release env rpc w =
     (if rpc = NULL then Inr w
      else cbind (get_rpc w rpc) (\<lambda>d.
        cbind (if \<not> rc_ept_destroyed d then rpmsg_destroy_ept (re_bitmap env) (re_send env) rpc (rw_rpmsg w)
               else Inr (rw_rpmsg w)) (\<lambda>s.
        cbind (mutex_acquire (rc_lock d)) (\<lambda>_.
        cbind (mutex_acquire (rc_buflock d)) (\<lambda>_.
        Inr (put_rpc rpc (d\<lparr>rc_respbuf := NULL, rc_respbuf_len := 0, rc_buflock := False, rc_lock := False,
                            rc_lock_live := False\<rparr>) (w\<lparr>rw_rpmsg := s\<rparr>)))))))"

definition rpmsg_rpc_send ::
  "nat \<Rightarrow> ('b, 'x) rpc_e \<Rightarrow> ptr \<Rightarrow> ptr \<Rightarrow> u64 \<Rightarrow> ptr \<Rightarrow> u64 \<Rightarrow> ('b, 'x) rpc_w \<Rightarrow> (int \<times> ('b, 'x) rpc_w) cres" where
  "rpmsg_rpc_send fuel env rpc req len resp resp_len w =
     (if rpc = NULL then Inr (- EINVAL, w)
      else cbind (get_rpc w rpc) (\<lambda>d.
        cbind (mutex_acquire (rc_buflock d)) (\<lambda>_.
        let w1 = put_rpc rpc (d\<lparr>rc_respbuf := resp, rc_respbuf_len := resp_len, rc_buflock := False, rc_nacked := True\<rparr>) w;
            data = (if req = NULL then None else Some (rd_bytes (rw_mem w1) req (unat len))) in
        cbind (rpmsg_send (re_send env) rpc data (signed_take_bit 31 (uint len)) (rw_rpmsg w1)) (\<lambda>(ret, s).
        let w2 = w1\<lparr>rw_rpmsg := s\<rparr> in
        if ret < 0 then Inr (- EINVAL, w2)
        else if resp = NULL then Inr (ret, w2)
        else cbind (rpc_wait_ack fuel env rpc 0 w2) (\<lambda>w3. Inr (ret, w3))))))"

definition rpmsg_set_default_rpc :: "ptr \<Rightarrow> 's rpc_world \<Rightarrow> 's rpc_world" where
  "rpmsg_set_default_rpc rpc w = (if rpc = NULL then w else w\<lparr>rw_default := rpc\<rparr>)"

subsection \<open>The file operations\<close>

text \<open>What \<open>_open\<close>, \<open>_write\<close> and \<open>_close\<close> return once the request is answered.\<close>

definition rpc_result :: "u32 \<Rightarrow> ptr \<Rightarrow> int \<times> 's rpc_world \<Rightarrow> int \<times> 's rpc_world" where
  "rpc_result sid resp r =
     (case r of (ret, w) \<Rightarrow>
        (if 0 \<le> ret then (if rd32 (rw_mem w) resp = sid then sint (rd32 (rw_mem w) (resp + 4)) else - EINVAL) else ret, w))"

text \<open>\<open>strlen\<close> runs before the test for NULL. The name is copied into a buffer of \<open>MAX_BUF_LEN\<close> bytes behind the request.\<close>

definition rt_open ::
  "nat \<Rightarrow> ('b, 'x) rpc_e \<Rightarrow> ptr \<Rightarrow> ptr \<Rightarrow> u8 list option \<Rightarrow> u32 \<Rightarrow> u32 \<Rightarrow> ('b, 'x) rpc_w \<Rightarrow> (int \<times> ('b, 'x) rpc_w) cres" where
  "rt_open fuel env tmpbuf resp filename flags mode w =
     (case filename of None \<Rightarrow> Inl Null_deref
      | Some name \<Rightarrow>
          let filename_len = of_nat (length name + 1) :: u32;
              payload_size = of_nat SYSCALL_SIZE + filename_len in
          if of_nat MAX_BUF_LEN < payload_size then Inr (- EINVAL, w)
          else if rw_default w = NULL then Inr (- EINVAL, w)
          else if sint filename_len < 0 then Inl Out_of_bounds
          else
            let c = \<lparr>sc_id = OPEN_SYSCALL_ID, int_field1 = flags, int_field2 = mode, data_len = filename_len\<rparr>;
                m = wr32 (wr_bytes (rw_mem w) tmpbuf (syscall_bytes c @ take (unat filename_len) (name @ [0]))) resp 0 in
            cbind (rpmsg_rpc_send fuel env (rw_default w) tmpbuf (ucast payload_size) resp (of_nat SYSCALL_SIZE)
                     (w\<lparr>rw_mem := m\<rparr>)) (\<lambda>r. Inr (rpc_result OPEN_SYSCALL_ID resp r)))"

definition rt_read ::
  "nat \<Rightarrow> ('b, 'x) rpc_e \<Rightarrow> ptr \<Rightarrow> ptr \<Rightarrow> u32 \<Rightarrow> ptr \<Rightarrow> u32 \<Rightarrow> ('b, 'x) rpc_w \<Rightarrow> (int \<times> ('b, 'x) rpc_w) cres" where
  "rt_read fuel env tmpbuf call fd buffer buflen w =
     (if rw_default w = NULL \<or> buffer = NULL \<or> buflen = 0 then Inr (- EINVAL, w)
      else
        let c = \<lparr>sc_id = READ_SYSCALL_ID, int_field1 = fd, int_field2 = buflen, data_len = 0\<rparr>;
            m = wr32 (wr_bytes (rw_mem w) call (syscall_bytes c)) tmpbuf 0 in
        cbind (rpmsg_rpc_send fuel env (rw_default w) call (of_nat SYSCALL_SIZE) tmpbuf (of_nat MAX_BUF_LEN)
                 (w\<lparr>rw_mem := m\<rparr>)) (\<lambda>(ret, w1).
        if ret < 0 then Inr (ret, w1)
        else if rd32 (rw_mem w1) tmpbuf \<noteq> READ_SYSCALL_ID then Inr (- EINVAL, w1)
        else
          let field1 = sint (rd32 (rw_mem w1) (tmpbuf + 4)) in
          if 0 < field1 then
            (let tmplen = sint (rd32 (rw_mem w1) (tmpbuf + 12));
                 n = (if sint buflen < tmplen then sint buflen else tmplen) in
             if 0 \<le> n \<and> int SYSCALL_SIZE + n \<le> int MAX_BUF_LEN
             then Inr (field1, w1\<lparr>rw_mem := wr_bytes (rw_mem w1) buffer
                    (rd_bytes (rw_mem w1) (tmpbuf + of_nat SYSCALL_SIZE) (nat n))\<rparr>)
             else Inl Out_of_bounds)
          else Inr (field1, w1)))"

text \<open>For the standard output the terminator is written one byte behind the byte that is sent in its place.\<close>

definition rt_write ::
  "nat \<Rightarrow> ('b, 'x) rpc_e \<Rightarrow> ptr \<Rightarrow> ptr \<Rightarrow> u32 \<Rightarrow> ptr \<Rightarrow> u32 \<Rightarrow> ('b, 'x) rpc_w \<Rightarrow> (int \<times> ('b, 'x) rpc_w) cres" where
  "rt_write fuel env tmpbuf resp fd data len w =
     (if rw_default w = NULL then Inr (- EINVAL, w)
      else
        let null_term = (if fd = 1 then 1 else 0 :: nat); n = unat len in
        if sint len < 0 \<or> SYSCALL_SIZE + n > MAX_BUF_LEN then Inl Out_of_bounds
        else if data = NULL \<and> n \<noteq> 0 then Inl Null_deref
        else if null_term = 1 \<and> SYSCALL_SIZE + n + null_term \<ge> MAX_BUF_LEN then Inl Out_of_bounds
        else
          let c = \<lparr>sc_id = WRITE_SYSCALL_ID, int_field1 = fd, int_field2 = len, data_len = len + of_nat null_term\<rparr>;
              bs = rd_bytes (wr_bytes (rw_mem w) tmpbuf (syscall_bytes c)) data n;
              m = wr_bytes (rw_mem w) tmpbuf (syscall_bytes c @ bs);
              m1 = (if null_term = 1 then wr8 m (tmpbuf + of_nat (SYSCALL_SIZE + n + null_term)) 0 else m);
              m2 = wr32 m1 resp 0 in
          cbind (rpmsg_rpc_send fuel env (rw_default w) tmpbuf (of_nat (SYSCALL_SIZE + n + null_term)) resp
                   (of_nat SYSCALL_SIZE) (w\<lparr>rw_mem := m2\<rparr>)) (\<lambda>r. Inr (rpc_result WRITE_SYSCALL_ID resp r)))"

definition rt_close ::
  "nat \<Rightarrow> ('b, 'x) rpc_e \<Rightarrow> ptr \<Rightarrow> ptr \<Rightarrow> u32 \<Rightarrow> ('b, 'x) rpc_w \<Rightarrow> (int \<times> ('b, 'x) rpc_w) cres" where
  "rt_close fuel env call resp fd w =
     (if rw_default w = NULL then Inr (- EINVAL, w)
      else
        let c = \<lparr>sc_id = CLOSE_SYSCALL_ID, int_field1 = fd, int_field2 = 0, data_len = 0\<rparr>;
            m = wr32 (wr_bytes (rw_mem w) call (syscall_bytes c)) resp 0 in
        cbind (rpmsg_rpc_send fuel env (rw_default w) call (of_nat SYSCALL_SIZE) resp (of_nat SYSCALL_SIZE)
                 (w\<lparr>rw_mem := m\<rparr>)) (\<lambda>r. Inr (rpc_result CLOSE_SYSCALL_ID resp r)))"

end
