(* ===== verification/Rpc_Server.thy ===== *)
theory Rpc_Server
  imports Retarget
begin

text \<open>
  The server of the proxy: \<open>apps/examples/rpc_demo/rpc_demod.c\<close>, which serves file operations on behalf of
  the other processor, one definition per function; signal handlers are left out, except what they do to the endpoint.

  The operating system is the parameter record \<open>os_ops\<close> on a state of files. \<open>open\<close> gets the name
  without its terminator; \<open>read\<close> gives its result and the bytes it stored. The parameter \<open>junk\<close> is the
  content that the request buffer on the stack has before a message is copied into it.
\<close>

definition RPC_BUFF_SIZE :: nat where "RPC_BUFF_SIZE = 496"
definition SERVER_CB :: ptr where "SERVER_CB = 0x320"
definition SERVER_UNBIND :: ptr where "SERVER_UNBIND = 0x330"
definition RPMSG_SERVICE_NAME :: "u8 list" where
  "RPMSG_SERVICE_NAME = [0x72, 0x70, 0x6d, 0x73, 0x67, 0x2d, 0x6f, 0x70, 0x65, 0x6e, 0x61, 0x6d, 0x70, 0x2d, 0x64, 0x65, 0x6d, 0x6f,
     0x2d, 0x63, 0x68, 0x61, 0x6e, 0x6e, 0x65, 0x6c]"

record 'f os_ops =
  os_open :: "u8 list \<Rightarrow> int \<Rightarrow> int \<Rightarrow> 'f \<Rightarrow> int \<times> 'f"
  os_close :: "int \<Rightarrow> 'f \<Rightarrow> int \<times> 'f"
  os_read :: "int \<Rightarrow> u64 \<Rightarrow> 'f \<Rightarrow> int \<times> u8 list \<times> 'f"
  os_write :: "int \<Rightarrow> u8 list \<Rightarrow> 'f \<Rightarrow> int \<times> 'f"

record ('s, 'f) rpc_server =
  sv_rpmsg :: 's
  sv_files :: 'f
  sv_request_termination :: bool
  sv_ept_deleted :: bool
  sv_err_cnt :: nat

type_synonym ('b, 'x, 'f) rpc_sv = "(('b, 'x) rpmsg_state_scheme, 'f) rpc_server"

subsection \<open>Copying from shared memory\<close>

text \<open>
  The three loops: bytes up to a word boundary, words, and the rest. \<open>sh\<close> is the address in shared memory, \<open>src\<close> the bytes
  from there on; the result is what was stored.
\<close>

fun copy_head :: "ptr \<Rightarrow> u8 list \<Rightarrow> nat \<Rightarrow> u8 list \<times> ptr \<times> u8 list \<times> nat" where
  "copy_head sh src 0 = ([], sh, src, 0)"
| "copy_head sh src (Suc len) =
     (if sh mod 4 \<noteq> 0
      then (case copy_head (sh + 1) (drop 1 src) len of (dst, r) \<Rightarrow> (take 1 src @ dst, r))
      else ([], sh, src, Suc len))"

fun copy_words :: "u8 list \<Rightarrow> nat \<Rightarrow> u8 list \<times> u8 list \<times> nat" where
  "copy_words src len =
     (if 4 \<le> len then (case copy_words (drop 4 src) (len - 4) of (dst, r) \<Rightarrow> (take 4 src @ dst, r))
      else ([], src, len))"

fun copy_tail :: "u8 list \<Rightarrow> nat \<Rightarrow> u8 list" where
  "copy_tail src 0 = []"
| "copy_tail src (Suc len) = take 1 src @ copy_tail (drop 1 src) len"

declare copy_words.simps [simp del]

definition copy_from_shbuf :: "ptr \<Rightarrow> u8 list \<Rightarrow> nat \<Rightarrow> u8 list cres" where
  "copy_from_shbuf sh src len =
     (if length src < len then Inl Out_of_bounds
      else case copy_head sh src len of (a, sh1, src1, len1) \<Rightarrow>
        case copy_words src1 len1 of (b, src2, len2) \<Rightarrow> Inr (a @ b @ copy_tail src2 len2))"

subsection \<open>Requests\<close>

text \<open>The fields of a request, and the string that a block starts with.\<close>

definition syscall_field :: "u8 list \<Rightarrow> nat \<Rightarrow> u32" where
  "syscall_field buf off = le_word (take 4 (drop off buf))"

definition c_string :: "u8 list \<Rightarrow> u8 list cres" where
  "c_string bs = (if 0 \<in> set bs then Inr (takeWhile (\<lambda>b. b \<noteq> 0) bs) else Inl Out_of_bounds)"

definition send_response ::
  "('b, 'x) rpmsg_sender \<Rightarrow> ptr \<Rightarrow> u8 list \<Rightarrow> ('b, 'x, 'f) rpc_sv \<Rightarrow> (int \<times> ('b, 'x, 'f) rpc_sv) cres" where
  "send_response send ept bs sv =
     cbind (rpmsg_send send ept (Some bs) (int (length bs)) (sv_rpmsg sv)) (\<lambda>(ret, s).
     Inr (if 0 < ret then 0 else ret, sv\<lparr>sv_rpmsg := s\<rparr>))"

definition handle_open ::
  "'f os_ops \<Rightarrow> ('b, 'x) rpmsg_sender \<Rightarrow> u8 list \<Rightarrow> ptr \<Rightarrow> ('b, 'x, 'f) rpc_sv \<Rightarrow> (int \<times> ('b, 'x, 'f) rpc_sv) cres" where
  "handle_open os send buf ept sv =
     (if ept = NULL then Inr (- EINVAL, sv)
      else cbind (c_string (drop SYSCALL_SIZE buf)) (\<lambda>name.
        case os_open os name (sint (syscall_field buf 4)) (sint (syscall_field buf 8)) (sv_files sv) of (fd, fs) \<Rightarrow>
        send_response send ept (syscall_bytes
          \<lparr>sc_id = OPEN_SYSCALL_ID, int_field1 = word_of_int fd, int_field2 = 0, data_len = 0\<rparr>) (sv\<lparr>sv_files := fs\<rparr>)))"

definition handle_close ::
  "'f os_ops \<Rightarrow> ('b, 'x) rpmsg_sender \<Rightarrow> u8 list \<Rightarrow> ptr \<Rightarrow> ('b, 'x, 'f) rpc_sv \<Rightarrow> (int \<times> ('b, 'x, 'f) rpc_sv) cres" where
  "handle_close os send buf ept sv =
     (if ept = NULL then Inr (- EINVAL, sv)
      else case os_close os (sint (syscall_field buf 4)) (sv_files sv) of (ret, fs) \<Rightarrow>
        send_response send ept (syscall_bytes
          \<lparr>sc_id = CLOSE_SYSCALL_ID, int_field1 = word_of_int ret, int_field2 = 0, data_len = 0\<rparr>) (sv\<lparr>sv_files := fs\<rparr>))"

text \<open>The payload has room for \<open>RPC_BUFF_SIZE - SYSCALL_SIZE\<close> bytes, whatever the request asks for.\<close>

definition handle_read ::
  "'f os_ops \<Rightarrow> ('b, 'x) rpmsg_sender \<Rightarrow> u8 list \<Rightarrow> ptr \<Rightarrow> ('b, 'x, 'f) rpc_sv \<Rightarrow> (int \<times> ('b, 'x, 'f) rpc_sv) cres" where
  "handle_read os send buf ept sv =
     (if ept = NULL then Inr (- EINVAL, sv)
      else
        let fd = sint (syscall_field buf 4);
            n = (if fd = 0 then of_nat (RPC_BUFF_SIZE - SYSCALL_SIZE) else scast (syscall_field buf 8)) in
        case os_read os fd n (sv_files sv) of (bytes_read, bs, fs) \<Rightarrow>
        if RPC_BUFF_SIZE - SYSCALL_SIZE < length bs then Inl Out_of_bounds
        else send_response send ept (syscall_bytes
          \<lparr>sc_id = READ_SYSCALL_ID, int_field1 = word_of_int bytes_read, int_field2 = 0, data_len = word_of_int bytes_read\<rparr> @
          (if 0 < bytes_read then take (nat bytes_read) bs else [])) (sv\<lparr>sv_files := fs\<rparr>))"

definition handle_write ::
  "'f os_ops \<Rightarrow> ('b, 'x) rpmsg_sender \<Rightarrow> u8 list \<Rightarrow> ptr \<Rightarrow> ('b, 'x, 'f) rpc_sv \<Rightarrow> (int \<times> ('b, 'x, 'f) rpc_sv) cres" where
  "handle_write os send buf ept sv =
     (if ept = NULL then Inr (- EINVAL, sv)
      else cbind (sub_bytes buf SYSCALL_SIZE (unat (scast (syscall_field buf 8) :: u64))) (\<lambda>bs.
        case os_write os (sint (syscall_field buf 4)) bs (sv_files sv) of (ret, fs) \<Rightarrow>
        send_response send ept (syscall_bytes
          \<lparr>sc_id = WRITE_SYSCALL_ID, int_field1 = word_of_int ret, int_field2 = 0, data_len = 0\<rparr>) (sv\<lparr>sv_files := fs\<rparr>)))"

definition handle_rpc ::
  "'f os_ops \<Rightarrow> ('b, 'x) rpmsg_sender \<Rightarrow> u8 list \<Rightarrow> ptr \<Rightarrow> ('b, 'x, 'f) rpc_sv \<Rightarrow> (int \<times> ('b, 'x, 'f) rpc_sv) cres" where
  "handle_rpc os send buf ept sv =
     (let cid = syscall_field buf 0 in
      if cid = OPEN_SYSCALL_ID then handle_open os send buf ept sv
      else if cid = CLOSE_SYSCALL_ID then handle_close os send buf ept sv
      else if cid = READ_SYSCALL_ID then handle_read os send buf ept sv
      else if cid = WRITE_SYSCALL_ID then handle_write os send buf ept sv
      else if cid = TERM_SYSCALL_ID then Inr (0, sv\<lparr>sv_request_termination := True\<rparr>)
      else Inr (-1, sv))"

text \<open>The callbacks of the endpoint \<open>app_ept\<close>.\<close>

definition server_unbind ::
  "'b bitmap_ops \<Rightarrow> ('b, 'x) rpmsg_sender \<Rightarrow> ptr \<Rightarrow> ('b, 'x, 'f) rpc_sv \<Rightarrow> ('b, 'x, 'f) rpc_sv cres" where
  "server_unbind bo send app_ept sv =
     cbind (rpmsg_destroy_ept bo send app_ept (sv_rpmsg sv)) (\<lambda>s. Inr (sv\<lparr>sv_rpmsg := s, sv_ept_deleted := True\<rparr>))"

definition rpmsg_endpoint_cb ::
  "'f os_ops \<Rightarrow> ('b, 'x) rpmsg_sender \<Rightarrow> u8 list \<Rightarrow> ptr \<Rightarrow> ptr \<Rightarrow> u8 list \<Rightarrow> u64 \<Rightarrow> ('b, 'x, 'f) rpc_sv \<Rightarrow>
   (int \<times> ('b, 'x, 'f) rpc_sv) cres" where
  "rpmsg_endpoint_cb os send junk ept sh data len sv =
     (if unat len < SYSCALL_SIZE then Inr (RPMSG_SUCCESS, sv\<lparr>sv_err_cnt := sv_err_cnt sv + 1\<rparr>)
      else
        let n = (if RPC_BUFF_SIZE < unat len then RPC_BUFF_SIZE else unat len) in
        cbind (copy_from_shbuf sh data n) (\<lambda>bs.
        cbind (handle_rpc os send (bs @ drop n junk) ept sv) (\<lambda>(ret, sv1).
        Inr (RPMSG_SUCCESS, if ret \<noteq> 0 then sv1\<lparr>sv_err_cnt := sv_err_cnt sv1 + 1\<rparr> else sv1))))"

subsection \<open>The program\<close>

definition terminate_rpc_app ::
  "'b bitmap_ops \<Rightarrow> ('b, 'x) rpmsg_sender \<Rightarrow> ptr \<Rightarrow> ('b, 'x, 'f) rpc_sv \<Rightarrow> ('b, 'x, 'f) rpc_sv cres" where
  "terminate_rpc_app bo send app_ept sv =
     (if \<not> sv_ept_deleted sv
      then cbind (rpmsg_destroy_ept bo send app_ept (sv_rpmsg sv)) (\<lambda>s. Inr (sv\<lparr>sv_rpmsg := s\<rparr>)) else Inr sv)"

text \<open>The main loop; \<open>poll\<close> is \<open>platform_poll\<close>, which runs the callbacks.\<close>

fun server_loop ::
  "nat \<Rightarrow> (nat \<Rightarrow> ('b, 'x, 'f) rpc_sv \<Rightarrow> ('b, 'x, 'f) rpc_sv cres) \<Rightarrow> nat \<Rightarrow> ('b, 'x, 'f) rpc_sv \<Rightarrow>
   (int \<times> ('b, 'x, 'f) rpc_sv) cres" where
  "server_loop 0 poll i sv = Inl Hang"
| "server_loop (Suc fuel) poll i sv =
     cbind (poll i sv) (\<lambda>sv1.
     if sv_err_cnt sv1 \<noteq> 0 then Inr (- EINVAL, sv1)
     else if sv_ept_deleted sv1 \<or> sv_request_termination sv1 then Inr (0, sv1)
     else server_loop fuel poll (Suc i) sv1)"

definition server_app ::
  "nat \<Rightarrow> 'b bitmap_ops \<Rightarrow> ('b, 'x) rpmsg_sender \<Rightarrow> (nat \<Rightarrow> ('b, 'x, 'f) rpc_sv \<Rightarrow> ('b, 'x, 'f) rpc_sv cres) \<Rightarrow> ptr \<Rightarrow>
   ('b, 'x, 'f) rpc_sv \<Rightarrow> (int \<times> ('b, 'x, 'f) rpc_sv) cres" where
  "server_app fuel bo send poll app_ept sv =
     cbind (rpmsg_create_ept bo send app_ept (Some RPMSG_SERVICE_NAME) RPMSG_ADDR_ANY RPMSG_ADDR_ANY SERVER_CB SERVER_UNBIND
              (sv_rpmsg sv)) (\<lambda>(ret, s).
     let sv1 = sv\<lparr>sv_rpmsg := s\<rparr> in
     if ret \<noteq> 0 then Inr (- EINVAL, sv1)
     else
       cbind (server_loop fuel poll 0 sv1) (\<lambda>(ret', sv2).
       cbind (terminate_rpc_app bo send app_ept sv2) (\<lambda>sv3. Inr (ret', sv3))))"

end
