(* ===== verification/Rpc_System.thy ===== *)
theory Rpc_System
  imports Rpc_Server
begin

text \<open>
  The proxy and its server as one system: the file operations of \<open>rpmsg_retarget.c\<close> on one processor, the server of
  \<open>rpc_demod.c\<close> on the other, and between them a channel that keeps the order and loses nothing, as the
  transport below does. The server is served during the \<open>k\<close>-th poll of the client and later ones.
\<close>

subsection \<open>Copying and fields\<close>

lemma copy_head_eq:
  "copy_head sh src len = (dst, sh', src', len') \<Longrightarrow> len \<le> length src \<Longrightarrow>
   len' \<le> len \<and> dst = take (len - len') src \<and> src' = drop (len - len') src"
proof (induction sh src len arbitrary: dst sh' src' len' rule: copy_head.induct)
  case (2 sh src len)
  show ?case
  proof (cases "sh mod 4 = 0")
    case False
    obtain d s1 r n where c: "copy_head (sh + 1) (drop 1 src) len = (d, s1, r, n)" by (metis prod_cases4)
    then have "n \<le> len \<and> d = take (len - n) (drop 1 src) \<and> r = drop (len - n) (drop 1 src)"
      using 2 False by simp
    moreover have "take 1 src @ take (len - n) (drop 1 src) = take (Suc (len - n)) src"
      using take_add [of 1 "len - n" src] by simp
    moreover have "dst = take 1 src @ d" "src' = r" "len' = n" using 2(2) False c by auto
    ultimately show ?thesis by (simp add: Suc_diff_le)
  qed (use 2(2) in auto)
qed simp

lemma copy_words_eq:
  "copy_words src len = (dst, src', len') \<Longrightarrow> len \<le> length src \<Longrightarrow>
   len' \<le> len \<and> dst = take (len - len') src \<and> src' = drop (len - len') src"
proof (induction src len arbitrary: dst src' len' rule: copy_words.induct)
  case (1 src len)
  show ?case
  proof (cases "4 \<le> len")
    case True
    obtain d r n where c: "copy_words (drop 4 src) (len - 4) = (d, r, n)" by (metis prod_cases3)
    then have i: "n \<le> len - 4 \<and> d = take (len - 4 - n) (drop 4 src) \<and> r = drop (len - 4 - n) (drop 4 src)"
      using 1 True by simp
    have "4 + (len - 4 - n) = len - n" using i True by linarith
    then show ?thesis using 1(2) True c i take_add [of 4 "len - 4 - n" src] by (auto simp: copy_words.simps [of src])
  qed (use 1 in \<open>auto simp: copy_words.simps [of src]\<close>)
qed

lemma copy_tail_eq: "copy_tail src n = take n src"
proof (induction src n rule: copy_tail.induct)
  case (2 src len)
  then show ?case using take_add [of 1 len src] by simp
qed simp

lemma copy_from_shbuf_eq:
  "copy_from_shbuf sh src len = (if len \<le> length src then Inr (take len src) else Inl Out_of_bounds)"
proof (cases "len \<le> length src")
  case True
  obtain a sh1 src1 len1 where h: "copy_head sh src len = (a, sh1, src1, len1)" by (metis prod_cases4)
  obtain b src2 len2 where w: "copy_words src1 len1 = (b, src2, len2)" by (metis prod_cases3)
  note e = copy_head_eq [OF h True]
  have "len1 \<le> length src1" using e True by auto
  note f = copy_words_eq [OF w this]
  have "take len1 src1 = b @ take len2 src2"
    using f take_add [of "len1 - len2" len2 src1] by simp
  moreover have "take len src = a @ take len1 src1"
    using e take_add [of "len - len1" len1 src] by simp
  ultimately show ?thesis using True h w by (simp add: copy_from_shbuf_def copy_tail_eq)
qed (simp add: copy_from_shbuf_def)

lemma length_syscall_bytes [simp]: "length (syscall_bytes c) = 16"
  by (simp add: syscall_bytes_def)

lemma take_syscall_bytes: "take 4 (syscall_bytes c @ bs) = le_bytes 4 (sc_id c)"
  by (simp add: syscall_bytes_def)

lemma syscall_field_bytes [simp]:
  "syscall_field (syscall_bytes c @ bs) 0 = sc_id c" "syscall_field (syscall_bytes c @ bs) 4 = int_field1 c"
  "syscall_field (syscall_bytes c @ bs) 8 = int_field2 c" "syscall_field (syscall_bytes c @ bs) 12 = data_len c"
  by (simp_all add: syscall_field_def syscall_bytes_def le_word_bytes)

subsection \<open>The system\<close>

record 'b rpc_out = "'b rpmsg_state" +
  out_msgs :: "u8 list list"

record ('b, 'f) rpc_sys = "'b rpmsg_state" +
  sy_requests :: "u8 list list"
  sy_server :: "('b rpc_out, 'f) rpc_server"

definition out_send :: "u32 \<Rightarrow> u32 \<Rightarrow> u8 list \<Rightarrow> int \<Rightarrow> bool \<Rightarrow> 'b rpc_out \<Rightarrow> (int \<times> 'b rpc_out) cres" where
  "out_send src dst d n wait s = Inr (n, s\<lparr>out_msgs := out_msgs s @ [d]\<rparr>)"

definition fifo_send :: "u32 \<Rightarrow> u32 \<Rightarrow> u8 list \<Rightarrow> int \<Rightarrow> bool \<Rightarrow> ('b, 'f) rpc_sys \<Rightarrow> (int \<times> ('b, 'f) rpc_sys) cres" where
  "fifo_send src dst d n wait s = Inr (n, s\<lparr>sy_requests := sy_requests s @ [d]\<rparr>)"

text \<open>The server takes the first request; the result are its answers.\<close>

definition serve ::
  "'f os_ops \<Rightarrow> u8 list \<Rightarrow> ptr \<Rightarrow> ptr \<Rightarrow> ('b, 'f) rpc_sys \<Rightarrow> (u8 list list \<times> ('b, 'f) rpc_sys) cres" where
  "serve os junk app_ept sh s =
     (case sy_requests s of [] \<Rightarrow> Inr ([], s)
      | d # ds \<Rightarrow>
          cbind (rpmsg_endpoint_cb os out_send junk app_ept sh d (of_nat (length d)) (sy_server s)) (\<lambda>(_, sv).
          Inr (out_msgs (sv_rpmsg sv),
               s\<lparr>sy_requests := ds, sy_server := sv\<lparr>sv_rpmsg := (sv_rpmsg sv)\<lparr>out_msgs := []\<rparr>\<rparr>\<rparr>)))"

fun deliver :: "('b, 'x) rpc_e \<Rightarrow> ptr \<Rightarrow> u8 list list \<Rightarrow> ('b, 'x) rpc_w \<Rightarrow> ('b, 'x) rpc_w cres" where
  "deliver env ept [] w = Inr w"
| "deliver env ept (d # ds) w =
     cbind (rpmsg_rpc_ept_cb env ept (Some d) (of_nat (length d)) w) (\<lambda>(_, w1). deliver env ept ds w1)"

definition link_env :: "'b bitmap_ops \<Rightarrow> ('b, ('b, 'f) rpc_sys) rpc_env" where
  "link_env bo = \<lparr>re_bitmap = bo, re_send = fifo_send, re_poll = (\<lambda>i f a w. Inr w), re_other = (\<lambda>i w. Inr w),
     re_shutdown = (\<lambda>f rpc w. Inr w)\<rparr>"

definition sys_poll ::
  "nat \<Rightarrow> 'b bitmap_ops \<Rightarrow> 'f os_ops \<Rightarrow> u8 list \<Rightarrow> ptr \<Rightarrow> ptr \<Rightarrow> ptr \<Rightarrow> nat \<Rightarrow> ('b, 'f) rpc_sys rpc_world \<Rightarrow>
   ('b, 'f) rpc_sys rpc_world cres" where
  "sys_poll k bo os junk app_ept sh rpc i w =
     (if i < k then Inr w
      else cbind (serve os junk app_ept sh (rw_rpmsg w)) (\<lambda>(ds, s). deliver (link_env bo) rpc ds (w\<lparr>rw_rpmsg := s\<rparr>)))"

definition sys_env ::
  "nat \<Rightarrow> 'b bitmap_ops \<Rightarrow> 'f os_ops \<Rightarrow> u8 list \<Rightarrow> ptr \<Rightarrow> ptr \<Rightarrow> ptr \<Rightarrow> ('b, ('b, 'f) rpc_sys) rpc_env" where
  "sys_env k bo os junk app_ept sh rpc =
     (link_env bo)\<lparr>re_poll := (\<lambda>i f a w. sys_poll k bo os junk app_ept sh rpc i w)\<rparr>"

text \<open>An endpoint that can send, a client between two calls, and an idle server.\<close>

definition ept_live :: "('b, 'x) rpmsg_state_scheme \<Rightarrow> ptr \<Rightarrow> bool" where
  "ept_live s p \<longleftrightarrow> p \<noteq> NULL \<and> send_offchannel_raw (rdev s) \<noteq> NULL \<and>
     (\<exists>e. epts s p = Some e \<and> ep_rdev e \<noteq> NULL \<and> ep_dest_addr e \<noteq> RPMSG_ADDR_ANY)"

definition client_ready :: "('b, 'f) rpc_sys rpc_world \<Rightarrow> bool" where
  "client_ready w \<longleftrightarrow> ept_live (rw_rpmsg w) (rw_default w) \<and> sy_requests (rw_rpmsg w) = [] \<and>
     (\<exists>d. rw_rpcs w (rw_default w) = Some d \<and> \<not> rc_buflock d \<and> rc_poll d \<noteq> NULL)"

definition server_idle :: "('b rpc_out, 'f) rpc_server \<Rightarrow> ptr \<Rightarrow> bool" where
  "server_idle sv app_ept \<longleftrightarrow> ept_live (sv_rpmsg sv) app_ept \<and> out_msgs (sv_rpmsg sv) = []"

lemma rpmsg_send_live:
  assumes "ept_live s p"
  shows "\<exists>src dst. rpmsg_send send p (Some d) n s = send src dst d n True s"
proof -
  obtain e where "p \<noteq> NULL" "send_offchannel_raw (rdev s) \<noteq> NULL" "epts s p = Some e" "ep_rdev e \<noteq> NULL"
      "ep_dest_addr e \<noteq> RPMSG_ADDR_ANY"
    using assms by (auto simp: ept_live_def)
  then have "rpmsg_send send p (Some d) n s = send (ep_addr e) (ep_dest_addr e) d n True s"
    by (simp add: rpmsg_send_def rpmsg_send_offchannel_raw_def get_ept_def)
  then show ?thesis by blast
qed

lemma send_response_run:
  assumes "server_idle sv app_ept" and "0 < length bs"
  shows "send_response out_send app_ept bs (sv\<lparr>sv_files := fs\<rparr>) =
    Inr (0, sv\<lparr>sv_files := fs, sv_rpmsg := (sv_rpmsg sv)\<lparr>out_msgs := [bs]\<rparr>\<rparr>)"
proof -
  obtain src dst where "rpmsg_send out_send app_ept (Some bs) (int (length bs)) (sv_rpmsg sv) =
      out_send src dst bs (int (length bs)) True (sv_rpmsg sv)"
    using rpmsg_send_live assms(1) unfolding server_idle_def by blast
  then show ?thesis using assms by (simp add: send_response_def out_send_def server_idle_def)
qed

subsection \<open>One request\<close>

text \<open>The server answers a request that its buffer can hold.\<close>

lemma serve_one:
  assumes "sy_requests s = [d]" and "16 \<le> length d" and "length d \<le> 496"
    and "handle_rpc os out_send (d @ drop (length d) junk) app_ept (sy_server s) =
      Inr (0, (sy_server s)\<lparr>sv_files := fs, sv_rpmsg := (sv_rpmsg (sy_server s))\<lparr>out_msgs := [rp]\<rparr>\<rparr>)"
    and "server_idle (sy_server s) app_ept"
  shows "serve os junk app_ept sh s = Inr ([rp], s\<lparr>sy_requests := [], sy_server := (sy_server s)\<lparr>sv_files := fs\<rparr>\<rparr>)"
proof -
  have u: "unat (of_nat (length d) :: u64) = length d" using assms(3) by (intro unat_of_nat_64) simp
  have i: "(sv_rpmsg (sy_server s))\<lparr>out_msgs := []\<rparr> = sv_rpmsg (sy_server s)"
    using assms(5) by (cases "sv_rpmsg (sy_server s)") (simp add: server_idle_def)
  have "sy_server s\<lparr>sv_files := fs, sv_rpmsg := sv_rpmsg (sy_server s)\<rparr> = sy_server s\<lparr>sv_files := fs\<rparr>"
    by (cases "sy_server s") simp
  then show ?thesis
    using assms(1-4) by (simp add: serve_def rpmsg_endpoint_cb_def copy_from_shbuf_eq u i RPC_BUFF_SIZE_def SYSCALL_SIZE_def Let_def)
qed

text \<open>Delivering an answer stores it in the buffer of the caller and ends the wait.\<close>

lemma deliver_one:
  assumes "rw_rpcs w rpc = Some d" and "\<not> rc_buflock d" and "rc_respbuf d \<noteq> NULL" and "rc_respbuf_len d \<noteq> 0"
    and "rpc \<noteq> NULL" and "4 \<le> length rp" and "length rp < 2 ^ 64" and "le_word (take 4 rp) \<noteq> TERM_SYSCALL_ID"
  shows "deliver env rpc [rp] w =
    Inr (put_rpc rpc (d\<lparr>rc_nacked := False\<rparr>)
      (w\<lparr>rw_mem := wr_bytes (rw_mem w) (rc_respbuf d) (take (unat (rc_respbuf_len d)) rp)\<rparr>))"
proof -
  have u: "unat (of_nat (length rp) :: u64) = length rp" using assms(7) by (rule unat_of_nat_64)
  have same: "d\<lparr>rc_nacked := False, rc_buflock := False\<rparr> = d\<lparr>rc_nacked := False\<rparr>" using assms(2) by (cases d) simp
  let ?n = "if rc_respbuf_len d < of_nat (length rp) then rc_respbuf_len d else of_nat (length rp)"
  have n: "unat ?n \<le> length rp" "take (unat ?n) rp = take (unat (rc_respbuf_len d)) rp"
    by (auto simp: word_less_nat_alt u not_less)
  have "sub_bytes rp 0 (unat ?n) = Inr (take (unat (rc_respbuf_len d)) rp)"
    using n by (simp add: sub_bytes_def)
  moreover have "sub_bytes rp 0 4 = Inr (take 4 rp)" using assms(6) by (simp add: sub_bytes_def)
  ultimately show ?thesis
    using assms(1-5,8) by (simp add: rpmsg_rpc_ept_cb_def get_rpc_def same)
qed

lemma wait_ack_step:
  assumes "rw_rpcs w rpc = Some d" and "rc_poll d \<noteq> NULL" and "rc_nacked d"
  shows "rpc_wait_ack (Suc f) (sys_env k bo os junk app_ept sh rpc) rpc j w =
    cbind (sys_poll k bo os junk app_ept sh rpc j w) (rpc_wait_ack f (sys_env k bo os junk app_ept sh rpc) rpc (Suc j))"
proof -
  have "get_rpc w rpc = Inr d" using assms(1) by (simp add: get_rpc_def)
  moreover have "put_rpc rpc (d\<lparr>rc_nacked := True\<rparr>) w = w"
    using assms(1,3) by (cases w; cases d) (auto simp: put_rpc_def)
  ultimately show ?thesis
    using assms(2,3)
    by (cases "sys_poll k bo os junk app_ept sh rpc j w") (simp_all add: rpc_poll_once_def sys_env_def link_env_def Let_def)
qed

lemma wait_ack_served:
  assumes "rpc \<noteq> NULL" and "4 \<le> length rp" and "length rp < 2 ^ 64" and "le_word (take 4 rp) \<noteq> TERM_SYSCALL_ID"
    and "serve os junk app_ept sh (rw_rpmsg w) = Inr ([rp], s')"
    and "rw_rpcs w rpc = Some d" and "\<not> rc_buflock d" and "rc_respbuf d \<noteq> NULL" and "rc_respbuf_len d \<noteq> 0"
    and "rc_poll d \<noteq> NULL" and "rc_nacked d"
  shows "i \<le> k \<Longrightarrow> k + 2 \<le> i + fuel \<Longrightarrow>
    rpc_wait_ack fuel (sys_env k bo os junk app_ept sh rpc) rpc i w =
    Inr (w\<lparr>rw_rpmsg := s', rw_mem := wr_bytes (rw_mem w) (rc_respbuf d) (take (unat (rc_respbuf_len d)) rp)\<rparr>)"
proof (induction "k - i" arbitrary: i fuel)
  let ?env = "sys_env k bo os junk app_ept sh rpc"
  let ?m = "wr_bytes (rw_mem w) (rc_respbuf d) (take (unat (rc_respbuf_len d)) rp)"
  let ?w = "w\<lparr>rw_rpmsg := s', rw_mem := ?m\<rparr>" and ?poll = "sys_poll k bo os junk app_ept sh rpc"
  note step = wait_ack_step [OF assms(6,10,11), where k = k and bo = bo and os = os and junk = junk and app_ept = app_ept and sh = sh]
  {
    case 0
    then obtain f where f: "fuel = Suc (Suc f)" by (cases fuel; cases "fuel - 1") auto
    have p: "?poll i w = Inr (put_rpc rpc (d\<lparr>rc_nacked := False\<rparr>) ?w)"
      using 0 assms(5) deliver_one [of "w\<lparr>rw_rpmsg := s'\<rparr>" rpc d rp "link_env bo"] assms(1-4,6-9)
      by (simp add: sys_poll_def)
    have "put_rpc rpc (d\<lparr>rc_nacked := True\<rparr>) (put_rpc rpc (d\<lparr>rc_nacked := False\<rparr>) ?w) = ?w"
      using assms(6,11) by (cases w; cases d) (auto simp: put_rpc_def)
    then show ?case by (simp add: f step p del: rpc_wait_ack.simps) (simp add: Let_def)
  next
    case (Suc n)
    then obtain f where f: "fuel = Suc f" by (cases fuel) auto
    have "i < k" using Suc.hyps(2) by simp
    then have p: "?poll i w = Inr w" by (simp add: sys_poll_def)
    have "rpc_wait_ack f ?env rpc (Suc i) w = Inr ?w" using Suc.hyps(2) Suc.prems by (intro Suc.hyps(1)) (auto simp: f)
    then show ?case by (simp add: f step p del: rpc_wait_ack.simps)
  }
qed

lemma wait_ack_faults:
  assumes "serve os junk app_ept sh (rw_rpmsg w) = Inl e" and "rw_rpcs w rpc = Some d" and "rc_poll d \<noteq> NULL" and "rc_nacked d"
  shows "i \<le> k \<Longrightarrow> k < i + fuel \<Longrightarrow> rpc_wait_ack fuel (sys_env k bo os junk app_ept sh rpc) rpc i w = Inl e"
proof (induction "k - i" arbitrary: i fuel)
  case 0
  then show ?case using wait_ack_step [OF assms(2-4)] assms(1) by (cases fuel) (auto simp: sys_poll_def)
next
  case (Suc n)
  then have "i < k" by simp
  with Suc show ?case using wait_ack_step [OF assms(2-4)] by (cases fuel) (auto simp: sys_poll_def)
qed

text \<open>A request is sent, and then the client waits for the answer.\<close>

lemma rpc_send_waits:
  assumes "client_ready w" and "req \<noteq> NULL" and "resp \<noteq> NULL" and "unat len < 2 ^ 31"
  obtains d w2 where
    "rpmsg_rpc_send fuel (sys_env k bo os junk app_ept sh (rw_default w)) (rw_default w) req len resp resp_len w =
      cbind (rpc_wait_ack fuel (sys_env k bo os junk app_ept sh (rw_default w)) (rw_default w) 0 w2) (\<lambda>w3. Inr (int (unat len), w3))"
    "w2 = (put_rpc (rw_default w) d w)\<lparr>rw_rpmsg := (rw_rpmsg w)\<lparr>sy_requests := [rd_bytes (rw_mem w) req (unat len)]\<rparr>\<rparr>"
    "rc_respbuf d = resp" "rc_respbuf_len d = resp_len" "\<not> rc_buflock d" "rc_poll d \<noteq> NULL" "rc_nacked d"
proof -
  let ?rpc = "rw_default w" and ?env = "sys_env k bo os junk app_ept sh (rw_default w)"
  let ?req = "rd_bytes (rw_mem w) req (unat len)"
  obtain d where d: "rw_rpcs w ?rpc = Some d" "\<not> rc_buflock d" "rc_poll d \<noteq> NULL" and l: "ept_live (rw_rpmsg w) ?rpc"
    "sy_requests (rw_rpmsg w) = []" "?rpc \<noteq> NULL"
    using assms(1) by (auto simp: client_ready_def ept_live_def)
  define d1 where "d1 = d\<lparr>rc_respbuf := resp, rc_respbuf_len := resp_len, rc_buflock := False, rc_nacked := True\<rparr>"
  define w2 where "w2 = (put_rpc ?rpc d1 w)\<lparr>rw_rpmsg := (rw_rpmsg w)\<lparr>sy_requests := [?req]\<rparr>\<rparr>"
  have n: "signed_take_bit 31 (uint len) = int (unat len)"
  proof -
    have "int (unat len) < int (2 ^ 31)" using assms(4) by (simp only: of_nat_less_iff)
    then have "uint len < 2 ^ 31" by simp
    then show ?thesis by (simp add: signed_take_bit_id)
  qed
  obtain src dst where "rpmsg_send (re_send ?env) ?rpc (Some ?req) (int (unat len)) (rw_rpmsg w) =
      re_send ?env src dst ?req (int (unat len)) True (rw_rpmsg w)"
    using rpmsg_send_live [OF l(1)] by blast
  then have send: "rpmsg_send (re_send ?env) ?rpc (Some ?req) (int (unat len)) (rw_rpmsg w) = Inr (int (unat len), rw_rpmsg w2)"
    using l(2) by (simp add: sys_env_def link_env_def fifo_send_def w2_def)
  have "rpmsg_rpc_send fuel ?env ?rpc req len resp resp_len w =
      cbind (rpc_wait_ack fuel ?env ?rpc 0 w2) (\<lambda>w3. Inr (int (unat len), w3))"
    using d l(3) send assms(2,3)
    by (simp add: rpmsg_rpc_send_def get_rpc_def d1_def [symmetric] n del: of_nat_unat) (simp add: w2_def d1_def)
  then show ?thesis by (rule that [OF _ w2_def]) (use d in \<open>simp_all add: d1_def\<close>)
qed

text \<open>A whole request: it is sent, answered and the answer is in the buffer of the caller.\<close>

lemma rpc_send_served:
  assumes "client_ready w" and "req \<noteq> NULL" and "resp \<noteq> NULL" and "unat len < 2 ^ 31" and "resp_len \<noteq> 0"
    and "4 \<le> length rp" and "length rp < 2 ^ 64" and "le_word (take 4 rp) \<noteq> TERM_SYSCALL_ID"
    and "serve os junk app_ept sh ((rw_rpmsg w)\<lparr>sy_requests := [rd_bytes (rw_mem w) req (unat len)]\<rparr>) = Inr ([rp], s')"
    and "k + 2 \<le> fuel"
  shows "\<exists>w' d. rpmsg_rpc_send fuel (sys_env k bo os junk app_ept sh (rw_default w)) (rw_default w) req len resp resp_len w =
      Inr (int (unat len), w') \<and> rw_mem w' = wr_bytes (rw_mem w) resp (take (unat resp_len) rp) \<and> rw_rpmsg w' = s' \<and>
      rw_default w' = rw_default w \<and> rw_rpcs w' (rw_default w) = Some d \<and> \<not> rc_buflock d \<and> rc_poll d \<noteq> NULL"
proof -
  let ?rpc = "rw_default w" and ?env = "sys_env k bo os junk app_ept sh (rw_default w)"
  obtain d w2 where s: "rpmsg_rpc_send fuel ?env ?rpc req len resp resp_len w =
      cbind (rpc_wait_ack fuel ?env ?rpc 0 w2) (\<lambda>w3. Inr (int (unat len), w3))"
    and w2: "w2 = (put_rpc ?rpc d w)\<lparr>rw_rpmsg := (rw_rpmsg w)\<lparr>sy_requests := [rd_bytes (rw_mem w) req (unat len)]\<rparr>\<rparr>"
    and d: "rc_respbuf d = resp" "rc_respbuf_len d = resp_len" "\<not> rc_buflock d" "rc_poll d \<noteq> NULL" "rc_nacked d"
    by (rule rpc_send_waits [OF assms(1-4)])
  have "?rpc \<noteq> NULL" using assms(1) by (simp add: client_ready_def ept_live_def)
  then have "rpc_wait_ack fuel ?env ?rpc 0 w2 =
      Inr (w2\<lparr>rw_rpmsg := s', rw_mem := wr_bytes (rw_mem w2) (rc_respbuf d) (take (unat (rc_respbuf_len d)) rp)\<rparr>)"
    using assms(3,5,9,10) d by (intro wait_ack_served [OF _ assms(6-8)]) (simp_all add: w2)
  then show ?thesis
    using s d by (intro exI [of _ "w2\<lparr>rw_rpmsg := s', rw_mem := wr_bytes (rw_mem w) resp (take (unat resp_len) rp)\<rparr>"] exI [of _ d])
      (simp add: w2)
qed

text \<open>After a call the client is ready again, the server is idle and only its files have changed.\<close>

definition served :: "('b, 'f) rpc_sys rpc_world \<Rightarrow> 'f \<Rightarrow> ('b, 'f) rpc_sys rpc_world \<Rightarrow> bool" where
  "served w fs w' \<longleftrightarrow> client_ready w' \<and> rw_default w' = rw_default w \<and>
     sy_server (rw_rpmsg w') = (sy_server (rw_rpmsg w))\<lparr>sv_files := fs\<rparr>"

lemma rpc_call_run:
  fixes w :: "('b, 'f) rpc_sys rpc_world"
  assumes "client_ready w" and "server_idle (sy_server (rw_rpmsg w)) app_ept" and "req \<noteq> NULL" and "resp \<noteq> NULL"
    and "resp_len \<noteq> 0" and "k + 2 \<le> fuel" and "16 \<le> unat len" and "unat len \<le> 496"
    and "handle_rpc os out_send (rd_bytes (rw_mem w) req (unat len) @ drop (unat len) junk) app_ept (sy_server (rw_rpmsg w)) =
      send_response out_send app_ept rp ((sy_server (rw_rpmsg w))\<lparr>sv_files := fs\<rparr>)"
    and "4 \<le> length rp" and "length rp < 2 ^ 64" and "le_word (take 4 rp) \<noteq> TERM_SYSCALL_ID"
  shows "\<exists>w'. rpmsg_rpc_send fuel (sys_env k bo os junk app_ept sh (rw_default w)) (rw_default w) req len resp resp_len w =
      Inr (int (unat len), w') \<and> rw_mem w' = wr_bytes (rw_mem w) resp (take (unat resp_len) rp) \<and> served w fs w'"
proof -
  let ?req = "rd_bytes (rw_mem w) req (unat len)" and ?sv = "sy_server (rw_rpmsg w)"
  have pos: "0 < length rp" using assms(10) by linarith
  have "handle_rpc os out_send (?req @ drop (length ?req) junk) app_ept ?sv =
      Inr (0, ?sv\<lparr>sv_files := fs, sv_rpmsg := (sv_rpmsg ?sv)\<lparr>out_msgs := [rp]\<rparr>\<rparr>)"
    using send_response_run [OF assms(2) pos, where fs = fs] assms(9) by simp
  then have srv: "serve os junk app_ept sh ((rw_rpmsg w)\<lparr>sy_requests := [?req]\<rparr>) =
      Inr ([rp], (rw_rpmsg w)\<lparr>sy_requests := [], sy_server := ?sv\<lparr>sv_files := fs\<rparr>\<rparr>)"
    using serve_one [where s = "(rw_rpmsg w)\<lparr>sy_requests := [?req]\<rparr>" and d = ?req and fs = fs and rp = rp] assms(2,7,8) by simp
  have len: "unat len < 2 ^ 31" using assms(8) by simp
  obtain w' d where w': "rpmsg_rpc_send fuel (sys_env k bo os junk app_ept sh (rw_default w)) (rw_default w) req len resp resp_len w =
      Inr (int (unat len), w')" "rw_mem w' = wr_bytes (rw_mem w) resp (take (unat resp_len) rp)"
      "rw_rpmsg w' = (rw_rpmsg w)\<lparr>sy_requests := [], sy_server := ?sv\<lparr>sv_files := fs\<rparr>\<rparr>"
      "rw_default w' = rw_default w" "rw_rpcs w' (rw_default w) = Some d" "\<not> rc_buflock d" "rc_poll d \<noteq> NULL"
    using rpc_send_served [OF assms(1,3,4) len assms(5,10-12) srv assms(6)] by blast
  moreover have "served w fs w'"
    using w' assms(1) by (simp add: served_def client_ready_def ept_live_def)
  ultimately show ?thesis by blast
qed

end
