(* ===== verification/Vring.thy ===== *)
theory Vring
  imports Prelude
begin

text \<open>
  The split virtqueue of \<open>lib/include/openamp/virtio_ring.h\<close>: the descriptor, available and used
  structures that the two processors share, the layout of the three parts in one block of memory
  (\<open>vring_size\<close>, \<open>vring_init\<close>), and the test \<open>vring_need_event\<close> that decides whether the other
  side asked to be interrupted.

  The shared structures are modelled as typed arrays (\<open>vring_mem\<close>): \<open>vring_layout_disjoint\<close> below
  shows that the addresses \<open>vring_init\<close> computes keep the three arrays apart and inside the block
  that \<open>vring_size\<close> measures, so that a store into one of them never changes another.
\<close>

subsection \<open>Descriptor flags\<close>

definition VRING_DESC_F_NEXT :: u16 where "VRING_DESC_F_NEXT = 1"
definition VRING_DESC_F_WRITE :: u16 where "VRING_DESC_F_WRITE = 2"
definition VRING_DESC_F_INDIRECT :: u16 where "VRING_DESC_F_INDIRECT = 4"
definition VRING_USED_F_NO_NOTIFY :: u16 where "VRING_USED_F_NO_NOTIFY = 1"
definition VRING_AVAIL_F_NO_INTERRUPT :: u16 where "VRING_AVAIL_F_NO_INTERRUPT = 1"

lemmas vring_flag_defs = VRING_DESC_F_NEXT_def VRING_DESC_F_WRITE_def VRING_DESC_F_INDIRECT_def
  VRING_USED_F_NO_NOTIFY_def VRING_AVAIL_F_NO_INTERRUPT_def

subsection \<open>Shared structures\<close>

record vring_desc =
  d_addr :: u64
  d_len :: u32
  d_flags :: u16
  d_next :: u16

record vring_used_elem =
  ue_id :: u32
  ue_len :: u32

text \<open>
  \<open>avail_used_event\<close> is the entry \<open>avail->ring[num]\<close> (macro \<open>vring_used_event\<close>) and
  \<open>used_avail_event\<close> the entry \<open>used->ring[num].event\<close> (macro \<open>vring_avail_event\<close>).
\<close>

record vring_avail =
  avail_flags :: u16
  avail_idx :: u16
  avail_ring :: "u16 list"
  avail_used_event :: u16

record vring_used =
  used_flags :: u16
  used_idx :: u16
  used_ring :: "vring_used_elem list"
  used_avail_event :: u16

record vring_mem =
  desc :: "vring_desc list"
  avail :: vring_avail
  used :: vring_used

text \<open>The block of memory a vring occupies, after it has been filled with zero bytes.\<close>

definition zero_desc :: vring_desc where
  "zero_desc = \<lparr>d_addr = 0, d_len = 0, d_flags = 0, d_next = 0\<rparr>"

definition zero_vring_mem :: "nat \<Rightarrow> vring_mem" where
  "zero_vring_mem n =
     \<lparr>desc = replicate n zero_desc,
      avail = \<lparr>avail_flags = 0, avail_idx = 0, avail_ring = replicate n 0, avail_used_event = 0\<rparr>,
      used = \<lparr>used_flags = 0, used_idx = 0,
              used_ring = replicate n \<lparr>ue_id = 0, ue_len = 0\<rparr>, used_avail_event = 0\<rparr>\<rparr>"

definition vring_mem_size :: "nat \<Rightarrow> vring_mem \<Rightarrow> bool" where
  "vring_mem_size n m \<longleftrightarrow>
     length (desc m) = n \<and> length (avail_ring (avail m)) = n \<and> length (used_ring (used m)) = n"

subsection \<open>Layout\<close>

record vring =
  vr_num :: u32
  vr_desc :: ptr
  vr_avail :: ptr
  vr_used :: ptr

text \<open>
  Sizes of the packed structures: \<open>struct vring_desc\<close> is 16 bytes, the headers of
  \<open>vring_avail\<close> and \<open>vring_used\<close> are 4 bytes each, a \<open>vring_used_elem\<close> is 8 bytes.
\<close>

definition align_up :: "u64 \<Rightarrow> u64 \<Rightarrow> u64" where
  "align_up x align = (x + align - 1) AND NOT (align - 1)"

definition vring_size :: "u32 \<Rightarrow> u64 \<Rightarrow> int" where
  "vring_size num align =
     (let size1 = signed_take_bit 31 (uint (ucast num * 16 :: u64));
          size2 = signed_take_bit 31 (size1 + 4 + uint (ucast num * 2 :: u64) + 2);
          size3 = signed_take_bit 31 (uint (align_up (word_of_int size2) align));
          size4 = signed_take_bit 31 (size3 + 4 + uint (ucast num * 8 :: u64) + 2)
      in size4)"

definition vring_init :: "u32 \<Rightarrow> ptr \<Rightarrow> u64 \<Rightarrow> vring" where
  "vring_init num p align =
     (let avail = p + ucast num * 16;
          avail_ring_num = avail + 4 + 2 * ucast num
      in \<lparr>vr_num = num, vr_desc = p, vr_avail = avail,
          vr_used = align_up (avail_ring_num + 2) align\<rparr>)"

definition vring_need_event :: "u16 \<Rightarrow> u16 \<Rightarrow> u16 \<Rightarrow> bool" where
  "vring_need_event event_idx new_idx old \<longleftrightarrow> new_idx - event_idx - 1 < new_idx - old"

subsection \<open>Alignment\<close>

definition align_nat :: "nat \<Rightarrow> nat \<Rightarrow> nat" where
  "align_nat x a = (x + a - 1) div a * a"

lemma align_nat_bounds:
  assumes "0 < a"
  shows "x \<le> align_nat x a" and "align_nat x a < x + a"
proof -
  let ?y = "x + a - 1"
  have e: "align_nat x a = ?y - ?y mod a"
    by (simp add: align_nat_def minus_mod_eq_div_mult)
  have r: "?y mod a < a" "?y mod a \<le> ?y" using assms by auto
  show "x \<le> align_nat x a" using e r assms by linarith
  show "align_nat x a < x + a" using e r assms by linarith
qed

lemma align_nat_shift:
  assumes "0 < a" and "a dvd p"
  shows "align_nat (p + x) a = p + align_nat x a"
proof -
  obtain q where q: "p = q * a" using assms(2) by (metis dvd_def mult.commute)
  have "q * a + x + a - 1 = (x + a - 1) + q * a" using assms(1) by simp
  then have "(q * a + x + a - 1) div a = q + (x + a - 1) div a"
    using assms(1) by (simp only: div_mult_self1)
  then show ?thesis by (simp only: align_nat_def q add_mult_distrib)
qed

lemma align_up_unat:
  assumes a: "pow2 a" and no: "unat x + unat a \<le> 2 ^ 64"
  shows "unat (align_up x a) = align_nat (unat x) (unat a)"
proof -
  have a0: "a \<noteq> 0" using a by (simp add: pow2_def)
  have apos: "0 < unat a" using a0 by (simp add: unat_gt_0)
  let ?y = "x + a - 1"
  have y: "unat ?y = unat x + unat a - 1"
  proof -
    have "?y = of_nat (unat x + unat a - 1)"
      using apos by (simp add: of_nat_diff)
    moreover have "unat x + unat a - 1 < 2 ^ 64" using no apos by simp
    ultimately show ?thesis by (simp add: unat_of_nat)
  qed
  have "?y = (?y AND (a - 1)) + (?y AND NOT (a - 1))"
    by (rule word_split_mask)
  then have "?y AND NOT (a - 1) = ?y - (?y AND (a - 1))"
    by (metis add_diff_cancel_left')
  moreover have "?y AND (a - 1) \<le> ?y" by (rule word_and_le2)
  ultimately have "unat (?y AND NOT (a - 1)) = unat ?y - unat (?y AND (a - 1))"
    by (simp add: unat_sub)
  also have "\<dots> = unat ?y - unat ?y mod unat a"
    using a by (simp add: unat_and_pred)
  also have "\<dots> = unat ?y div unat a * unat a"
    by (simp add: minus_mod_eq_div_mult)
  finally show ?thesis using y by (simp add: align_up_def align_nat_def)
qed

lemma pow2_pos: "pow2 a \<Longrightarrow> 0 < unat a"
  by (simp add: pow2_def unat_gt_0)

subsection \<open>Layout of the three parts\<close>

lemma vring_size_value:
  assumes "unat num \<le> 2 ^ 15" and a: "pow2 align" and al: "unat align \<le> 2 ^ 24"
  shows "vring_size num align = int (align_nat (18 * unat num + 6) (unat align) + 8 * unat num + 6)"
proof -
  define n where "n = unat num"
  have n: "n \<le> 2 ^ 15" using assms(1) by (simp add: n_def)
  note b = align_nat_bounds(2) [OF pow2_pos [OF a], of "18 * n + 6"]
  have c: "uint (ucast num * k :: u64) = int n * int (unat k)" if "unat k \<le> 16" for k :: u64
  proof -
    have "n * unat k \<le> 2 ^ 15 * 16" using n that by (rule mult_le_mono)
    then have "unat (ucast num * k :: u64) = n * unat k"
      by (simp add: unat_mult_lt unat_ucast_up n_def)
    then show ?thesis by (simp only: uint_nat of_nat_mult)
  qed
  have s1: "signed_take_bit 31 (uint (ucast num * 16 :: u64)) = 16 * int n"
    using n c [of 16] by (simp add: signed_take_bit_id)
  have s2: "signed_take_bit 31 (16 * int n + 4 + uint (ucast num * 2 :: u64) + 2)
      = int (18 * n + 6)"
    using n c [of 2] by (simp add: signed_take_bit_id)
  have w: "unat (word_of_int (int (18 * n + 6)) :: u64) = 18 * n + 6"
    by (simp only: of_int_of_nat_eq, rule unat_of_nat_lt) (use n in simp)
  have w2: "uint (align_up (word_of_int (int (18 * n + 6))) align) =
      int (align_nat (18 * n + 6) (unat align))"
    using align_up_unat [OF a, of "word_of_int (int (18 * n + 6))"] n al
    unfolding w uint_nat by simp
  have s3: "signed_take_bit 31 (int (align_nat (18 * n + 6) (unat align)))
      = int (align_nat (18 * n + 6) (unat align))"
    using b n al by (intro signed_take_bit_id) auto
  show ?thesis
    unfolding vring_size_def Let_def s1 s2 w2 s3 n_def [symmetric]
    using b n al c [of 8] by (simp add: signed_take_bit_id)
qed

lemma vring_used_addr:
  assumes n: "unat num \<le> 2 ^ 15" and a: "pow2 align" and al: "unat align \<le> 2 ^ 24"
    and p: "unat p + 2 ^ 25 \<le> 2 ^ 64" and d: "unat align dvd unat p"
  shows "unat (vr_avail (vring_init num p align)) = unat p + 16 * unat num"
    and "unat (vr_used (vring_init num p align)) =
      unat p + align_nat (18 * unat num + 6) (unat align)"
proof -
  define n where "n = unat num"
  have n: "n \<le> 2 ^ 15" using assms(1) by (simp add: n_def)
  have e: "(ucast num :: u64) = of_nat n" by (simp add: n_def)
  have y: "p + of_nat n * 16 + 4 + 2 * of_nat n + 2 = (of_nat (unat p + (18 * n + 6)) :: u64)"
    by simp
  have ux: "unat (of_nat (unat p + 16 * n) :: u64) = unat p + 16 * n"
    by (rule unat_of_nat_lt) (use n p in simp)
  have uy: "unat (of_nat (unat p + (18 * n + 6)) :: u64) = unat p + (18 * n + 6)"
    by (rule unat_of_nat_lt) (use n p in simp)
  show "unat (vr_avail (vring_init num p align)) = unat p + 16 * unat num"
    unfolding vring_init_def Let_def e n_def [symmetric] using ux by (simp add: mult.commute)
  have "unat (align_up (of_nat (unat p + (18 * n + 6))) align) =
      unat p + align_nat (18 * n + 6) (unat align)"
    using align_up_unat [OF a, of "of_nat (unat p + (18 * n + 6))"] n al p
      align_nat_shift [OF pow2_pos [OF a] d] unfolding uy by simp
  then show "unat (vr_used (vring_init num p align)) =
      unat p + align_nat (18 * unat num + 6) (unat align)"
    unfolding vring_init_def Let_def e n_def [symmetric] y by simp
qed

text \<open>
  C36. The layout of a vring. For at most 2^15 descriptors and a power-of-two alignment, the
  descriptor table, the available part (with its trailing \<open>used_event\<close>) and the used part (with
  its trailing \<open>avail_event\<close>) that \<open>vring_init\<close> places in an aligned block do not overlap, the used
  part is aligned, and the block they fill is exactly as long as \<open>vring_size\<close> says.
\<close>

theorem vring_layout_disjoint:
  assumes "unat num \<le> 2 ^ 15" and "pow2 align" and "unat align \<le> 2 ^ 24"
    and "unat p + 2 ^ 25 \<le> 2 ^ 64" and "unat align dvd unat p"
  shows "let vr = vring_init num p align; n = unat num in
    unat (vr_desc vr) = unat p \<and>
    unat (vr_desc vr) + 16 * n = unat (vr_avail vr) \<and>
    unat (vr_avail vr) + 4 + 2 * n + 2 \<le> unat (vr_used vr) \<and>
    unat align dvd unat (vr_used vr) \<and>
    int (unat (vr_used vr) + 4 + 8 * n + 2) = int (unat p) + vring_size num align"
proof -
  have dsc: "vr_desc (vring_init num p align) = p"
    by (simp add: vring_init_def Let_def)
  have dv: "unat align dvd align_nat (18 * unat num + 6) (unat align)"
    by (simp add: align_nat_def)
  show ?thesis
    unfolding Let_def vring_used_addr [OF assms] vring_size_value [OF assms(1-3)] dsc
    using align_nat_bounds(1) [OF pow2_pos [OF assms(2)], of "18 * unat num + 6"] assms(5) dv
    by simp
qed

theorem vring_layout_disjoint_witness:
  "let vr = vring_init 8 0x10000 0x1000; n = unat (8 :: u32) in
    unat (vr_desc vr) = unat (0x10000 :: u64) \<and>
    unat (vr_desc vr) + 16 * n = unat (vr_avail vr) \<and>
    unat (vr_avail vr) + 4 + 2 * n + 2 \<le> unat (vr_used vr) \<and>
    unat (0x1000 :: u64) dvd unat (vr_used vr) \<and>
    int (unat (vr_used vr) + 4 + 8 * n + 2) = int (unat (0x10000 :: u64)) + vring_size 8 0x1000"
  by (rule vring_layout_disjoint) (simp_all add: pow2_def)

subsection \<open>Event suppression\<close>

lemma word_before_iff: "d - x - 1 < d \<longleftrightarrow> x < d" for d x :: u16
  by unat_arith

text \<open>
  The notification test. After the free-running index moved from \<open>old\<close> to \<open>new\<close>, an event is
  needed exactly when the index the other side asked for is one of those just passed
  (\<open>old\<close>, \<open>old + 1\<close>, ..., \<open>new - 1\<close> modulo 2^16), also when the index wrapped around in between.
\<close>

theorem vring_need_event_iff:
  "vring_need_event event_idx new_idx old \<longleftrightarrow>
     (\<exists>k < unat (new_idx - old). event_idx = old + of_nat k)"
proof -
  let ?d = "new_idx - old" and ?x = "event_idx - old"
  have "vring_need_event event_idx new_idx old \<longleftrightarrow> ?d - ?x - 1 < ?d"
    by (simp add: vring_need_event_def)
  also have "\<dots> \<longleftrightarrow> unat ?x < unat ?d"
    by (subst word_before_iff) (rule word_less_nat_alt)
  also have "\<dots> \<longleftrightarrow> (\<exists>k < unat ?d. event_idx = old + of_nat k)"
  proof
    assume "unat ?x < unat ?d"
    then show "\<exists>k < unat ?d. event_idx = old + of_nat k"
      by (intro exI [of _ "unat ?x"]) simp
  next
    assume "\<exists>k < unat ?d. event_idx = old + of_nat k"
    then obtain k where k: "k < unat ?d" "event_idx = old + of_nat k" by blast
    then have "unat ?x = k"
      using unat_of_nat_lt [of k, where 'a = 16] unsigned_less [of ?d, where 'a = nat] by simp
    with k show "unat ?x < unat ?d" by simp
  qed
  finally show ?thesis .
qed

end
