(* ===== verification/Virtqueue.thy ===== *)
theory Virtqueue
  imports Vring
begin

text \<open>
  The virtqueue control block and the operations of \<open>lib/virtio/virtqueue.c\<close> and
  \<open>lib/include/openamp/virtqueue.h\<close>, one definition per C function, for the build with neither
  \<open>VIRTIO_MASTER_ONLY\<close> nor \<open>VIRTIO_SLAVE_ONLY\<close>.

  The flag \<open>dbg\<close> says whether the code is compiled with \<open>VQUEUE_DEBUG\<close>: only then do the
  assertion, parameter-check and busy macros expand to code. Without it they are empty, so that an
  operation called outside its contract goes on; where it then leaves an array, the result is
  \<open>Inl Out_of_bounds\<close>.

  The control block is private to one processor; the rings (\<open>vring_mem\<close>) are shared and passed
  beside it. \<open>vdev\<close> is the device that \<open>vq->vq_dev\<close> points to. The address translation functions
  of libmetal are the parameters \<open>v2p\<close> (\<open>metal_io_virt_to_phys\<close>) and \<open>p2v\<close>
  (\<open>metal_io_phys_to_virt\<close>), which take the I/O region \<open>vq->shm_io\<close>. Memory fences order accesses
  that the model already performs in program order.
\<close>

subsection \<open>Status codes and constants\<close>

definition VQUEUE_SUCCESS :: int where "VQUEUE_SUCCESS = 0"
definition ERROR_VRING_FULL :: int where "ERROR_VRING_FULL = -3001"
definition ERROR_NO_MEM :: int where "ERROR_NO_MEM = -3004"
definition ERROR_VRING_ALIGN :: int where "ERROR_VRING_ALIGN = -3006"
definition ERROR_VRING_NO_BUFF :: int where "ERROR_VRING_NO_BUFF = -3007"
definition ERROR_VQUEUE_INVLD_PARAM :: int where "ERROR_VQUEUE_INVLD_PARAM = -3008"
definition VQ_RING_DESC_CHAIN_END :: u16 where "VQ_RING_DESC_CHAIN_END = 32768"
definition VIRTIO_RING_F_EVENT_IDX :: u64 where "VIRTIO_RING_F_EVENT_IDX = 2 ^ 29"
definition VIRTIO_DEV_MASTER :: u32 where "VIRTIO_DEV_MASTER = 0"
definition VIRTIO_DEV_SLAVE :: u32 where "VIRTIO_DEV_SLAVE = 1"

lemmas vq_status_defs = VQUEUE_SUCCESS_def ERROR_VRING_FULL_def ERROR_NO_MEM_def
  ERROR_VRING_ALIGN_def ERROR_VRING_NO_BUFF_def ERROR_VQUEUE_INVLD_PARAM_def

lemmas vq_const_defs = VQ_RING_DESC_CHAIN_END_def VIRTIO_RING_F_EVENT_IDX_def
  VIRTIO_DEV_MASTER_def VIRTIO_DEV_SLAVE_def

subsection \<open>State\<close>

record virtqueue_buf =
  vqb_buf :: ptr
  vqb_len :: int

record vq_desc_extra =
  cookie :: ptr
  ndescs :: u16

text \<open>The part of \<open>struct virtio_device\<close> that the queue operations read.\<close>

record vq_device =
  vd_features :: u64
  vd_role :: u32

text \<open>Function pointers (\<open>callback\<close>, \<open>notify\<close>) are addresses, 0 for NULL.\<close>

record virtqueue =
  vq_dev :: ptr
  vq_name :: string
  vq_queue_index :: u16
  vq_nentries :: u16
  vq_callback :: ptr
  vq_notify :: ptr
  vq_ring :: vring
  vq_free_cnt :: u16
  vq_queued_cnt :: u16
  shm_io :: ptr
  vq_desc_head_idx :: u16
  vq_used_cons_idx :: u16
  vq_available_idx :: u16
  vq_inuse :: bool
  vq_descx :: "vq_desc_extra list"

record vring_alloc_info =
  vai_vaddr :: ptr
  vai_align :: u32
  vai_num_descs :: u16

subsection \<open>Debug macros\<close>

definition VQASSERT :: "bool \<Rightarrow> bool \<Rightarrow> unit cres" where
  "VQASSERT dbg e = (if dbg \<and> \<not> e then Inl Assert_failed else Inr ())"

definition VQ_RING_ASSERT_VALID_IDX :: "bool \<Rightarrow> virtqueue \<Rightarrow> u16 \<Rightarrow> unit cres" where
  "VQ_RING_ASSERT_VALID_IDX dbg vq idx = VQASSERT dbg (idx < vq_nentries vq)"

definition VQ_RING_ASSERT_CHAIN_TERM :: "bool \<Rightarrow> virtqueue \<Rightarrow> unit cres" where
  "VQ_RING_ASSERT_CHAIN_TERM dbg vq =
     VQASSERT dbg (vq_desc_head_idx vq = VQ_RING_DESC_CHAIN_END)"

definition VQ_PARAM_CHK :: "bool \<Rightarrow> bool \<Rightarrow> int \<Rightarrow> int \<Rightarrow> int" where
  "VQ_PARAM_CHK dbg condition status_var status_err =
     (if dbg \<and> status_var = 0 \<and> condition then status_err else status_var)"

definition VQUEUE_BUSY :: "bool \<Rightarrow> virtqueue \<Rightarrow> virtqueue cres" where
  "VQUEUE_BUSY dbg vq =
     (if \<not> dbg then Inr vq
      else if \<not> vq_inuse vq then Inr (vq\<lparr>vq_inuse := True\<rparr>)
      else Inl Assert_failed)"

definition VQUEUE_IDLE :: "bool \<Rightarrow> virtqueue \<Rightarrow> virtqueue" where
  "VQUEUE_IDLE dbg vq = (if dbg then vq\<lparr>vq_inuse := False\<rparr> else vq)"

subsection \<open>Creation\<close>

text \<open>
  \<open>virtqueue_allocate\<close>: the control block comes back zeroed, with as many \<open>vq_descx\<close> entries as
  asked for; \<open>alloc_ok\<close> is the outcome of \<open>metal_allocate_memory\<close>.
\<close>

definition virtqueue_allocate :: "bool \<Rightarrow> nat \<Rightarrow> virtqueue option" where
  "virtqueue_allocate alloc_ok num_desc_extra =
     (if alloc_ok then Some
        \<lparr>vq_dev = 0, vq_name = '''', vq_queue_index = 0, vq_nentries = 0, vq_callback = 0,
         vq_notify = 0, vq_ring = \<lparr>vr_num = 0, vr_desc = 0, vr_avail = 0, vr_used = 0\<rparr>,
         vq_free_cnt = 0, vq_queued_cnt = 0, shm_io = 0, vq_desc_head_idx = 0,
         vq_used_cons_idx = 0, vq_available_idx = 0, vq_inuse = False,
         vq_descx = replicate num_desc_extra \<lparr>cookie = NULL, ndescs = 0\<rparr>\<rparr>
      else None)"

definition virtqueue_set_shmem_io :: "virtqueue \<Rightarrow> ptr \<Rightarrow> virtqueue" where
  "virtqueue_set_shmem_io vq io = vq\<lparr>shm_io := io\<rparr>"

text \<open>The loop of \<open>vq_ring_init\<close> that links the descriptors \<open>i\<close>, \<open>i + 1\<close>, ...\<close>

fun vq_ring_init_loop :: "nat \<Rightarrow> nat \<Rightarrow> vring_desc list \<Rightarrow> vring_desc list cres" where
  "vq_ring_init_loop 0 i ds = Inr ds"
| "vq_ring_init_loop (Suc k) i ds =
     cbind (rd ds i) (\<lambda>d.
     cbind (wr ds i (d\<lparr>d_next := of_nat i + 1\<rparr>)) (\<lambda>ds'.
       vq_ring_init_loop k (Suc i) ds'))"

definition vq_ring_init ::
  "vq_device \<Rightarrow> virtqueue \<Rightarrow> vring_mem \<Rightarrow> ptr \<Rightarrow> u64 \<Rightarrow> (virtqueue \<times> vring_mem) cres" where
  "vq_ring_init vdev vq m ring_mem alignment =
     (let size = vq_nentries vq;
          vq' = vq\<lparr>vq_ring := vring_init (ucast size) ring_mem alignment\<rparr>
      in if vd_role vdev = VIRTIO_DEV_MASTER then
           let i = unat size - 1 in
           cbind (vq_ring_init_loop i 0 (desc m)) (\<lambda>ds.
           cbind (rd ds i) (\<lambda>d.
           cbind (wr ds i (d\<lparr>d_next := VQ_RING_DESC_CHAIN_END\<rparr>)) (\<lambda>ds'.
             Inr (vq', m\<lparr>desc := ds'\<rparr>))))
         else Inr (vq', m))"

definition virtqueue_create ::
  "bool \<Rightarrow> ptr \<Rightarrow> vq_device \<Rightarrow> u16 \<Rightarrow> string \<Rightarrow> vring_alloc_info option \<Rightarrow> ptr \<Rightarrow> ptr \<Rightarrow>
   virtqueue option \<Rightarrow> vring_mem \<Rightarrow> (int \<times> virtqueue option \<times> vring_mem) cres" where
  "virtqueue_create dbg virt_dev vdev vid name ring callback notify vqo m =
     (let nd = (case ring of None \<Rightarrow> 0 | Some r \<Rightarrow> vai_num_descs r);
          s1 = VQ_PARAM_CHK dbg (ring = None) VQUEUE_SUCCESS ERROR_VQUEUE_INVLD_PARAM;
          s2 = VQ_PARAM_CHK dbg (nd = 0) s1 ERROR_VQUEUE_INVLD_PARAM;
          s3 = VQ_PARAM_CHK dbg (nd AND (nd - 1) \<noteq> 0) s2 ERROR_VRING_ALIGN;
          status = VQ_PARAM_CHK dbg (vqo = None) s3 ERROR_NO_MEM
      in if status = VQUEUE_SUCCESS then
           (case (vqo, ring) of
              (Some vq, Some r) \<Rightarrow>
                let vq1 = vq\<lparr>vq_dev := virt_dev, vq_name := name, vq_queue_index := vid,
                             vq_nentries := vai_num_descs r, vq_free_cnt := vai_num_descs r,
                             vq_callback := callback, vq_notify := notify\<rparr>
                in cbind (vq_ring_init vdev vq1 m (vai_vaddr r) (scast (vai_align r))) (\<lambda>(vq2, m2).
                     Inr (status, Some vq2, m2))
            | _ \<Rightarrow> Inl Null_deref)
         else Inr (status, vqo, m))"

subsection \<open>The driver side: queueing buffers and collecting them again\<close>

text \<open>
  One round of the loop of \<open>vq_ring_add_buffer\<close> fills the descriptor \<open>idx\<close> for the buffer \<open>i\<close>
  (\<open>vq_fill_desc\<close>) and goes on with \<open>dp->next\<close>. The loop's numeric argument before \<open>i\<close> is the
  number of rounds left.
\<close>

definition vq_fill_desc ::
  "(ptr \<Rightarrow> ptr \<Rightarrow> u64) \<Rightarrow> ptr \<Rightarrow> int \<Rightarrow> int \<Rightarrow> nat \<Rightarrow> virtqueue_buf \<Rightarrow> vring_desc \<Rightarrow> vring_desc" where
  "vq_fill_desc v2p io needed readable i b dp =
     (let flags1 = (if int i < needed - 1 then 0 OR VRING_DESC_F_NEXT else 0);
          flags2 = (if int i \<ge> readable then flags1 OR VRING_DESC_F_WRITE else flags1)
      in dp\<lparr>d_addr := v2p io (vqb_buf b), d_len := of_int (vqb_len b), d_flags := flags2\<rparr>)"

fun vq_ring_add_loop ::
  "(ptr \<Rightarrow> ptr \<Rightarrow> u64) \<Rightarrow> bool \<Rightarrow> ptr \<Rightarrow> virtqueue_buf list \<Rightarrow> int \<Rightarrow> int \<Rightarrow>
   nat \<Rightarrow> nat \<Rightarrow> u16 \<Rightarrow> vring_desc list \<Rightarrow> (u16 \<times> vring_desc list) cres" where
  "vq_ring_add_loop v2p dbg io bufs needed readable 0 i idx ds = Inr (idx, ds)"
| "vq_ring_add_loop v2p dbg io bufs needed readable (Suc k) i idx ds =
     cbind (VQASSERT dbg (idx \<noteq> VQ_RING_DESC_CHAIN_END)) (\<lambda>_.
     cbind (rd ds (unat idx)) (\<lambda>dp.
     cbind (rd bufs i) (\<lambda>b.
     let dp' = vq_fill_desc v2p io needed readable i b dp
     in vq_ring_add_loop v2p dbg io bufs needed readable k (Suc i) (d_next dp')
          (ds[unat idx := dp']))))"

definition vq_ring_add_buffer ::
  "(ptr \<Rightarrow> ptr \<Rightarrow> u64) \<Rightarrow> bool \<Rightarrow> virtqueue \<Rightarrow> vring_desc list \<Rightarrow> u16 \<Rightarrow>
   virtqueue_buf list \<Rightarrow> int \<Rightarrow> int \<Rightarrow> (u16 \<times> vring_desc list) cres" where
  "vq_ring_add_buffer v2p dbg vq ds head_idx buf_list readable writable =
     (let needed = readable + writable
      in vq_ring_add_loop v2p dbg (shm_io vq) buf_list needed readable (nat needed) 0 head_idx ds)"

definition vq_ring_update_avail ::
  "virtqueue \<Rightarrow> vring_mem \<Rightarrow> u16 \<Rightarrow> (virtqueue \<times> vring_mem) cres" where
  "vq_ring_update_avail vq m desc_idx =
     (let av = avail m;
          slot = avail_idx av AND (vq_nentries vq - 1)
      in cbind (wr (avail_ring av) (unat slot) desc_idx) (\<lambda>ring'.
           Inr (vq\<lparr>vq_queued_cnt := vq_queued_cnt vq + 1\<rparr>,
                m\<lparr>avail := av\<lparr>avail_ring := ring', avail_idx := avail_idx av + 1\<rparr>\<rparr>)))"

definition virtqueue_add_buffer ::
  "(ptr \<Rightarrow> ptr \<Rightarrow> u64) \<Rightarrow> bool \<Rightarrow> virtqueue \<Rightarrow> vring_mem \<Rightarrow> virtqueue_buf list \<Rightarrow> int \<Rightarrow> int \<Rightarrow> ptr \<Rightarrow>
   (int \<times> virtqueue \<times> vring_mem) cres" where
  "virtqueue_add_buffer v2p dbg vq m buf_list readable writable ck =
     (let needed = readable + writable;
          s1 = VQ_PARAM_CHK dbg (needed < 1) VQUEUE_SUCCESS ERROR_VQUEUE_INVLD_PARAM;
          status = VQ_PARAM_CHK dbg (vq_free_cnt vq = 0) s1 ERROR_VRING_FULL
      in cbind (VQUEUE_BUSY dbg vq) (\<lambda>vq1.
         if status = VQUEUE_SUCCESS then
           cbind (VQASSERT dbg (ck \<noteq> NULL)) (\<lambda>_.
           let head_idx = vq_desc_head_idx vq1 in
           cbind (VQ_RING_ASSERT_VALID_IDX dbg vq1 head_idx) (\<lambda>_.
           cbind (rd (vq_descx vq1) (unat head_idx)) (\<lambda>dxp.
           cbind (VQASSERT dbg (cookie dxp = NULL)) (\<lambda>_.
           let dxp' = dxp\<lparr>cookie := ck, ndescs := of_int needed\<rparr>;
               vq2 = vq1\<lparr>vq_descx := (vq_descx vq1)[unat head_idx := dxp']\<rparr> in
           cbind (vq_ring_add_buffer v2p dbg vq2 (desc m) head_idx buf_list readable writable)
             (\<lambda>(idx, ds).
           let vq3 = vq2\<lparr>vq_desc_head_idx := idx, vq_free_cnt := vq_free_cnt vq2 - of_int needed\<rparr> in
           cbind (if vq_free_cnt vq3 = 0 then VQ_RING_ASSERT_CHAIN_TERM dbg vq3
                  else VQ_RING_ASSERT_VALID_IDX dbg vq3 idx) (\<lambda>_.
           cbind (vq_ring_update_avail vq3 (m\<lparr>desc := ds\<rparr>) head_idx) (\<lambda>(vq4, m4).
             Inr (status, VQUEUE_IDLE dbg vq4, m4))))))))
         else Inr (status, VQUEUE_IDLE dbg vq1, m)))"

text \<open>
  The loop of \<open>vq_ring_free_chain\<close>: follow \<open>next\<close> while the descriptor has the NEXT flag, counting
  \<open>ndescs\<close> down. It changes no descriptor, so a walk that is longer than the table visits a
  descriptor twice and never ends; the first argument bounds the walk by the table size.
\<close>

fun vq_free_chain_loop ::
  "nat \<Rightarrow> bool \<Rightarrow> virtqueue \<Rightarrow> vring_desc list \<Rightarrow> nat \<Rightarrow> u16 \<Rightarrow> (nat \<times> u16) cres" where
  "vq_free_chain_loop 0 dbg vq ds i nd = Inl Hang"
| "vq_free_chain_loop (Suc fuel) dbg vq ds i nd =
     cbind (rd ds i) (\<lambda>dp.
       if d_flags dp AND VRING_DESC_F_NEXT \<noteq> 0 then
         cbind (VQ_RING_ASSERT_VALID_IDX dbg vq (d_next dp)) (\<lambda>_.
           vq_free_chain_loop fuel dbg vq ds (unat (d_next dp)) (nd - 1))
       else Inr (i, nd))"

definition vq_ring_free_chain ::
  "bool \<Rightarrow> virtqueue \<Rightarrow> vring_mem \<Rightarrow> u16 \<Rightarrow> (virtqueue \<times> vring_mem) cres" where
  "vq_ring_free_chain dbg vq m desc_idx =
     cbind (VQ_RING_ASSERT_VALID_IDX dbg vq desc_idx) (\<lambda>_.
     cbind (rd (desc m) (unat desc_idx)) (\<lambda>dp.
     cbind (rd (vq_descx vq) (unat desc_idx)) (\<lambda>dxp.
     cbind (if vq_free_cnt vq = 0 then VQ_RING_ASSERT_CHAIN_TERM dbg vq else Inr ()) (\<lambda>_.
     let nd1 = ndescs dxp - 1 in
     cbind (if d_flags dp AND VRING_DESC_F_INDIRECT = 0
            then vq_free_chain_loop (Suc (length (desc m))) dbg vq (desc m) (unat desc_idx) nd1
            else Inr (unat desc_idx, nd1)) (\<lambda>(last_i, nd).
     cbind (VQASSERT dbg (nd = 0)) (\<lambda>_.
     cbind (rd (desc m) last_i) (\<lambda>dl.
       Inr (vq\<lparr>vq_free_cnt := vq_free_cnt vq + ndescs dxp,
               vq_descx := (vq_descx vq)[unat desc_idx := dxp\<lparr>ndescs := nd\<rparr>],
               vq_desc_head_idx := desc_idx\<rparr>,
            m\<lparr>desc := (desc m)[last_i := dl\<lparr>d_next := vq_desc_head_idx vq\<rparr>]\<rparr>))))))))"

text \<open>
  The results \<open>*len\<close> and \<open>*idx\<close> are passed in with their old values, which a call that returns
  NULL leaves unchanged.
\<close>

definition virtqueue_get_buffer ::
  "bool \<Rightarrow> virtqueue option \<Rightarrow> vring_mem \<Rightarrow> u32 \<Rightarrow> u16 \<Rightarrow>
   (ptr \<times> u32 \<times> u16 \<times> virtqueue option \<times> vring_mem) cres" where
  "virtqueue_get_buffer dbg vqo m len idx =
     (case vqo of
        None \<Rightarrow> Inr (NULL, len, idx, None, m)
      | Some vq \<Rightarrow>
          if vq_used_cons_idx vq = used_idx (used m) then Inr (NULL, len, idx, Some vq, m)
          else
            cbind (VQUEUE_BUSY dbg vq) (\<lambda>vq1.
            let slot = vq_used_cons_idx vq1 AND (vq_nentries vq1 - 1);
                vq2 = vq1\<lparr>vq_used_cons_idx := vq_used_cons_idx vq1 + 1\<rparr> in
            cbind (rd (used_ring (used m)) (unat slot)) (\<lambda>uep.
            let desc_idx = (ucast (ue_id uep) :: u16) in
            cbind (vq_ring_free_chain dbg vq2 m desc_idx) (\<lambda>(vq3, m3).
            cbind (rd (vq_descx vq3) (unat desc_idx)) (\<lambda>dxp.
            let vq4 = vq3\<lparr>vq_descx := (vq_descx vq3)[unat desc_idx := dxp\<lparr>cookie := NULL\<rparr>]\<rparr> in
              Inr (cookie dxp, ue_len uep, slot, Some (VQUEUE_IDLE dbg vq4), m3))))))"

definition virtqueue_get_buffer_length :: "vring_mem \<Rightarrow> u16 \<Rightarrow> u32 cres" where
  "virtqueue_get_buffer_length m idx = cbind (rd (desc m) (unat idx)) (\<lambda>d. Inr (d_len d))"

subsection \<open>The device side: taking buffers and giving them back\<close>

definition virtqueue_get_available_buffer ::
  "(ptr \<Rightarrow> u64 \<Rightarrow> ptr) \<Rightarrow> bool \<Rightarrow> virtqueue \<Rightarrow> vring_mem \<Rightarrow> u16 \<Rightarrow> u32 \<Rightarrow>
   (ptr \<times> u16 \<times> u32 \<times> virtqueue) cres" where
  "virtqueue_get_available_buffer p2v dbg vq m aidx len =
     (if vq_available_idx vq = avail_idx (avail m) then Inr (NULL, aidx, len, vq)
      else
        cbind (VQUEUE_BUSY dbg vq) (\<lambda>vq1.
        let head_idx = vq_available_idx vq1 AND (vq_nentries vq1 - 1);
            vq2 = vq1\<lparr>vq_available_idx := vq_available_idx vq1 + 1\<rparr> in
        cbind (rd (avail_ring (avail m)) (unat head_idx)) (\<lambda>a.
        cbind (rd (desc m) (unat a)) (\<lambda>d.
          Inr (p2v (shm_io vq2) (d_addr d), a, d_len d, VQUEUE_IDLE dbg vq2)))))"

definition virtqueue_add_consumed_buffer ::
  "bool \<Rightarrow> virtqueue \<Rightarrow> vring_mem \<Rightarrow> u16 \<Rightarrow> u32 \<Rightarrow> (int \<times> virtqueue \<times> vring_mem) cres" where
  "virtqueue_add_consumed_buffer dbg vq m head_idx len =
     (if head_idx > vq_nentries vq then Inr (ERROR_VRING_NO_BUFF, vq, m)
      else
        cbind (VQUEUE_BUSY dbg vq) (\<lambda>vq1.
        let us = used m;
            slot = used_idx us AND (vq_nentries vq1 - 1) in
        cbind (wr (used_ring us) (unat slot) \<lparr>ue_id = ucast head_idx, ue_len = len\<rparr>) (\<lambda>ring'.
          Inr (VQUEUE_SUCCESS,
               VQUEUE_IDLE dbg (vq1\<lparr>vq_queued_cnt := vq_queued_cnt vq1 + 1\<rparr>),
               m\<lparr>used := us\<lparr>used_ring := ring', used_idx := used_idx us + 1\<rparr>\<rparr>))))"

definition virtqueue_get_desc_size :: "bool \<Rightarrow> virtqueue \<Rightarrow> vring_mem \<Rightarrow> (u32 \<times> virtqueue) cres" where
  "virtqueue_get_desc_size dbg vq m =
     (if vq_available_idx vq = avail_idx (avail m) then Inr (0, vq)
      else
        cbind (VQUEUE_BUSY dbg vq) (\<lambda>vq1.
        let head_idx = vq_available_idx vq1 AND (vq_nentries vq1 - 1) in
        cbind (rd (avail_ring (avail m)) (unat head_idx)) (\<lambda>a.
        cbind (rd (desc m) (unat a)) (\<lambda>d.
          Inr (d_len d, VQUEUE_IDLE dbg vq1)))))"

subsection \<open>Interrupt suppression and notification\<close>

definition virtqueue_nused :: "bool \<Rightarrow> virtqueue \<Rightarrow> vring_mem \<Rightarrow> u16 cres" where
  "virtqueue_nused dbg vq m =
     (let nused = used_idx (used m) - vq_used_cons_idx vq
      in cbind (VQASSERT dbg (nused \<le> vq_nentries vq)) (\<lambda>_. Inr nused))"

definition virtqueue_navail :: "bool \<Rightarrow> virtqueue \<Rightarrow> vring_mem \<Rightarrow> u16 cres" where
  "virtqueue_navail dbg vq m =
     (let navail = avail_idx (avail m) - vq_available_idx vq
      in cbind (VQASSERT dbg (navail \<le> vq_nentries vq)) (\<lambda>_. Inr navail))"

definition vq_ring_enable_interrupt ::
  "bool \<Rightarrow> vq_device \<Rightarrow> virtqueue \<Rightarrow> vring_mem \<Rightarrow> u16 \<Rightarrow> (int \<times> vring_mem) cres" where
  "vq_ring_enable_interrupt dbg vdev vq m ndesc =
     (let master = vd_role vdev = VIRTIO_DEV_MASTER;
          slave = vd_role vdev = VIRTIO_DEV_SLAVE;
          m' = (if vd_features vdev AND VIRTIO_RING_F_EVENT_IDX \<noteq> 0 then
                  (if master then
                     m\<lparr>avail := (avail m)\<lparr>avail_used_event := vq_used_cons_idx vq + ndesc\<rparr>\<rparr>
                   else if slave then
                     m\<lparr>used := (used m)\<lparr>used_avail_event := vq_available_idx vq + ndesc\<rparr>\<rparr>
                   else m)
                else
                  (if master then
                     m\<lparr>avail := (avail m)\<lparr>avail_flags :=
                          avail_flags (avail m) AND NOT VRING_AVAIL_F_NO_INTERRUPT\<rparr>\<rparr>
                   else if slave then
                     m\<lparr>used := (used m)\<lparr>used_flags :=
                          used_flags (used m) AND NOT VRING_USED_F_NO_NOTIFY\<rparr>\<rparr>
                   else m))
      in if master then
           cbind (virtqueue_nused dbg vq m') (\<lambda>n. Inr (if n > ndesc then 1 else 0, m'))
         else if slave then
           cbind (virtqueue_navail dbg vq m') (\<lambda>n. Inr (if n > ndesc then 1 else 0, m'))
         else Inr (0, m'))"

definition virtqueue_enable_cb ::
  "bool \<Rightarrow> vq_device \<Rightarrow> virtqueue \<Rightarrow> vring_mem \<Rightarrow> (int \<times> vring_mem) cres" where
  "virtqueue_enable_cb dbg vdev vq m = vq_ring_enable_interrupt dbg vdev vq m 0"

definition virtqueue_disable_cb ::
  "bool \<Rightarrow> vq_device \<Rightarrow> virtqueue \<Rightarrow> vring_mem \<Rightarrow> (virtqueue \<times> vring_mem) cres" where
  "virtqueue_disable_cb dbg vdev vq m =
     cbind (VQUEUE_BUSY dbg vq) (\<lambda>vq1.
     let master = vd_role vdev = VIRTIO_DEV_MASTER;
         slave = vd_role vdev = VIRTIO_DEV_SLAVE;
         m' = (if vd_features vdev AND VIRTIO_RING_F_EVENT_IDX \<noteq> 0 then
                 (if master then
                    m\<lparr>avail := (avail m)\<lparr>avail_used_event :=
                         vq_used_cons_idx vq1 - vq_nentries vq1 - 1\<rparr>\<rparr>
                  else if slave then
                    m\<lparr>used := (used m)\<lparr>used_avail_event :=
                         vq_available_idx vq1 - vq_nentries vq1 - 1\<rparr>\<rparr>
                  else m)
               else
                 (if master then
                    m\<lparr>avail := (avail m)\<lparr>avail_flags :=
                         avail_flags (avail m) OR VRING_AVAIL_F_NO_INTERRUPT\<rparr>\<rparr>
                  else if slave then
                    m\<lparr>used := (used m)\<lparr>used_flags :=
                         used_flags (used m) OR VRING_USED_F_NO_NOTIFY\<rparr>\<rparr>
                  else m))
     in Inr (VQUEUE_IDLE dbg vq1, m'))"

definition vq_ring_must_notify :: "vq_device \<Rightarrow> virtqueue \<Rightarrow> vring_mem \<Rightarrow> bool" where
  "vq_ring_must_notify vdev vq m =
     (if vd_features vdev AND VIRTIO_RING_F_EVENT_IDX \<noteq> 0 then
        (if vd_role vdev = VIRTIO_DEV_MASTER then
           let new_idx = avail_idx (avail m);
               prev_idx = new_idx - vq_queued_cnt vq
           in vring_need_event (used_avail_event (used m)) new_idx prev_idx
         else if vd_role vdev = VIRTIO_DEV_SLAVE then
           let new_idx = used_idx (used m);
               prev_idx = new_idx - vq_queued_cnt vq
           in vring_need_event (avail_used_event (avail m)) new_idx prev_idx
         else False)
      else
        (if vd_role vdev = VIRTIO_DEV_MASTER then
           used_flags (used m) AND VRING_USED_F_NO_NOTIFY = 0
         else if vd_role vdev = VIRTIO_DEV_SLAVE then
           avail_flags (avail m) AND VRING_AVAIL_F_NO_INTERRUPT = 0
         else False))"

text \<open>
  \<open>vq_ring_notify\<close> calls \<open>vq->notify\<close> when it is not NULL: the result is the function called, if
  any. \<open>virtqueue_kick\<close> returns it with the new control block, and \<open>virtqueue_notification\<close>
  returns the callback it runs.
\<close>

definition vq_ring_notify :: "virtqueue \<Rightarrow> ptr option" where
  "vq_ring_notify vq = (if vq_notify vq \<noteq> NULL then Some (vq_notify vq) else None)"

definition virtqueue_kick ::
  "bool \<Rightarrow> vq_device \<Rightarrow> virtqueue \<Rightarrow> vring_mem \<Rightarrow> (ptr option \<times> virtqueue) cres" where
  "virtqueue_kick dbg vdev vq m =
     cbind (VQUEUE_BUSY dbg vq) (\<lambda>vq1.
     let called = (if vq_ring_must_notify vdev vq1 m then vq_ring_notify vq1 else None)
     in Inr (called, VQUEUE_IDLE dbg (vq1\<lparr>vq_queued_cnt := 0\<rparr>)))"

definition virtqueue_notification :: "virtqueue \<Rightarrow> ptr option" where
  "virtqueue_notification vq = (if vq_callback vq \<noteq> NULL then Some (vq_callback vq) else None)"

text \<open>\<open>virtqueue_free\<close> releases the block; the result says whether it warns about queued buffers.\<close>

definition virtqueue_free :: "virtqueue option \<Rightarrow> bool" where
  "virtqueue_free vqo =
     (case vqo of None \<Rightarrow> False | Some vq \<Rightarrow> vq_free_cnt vq \<noteq> vq_nentries vq)"

end
