(* ===== verification/Virtio.thy ===== *)
theory Virtio
  imports Virtqueue
begin

text \<open>
  Virtio devices: \<open>lib/include/openamp/virtio.h\<close> and \<open>lib/virtio/virtio.c\<close>.

  The control blocks of a device's queues and the rings they manage are two lists that run in
  parallel; a pointer to a control block is its position (\<open>None\<close> for NULL). The parameter \<open>zero_ring\<close>
  is what \<open>metal_io_block_set\<close> does to the ring at an address when it clears a number of bytes.
\<close>

subsection \<open>Identification\<close>

definition VIRTIO_ID_NETWORK :: u16 where "VIRTIO_ID_NETWORK = 1"
definition VIRTIO_ID_BLOCK :: u16 where "VIRTIO_ID_BLOCK = 2"
definition VIRTIO_ID_CONSOLE :: u16 where "VIRTIO_ID_CONSOLE = 3"
definition VIRTIO_ID_ENTROPY :: u16 where "VIRTIO_ID_ENTROPY = 4"
definition VIRTIO_ID_BALLOON :: u16 where "VIRTIO_ID_BALLOON = 5"
definition VIRTIO_ID_IOMEMORY :: u16 where "VIRTIO_ID_IOMEMORY = 6"
definition VIRTIO_ID_RPMSG :: u16 where "VIRTIO_ID_RPMSG = 7"
definition VIRTIO_ID_SCSI :: u16 where "VIRTIO_ID_SCSI = 8"
definition VIRTIO_ID_9P :: u16 where "VIRTIO_ID_9P = 9"

definition VIRTIO_CONFIG_STATUS_DRIVER_OK :: u8 where "VIRTIO_CONFIG_STATUS_DRIVER_OK = 0x04"
definition VIRTIO_CONFIG_STATUS_NEEDS_RESET :: u8 where "VIRTIO_CONFIG_STATUS_NEEDS_RESET = 0x40"

definition VIRTIO_F_NOTIFY_ON_EMPTY :: u64 where "VIRTIO_F_NOTIFY_ON_EMPTY = 2 ^ 24"
definition VIRTIO_RING_F_INDIRECT_DESC :: u64 where "VIRTIO_RING_F_INDIRECT_DESC = 2 ^ 28"
definition VIRTIO_F_BAD_FEATURE :: u64 where "VIRTIO_F_BAD_FEATURE = 2 ^ 30"

lemmas virtio_id_defs = VIRTIO_ID_NETWORK_def VIRTIO_ID_BLOCK_def VIRTIO_ID_CONSOLE_def
  VIRTIO_ID_ENTROPY_def VIRTIO_ID_BALLOON_def VIRTIO_ID_IOMEMORY_def VIRTIO_ID_RPMSG_def
  VIRTIO_ID_SCSI_def VIRTIO_ID_9P_def

text \<open>The tables end with an entry whose name is NULL, respectively whose value is 0.\<close>

definition virtio_ident_table :: "(u16 \<times> string option) list" where
  "virtio_ident_table =
     [(VIRTIO_ID_NETWORK, Some ''Network''), (VIRTIO_ID_BLOCK, Some ''Block''),
      (VIRTIO_ID_CONSOLE, Some ''Console''), (VIRTIO_ID_ENTROPY, Some ''Entropy''),
      (VIRTIO_ID_BALLOON, Some ''Balloon''), (VIRTIO_ID_IOMEMORY, Some ''IOMemory''),
      (VIRTIO_ID_SCSI, Some ''SCSI''), (VIRTIO_ID_9P, Some ''9P Transport''), (0, None)]"

definition virtio_common_feature_desc :: "(u64 \<times> string option) list" where
  "virtio_common_feature_desc =
     [(VIRTIO_F_NOTIFY_ON_EMPTY, Some ''NotifyOnEmpty''),
      (VIRTIO_RING_F_INDIRECT_DESC, Some ''RingIndirect''),
      (VIRTIO_RING_F_EVENT_IDX, Some ''EventIdx''), (VIRTIO_F_BAD_FEATURE, Some ''BadFeature''),
      (0, None)]"

fun ident_loop :: "u16 \<Rightarrow> (u16 \<times> string option) list \<Rightarrow> string option cres" where
  "ident_loop devid [] = Inl Out_of_bounds"
| "ident_loop devid ((i, nm) # t) =
     (if nm = None then Inr None else if i = devid then Inr nm else ident_loop devid t)"

definition virtio_dev_name :: "u16 \<Rightarrow> string option cres" where
  "virtio_dev_name devid = ident_loop devid virtio_ident_table"

text \<open>The inner loop of \<open>virtio_feature_name\<close>: the outer \<open>None\<close> is its end without a match.\<close>

fun feature_loop :: "u64 \<Rightarrow> (u64 \<times> string option) list \<Rightarrow> string option option cres" where
  "feature_loop val [] = Inl Out_of_bounds"
| "feature_loop val ((v, nm) # t) =
     (if v = 0 then Inr None else if val = v then Inr (Some nm) else feature_loop val t)"

definition virtio_feature_name :: "u64 \<Rightarrow> (u64 \<times> string option) list option \<Rightarrow> string option cres" where
  "virtio_feature_name val dsc =
     cbind (case dsc of None \<Rightarrow> Inr None | Some t \<Rightarrow> feature_loop val t) (\<lambda>r.
       case r of Some nm \<Rightarrow> Inr nm
       | None \<Rightarrow> cbind (feature_loop val virtio_common_feature_desc) (\<lambda>r'.
           case r' of Some nm \<Rightarrow> Inr nm | None \<Rightarrow> Inr None))"

definition virtio_describe :: "(u64 \<times> string option) list option \<Rightarrow> unit cres" where
  "virtio_describe dsc = cbind (virtio_feature_name 0 dsc) (\<lambda>_. Inr ())"

subsection \<open>Devices\<close>

record virtio_vring_info =
  vi_vq :: "nat option"
  vi_info :: vring_alloc_info
  vi_notifyid :: u32
  vi_io :: ptr

record virtio_device = vq_device +
  vd_notifyid :: u32
  vd_device_id :: u32
  vd_vendor_id :: u32
  vd_reset_cb :: ptr
  vd_func_notify :: ptr
  vd_priv :: ptr
  vd_vrings_num :: u32
  vd_vrings_info :: "virtio_vring_info list"

text \<open>One round of \<open>virtio_create_virtqueues\<close>.\<close>

definition virtio_create_one ::
  "(ptr \<Rightarrow> ptr \<Rightarrow> int \<Rightarrow> vring_mem \<Rightarrow> vring_mem) \<Rightarrow> bool \<Rightarrow> ptr \<Rightarrow> virtio_device \<Rightarrow> string list \<Rightarrow> ptr list \<Rightarrow>
   nat \<Rightarrow> virtqueue list \<times> vring_mem list \<Rightarrow> (int \<times> virtqueue list \<times> vring_mem list) cres" where
  "virtio_create_one zero_ring dbg vdev_ptr vdev names callbacks i s =
     (case s of (vqs, rings) \<Rightarrow>
      cbind (rd (vd_vrings_info vdev) i) (\<lambda>info.
      cbind (rd names i) (\<lambda>name.
      cbind (rd callbacks i) (\<lambda>cb.
      case vi_vq info of
        None \<Rightarrow>
          cbind (virtqueue_create dbg vdev_ptr (vq_device.truncate vdev) (of_nat i) name
                   (Some (vi_info info)) cb (vd_func_notify vdev) None (zero_vring_mem 0)) (\<lambda>(ret, _, _).
            Inr (ret, vqs, rings))
      | Some q \<Rightarrow>
          cbind (rd vqs q) (\<lambda>vq.
          cbind (rd rings q) (\<lambda>m.
          let al = vi_info info;
              m0 = (if vd_role vdev = VIRTIO_DEV_MASTER
                    then zero_ring (vi_io info) (vai_vaddr al)
                           (vring_size (ucast (vai_num_descs al)) (ucast (vai_align al))) m
                    else m) in
          cbind (virtqueue_create dbg vdev_ptr (vq_device.truncate vdev) (of_nat i) name (Some al) cb
                   (vd_func_notify vdev) (Some vq) m0) (\<lambda>(ret, vqo, m').
            Inr (ret, (case vqo of None \<Rightarrow> vqs | Some vq' \<Rightarrow> vqs[q := vq']), rings[q := m']))))))))"

fun virtio_create_loop ::
  "(nat \<Rightarrow> 's \<Rightarrow> (int \<times> 's) cres) \<Rightarrow> nat \<Rightarrow> nat \<Rightarrow> 's \<Rightarrow> (int \<times> 's) cres" where
  "virtio_create_loop step 0 i s = Inr (0, s)"
| "virtio_create_loop step (Suc k) i s =
     cbind (step i s) (\<lambda>(ret, s').
       if ret \<noteq> 0 then Inr (ret, s') else virtio_create_loop step k (Suc i) s')"

definition virtio_create_virtqueues ::
  "(ptr \<Rightarrow> ptr \<Rightarrow> int \<Rightarrow> vring_mem \<Rightarrow> vring_mem) \<Rightarrow> bool \<Rightarrow> ptr \<Rightarrow> virtio_device \<Rightarrow> u32 \<Rightarrow> string list \<Rightarrow>
   ptr list \<Rightarrow> virtqueue list \<times> vring_mem list \<Rightarrow> (int \<times> virtqueue list \<times> vring_mem list) cres" where
  "virtio_create_virtqueues zero_ring dbg vdev_ptr vdev nvqs names callbacks s =
     (if vd_vrings_num vdev < nvqs then Inr (ERROR_VQUEUE_INVLD_PARAM, s)
      else virtio_create_loop (virtio_create_one zero_ring dbg vdev_ptr vdev names callbacks)
             (unat nvqs) 0 s)"

text \<open>The tables are terminated, so the searches never run off their end.\<close>

lemma feature_loop_common: "\<exists>r. feature_loop val virtio_common_feature_desc = Inr r"
  by (simp add: virtio_common_feature_desc_def)

lemma ident_loop_table: "\<exists>r. ident_loop devid virtio_ident_table = Inr r"
  by (simp add: virtio_ident_table_def)

lemma feature_loop_terminated:
  "\<exists>(v, nm) \<in> set t. v = 0 \<Longrightarrow> \<exists>r. feature_loop val t = Inr r"
  by (induction val t rule: feature_loop.induct) auto

end
