(* ===== verification/App_Base.thy ===== *)
theory App_Base
  imports Rpc_System Virtio
begin

text \<open>
  What the example programs of \<open>apps/examples\<close> and the tests of \<open>apps/tests\<close> share. The programs come in pairs: a service on one
  processor, which answers messages, and a client on the other one, which sends messages and checks the answers. They were copied from each other;
  what is the same in all copies is defined here once.

  The state of a program is its rpmsg state, its static variables, and the number of blocks that it has allocated. The parameter record \<open>app_env\<close>
  holds what a program calls below: libmetal's bitmaps and allocation, the transport, \<open>rpmsg_virtio_get_buffer_size\<close>, and \<open>platform_poll\<close>, which runs
  the callbacks of the program. The argument \<open>data\<close> of a callback is the receive buffer from the payload on, of which \<open>len\<close> bytes are the message.
\<close>

record ('s, 'v) app_world =
  aw_rpmsg :: 's
  aw_vars :: 'v
  aw_blocks :: nat

type_synonym ('b, 'x, 'v) app_w = "(('b, 'x) rpmsg_state_scheme, 'v) app_world"

record ('b, 's, 'v) app_env =
  ae_bitmap :: "'b bitmap_ops"
  ae_send :: "u32 \<Rightarrow> u32 \<Rightarrow> u8 list \<Rightarrow> int \<Rightarrow> bool \<Rightarrow> 's \<Rightarrow> (int \<times> 's) cres"
  ae_buffer_size :: "'s \<Rightarrow> (int \<times> 's) cres"
  ae_alloc :: "u64 \<Rightarrow> bool"
  ae_poll :: "('s, 'v) app_world \<Rightarrow> ('s, 'v) app_world cres"

type_synonym ('b, 'x, 'v) app_e = "('b, ('b, 'x) rpmsg_state_scheme, 'v) app_env"

definition app_send ::
  "('b, 'x, 'v) app_e \<Rightarrow> ptr \<Rightarrow> u8 list \<Rightarrow> ('b, 'x, 'v) app_w \<Rightarrow> (int \<times> ('b, 'x, 'v) app_w) cres" where
  "app_send env ept d w =
     cbind (rpmsg_send (ae_send env) ept (Some d) (int (length d)) (aw_rpmsg w)) (\<lambda>(ret, s). Inr (ret, w\<lparr>aw_rpmsg := s\<rparr>))"

definition app_create_ept ::
  "('b, 'x, 'v) app_e \<Rightarrow> ptr \<Rightarrow> u8 list \<Rightarrow> u32 \<Rightarrow> u32 \<Rightarrow> ptr \<Rightarrow> ptr \<Rightarrow> ('b, 'x, 'v) app_w \<Rightarrow> (int \<times> ('b, 'x, 'v) app_w) cres" where
  "app_create_ept env ept name src dest cb ucb w =
     cbind (rpmsg_create_ept (ae_bitmap env) (ae_send env) ept (Some name) src dest cb ucb (aw_rpmsg w))
       (\<lambda>(ret, s). Inr (ret, w\<lparr>aw_rpmsg := s\<rparr>))"

definition app_destroy_ept :: "('b, 'x, 'v) app_e \<Rightarrow> ptr \<Rightarrow> ('b, 'x, 'v) app_w \<Rightarrow> ('b, 'x, 'v) app_w cres" where
  "app_destroy_ept env ept w =
     cbind (rpmsg_destroy_ept (ae_bitmap env) (ae_send env) ept (aw_rpmsg w)) (\<lambda>s. Inr (w\<lparr>aw_rpmsg := s\<rparr>))"

subsection \<open>Loops that poll\<close>

text \<open>
  \<open>do platform_poll(priv); while (go)\<close>, the loop with the test first, and the wait for an endpoint. They run on fuel and hang without it.
\<close>

fun do_poll :: "nat \<Rightarrow> ('b, 's, 'v) app_env \<Rightarrow> (('s, 'v) app_world \<Rightarrow> bool) \<Rightarrow> ('s, 'v) app_world \<Rightarrow> ('s, 'v) app_world cres" where
  "do_poll 0 env go w = Inl Hang"
| "do_poll (Suc fuel) env go w = cbind (ae_poll env w) (\<lambda>w1. if go w1 then do_poll fuel env go w1 else Inr w1)"

fun while_poll :: "nat \<Rightarrow> ('b, 's, 'v) app_env \<Rightarrow> (('s, 'v) app_world \<Rightarrow> bool) \<Rightarrow> ('s, 'v) app_world \<Rightarrow> ('s, 'v) app_world cres" where
  "while_poll 0 env go w = Inl Hang"
| "while_poll (Suc fuel) env go w = (if go w then cbind (ae_poll env w) (while_poll fuel env go) else Inr w)"

fun wait_ept_ready :: "nat \<Rightarrow> ('b, 'x, 'v) app_e \<Rightarrow> ptr \<Rightarrow> ('b, 'x, 'v) app_w \<Rightarrow> ('b, 'x, 'v) app_w cres" where
  "wait_ept_ready 0 env ept w = Inl Hang"
| "wait_ept_ready (Suc fuel) env ept w =
     cbind (is_rpmsg_ept_ready (aw_rpmsg w) ept) (\<lambda>ready.
     if ready then Inr w else cbind (ae_poll env w) (wait_ept_ready fuel env ept))"

subsection \<open>Services\<close>

definition SHUTDOWN_MSG :: u32 where "SHUTDOWN_MSG = 0xEF56A55A"

record service_vars =
  sv_shutdown_req :: bool

definition shutdown_requested :: "('s, 'v service_vars_scheme) app_world \<Rightarrow> bool" where
  "shutdown_requested w = sv_shutdown_req (aw_vars w)"

definition request_shutdown :: "('s, 'v service_vars_scheme) app_world \<Rightarrow> ('s, 'v service_vars_scheme) app_world" where
  "request_shutdown w = w\<lparr>aw_vars := (aw_vars w)\<lparr>sv_shutdown_req := True\<rparr>\<rparr>"

text \<open>\<open>rpmsg_service_unbind\<close> and \<open>app\<close>, the same in all services up to the name.\<close>

definition service_unbind :: "('s, 'v service_vars_scheme) app_world \<Rightarrow> ('s, 'v service_vars_scheme) app_world" where
  "service_unbind w = request_shutdown w"

definition service_app ::
  "nat \<Rightarrow> ('b, 'x, 'v service_vars_scheme) app_e \<Rightarrow> u8 list \<Rightarrow> ptr \<Rightarrow> ptr \<Rightarrow> ptr \<Rightarrow> ('b, 'x, 'v service_vars_scheme) app_w \<Rightarrow>
   (int \<times> ('b, 'x, 'v service_vars_scheme) app_w) cres" where
  "service_app fuel env name cb ucb lept w =
     cbind (app_create_ept env lept name RPMSG_ADDR_ANY RPMSG_ADDR_ANY cb ucb w) (\<lambda>(ret, w1).
     if ret \<noteq> 0 then Inr (-1, w1)
     else
       cbind (do_poll fuel env (\<lambda>w. \<not> shutdown_requested w) w1) (\<lambda>w2.
       cbind (app_destroy_ept env lept w2) (\<lambda>w3. Inr (0, w3))))"

subsection \<open>Clients\<close>

record client_vars =
  cv_err_cnt :: int
  cv_rnum :: int
  cv_ept_deleted :: bool

definition count_error :: "('s, 'v client_vars_scheme) app_world \<Rightarrow> ('s, 'v client_vars_scheme) app_world" where
  "count_error w = w\<lparr>aw_vars := (aw_vars w)\<lparr>cv_err_cnt := cv_err_cnt (aw_vars w) + 1\<rparr>\<rparr>"

text \<open>\<open>rpmsg_service_unbind\<close> and \<open>rpmsg_name_service_bind_cb\<close>; \<open>src\<close> is the local address that the program asks for.\<close>

definition client_unbind ::
  "('b, 'x, 'v client_vars_scheme) app_e \<Rightarrow> ptr \<Rightarrow> ('b, 'x, 'v client_vars_scheme) app_w \<Rightarrow> ('b, 'x, 'v client_vars_scheme) app_w cres" where
  "client_unbind env lept w =
     cbind (app_destroy_ept env lept w) (\<lambda>w1. Inr (w1\<lparr>aw_vars := (aw_vars w1)\<lparr>cv_ept_deleted := True\<rparr>\<rparr>))"

definition client_bind ::
  "('b, 'x, 'v) app_e \<Rightarrow> u8 list \<Rightarrow> u32 \<Rightarrow> ptr \<Rightarrow> ptr \<Rightarrow> ptr \<Rightarrow> u8 list \<Rightarrow> u32 \<Rightarrow> ('b, 'x, 'v) app_w \<Rightarrow> ('b, 'x, 'v) app_w cres" where
  "client_bind env service src cb ucb lept name dest w =
     (if name \<noteq> service then Inr w
      else cbind (app_create_ept env lept service src dest cb ucb w) (\<lambda>(_, w1). Inr w1))"

subsection \<open>The entry point\<close>

text \<open>
  \<open>main\<close>, the same in all programs up to the role and the name service callback, which services do not have. The platform functions are those of a port; \<open>pl_run\<close> runs a program on an rpmsg device, where the state
  of the program is a part of the world. \<open>junk\<close> is the content of the local variable \<open>platform\<close>, which \<open>platform_init\<close> only sets when it succeeds.
\<close>

record ('p, 'd, 'w, 'a) platform_ops =
  pl_init :: "'w \<Rightarrow> (int \<times> 'p option \<times> 'w) cres"
  pl_create_rpmsg_vdev :: "'p \<Rightarrow> u32 \<Rightarrow> u32 \<Rightarrow> ptr \<Rightarrow> ptr \<Rightarrow> 'w \<Rightarrow> ('d option \<times> 'w) cres"
  pl_run :: "'d \<Rightarrow> 'p \<Rightarrow> ('a \<Rightarrow> (int \<times> 'a) cres) \<Rightarrow> 'w \<Rightarrow> (int \<times> 'w) cres"
  pl_release_rpmsg_vdev :: "'d \<Rightarrow> 'w \<Rightarrow> 'w cres"
  pl_cleanup :: "'p \<Rightarrow> 'w \<Rightarrow> 'w cres"

definition example_main ::
  "('p, 'd, 'w, 'a) platform_ops \<Rightarrow> u32 \<Rightarrow> ptr \<Rightarrow> ('a \<Rightarrow> (int \<times> 'a) cres) \<Rightarrow> 'p \<Rightarrow> 'w \<Rightarrow> (int \<times> 'w) cres" where
  "example_main pl role bind_cb app junk w =
     cbind (pl_init pl w) (\<lambda>(ret, platform, w1).
     let p = (case platform of None \<Rightarrow> junk | Some p \<Rightarrow> p) in
     cbind (if ret \<noteq> 0 then Inr (-1, w1)
            else cbind (pl_create_rpmsg_vdev pl p 0 role NULL bind_cb w1) (\<lambda>(rpdev, w2).
              case rpdev of None \<Rightarrow> Inr (-1, w2)
              | Some d \<Rightarrow> cbind (pl_run pl d p app w2) (\<lambda>(_, w3). cbind (pl_release_rpmsg_vdev pl d w3) (\<lambda>w4. Inr (0, w4)))))
       (\<lambda>(ret', w5). cbind (pl_cleanup pl p w5) (\<lambda>w6. Inr (ret', w6))))"

end
