(* ===== verification/Echo_Apps.thy ===== *)
theory Echo_Apps
  imports App_Base
begin

text \<open>
  The programs that echo messages, one definition per function: \<open>apps/examples/echo\<close> (service \<open>rpmsg-echo.c\<close>, client \<open>rpmsg-ping.c\<close>),
  \<open>apps/tests/msg\<close> (service \<open>rpmsg-update.c\<close>, clients \<open>rpmsg-ping.c\<close> and \<open>rpmsg-flood-ping.c\<close>) and \<open>apps/examples/rpmsg_sample_echo\<close>
  (service \<open>rpmsg-sample-echo.c\<close>, client \<open>rpmsg-sample-ping.c\<close>). All but the last two use the service name of the proxy. The pointers
  of callbacks are fixed addresses.
\<close>

definition APP_CB :: ptr where "APP_CB = 0x400"
definition APP_UNBIND :: ptr where "APP_UNBIND = 0x410"
definition APP_BIND :: ptr where "APP_BIND = 0x440"

subsection \<open>The echo service\<close>

definition echo_endpoint_cb ::
  "('b, 'x, 'v service_vars_scheme) app_e \<Rightarrow> ptr \<Rightarrow> u8 list \<Rightarrow> u64 \<Rightarrow> ('b, 'x, 'v service_vars_scheme) app_w \<Rightarrow>
   (int \<times> ('b, 'x, 'v service_vars_scheme) app_w) cres" where
  "echo_endpoint_cb env ept data len w =
     cbind (sub_bytes data 0 4) (\<lambda>b.
     if le_word b = SHUTDOWN_MSG then Inr (RPMSG_SUCCESS, request_shutdown w)
     else
       cbind (sub_bytes data 0 (unat len)) (\<lambda>d.
       cbind (app_send env ept d w) (\<lambda>(_, w1). Inr (RPMSG_SUCCESS, w1))))"

definition echo_service_unbind :: "('s, 'v service_vars_scheme) app_world \<Rightarrow> ('s, 'v service_vars_scheme) app_world" where
  "echo_service_unbind = service_unbind"

definition echo_app ::
  "nat \<Rightarrow> ('b, 'x, 'v service_vars_scheme) app_e \<Rightarrow> ptr \<Rightarrow> ('b, 'x, 'v service_vars_scheme) app_w \<Rightarrow>
   (int \<times> ('b, 'x, 'v service_vars_scheme) app_w) cres" where
  "echo_app fuel env lept = service_app fuel env RPMSG_SERVICE_NAME APP_CB APP_UNBIND lept"

definition echo_main ::
  "nat \<Rightarrow> ('b, 'x, 'v service_vars_scheme) app_e \<Rightarrow> ptr \<Rightarrow> ('p, 'd, 'w, ('b, 'x, 'v service_vars_scheme) app_w) platform_ops \<Rightarrow>
   'p \<Rightarrow> 'w \<Rightarrow> (int \<times> 'w) cres" where
  "echo_main fuel env lept pl = example_main pl VIRTIO_DEV_SLAVE NULL (echo_app fuel env lept)"

text \<open>The service of the tests tries again while there is no buffer.\<close>

fun update_send ::
  "nat \<Rightarrow> ('b, 'x, 'v) app_e \<Rightarrow> ptr \<Rightarrow> u8 list \<Rightarrow> ('b, 'x, 'v) app_w \<Rightarrow> ('b, 'x, 'v) app_w cres" where
  "update_send 0 env ept d w = Inl Hang"
| "update_send (Suc fuel) env ept d w =
     cbind (app_send env ept d w) (\<lambda>(ret, w1). if ret = RPMSG_ERR_NO_BUFF then update_send fuel env ept d w1 else Inr w1)"

definition update_endpoint_cb ::
  "nat \<Rightarrow> ('b, 'x, 'v service_vars_scheme) app_e \<Rightarrow> ptr \<Rightarrow> u8 list \<Rightarrow> u64 \<Rightarrow> ('b, 'x, 'v service_vars_scheme) app_w \<Rightarrow>
   (int \<times> ('b, 'x, 'v service_vars_scheme) app_w) cres" where
  "update_endpoint_cb fuel env ept data len w =
     cbind (sub_bytes data 0 4) (\<lambda>b.
     if le_word b = SHUTDOWN_MSG then Inr (RPMSG_SUCCESS, request_shutdown w)
     else
       cbind (sub_bytes data 0 (unat len)) (\<lambda>d.
       cbind (update_send fuel env ept d w) (\<lambda>w1. Inr (RPMSG_SUCCESS, w1))))"

definition update_service_unbind :: "('s, 'v service_vars_scheme) app_world \<Rightarrow> ('s, 'v service_vars_scheme) app_world" where
  "update_service_unbind = service_unbind"

definition rpmsg_update_app ::
  "nat \<Rightarrow> ('b, 'x, 'v service_vars_scheme) app_e \<Rightarrow> ptr \<Rightarrow> ('b, 'x, 'v service_vars_scheme) app_w \<Rightarrow>
   (int \<times> ('b, 'x, 'v service_vars_scheme) app_w) cres" where
  "rpmsg_update_app fuel env lept = service_app fuel env RPMSG_SERVICE_NAME APP_CB APP_UNBIND lept"

definition update_main ::
  "nat \<Rightarrow> ('b, 'x, 'v service_vars_scheme) app_e \<Rightarrow> ptr \<Rightarrow> ('p, 'd, 'w, ('b, 'x, 'v service_vars_scheme) app_w) platform_ops \<Rightarrow>
   'p \<Rightarrow> 'w \<Rightarrow> (int \<times> 'w) cres" where
  "update_main fuel env lept pl = example_main pl VIRTIO_DEV_SLAVE NULL (rpmsg_update_app fuel env lept)"

text \<open>The sample service answers a limited number of messages; its counter is a static variable of 32 bits.\<close>

definition RPMSG_SERV_NAME :: "u8 list" where
  "RPMSG_SERV_NAME = [0x72, 0x70, 0x6d, 0x73, 0x67, 0x2d, 0x63, 0x6c, 0x69, 0x65, 0x6e, 0x74, 0x2d, 0x73, 0x61, 0x6d, 0x70, 0x6c, 0x65]"
definition MSG_LIMIT :: u32 where "MSG_LIMIT = 100"

record sample_vars = service_vars +
  se_count :: u32

definition sample_echo_cb ::
  "('b, 'x, sample_vars) app_e \<Rightarrow> ptr \<Rightarrow> u8 list \<Rightarrow> u64 \<Rightarrow> ('b, 'x, sample_vars) app_w \<Rightarrow>
   (int \<times> ('b, 'x, sample_vars) app_w) cres" where
  "sample_echo_cb env ept data len w =
     cbind (sub_bytes data 0 (unat len)) (\<lambda>d.
     if 512 < unat len then Inl Out_of_bounds
     else
       let count = se_count (aw_vars w) + 1;
           w1 = w\<lparr>aw_vars := (aw_vars w)\<lparr>se_count := count\<rparr>\<rparr> in
       if count \<le> MSG_LIMIT then
         cbind (app_send env ept d w1) (\<lambda>(ret, w2).
         Inr (RPMSG_SUCCESS, if ret < 0 \<or> count = MSG_LIMIT then request_shutdown w2 else w2))
       else Inr (RPMSG_SUCCESS, w1))"

definition sample_service_unbind :: "('s, 'v service_vars_scheme) app_world \<Rightarrow> ('s, 'v service_vars_scheme) app_world" where
  "sample_service_unbind = service_unbind"

definition sample_echo_app ::
  "nat \<Rightarrow> ('b, 'x, sample_vars) app_e \<Rightarrow> ptr \<Rightarrow> ('b, 'x, sample_vars) app_w \<Rightarrow> (int \<times> ('b, 'x, sample_vars) app_w) cres" where
  "sample_echo_app fuel env lept = service_app fuel env RPMSG_SERV_NAME APP_CB APP_UNBIND lept"

definition sample_echo_main ::
  "nat \<Rightarrow> ('b, 'x, sample_vars) app_e \<Rightarrow> ptr \<Rightarrow> ('p, 'd, 'w, ('b, 'x, sample_vars) app_w) platform_ops \<Rightarrow>
   'p \<Rightarrow> 'w \<Rightarrow> (int \<times> 'w) cres" where
  "sample_echo_main fuel env lept pl = example_main pl VIRTIO_DEV_SLAVE NULL (sample_echo_app fuel env lept)"

subsection \<open>The client of the echo service\<close>

definition PAYLOAD_MIN_SIZE :: int where "PAYLOAD_MIN_SIZE = 1"
definition PAYLOAD_HDR :: nat where "PAYLOAD_HDR = 16"

record payload =
  py_num :: u64
  py_size :: u64
  py_data :: "u8 list"

definition payload_bytes :: "payload \<Rightarrow> u8 list" where
  "payload_bytes p = le_bytes 8 (py_num p) @ le_bytes 8 (py_size p) @ py_data p"

record ping_vars = client_vars +
  pg_payload :: payload

text \<open>The fields of a received payload.\<close>

definition r_num :: "u8 list \<Rightarrow> u64" where "r_num data = le_word (take 8 data)"
definition r_size :: "u8 list \<Rightarrow> u64" where "r_size data = le_word (take 8 (drop 8 data))"

text \<open>The loop over the data from index \<open>i\<close> on: is there a byte that is not \<open>0xA5\<close>?\<close>

fun ping_check :: "nat \<Rightarrow> u8 list \<Rightarrow> nat \<Rightarrow> bool cres" where
  "ping_check 0 data i = Inr True"
| "ping_check (Suc n) data i =
     cbind (rd data (PAYLOAD_HDR + i)) (\<lambda>b. if b \<noteq> 0xA5 then Inr False else ping_check n data (Suc i))"

definition ping_endpoint_cb ::
  "u8 list \<Rightarrow> u64 \<Rightarrow> ('s, 'v client_vars_scheme) app_world \<Rightarrow> (int \<times> ('s, 'v client_vars_scheme) app_world) cres" where
  "ping_endpoint_cb data len w =
     (if length data < PAYLOAD_HDR then Inl Out_of_bounds
      else if r_size data = 0 then Inr (RPMSG_SUCCESS, count_error w)
      else
        cbind (ping_check (nat (signed_take_bit 31 (uint (r_size data)))) data 0) (\<lambda>ok.
        let w1 = (if ok then w else count_error w) in
        Inr (RPMSG_SUCCESS, w1\<lparr>aw_vars := (aw_vars w1)\<lparr>cv_rnum := signed_take_bit 31 (uint (r_num data + 1))\<rparr>\<rparr>)))"

definition ping_service_unbind ::
  "('b, 'x, 'v client_vars_scheme) app_e \<Rightarrow> ptr \<Rightarrow> ('b, 'x, 'v client_vars_scheme) app_w \<Rightarrow> ('b, 'x, 'v client_vars_scheme) app_w cres" where
  "ping_service_unbind = client_unbind"

definition ping_name_service_bind_cb ::
  "('b, 'x, 'v) app_e \<Rightarrow> ptr \<Rightarrow> u8 list \<Rightarrow> u32 \<Rightarrow> ('b, 'x, 'v) app_w \<Rightarrow> ('b, 'x, 'v) app_w cres" where
  "ping_name_service_bind_cb env lept = client_bind env RPMSG_SERVICE_NAME RPMSG_ADDR_ANY APP_CB APP_UNBIND lept"

text \<open>One round of the loop of \<open>app\<close>: mark the data, send it. \<open>memset\<close> must stay inside of the allocated data.\<close>

definition ping_fill :: "int \<Rightarrow> int \<Rightarrow> payload \<Rightarrow> payload cres" where
  "ping_fill i sz p =
     (if nat sz \<le> length (py_data p)
      then Inr \<lparr>py_num = word_of_int i, py_size = word_of_int sz,
                py_data = replicate (nat sz) 0xA5 @ drop (nat sz) (py_data p)\<rparr>
      else Inl Out_of_bounds)"

definition ping_waits :: "int \<Rightarrow> ('s, 'v client_vars_scheme) app_world \<Rightarrow> bool" where
  "ping_waits expect_rnum w \<longleftrightarrow>
     cv_rnum (aw_vars w) < expect_rnum \<and> cv_err_cnt (aw_vars w) = 0 \<and> \<not> cv_ept_deleted (aw_vars w)"

fun ping_rounds ::
  "nat \<Rightarrow> nat \<Rightarrow> ('b, 'x, ping_vars) app_e \<Rightarrow> ptr \<Rightarrow> int \<Rightarrow> ('b, 'x, ping_vars) app_w \<Rightarrow> ('b, 'x, ping_vars) app_w cres" where
  "ping_rounds 0 fuel env lept i w = Inr w"
| "ping_rounds (Suc n) fuel env lept i w =
     (let sz = PAYLOAD_MIN_SIZE + i in
      cbind (ping_fill i sz (pg_payload (aw_vars w))) (\<lambda>p.
      let w1 = w\<lparr>aw_vars := (aw_vars w)\<lparr>pg_payload := p\<rparr>\<rparr> in
      cbind (app_send env lept (take (PAYLOAD_HDR + nat sz) (payload_bytes p)) w1) (\<lambda>(ret, w2).
      if ret < 0 then Inr w2
      else cbind (do_poll fuel env (ping_waits (i + 1)) w2) (ping_rounds n fuel env lept (i + 1)))))"

text \<open>\<open>app\<close>; \<open>junk\<close> is the content of the allocated block. When the endpoint cannot be created the block is not freed, as in the code.\<close>

definition ping_app ::
  "nat \<Rightarrow> ('b, 'x, ping_vars) app_e \<Rightarrow> (nat \<Rightarrow> u8) \<Rightarrow> ptr \<Rightarrow> ('b, 'x, ping_vars) app_w \<Rightarrow>
   (int \<times> ('b, 'x, ping_vars) app_w) cres" where
  "ping_app fuel env junk lept w =
     cbind (ae_buffer_size env (aw_rpmsg w)) (\<lambda>(n, s).
     let w1 = w\<lparr>aw_rpmsg := s\<rparr> in
     if n < 0 then Inr (-1, w1)
     else
       let max_size = n - int PAYLOAD_HDR; num_payloads = max_size - PAYLOAD_MIN_SIZE + 1 in
       if \<not> ae_alloc env (word_of_int (int PAYLOAD_HDR + max_size)) then Inr (-1, w1)
       else
         let w2 = w1\<lparr>aw_blocks := aw_blocks w1 + 1,
                     aw_vars := (aw_vars w1)\<lparr>pg_payload := \<lparr>py_num = 0, py_size = 0, py_data = map junk [0..<nat max_size]\<rparr>\<rparr>\<rparr> in
         cbind (app_create_ept env lept RPMSG_SERVICE_NAME RPMSG_ADDR_ANY RPMSG_ADDR_ANY APP_CB APP_UNBIND w2) (\<lambda>(ret, w3).
         if ret \<noteq> 0 then Inr (ret, w3)
         else
           cbind (wait_ept_ready fuel env lept w3) (\<lambda>w4.
           cbind (ping_rounds (nat num_payloads) fuel env lept 0 w4) (\<lambda>w5.
           cbind (app_destroy_ept env lept w5) (\<lambda>w6.
           Inr (0, w6\<lparr>aw_blocks := aw_blocks w6 - 1\<rparr>))))))"

definition ping_main ::
  "nat \<Rightarrow> ('b, 'x, ping_vars) app_e \<Rightarrow> (nat \<Rightarrow> u8) \<Rightarrow> ptr \<Rightarrow> ('p, 'd, 'w, ('b, 'x, ping_vars) app_w) platform_ops \<Rightarrow>
   'p \<Rightarrow> 'w \<Rightarrow> (int \<times> 'w) cres" where
  "ping_main fuel env junk lept pl = example_main pl VIRTIO_DEV_MASTER APP_BIND (ping_app fuel env junk lept)"

text \<open>The client of the tests is a copy of this program.\<close>

definition test_ping_endpoint_cb ::
  "u8 list \<Rightarrow> u64 \<Rightarrow> ('s, 'v client_vars_scheme) app_world \<Rightarrow> (int \<times> ('s, 'v client_vars_scheme) app_world) cres" where
  "test_ping_endpoint_cb = ping_endpoint_cb"

definition test_ping_unbind ::
  "('b, 'x, 'v client_vars_scheme) app_e \<Rightarrow> ptr \<Rightarrow> ('b, 'x, 'v client_vars_scheme) app_w \<Rightarrow> ('b, 'x, 'v client_vars_scheme) app_w cres" where
  "test_ping_unbind = client_unbind"

definition test_ping_bind ::
  "('b, 'x, 'v) app_e \<Rightarrow> ptr \<Rightarrow> u8 list \<Rightarrow> u32 \<Rightarrow> ('b, 'x, 'v) app_w \<Rightarrow> ('b, 'x, 'v) app_w cres" where
  "test_ping_bind env lept = client_bind env RPMSG_SERVICE_NAME RPMSG_ADDR_ANY APP_CB APP_UNBIND lept"

definition test_ping_app ::
  "nat \<Rightarrow> ('b, 'x, ping_vars) app_e \<Rightarrow> (nat \<Rightarrow> u8) \<Rightarrow> ptr \<Rightarrow> ('b, 'x, ping_vars) app_w \<Rightarrow>
   (int \<times> ('b, 'x, ping_vars) app_w) cres" where
  "test_ping_app = ping_app"

definition test_ping_main ::
  "nat \<Rightarrow> ('b, 'x, ping_vars) app_e \<Rightarrow> (nat \<Rightarrow> u8) \<Rightarrow> ptr \<Rightarrow> ('p, 'd, 'w, ('b, 'x, ping_vars) app_w) platform_ops \<Rightarrow>
   'p \<Rightarrow> 'w \<Rightarrow> (int \<times> 'w) cres" where
  "test_ping_main fuel env junk lept pl = example_main pl VIRTIO_DEV_MASTER APP_BIND (test_ping_app fuel env junk lept)"

subsection \<open>The client that floods the service\<close>

definition APP_EPT_ADDR :: u32 where "APP_EPT_ADDR = 1024"
definition NUMS_PACKAGES :: nat where "NUMS_PACKAGES = 0x100000"

text \<open>The loop over the data: is there a byte that differs from the payload of this program?\<close>

fun flood_check :: "nat \<Rightarrow> u8 list \<Rightarrow> u8 list \<Rightarrow> nat \<Rightarrow> bool cres" where
  "flood_check 0 data i_data i = Inr True"
| "flood_check (Suc n) data i_data i =
     cbind (rd data (PAYLOAD_HDR + i)) (\<lambda>b.
     cbind (rd i_data i) (\<lambda>c. if b \<noteq> c then Inr False else flood_check n data i_data (Suc i)))"

definition flood_endpoint_cb ::
  "u8 list \<Rightarrow> u64 \<Rightarrow> ('s, ping_vars) app_world \<Rightarrow> (int \<times> ('s, ping_vars) app_world) cres" where
  "flood_endpoint_cb data len w =
     (if length data < PAYLOAD_HDR then Inl Out_of_bounds
      else if r_size data = 0 \<or> 496 < r_size data then Inr (RPMSG_SUCCESS, count_error w)
      else
        cbind (flood_check (unat (r_size data)) data (py_data (pg_payload (aw_vars w))) 0) (\<lambda>ok.
        let w1 = (if ok then w else count_error w) in
        Inr (RPMSG_SUCCESS, w1\<lparr>aw_vars := (aw_vars w1)\<lparr>cv_rnum := signed_take_bit 31 (uint (r_num data + 1))\<rparr>\<rparr>)))"

definition flood_service_unbind ::
  "('b, 'x, 'v client_vars_scheme) app_e \<Rightarrow> ptr \<Rightarrow> ('b, 'x, 'v client_vars_scheme) app_w \<Rightarrow> ('b, 'x, 'v client_vars_scheme) app_w cres" where
  "flood_service_unbind = client_unbind"

definition flood_name_service_bind_cb ::
  "('b, 'x, 'v) app_e \<Rightarrow> ptr \<Rightarrow> u8 list \<Rightarrow> u32 \<Rightarrow> ('b, 'x, 'v) app_w \<Rightarrow> ('b, 'x, 'v) app_w cres" where
  "flood_name_service_bind_cb env lept = client_bind env RPMSG_SERVICE_NAME APP_EPT_ADDR APP_CB APP_UNBIND lept"

text \<open>
  The three loops: send one package as soon as there is a buffer, send all packages of one size, go through the sizes. The variable \<open>ret\<close>
  keeps its value when the innermost loop is not entered.
\<close>

definition client_failed :: "('s, 'v client_vars_scheme) app_world \<Rightarrow> bool" where
  "client_failed w \<longleftrightarrow> cv_err_cnt (aw_vars w) \<noteq> 0 \<or> cv_ept_deleted (aw_vars w)"

fun flood_try ::
  "nat \<Rightarrow> ('b, 'x, 'v client_vars_scheme) app_e \<Rightarrow> ptr \<Rightarrow> u8 list \<Rightarrow> int \<Rightarrow> ('b, 'x, 'v client_vars_scheme) app_w \<Rightarrow>
   (int \<times> ('b, 'x, 'v client_vars_scheme) app_w) cres" where
  "flood_try 0 env lept d ret w = Inl Hang"
| "flood_try (Suc fuel) env lept d ret w =
     (if client_failed w then Inr (ret, w)
      else
        cbind (rpmsg_trysend (ae_send env) lept (Some d) (int (length d)) (aw_rpmsg w)) (\<lambda>(ret', s).
        let w1 = w\<lparr>aw_rpmsg := s\<rparr> in
        if ret' = RPMSG_ERR_NO_BUFF then cbind (ae_poll env w1) (flood_try fuel env lept d ret') else Inr (ret', w1)))"

fun flood_packages ::
  "nat \<Rightarrow> nat \<Rightarrow> ('b, 'x, ping_vars) app_e \<Rightarrow> ptr \<Rightarrow> nat \<Rightarrow> int \<Rightarrow> int \<Rightarrow> ('b, 'x, ping_vars) app_w \<Rightarrow>
   (int \<times> ('b, 'x, ping_vars) app_w) cres" where
  "flood_packages 0 fuel env lept s i ret w = Inr (ret, w)"
| "flood_packages (Suc n) fuel env lept s i ret w =
     (let p = (pg_payload (aw_vars w))\<lparr>py_num := word_of_int i\<rparr>;
          w1 = w\<lparr>aw_vars := (aw_vars w)\<lparr>pg_payload := p\<rparr>\<rparr> in
      cbind (flood_try fuel env lept (take (PAYLOAD_HDR + s) (payload_bytes p)) ret w1) (\<lambda>(ret', w2).
      if ret' < 0 \<or> client_failed w2 then Inr (ret', w2) else flood_packages n fuel env lept s (i + 1) ret' w2))"

fun flood_sizes ::
  "nat \<Rightarrow> nat \<Rightarrow> nat \<Rightarrow> ('b, 'x, ping_vars) app_e \<Rightarrow> ptr \<Rightarrow> nat \<Rightarrow> int \<Rightarrow> ('b, 'x, ping_vars) app_w \<Rightarrow>
   ('b, 'x, ping_vars) app_w cres" where
  "flood_sizes 0 num_pkgs fuel env lept s ret w = Inr w"
| "flood_sizes (Suc n) num_pkgs fuel env lept s ret w =
     (let w1 = w\<lparr>aw_vars := (aw_vars w)\<lparr>pg_payload := (pg_payload (aw_vars w))\<lparr>py_size := of_nat s\<rparr>, cv_rnum := 0\<rparr>\<rparr> in
      cbind (flood_packages num_pkgs fuel env lept s 0 ret w1) (\<lambda>(ret', w2).
      if ret' < 0 then Inr w2
      else
        cbind (while_poll fuel env (\<lambda>w. cv_rnum (aw_vars w) < int num_pkgs \<and> \<not> client_failed w) w2) (\<lambda>w3.
        if client_failed w3 then Inr w3 else flood_sizes n num_pkgs fuel env lept (Suc s) ret' w3)))"

definition flood_app ::
  "nat \<Rightarrow> ('b, 'x, ping_vars) app_e \<Rightarrow> (nat \<Rightarrow> u8) \<Rightarrow> ptr \<Rightarrow> ('b, 'x, ping_vars) app_w \<Rightarrow>
   (int \<times> ('b, 'x, ping_vars) app_w) cres" where
  "flood_app fuel env junk lept w =
     cbind (ae_buffer_size env (aw_rpmsg w)) (\<lambda>(n, s).
     let w1 = w\<lparr>aw_rpmsg := s\<rparr> in
     if n < 0 \<or> \<not> ae_alloc env (word_of_int n) then Inr (-1, w1)
     else
       let max_size = n - int PAYLOAD_HDR;
           w2 = w1\<lparr>aw_blocks := aw_blocks w1 + 1,
                   aw_vars := (aw_vars w1)\<lparr>pg_payload := \<lparr>py_num = 0, py_size = 0, py_data = map junk [0..<nat max_size]\<rparr>\<rparr>\<rparr> in
       cbind (app_create_ept env lept RPMSG_SERVICE_NAME APP_EPT_ADDR RPMSG_ADDR_ANY APP_CB APP_UNBIND w2) (\<lambda>(ret, w3).
       if ret \<noteq> 0 then Inr (ret, w3)
       else
         cbind (wait_ept_ready fuel env lept w3) (\<lambda>w4.
         if max_size < 0 then Inl Out_of_bounds
         else
           let p = (pg_payload (aw_vars w4))\<lparr>py_data := replicate (nat max_size) 0xA5\<rparr> in
           cbind (flood_sizes (nat max_size) NUMS_PACKAGES fuel env lept (nat PAYLOAD_MIN_SIZE) ret
                    (w4\<lparr>aw_vars := (aw_vars w4)\<lparr>pg_payload := p\<rparr>\<rparr>)) (\<lambda>w5.
           cbind (app_destroy_ept env lept w5) (\<lambda>w6.
           Inr (0, w6\<lparr>aw_blocks := aw_blocks w6 - 1\<rparr>))))))"

definition flood_main ::
  "nat \<Rightarrow> ('b, 'x, ping_vars) app_e \<Rightarrow> (nat \<Rightarrow> u8) \<Rightarrow> ptr \<Rightarrow> ('p, 'd, 'w, ('b, 'x, ping_vars) app_w) platform_ops \<Rightarrow>
   'p \<Rightarrow> 'w \<Rightarrow> (int \<times> 'w) cres" where
  "flood_main fuel env junk lept pl = example_main pl VIRTIO_DEV_MASTER APP_BIND (flood_app fuel env junk lept)"

subsection \<open>The sample client\<close>

definition HELLO_MSG :: "u8 list" where
  "HELLO_MSG = [0x68, 0x65, 0x6c, 0x6c, 0x6f, 0x20, 0x77, 0x6f, 0x72, 0x6c, 0x64, 0x21]"
definition BYE_MSG :: "u8 list" where
  "BYE_MSG = [0x67, 0x6f, 0x6f, 0x64, 0x62, 0x79, 0x65, 0x21]"

definition sample_ping_cb ::
  "u8 list \<Rightarrow> u64 \<Rightarrow> ('s, client_vars) app_world \<Rightarrow> (int \<times> ('s, client_vars) app_world) cres" where
  "sample_ping_cb data len w =
     cbind (sub_bytes data 0 (unat len)) (\<lambda>d.
     if 512 < unat len then Inl Out_of_bounds
     else
       let payload = d @ replicate (512 - unat len) 0;
           seed = (if cv_rnum (aw_vars w) = sint MSG_LIMIT - 1 then BYE_MSG else HELLO_MSG) in
       if \<not> strncmp_eq payload seed (unat len) then Inr (RPMSG_SUCCESS, count_error w)
       else Inr (RPMSG_SUCCESS, w\<lparr>aw_vars := (aw_vars w)\<lparr>cv_rnum := cv_rnum (aw_vars w) + 1\<rparr>\<rparr>))"

definition sample_ping_unbind ::
  "('b, 'x, 'v client_vars_scheme) app_e \<Rightarrow> ptr \<Rightarrow> ('b, 'x, 'v client_vars_scheme) app_w \<Rightarrow> ('b, 'x, 'v client_vars_scheme) app_w cres" where
  "sample_ping_unbind = client_unbind"

definition sample_ping_bind ::
  "('b, 'x, 'v) app_e \<Rightarrow> ptr \<Rightarrow> u8 list \<Rightarrow> u32 \<Rightarrow> ('b, 'x, 'v) app_w \<Rightarrow> ('b, 'x, 'v) app_w cres" where
  "sample_ping_bind env lept = client_bind env RPMSG_SERV_NAME RPMSG_ADDR_ANY APP_CB APP_UNBIND lept"

text \<open>The loop of \<open>app\<close> from message \<open>i\<close> on; a deleted endpoint does not end the wait.\<close>

fun sample_rounds ::
  "nat \<Rightarrow> nat \<Rightarrow> ('b, 'x, client_vars) app_e \<Rightarrow> ptr \<Rightarrow> int \<Rightarrow> ('b, 'x, client_vars) app_w \<Rightarrow> ('b, 'x, client_vars) app_w cres" where
  "sample_rounds 0 fuel env lept i w = Inr w"
| "sample_rounds (Suc n) fuel env lept i w =
     cbind (app_send env lept (if i < sint MSG_LIMIT then HELLO_MSG else BYE_MSG) w) (\<lambda>(ret, w1).
     if ret < 0 then Inr w1
     else cbind (do_poll fuel env (\<lambda>w. cv_rnum (aw_vars w) < i \<and> cv_err_cnt (aw_vars w) = 0) w1)
            (sample_rounds n fuel env lept (i + 1)))"

definition sample_ping_app ::
  "nat \<Rightarrow> ('b, 'x, client_vars) app_e \<Rightarrow> ptr \<Rightarrow> ('b, 'x, client_vars) app_w \<Rightarrow> (int \<times> ('b, 'x, client_vars) app_w) cres" where
  "sample_ping_app fuel env lept w =
     cbind (app_create_ept env lept RPMSG_SERV_NAME RPMSG_ADDR_ANY RPMSG_ADDR_ANY APP_CB APP_UNBIND w) (\<lambda>(ret, w1).
     if ret \<noteq> 0 then Inr (ret, w1)
     else
       cbind (wait_ept_ready fuel env lept w1) (\<lambda>w2.
       cbind (sample_rounds (unat MSG_LIMIT) fuel env lept 1 w2) (\<lambda>w3.
       cbind (while_poll fuel env (\<lambda>w. \<not> cv_ept_deleted (aw_vars w)) w3) (\<lambda>w4. Inr (0, w4)))))"

definition sample_ping_main ::
  "nat \<Rightarrow> ('b, 'x, client_vars) app_e \<Rightarrow> ptr \<Rightarrow> ('p, 'd, 'w, ('b, 'x, client_vars) app_w) platform_ops \<Rightarrow>
   'p \<Rightarrow> 'w \<Rightarrow> (int \<times> 'w) cres" where
  "sample_ping_main fuel env lept pl = example_main pl VIRTIO_DEV_MASTER APP_BIND (sample_ping_app fuel env lept)"

end
