(* ===== verification/Matrix_Apps.thy ===== *)
theory Matrix_Apps
  imports App_Base
begin

text \<open>
  The programs that multiply matrices, one definition per function: \<open>apps/examples/matrix_multiply\<close>, service
  \<open>matrix_multiplyd.c\<close> and client \<open>matrix_multiply.c\<close>. The structure is a record with the elements by rows, and the bytes
  it occupies in a message. Printing is left out.

  The function that multiplies is the same in both programs. \<open>prod_at\<close> is the mathematical product, with unsigned arithmetic of 32 bits, and the main
  lemma says that the three nested loops compute it.
\<close>

definition MAX_SIZE :: nat where "MAX_SIZE = 6"
definition NUM_MATRIX :: nat where "NUM_MATRIX = 2"
definition MATRIX_BYTES :: nat where "MATRIX_BYTES = 148"
definition MATRIX_CB :: ptr where "MATRIX_CB = 0x420"
definition MATRIX_UNBIND :: ptr where "MATRIX_UNBIND = 0x430"
definition MATRIX_BIND :: ptr where "MATRIX_BIND = 0x450"

record matrix =
  mx_size :: u32
  mx_elements :: "u32 list list"

definition matrix_wf :: "matrix \<Rightarrow> bool" where
  "matrix_wf m \<longleftrightarrow> length (mx_elements m) = MAX_SIZE \<and> (\<forall>r \<in> set (mx_elements m). length r = MAX_SIZE)"

definition matrix_bytes :: "matrix \<Rightarrow> u8 list" where
  "matrix_bytes m = le_bytes 4 (mx_size m) @ concat (map (le_bytes 4) (concat (mx_elements m)))"

definition matrix_at :: "u8 list \<Rightarrow> matrix" where
  "matrix_at bs = \<lparr>mx_size = le_word (take 4 bs),
     mx_elements = map (\<lambda>i. map (\<lambda>j. le_word (take 4 (drop (4 + 4 * (MAX_SIZE * i + j)) bs))) [0..<MAX_SIZE]) [0..<MAX_SIZE]\<rparr>"

subsection \<open>Multiplication\<close>

text \<open>Access to an element, out of range in either index.\<close>

definition mx_get :: "u32 list list \<Rightarrow> nat \<Rightarrow> nat \<Rightarrow> u32 cres" where
  "mx_get e i j = cbind (rd e i) (\<lambda>r. rd r j)"

text \<open>The three loops, each from an index on for the given number of rounds.\<close>

fun mm_inner :: "nat \<Rightarrow> matrix \<Rightarrow> matrix \<Rightarrow> nat \<Rightarrow> nat \<Rightarrow> nat \<Rightarrow> u32 list list \<Rightarrow> u32 list list cres" where
  "mm_inner 0 m n i j k r = Inr r"
| "mm_inner (Suc c) m n i j k r =
     cbind (mx_get (mx_elements m) i k) (\<lambda>x.
     cbind (mx_get (mx_elements n) k j) (\<lambda>y.
     cbind (mx_get r i j) (\<lambda>z.
     mm_inner c m n i j (Suc k) (r[i := (r ! i)[j := z + x * y]]))))"

fun mm_cols :: "nat \<Rightarrow> matrix \<Rightarrow> matrix \<Rightarrow> nat \<Rightarrow> nat \<Rightarrow> u32 list list \<Rightarrow> u32 list list cres" where
  "mm_cols 0 m n i j r = Inr r"
| "mm_cols (Suc c) m n i j r = cbind (mm_inner (unat (mx_size m)) m n i j 0 r) (mm_cols c m n i (Suc j))"

fun mm_rows :: "nat \<Rightarrow> matrix \<Rightarrow> matrix \<Rightarrow> nat \<Rightarrow> u32 list list \<Rightarrow> u32 list list cres" where
  "mm_rows 0 m n i r = Inr r"
| "mm_rows (Suc c) m n i r = cbind (mm_cols (unat (mx_size n)) m n i 0 r) (mm_rows c m n (Suc i))"

definition zero_elements :: "u32 list list" where
  "zero_elements = replicate MAX_SIZE (replicate MAX_SIZE 0)"

definition Matrix_Multiply :: "matrix \<Rightarrow> matrix \<Rightarrow> matrix cres" where
  "Matrix_Multiply m n =
     cbind (mm_rows (unat (mx_size m)) m n 0 zero_elements) (\<lambda>e. Inr \<lparr>mx_size = mx_size m, mx_elements = e\<rparr>)"

definition matrix_multiply :: "matrix \<Rightarrow> matrix \<Rightarrow> matrix cres" where
  "matrix_multiply = Matrix_Multiply"

subsection \<open>The service\<close>

text \<open>\<open>junk\<close> is what the array on the stack holds before the message is copied over it.\<close>

definition matrixd_endpoint_cb ::
  "('b, 'x, 'v service_vars_scheme) app_e \<Rightarrow> u8 list \<Rightarrow> ptr \<Rightarrow> u8 list \<Rightarrow> u64 \<Rightarrow> ('b, 'x, 'v service_vars_scheme) app_w \<Rightarrow>
   (int \<times> ('b, 'x, 'v service_vars_scheme) app_w) cres" where
  "matrixd_endpoint_cb env junk ept data len w =
     cbind (sub_bytes data 0 4) (\<lambda>b.
     if le_word b = SHUTDOWN_MSG then Inr (RPMSG_SUCCESS, request_shutdown w)
     else
       cbind (sub_bytes data 0 (unat len)) (\<lambda>d.
       if NUM_MATRIX * MATRIX_BYTES < unat len then Inl Out_of_bounds
       else
         let a = d @ drop (unat len) junk in
         cbind (Matrix_Multiply (matrix_at a) (matrix_at (drop MATRIX_BYTES a))) (\<lambda>r.
         cbind (app_send env ept (matrix_bytes r) w) (\<lambda>(_, w1). Inr (RPMSG_SUCCESS, w1)))))"

definition matrixd_service_unbind :: "('s, 'v service_vars_scheme) app_world \<Rightarrow> ('s, 'v service_vars_scheme) app_world" where
  "matrixd_service_unbind = service_unbind"

definition matrix_multiplyd_app ::
  "nat \<Rightarrow> ('b, 'x, 'v service_vars_scheme) app_e \<Rightarrow> ptr \<Rightarrow> ('b, 'x, 'v service_vars_scheme) app_w \<Rightarrow>
   (int \<times> ('b, 'x, 'v service_vars_scheme) app_w) cres" where
  "matrix_multiplyd_app fuel env lept = service_app fuel env RPMSG_SERVICE_NAME MATRIX_CB MATRIX_UNBIND lept"

definition matrixd_main ::
  "nat \<Rightarrow> ('b, 'x, 'v service_vars_scheme) app_e \<Rightarrow> ptr \<Rightarrow> ('p, 'd, 'w, ('b, 'x, 'v service_vars_scheme) app_w) platform_ops \<Rightarrow>
   'p \<Rightarrow> 'w \<Rightarrow> (int \<times> 'w) cres" where
  "matrixd_main fuel env lept pl = example_main pl VIRTIO_DEV_SLAVE NULL (matrix_multiplyd_app fuel env lept)"

subsection \<open>The client\<close>

text \<open>The number of calls of \<open>rand\<close> so far is a part of the state; \<open>rnd k\<close> is what the \<open>k\<close>-th call returns.\<close>

record matrix_vars = client_vars +
  mv_i_matrix :: "matrix list"
  mv_e_matrix :: matrix
  mv_result_returned :: bool
  mv_rand :: nat

definition rand_value :: "(nat \<Rightarrow> u32) \<Rightarrow> nat \<Rightarrow> u32" where
  "rand_value rnd k = (rnd k AND 0x7F) mod 10"

definition generate_matrix :: "(nat \<Rightarrow> u32) \<Rightarrow> nat \<Rightarrow> nat \<Rightarrow> matrix \<Rightarrow> matrix" where
  "generate_matrix rnd matrix_size k m =
     \<lparr>mx_size = of_nat matrix_size,
      mx_elements = map (\<lambda>i. map (\<lambda>j. if i < matrix_size \<and> j < matrix_size then rand_value rnd (k + matrix_size * i + j)
        else mx_elements m ! i ! j) [0..<MAX_SIZE]) [0..<MAX_SIZE]\<rparr>"

definition generate_matrices :: "nat \<Rightarrow> nat \<Rightarrow> (nat \<Rightarrow> u32) \<Rightarrow> nat \<Rightarrow> matrix list \<Rightarrow> matrix list cres" where
  "generate_matrices num_matrices matrix_size rnd k ms =
     (if length ms < num_matrices \<or> MAX_SIZE < matrix_size then Inl Out_of_bounds
      else Inr (map (\<lambda>c. if c < num_matrices then generate_matrix rnd matrix_size (k + matrix_size * matrix_size * c) (ms ! c)
        else ms ! c) [0..<length ms]))"

text \<open>The comparison: one error for each row that differs.\<close>

fun row_differs :: "nat \<Rightarrow> u32 list \<Rightarrow> u32 list \<Rightarrow> nat \<Rightarrow> bool cres" where
  "row_differs 0 r e j = Inr False"
| "row_differs (Suc c) r e j =
     cbind (rd r j) (\<lambda>x. cbind (rd e j) (\<lambda>y. if x \<noteq> y then Inr True else row_differs c r e (Suc j)))"

fun count_rows :: "nat \<Rightarrow> u32 list list \<Rightarrow> u32 list list \<Rightarrow> nat \<Rightarrow> int cres" where
  "count_rows 0 r e i = Inr 0"
| "count_rows (Suc c) r e i =
     cbind (rd r i) (\<lambda>x. cbind (rd e i) (\<lambda>y.
     cbind (row_differs MAX_SIZE x y 0) (\<lambda>b.
     cbind (count_rows c r e (Suc i)) (\<lambda>n. Inr ((if b then 1 else 0) + n)))))"

definition matrix_endpoint_cb ::
  "u8 list \<Rightarrow> u64 \<Rightarrow> ('s, matrix_vars) app_world \<Rightarrow> (int \<times> ('s, matrix_vars) app_world) cres" where
  "matrix_endpoint_cb data len w =
     (if unat len \<noteq> MATRIX_BYTES then Inr (RPMSG_SUCCESS, count_error w)
      else
        cbind (sub_bytes data 0 MATRIX_BYTES) (\<lambda>d.
        cbind (count_rows MAX_SIZE (mx_elements (matrix_at d)) (mx_elements (mv_e_matrix (aw_vars w))) 0) (\<lambda>n.
        let err = cv_err_cnt (aw_vars w) + n in
        Inr (RPMSG_SUCCESS, w\<lparr>aw_vars := (aw_vars w)\<lparr>cv_err_cnt := err,
          mv_result_returned := (if err \<noteq> 0 then mv_result_returned (aw_vars w) else True)\<rparr>\<rparr>))))"

definition matrix_service_unbind ::
  "('b, 'x, 'v client_vars_scheme) app_e \<Rightarrow> ptr \<Rightarrow> ('b, 'x, 'v client_vars_scheme) app_w \<Rightarrow> ('b, 'x, 'v client_vars_scheme) app_w cres" where
  "matrix_service_unbind = client_unbind"

definition matrix_name_service_bind_cb ::
  "('b, 'x, 'v) app_e \<Rightarrow> ptr \<Rightarrow> u8 list \<Rightarrow> u32 \<Rightarrow> ('b, 'x, 'v) app_w \<Rightarrow> ('b, 'x, 'v) app_w cres" where
  "matrix_name_service_bind_cb env lept = client_bind env RPMSG_SERVICE_NAME RPMSG_ADDR_ANY MATRIX_CB MATRIX_UNBIND lept"

fun matrix_rounds ::
  "nat \<Rightarrow> nat \<Rightarrow> ('b, 'x, matrix_vars) app_e \<Rightarrow> (nat \<Rightarrow> u32) \<Rightarrow> ptr \<Rightarrow> ('b, 'x, matrix_vars) app_w \<Rightarrow> ('b, 'x, matrix_vars) app_w cres" where
  "matrix_rounds 0 fuel env rnd lept w = Inr w"
| "matrix_rounds (Suc c) fuel env rnd lept w =
     cbind (generate_matrices NUM_MATRIX MAX_SIZE rnd (mv_rand (aw_vars w)) (mv_i_matrix (aw_vars w))) (\<lambda>ms.
      cbind (matrix_multiply (ms ! 0) (ms ! 1)) (\<lambda>e.
      let w1 = w\<lparr>aw_vars := (aw_vars w)\<lparr>mv_i_matrix := ms, mv_e_matrix := e, mv_result_returned := False,
                   mv_rand := mv_rand (aw_vars w) + NUM_MATRIX * MAX_SIZE * MAX_SIZE\<rparr>\<rparr> in
      cbind (app_send env lept (concat (map matrix_bytes ms)) w1) (\<lambda>(ret, w2).
      if ret < 0 then Inr w2
      else
        cbind (do_poll fuel env (\<lambda>w. \<not> mv_result_returned (aw_vars w) \<and> cv_err_cnt (aw_vars w) = 0 \<and>
                 \<not> cv_ept_deleted (aw_vars w)) w2) (\<lambda>w3.
        if cv_err_cnt (aw_vars w3) \<noteq> 0 then Inr w3 else matrix_rounds c fuel env rnd lept w3))))"

definition matrix_app ::
  "nat \<Rightarrow> ('b, 'x, matrix_vars) app_e \<Rightarrow> (nat \<Rightarrow> u32) \<Rightarrow> ptr \<Rightarrow> ('b, 'x, matrix_vars) app_w \<Rightarrow>
   (int \<times> ('b, 'x, matrix_vars) app_w) cres" where
  "matrix_app fuel env rnd lept w =
     cbind (app_create_ept env lept RPMSG_SERVICE_NAME RPMSG_ADDR_ANY RPMSG_ADDR_ANY MATRIX_CB MATRIX_UNBIND w) (\<lambda>(ret, w1).
     if ret \<noteq> 0 then Inr (ret, w1)
     else
       cbind (wait_ept_ready fuel env lept w1) (\<lambda>w2.
       cbind (matrix_rounds 200 fuel env rnd lept (w2\<lparr>aw_vars := (aw_vars w2)\<lparr>cv_err_cnt := 0\<rparr>\<rparr>)) (\<lambda>w3.
       cbind (app_destroy_ept env lept w3) (\<lambda>w4. Inr (0, w4)))))"

definition matrix_main ::
  "nat \<Rightarrow> ('b, 'x, matrix_vars) app_e \<Rightarrow> (nat \<Rightarrow> u32) \<Rightarrow> ptr \<Rightarrow> ('p, 'd, 'w, ('b, 'x, matrix_vars) app_w) platform_ops \<Rightarrow>
   'p \<Rightarrow> 'w \<Rightarrow> (int \<times> 'w) cres" where
  "matrix_main fuel env rnd lept pl = example_main pl VIRTIO_DEV_MASTER MATRIX_BIND (matrix_app fuel env rnd lept)"

subsection \<open>The loops compute the product\<close>

definition grid :: "u32 list list \<Rightarrow> bool" where
  "grid e \<longleftrightarrow> length e = MAX_SIZE \<and> (\<forall>r \<in> set e. length r = MAX_SIZE)"

definition prod_at :: "matrix \<Rightarrow> matrix \<Rightarrow> nat \<Rightarrow> nat \<Rightarrow> u32" where
  "prod_at m n i j = (\<Sum>k < unat (mx_size m). mx_elements m ! i ! k * mx_elements n ! k ! j)"

lemma matrix_wf_grid: "matrix_wf m \<longleftrightarrow> grid (mx_elements m)"
  by (simp add: matrix_wf_def grid_def)

lemma mx_get_grid [simp]: "grid e \<Longrightarrow> i < MAX_SIZE \<Longrightarrow> j < MAX_SIZE \<Longrightarrow> mx_get e i j = Inr (e ! i ! j)"
  by (simp add: mx_get_def rd_def grid_def)

lemma grid_rows: "grid e \<Longrightarrow> i < MAX_SIZE \<Longrightarrow> length (e ! i) = MAX_SIZE"
  by (simp add: grid_def)

lemma grid_update [simp]: "grid e \<Longrightarrow> i < MAX_SIZE \<Longrightarrow> grid (e[i := (e ! i)[j := v]])"
  using set_update_subset_insert [of e i "(e ! i)[j := v]"] by (auto simp: grid_def)

lemma grid_update_nth:
  "grid e \<Longrightarrow> i < MAX_SIZE \<Longrightarrow> j < MAX_SIZE \<Longrightarrow> i' < MAX_SIZE \<Longrightarrow> j' < MAX_SIZE \<Longrightarrow>
    e[i := (e ! i)[j := v]] ! i' ! j' = (if i' = i \<and> j' = j then v else e ! i' ! j')"
  by (auto simp: grid_def nth_list_update)

lemma grid_eqI:
  assumes "grid a" and "grid b" and "\<And>i j. i < MAX_SIZE \<Longrightarrow> j < MAX_SIZE \<Longrightarrow> a ! i ! j = b ! i ! j"
  shows "a = b"
proof (rule nth_equalityI)
  show "length a = length b" using assms(1,2) by (simp add: grid_def)
  fix i assume "i < length a"
  then have i: "i < MAX_SIZE" using assms(1) by (simp add: grid_def)
  show "a ! i = b ! i"
    by (rule nth_equalityI) (use i assms grid_rows [OF assms(1)] grid_rows [OF assms(2)] in auto)
qed

lemma mm_inner_run:
  assumes "matrix_wf m" and "matrix_wf n" and "i < MAX_SIZE" and "j < MAX_SIZE"
  shows "grid r \<Longrightarrow> k + c \<le> MAX_SIZE \<Longrightarrow> mm_inner c m n i j k r =
    Inr (r[i := (r ! i)[j := r ! i ! j + (\<Sum>x = k..<k + c. mx_elements m ! i ! x * mx_elements n ! x ! j)]])"
proof (induction c arbitrary: k r)
  case (Suc c)
  let ?t = "\<lambda>x. mx_elements m ! i ! x * mx_elements n ! x ! j"
  let ?r = "r[i := (r ! i)[j := r ! i ! j + ?t k]]"
  have "mm_inner (Suc c) m n i j k r = mm_inner c m n i j (Suc k) ?r"
    using assms Suc.prems by (simp add: matrix_wf_grid)
  also have "\<dots> = Inr (?r[i := (?r ! i)[j := ?r ! i ! j + (\<Sum>x = Suc k..<Suc k + c. ?t x)]])"
    using assms Suc.prems by (intro Suc.IH) simp_all
  also have "\<dots> = Inr (r[i := (r ! i)[j := r ! i ! j + (\<Sum>x = k..<k + Suc c. ?t x)]])"
    using Suc.prems assms by (simp add: grid_def sum.atLeast_Suc_lessThan add.assoc)
  finally show ?case .
qed simp

lemma mm_cols_run:
  assumes "matrix_wf m" and "matrix_wf n" and "i < MAX_SIZE" and "unat (mx_size m) \<le> MAX_SIZE"
  shows "grid r \<Longrightarrow> j + c \<le> MAX_SIZE \<Longrightarrow> \<exists>r'. mm_cols c m n i j r = Inr r' \<and> grid r' \<and>
    (\<forall>i' < MAX_SIZE. \<forall>j' < MAX_SIZE.
       r' ! i' ! j' = r ! i' ! j' + (if i' = i \<and> j \<le> j' \<and> j' < j + c then prod_at m n i j' else 0))"
proof (induction c arbitrary: j r)
  case (Suc c)
  let ?r = "r[i := (r ! i)[j := r ! i ! j + prod_at m n i j]]"
  have "mm_inner (unat (mx_size m)) m n i j 0 r = Inr ?r"
    using mm_inner_run [OF assms(1-3), of j r 0 "unat (mx_size m)"] Suc.prems assms(4) by (simp add: prod_at_def atLeast0LessThan)
  moreover obtain r' where "mm_cols c m n i (Suc j) ?r = Inr r'" "grid r'"
    "\<forall>i' < MAX_SIZE. \<forall>j' < MAX_SIZE.
       r' ! i' ! j' = ?r ! i' ! j' + (if i' = i \<and> Suc j \<le> j' \<and> j' < Suc j + c then prod_at m n i j' else 0)"
    using Suc.IH [of ?r "Suc j"] Suc.prems assms(3) by auto
  ultimately show ?case
    using Suc.prems assms(3) by (auto simp: grid_update_nth)
qed auto

lemma mm_rows_run:
  assumes "matrix_wf m" and "matrix_wf n" and "unat (mx_size m) \<le> MAX_SIZE" and "unat (mx_size n) \<le> MAX_SIZE"
  shows "grid r \<Longrightarrow> i + c \<le> MAX_SIZE \<Longrightarrow> \<exists>r'. mm_rows c m n i r = Inr r' \<and> grid r' \<and>
    (\<forall>i' < MAX_SIZE. \<forall>j' < MAX_SIZE.
       r' ! i' ! j' = r ! i' ! j' + (if i \<le> i' \<and> i' < i + c \<and> j' < unat (mx_size n) then prod_at m n i' j' else 0))"
proof (induction c arbitrary: i r)
  case (Suc c)
  obtain r1 where r1: "mm_cols (unat (mx_size n)) m n i 0 r = Inr r1" "grid r1"
    "\<forall>i' < MAX_SIZE. \<forall>j' < MAX_SIZE. r1 ! i' ! j' = r ! i' ! j' + (if i' = i \<and> j' < unat (mx_size n) then prod_at m n i j' else 0)"
    using mm_cols_run [OF assms(1,2) _ assms(3), of i r 0 "unat (mx_size n)"] Suc.prems assms(4) by auto
  obtain r2 where "mm_rows c m n (Suc i) r1 = Inr r2" "grid r2"
    "\<forall>i' < MAX_SIZE. \<forall>j' < MAX_SIZE.
       r2 ! i' ! j' = r1 ! i' ! j' + (if Suc i \<le> i' \<and> i' < Suc i + c \<and> j' < unat (mx_size n) then prod_at m n i' j' else 0)"
    using Suc.IH [OF r1(2), of "Suc i"] Suc.prems by auto
  then show ?case using r1 by auto
qed auto

lemma zero_elements_nth: "grid zero_elements" "i < MAX_SIZE \<Longrightarrow> j < MAX_SIZE \<Longrightarrow> zero_elements ! i ! j = 0"
  by (simp_all add: grid_def zero_elements_def)

lemma multiply_runs:
  assumes "matrix_wf m" and "matrix_wf n" and "unat (mx_size m) \<le> MAX_SIZE" and "unat (mx_size n) \<le> MAX_SIZE"
  shows "\<exists>r. Matrix_Multiply m n = Inr r \<and> matrix_wf r"
  using mm_rows_run [OF assms zero_elements_nth(1), of 0 "unat (mx_size m)"] assms(3) by (auto simp: Matrix_Multiply_def matrix_wf_grid)

subsection \<open>Matrices in a message\<close>

lemma words_nth: "k < length xs \<Longrightarrow> take 4 (drop (4 * k) (concat (map (le_bytes 4) xs) @ t)) = le_bytes 4 (xs ! k)"
proof (induction xs arbitrary: k)
  case (Cons x xs)
  then show ?case by (cases k) simp_all
qed simp

lemma concat_nth: "\<forall>r \<in> set e. length r = c \<Longrightarrow> i < length e \<Longrightarrow> j < c \<Longrightarrow> concat e ! (c * i + j) = e ! i ! j"
proof (induction e arbitrary: i)
  case (Cons r e)
  then show ?case by (cases i) (auto simp: nth_append)
qed simp

lemma concat_length: "\<forall>r \<in> set e. length r = c \<Longrightarrow> length (concat e) = c * length e"
  by (induction e) auto

lemma words_length: "length (concat (map (le_bytes 4) xs)) = 4 * length xs"
  by (induction xs) auto

lemma matrix_at_wf [simp]: "matrix_wf (matrix_at bs)"
  by (auto simp: matrix_wf_def matrix_at_def)

lemma matrix_bytes_length: "matrix_wf m \<Longrightarrow> length (matrix_bytes m) = MATRIX_BYTES"
  using concat_length [of "mx_elements m" MAX_SIZE]
  by (simp add: matrix_wf_def matrix_bytes_def words_length MATRIX_BYTES_def MAX_SIZE_def)

lemma matrix_at_bytes:
  assumes "matrix_wf m"
  shows "matrix_at (matrix_bytes m @ t) = m"
proof -
  have g: "grid (mx_elements m)" using assms by (simp add: matrix_wf_grid)
  have "le_word (take 4 (drop (4 + 4 * (MAX_SIZE * i + j)) (matrix_bytes m @ t))) = mx_elements m ! i ! j"
    if "i < MAX_SIZE" "j < MAX_SIZE" for i j
  proof -
    have l: "length (concat (mx_elements m)) = 36" using concat_length [of "mx_elements m" MAX_SIZE] g by (simp add: grid_def MAX_SIZE_def)
    have "MAX_SIZE * i + j < length (concat (mx_elements m))" unfolding l using that by (simp add: MAX_SIZE_def)
    from words_nth [OF this, of t] show ?thesis
      using that g concat_nth [of "mx_elements m" MAX_SIZE i j] by (simp add: matrix_bytes_def le_word_bytes grid_def)
  qed
  then have "mx_elements (matrix_at (matrix_bytes m @ t)) = mx_elements m"
    using g by (intro grid_eqI) (auto simp: matrix_at_def grid_def)
  moreover have "mx_size (matrix_at (matrix_bytes m @ t)) = mx_size m"
    by (simp add: matrix_at_def matrix_bytes_def le_word_bytes)
  ultimately show ?thesis by simp
qed

lemma matrix_at_append: "MATRIX_BYTES \<le> length d \<Longrightarrow> matrix_at (d @ t) = matrix_at d"
  by (auto simp: matrix_at_def MATRIX_BYTES_def MAX_SIZE_def)

lemma generated:
  assumes "length ms = NUM_MATRIX"
  shows "\<exists>a b. generate_matrices NUM_MATRIX MAX_SIZE rnd k ms = Inr [a, b] \<and> matrix_wf a \<and> matrix_wf b \<and> mx_size a = 6 \<and> mx_size b = 6"
  using assms by (simp add: generate_matrices_def NUM_MATRIX_def numeral_2_eq_2) (auto simp: generate_matrix_def matrix_wf_def MAX_SIZE_def)

text \<open>Comparing a matrix with itself counts no error.\<close>

lemma same_row: "j + c \<le> length r \<Longrightarrow> row_differs c r r j = Inr False"
  by (induction c arbitrary: j) (simp_all add: rd_def)

lemma same_matrix: "grid e \<Longrightarrow> i + c \<le> MAX_SIZE \<Longrightarrow> count_rows c e e i = Inr 0"
  by (induction c arbitrary: i) (simp_all add: rd_def grid_def same_row)

subsection \<open>The product\<close>

text \<open>
  C30. Multiplication. For matrices whose sizes fit, the three nested loops of \<open>Matrix_Multiply\<close> never leave an array, and the result has the size of the first matrix, the sums
  of products in its rows and columns up to the sizes, and zeros elsewhere.
\<close>

theorem matrix_multiply_exact:
  assumes "matrix_wf m" and "matrix_wf n" and "unat (mx_size m) \<le> MAX_SIZE" and "unat (mx_size n) \<le> MAX_SIZE"
  shows "Matrix_Multiply m n = Inr \<lparr>mx_size = mx_size m, mx_elements =
    map (\<lambda>i. map (\<lambda>j. if i < unat (mx_size m) \<and> j < unat (mx_size n)
      then \<Sum>k < unat (mx_size m). mx_elements m ! i ! k * mx_elements n ! k ! j else 0) [0..<MAX_SIZE]) [0..<MAX_SIZE]\<rparr>"
proof -
  obtain r where r: "mm_rows (unat (mx_size m)) m n 0 zero_elements = Inr r" "grid r"
    "\<forall>i < MAX_SIZE. \<forall>j < MAX_SIZE. r ! i ! j = (if i < unat (mx_size m) \<and> j < unat (mx_size n) then prod_at m n i j else 0)"
    using mm_rows_run [OF assms zero_elements_nth(1), of 0 "unat (mx_size m)"] assms(3) by (auto simp: zero_elements_nth)
  have "r = map (\<lambda>i. map (\<lambda>j. if i < unat (mx_size m) \<and> j < unat (mx_size n) then prod_at m n i j else 0)
      [0..<MAX_SIZE]) [0..<MAX_SIZE]"
    using r by (intro grid_eqI) (auto simp: grid_def)
  then show ?thesis using r(1) by (simp add: Matrix_Multiply_def prod_at_def)
qed

text \<open>Two matrices of two rows, and their product.\<close>

definition mx_demo :: "u32 \<Rightarrow> u32 \<Rightarrow> u32 \<Rightarrow> u32 \<Rightarrow> matrix" where
  "mx_demo a b c d = \<lparr>mx_size = 2, mx_elements = [[a, b, 0, 0, 0, 0], [c, d, 0, 0, 0, 0]] @ replicate 4 (replicate 6 0)\<rparr>"

lemma matrix_multiply_exact_witness:
  "Matrix_Multiply (mx_demo 1 2 3 4) (mx_demo 5 6 7 8) = Inr (mx_demo 19 22 43 50)"
proof -
  have z: "replicate 4 (replicate 6 (0 :: u32)) = (let z = [0, 0, 0, 0, 0, 0] in [z, z, z, z])"
    by (simp add: eval_nat_numeral Let_def)
  have d: "mx_size (mx_demo a b c d) = 2" "matrix_wf (mx_demo a b c d)" for a b c d
    by (auto simp: mx_demo_def matrix_wf_def MAX_SIZE_def)
  have u: "[0..<6] = [0, 1, 2, 3, 4, 5 :: nat]" by (simp add: upt_rec)
  have s: "{..<2 :: nat} = {0, 1}" by auto
  have "Matrix_Multiply (mx_demo 1 2 3 4) (mx_demo 5 6 7 8) = Inr \<lparr>mx_size = 2, mx_elements =
    map (\<lambda>i. map (\<lambda>j. if i < 2 \<and> j < 2 then \<Sum>k < 2. mx_elements (mx_demo 1 2 3 4) ! i ! k * mx_elements (mx_demo 5 6 7 8) ! k ! j
      else 0) [0..<6]) [0..<6]\<rparr>"
    using matrix_multiply_exact [OF d(2) d(2), of 1 2 3 4 5 6 7 8] by (simp add: d(1) MAX_SIZE_def)
  then show ?thesis by (simp add: u s) (simp add: mx_demo_def z Let_def)
qed

end
