(* ===== verification/Rpmsg_Inv.thy ===== *)
theory Rpmsg_Inv
  imports Rpmsg
begin

text \<open>
  Correctness of endpoint management. \<open>ept_inv\<close> is the invariant of a device: its list holds distinct
  registered endpoints, no two of which have the same dynamic address, and the bitmap is exactly the
  set of dynamic addresses in use, so that no address is handed out twice and none leaks. The locale
  \<open>rpmsg_mgmt\<close> combines the laws of the bitmap with the contract of a transport and shows that
  creating and destroying endpoints keeps the invariant on every path.
\<close>

lemma rpmsg_upd_order:
  "st\<lparr>epts := h, rdev := d\<rparr> = st\<lparr>rdev := d, epts := h\<rparr>"
  "dv\<lparr>bitmap := b, endpoints := ps, lock := k\<rparr> = dv\<lparr>lock := k, bitmap := b, endpoints := ps\<rparr>"
  by simp_all

subsection \<open>The dynamic address range\<close>

lemma sint_small: "unat (w :: u32) < 2 ^ 31 \<Longrightarrow> sint w = int (unat w)"
proof -
  assume a: "unat w < 2 ^ 31"
  then have "int (unat w) < 2 ^ 31" by (simp only: of_nat_less_numeral_power_cancel_iff)
  then have "uint w < 2 ^ 31" by simp
  moreover have "- (2 ^ 31) \<le> uint w" by (rule order_trans [OF _ uint_ge_0]) simp
  ultimately show ?thesis unfolding sint_uint by (simp add: signed_take_bit_int_eq_self)
qed

lemma sint_large: "\<not> unat (w :: u32) < 2 ^ 31 \<Longrightarrow> sint w < 0"
proof -
  assume "\<not> unat w < 2 ^ 31"
  then have "2 ^ 31 \<le> int (unat w)" by (simp only: not_less numeral_power_le_of_nat_cancel_iff)
  then have "sint w \<le> uint w - 2 ^ 32"
    using signed_take_bit_int_less_eq [of 31 "uint w"] by (simp add: sint_uint)
  then show ?thesis using uint_lt2p [of w] by simp
qed

lemma sint_in_range:
  "0 \<le> sint (w :: u32) - 1024 \<and> sint w - 1024 < 128 \<longleftrightarrow> 1024 \<le> unat w \<and> unat w < 1152"
proof (cases "unat w < 2 ^ 31")
  case True
  show ?thesis unfolding sint_small [OF True] by linarith
next
  case False
  show ?thesis using sint_large [OF False] False by simp
qed

lemma sint_index:
  assumes "1024 \<le> unat (w :: u32)" and "unat w < 1152"
  shows "nat (sint w - 1024) = unat w - 1024"
proof -
  have "unat w < 2 ^ 31" using assms(2) by simp
  then show ?thesis unfolding sint_small [OF \<open>unat w < 2 ^ 31\<close>] by linarith
qed

lemma reserved_sint [simp]: "sint RPMSG_RESERVED_ADDRESSES = 1024"
  by (simp add: RPMSG_RESERVED_ADDRESSES_def)

definition dyn_addr :: "u32 \<Rightarrow> bool" where
  "dyn_addr a \<longleftrightarrow> 1024 \<le> unat a \<and> unat a < 1152"

lemma address_ops:
  "rpmsg_release_address bo bm RPMSG_ADDR_BMP_SIZE a =
     (if dyn_addr a then clear_bit_at bo bm (unat a - 1024) else bm)"
  "rpmsg_is_address_set bo bm RPMSG_ADDR_BMP_SIZE a =
     (if dyn_addr a then is_bit_set bo bm (unat a - 1024) else RPMSG_ERR_PARAM)"
  "rpmsg_set_address bo bm RPMSG_ADDR_BMP_SIZE a =
     (if dyn_addr a then (RPMSG_SUCCESS, set_bit_at bo bm (unat a - 1024)) else (RPMSG_ERR_PARAM, bm))"
  using sint_in_range [of a] sint_index [of a]
  by (auto simp: rpmsg_release_address_def rpmsg_is_address_set_def rpmsg_set_address_def
      dyn_addr_def RPMSG_ADDR_BMP_SIZE_def Let_def)

lemma get_address_value:
  assumes "k < 128"
  shows "unat (RPMSG_RESERVED_ADDRESSES + of_nat k) = 1024 + k"
    and "RPMSG_RESERVED_ADDRESSES + of_nat k \<noteq> RPMSG_ADDR_ANY"
    and "dyn_addr (RPMSG_RESERVED_ADDRESSES + of_nat k)"
proof -
  have "unat (of_nat k :: u32) = k" using assms by (intro unat_of_nat_lt) simp
  then show u: "unat (RPMSG_RESERVED_ADDRESSES + of_nat k) = 1024 + k"
    using assms by (subst unat_plus_lt) (simp_all add: RPMSG_RESERVED_ADDRESSES_def)
  show "dyn_addr (RPMSG_RESERVED_ADDRESSES + of_nat k)" using u assms by (simp add: dyn_addr_def)
  show "RPMSG_RESERVED_ADDRESSES + of_nat k \<noteq> RPMSG_ADDR_ANY"
  proof
    assume "RPMSG_RESERVED_ADDRESSES + of_nat k = RPMSG_ADDR_ANY"
    then show False using u assms by (simp add: RPMSG_ADDR_ANY_def)
  qed
qed

subsection \<open>The invariant\<close>

definition ept_addr :: "('b, 'x) rpmsg_state_scheme \<Rightarrow> ptr \<Rightarrow> nat" where
  "ept_addr st p = (case epts st p of None \<Rightarrow> 0 | Some e \<Rightarrow> unat (ep_addr e))"

definition dyn_epts :: "('b, 'x) rpmsg_state_scheme \<Rightarrow> ptr list" where
  "dyn_epts st = filter (\<lambda>p. 1024 \<le> ept_addr st p) (endpoints (rdev st))"

definition registered :: "('b, 'x) rpmsg_state_scheme \<Rightarrow> ptr \<Rightarrow> bool" where
  "registered st p \<longleftrightarrow> (\<exists>e. epts st p = Some e \<and> ep_rdev e = self st \<and> unat (ep_addr e) < 1152)"

definition ept_inv :: "('b \<Rightarrow> nat set) \<Rightarrow> ('b \<Rightarrow> bool) \<Rightarrow> ('b, 'x) rpmsg_state_scheme \<Rightarrow> bool" where
  "ept_inv bits valid st \<longleftrightarrow>
     valid (bitmap (rdev st)) \<and> \<not> lock (rdev st) \<and> self st \<noteq> NULL \<and> epts st NULL = None \<and>
     distinct (endpoints (rdev st)) \<and> (\<forall>p \<in> set (endpoints (rdev st)). registered st p) \<and>
     distinct (map (ept_addr st) (dyn_epts st)) \<and>
     bits (bitmap (rdev st)) = (\<lambda>p. ept_addr st p - 1024) ` set (dyn_epts st)"

lemma ept_inv_cong:
  assumes "self st' = self st" and "rdev st' = rdev st" and "epts st' = epts st"
  shows "ept_inv bits valid st' = ept_inv bits valid st"
proof -
  have a: "ept_addr st' = ept_addr st" using assms by (simp add: ept_addr_def fun_eq_iff)
  have "dyn_epts st' = dyn_epts st" using assms a by (simp add: dyn_epts_def)
  then show ?thesis using assms a by (simp add: ept_inv_def registered_def)
qed

text \<open>The contract of a transport.\<close>

locale rpmsg_transport =
  fixes send :: "('b, 'x) rpmsg_sender" and tinv :: "('b, 'x) rpmsg_state_scheme \<Rightarrow> bool"
  assumes send_ok: "tinv st \<Longrightarrow> \<not> lock (rdev st) \<Longrightarrow> 0 < length bs \<Longrightarrow> length bs \<le> 496 \<Longrightarrow>
      \<exists>r st'. send src dst bs (int (length bs)) w st = Inr (r, st') \<and> tinv st' \<and>
        self st' = self st \<and> rdev st' = rdev st \<and> epts st' = epts st"
    and tinv_frame: "tinv (st\<lparr>rdev := d, epts := h\<rparr>) = tinv st"
begin

lemma tinv_upd [simp]: "tinv (st\<lparr>rdev := d\<rparr>) = tinv st" "tinv (st\<lparr>epts := h\<rparr>) = tinv st"
  using tinv_frame [where st = st and d = d and h = "epts st"]
    tinv_frame [where st = st and d = "rdev st" and h = h] by simp_all

lemma tinv_ops [simp]: "tinv (put_ept st p e) = tinv st" "tinv (unlock_dev st) = tinv st"
  by (simp_all add: put_ept_def unlock_dev_def)

lemma ns_message_total:
  assumes "tinv st" and "\<not> lock (rdev st)" and "epts st p = Some e"
  shows "\<exists>r st'. rpmsg_send_ns_message send p fl st = Inr (r, st') \<and> r \<le> 0 \<and> tinv st' \<and>
    self st' = self st \<and> rdev st' = rdev st \<and> epts st' = epts st"
proof -
  have l: "length (ns_msg_bytes \<lparr>ns_name = strncpy (ep_name e) RPMSG_NAME_SIZE, ns_addr = ep_addr e,
      ns_flags = fl\<rparr>) = 40"
    by (simp add: ns_msg_bytes_def strncpy_def cstrn_def Let_def RPMSG_NAME_SIZE_def)
  show ?thesis
    using send_ok [OF assms(1,2), of "ns_msg_bytes \<lparr>ns_name = strncpy (ep_name e) RPMSG_NAME_SIZE,
        ns_addr = ep_addr e, ns_flags = fl\<rparr>" "ep_addr e" RPMSG_NS_EPT_ADDR True] assms(1,3) l
    by (auto simp: rpmsg_send_ns_message_def rpmsg_send_offchannel_raw_def get_ept_def Let_def
        rpmsg_status_defs)
qed

end

lemma dyn_addr_index: "dyn_addr a \<Longrightarrow> unat a - 1024 < RPMSG_ADDR_BMP_SIZE"
  by (auto simp: dyn_addr_def RPMSG_ADDR_BMP_SIZE_def)

lemma dyn_addr_iff: "unat a < 1152 \<Longrightarrow> dyn_addr a \<longleftrightarrow> 1024 \<le> unat a"
  by (simp add: dyn_addr_def)

lemma ept_inv_register:
  fixes st :: "('b, 'x) rpmsg_state_scheme"
  assumes inv: "ept_inv bits valid st" and p: "p \<notin> set (endpoints (rdev st))" "p \<noteq> NULL"
    and e: "ep_rdev e = self st" "unat (ep_addr e) < 1152"
    and bm: "valid bm" "bits bm = (if dyn_addr (ep_addr e)
      then insert (unat (ep_addr e) - 1024) (bits (bitmap (rdev st))) else bits (bitmap (rdev st)))"
    and fresh: "dyn_addr (ep_addr e) \<Longrightarrow> unat (ep_addr e) - 1024 \<notin> bits (bitmap (rdev st))"
  shows "ept_inv bits valid (st\<lparr>rdev := (rdev st)\<lparr>lock := False, bitmap := bm,
    endpoints := endpoints (rdev st) @ [p]\<rparr>, epts := (epts st)(p \<mapsto> e)\<rparr>)" (is "ept_inv _ _ ?st")
proof -
  note i = inv [unfolded ept_inv_def]
  have a: "ept_addr ?st q = (if q = p then unat (ep_addr e) else ept_addr st q)" for q
    by (simp add: ept_addr_def)
  have d: "dyn_epts ?st = dyn_epts st @ (if dyn_addr (ep_addr e) then [p] else [])"
    using p(1) dyn_addr_iff [OF e(2)] unfolding dyn_epts_def a by (auto intro!: filter_cong)
  have m: "map (ept_addr ?st) (dyn_epts st) = map (ept_addr st) (dyn_epts st)"
    using p(1) unfolding a by (auto simp: dyn_epts_def)
  have g: "\<forall>q \<in> set (dyn_epts st). 1024 \<le> ept_addr st q \<and> q \<noteq> p"
    using p(1) by (auto simp: dyn_epts_def)
  have f: "unat (ep_addr e) \<notin> ept_addr st ` set (dyn_epts st)" if "dyn_addr (ep_addr e)"
    using fresh [OF that] i by auto
  have m': "ept_addr ?st ` set (dyn_epts st) = ept_addr st ` set (dyn_epts st)"
    unfolding a using g by auto
  have D: "distinct (map (ept_addr ?st) (dyn_epts ?st))"
    unfolding d map_append distinct_append m using f i by (auto simp: a)
  have B: "bits bm = (\<lambda>q. ept_addr ?st q - 1024) ` set (dyn_epts ?st)"
    using g i unfolding d bm(2) a by (auto simp: image_iff)
  have "registered ?st q" if "q \<in> set (endpoints (rdev st))" for q
    using i that p(1) by (auto simp: registered_def)
  moreover have "registered ?st p" using e by (simp add: registered_def)
  ultimately show ?thesis
    using D B i p bm(1) by (simp add: ept_inv_def)
qed

lemma ept_inv_unregister:
  fixes st :: "('b, 'x) rpmsg_state_scheme"
  assumes inv: "ept_inv bits valid st" and p: "p \<in> set (endpoints (rdev st))" "epts st p = Some e"
    and bm: "valid bm" "bits bm = (if dyn_addr (ep_addr e)
      then bits (bitmap (rdev st)) - {unat (ep_addr e) - 1024} else bits (bitmap (rdev st)))"
  shows "ept_inv bits valid (st\<lparr>rdev := (rdev st)\<lparr>lock := False, bitmap := bm,
    endpoints := remove1 p (endpoints (rdev st))\<rparr>, epts := (epts st)(p \<mapsto> e\<lparr>ep_rdev := NULL\<rparr>)\<rparr>)"
    (is "ept_inv _ _ ?st")
proof -
  note i = inv [unfolded ept_inv_def]
  have a: "ept_addr ?st = ept_addr st" using p(2) by (auto simp: ept_addr_def fun_eq_iff)
  have d: "dyn_epts ?st = remove1 p (dyn_epts st)"
    unfolding dyn_epts_def a by (simp add: filter_remove1)
  have dd: "distinct (dyn_epts st)" using i by (simp add: dyn_epts_def)
  have inj: "inj_on (ept_addr st) (set (dyn_epts st))" using i by (simp add: distinct_map)
  have g: "\<forall>q \<in> set (dyn_epts st). 1024 \<le> ept_addr st q" by (auto simp: dyn_epts_def)
  have pa: "ept_addr st p = unat (ep_addr e)" using p(2) by (simp add: ept_addr_def)
  have lt: "unat (ep_addr e) < 1152" using i p by (auto simp: registered_def)
  have sd: "set (dyn_epts ?st) = set (dyn_epts st) - {p}" unfolding d by (simp add: dd)
  have B: "bits bm = (\<lambda>q. ept_addr st q - 1024) ` set (dyn_epts ?st)"
  proof (cases "dyn_addr (ep_addr e)")
    case True
    then have "p \<in> set (dyn_epts st)" using p pa by (auto simp: dyn_epts_def dyn_addr_def)
    moreover have "inj_on (\<lambda>q. ept_addr st q - 1024) (set (dyn_epts st))"
      using inj g by (simp add: inj_on_def) (metis eq_diff_iff)
    ultimately show ?thesis unfolding bm(2) sd using i True pa by (simp add: inj_on_image_set_diff)
  next
    case False
    then have "p \<notin> set (dyn_epts st)" using pa lt by (auto simp: dyn_epts_def dyn_addr_def)
    then show ?thesis unfolding bm(2) sd using i False by simp
  qed
  have "distinct (map (ept_addr st) (dyn_epts ?st))"
    unfolding d using i dd by (metis distinct_map distinct_remove1 inj_on_subset set_remove1_subset)
  moreover have "registered ?st q" if "q \<in> set (endpoints (rdev st)) - {p}" for q
    using i that by (auto simp: registered_def)
  moreover have "p \<noteq> NULL" using p i by auto
  ultimately show ?thesis
    using B i bm(1) unfolding ept_inv_def a by simp
qed

text \<open>Creating an endpoint once there is an address for it: it is registered and announced.\<close>

lemma create_run:
  assumes "\<not> lock (rdev st)" and "p \<noteq> NULL" and "epts st p = Some e0"
    and "rpmsg_create_addr bo (bitmap (rdev st)) src = (0, Some a, bm)"
    and "ep = rpmsg_initialize_ept e0 name a dest cb ucb"
    and "st1 = st\<lparr>rdev := (rdev st)\<lparr>lock := False, bitmap := bm, endpoints := endpoints (rdev st) @ [p]\<rparr>,
      epts := (epts st)(p \<mapsto> ep\<lparr>ep_rdev := self st\<rparr>)\<rparr>"
  shows "rpmsg_create_ept bo send p name src dest cb ucb st =
    cbind (if ep_name ep ! 0 \<noteq> 0 \<and> support_ns (rdev st) \<and> ep_dest_addr ep = RPMSG_ADDR_ANY
           then rpmsg_send_ns_message send p RPMSG_NS_CREATE st1 else Inr (0, st1)) (\<lambda>(status', st5).
      if status' \<noteq> 0 then cbind (rpmsg_unregister_endpoint bo p st5) (\<lambda>st6. Inr (status', st6))
      else Inr (status', st5))"
  using assms
  by (simp add: rpmsg_create_ept_def lock_dev_def unlock_dev_def put_ept_def get_ept_def
      rpmsg_register_endpoint_def Let_def rpmsg_upd_order)

locale rpmsg_mgmt = metal_bitmap bo bits RPMSG_ADDR_BMP_SIZE valid + rpmsg_transport send tinv
  for bo :: "'b bitmap_ops" and bits valid and send :: "('b, 'x) rpmsg_sender" and tinv
begin

lemma unregister_ok:
  assumes inv: "ept_inv bits valid st" and p: "p \<in> set (endpoints (rdev st))" "epts st p = Some e"
  shows "\<exists>bm. rpmsg_unregister_endpoint bo p st = Inr (st\<lparr>rdev := (rdev st)\<lparr>lock := False, bitmap := bm,
      endpoints := remove1 p (endpoints (rdev st))\<rparr>, epts := (epts st)(p \<mapsto> e\<lparr>ep_rdev := NULL\<rparr>)\<rparr>) \<and>
    valid bm \<and> bits bm = (if dyn_addr (ep_addr e)
      then bits (bitmap (rdev st)) - {unat (ep_addr e) - 1024} else bits (bitmap (rdev st)))"
proof -
  note i = inv [unfolded ept_inv_def]
  have r: "ep_rdev e = self st" "unat (ep_addr e) < 1152"
    using i p by (auto simp: registered_def)
  have any: "ep_addr e \<noteq> RPMSG_ADDR_ANY" using r(2) by (auto simp: RPMSG_ADDR_ANY_def)
  let ?bm = "if dyn_addr (ep_addr e) then clear_bit_at bo (bitmap (rdev st)) (unat (ep_addr e) - 1024)
    else bitmap (rdev st)"
  have "rpmsg_unregister_endpoint bo p st = Inr (st\<lparr>rdev := (rdev st)\<lparr>lock := False, bitmap := ?bm,
      endpoints := remove1 p (endpoints (rdev st))\<rparr>, epts := (epts st)(p \<mapsto> e\<lparr>ep_rdev := NULL\<rparr>)\<rparr>)"
    using i r any p(2)
    by (simp add: rpmsg_unregister_endpoint_def get_ept_def lock_dev_def unlock_dev_def put_ept_def
        address_ops Let_def)
  moreover have "valid ?bm \<and> bits ?bm = (if dyn_addr (ep_addr e)
      then bits (bitmap (rdev st)) - {unat (ep_addr e) - 1024} else bits (bitmap (rdev st)))"
    using i clear_bits [OF _ dyn_addr_index, of "bitmap (rdev st)" "ep_addr e"] by simp
  ultimately show ?thesis by blast
qed

lemma create_addr_spec:
  assumes v: "valid bm" and c: "rpmsg_create_addr bo bm src = (status, ao, bm')"
  shows "case ao of None \<Rightarrow> bm' = bm \<and> status < 0
    | Some a \<Rightarrow> status = 0 \<and> unat a < 1152 \<and> valid bm' \<and>
        bits bm' = (if dyn_addr a then insert (unat a - 1024) (bits bm) else bits bm) \<and>
        (dyn_addr a \<longrightarrow> unat a - 1024 \<notin> bits bm) \<and>
        (if src = RPMSG_ADDR_ANY then dyn_addr a else a = src)"
proof -
  consider "src = RPMSG_ADDR_ANY" | "src \<noteq> RPMSG_ADDR_ANY" "RPMSG_RESERVED_ADDRESSES \<le> src"
    | "src < RPMSG_RESERVED_ADDRESSES" by (meson not_le)
  then show ?thesis
  proof cases
    case 1
    let ?k = "next_clear_bit bo bm 0 RPMSG_ADDR_BMP_SIZE"
    show ?thesis
    proof (cases "?k < RPMSG_ADDR_BMP_SIZE")
      case True
      then have k: "?k < 128" by (simp add: RPMSG_ADDR_BMP_SIZE_def)
      note a = get_address_value [OF k]
      show ?thesis
        using c 1 True a set_bits [OF v True] next_clear_free [OF v True] k
        by (auto simp: rpmsg_create_addr_def rpmsg_get_address_def Let_def RPMSG_SUCCESS_def dyn_addr_def)
    next
      case False
      then show ?thesis using c 1
        by (auto simp: rpmsg_create_addr_def rpmsg_get_address_def Let_def RPMSG_ERR_ADDR_def)
    qed
  next
    case 2
    then show ?thesis
      using c v set_bits [OF v dyn_addr_index] is_set [OF v dyn_addr_index, of src]
      by (auto simp: rpmsg_create_addr_def address_ops Let_def rpmsg_status_defs dyn_addr_def
          split: if_splits)
  next
    case 3
    then have "src \<noteq> RPMSG_ADDR_ANY" by (auto simp: rpmsg_const_defs)
    moreover have "unat src < 1024" using 3 by (simp add: word_less_nat_alt RPMSG_RESERVED_ADDRESSES_def)
    moreover have "\<not> RPMSG_RESERVED_ADDRESSES \<le> src" using 3 by simp
    ultimately show ?thesis using c v
      by (auto simp: rpmsg_create_addr_def rpmsg_status_defs dyn_addr_def)
  qed
qed

text \<open>When the announcement fails, the endpoint that was just registered disappears again.\<close>

lemma create_undone:
  assumes inv: "ept_inv bits valid st5" and t: "tinv st5"
    and d: "endpoints (rdev st5) = ps @ [p]" "p \<notin> set ps" "epts st5 p = Some e"
    and b: "bits (bitmap (rdev st5)) = (if dyn_addr (ep_addr e) then insert (unat (ep_addr e) - 1024) bs else bs)"
      "dyn_addr (ep_addr e) \<Longrightarrow> unat (ep_addr e) - 1024 \<notin> bs"
  shows "\<exists>st6. rpmsg_unregister_endpoint bo p st5 = Inr st6 \<and> ept_inv bits valid st6 \<and> tinv st6 \<and>
    endpoints (rdev st6) = ps \<and> bits (bitmap (rdev st6)) = bs"
proof -
  have p: "p \<in> set (endpoints (rdev st5))" using d by simp
  obtain bm6 where u: "rpmsg_unregister_endpoint bo p st5 = Inr (st5\<lparr>rdev := (rdev st5)\<lparr>lock := False,
      bitmap := bm6, endpoints := remove1 p (endpoints (rdev st5))\<rparr>,
      epts := (epts st5)(p \<mapsto> e\<lparr>ep_rdev := NULL\<rparr>)\<rparr>)" "valid bm6"
    "bits bm6 = (if dyn_addr (ep_addr e) then bits (bitmap (rdev st5)) - {unat (ep_addr e) - 1024}
       else bits (bitmap (rdev st5)))"
    using unregister_ok [OF inv p d(3)] by auto
  note ept_inv_unregister [OF inv p d(3) u(2,3)]
  moreover have "bits bm6 = bs" using u(3) b by auto
  moreover have "remove1 p (endpoints (rdev st5)) = ps" using d by (simp add: remove1_append)
  ultimately show ?thesis using u(1) t by auto
qed

lemma create_ok:
  assumes inv: "ept_inv bits valid st" and t: "tinv st" and p: "p \<notin> set (endpoints (rdev st))" "p \<noteq> NULL"
    and e: "epts st p = Some e0"
  shows "\<exists>r st'. rpmsg_create_ept bo send p name src dest cb ucb st = Inr (r, st') \<and>
    ept_inv bits valid st' \<and> tinv st' \<and>
    (if r = 0 then endpoints (rdev st') = endpoints (rdev st) @ [p] \<and>
       (\<exists>a. epts st' = (epts st)(p \<mapsto> (rpmsg_initialize_ept e0 name a dest cb ucb)\<lparr>ep_rdev := self st\<rparr>) \<and>
          (if src = RPMSG_ADDR_ANY then dyn_addr a \<and> unat a - 1024 \<notin> bits (bitmap (rdev st)) else a = src))
     else r < 0 \<and> endpoints (rdev st') = endpoints (rdev st) \<and> bits (bitmap (rdev st')) = bits (bitmap (rdev st)))"
proof -
  have v: "valid (bitmap (rdev st))" and l: "\<not> lock (rdev st)" using inv by (auto simp: ept_inv_def)
  obtain status ao bm where c: "rpmsg_create_addr bo (bitmap (rdev st)) src = (status, ao, bm)"
    by (metis prod_cases3)
  note spec = create_addr_spec [OF v c]
  show ?thesis
  proof (cases ao)
    case None
    have u: "unlock_dev (st\<lparr>rdev := (rdev st)\<lparr>lock := True, bitmap := bitmap (rdev st)\<rparr>\<rparr>) = st"
      using l by (simp add: unlock_dev_def)
    show ?thesis
      using c spec None l t inv p(2) u by (auto simp: rpmsg_create_ept_def lock_dev_def)
  next
    case (Some a)
    let ?e = "rpmsg_initialize_ept e0 name a dest cb ucb"
    let ?e1 = "?e\<lparr>ep_rdev := self st\<rparr>"
    let ?st = "st\<lparr>rdev := (rdev st)\<lparr>lock := False, bitmap := bm, endpoints := endpoints (rdev st) @ [p]\<rparr>,
      epts := (epts st)(p \<mapsto> ?e1)\<rparr>"
    have sp: "status = 0" "unat a < 1152" "valid bm"
      "bits bm = (if dyn_addr a then insert (unat a - 1024) (bits (bitmap (rdev st))) else bits (bitmap (rdev st)))"
      "dyn_addr a \<Longrightarrow> unat a - 1024 \<notin> bits (bitmap (rdev st))"
      "if src = RPMSG_ADDR_ANY then dyn_addr a else a = src"
      using spec Some by auto
    have ea: "ep_addr ?e1 = a" "ep_rdev ?e1 = self st" by (simp_all add: rpmsg_initialize_ept_def)
    have inv': "ept_inv bits valid ?st"
      by (rule ept_inv_register [OF inv p]) (use sp ea in simp_all)
    have tq: "tinv ?st" using t by simp
    note run = create_run [OF l p(2) e c [unfolded Some sp(1)] refl refl, where send = send and name = name and dest = dest and cb = cb and ucb = ucb]
    have "\<exists>r st5. (if ep_name ?e ! 0 \<noteq> 0 \<and> support_ns (rdev st) \<and> ep_dest_addr ?e = RPMSG_ADDR_ANY
        then rpmsg_send_ns_message send p RPMSG_NS_CREATE ?st else Inr (0, ?st)) = Inr (r, st5) \<and> r \<le> 0 \<and>
        tinv st5 \<and> self st5 = self ?st \<and> rdev st5 = rdev ?st \<and> epts st5 = epts ?st"
      using ns_message_total [OF tq, of p ?e1 RPMSG_NS_CREATE] tq by auto
    then obtain r st5 where r: "(if ep_name ?e ! 0 \<noteq> 0 \<and> support_ns (rdev st) \<and> ep_dest_addr ?e = RPMSG_ADDR_ANY
        then rpmsg_send_ns_message send p RPMSG_NS_CREATE ?st else Inr (0, ?st)) = Inr (r, st5)" "r \<le> 0"
        "tinv st5" "self st5 = self ?st" "rdev st5 = rdev ?st" "epts st5 = epts ?st" by blast
    have inv5: "ept_inv bits valid st5" using inv' ept_inv_cong [OF r(4-6)] by simp
    have "\<exists>st6. rpmsg_unregister_endpoint bo p st5 = Inr st6 \<and> ept_inv bits valid st6 \<and> tinv st6 \<and>
        endpoints (rdev st6) = endpoints (rdev st) \<and> bits (bitmap (rdev st6)) = bits (bitmap (rdev st))"
      by (rule create_undone [OF inv5 r(3), where e = ?e1]) (use r p sp(4,5) ea(1) in simp_all)
    then show ?thesis
      unfolding run r(1) using inv5 r(2,3,5,6) sp(5,6) by (cases "r = 0") (auto intro!: exI [of _ r])
  qed
qed

lemma destroy_ok:
  assumes inv: "ept_inv bits valid st" and t: "tinv st" and p: "p \<in> set (endpoints (rdev st))"
    and e: "epts st p = Some e"
  shows "\<exists>st'. rpmsg_destroy_ept bo send p st = Inr st' \<and> ept_inv bits valid st' \<and> tinv st' \<and>
    self st' = self st \<and>
    endpoints (rdev st') = remove1 p (endpoints (rdev st)) \<and>
    epts st' = (epts st)(p \<mapsto> e\<lparr>ep_rdev := NULL\<rparr>) \<and>
    bits (bitmap (rdev st')) = (if dyn_addr (ep_addr e)
      then bits (bitmap (rdev st)) - {unat (ep_addr e) - 1024} else bits (bitmap (rdev st)))"
proof -
  note i = inv [unfolded ept_inv_def]
  have l: "\<not> lock (rdev st)" and pn: "p \<noteq> NULL" and r: "ep_rdev e = self st" "self st \<noteq> NULL"
    using i p e by (auto simp: registered_def)
  let ?c = "ep_name e ! 0 \<noteq> 0 \<and> support_ns (rdev st) \<and> RPMSG_RESERVED_ADDRESSES \<le> ep_addr e"
  have "\<exists>st1. (if ?c then cbind (rpmsg_send_ns_message send p RPMSG_NS_DESTROY st) (\<lambda>(r, st'). Inr st')
      else Inr st) = Inr st1 \<and> tinv st1 \<and> self st1 = self st \<and> rdev st1 = rdev st \<and> epts st1 = epts st"
    using ns_message_total [OF t l e, of RPMSG_NS_DESTROY] t by auto
  then obtain st1 where s1: "(if ?c then cbind (rpmsg_send_ns_message send p RPMSG_NS_DESTROY st)
        (\<lambda>(r, st'). Inr st') else Inr st) = Inr st1"
      "tinv st1" "self st1 = self st" "rdev st1 = rdev st" "epts st1 = epts st" by blast
  have inv1: "ept_inv bits valid st1"
    using inv ept_inv_cong [OF s1(3-5)] by simp
  have p1: "p \<in> set (endpoints (rdev st1))" "epts st1 p = Some e" using p e s1 by simp_all
  obtain bm where u: "rpmsg_unregister_endpoint bo p st1 = Inr (st1\<lparr>rdev := (rdev st1)\<lparr>lock := False,
      bitmap := bm, endpoints := remove1 p (endpoints (rdev st1))\<rparr>,
      epts := (epts st1)(p \<mapsto> e\<lparr>ep_rdev := NULL\<rparr>)\<rparr>)" (is "_ = Inr ?st2")
    and b: "valid bm" "bits bm = (if dyn_addr (ep_addr e)
      then bits (bitmap (rdev st1)) - {unat (ep_addr e) - 1024} else bits (bitmap (rdev st1)))"
    using unregister_ok [OF inv1 p1] by auto
  have "rpmsg_destroy_ept bo send p st = Inr ?st2"
    using pn e r by (simp add: rpmsg_destroy_ept_def get_ept_def s1(1) u del: if_split)
  moreover have "ept_inv bits valid ?st2" by (rule ept_inv_unregister [OF inv1 p1 b])
  ultimately show ?thesis using s1 b by auto
qed

end

end
