(* ===== verification/App_Link.thy ===== *)
theory App_Link
  imports Echo_Apps Matrix_Apps Rpmsg_Inv
begin

text \<open>
  A client and a service of the examples as one system, joined by a channel that keeps the order and loses nothing, as the transport below does.
  The state of the channel extends the rpmsg state of the client: messages on their way, at most \<open>lk_cap\<close> of them, the number of polls until something happens, and
  the service with its own state, and a record \<open>lk_log\<close> of all answers handed to the client so far, in order. While nothing is on its way a poll brings the announcement of the service, which sets the destination of the client's
  endpoint, or that the service has left, which runs the unbind callback; otherwise the callback of the service runs on the first message, and that of the client on each answer.

  The locale \<open>answering_service\<close> states what a client relies on: a service that can still serve \<open>Suc n\<close> messages answers a message that is \<open>good\<close> by exactly one message,
  and can then serve \<open>n\<close> more. The echo services and the one that multiplies matrices are interpretations.
\<close>

record ('b, 'v) app_link = "'b rpmsg_state" +
  lk_out :: "u8 list list"
  lk_cap :: nat
  lk_wait :: nat
  lk_service :: "('b rpc_out, 'v service_vars_scheme) app_world"
  lk_gone :: bool
  lk_addr :: u32
  lk_log :: "u8 list list"

text \<open>The receive buffer with a message in front of what it held before.\<close>

definition rx_buffer :: "u8 list \<Rightarrow> u8 list \<Rightarrow> u8 list" where
  "rx_buffer junk d = d @ drop (length d) junk"

definition link_send :: "nat \<Rightarrow> u32 \<Rightarrow> u32 \<Rightarrow> u8 list \<Rightarrow> int \<Rightarrow> bool \<Rightarrow> ('b, 'v) app_link \<Rightarrow> (int \<times> ('b, 'v) app_link) cres" where
  "link_send k src dst d n wait s =
     (if dst = RPMSG_NS_EPT_ADDR then Inr (n, s)
      else if lk_cap s \<le> length (lk_out s) then Inr (RPMSG_ERR_NO_BUFF, s)
      else Inr (n, s\<lparr>lk_out := lk_out s @ [d], lk_wait := k\<rparr>))"

type_synonym ('s, 'v) ept_cb = "u8 list \<Rightarrow> u64 \<Rightarrow> ('s, 'v) app_world \<Rightarrow> (int \<times> ('s, 'v) app_world) cres"

fun link_deliver :: "('s, 'c) ept_cb \<Rightarrow> u8 list \<Rightarrow> u8 list list \<Rightarrow> ('s, 'c) app_world \<Rightarrow> ('s, 'c) app_world cres" where
  "link_deliver ccb junk [] w = Inr w"
| "link_deliver ccb junk (a # as) w =
     cbind (ccb (rx_buffer junk a) (of_nat (length a)) w) (\<lambda>(_, w1). link_deliver ccb junk as w1)"

definition link_bind :: "ptr \<Rightarrow> ('b, 'v) app_link \<Rightarrow> ('b, 'v) app_link" where
  "link_bind lept s =
     (case epts s lept of None \<Rightarrow> s
      | Some e \<Rightarrow> if ep_dest_addr e = RPMSG_ADDR_ANY then put_ept s lept (e\<lparr>ep_dest_addr := lk_addr s\<rparr>) else s)"

type_synonym ('s, 'c) unbind_cb = "('s, 'c) app_world \<Rightarrow> ('s, 'c) app_world cres"

definition link_poll ::
  "('b rpc_out, 'v service_vars_scheme) ept_cb \<Rightarrow> (('b, 'v) app_link, 'c) ept_cb \<Rightarrow> (('b, 'v) app_link, 'c) unbind_cb \<Rightarrow> u8 list \<Rightarrow> ptr \<Rightarrow>
   (('b, 'v) app_link, 'c) app_world \<Rightarrow> (('b, 'v) app_link, 'c) app_world cres" where
  "link_poll scb ccb ucb junk lept w =
     (let s = aw_rpmsg w in
      if 0 < lk_wait s then Inr (w\<lparr>aw_rpmsg := s\<lparr>lk_wait := lk_wait s - 1\<rparr>\<rparr>)
      else case lk_out s of
        [] \<Rightarrow> if lk_gone s then Inr w
               else if shutdown_requested (lk_service s) then ucb (w\<lparr>aw_rpmsg := s\<lparr>lk_gone := True\<rparr>\<rparr>)
               else Inr (w\<lparr>aw_rpmsg := link_bind lept s\<rparr>)
      | d # ds \<Rightarrow>
          cbind (scb (rx_buffer junk d) (of_nat (length d)) (lk_service s)) (\<lambda>(_, sv).
          link_deliver ccb junk (out_msgs (aw_rpmsg sv))
            (w\<lparr>aw_rpmsg := s\<lparr>lk_out := ds, lk_service := sv\<lparr>aw_rpmsg := (aw_rpmsg sv)\<lparr>out_msgs := []\<rparr>\<rparr>,
              lk_log := lk_log s @ out_msgs (aw_rpmsg sv)\<rparr>\<rparr>)))"

definition pair_env ::
  "nat \<Rightarrow> 'b bitmap_ops \<Rightarrow> int \<Rightarrow> ('b rpc_out, 'v service_vars_scheme) ept_cb \<Rightarrow> (('b, 'v) app_link, 'c) ept_cb \<Rightarrow> (('b, 'v) app_link, 'c) unbind_cb \<Rightarrow>
   u8 list \<Rightarrow> ptr \<Rightarrow> ('b, ('b, 'v) app_link, 'c) app_env" where
  "pair_env k bo buf_size scb ccb ucb junk lept =
     \<lparr>ae_bitmap = bo, ae_send = link_send k, ae_buffer_size = (\<lambda>s. Inr (buf_size, s)), ae_alloc = (\<lambda>_. True),
      ae_poll = link_poll scb ccb ucb junk lept\<rparr>"

text \<open>What a callback may call: the same, but it does not poll.\<close>

definition call_env :: "nat \<Rightarrow> 'b bitmap_ops \<Rightarrow> int \<Rightarrow> ('b, ('b, 'v) app_link, 'c) app_env" where
  "call_env k bo buf_size =
     \<lparr>ae_bitmap = bo, ae_send = link_send k, ae_buffer_size = (\<lambda>s. Inr (buf_size, s)), ae_alloc = (\<lambda>_. True), ae_poll = Inr\<rparr>"

lemma call_env_sel [simp]: "ae_bitmap (call_env k bo n) = bo" "ae_send (call_env k bo n) = link_send k"
  by (simp_all add: call_env_def)

lemma pair_env_sel [simp]:
  "ae_bitmap (pair_env k bo n scb ccb ucb junk lept) = bo" "ae_send (pair_env k bo n scb ccb ucb junk lept) = link_send k"
  "ae_buffer_size (pair_env k bo n scb ccb ucb junk lept) s = Inr (n, s)" "ae_alloc (pair_env k bo n scb ccb ucb junk lept) x"
  "ae_poll (pair_env k bo n scb ccb ucb junk lept) = link_poll scb ccb ucb junk lept"
  by (simp_all add: pair_env_def)

subsection \<open>Joining and leaving\<close>

text \<open>A client before it has an endpoint, one that can send, and one that can send with nothing on its way.\<close>

definition link_fresh :: "'b bitmap_ops \<Rightarrow> ptr \<Rightarrow> u32 \<Rightarrow> ('b, 'v) app_link \<Rightarrow> bool" where
  "link_fresh bo lept src s \<longleftrightarrow> lept \<noteq> NULL \<and> epts s lept \<noteq> None \<and> lept \<notin> set (endpoints (rdev s)) \<and> self s \<noteq> NULL \<and>
     \<not> lock (rdev s) \<and> send_offchannel_raw (rdev s) \<noteq> NULL \<and>
     (\<exists>a bm. rpmsg_create_addr bo (bitmap (rdev s)) src = (0, Some a, bm)) \<and>
     lk_addr s \<notin> {RPMSG_ADDR_ANY, RPMSG_NS_EPT_ADDR} \<and> lk_out s = [] \<and> 0 < lk_cap s \<and>
     \<not> lk_gone s \<and> \<not> shutdown_requested (lk_service s)"

definition link_open :: "ptr \<Rightarrow> ('b, 'v) app_link \<Rightarrow> bool" where
  "link_open lept s \<longleftrightarrow> lept \<noteq> NULL \<and> \<not> lock (rdev s) \<and> send_offchannel_raw (rdev s) \<noteq> NULL \<and>
     (\<exists>e. epts s lept = Some e \<and> ep_rdev e \<noteq> NULL \<and> ep_dest_addr e \<notin> {RPMSG_ADDR_ANY, RPMSG_NS_EPT_ADDR}) \<and>
     0 < lk_cap s"

definition link_ready :: "ptr \<Rightarrow> ('b, 'v) app_link \<Rightarrow> bool" where
  "link_ready lept s \<longleftrightarrow> link_open lept s \<and> lk_out s = [] \<and> lk_wait s = 0 \<and> \<not> lk_gone s"

lemma ns_linked:
  assumes "lept \<noteq> NULL" and "epts s lept = Some e" and "ep_rdev e \<noteq> NULL" and "send_offchannel_raw (rdev s) \<noteq> NULL"
  shows "rpmsg_send_ns_message (link_send k) lept flags s = Inr (0, s)"
  using assms
  by (simp add: rpmsg_send_ns_message_def get_ept_def Let_def rpmsg_send_offchannel_raw_def link_send_def RPMSG_NS_EPT_ADDR_def
      RPMSG_ADDR_ANY_def RPMSG_SUCCESS_def)

lemma wait_linked:
  assumes "epts s lept = Some e" and "lept \<noteq> NULL" and "ep_rdev e \<noteq> NULL" and "ep_dest_addr e = RPMSG_ADDR_ANY"
    and "lk_out s = []" and "lk_addr s \<noteq> RPMSG_ADDR_ANY" and "\<not> lk_gone s" and "\<not> shutdown_requested (lk_service s)"
  shows "lk_wait s + 2 \<le> fuel \<Longrightarrow> wait_ept_ready fuel (pair_env k bo n scb ccb ucb junk lept) lept (w\<lparr>aw_rpmsg := s\<rparr>) =
    Inr (w\<lparr>aw_rpmsg := put_ept (s\<lparr>lk_wait := 0\<rparr>) lept (e\<lparr>ep_dest_addr := lk_addr s\<rparr>)\<rparr>)"
  using assms
proof (induction "lk_wait s" arbitrary: s fuel)
  case 0
  then obtain f where f: "fuel = Suc (Suc f)" by (cases fuel; cases "fuel - 1") auto
  have "s\<lparr>lk_wait := 0\<rparr> = s" using 0(1) by simp
  then show ?case
    using 0 by (simp add: f is_rpmsg_ept_ready_def get_ept_def link_poll_def link_bind_def put_ept_def Let_def)
next
  case (Suc j)
  then obtain f where f: "fuel = Suc f" by (cases fuel) auto
  have "wait_ept_ready fuel (pair_env k bo n scb ccb ucb junk lept) lept (w\<lparr>aw_rpmsg := s\<rparr>) =
      wait_ept_ready f (pair_env k bo n scb ccb ucb junk lept) lept (w\<lparr>aw_rpmsg := s\<lparr>lk_wait := j\<rparr>\<rparr>)"
    using Suc.prems Suc.hyps(2) [symmetric] by (simp add: f is_rpmsg_ept_ready_def get_ept_def link_poll_def Let_def)
  also have "\<dots> = Inr (w\<lparr>aw_rpmsg := put_ept (s\<lparr>lk_wait := 0\<rparr>) lept (e\<lparr>ep_dest_addr := lk_addr s\<rparr>)\<rparr>)"
    using Suc.hyps(1) [of "s\<lparr>lk_wait := j\<rparr>" f] Suc.prems Suc.hyps(2) by (simp add: f)
  finally show ?case .
qed

text \<open>The endpoint is created, announced and bound to the service.\<close>

lemma link_joins:
  assumes "link_fresh bo lept src (aw_rpmsg w)" and "lk_wait (aw_rpmsg w) + 2 \<le> fuel"
  shows "\<exists>w1 s. app_create_ept (pair_env k bo n scb ccb ucb junk lept) lept name src RPMSG_ADDR_ANY cbp ucbp w = Inr (0, w1) \<and>
    wait_ept_ready fuel (pair_env k bo n scb ccb ucb junk lept) lept w1 = Inr (w\<lparr>aw_rpmsg := s\<rparr>) \<and>
    link_ready lept s \<and> endpoints (rdev s) = endpoints (rdev (aw_rpmsg w)) @ [lept] \<and> lk_service s = lk_service (aw_rpmsg w) \<and>
    lk_cap s = lk_cap (aw_rpmsg w) \<and> lk_log s = lk_log (aw_rpmsg w)"
proof -
  let ?s = "aw_rpmsg w" and ?env = "pair_env k bo n scb ccb ucb junk lept"
  obtain e0 a bm where f: "lept \<noteq> NULL" "epts ?s lept = Some e0" "self ?s \<noteq> NULL" "\<not> lock (rdev ?s)"
      "send_offchannel_raw (rdev ?s) \<noteq> NULL" "rpmsg_create_addr bo (bitmap (rdev ?s)) src = (0, Some a, bm)"
      "lk_addr ?s \<noteq> RPMSG_ADDR_ANY" "lk_addr ?s \<noteq> RPMSG_NS_EPT_ADDR" "lk_out ?s = []" "0 < lk_cap ?s"
      "\<not> lk_gone ?s" "\<not> shutdown_requested (lk_service ?s)"
    using assms(1) by (auto simp: link_fresh_def)
  define e where "e = (rpmsg_initialize_ept e0 (Some name) a RPMSG_ADDR_ANY cbp ucbp)\<lparr>ep_rdev := self ?s\<rparr>"
  define s1 where "s1 = ?s\<lparr>rdev := (rdev ?s)\<lparr>lock := False, bitmap := bm, endpoints := endpoints (rdev ?s) @ [lept]\<rparr>,
    epts := (epts ?s)(lept \<mapsto> e)\<rparr>"
  have e: "ep_rdev e \<noteq> NULL" "ep_dest_addr e = RPMSG_ADDR_ANY" using f(3) by (simp_all add: e_def rpmsg_initialize_ept_def)
  have s1: "epts s1 lept = Some e" "lk_out s1 = []" "lk_addr s1 = lk_addr ?s" "lk_wait s1 = lk_wait ?s"
      "send_offchannel_raw (rdev s1) \<noteq> NULL" "\<not> lock (rdev s1)" "lk_service s1 = lk_service ?s" "lk_cap s1 = lk_cap ?s" "lk_gone s1 = lk_gone ?s" "lk_log s1 = lk_log ?s"
      "endpoints (rdev s1) = endpoints (rdev ?s) @ [lept]"
    using f by (simp_all add: s1_def)
  have "rpmsg_create_ept bo (link_send k) lept (Some name) src RPMSG_ADDR_ANY cbp ucbp ?s = Inr (0, s1)"
    using create_run [OF f(4,1,2,6) refl, where send = "link_send k" and name = "Some name" and dest = RPMSG_ADDR_ANY and cb = cbp and ucb = ucbp
        and ?st1.0 = s1] ns_linked [OF f(1) s1(1) e(1) s1(5), of k RPMSG_NS_CREATE]
    by (simp add: s1_def e_def)
  then have "app_create_ept ?env lept name src RPMSG_ADDR_ANY cbp ucbp w = Inr (0, w\<lparr>aw_rpmsg := s1\<rparr>)"
    by (simp add: app_create_ept_def)
  moreover have "wait_ept_ready fuel ?env lept (w\<lparr>aw_rpmsg := s1\<rparr>) =
      Inr (w\<lparr>aw_rpmsg := put_ept (s1\<lparr>lk_wait := 0\<rparr>) lept (e\<lparr>ep_dest_addr := lk_addr s1\<rparr>)\<rparr>)"
    by (rule wait_linked) (use s1 f e assms(2) in simp_all)
  ultimately show ?thesis
    using f e s1 by (auto simp: link_ready_def link_open_def put_ept_def)
qed

lemma link_ready_open: "link_ready lept s \<Longrightarrow> link_open lept s"
  by (simp add: link_ready_def)

text \<open>Destroying the endpoint leaves the others.\<close>

lemma link_leaves:
  assumes "link_open lept (aw_rpmsg w)" and "endpoints (rdev (aw_rpmsg w)) = es @ [lept]" and "lept \<notin> set es"
    and "ae_bitmap env = bo" and "ae_send env = link_send k"
  shows "\<exists>s. app_destroy_ept env lept w = Inr (w\<lparr>aw_rpmsg := s\<rparr>) \<and>
    endpoints (rdev s) = es \<and> lk_service s = lk_service (aw_rpmsg w) \<and> lk_log s = lk_log (aw_rpmsg w)"
proof -
  obtain e where e: "lept \<noteq> NULL" "epts (aw_rpmsg w) lept = Some e" "ep_rdev e \<noteq> NULL" "\<not> lock (rdev (aw_rpmsg w))"
      "send_offchannel_raw (rdev (aw_rpmsg w)) \<noteq> NULL"
    using assms(1) by (auto simp: link_open_def)
  have "rpmsg_destroy_ept bo (link_send k) lept (aw_rpmsg w) = rpmsg_unregister_endpoint bo lept (aw_rpmsg w)"
    using e ns_linked [OF e(1-3,5), of k RPMSG_NS_DESTROY] by (simp add: rpmsg_destroy_ept_def get_ept_def)
  moreover have "\<exists>s. rpmsg_unregister_endpoint bo lept (aw_rpmsg w) = Inr s \<and> endpoints (rdev s) = es \<and>
      lk_service s = lk_service (aw_rpmsg w) \<and> lk_log s = lk_log (aw_rpmsg w)"
    using e assms(2,3)
    by (simp add: rpmsg_unregister_endpoint_def get_ept_def lock_dev_def unlock_dev_def put_ept_def mutex_acquire_def Let_def remove1_append)
  ultimately show ?thesis using assms(4,5) by (auto simp: app_destroy_ept_def)
qed

subsection \<open>Services that answer\<close>

locale answering_service =
  fixes scb :: "('b rpc_out, 'v service_vars_scheme) ept_cb" and good :: "u8 list \<Rightarrow> bool" and answer :: "u8 list \<Rightarrow> u8 list"
    and idle :: "nat \<Rightarrow> ('b rpc_out, 'v service_vars_scheme) app_world \<Rightarrow> bool"
  assumes answers: "good d \<Longrightarrow> length d \<le> 496 \<Longrightarrow> length junk = 496 \<Longrightarrow> idle (Suc n) sv \<Longrightarrow>
    \<exists>r sv'. scb (rx_buffer junk d) (of_nat (length d)) sv = Inr (r, sv') \<and> out_msgs (aw_rpmsg sv') = [answer d] \<and>
      idle n (sv'\<lparr>aw_rpmsg := (aw_rpmsg sv')\<lparr>out_msgs := []\<rparr>\<rparr>)"
begin

text \<open>The poll that serves a message, and the loop that waits for it.\<close>

lemma poll_serves:
  assumes "lk_wait (aw_rpmsg w) = 0" and "lk_out (aw_rpmsg w) = d # ds" and "idle (Suc m) (lk_service (aw_rpmsg w))"
    and "good d" and "length d \<le> 496" and "length junk = 496"
    and "\<And>w1. aw_vars w1 = aw_vars w \<Longrightarrow>
      ccb (rx_buffer junk (answer d)) (of_nat (length (answer d))) w1 = Inr (r, w1\<lparr>aw_vars := v\<rparr>)"
  shows "\<exists>sv. link_poll scb ccb ucb junk lept w = 
    Inr (w\<lparr>aw_rpmsg := (aw_rpmsg w)\<lparr>lk_out := ds, lk_service := sv, lk_log := lk_log (aw_rpmsg w) @ [answer d]\<rparr>, aw_vars := v\<rparr>) \<and> idle m sv"
proof -
  obtain r' sv' where "scb (rx_buffer junk d) (of_nat (length d)) (lk_service (aw_rpmsg w)) = Inr (r', sv')"
      "out_msgs (aw_rpmsg sv') = [answer d]" "idle m (sv'\<lparr>aw_rpmsg := (aw_rpmsg sv')\<lparr>out_msgs := []\<rparr>\<rparr>)"
    using answers [OF assms(4-6,3)] by blast
  then show ?thesis using assms(1,2,7) by (auto simp: link_poll_def Let_def)
qed

lemma wait_serves:
  assumes "lk_out (aw_rpmsg w) = [d]" and "idle (Suc m) (lk_service (aw_rpmsg w))"
    and "good d" and "length d \<le> 496" and "length junk = 496"
    and c: "\<And>w1. aw_vars w1 = aw_vars w \<Longrightarrow>
      ccb (rx_buffer junk (answer d)) (of_nat (length (answer d))) w1 = Inr (r, w1\<lparr>aw_vars := v\<rparr>)"
    and go: "\<And>w1. aw_vars w1 = aw_vars w \<Longrightarrow> go w1" and stop: "\<And>w1. aw_vars w1 = v \<Longrightarrow> \<not> go w1"
  shows "lk_wait (aw_rpmsg w) < fuel \<Longrightarrow> \<exists>sv. do_poll fuel (pair_env k bo n scb ccb ucb junk lept) go w =
    Inr (w\<lparr>aw_rpmsg := (aw_rpmsg w)\<lparr>lk_out := [], lk_wait := 0, lk_service := sv, lk_log := lk_log (aw_rpmsg w) @ [answer d]\<rparr>, aw_vars := v\<rparr>) \<and> idle m sv"
  using assms
proof (induction "lk_wait (aw_rpmsg w)" arbitrary: w fuel)
  case 0
  then obtain f where f: "fuel = Suc f" by (cases fuel) auto
  have same: "(aw_rpmsg w)\<lparr>lk_out := [], lk_service := sv, lk_log := l\<rparr> = (aw_rpmsg w)\<lparr>lk_out := [], lk_wait := 0, lk_service := sv, lk_log := l\<rparr>" for sv l
    using 0(1) by (cases "aw_rpmsg w") simp
  have "\<exists>sv. link_poll scb ccb ucb junk lept w =
      Inr (w\<lparr>aw_rpmsg := (aw_rpmsg w)\<lparr>lk_out := [], lk_wait := 0, lk_service := sv, lk_log := lk_log (aw_rpmsg w) @ [answer d]\<rparr>, aw_vars := v\<rparr>) \<and> idle m sv"
    by (rule poll_serves [where w = w and ds = "[]" and d = d and r = r, unfolded same]) (use 0 in auto)
  moreover have "\<not> go (w\<lparr>aw_rpmsg := (aw_rpmsg w)\<lparr>lk_out := [], lk_wait := 0, lk_service := sv, lk_log := lk_log (aw_rpmsg w) @ [answer d]\<rparr>, aw_vars := v\<rparr>)" for sv
    using 0 by simp
  ultimately show ?case by (auto simp: f)
next
  case (Suc j)
  then obtain f where f: "fuel = Suc f" by (cases fuel) auto
  let ?w = "w\<lparr>aw_rpmsg := (aw_rpmsg w)\<lparr>lk_wait := j\<rparr>\<rparr>"
  have "link_poll scb ccb ucb junk lept w = Inr ?w" using Suc(2) [symmetric] by (simp add: link_poll_def Let_def)
  moreover have "go ?w" using Suc(10) by simp
  ultimately have "do_poll fuel (pair_env k bo n scb ccb ucb junk lept) go w = do_poll f (pair_env k bo n scb ccb ucb junk lept) go ?w"
    by (simp add: f)
  moreover have "\<exists>sv. do_poll f (pair_env k bo n scb ccb ucb junk lept) go ?w =
      Inr (?w\<lparr>aw_rpmsg := (aw_rpmsg ?w)\<lparr>lk_out := [], lk_wait := 0, lk_service := sv, lk_log := lk_log (aw_rpmsg ?w) @ [answer d]\<rparr>, aw_vars := v\<rparr>) \<and> idle m sv"
    using Suc(2,3) by (intro Suc(1)) (use Suc(4-11) in \<open>auto simp: f\<close>)
  ultimately show ?case by simp
qed

text \<open>One exchange: the client sends a good message, and waits until it has the answer.\<close>

lemma exchange:
  assumes "link_ready lept (aw_rpmsg w)" and "idle (Suc m) (lk_service (aw_rpmsg w))"
    and "good d" and "length d \<le> 496" and "length junk = 496" and "k < fuel"
    and "\<And>w1. aw_vars w1 = aw_vars w \<Longrightarrow>
      ccb (rx_buffer junk (answer d)) (of_nat (length (answer d))) w1 = Inr (r, w1\<lparr>aw_vars := v\<rparr>)"
    and "\<And>w1. aw_vars w1 = aw_vars w \<Longrightarrow> go w1" and "\<And>w1. aw_vars w1 = v \<Longrightarrow> \<not> go w1"
  shows "\<exists>w2 sv s. app_send (pair_env k bo n scb ccb ucb junk lept) lept d w = Inr (int (length d), w2) \<and>
    do_poll fuel (pair_env k bo n scb ccb ucb junk lept) go w2 = Inr (w\<lparr>aw_rpmsg := s, aw_vars := v\<rparr>) \<and>
    s = (aw_rpmsg w)\<lparr>lk_service := sv, lk_log := lk_log (aw_rpmsg w) @ [answer d]\<rparr> \<and> idle m sv \<and> link_ready lept s"
proof -
  let ?env = "pair_env k bo n scb ccb ucb junk lept" and ?w2 = "w\<lparr>aw_rpmsg := (aw_rpmsg w)\<lparr>lk_out := [d], lk_wait := k\<rparr>\<rparr>"
  have l: "lk_out (aw_rpmsg w) = []" "lk_wait (aw_rpmsg w) = 0" using assms(1) by (simp_all add: link_ready_def)
  have "app_send ?env lept d w = Inr (int (length d), ?w2)"
    using assms(1) by (auto simp: link_ready_def link_open_def app_send_def rpmsg_send_def get_ept_def rpmsg_send_offchannel_raw_def link_send_def)
  moreover obtain sv where "do_poll fuel ?env go ?w2 =
      Inr (?w2\<lparr>aw_rpmsg := (aw_rpmsg ?w2)\<lparr>lk_out := [], lk_wait := 0, lk_service := sv, lk_log := lk_log (aw_rpmsg w) @ [answer d]\<rparr>, aw_vars := v\<rparr>)" "idle m sv"
    using wait_serves [where w = ?w2 and d = d and r = r and go = go and v = v and ccb = ccb and fuel = fuel and k = k and bo = bo and n = n
        and lept = lept and ucb = ucb and junk = junk and m = m] assms(2-9) by auto
  moreover have "(aw_rpmsg w)\<lparr>lk_out := [], lk_wait := 0, lk_service := sv, lk_log := x\<rparr> = (aw_rpmsg w)\<lparr>lk_service := sv, lk_log := x\<rparr>" for x
    using l by (cases "aw_rpmsg w") simp
  ultimately show ?thesis using assms(1) by (auto simp: link_ready_def link_open_def)
qed

end

end
