(* ===== verification/App_Props.thy ===== *)
theory App_Props
  imports App_Link
begin

text \<open>
  The services of the examples answer (interpretations of \<open>answering_service\<close>), and therefore the clients succeed: the client of the echo service gets each of its
  messages back unchanged, and the one of the matrix service gets the product that it computed itself, in every round, after which the endpoint and the
  memory are given back.
\<close>

subsection \<open>The services\<close>

text \<open>What a service calls below, and a service whose endpoint can send and that has nothing to send.\<close>

definition serv_env :: "'b bitmap_ops \<Rightarrow> ('b, 'b rpc_out, 'v) app_env" where
  "serv_env bo = \<lparr>ae_bitmap = bo, ae_send = out_send, ae_buffer_size = (\<lambda>s. Inr (496, s)), ae_alloc = (\<lambda>_. True), ae_poll = Inr\<rparr>"

definition service_idle :: "ptr \<Rightarrow> ('b rpc_out, 'v) app_world \<Rightarrow> bool" where
  "service_idle p sv \<longleftrightarrow> ept_live (aw_rpmsg sv) p \<and> out_msgs (aw_rpmsg sv) = []"

definition echo_good :: "u8 list \<Rightarrow> bool" where
  "echo_good d \<longleftrightarrow> 4 \<le> length d \<and> le_word (take 4 d) \<noteq> SHUTDOWN_MSG"

lemma service_sends:
  assumes "service_idle p sv"
  shows "app_send (serv_env bo) p d sv = Inr (int (length d), sv\<lparr>aw_rpmsg := (aw_rpmsg sv)\<lparr>out_msgs := [d]\<rparr>\<rparr>)"
proof -
  obtain src dst where "rpmsg_send out_send p (Some d) (int (length d)) (aw_rpmsg sv) = out_send src dst d (int (length d)) True (aw_rpmsg sv)"
    using rpmsg_send_live assms unfolding service_idle_def by blast
  then show ?thesis using assms by (simp add: app_send_def serv_env_def out_send_def service_idle_def)
qed

lemma service_idle_again:
  "service_idle p sv \<Longrightarrow> service_idle p (sv\<lparr>aw_rpmsg := (aw_rpmsg sv)\<lparr>out_msgs := []\<rparr>\<rparr>)"
  by (simp add: service_idle_def ept_live_def)

lemma rx_buffer_bytes:
  assumes "length d \<le> 496" and "length junk = 496"
  shows "length (rx_buffer junk d) = 496" "unat (of_nat (length d) :: u64) = length d"
    "n \<le> length d \<Longrightarrow> sub_bytes (rx_buffer junk d) 0 n = Inr (take n d)"
  using assms by (simp_all add: rx_buffer_def sub_bytes_def unat_of_nat_64)

lemmas service_simps = service_sends service_idle_again rx_buffer_bytes

subsection \<open>The client of an echo service\<close>

text \<open>Message \<open>i\<close> with \<open>n\<close> bytes of data: it is no request to shut down, and the callbacks of the clients find it unchanged.\<close>

definition echo_message :: "nat \<Rightarrow> nat \<Rightarrow> u8 list" where
  "echo_message n i = le_bytes 8 (of_nat i :: u64) @ le_bytes 8 (of_nat n :: u64) @ replicate n 0xA5"

lemma echo_message_length [simp]: "length (echo_message n i) = 16 + n"
  by (simp add: echo_message_def)

lemma echo_message_good:
  assumes "i < 2 ^ 31"
  shows "echo_good (echo_message n i)"
proof -
  have "take 4 (echo_message n i) = le_bytes 4 (of_nat i :: u64)"
    by (simp add: echo_message_def le_bytes_def take_map)
  moreover have "le_bytes 4 (of_nat i :: u64) = le_bytes 4 (of_nat i :: u32)"
    by (auto simp: le_bytes_def intro!: bit_word_eqI simp: bit_simps)
  ultimately have "le_word (take 4 (echo_message n i)) = (of_nat i :: u32)" by (simp add: le_word_bytes)
  moreover have "unat (of_nat i :: u32) = i" using assms by (intro unat_of_nat_32) simp
  moreover have "unat SHUTDOWN_MSG = 0xEF56A55A" by (simp add: SHUTDOWN_MSG_def)
  ultimately show ?thesis using assms by (auto simp: echo_good_def)
qed

lemma echo_message_fields [simp]:
  "r_num (rx_buffer junk (echo_message n i)) = of_nat i" "r_size (rx_buffer junk (echo_message n i)) = of_nat n"
  by (simp_all add: r_num_def r_size_def rx_buffer_def echo_message_def le_word_bytes)

lemma echo_message_data:
  "rx_buffer junk (echo_message n i) =
    (le_bytes 8 (of_nat i :: u64) @ le_bytes 8 (of_nat n :: u64)) @ replicate n 0xA5 @ drop (16 + n) junk"
  by (simp add: rx_buffer_def echo_message_def)

lemma next_rnum: "i < 2 ^ 30 \<Longrightarrow> signed_take_bit 31 (uint (of_nat i + 1 :: u64)) = int (Suc i)"
proof -
  assume i: "i < 2 ^ 30"
  have "unat (of_nat (Suc i) :: u64) = Suc i" using i by (intro unat_of_nat_64) simp
  then have "int (unat (of_nat i + 1 :: u64)) = int (Suc i)" by (simp add: add.commute)
  then have "uint (of_nat i + 1 :: u64) = int (Suc i)" by simp
  then show ?thesis using i by (simp add: signed_take_bit_id)
qed

text \<open>The message that \<open>ping_app\<close> sends in round \<open>i\<close>, and its callback.\<close>

lemma ping_filled:
  assumes "Suc i \<le> length (py_data p)"
  shows "\<exists>q. ping_fill (int i) (PAYLOAD_MIN_SIZE + int i) p = Inr q \<and> length (py_data q) = length (py_data p) \<and>
    take (PAYLOAD_HDR + nat (PAYLOAD_MIN_SIZE + int i)) (payload_bytes q) = echo_message (Suc i) i"
proof -
  have "nat (PAYLOAD_MIN_SIZE + int i) = Suc i" by (simp add: PAYLOAD_MIN_SIZE_def)
  moreover have "PAYLOAD_MIN_SIZE + int i = int (Suc i)" by (simp add: PAYLOAD_MIN_SIZE_def)
  ultimately show ?thesis using assms by (simp add: ping_fill_def echo_message_def payload_bytes_def PAYLOAD_HDR_def)
qed

lemma ping_check_ok:
  "j + n \<le> c \<Longrightarrow> ping_check n (h @ replicate c 0xA5 @ t) j = Inr True" if "length h = PAYLOAD_HDR"
  by (induction n arbitrary: j) (use that in \<open>simp_all add: rd_def nth_append\<close>)

lemma ping_cb_ok:
  assumes "0 < n" and "n \<le> 480" and "i < 2 ^ 30" and "length junk = 496"
  shows "ping_endpoint_cb (rx_buffer junk (echo_message n i)) len w = Inr (RPMSG_SUCCESS, w\<lparr>aw_vars := (aw_vars w)\<lparr>cv_rnum := int (Suc i)\<rparr>\<rparr>)"
proof -
  have u: "unat (of_nat n :: u64) = n" using assms(2) by (intro unat_of_nat_64) simp
  then have "int (unat (of_nat n :: u64)) = int n" by simp
  then have "uint (of_nat n :: u64) = int n" by simp
  moreover have "signed_take_bit 31 (int n) = int n" using assms(2) by (intro signed_take_bit_id) simp_all
  moreover have "(of_nat n :: u64) \<noteq> 0" using u assms(1) by auto
  moreover have "ping_check n (rx_buffer junk (echo_message n i)) 0 = Inr True"
    unfolding echo_message_data by (rule ping_check_ok) (simp_all add: PAYLOAD_HDR_def)
  ultimately show ?thesis using assms rx_buffer_bytes(1) [of "echo_message n i" junk]
    by (simp add: ping_endpoint_cb_def PAYLOAD_HDR_def next_rnum [simplified])
qed

locale echoing_service = answering_service scb echo_good "\<lambda>d. d" idle
  for scb :: "('b rpc_out, 'v service_vars_scheme) ept_cb" and idle
begin

lemma ping_rounds_run:
  assumes "length junk = 496" and "k < fuel"
  shows "link_ready lept (aw_rpmsg w) \<Longrightarrow> idle (n + m) (lk_service (aw_rpmsg w)) \<Longrightarrow> i + n \<le> 480 \<Longrightarrow> i + n \<le> length (py_data (pg_payload (aw_vars w))) \<Longrightarrow>
    cv_err_cnt (aw_vars w) = 0 \<Longrightarrow> \<not> cv_ept_deleted (aw_vars w) \<Longrightarrow> cv_rnum (aw_vars w) = int i \<Longrightarrow>
    \<exists>w'. ping_rounds n fuel (pair_env k bo sz scb ping_endpoint_cb ucb junk lept) lept (int i) w = Inr w' \<and> link_ready lept (aw_rpmsg w') \<and>
      idle m (lk_service (aw_rpmsg w')) \<and> endpoints (rdev (aw_rpmsg w')) = endpoints (rdev (aw_rpmsg w)) \<and>
      cv_err_cnt (aw_vars w') = 0 \<and> cv_rnum (aw_vars w') = int (i + n) \<and> aw_blocks w' = aw_blocks w"
proof (induction n arbitrary: i w)
  case (Suc n)
  let ?env = "pair_env k bo sz scb ping_endpoint_cb ucb junk lept"
  obtain q where q: "ping_fill (int i) (PAYLOAD_MIN_SIZE + int i) (pg_payload (aw_vars w)) = Inr q"
      "length (py_data q) = length (py_data (pg_payload (aw_vars w)))"
      "take (PAYLOAD_HDR + nat (PAYLOAD_MIN_SIZE + int i)) (payload_bytes q) = echo_message (Suc i) i"
    using ping_filled [of i "pg_payload (aw_vars w)"] Suc.prems(4) by auto
  let ?w = "w\<lparr>aw_vars := (aw_vars w)\<lparr>pg_payload := q\<rparr>\<rparr>"
  let ?v = "(aw_vars ?w)\<lparr>cv_rnum := int (Suc i)\<rparr>"
  have "\<exists>w2 sv s. app_send ?env lept (echo_message (Suc i) i) ?w = Inr (int (length (echo_message (Suc i) i)), w2) \<and>
    do_poll fuel ?env (ping_waits (int i + 1)) w2 = Inr (?w\<lparr>aw_rpmsg := s, aw_vars := ?v\<rparr>) \<and>
    s = (aw_rpmsg ?w)\<lparr>lk_service := sv, lk_log := lk_log (aw_rpmsg ?w) @ [echo_message (Suc i) i]\<rparr> \<and> idle (n + m) sv \<and> link_ready lept s"
    by (rule exchange [where r = RPMSG_SUCCESS and m = "n + m"])
      (use Suc.prems assms echo_message_good [of i] in \<open>simp_all add: ping_waits_def ping_cb_ok\<close>)
  then obtain w2 sv s where x: "app_send ?env lept (echo_message (Suc i) i) ?w = Inr (int (17 + i), w2)"
      "do_poll fuel ?env (ping_waits (int i + 1)) w2 = Inr (?w\<lparr>aw_rpmsg := s, aw_vars := ?v\<rparr>)"
      "s = (aw_rpmsg w)\<lparr>lk_service := sv, lk_log := lk_log (aw_rpmsg w) @ [echo_message (Suc i) i]\<rparr>" "idle (n + m) sv" "link_ready lept s" by auto
  have "ping_rounds (Suc n) fuel ?env lept (int i) w = ping_rounds n fuel ?env lept (int (Suc i)) (?w\<lparr>aw_rpmsg := s, aw_vars := ?v\<rparr>)"
    using q x(1,2) by (simp add: Let_def add.commute)
  then show ?case
    using Suc.IH [of "?w\<lparr>aw_rpmsg := s, aw_vars := ?v\<rparr>" "Suc i"] Suc.prems q(2) x(3-5) by auto
qed auto

lemma ping_run:
  assumes "link_fresh bo lept RPMSG_ADDR_ANY (aw_rpmsg w)" and "idle (nat (sz - 16)) (lk_service (aw_rpmsg w))" and "length junk = 496"
    and "16 < sz" and "sz \<le> 496" and "lk_wait (aw_rpmsg w) + 2 \<le> fuel" and "k < fuel"
    and "cv_err_cnt (aw_vars w) = 0" and "\<not> cv_ept_deleted (aw_vars w)" and "cv_rnum (aw_vars w) = 0"
  shows "\<exists>w'. ping_app fuel (pair_env k bo sz scb ping_endpoint_cb ucb junk lept) blk lept w = Inr (0, w') \<and>
    cv_err_cnt (aw_vars w') = 0 \<and> cv_rnum (aw_vars w') = sz - 16 \<and>
    endpoints (rdev (aw_rpmsg w')) = endpoints (rdev (aw_rpmsg w)) \<and> aw_blocks w' = aw_blocks w"
proof -
  let ?env = "pair_env k bo sz scb ping_endpoint_cb ucb junk lept" and ?n = "nat (sz - 16)"
  define w2 where "w2 = w\<lparr>aw_blocks := Suc (aw_blocks w),
    aw_vars := (aw_vars w)\<lparr>pg_payload := \<lparr>py_num = 0, py_size = 0, py_data = map blk [0..<?n]\<rparr>\<rparr>\<rparr>"
  have r: "aw_rpmsg w2 = aw_rpmsg w" by (simp add: w2_def)
  obtain w3 s where j: "app_create_ept ?env lept RPMSG_SERVICE_NAME RPMSG_ADDR_ANY RPMSG_ADDR_ANY APP_CB APP_UNBIND w2 = Inr (0, w3)"
      "wait_ept_ready fuel ?env lept w3 = Inr (w2\<lparr>aw_rpmsg := s\<rparr>)" "link_ready lept s"
      "endpoints (rdev s) = endpoints (rdev (aw_rpmsg w)) @ [lept]" "lk_service s = lk_service (aw_rpmsg w)"
    using link_joins [of bo lept RPMSG_ADDR_ANY w2 fuel k sz scb ping_endpoint_cb ucb junk RPMSG_SERVICE_NAME APP_CB APP_UNBIND] assms(1,6) by (auto simp: r)
  have n: "?n \<le> 480" using assms(5) by simp
  obtain w5 where p: "ping_rounds ?n fuel ?env lept 0 (w2\<lparr>aw_rpmsg := s\<rparr>) = Inr w5" "link_ready lept (aw_rpmsg w5)"
      "endpoints (rdev (aw_rpmsg w5)) = endpoints (rdev (aw_rpmsg w)) @ [lept]"
      "cv_err_cnt (aw_vars w5) = 0" "cv_rnum (aw_vars w5) = sz - 16" "aw_blocks w5 = aw_blocks w + 1"
    using ping_rounds_run [OF assms(3,7), where lept = lept and w = "w2\<lparr>aw_rpmsg := s\<rparr>" and i = 0 and n = ?n and m = 0 and bo = bo and sz = sz and ucb = ucb] assms(2,4,8-10) j(3-5) n
    by (auto simp: w2_def)
  obtain s' where "app_destroy_ept ?env lept w5 = Inr (w5\<lparr>aw_rpmsg := s'\<rparr>)" "endpoints (rdev s') = endpoints (rdev (aw_rpmsg w))"
    using link_leaves [OF link_ready_open [OF p(2)] p(3), of ?env bo k] assms(1) by (auto simp: link_fresh_def)
  then have "ping_app fuel ?env blk lept w = Inr (0, w5\<lparr>aw_rpmsg := s', aw_blocks := aw_blocks w\<rparr>)"
    using j(1,2) p(1,6) assms(4) by (simp add: ping_app_def Let_def PAYLOAD_HDR_def PAYLOAD_MIN_SIZE_def flip: w2_def)
  then show ?thesis using \<open>endpoints (rdev s') = _\<close> p(4,5) by simp
qed

end

interpretation echo: echoing_service "echo_endpoint_cb (serv_env bo) p" "\<lambda>n. service_idle p" for bo p
  by unfold_locales (simp add: echo_endpoint_cb_def echo_good_def service_simps)

interpretation update: echoing_service "update_endpoint_cb (Suc fuel) (serv_env bo) p" "\<lambda>n. service_idle p" for fuel bo p
  by unfold_locales (simp add: update_endpoint_cb_def echo_good_def service_simps RPMSG_ERR_NO_BUFF_def)

text \<open>
  C13. The echo example. A client that starts with no endpoint, joined to an idle echo service, creates its endpoint, waits for the service, sends a message of each size that fits
  into a buffer, gets each of them back with all data intact, and ends with 0: no error is counted, the last
  number received is that of the last message, the endpoint is gone and the payload is freed. This holds however many polls each answer takes, if the loops may run longer than that.
\<close>

theorem ping_echo_ok:
  fixes w :: "(('b, 'v) app_link, ping_vars) app_world"
  assumes "link_fresh bo lept RPMSG_ADDR_ANY (aw_rpmsg w)" and "service_idle sept (lk_service (aw_rpmsg w))" and "length junk = 496"
    and "16 < sz" and "sz \<le> 496" and "lk_wait (aw_rpmsg w) + 2 \<le> fuel" and "k < fuel"
    and "cv_err_cnt (aw_vars w) = 0" and "\<not> cv_ept_deleted (aw_vars w)" and "cv_rnum (aw_vars w) = 0"
  shows "\<exists>w'. ping_app fuel (pair_env k bo sz (echo_endpoint_cb (serv_env bo) sept) ping_endpoint_cb ucb junk lept) blk lept w = Inr (0, w') \<and>
    cv_err_cnt (aw_vars w') = 0 \<and> cv_rnum (aw_vars w') = sz - 16 \<and>
    endpoints (rdev (aw_rpmsg w')) = endpoints (rdev (aw_rpmsg w)) \<and> aw_blocks w' = aw_blocks w"
  using assms by (rule echo.ping_run)

text \<open>The pair of programs of the tests.\<close>

lemma test_ping_update_ok:
  fixes w :: "(('b, 'v) app_link, ping_vars) app_world"
  assumes "link_fresh bo lept RPMSG_ADDR_ANY (aw_rpmsg w)" and "service_idle sept (lk_service (aw_rpmsg w))" and "length junk = 496"
    and "16 < sz" and "sz \<le> 496" and "lk_wait (aw_rpmsg w) + 2 \<le> fuel" and "k < fuel"
    and "cv_err_cnt (aw_vars w) = 0" and "\<not> cv_ept_deleted (aw_vars w)" and "cv_rnum (aw_vars w) = 0"
  shows "\<exists>w'. test_ping_app fuel (pair_env k bo sz (update_endpoint_cb (Suc tries) (serv_env bo) sept) test_ping_endpoint_cb ucb junk lept) blk lept w =
      Inr (0, w') \<and> cv_err_cnt (aw_vars w') = 0 \<and> cv_rnum (aw_vars w') = sz - 16 \<and>
    endpoints (rdev (aw_rpmsg w')) = endpoints (rdev (aw_rpmsg w)) \<and> aw_blocks w' = aw_blocks w"
  unfolding test_ping_app_def test_ping_endpoint_cb_def using assms by (rule update.ping_run)

subsection \<open>The matrix service and its client\<close>

definition matrix_request :: "u8 list \<Rightarrow> bool" where
  "matrix_request d \<longleftrightarrow> length d = NUM_MATRIX * MATRIX_BYTES \<and> unat (mx_size (matrix_at d)) \<le> MAX_SIZE \<and>
     unat (mx_size (matrix_at (drop MATRIX_BYTES d))) \<le> MAX_SIZE"

definition matrix_answer :: "u8 list \<Rightarrow> u8 list" where
  "matrix_answer d = (case Matrix_Multiply (matrix_at d) (matrix_at (drop MATRIX_BYTES d)) of Inl f \<Rightarrow> [] | Inr r \<Rightarrow> matrix_bytes r)"

lemma matrix_request_first:
  assumes "matrix_request d"
  shows "le_word (take 4 d) \<noteq> SHUTDOWN_MSG" "4 \<le> length d"
proof -
  have "mx_size (matrix_at d) \<noteq> SHUTDOWN_MSG" using assms by (auto simp: matrix_request_def SHUTDOWN_MSG_def MAX_SIZE_def)
  then show "le_word (take 4 d) \<noteq> SHUTDOWN_MSG" by (simp add: matrix_at_def)
qed (use assms in \<open>simp add: matrix_request_def NUM_MATRIX_def MATRIX_BYTES_def\<close>)

interpretation matrixd: answering_service "matrixd_endpoint_cb (serv_env bo) stk p" matrix_request matrix_answer "\<lambda>n. service_idle p" for bo stk p
proof
  fix d junk :: "u8 list" and sv :: "('a rpc_out, 'b service_vars_scheme) app_world"
  assume d: "matrix_request d" and b: "length d \<le> 496" "length junk = 496" and i: "service_idle p sv"
  have l: "length d = NUM_MATRIX * MATRIX_BYTES" using d by (simp add: matrix_request_def)
  then have nl: "\<not> NUM_MATRIX * MATRIX_BYTES < length d" by simp
  obtain r where r: "Matrix_Multiply (matrix_at d) (matrix_at (drop MATRIX_BYTES d)) = Inr r"
    using multiply_runs [of "matrix_at d" "matrix_at (drop MATRIX_BYTES d)"] d by (auto simp: matrix_request_def)
  have "matrix_at (d @ t) = matrix_at d" "matrix_at (drop MATRIX_BYTES d @ t) = matrix_at (drop MATRIX_BYTES d)" for t
    using l by (simp_all add: matrix_at_append NUM_MATRIX_def)
  then have "matrixd_endpoint_cb (serv_env bo) stk p (rx_buffer junk d) (of_nat (length d)) sv =
      Inr (RPMSG_SUCCESS, sv\<lparr>aw_rpmsg := (aw_rpmsg sv)\<lparr>out_msgs := [matrix_bytes r]\<rparr>\<rparr>)"
    using matrix_request_first [OF d] b i r nl by (simp add: matrixd_endpoint_cb_def rx_buffer_bytes service_sends Let_def)
  then show "\<exists>r sv'. matrixd_endpoint_cb (serv_env bo) stk p (rx_buffer junk d) (of_nat (length d)) sv = Inr (r, sv') \<and>
      out_msgs (aw_rpmsg sv') = [matrix_answer d] \<and> service_idle p (sv'\<lparr>aw_rpmsg := (aw_rpmsg sv')\<lparr>out_msgs := []\<rparr>\<rparr>)"
    using r i by (simp add: matrix_answer_def service_idle_again)
qed

text \<open>The request of a round, the answer to it, and the callback that compares the answer with the expected product.\<close>

lemma matrix_exchange:
  assumes "matrix_wf a" and "matrix_wf b" and "mx_size a = 6" and "mx_size b = 6" and "matrix_multiply a b = Inr e"
  shows "matrix_request (matrix_bytes a @ matrix_bytes b)" "matrix_answer (matrix_bytes a @ matrix_bytes b) = matrix_bytes e"
proof -
  let ?d = "matrix_bytes a @ matrix_bytes b"
  have b: "matrix_at ?d = a" "matrix_at (drop MATRIX_BYTES ?d) = b"
    using matrix_at_bytes [OF assms(1)] matrix_at_bytes [OF assms(2), of "[]"] by (simp_all add: matrix_bytes_length assms(1))
  show "matrix_request ?d" unfolding matrix_request_def b
    using assms(1-4) by (simp add: matrix_bytes_length NUM_MATRIX_def MAX_SIZE_def)
  show "matrix_answer ?d = matrix_bytes e" unfolding matrix_answer_def b using assms(5) by (simp add: matrix_multiply_def)
qed

lemma matrix_cb_ok:
  assumes "matrix_wf e" and "mv_e_matrix (aw_vars w) = e" and "cv_err_cnt (aw_vars w) = 0" and "length junk = 496" and "unat len = MATRIX_BYTES"
  shows "matrix_endpoint_cb (rx_buffer junk (matrix_bytes e)) len w =
    Inr (RPMSG_SUCCESS, w\<lparr>aw_vars := (aw_vars w)\<lparr>mv_result_returned := True\<rparr>\<rparr>)"
proof -
  have l: "length (matrix_bytes e) = MATRIX_BYTES" "MATRIX_BYTES \<le> 496" using assms(1) by (simp_all add: matrix_bytes_length MATRIX_BYTES_def)
  have "sub_bytes (rx_buffer junk (matrix_bytes e)) 0 MATRIX_BYTES = Inr (matrix_bytes e)"
    using rx_buffer_bytes(3) [of "matrix_bytes e" junk MATRIX_BYTES] l assms(4) by simp
  moreover have "(aw_vars w)\<lparr>cv_err_cnt := 0, mv_result_returned := True\<rparr> = (aw_vars w)\<lparr>mv_result_returned := True\<rparr>"
    using assms(3) by (cases "aw_vars w") simp
  moreover have "matrix_at (matrix_bytes e) = e" using matrix_at_bytes [OF assms(1), of "[]"] by simp
  ultimately show ?thesis using assms l(1) same_matrix [of "mx_elements e" 0 MAX_SIZE]
    by (simp add: matrix_endpoint_cb_def matrix_wf_grid Let_def)
qed

lemma matrix_rounds_run:
  fixes w :: "(('b, 'v) app_link, matrix_vars) app_world"
  assumes "length junk = 496" and "k < fuel"
  shows "link_ready lept (aw_rpmsg w) \<Longrightarrow> service_idle sept (lk_service (aw_rpmsg w)) \<Longrightarrow> length (mv_i_matrix (aw_vars w)) = NUM_MATRIX \<Longrightarrow>
    cv_err_cnt (aw_vars w) = 0 \<Longrightarrow> \<not> cv_ept_deleted (aw_vars w) \<Longrightarrow>
    \<exists>w'. matrix_rounds c fuel (pair_env k bo sz (matrixd_endpoint_cb (serv_env bo) stk sept) matrix_endpoint_cb ucb junk lept) rnd lept w = Inr w' \<and>
      link_ready lept (aw_rpmsg w') \<and> endpoints (rdev (aw_rpmsg w')) = endpoints (rdev (aw_rpmsg w)) \<and>
      cv_err_cnt (aw_vars w') = 0 \<and> mv_rand (aw_vars w') = mv_rand (aw_vars w) + 72 * c"
proof (induction c arbitrary: w)
  case (Suc c)
  let ?env = "pair_env k bo sz (matrixd_endpoint_cb (serv_env bo) stk sept) matrix_endpoint_cb ucb junk lept"
  obtain a b where g: "generate_matrices NUM_MATRIX MAX_SIZE rnd (mv_rand (aw_vars w)) (mv_i_matrix (aw_vars w)) = Inr [a, b]"
      "matrix_wf a" "matrix_wf b" "mx_size a = 6" "mx_size b = 6"
    using generated [OF Suc.prems(3)] by blast
  obtain e where e: "matrix_multiply a b = Inr e" "matrix_wf e"
    using multiply_runs [OF g(2,3)] g(4,5) by (auto simp: matrix_multiply_def MAX_SIZE_def)
  note x = matrix_exchange [OF g(2-5) e(1)]
  let ?d = "matrix_bytes a @ matrix_bytes b"
  let ?w = "w\<lparr>aw_vars := (aw_vars w)\<lparr>mv_i_matrix := [a, b], mv_e_matrix := e, mv_result_returned := False,
    mv_rand := mv_rand (aw_vars w) + 72\<rparr>\<rparr>"
  let ?v = "(aw_vars ?w)\<lparr>mv_result_returned := True\<rparr>"
  let ?go = "\<lambda>w. \<not> mv_result_returned (aw_vars w) \<and> cv_err_cnt (aw_vars w) = 0 \<and> \<not> cv_ept_deleted (aw_vars w)"
  have "\<exists>w2 sv s. app_send ?env lept ?d ?w = Inr (int (length ?d), w2) \<and> do_poll fuel ?env ?go w2 = Inr (?w\<lparr>aw_rpmsg := s, aw_vars := ?v\<rparr>) \<and>
    s = (aw_rpmsg ?w)\<lparr>lk_service := sv, lk_log := lk_log (aw_rpmsg ?w) @ [matrix_answer ?d]\<rparr> \<and> service_idle sept sv \<and> link_ready lept s"
    by (rule matrixd.exchange [where r = RPMSG_SUCCESS, OF _ _ x(1)])
      (use Suc.prems assms g(2,3) e(2) in \<open>simp_all add: x(2) matrix_cb_ok matrix_bytes_length MATRIX_BYTES_def\<close>)
  then obtain w2 sv s where y: "app_send ?env lept ?d ?w = Inr (int (length ?d), w2)"
      "do_poll fuel ?env ?go w2 = Inr (?w\<lparr>aw_rpmsg := s, aw_vars := ?v\<rparr>)"
      "s = (aw_rpmsg w)\<lparr>lk_service := sv, lk_log := lk_log (aw_rpmsg w) @ [matrix_answer ?d]\<rparr>" "service_idle sept sv" "link_ready lept s" by auto
  have n: "NUM_MATRIX * MAX_SIZE * MAX_SIZE = 72" by (simp add: NUM_MATRIX_def MAX_SIZE_def)
  have "matrix_rounds (Suc c) fuel ?env rnd lept w = matrix_rounds c fuel ?env rnd lept (?w\<lparr>aw_rpmsg := s, aw_vars := ?v\<rparr>)"
    using g(1) e(1) y(1,2) Suc.prems(4) by (simp add: Let_def n)
  then show ?case
    using Suc.IH [of "?w\<lparr>aw_rpmsg := s, aw_vars := ?v\<rparr>"] Suc.prems y(3-5) by (auto simp: NUM_MATRIX_def)
qed auto

text \<open>
  C14. The matrix example. A client with no endpoint, joined to an idle matrix service, creates its endpoint and 200 times sends two random matrices and gets back exactly the
  product that it computed itself: the program ends with 0 after 200 rounds, with no error counted and the endpoint gone. This holds for all random numbers, whatever the stack of
  the service and the receive buffer held before, and however many polls each answer takes.
\<close>

theorem matrix_client_ok:
  fixes w :: "(('b, 'v) app_link, matrix_vars) app_world"
  assumes "link_fresh bo lept RPMSG_ADDR_ANY (aw_rpmsg w)" and "service_idle sept (lk_service (aw_rpmsg w))" and "length junk = 496"
    and "lk_wait (aw_rpmsg w) + 2 \<le> fuel" and "k < fuel"
    and "length (mv_i_matrix (aw_vars w)) = NUM_MATRIX" and "\<not> cv_ept_deleted (aw_vars w)"
  shows "\<exists>w'. matrix_app fuel (pair_env k bo sz (matrixd_endpoint_cb (serv_env bo) stk sept) matrix_endpoint_cb ucb junk lept) rnd lept w = Inr (0, w') \<and>
    cv_err_cnt (aw_vars w') = 0 \<and> mv_rand (aw_vars w') = mv_rand (aw_vars w) + 72 * 200 \<and>
    endpoints (rdev (aw_rpmsg w')) = endpoints (rdev (aw_rpmsg w))"
proof -
  let ?env = "pair_env k bo sz (matrixd_endpoint_cb (serv_env bo) stk sept) matrix_endpoint_cb ucb junk lept"
  obtain w3 s where j: "app_create_ept ?env lept RPMSG_SERVICE_NAME RPMSG_ADDR_ANY RPMSG_ADDR_ANY MATRIX_CB MATRIX_UNBIND w = Inr (0, w3)"
      "wait_ept_ready fuel ?env lept w3 = Inr (w\<lparr>aw_rpmsg := s\<rparr>)" "link_ready lept s"
      "endpoints (rdev s) = endpoints (rdev (aw_rpmsg w)) @ [lept]" "lk_service s = lk_service (aw_rpmsg w)"
    using link_joins [OF assms(1,4)] by blast
  let ?w = "w\<lparr>aw_rpmsg := s, aw_vars := (aw_vars w)\<lparr>cv_err_cnt := 0\<rparr>\<rparr>"
  obtain w5 where p: "matrix_rounds 200 fuel ?env rnd lept ?w = Inr w5" "link_ready lept (aw_rpmsg w5)"
      "endpoints (rdev (aw_rpmsg w5)) = endpoints (rdev (aw_rpmsg w)) @ [lept]"
      "cv_err_cnt (aw_vars w5) = 0" "mv_rand (aw_vars w5) = mv_rand (aw_vars w) + 72 * 200"
    using matrix_rounds_run [OF assms(3,5), where lept = lept and w = ?w and sept = sept and c = 200 and bo = bo and sz = sz and stk = stk and rnd = rnd and ucb = ucb] assms(2,6,7) j(3-5) by auto
  obtain s' where "app_destroy_ept ?env lept w5 = Inr (w5\<lparr>aw_rpmsg := s'\<rparr>)" "endpoints (rdev s') = endpoints (rdev (aw_rpmsg w))"
    using link_leaves [OF link_ready_open [OF p(2)] p(3), of ?env bo k] assms(1)
    by (auto simp: link_fresh_def)
  then show ?thesis using j(1,2) p(1,4,5) by (simp add: matrix_app_def del: matrix_rounds.simps)
qed

subsection \<open>Two small systems\<close>

definition app_dev :: "u64 list rpmsg_device" where
  "app_dev = \<lparr>endpoints = [], ns_ept = NULL, bitmap = [0, 0], lock = False, ns_bind_cb = NULL, send_offchannel_raw = 0x130, support_ns = True\<rparr>"

definition app_ept :: "u32 \<Rightarrow> rpmsg_endpoint" where
  "app_ept dst = \<lparr>ep_name = [], ep_rdev = 0x10, ep_addr = 1024, ep_dest_addr = dst, ep_cb = APP_CB, ep_ns_unbind_cb = APP_UNBIND, ep_priv = NULL\<rparr>"

definition app_linked :: "'w service_vars_scheme \<Rightarrow> 'v \<Rightarrow> ((u64 list, 'w) app_link, 'v) app_world" where
  "app_linked sv v = \<lparr>aw_rpmsg = \<lparr>self = 0x10, rdev = app_dev, epts = (\<lambda>p. Some (app_ept 0)), lk_out = [], lk_cap = 2, lk_wait = 3,
       lk_service = \<lparr>aw_rpmsg = \<lparr>self = 0x10, rdev = app_dev, epts = (\<lambda>p. Some (app_ept 1025)), out_msgs = []\<rparr>,
         aw_vars = sv, aw_blocks = 0\<rparr>, lk_gone = False, lk_addr = 1024, lk_log = []\<rparr>,
     aw_vars = v, aw_blocks = 0\<rparr>"

lemma app_linked_addr: "rpmsg_create_addr long_bitmap [0, 0] RPMSG_ADDR_ANY = (0, Some 1024, [1, 0])"
  by code_simp

lemma app_linked_fresh:
  "\<not> sv_shutdown_req sv \<Longrightarrow> link_fresh long_bitmap 0x100 RPMSG_ADDR_ANY (aw_rpmsg (app_linked sv v))" "service_idle 0x200 (lk_service (aw_rpmsg (app_linked sv v)))"
  "lk_wait (aw_rpmsg (app_linked sv v)) = 3" "aw_vars (app_linked sv v) = v" "aw_blocks (app_linked sv v) = 0"
  "endpoints (rdev (aw_rpmsg (app_linked sv v))) = []"
  using app_linked_addr
  by (simp_all add: link_fresh_def service_idle_def ept_live_def app_linked_def app_dev_def app_ept_def RPMSG_ADDR_ANY_def RPMSG_NS_EPT_ADDR_def
      shutdown_requested_def)

definition no_request :: service_vars where "no_request = \<lparr>sv_shutdown_req = False\<rparr>"

lemma no_request [simp]: "\<not> sv_shutdown_req no_request"
  by (simp add: no_request_def)

definition ping_start :: ping_vars where
  "ping_start = \<lparr>cv_err_cnt = 0, cv_rnum = 0, cv_ept_deleted = False, pg_payload = \<lparr>py_num = 0, py_size = 0, py_data = []\<rparr>\<rparr>"

lemma ping_echo_ok_witness:
  "\<exists>w'. ping_app 9 (pair_env 7 long_bitmap 496 (echo_endpoint_cb (serv_env long_bitmap) 0x200) ping_endpoint_cb (ping_service_unbind (call_env 7 long_bitmap 496) 0x100) (replicate 496 0) 0x100)
      (\<lambda>i. 0x55) 0x100 (app_linked no_request ping_start) = Inr (0, w') \<and> cv_err_cnt (aw_vars w') = 0 \<and> cv_rnum (aw_vars w') = 480 \<and>
    endpoints (rdev (aw_rpmsg w')) = [] \<and> aw_blocks w' = 0"
  using ping_echo_ok [OF app_linked_fresh(1) [OF no_request] app_linked_fresh(2) [of no_request ping_start], where ucb = "ping_service_unbind (call_env 7 long_bitmap 496) 0x100" and junk = "replicate 496 0" and sz = 496 and fuel = 9 and k = 7 and blk = "\<lambda>i. 0x55"]
  by (simp add: app_linked_fresh ping_start_def)

definition matrix_start :: matrix_vars where
  "matrix_start = \<lparr>cv_err_cnt = 0, cv_rnum = 0, cv_ept_deleted = False, mv_i_matrix = [mx_demo 0 0 0 0, mx_demo 0 0 0 0],
     mv_e_matrix = mx_demo 0 0 0 0, mv_result_returned = False, mv_rand = 0\<rparr>"

lemma matrix_client_ok_witness:
  "\<exists>w'. matrix_app 9 (pair_env 7 long_bitmap 496 (matrixd_endpoint_cb (serv_env long_bitmap) [1, 2] 0x200) matrix_endpoint_cb (matrix_service_unbind (call_env 7 long_bitmap 496) 0x100) (replicate 496 0) 0x100)
      (\<lambda>i. of_nat (7 * i)) 0x100 (app_linked no_request matrix_start) = Inr (0, w') \<and> cv_err_cnt (aw_vars w') = 0 \<and> mv_rand (aw_vars w') = 14400 \<and>
    endpoints (rdev (aw_rpmsg w')) = []"
  using matrix_client_ok [OF app_linked_fresh(1) [OF no_request] app_linked_fresh(2) [of no_request matrix_start], where ucb = "matrix_service_unbind (call_env 7 long_bitmap 496) 0x100" and junk = "replicate 496 0" and sz = 496 and fuel = 9 and k = 7 and stk = "[1, 2]" and rnd = "\<lambda>i. of_nat (7 * i)"]
  by (simp add: app_linked_fresh matrix_start_def NUM_MATRIX_def)

end
