(* ===== verification/Flood_Props.thy ===== *)
theory Flood_Props
  imports App_Props
begin

text \<open>
  The client \<open>rpmsg-flood-ping.c\<close> of the tests keeps the channel full: it sends packages without waiting for their answers, polls when there is no buffer, and after the last package of a size until all have come back.
  \<open>flying\<close> is the state between two sends: the packages below \<open>j\<close> have come back in order, on top of what came back before this size, and those from \<open>j\<close> on are on their way in order.
\<close>

definition flying :: "u8 list list \<Rightarrow> nat \<Rightarrow> nat \<Rightarrow> ptr \<Rightarrow> nat \<Rightarrow> nat \<Rightarrow> (('b, 'v) app_link, ping_vars) app_world \<Rightarrow> bool" where
  "flying pre mx n lept j i w \<longleftrightarrow> link_open lept (aw_rpmsg w) \<and> lk_out (aw_rpmsg w) = map (echo_message n) [j..<i] \<and> j \<le> i \<and> i - j \<le> lk_cap (aw_rpmsg w) \<and>
     lk_log (aw_rpmsg w) = pre @ map (echo_message n) [0..<j] \<and>
     cv_rnum (aw_vars w) = int j \<and> cv_err_cnt (aw_vars w) = 0 \<and> \<not> cv_ept_deleted (aw_vars w) \<and>
     py_size (pg_payload (aw_vars w)) = of_nat n \<and> py_data (pg_payload (aw_vars w)) = replicate mx 0xA5"

text \<open>The packages of all sizes from \<open>a\<close> on, \<open>c\<close> sizes with \<open>np\<close> packages each, in the order in which they are sent.\<close>

definition flood_traffic :: "nat \<Rightarrow> nat \<Rightarrow> nat \<Rightarrow> u8 list list" where
  "flood_traffic np a c = concat (map (\<lambda>n. map (echo_message n) [0..<np]) [a..<a + c])"

lemma flood_traffic_simps [simp]:
  "flood_traffic np a 0 = []" "flood_traffic np a (Suc c) = map (echo_message a) [0..<np] @ flood_traffic np (Suc a) c"
  by (simp_all add: flood_traffic_def upt_conv_Cons del: upt_Suc)

text \<open>What no step of the loops changes.\<close>

definition same_rest :: "(('b, 'v) app_link, 'c) app_world \<Rightarrow> (('b, 'v) app_link, 'c) app_world \<Rightarrow> bool" where
  "same_rest w w' \<longleftrightarrow> endpoints (rdev (aw_rpmsg w')) = endpoints (rdev (aw_rpmsg w)) \<and> lk_cap (aw_rpmsg w') = lk_cap (aw_rpmsg w) \<and>
     aw_blocks w' = aw_blocks w"

lemma same_rest_refl [simp]: "same_rest w w"
  by (simp add: same_rest_def)

lemma same_rest_trans: "same_rest w w' \<Longrightarrow> same_rest w' w'' \<Longrightarrow> same_rest w w''"
  by (simp add: same_rest_def)

lemma flood_check_ok:
  "j + n \<le> c \<Longrightarrow> c \<le> mx \<Longrightarrow> flood_check n (h @ replicate c 0xA5 @ t) (replicate mx 0xA5) j = Inr True" if "length h = PAYLOAD_HDR"
  by (induction n arbitrary: j) (use that in \<open>simp_all add: rd_def nth_append\<close>)

lemma flood_cb_ok:
  assumes "0 < n" and "n \<le> mx" and "mx \<le> 480" and "i < 2 ^ 30" and "length junk = 496" and "py_data (pg_payload (aw_vars w)) = replicate mx 0xA5"
  shows "flood_endpoint_cb (rx_buffer junk (echo_message n i)) len w = Inr (RPMSG_SUCCESS, w\<lparr>aw_vars := (aw_vars w)\<lparr>cv_rnum := int (Suc i)\<rparr>\<rparr>)"
proof -
  have u: "unat (of_nat n :: u64) = n" using assms(2,3) by (intro unat_of_nat_64) simp
  then have "(of_nat n :: u64) \<noteq> 0" "\<not> 496 < (of_nat n :: u64)" using assms(1-3) by (auto simp: word_less_nat_alt)
  moreover have "flood_check n (rx_buffer junk (echo_message n i)) (replicate mx 0xA5) 0 = Inr True"
    unfolding echo_message_data by (rule flood_check_ok) (use assms(2) in \<open>simp_all add: PAYLOAD_HDR_def\<close>)
  ultimately show ?thesis using assms u rx_buffer_bytes(1) [of "echo_message n i" junk]
    by (simp add: flood_endpoint_cb_def PAYLOAD_HDR_def next_rnum [simplified])
qed

lemma trysend_linked:
  assumes "link_open lept s"
  shows "rpmsg_trysend (link_send k) lept (Some d) (int (length d)) s =
    Inr (if lk_cap s \<le> length (lk_out s) then (RPMSG_ERR_NO_BUFF, s) else (int (length d), s\<lparr>lk_out := lk_out s @ [d], lk_wait := k\<rparr>))"
  using assms by (auto simp: link_open_def rpmsg_trysend_def get_ept_def rpmsg_send_offchannel_raw_def link_send_def)

text \<open>With room in the channel a package is sent at once.\<close>

lemma flood_try_free:
  assumes "flying pre mx n lept j i w" and "i - j < lk_cap (aw_rpmsg w)"
  shows "\<exists>w'. flood_try (Suc fuel) (pair_env k bo sz scb flood_endpoint_cb ucb junk lept) lept (echo_message n i) ret w = Inr (int (16 + n), w') \<and>
    flying pre mx n lept j (Suc i) w' \<and> same_rest w w' \<and> lk_service (aw_rpmsg w') = lk_service (aw_rpmsg w) \<and> lk_wait (aw_rpmsg w') = k"
proof -
  let ?s = "(aw_rpmsg w)\<lparr>lk_out := lk_out (aw_rpmsg w) @ [echo_message n i], lk_wait := k\<rparr>"
  have "rpmsg_trysend (link_send k) lept (Some (echo_message n i)) (int (length (echo_message n i))) (aw_rpmsg w) = Inr (int (16 + n), ?s)"
    using trysend_linked [of lept "aw_rpmsg w" k "echo_message n i"] assms by (simp add: flying_def)
  then have "flood_try (Suc fuel) (pair_env k bo sz scb flood_endpoint_cb ucb junk lept) lept (echo_message n i) ret w =
      Inr (int (16 + n), w\<lparr>aw_rpmsg := ?s\<rparr>)"
    using assms(1) by (simp add: flying_def client_failed_def Let_def RPMSG_ERR_NO_BUFF_def)
  moreover have "flying pre mx n lept j (Suc i) (w\<lparr>aw_rpmsg := ?s\<rparr>)" using assms by (auto simp: flying_def link_open_def)
  ultimately show ?thesis by (auto simp: same_rest_def)
qed

locale steady_service = echoing_service scb "\<lambda>n. idle" for scb :: "('b rpc_out, 'v service_vars_scheme) ept_cb" and idle
begin

text \<open>A poll while packages are on their way: one less to wait, or the first package comes back.\<close>

lemma flood_poll:
  assumes "flying pre mx n lept j i w" and "j < i" and "i \<le> 2 ^ 30" and "idle (lk_service (aw_rpmsg w))" and "0 < n" and "n \<le> mx" and "mx \<le> 480"
    and "length junk = 496"
  shows "\<exists>w'. link_poll scb flood_endpoint_cb ucb junk lept w = Inr w' \<and> idle (lk_service (aw_rpmsg w')) \<and> same_rest w w' \<and>
    py_num (pg_payload (aw_vars w')) = py_num (pg_payload (aw_vars w)) \<and> lk_wait (aw_rpmsg w') = lk_wait (aw_rpmsg w) - 1 \<and>
    flying pre mx n lept (if lk_wait (aw_rpmsg w) = 0 then Suc j else j) i w'"
proof (cases "lk_wait (aw_rpmsg w) = 0")
  case True
  let ?v = "(aw_vars w)\<lparr>cv_rnum := int (Suc j)\<rparr>"
  have f: "lk_out (aw_rpmsg w) = echo_message n j # map (echo_message n) [Suc j..<i]" "py_data (pg_payload (aw_vars w)) = replicate mx 0xA5"
    using assms(1,2) by (simp_all add: flying_def upt_conv_Cons)
  have j: "j < 2 ^ 30" "j < 2 ^ 31" using assms(2,3) by simp_all
  have "\<exists>sv. link_poll scb flood_endpoint_cb ucb junk lept w =
      Inr (w\<lparr>aw_rpmsg := (aw_rpmsg w)\<lparr>lk_out := map (echo_message n) [Suc j..<i], lk_service := sv,
        lk_log := lk_log (aw_rpmsg w) @ [echo_message n j]\<rparr>, aw_vars := ?v\<rparr>) \<and> idle sv"
    by (rule poll_serves [OF True f(1) assms(4), where r = RPMSG_SUCCESS])
      (use assms(5-8) j f(2) echo_message_good [OF j(2), of n] in \<open>simp_all add: flood_cb_ok [simplified]\<close>)
  then obtain sv where sv: "link_poll scb flood_endpoint_cb ucb junk lept w =
      Inr (w\<lparr>aw_rpmsg := (aw_rpmsg w)\<lparr>lk_out := map (echo_message n) [Suc j..<i], lk_service := sv,
        lk_log := lk_log (aw_rpmsg w) @ [echo_message n j]\<rparr>, aw_vars := ?v\<rparr>)" "idle sv" by blast
  then show ?thesis using assms(1,2) True by (auto simp: flying_def same_rest_def link_open_def)
next
  case False
  then have "link_poll scb flood_endpoint_cb ucb junk lept w = Inr (w\<lparr>aw_rpmsg := (aw_rpmsg w)\<lparr>lk_wait := lk_wait (aw_rpmsg w) - 1\<rparr>\<rparr>)"
    by (simp add: link_poll_def Let_def)
  then show ?thesis using assms(1,4) False by (auto simp: flying_def same_rest_def link_open_def)
qed

text \<open>Without room it polls and tries again.\<close>

lemma flood_try_full:
  assumes "flying pre mx n lept j i w" and "i - j = lk_cap (aw_rpmsg w)" and "i \<le> 2 ^ 30" and "idle (lk_service (aw_rpmsg w))" and "0 < n" and "n \<le> mx"
    and "mx \<le> 480" and "length junk = 496"
  shows "\<exists>w'. flood_try (Suc fuel) (pair_env k bo sz scb flood_endpoint_cb ucb junk lept) lept (echo_message n i) ret w =
      flood_try fuel (pair_env k bo sz scb flood_endpoint_cb ucb junk lept) lept (echo_message n i) RPMSG_ERR_NO_BUFF w' \<and>
    idle (lk_service (aw_rpmsg w')) \<and> same_rest w w' \<and> lk_wait (aw_rpmsg w') = lk_wait (aw_rpmsg w) - 1 \<and>
    flying pre mx n lept (if lk_wait (aw_rpmsg w) = 0 then Suc j else j) i w'"
proof -
  have ji: "j < i" using assms(1,2) by (auto simp: flying_def link_open_def)
  obtain w' where w': "link_poll scb flood_endpoint_cb ucb junk lept w = Inr w'" "idle (lk_service (aw_rpmsg w'))" "same_rest w w'"
      "lk_wait (aw_rpmsg w') = lk_wait (aw_rpmsg w) - 1" "flying pre mx n lept (if lk_wait (aw_rpmsg w) = 0 then Suc j else j) i w'"
    using flood_poll [OF assms(1) ji assms(3-8), of ucb] by blast
  have "rpmsg_trysend (link_send k) lept (Some (echo_message n i)) (int (length (echo_message n i))) (aw_rpmsg w) = Inr (RPMSG_ERR_NO_BUFF, aw_rpmsg w)"
    using trysend_linked [of lept "aw_rpmsg w" k "echo_message n i"] assms(1,2) by (simp add: flying_def)
  then have "flood_try (Suc fuel) (pair_env k bo sz scb flood_endpoint_cb ucb junk lept) lept (echo_message n i) ret w =
      flood_try fuel (pair_env k bo sz scb flood_endpoint_cb ucb junk lept) lept (echo_message n i) RPMSG_ERR_NO_BUFF w'"
    using w'(1) assms(1) by (simp add: flying_def client_failed_def Let_def del: echo_message_length)
  then show ?thesis using w'(2-5) by blast
qed

lemma flood_try_run:
  assumes "i < 2 ^ 30" and "0 < n" and "n \<le> mx" and "mx \<le> 480" and "length junk = 496"
  shows "flying pre mx n lept j i w \<Longrightarrow> idle (lk_service (aw_rpmsg w)) \<Longrightarrow> lk_wait (aw_rpmsg w) + 2 \<le> fuel \<Longrightarrow>
    \<exists>j' w'. flood_try fuel (pair_env k bo sz scb flood_endpoint_cb ucb junk lept) lept (echo_message n i) ret w = Inr (int (16 + n), w') \<and>
      flying pre mx n lept j' (Suc i) w' \<and> j' \<le> i \<and> idle (lk_service (aw_rpmsg w')) \<and> same_rest w w' \<and> lk_wait (aw_rpmsg w') = k"
proof (induction "lk_wait (aw_rpmsg w)" arbitrary: w fuel ret rule: less_induct)
  case less
  let ?env = "pair_env k bo sz scb flood_endpoint_cb ucb junk lept"
  obtain f where f: "fuel = Suc f" using less.prems(3) by (cases fuel) auto
  note fl = less.prems(1)
  show ?case
  proof (cases "i - j < lk_cap (aw_rpmsg w)")
    case True
    then show ?thesis using flood_try_free [OF fl True, of f k bo sz scb ucb junk ret] less.prems(2) fl by (auto simp: f flying_def)
  next
    case False
    then have full: "i - j = lk_cap (aw_rpmsg w)" "0 < lk_cap (aw_rpmsg w)" "i \<le> 2 ^ 30"
      using fl assms(1) by (auto simp: flying_def link_open_def)
    obtain w1 where w1: "flood_try fuel ?env lept (echo_message n i) ret w = flood_try f ?env lept (echo_message n i) RPMSG_ERR_NO_BUFF w1"
        "idle (lk_service (aw_rpmsg w1))" "same_rest w w1" "lk_wait (aw_rpmsg w1) = lk_wait (aw_rpmsg w) - 1"
        "flying pre mx n lept (if lk_wait (aw_rpmsg w) = 0 then Suc j else j) i w1"
      using flood_try_full [OF fl full(1,3) less.prems(2) assms(2-5), where fuel = f and ret = ret and k = k and bo = bo and sz = sz and ucb = ucb]
      by (auto simp: f)
    show ?thesis
    proof (cases "lk_wait (aw_rpmsg w) = 0")
      case True
      then obtain g where g: "f = Suc g" using less.prems(3) f by (cases f) auto
      have room: "i - Suc j < lk_cap (aw_rpmsg w1)" using full w1(3) by (simp add: same_rest_def)
      have "flying pre mx n lept (Suc j) i w1" using w1(5) True by simp
      from flood_try_free [OF this room, of g k bo sz scb ucb junk RPMSG_ERR_NO_BUFF] show ?thesis
        using w1(1-3) full same_rest_trans [OF w1(3)] unfolding g by fastforce
    next
      case False
      then have "flying pre mx n lept j i w1" "lk_wait (aw_rpmsg w1) < lk_wait (aw_rpmsg w)" "lk_wait (aw_rpmsg w1) + 2 \<le> f"
        using w1(4,5) less.prems(3) f by auto
      from less.hyps [OF this(2,1) w1(2) this(3), of RPMSG_ERR_NO_BUFF] show ?thesis
        using w1(1) same_rest_trans [OF w1(3)] by fastforce
    qed
  qed
qed

lemma flood_packages_run:
  assumes "0 < n" and "n \<le> mx" and "mx \<le> 480" and "length junk = 496" and "k + 2 \<le> fuel"
  shows "flying pre mx n lept j i w \<Longrightarrow> idle (lk_service (aw_rpmsg w)) \<Longrightarrow> lk_wait (aw_rpmsg w) \<le> k \<Longrightarrow> i + c \<le> 2 ^ 30 \<Longrightarrow> 0 \<le> ret \<Longrightarrow>
    \<exists>j' ret' w'. flood_packages c fuel (pair_env k bo sz scb flood_endpoint_cb ucb junk lept) lept n (int i) ret w = Inr (ret', w') \<and> 0 \<le> ret' \<and>
      flying pre mx n lept j' (i + c) w' \<and> idle (lk_service (aw_rpmsg w')) \<and> same_rest w w' \<and> lk_wait (aw_rpmsg w') \<le> k"
proof (induction c arbitrary: i j w ret)
  case (Suc c)
  let ?env = "pair_env k bo sz scb flood_endpoint_cb ucb junk lept"
  let ?p = "(pg_payload (aw_vars w))\<lparr>py_num := word_of_int (int i)\<rparr>"
  let ?w = "w\<lparr>aw_vars := (aw_vars w)\<lparr>pg_payload := ?p\<rparr>\<rparr>"
  have fl: "flying pre mx n lept j i ?w" and sr: "same_rest w ?w" using Suc.prems(1) by (simp_all add: flying_def same_rest_def)
  have msg: "take (PAYLOAD_HDR + n) (payload_bytes ?p) = echo_message n i"
    using Suc.prems(1) assms(2) by (simp add: flying_def payload_bytes_def echo_message_def PAYLOAD_HDR_def min_def)
  have i: "i < 2 ^ 30" using Suc.prems(4) by simp
  obtain j' w' where w': "flood_try fuel ?env lept (echo_message n i) ret ?w = Inr (int (16 + n), w')" "flying pre mx n lept j' (Suc i) w'"
      "idle (lk_service (aw_rpmsg w'))" "same_rest ?w w'" "lk_wait (aw_rpmsg w') = k"
    using flood_try_run [OF i assms(1-4) fl, where fuel = fuel and k = k and bo = bo and sz = sz and ucb = ucb and ret = ret] Suc.prems(2,3) assms(5) by auto
  have "\<not> client_failed w'" using w'(2) by (simp add: flying_def client_failed_def)
  then have "flood_packages (Suc c) fuel ?env lept n (int i) ret w = flood_packages c fuel ?env lept n (int (Suc i)) (int (16 + n)) w'"
    using w'(1) msg by (simp add: Let_def add.commute)
  then show ?case
    using Suc.IH [OF w'(2,3), of "int (16 + n)"] Suc.prems(4) w'(5) same_rest_trans [OF same_rest_trans [OF sr w'(4)]] by fastforce
qed auto

text \<open>After the last package the client waits until all have come back.\<close>

lemma flood_drain_run:
  assumes "0 < n" and "n \<le> mx" and "mx \<le> 480" and "length junk = 496" and "i \<le> 2 ^ 30"
  shows "flying pre mx n lept j i w \<Longrightarrow> idle (lk_service (aw_rpmsg w)) \<Longrightarrow> lk_wait (aw_rpmsg w) + (i - j) < fuel \<Longrightarrow>
    \<exists>w'. while_poll fuel (pair_env k bo sz scb flood_endpoint_cb ucb junk lept) (\<lambda>w. cv_rnum (aw_vars w) < int i \<and> \<not> client_failed w) w = Inr w' \<and>
      flying pre mx n lept i i w' \<and> idle (lk_service (aw_rpmsg w')) \<and> same_rest w w' \<and> lk_wait (aw_rpmsg w') \<le> lk_wait (aw_rpmsg w)"
proof (induction fuel arbitrary: j w)
  case (Suc fuel)
  note fl = Suc.prems(1)
  show ?case
  proof (cases "j = i")
    case True
    then show ?thesis using Suc.prems fl by (auto simp: flying_def)
  next
    case False
    then have ji: "j < i" using fl by (simp add: flying_def)
    obtain w1 where w1: "link_poll scb flood_endpoint_cb ucb junk lept w = Inr w1" "idle (lk_service (aw_rpmsg w1))" "same_rest w w1"
        "lk_wait (aw_rpmsg w1) = lk_wait (aw_rpmsg w) - 1" "flying pre mx n lept (if lk_wait (aw_rpmsg w) = 0 then Suc j else j) i w1"
      using flood_poll [OF fl ji assms(5) Suc.prems(2) assms(1-4), of ucb] by blast
    have fuel: "lk_wait (aw_rpmsg w1) + (i - (if lk_wait (aw_rpmsg w) = 0 then Suc j else j)) < fuel" using Suc.prems(3) w1(4) ji by auto
    have "cv_rnum (aw_vars w) < int i \<and> \<not> client_failed w" using fl ji by (simp add: flying_def client_failed_def)
    with Suc.IH [OF w1(5,2) fuel] show ?thesis
      using w1(1,4) same_rest_trans [OF w1(3)] by fastforce
  qed
qed simp

lemma flood_sizes_run:
  assumes "mx \<le> 480" and "length junk = 496" and "np \<le> 2 ^ 30"
  shows "flying pre mx n lept j j w \<Longrightarrow> idle (lk_service (aw_rpmsg w)) \<Longrightarrow> lk_wait (aw_rpmsg w) \<le> k \<Longrightarrow> k + lk_cap (aw_rpmsg w) + 2 \<le> fuel \<Longrightarrow>
    0 < s \<Longrightarrow> s + c \<le> Suc mx \<Longrightarrow> 0 \<le> ret \<Longrightarrow>
    \<exists>pre' n' w'. flood_sizes c np fuel (pair_env k bo sz scb flood_endpoint_cb ucb junk lept) lept s ret w = Inr w' \<and>
      flying pre' mx n' lept (if c = 0 then j else np) (if c = 0 then j else np) w' \<and> same_rest w w' \<and>
      lk_log (aw_rpmsg w') = lk_log (aw_rpmsg w) @ flood_traffic np s c"
proof (induction c arbitrary: s n j w ret pre)
  case (Suc c)
  let ?env = "pair_env k bo sz scb flood_endpoint_cb ucb junk lept"
  let ?w = "w\<lparr>aw_vars := (aw_vars w)\<lparr>pg_payload := (pg_payload (aw_vars w))\<lparr>py_size := of_nat s\<rparr>, cv_rnum := 0\<rparr>\<rparr>"
  have fl: "flying (lk_log (aw_rpmsg w)) mx s lept 0 0 ?w" and sr: "same_rest w ?w" using Suc.prems(1) by (simp_all add: flying_def same_rest_def)
  have sm: "s \<le> mx" and fu: "k + 2 \<le> fuel" and np: "0 + np \<le> 2 ^ 30" using Suc.prems(4,6) assms(3) by simp_all
  obtain j' ret' w2 where p: "flood_packages np fuel ?env lept s 0 ret ?w = Inr (ret', w2)" "0 \<le> ret'" "flying (lk_log (aw_rpmsg w)) mx s lept j' np w2"
      "idle (lk_service (aw_rpmsg w2))" "same_rest ?w w2" "lk_wait (aw_rpmsg w2) \<le> k"
    using flood_packages_run [OF Suc.prems(5) sm assms(1,2) fu fl _ _ np Suc.prems(7), of bo sz ucb] Suc.prems(2,3) by auto
  have "lk_cap (aw_rpmsg w2) = lk_cap (aw_rpmsg w)" using p(5) by (simp add: same_rest_def)
  then have "lk_wait (aw_rpmsg w2) + (np - j') < fuel" using p(3,6) Suc.prems(4) by (auto simp: flying_def)
  then obtain w3 where d: "while_poll fuel ?env (\<lambda>w. cv_rnum (aw_vars w) < int np \<and> \<not> client_failed w) w2 = Inr w3" "flying (lk_log (aw_rpmsg w)) mx s lept np np w3"
      "idle (lk_service (aw_rpmsg w3))" "same_rest w2 w3" "lk_wait (aw_rpmsg w3) \<le> k"
    using flood_drain_run [OF Suc.prems(5) sm assms(1-3) p(3,4), of fuel k bo sz ucb] p(6) by auto
  have log: "lk_log (aw_rpmsg w3) = lk_log (aw_rpmsg w) @ map (echo_message s) [0..<np]" using d(2) by (simp add: flying_def)
  have sr3: "same_rest w w3" using same_rest_trans [OF same_rest_trans [OF sr p(5)] d(4)] .
  have "\<not> client_failed w3" using d(2) by (simp add: flying_def client_failed_def)
  then have "flood_sizes (Suc c) np fuel ?env lept s ret w = flood_sizes c np fuel ?env lept (Suc s) ret' w3"
    using p(1,2) d(1) by (simp add: Let_def)
  moreover have "k + lk_cap (aw_rpmsg w3) + 2 \<le> fuel" using sr3 Suc.prems(4) by (simp add: same_rest_def)
  moreover obtain pre' n' w' where "flood_sizes c np fuel ?env lept (Suc s) ret' w3 = Inr w'" "flying pre' mx n' lept np np w'" "same_rest w3 w'"
      "lk_log (aw_rpmsg w') = lk_log (aw_rpmsg w3) @ flood_traffic np (Suc s) c"
    using Suc.IH [OF d(2,3,5), of "Suc s" ret'] Suc.prems(6) p(2) calculation(2) by (auto split: if_splits)
  ultimately show ?case using same_rest_trans [OF sr3] log by auto
qed auto

lemma flood_run:
  assumes "link_fresh bo lept APP_EPT_ADDR (aw_rpmsg w)" and "idle (lk_service (aw_rpmsg w))" and "length junk = 496"
    and "16 < sz" and "sz \<le> 496" and "lk_wait (aw_rpmsg w) + 2 \<le> fuel" and "k + lk_cap (aw_rpmsg w) + 2 \<le> fuel"
    and "cv_err_cnt (aw_vars w) = 0" and "\<not> cv_ept_deleted (aw_vars w)" and "cv_rnum (aw_vars w) = 0"
  shows "\<exists>w'. flood_app fuel (pair_env k bo sz scb flood_endpoint_cb ucb junk lept) blk lept w = Inr (0, w') \<and>
    cv_err_cnt (aw_vars w') = 0 \<and> cv_rnum (aw_vars w') = int NUMS_PACKAGES \<and>
    lk_log (aw_rpmsg w') = lk_log (aw_rpmsg w) @ flood_traffic NUMS_PACKAGES 1 (nat (sz - 16)) \<and>
    endpoints (rdev (aw_rpmsg w')) = endpoints (rdev (aw_rpmsg w)) \<and> aw_blocks w' = aw_blocks w"
proof -
  let ?env = "pair_env k bo sz scb flood_endpoint_cb ucb junk lept" and ?n = "nat (sz - 16)"
  define w2 where "w2 = w\<lparr>aw_blocks := Suc (aw_blocks w),
    aw_vars := (aw_vars w)\<lparr>pg_payload := \<lparr>py_num = 0, py_size = 0, py_data = map blk [0..<?n]\<rparr>\<rparr>\<rparr>"
  have r: "aw_rpmsg w2 = aw_rpmsg w" by (simp add: w2_def)
  obtain w3 s where j: "app_create_ept ?env lept RPMSG_SERVICE_NAME APP_EPT_ADDR RPMSG_ADDR_ANY APP_CB APP_UNBIND w2 = Inr (0, w3)"
      "wait_ept_ready fuel ?env lept w3 = Inr (w2\<lparr>aw_rpmsg := s\<rparr>)" "link_ready lept s"
      "endpoints (rdev s) = endpoints (rdev (aw_rpmsg w)) @ [lept]" "lk_service s = lk_service (aw_rpmsg w)" "lk_cap s = lk_cap (aw_rpmsg w)"
      "lk_log s = lk_log (aw_rpmsg w)"
    using link_joins [of bo lept APP_EPT_ADDR w2 fuel k sz scb flood_endpoint_cb ucb junk RPMSG_SERVICE_NAME APP_CB APP_UNBIND] assms(1,6) by (auto simp: r)
  define w4 where "w4 = w2\<lparr>aw_rpmsg := s, aw_vars := (aw_vars w2)\<lparr>pg_payload := (pg_payload (aw_vars w2))\<lparr>py_data := replicate ?n 0xA5\<rparr>\<rparr>\<rparr>"
  have fl: "flying (lk_log s) ?n 0 lept 0 0 w4" using j(3) assms(8-10) by (simp add: w4_def w2_def flying_def link_ready_def)
  have w4: "aw_rpmsg w4 = s" "aw_blocks w4 = Suc (aw_blocks w)" by (simp_all add: w4_def w2_def)
  have n: "?n \<le> 480" "nat PAYLOAD_MIN_SIZE = 1" "NUMS_PACKAGES \<le> 2 ^ 30" using assms(5) by (simp_all add: PAYLOAD_MIN_SIZE_def NUMS_PACKAGES_def)
  obtain pre n' w5 where p: "flood_sizes ?n NUMS_PACKAGES fuel ?env lept 1 0 w4 = Inr w5" "flying pre ?n n' lept NUMS_PACKAGES NUMS_PACKAGES w5" "same_rest w4 w5"
      "lk_log (aw_rpmsg w5) = lk_log s @ flood_traffic NUMS_PACKAGES 1 ?n"
    using flood_sizes_run [OF n(1) assms(3) n(3) fl, of k fuel 1 ?n 0 bo sz ucb] assms(2,4,7) j(3,5,6) by (auto simp: w4 link_ready_def split: if_splits)
  have o5: "link_open lept (aw_rpmsg w5)" "endpoints (rdev (aw_rpmsg w5)) = endpoints (rdev (aw_rpmsg w)) @ [lept]" "aw_blocks w5 = Suc (aw_blocks w)"
      "cv_err_cnt (aw_vars w5) = 0" "cv_rnum (aw_vars w5) = int NUMS_PACKAGES"
    using p(2,3) j(4) by (auto simp: flying_def same_rest_def w4)
  obtain s' where d: "app_destroy_ept ?env lept w5 = Inr (w5\<lparr>aw_rpmsg := s'\<rparr>)" "endpoints (rdev s') = endpoints (rdev (aw_rpmsg w))"
      "lk_log s' = lk_log (aw_rpmsg w5)"
    using link_leaves [OF o5(1,2), of ?env bo k] assms(1) by (auto simp: link_fresh_def)
  have "flood_app fuel ?env blk lept w = Inr (0, w5\<lparr>aw_rpmsg := s', aw_blocks := aw_blocks w\<rparr>)"
    using j(1,2) p(1) d(1) o5(3) assms(4) n(2)
    by (simp add: flood_app_def Let_def PAYLOAD_HDR_def flip: w2_def w4_def)
  then show ?thesis using d(2,3) o5(4,5) p(4) j(7) by simp
qed

end

interpretation steady_echo: steady_service "echo_endpoint_cb (serv_env bo) p" "service_idle p" for bo p
  by unfold_locales

interpretation steady_update: steady_service "update_endpoint_cb (Suc fuel) (serv_env bo) p" "service_idle p" for fuel bo p
  by unfold_locales

text \<open>
  C10. The flood test. The client joined to the service of the tests by a channel that holds any positive number of messages sends 2^20 packages of each size that fits, without waiting for the
  answers: when the channel is full it polls and tries again, and after the last package of a size it polls until all have come back. The messages handed to the client's callback are
  exactly the packages of the first size with the numbers 0 to 2^20 - 1, then those of the next size, and so on: each package comes back once, in order and with all its bytes.
  The program ends with 0 and no error, the endpoint is gone and the payload is freed. This holds however many polls an answer takes, if the loops may run longer than that and the capacity together.
\<close>

theorem flood_update_ok:
  fixes w :: "(('b, 'v) app_link, ping_vars) app_world"
  assumes "link_fresh bo lept APP_EPT_ADDR (aw_rpmsg w)" and "service_idle sept (lk_service (aw_rpmsg w))" and "length junk = 496"
    and "16 < sz" and "sz \<le> 496" and "lk_wait (aw_rpmsg w) + 2 \<le> fuel" and "k + lk_cap (aw_rpmsg w) + 2 \<le> fuel"
    and "cv_err_cnt (aw_vars w) = 0" and "\<not> cv_ept_deleted (aw_vars w)" and "cv_rnum (aw_vars w) = 0"
  shows "\<exists>w'. flood_app fuel (pair_env k bo sz (update_endpoint_cb (Suc tries) (serv_env bo) sept) flood_endpoint_cb ucb junk lept) blk lept w = Inr (0, w') \<and>
    cv_err_cnt (aw_vars w') = 0 \<and> cv_rnum (aw_vars w') = int NUMS_PACKAGES \<and>
    lk_log (aw_rpmsg w') = lk_log (aw_rpmsg w) @ flood_traffic NUMS_PACKAGES 1 (nat (sz - 16)) \<and>
    endpoints (rdev (aw_rpmsg w')) = endpoints (rdev (aw_rpmsg w)) \<and> aw_blocks w' = aw_blocks w"
  using assms by (rule steady_update.flood_run)

lemma flood_fresh: "link_fresh long_bitmap 0x100 APP_EPT_ADDR (aw_rpmsg (app_linked no_request v))"
proof -
  have "rpmsg_create_addr long_bitmap [0, 0] APP_EPT_ADDR = (0, Some 1024, [1, 0])" by code_simp
  then show ?thesis
    by (simp add: link_fresh_def app_linked_def app_dev_def app_ept_def RPMSG_ADDR_ANY_def RPMSG_NS_EPT_ADDR_def shutdown_requested_def)
qed

lemma flood_update_ok_witness:
  "\<exists>w'. flood_app 11 (pair_env 7 long_bitmap 496 (update_endpoint_cb (Suc 4) (serv_env long_bitmap) 0x200) flood_endpoint_cb
      (flood_service_unbind (call_env 7 long_bitmap 496) 0x100) (replicate 496 0) 0x100) (\<lambda>i. 0x55) 0x100 (app_linked no_request ping_start) = Inr (0, w') \<and>
    cv_err_cnt (aw_vars w') = 0 \<and> cv_rnum (aw_vars w') = int NUMS_PACKAGES \<and>
    lk_log (aw_rpmsg w') = flood_traffic NUMS_PACKAGES 1 480 \<and> endpoints (rdev (aw_rpmsg w')) = [] \<and> aw_blocks w' = 0"
proof -
  have c: "lk_cap (aw_rpmsg (app_linked sv v)) = 2" "lk_log (aw_rpmsg (app_linked sv v)) = []" for sv v by (simp_all add: app_linked_def)
  show ?thesis
    using flood_update_ok [OF flood_fresh [of ping_start] app_linked_fresh(2), where junk = "replicate 496 0" and sz = 496 and fuel = 11 and k = 7 and tries = 4
        and ucb = "flood_service_unbind (call_env 7 long_bitmap 496) 0x100" and blk = "\<lambda>i. 0x55"]
    by (simp add: app_linked_fresh c ping_start_def)
qed

end
