(* ===== verification/Sample_Props.thy ===== *)
theory Sample_Props
  imports App_Props
begin

text \<open>
  The sample of \<open>apps/examples/rpmsg_sample_echo\<close> from its start to its end: the service answers 100 messages and leaves, and the client ends when it learns that.
\<close>

text \<open>A sample service that will answer \<open>n\<close> more messages.\<close>

definition sample_left :: "ptr \<Rightarrow> nat \<Rightarrow> ('b rpc_out, sample_vars) app_world \<Rightarrow> bool" where
  "sample_left p n sv \<longleftrightarrow> service_idle p sv \<and> n \<le> 100 \<and> se_count (aw_vars sv) = of_nat (100 - n) \<and> (shutdown_requested sv \<longleftrightarrow> n = 0)"

interpretation sample: answering_service "sample_echo_cb (serv_env bo) p" "\<lambda>d. True" "\<lambda>d. d" "sample_left p" for bo p
proof
  fix d junk :: "u8 list" and n and sv :: "('a rpc_out, sample_vars) app_world"
  assume b: "length d \<le> 496" "length junk = 496" and i: "sample_left p (Suc n) sv"
  let ?c = "se_count (aw_vars sv) + 1" and ?sv = "sv\<lparr>aw_vars := (aw_vars sv)\<lparr>se_count := se_count (aw_vars sv) + 1\<rparr>\<rparr>"
  have n: "n < 100" "\<not> shutdown_requested sv" using i by (simp_all add: sample_left_def)
  have "se_count (aw_vars sv) = of_nat (99 - n)" using i by (simp add: sample_left_def)
  then have c: "?c = of_nat (100 - n)" using n(1) by (simp add: Suc_diff_le flip: of_nat_Suc)
  have u: "unat ?c = 100 - n" unfolding c by (intro unat_of_nat_32) simp
  have le: "?c \<le> MSG_LIMIT" "?c = MSG_LIMIT \<longleftrightarrow> n = 0" using u n(1) by (auto simp: word_le_nat_alt word_unat_eq_iff MSG_LIMIT_def)
  have si: "service_idle p ?sv" using i by (simp add: sample_left_def service_idle_def)
  let ?r = "?sv\<lparr>aw_rpmsg := (aw_rpmsg sv)\<lparr>out_msgs := [d]\<rparr>\<rparr>"
  have "sample_echo_cb (serv_env bo) p (rx_buffer junk d) (of_nat (length d)) sv = Inr (RPMSG_SUCCESS, if n = 0 then request_shutdown ?r else ?r)"
    using b le service_sends [OF si, of bo d] by (simp add: sample_echo_cb_def rx_buffer_bytes Let_def)
  then show "\<exists>r sv'. sample_echo_cb (serv_env bo) p (rx_buffer junk d) (of_nat (length d)) sv = Inr (r, sv') \<and>
      out_msgs (aw_rpmsg sv') = [d] \<and> sample_left p n (sv'\<lparr>aw_rpmsg := (aw_rpmsg sv')\<lparr>out_msgs := []\<rparr>\<rparr>)"
    using i n c by (auto simp: sample_left_def service_idle_def ept_live_def request_shutdown_def shutdown_requested_def)
qed

subsection \<open>The client\<close>

definition sample_msg :: "nat \<Rightarrow> u8 list" where
  "sample_msg i = (if i < 100 then HELLO_MSG else BYE_MSG)"

lemma sample_msg_length: "length (sample_msg i) \<le> 12" "sample_msg i \<noteq> []"
  by (simp_all add: sample_msg_def HELLO_MSG_def BYE_MSG_def)

lemma sample_cb_ok:
  assumes "cv_rnum (aw_vars w) = int i" and "i < 100" and "length junk = 496"
  shows "sample_ping_cb (rx_buffer junk (sample_msg (Suc i))) (of_nat (length (sample_msg (Suc i)))) w =
    Inr (RPMSG_SUCCESS, w\<lparr>aw_vars := (aw_vars w)\<lparr>cv_rnum := int (Suc i)\<rparr>\<rparr>)"
proof -
  let ?d = "sample_msg (Suc i)"
  have l: "length ?d \<le> 496" using sample_msg_length(1) [of "Suc i"] by simp
  have m: "(if cv_rnum (aw_vars w) = sint MSG_LIMIT - 1 then BYE_MSG else HELLO_MSG) = ?d"
    using assms(1,2) by (auto simp: sample_msg_def MSG_LIMIT_def)
  have "strncmp_eq (?d @ replicate k 0) ?d (length ?d)" for k
    by (simp add: strncmp_eq_def cstrn_def sample_msg_def HELLO_MSG_def BYE_MSG_def)
  then show ?thesis using assms(1) rx_buffer_bytes [OF l assms(3)] l m by (simp add: sample_ping_cb_def Let_def add.commute)
qed

lemma sample_rounds_run:
  fixes w :: "(('b, _) app_link, client_vars) app_world"
  assumes "length junk = 496" and "k < fuel"
  shows "link_ready lept (aw_rpmsg w) \<Longrightarrow> sample_left sept c (lk_service (aw_rpmsg w)) \<Longrightarrow> i + c = 100 \<Longrightarrow>
    cv_err_cnt (aw_vars w) = 0 \<Longrightarrow> cv_rnum (aw_vars w) = int i \<Longrightarrow> \<not> cv_ept_deleted (aw_vars w) \<Longrightarrow>
    \<exists>w'. sample_rounds c fuel (pair_env k bo sz (sample_echo_cb (serv_env bo) sept) sample_ping_cb ucb junk lept) lept (int (Suc i)) w = Inr w' \<and>
      link_ready lept (aw_rpmsg w') \<and> sample_left sept 0 (lk_service (aw_rpmsg w')) \<and> endpoints (rdev (aw_rpmsg w')) = endpoints (rdev (aw_rpmsg w)) \<and>
      cv_err_cnt (aw_vars w') = 0 \<and> cv_rnum (aw_vars w') = 100 \<and> \<not> cv_ept_deleted (aw_vars w')"
proof (induction c arbitrary: i w)
  case (Suc c)
  let ?env = "pair_env k bo sz (sample_echo_cb (serv_env bo) sept) sample_ping_cb ucb junk lept"
  let ?d = "sample_msg (Suc i)" and ?v = "(aw_vars w)\<lparr>cv_rnum := int (Suc i)\<rparr>"
  let ?go = "\<lambda>w. cv_rnum (aw_vars w) < int (Suc i) \<and> cv_err_cnt (aw_vars w) = 0"
  have i: "i < 100" using Suc.prems(3) by simp
  have l: "length ?d \<le> 496" using sample_msg_length(1) [of "Suc i"] by simp
  have "\<exists>w2 sv s. app_send ?env lept ?d w = Inr (int (length ?d), w2) \<and> do_poll fuel ?env ?go w2 = Inr (w\<lparr>aw_rpmsg := s, aw_vars := ?v\<rparr>) \<and>
    s = (aw_rpmsg w)\<lparr>lk_service := sv, lk_log := lk_log (aw_rpmsg w) @ [?d]\<rparr> \<and> sample_left sept c sv \<and> link_ready lept s"
    by (rule sample.exchange [where r = RPMSG_SUCCESS, OF Suc.prems(1,2) _ l assms])
      (use Suc.prems(4,5) i assms(1) sample_cb_ok in \<open>simp_all add: sample_cb_ok [simplified]\<close>)
  then obtain w2 sv s where y: "app_send ?env lept ?d w = Inr (int (length ?d), w2)" "do_poll fuel ?env ?go w2 = Inr (w\<lparr>aw_rpmsg := s, aw_vars := ?v\<rparr>)"
      "s = (aw_rpmsg w)\<lparr>lk_service := sv, lk_log := lk_log (aw_rpmsg w) @ [?d]\<rparr>" "sample_left sept c sv" "link_ready lept s" by blast
  have "(if int (Suc i) < sint MSG_LIMIT then HELLO_MSG else BYE_MSG) = ?d" by (simp add: sample_msg_def MSG_LIMIT_def)
  then have "sample_rounds (Suc c) fuel ?env lept (int (Suc i)) w = sample_rounds c fuel ?env lept (int (Suc (Suc i))) (w\<lparr>aw_rpmsg := s, aw_vars := ?v\<rparr>)"
    using y(1,2) by (simp add: add.commute)
  then show ?case
    using Suc.IH [of "w\<lparr>aw_rpmsg := s, aw_vars := ?v\<rparr>" "Suc i"] Suc.prems(3,4,6) y(3-5) by simp
qed auto

text \<open>When the service leaves, the next poll destroys the endpoint and ends the client.\<close>

lemma sample_ends:
  fixes w :: "(('b, _) app_link, client_vars) app_world"
  assumes "link_ready lept (aw_rpmsg w)" and "sample_left sept 0 (lk_service (aw_rpmsg w))" and "endpoints (rdev (aw_rpmsg w)) = es @ [lept]" and "lept \<notin> set es"
    and "1 < fuel" and "\<not> cv_ept_deleted (aw_vars w)"
  shows "\<exists>s. while_poll fuel (pair_env k bo sz scb ccb (sample_ping_unbind (call_env k bo sz) lept) junk lept) (\<lambda>w. \<not> cv_ept_deleted (aw_vars w)) w =
      Inr (w\<lparr>aw_rpmsg := s, aw_vars := (aw_vars w)\<lparr>cv_ept_deleted := True\<rparr>\<rparr>) \<and> endpoints (rdev s) = es \<and> lk_service s = lk_service (aw_rpmsg w)"
proof -
  let ?w = "w\<lparr>aw_rpmsg := (aw_rpmsg w)\<lparr>lk_gone := True\<rparr>\<rparr>"
  obtain f where f: "fuel = Suc (Suc f)" using assms(5) by (cases fuel; cases "fuel - 1") auto
  have o: "link_open lept (aw_rpmsg ?w)" "endpoints (rdev (aw_rpmsg ?w)) = es @ [lept]"
    using assms(1,3) by (simp_all add: link_ready_def link_open_def)
  obtain s where s: "app_destroy_ept (call_env k bo sz) lept ?w = Inr (?w\<lparr>aw_rpmsg := s\<rparr>)" "endpoints (rdev s) = es" "lk_service s = lk_service (aw_rpmsg w)"
    using link_leaves [OF o assms(4), of "call_env k bo sz" bo k] by auto
  have "shutdown_requested (lk_service (aw_rpmsg w))" using assms(2) by (simp add: sample_left_def)
  then have "link_poll scb ccb (sample_ping_unbind (call_env k bo sz) lept) junk lept w =
      Inr (w\<lparr>aw_rpmsg := s, aw_vars := (aw_vars w)\<lparr>cv_ept_deleted := True\<rparr>\<rparr>)"
    using s(1) assms(1) by (simp add: link_poll_def Let_def link_ready_def sample_ping_unbind_def client_unbind_def)
  then show ?thesis using s(2,3) assms(6) by (intro exI [of _ s]) (simp add: f)
qed

text \<open>
  C12. The sample. A client that starts with no endpoint, joined to a fresh sample service, sends its 99 greetings and its farewell, and each comes back unchanged;
  with the last one the service asks itself to stop, and when it has left the client destroys its endpoint and ends with 0. No error is counted, 100 answers are, and this holds however many polls
  each answer takes.
\<close>

theorem sample_session_ok:
  fixes w :: "(('b, _) app_link, client_vars) app_world"
  assumes "link_fresh bo lept RPMSG_ADDR_ANY (aw_rpmsg w)" and "sample_left sept 100 (lk_service (aw_rpmsg w))" and "length junk = 496"
    and "lk_wait (aw_rpmsg w) + 2 \<le> fuel" and "k < fuel"
    and "cv_err_cnt (aw_vars w) = 0" and "\<not> cv_ept_deleted (aw_vars w)" and "cv_rnum (aw_vars w) = 0"
  shows "\<exists>w'. sample_ping_app fuel (pair_env k bo sz (sample_echo_cb (serv_env bo) sept) sample_ping_cb (sample_ping_unbind (call_env k bo sz) lept) junk lept) lept w =
      Inr (0, w') \<and> cv_err_cnt (aw_vars w') = 0 \<and> cv_rnum (aw_vars w') = 100 \<and> cv_ept_deleted (aw_vars w') \<and>
    endpoints (rdev (aw_rpmsg w')) = endpoints (rdev (aw_rpmsg w)) \<and> shutdown_requested (lk_service (aw_rpmsg w'))"
proof -
  let ?ucb = "sample_ping_unbind (call_env k bo sz) lept"
  let ?env = "pair_env k bo sz (sample_echo_cb (serv_env bo) sept) sample_ping_cb ?ucb junk lept"
  have new: "lept \<notin> set (endpoints (rdev (aw_rpmsg w)))" and fuel: "1 < fuel" using assms(1,4) by (simp_all add: link_fresh_def)
  obtain w3 s where j: "app_create_ept ?env lept RPMSG_SERV_NAME RPMSG_ADDR_ANY RPMSG_ADDR_ANY APP_CB APP_UNBIND w = Inr (0, w3)"
      "wait_ept_ready fuel ?env lept w3 = Inr (w\<lparr>aw_rpmsg := s\<rparr>)" "link_ready lept s"
      "endpoints (rdev s) = endpoints (rdev (aw_rpmsg w)) @ [lept]" "lk_service s = lk_service (aw_rpmsg w)"
    using link_joins [OF assms(1,4)] by blast
  obtain w5 where p: "sample_rounds 100 fuel ?env lept 1 (w\<lparr>aw_rpmsg := s\<rparr>) = Inr w5" "link_ready lept (aw_rpmsg w5)"
      "sample_left sept 0 (lk_service (aw_rpmsg w5))" "endpoints (rdev (aw_rpmsg w5)) = endpoints (rdev (aw_rpmsg w)) @ [lept]"
      "cv_err_cnt (aw_vars w5) = 0" "cv_rnum (aw_vars w5) = 100" "\<not> cv_ept_deleted (aw_vars w5)"
    using sample_rounds_run [OF assms(3,5), where lept = lept and w = "w\<lparr>aw_rpmsg := s\<rparr>" and sept = sept and c = 100 and i = 0 and bo = bo and sz = sz and ucb = ?ucb]
      assms(2,6-8) j(3-5) by auto
  obtain s' where "while_poll fuel ?env (\<lambda>w. \<not> cv_ept_deleted (aw_vars w)) w5 = Inr (w5\<lparr>aw_rpmsg := s', aw_vars := (aw_vars w5)\<lparr>cv_ept_deleted := True\<rparr>\<rparr>)"
      "endpoints (rdev s') = endpoints (rdev (aw_rpmsg w))" "lk_service s' = lk_service (aw_rpmsg w5)"
    using sample_ends [OF p(2-4) new fuel p(7)] by blast
  moreover have "unat MSG_LIMIT = 100" by (simp add: MSG_LIMIT_def)
  ultimately show ?thesis using j(1,2) p(1,3,5,6) by (simp add: sample_ping_app_def sample_left_def del: sample_rounds.simps while_poll.simps)
qed

definition sample_start :: client_vars where
  "sample_start = \<lparr>cv_err_cnt = 0, cv_rnum = 0, cv_ept_deleted = False\<rparr>"

definition sample_service :: sample_vars where
  "sample_service = \<lparr>sv_shutdown_req = False, se_count = 0\<rparr>"

lemma sample_session_ok_witness:
  "\<exists>w'. sample_ping_app 9 (pair_env 7 long_bitmap 496 (sample_echo_cb (serv_env long_bitmap) 0x200) sample_ping_cb
      (sample_ping_unbind (call_env 7 long_bitmap 496) 0x100) (replicate 496 0) 0x100) 0x100 (app_linked sample_service sample_start) = Inr (0, w') \<and>
    cv_err_cnt (aw_vars w') = 0 \<and> cv_rnum (aw_vars w') = 100 \<and> cv_ept_deleted (aw_vars w') \<and>
    endpoints (rdev (aw_rpmsg w')) = [] \<and> shutdown_requested (lk_service (aw_rpmsg w'))"
proof -
  have q: "\<not> sv_shutdown_req sample_service" by (simp add: sample_service_def)
  have v: "aw_vars (lk_service (aw_rpmsg (app_linked sample_service sample_start))) = sample_service" by (simp add: app_linked_def)
  have left: "sample_left 0x200 100 (lk_service (aw_rpmsg (app_linked sample_service sample_start)))"
    using app_linked_fresh(2) [of sample_service sample_start] by (simp add: sample_left_def shutdown_requested_def v) (simp add: sample_service_def)
  show ?thesis
    using sample_session_ok [OF app_linked_fresh(1) [OF q] left, of "replicate 496 0" 9 7 496]
    by (simp add: app_linked_fresh sample_start_def)
qed

end
