(* ===== verification/Rpc_Props.thy ===== *)
theory Rpc_Props
  imports Rpc_System
begin

text \<open>
  File operations through the proxy: each of them has the effect of the operation of the server's operating
  system on the arguments of the caller, and returns its result.
\<close>

lemma syscall_bytes_in_mem:
  assumes "length bs < 2 ^ 63"
  shows "rd32 (wr_bytes m p (syscall_bytes c @ bs)) p = sc_id c"
    and "rd32 (wr_bytes m p (syscall_bytes c @ bs)) (p + 4) = int_field1 c"
    and "rd32 (wr_bytes m p (syscall_bytes c @ bs)) (p + 12) = data_len c"
  using rd_wr_part [of 0 4 "syscall_bytes c @ bs" m p] rd_wr_part [of 4 4 "syscall_bytes c @ bs" m p]
    rd_wr_part [of 12 4 "syscall_bytes c @ bs" m p] assms
  by (simp_all add: syscall_bytes_def le_word_bytes)

text \<open>What the caller reads in the answer of \<open>_open\<close>, \<open>_write\<close> and \<open>_close\<close>.\<close>

lemma rpc_result_read:
  assumes "rw_mem w = wr_bytes m resp (syscall_bytes c)" and "0 \<le> ret" and "sc_id c = sid" and "int_field1 c = word_of_int x"
    and "- (2 ^ 31) \<le> x" and "x < 2 ^ 31"
  shows "rpc_result sid resp (ret, w) = (x, w)"
  using syscall_bytes_in_mem [of "[]" m resp c] assms sint_word_of_int by (simp add: rpc_result_def)

text \<open>The request in the buffer, once the answer buffer is cleared.\<close>

lemma request_in_mem:
  assumes "disjoint_blocks req n resp 4" and "length bs = n" and "n < 2 ^ 64"
  shows "rd_bytes (wr32 (wr_bytes m req bs) resp 0) req n = bs"
proof -
  have "rd_bytes (wr32 (wr_bytes m req bs) resp 0) req n = rd_bytes (wr_bytes m req bs) req n"
    by (rule rd_wr_other) (use assms(1) in simp)
  then show ?thesis using rd_wr_same [of bs n m req] assms by simp
qed

lemma takeWhile_name: "0 \<notin> set name \<Longrightarrow> takeWhile (\<lambda>b. b \<noteq> 0) (name @ 0 # r) = name" for name :: "u8 list"
  by (induction name) auto

lemma served_mem: "served (w\<lparr>rw_mem := m\<rparr>) fs w' \<longleftrightarrow> served w fs w'"
  by (simp add: served_def)

lemma client_ready_mem: "client_ready (w\<lparr>rw_mem := m\<rparr>) \<longleftrightarrow> client_ready w"
  by (simp add: client_ready_def)

lemma unat_scast_small:
  assumes "unat x < 2 ^ 31"
  shows "unat (scast (x :: u32) :: u64) = unat x"
proof -
  have "(scast x :: u64) = word_of_int (sint x)" by simp
  also have "\<dots> = of_nat (unat x)" using sint_unat_small [OF assms] by simp
  finally show ?thesis using unat_of_nat_64 [of "unat x"] assms by simp
qed

text \<open>The call behind \<open>_open\<close>, \<open>_write\<close> and \<open>_close\<close>: the request \<open>bs\<close> is in the buffer and the server answers with \<open>x\<close>.\<close>

lemma short_call:
  fixes w :: "('b, 'f) rpc_sys rpc_world"
  assumes "client_ready w" and "server_idle (sy_server (rw_rpmsg w)) app_ept" and "req \<noteq> NULL" and "resp \<noteq> NULL"
    and "k + 2 \<le> fuel" and "unat len = n" and "16 \<le> n" and "n \<le> 496" and "rd_bytes m req n = bs"
    and "handle_rpc os out_send (bs @ drop n junk) app_ept (sy_server (rw_rpmsg w)) =
      send_response out_send app_ept (syscall_bytes c) ((sy_server (rw_rpmsg w))\<lparr>sv_files := fs\<rparr>)"
    and "sc_id c = sid" and "sid \<noteq> TERM_SYSCALL_ID" and "int_field1 c = word_of_int x" and "- (2 ^ 31) \<le> x" and "x < 2 ^ 31"
  shows "\<exists>w'. cbind (rpmsg_rpc_send fuel (sys_env k bo os junk app_ept sh (rw_default w)) (rw_default w) req len resp
        (of_nat SYSCALL_SIZE) (w\<lparr>rw_mem := m\<rparr>)) (\<lambda>r. Inr (rpc_result sid resp r)) = Inr (x, w') \<and> served w fs w' \<and>
      rw_mem w' = wr_bytes m resp (syscall_bytes c)"
proof -
  have t: "le_word (take 4 (syscall_bytes c)) \<noteq> TERM_SYSCALL_ID"
    using assms(11,12) take_syscall_bytes [of c "[]"] by (simp add: le_word_bytes)
  obtain w' where w': "rpmsg_rpc_send fuel (sys_env k bo os junk app_ept sh (rw_default w)) (rw_default w) req len resp
        (of_nat SYSCALL_SIZE) (w\<lparr>rw_mem := m\<rparr>) = Inr (int (unat len), w')"
      "rw_mem w' = wr_bytes m resp (syscall_bytes c)" "served w fs w'"
    using rpc_call_run [of "w\<lparr>rw_mem := m\<rparr>" app_ept req resp "of_nat SYSCALL_SIZE" k fuel len os junk "syscall_bytes c" fs bo sh]
      assms(1-10) t
    by (auto simp: client_ready_mem served_mem SYSCALL_SIZE_def)
  have "rpc_result sid resp (int (unat len), w') = (x, w')"
    by (rule rpc_result_read [OF w'(2)]) (use assms in simp_all)
  then show ?thesis using w' by simp
qed

lemma rt_open_run:
  fixes w :: "('b, 'f) rpc_sys rpc_world"
  assumes "client_ready w" and "server_idle (sy_server (rw_rpmsg w)) app_ept" and "tmpbuf \<noteq> NULL" and "resp \<noteq> NULL"
    and "disjoint_blocks tmpbuf 496 resp 16" and "length name \<le> 479" and "0 \<notin> set name"
    and "os_open os name (sint flags) (sint mode) (sv_files (sy_server (rw_rpmsg w))) = (fd, fs)"
    and "- (2 ^ 31) \<le> fd" and "fd < 2 ^ 31" and "k + 2 \<le> fuel"
  shows "\<exists>w'. rt_open fuel (sys_env k bo os junk app_ept sh (rw_default w)) tmpbuf resp (Some name) flags mode w = Inr (fd, w') \<and>
    served w fs w'"
proof -
  let ?n = "17 + length name" and ?sv = "sy_server (rw_rpmsg w)" and ?fl = "of_nat (length name + 1) :: u32"
  let ?c = "\<lparr>sc_id = OPEN_SYSCALL_ID, int_field1 = flags, int_field2 = mode, data_len = ?fl\<rparr>"
  let ?r = "\<lparr>sc_id = OPEN_SYSCALL_ID, int_field1 = word_of_int fd, int_field2 = 0, data_len = 0\<rparr> :: rpmsg_rpc_syscall"
  let ?bs = "syscall_bytes ?c @ name @ [0]"
  define m where "m = wr32 (wr_bytes (rw_mem w) tmpbuf ?bs) resp 0"
  have ufl: "unat ?fl = length name + 1" using assms(6) by (intro unat_of_nat_32) simp
  have sfl: "0 \<le> sint ?fl" using ufl assms(6) sint_unat_small [of ?fl] by simp
  have ps: "unat (of_nat SYSCALL_SIZE + ?fl) = ?n"
    using ufl assms(6) unat_plus_lt [of "of_nat SYSCALL_SIZE" ?fl] by (simp add: SYSCALL_SIZE_def)
  have up: "unat (ucast (of_nat SYSCALL_SIZE + ?fl) :: u64) = ?n"
    using ps by (simp add: unat_ucast_up)
  have lb: "length ?bs = ?n" by simp
  have req: "rd_bytes m tmpbuf ?n = ?bs"
    unfolding m_def using disjoint_blocks_mono [OF assms(5), of ?n 4] assms(6)
    by (intro request_in_mem) (simp_all del: of_nat_add of_nat_Suc)
  have hdl: "handle_rpc os out_send (rd_bytes m tmpbuf ?n @ drop ?n junk) app_ept ?sv =
      send_response out_send app_ept (syscall_bytes ?r) (?sv\<lparr>sv_files := fs\<rparr>)"
    using assms(2,7,8) takeWhile_name [OF assms(7)]
    by (simp add: req handle_rpc_def handle_open_def c_string_def server_idle_def ept_live_def SYSCALL_SIZE_def)
  have "\<exists>w'. cbind (rpmsg_rpc_send fuel (sys_env k bo os junk app_ept sh (rw_default w)) (rw_default w) tmpbuf
      (ucast (of_nat SYSCALL_SIZE + ?fl)) resp (of_nat SYSCALL_SIZE) (w\<lparr>rw_mem := m\<rparr>))
      (\<lambda>r. Inr (rpc_result OPEN_SYSCALL_ID resp r)) = Inr (fd, w') \<and> served w fs w' \<and> rw_mem w' = wr_bytes m resp (syscall_bytes ?r)"
    by (rule short_call [OF assms(1-4,11) up _ _ refl hdl]) (use assms(6,9,10) in \<open>simp_all add: syscall_id_defs\<close>)
  then show ?thesis
    using sfl assms(1,6) ufl ps
    by (auto simp: rt_open_def m_def Let_def client_ready_def ept_live_def word_less_nat_alt MAX_BUF_LEN_def)
qed

text \<open>
  C7. Opening a file through the proxy. For a client and a server that are ready, \<open>_open\<close> has the server open the file
  with the same name, flags and mode, and returns the descriptor or the error that the server gets, however
  long the answer takes; afterwards both are ready for the next request.
\<close>

theorem rt_open_served:
  fixes w :: "('b, 'f) rpc_sys rpc_world"
  assumes "client_ready w" and "server_idle (sy_server (rw_rpmsg w)) app_ept" and "tmpbuf \<noteq> NULL" and "resp \<noteq> NULL"
    and "disjoint_blocks tmpbuf 496 resp 16" and "length name \<le> 479" and "0 \<notin> set name"
    and "os_open os name (sint flags) (sint mode) (sv_files (sy_server (rw_rpmsg w))) = (fd, fs)"
    and "- (2 ^ 31) \<le> fd" and "fd < 2 ^ 31" and "k + 2 \<le> fuel"
  shows "\<exists>w'. rt_open fuel (sys_env k bo os junk app_ept sh (rw_default w)) tmpbuf resp (Some name) flags mode w = Inr (fd, w') \<and>
    served w fs w'"
  using assms by (rule rt_open_run)

lemma rt_close_run:
  fixes w :: "('b, 'f) rpc_sys rpc_world"
  assumes "client_ready w" and "server_idle (sy_server (rw_rpmsg w)) app_ept" and "call \<noteq> NULL" and "resp \<noteq> NULL"
    and "disjoint_blocks call 16 resp 16" and "os_close os (sint fd) (sv_files (sy_server (rw_rpmsg w))) = (x, fs)"
    and "- (2 ^ 31) \<le> x" and "x < 2 ^ 31" and "k + 2 \<le> fuel"
  shows "\<exists>w'. rt_close fuel (sys_env k bo os junk app_ept sh (rw_default w)) call resp fd w = Inr (x, w') \<and> served w fs w' \<and>
    (\<forall>p n. disjoint_blocks p n call 16 \<longrightarrow> disjoint_blocks p n resp 16 \<longrightarrow> rd_bytes (rw_mem w') p n = rd_bytes (rw_mem w) p n)"
proof -
  let ?c = "\<lparr>sc_id = CLOSE_SYSCALL_ID, int_field1 = fd, int_field2 = 0, data_len = 0\<rparr> :: rpmsg_rpc_syscall"
  let ?r = "\<lparr>sc_id = CLOSE_SYSCALL_ID, int_field1 = word_of_int x, int_field2 = 0, data_len = 0\<rparr> :: rpmsg_rpc_syscall"
  let ?sv = "sy_server (rw_rpmsg w)"
  define m where "m = wr32 (wr_bytes (rw_mem w) call (syscall_bytes ?c)) resp 0"
  have req: "rd_bytes m call 16 = syscall_bytes ?c"
    unfolding m_def using disjoint_blocks_mono [OF assms(5), of 16 4] by (intro request_in_mem) simp_all
  have hdl: "handle_rpc os out_send (syscall_bytes ?c @ drop 16 junk) app_ept ?sv =
      send_response out_send app_ept (syscall_bytes ?r) (?sv\<lparr>sv_files := fs\<rparr>)"
    using assms(2,6) by (simp add: handle_rpc_def handle_close_def server_idle_def ept_live_def syscall_id_defs)
  have "\<exists>w'. cbind (rpmsg_rpc_send fuel (sys_env k bo os junk app_ept sh (rw_default w)) (rw_default w) call
      (of_nat SYSCALL_SIZE) resp (of_nat SYSCALL_SIZE) (w\<lparr>rw_mem := m\<rparr>))
      (\<lambda>r. Inr (rpc_result CLOSE_SYSCALL_ID resp r)) = Inr (x, w') \<and> served w fs w' \<and> rw_mem w' = wr_bytes m resp (syscall_bytes ?r)"
    by (rule short_call [OF assms(1-4,9) _ _ _ req hdl]) (use assms(7,8) in \<open>simp_all add: syscall_id_defs SYSCALL_SIZE_def\<close>)
  moreover have "rd_bytes (wr_bytes m resp (syscall_bytes ?r)) p n = rd_bytes (rw_mem w) p n"
    if "disjoint_blocks p n call 16" "disjoint_blocks p n resp 16" for p n
    using that disjoint_blocks_mono [OF that(2), of n 4] by (simp add: m_def rd_wr_other)
  ultimately show ?thesis
    using assms(1) by (auto simp: rt_close_def m_def Let_def client_ready_def ept_live_def)
qed

text \<open>
  The request of \<open>_write\<close>: the header, the data of the caller and, for the standard output, one more byte, which is
  the one that the buffer on the stack happened to hold.
\<close>

lemma write_request:
  assumes "rw_default w \<noteq> NULL" and "disjoint_blocks tmpbuf 496 resp 16" and "data \<noteq> NULL"
    and "disjoint_blocks data (unat len) tmpbuf 16" and "unat len \<le> (if fd = 1 then 478 else 480)"
    and "c = \<lparr>sc_id = WRITE_SYSCALL_ID, int_field1 = fd, int_field2 = len, data_len = len + (if fd = 1 then 1 else 0)\<rparr>"
    and "n = 16 + unat len + (if fd = 1 then 1 else 0)"
  shows "\<exists>m. rt_write fuel env tmpbuf resp fd data len w =
      cbind (rpmsg_rpc_send fuel env (rw_default w) tmpbuf (of_nat n) resp (of_nat SYSCALL_SIZE) (w\<lparr>rw_mem := m\<rparr>))
        (\<lambda>r. Inr (rpc_result WRITE_SYSCALL_ID resp r)) \<and>
    rd_bytes m tmpbuf n = syscall_bytes c @ rd_bytes (rw_mem w) data (unat len) @
      (if fd = 1 then [rw_mem w (tmpbuf + of_nat (16 + unat len))] else [])"
proof -
  let ?l = "unat len" and ?d = "rd_bytes (rw_mem w) data (unat len)"
  define m0 where "m0 = wr_bytes (rw_mem w) tmpbuf (syscall_bytes c @ ?d)"
  define m1 where "m1 = (if fd = 1 then wr8 m0 (tmpbuf + of_nat (17 + ?l)) 0 else m0)"
  define m where "m = wr32 m1 resp 0"
  have l: "?l \<le> 480" "n \<le> 496" using assms(5,7) by (auto split: if_splits)
  have "rd_bytes m tmpbuf n = rd_bytes m1 tmpbuf n"
    unfolding m_def by (rule rd_wr_other) (use disjoint_blocks_mono [OF assms(2), of n 4] l in simp)
  also have "\<dots> = rd_bytes m0 tmpbuf n"
    using disjoint_blocks_offset [of 0 "17 + ?l" "17 + ?l" 1 tmpbuf] l
      rd_wr_other [of tmpbuf "17 + ?l" "tmpbuf + of_nat (17 + ?l)" "[0]" m0] by (simp add: m1_def assms(7))
  also have "\<dots> = syscall_bytes c @ ?d @ (if fd = 1 then [m0 (tmpbuf + of_nat (16 + ?l))] else [])"
    using rd_wr_same [of "syscall_bytes c @ ?d" "16 + ?l" "rw_mem w" tmpbuf] rd_bytes_append [of m0 tmpbuf "16 + ?l" 1] l
    by (simp add: m0_def assms(7) rd_bytes_Suc [of _ _ 0, simplified])
  also have "m0 (tmpbuf + of_nat (16 + ?l)) = rw_mem w (tmpbuf + of_nat (16 + ?l))"
    using unat_of_nat_64 [of "16 + ?l"] l by (simp add: m0_def wr_bytes_def del: of_nat_add)
  finally have req: "rd_bytes m tmpbuf n = syscall_bytes c @ ?d @ (if fd = 1 then [rw_mem w (tmpbuf + of_nat (16 + ?l))] else [])" .
  have "rd_bytes (wr_bytes (rw_mem w) tmpbuf (syscall_bytes c)) data ?l = ?d"
    by (rule rd_wr_other) (use assms(4) in simp)
  moreover have "0 \<le> sint len" using sint_unat_small [of len] l by simp
  ultimately have "rt_write fuel env tmpbuf resp fd data len w =
      cbind (rpmsg_rpc_send fuel env (rw_default w) tmpbuf (of_nat n) resp (of_nat SYSCALL_SIZE) (w\<lparr>rw_mem := m\<rparr>))
        (\<lambda>r. Inr (rpc_result WRITE_SYSCALL_ID resp r))"
    using assms(1,3,5-7) l by (cases "fd = 1") (simp_all add: rt_write_def m_def m1_def m0_def Let_def rpc_size_defs)
  then show ?thesis using req by blast
qed

lemma rt_write_run:
  fixes w :: "('b, 'f) rpc_sys rpc_world"
  assumes "client_ready w" and "server_idle (sy_server (rw_rpmsg w)) app_ept" and "tmpbuf \<noteq> NULL" and "resp \<noteq> NULL"
    and "disjoint_blocks tmpbuf 496 resp 16" and "data \<noteq> NULL" and "disjoint_blocks data (unat len) tmpbuf 16"
    and "unat len \<le> (if fd = 1 then 478 else 480)"
    and "os_write os (sint fd) (rd_bytes (rw_mem w) data (unat len)) (sv_files (sy_server (rw_rpmsg w))) = (x, fs)"
    and "- (2 ^ 31) \<le> x" and "x < 2 ^ 31" and "k + 2 \<le> fuel"
  shows "\<exists>w'. rt_write fuel (sys_env k bo os junk app_ept sh (rw_default w)) tmpbuf resp fd data len w = Inr (x, w') \<and> served w fs w'"
proof -
  let ?l = "unat len" and ?sv = "sy_server (rw_rpmsg w)" and ?d = "rd_bytes (rw_mem w) data (unat len)"
  define n where "n = 16 + ?l + (if fd = 1 then 1 else 0)"
  let ?c = "\<lparr>sc_id = WRITE_SYSCALL_ID, int_field1 = fd, int_field2 = len, data_len = len + (if fd = 1 then 1 else 0)\<rparr>"
  let ?r = "\<lparr>sc_id = WRITE_SYSCALL_ID, int_field1 = word_of_int x, int_field2 = 0, data_len = 0\<rparr> :: rpmsg_rpc_syscall"
  let ?bs = "syscall_bytes ?c @ ?d @ (if fd = 1 then [rw_mem w (tmpbuf + of_nat (16 + ?l))] else [])"
  let ?env = "sys_env k bo os junk app_ept sh (rw_default w)"
  have nn: "rw_default w \<noteq> NULL" using assms(1) by (simp add: client_ready_def ept_live_def)
  obtain m where m: "rt_write fuel ?env tmpbuf resp fd data len w =
      cbind (rpmsg_rpc_send fuel ?env (rw_default w) tmpbuf (of_nat n) resp (of_nat SYSCALL_SIZE) (w\<lparr>rw_mem := m\<rparr>))
        (\<lambda>r. Inr (rpc_result WRITE_SYSCALL_ID resp r))"
    and req: "rd_bytes m tmpbuf n = ?bs"
    using write_request [OF nn assms(5-8) refl n_def] by blast
  have n: "16 \<le> n" "n \<le> 496" "?l < 2 ^ 31" using assms(8) by (auto simp: n_def split: if_splits)
  have un: "unat (of_nat n :: u64) = n" using n(2) by (intro unat_of_nat_64) simp
  have "handle_rpc os out_send (?bs @ drop n junk) app_ept ?sv =
      send_response out_send app_ept (syscall_bytes ?r) (?sv\<lparr>sv_files := fs\<rparr>)"
    using assms(2,9) unat_scast_small [OF n(3)]
    by (simp add: handle_rpc_def handle_write_def server_idle_def ept_live_def syscall_id_defs sub_bytes_def SYSCALL_SIZE_def)
  from short_call [OF assms(1-4,12) un n(1,2) req this, of WRITE_SYSCALL_ID x bo sh] show ?thesis
    using assms(10,11) by (auto simp: m syscall_id_defs)
qed

text \<open>
  C9. Writing through the proxy. Up to 480 bytes, and up to 478 for the standard output, \<open>_write\<close> has the server write
  exactly the bytes of the caller, and returns what the server's operating system returned. With one byte more it writes
  behind its buffer of 496 bytes: \<open>_write\<close> does not look at the length, and for the standard output it stores a terminator
  one byte behind the message.
\<close>

theorem rt_write_served:
  fixes w :: "('b, 'f) rpc_sys rpc_world"
  assumes "client_ready w" and "server_idle (sy_server (rw_rpmsg w)) app_ept" and "tmpbuf \<noteq> NULL" and "resp \<noteq> NULL"
    and "disjoint_blocks tmpbuf 496 resp 16" and "data \<noteq> NULL" and "disjoint_blocks data (unat len) tmpbuf 16"
    and "os_write os (sint fd) (rd_bytes (rw_mem w) data (unat len)) (sv_files (sy_server (rw_rpmsg w))) = (x, fs)"
    and "- (2 ^ 31) \<le> x" and "x < 2 ^ 31" and "k + 2 \<le> fuel"
  shows "if unat len \<le> (if fd = 1 then 478 else 480)
    then \<exists>w'. rt_write fuel (sys_env k bo os junk app_ept sh (rw_default w)) tmpbuf resp fd data len w = Inr (x, w') \<and> served w fs w'
    else rt_write fuel (sys_env k bo os junk app_ept sh (rw_default w)) tmpbuf resp fd data len w = Inl Out_of_bounds"
proof (cases "unat len \<le> (if fd = 1 then 478 else 480)")
  case True
  from rt_write_run [OF assms(1-7) True assms(8-11)] True show ?thesis by simp
next
  case False
  have "rw_default w \<noteq> NULL" using assms(1) by (simp add: client_ready_def ept_live_def)
  then show ?thesis using False assms(6) by (auto simp: rt_write_def rpc_size_defs Let_def split: if_splits)
qed

text \<open>How many bytes the server tries to read: for the standard input always as many as fit into its buffer.\<close>

definition read_request :: "u32 \<Rightarrow> u32 \<Rightarrow> u64" where
  "read_request fd buflen = (if fd = 0 then 480 else ucast buflen)"

lemma handle_read_answer:
  assumes "server_idle sv app_ept" and "unat buflen < 2 ^ 31" and "length bs \<le> 480"
    and "os_read os (sint fd) (read_request fd buflen) (sv_files sv) = (x, bs, fs)"
    and "x = int (length bs) \<or> x < 0 \<and> bs = []"
  shows "handle_rpc os out_send (syscall_bytes \<lparr>sc_id = READ_SYSCALL_ID, int_field1 = fd, int_field2 = buflen, data_len = 0\<rparr> @ r) app_ept sv =
    send_response out_send app_ept (syscall_bytes \<lparr>sc_id = READ_SYSCALL_ID, int_field1 = word_of_int x, int_field2 = 0,
      data_len = word_of_int x\<rparr> @ bs) (sv\<lparr>sv_files := fs\<rparr>)"
proof -
  have "unat (scast buflen :: u64) = unat buflen" using assms(2) by (rule unat_scast_small)
  then have sc: "(scast buflen :: u64) = ucast buflen" by (simp add: word_unat_eq_iff unat_ucast_up)
  have fd: "sint fd = 0 \<longleftrightarrow> fd = 0" using signed_word_eqI [of fd 0] by auto
  have tk: "(if 0 < x then take (nat x) bs else []) = bs" using assms(5) by auto
  show ?thesis
    using assms(1,3,4) fd tk
    by (cases "fd = 0") (simp_all add: read_request_def sc handle_rpc_def handle_read_def server_idle_def ept_live_def syscall_id_defs Let_def RPC_BUFF_SIZE_def
        SYSCALL_SIZE_def)
qed

lemma rt_read_run:
  fixes w :: "('b, 'f) rpc_sys rpc_world"
  assumes "client_ready w" and "server_idle (sy_server (rw_rpmsg w)) app_ept" and "tmpbuf \<noteq> NULL" and "call \<noteq> NULL"
    and "disjoint_blocks call 16 tmpbuf 496" and "buffer \<noteq> NULL" and "buflen \<noteq> 0" and "unat buflen < 2 ^ 31"
    and "os_read os (sint fd) (read_request fd buflen) (sv_files (sy_server (rw_rpmsg w))) = (x, bs, fs)"
    and "x = int (length bs) \<or> x < 0 \<and> bs = []" and "- (2 ^ 31) \<le> x" and "length bs \<le> 480" and "k + 2 \<le> fuel"
  shows "\<exists>w'. rt_read fuel (sys_env k bo os junk app_ept sh (rw_default w)) tmpbuf call fd buffer buflen w = Inr (x, w') \<and>
    rd_bytes (rw_mem w') buffer (min (length bs) (unat buflen)) = take (unat buflen) bs \<and> served w fs w'"
proof -
  let ?c = "\<lparr>sc_id = READ_SYSCALL_ID, int_field1 = fd, int_field2 = buflen, data_len = 0\<rparr>"
  let ?r = "\<lparr>sc_id = READ_SYSCALL_ID, int_field1 = word_of_int x, int_field2 = 0, data_len = word_of_int x\<rparr> :: rpmsg_rpc_syscall"
  let ?rp = "syscall_bytes ?r @ bs" and ?k = "min (length bs) (unat buflen)"
  define m where "m = wr32 (wr_bytes (rw_mem w) call (syscall_bytes ?c)) tmpbuf 0"
  note l = assms(12)
  have req: "rd_bytes m call 16 = syscall_bytes ?c"
    unfolding m_def using disjoint_blocks_mono [OF assms(5), of 16 4] by (intro request_in_mem) simp_all
  note hdl = handle_read_answer [OF assms(2,8) l assms(9,10)]
  have t: "le_word (take 4 ?rp) \<noteq> TERM_SYSCALL_ID" unfolding take_syscall_bytes by (simp add: le_word_bytes syscall_id_defs)
  obtain w1 where w1: "rpmsg_rpc_send fuel (sys_env k bo os junk app_ept sh (rw_default w)) (rw_default w) call (of_nat SYSCALL_SIZE)
        tmpbuf (of_nat MAX_BUF_LEN) (w\<lparr>rw_mem := m\<rparr>) = Inr (16, w1)"
      "rw_mem w1 = wr_bytes m tmpbuf ?rp" "served w fs w1"
    using rpc_call_run [of "w\<lparr>rw_mem := m\<rparr>" app_ept call tmpbuf "of_nat MAX_BUF_LEN" k fuel "of_nat SYSCALL_SIZE" os junk ?rp fs bo sh]
      assms(1-4,13) t l hdl req
    by (auto simp: client_ready_mem served_mem rpc_size_defs)
  have sl: "sint (word_of_int x :: u32) = x" by (rule sint_word_of_int) (use l assms(10,11) in auto)
  have sb: "sint buflen = int (unat buflen)" using assms(8) by (rule sint_unat_small)
  have mn: "(if sint buflen < x then sint buflen else x) = int ?k" if "0 < x"
  proof -
    have mi: "(if int i < int j then int i else int j) = int (min j i)" for i j by auto
    have "x = int (length bs)" using that assms(10) by auto
    then show ?thesis unfolding sb by (simp only: mi)
  qed
  note rd = syscall_bytes_in_mem [of bs m tmpbuf ?r, folded w1(2)]
  have k480: "?k \<le> 480" using l by simp
  have tm: "take ?k bs = take (unat buflen) bs" by (simp add: min_def)
  have pl: "rd_bytes (rw_mem w1) (tmpbuf + 16) ?k = take (unat buflen) bs"
    unfolding w1(2) using rd_wr_part [of 16 ?k ?rp m tmpbuf] l tm by simp
  define w' where "w' = (if 0 < x then w1\<lparr>rw_mem := wr_bytes (rw_mem w1) buffer (take (unat buflen) bs)\<rparr> else w1)"
  have "rt_read fuel (sys_env k bo os junk app_ept sh (rw_default w)) tmpbuf call fd buffer buflen w = Inr (x, w')"
    using w1(1) assms(1,6,7) rd l k480 pl mn sl
    by (simp add: rt_read_def m_def [symmetric] Let_def client_ready_def ept_live_def w'_def rpc_size_defs)
  moreover have "rd_bytes (rw_mem w') buffer ?k = take (unat buflen) bs"
    using l assms(10) by (auto simp: w'_def rd_wr_same)
  moreover have "served w fs w'" using w1(3) by (simp add: w'_def served_def client_ready_mem)
  ultimately show ?thesis by blast
qed

text \<open>
  C8. Reading through the proxy. For a length from 1 to 2^31 - 1 \<open>_read\<close> has the server read from the same descriptor, as many bytes as the caller asks for or,
  for the standard input, always 480. It stores the bytes that the server got in the buffer of the caller, but no more than
  the caller asked for, and returns the result of the server: the number of bytes that it got, or its error. For the standard
  input this number can exceed what was asked for and stored; for other descriptors all bytes are stored when the server gets no more than it was asked for.
  This holds as long as the server gets at most 480 bytes, the most that fits into a message.
\<close>

theorem rt_read_served:
  fixes w :: "('b, 'f) rpc_sys rpc_world"
  assumes "client_ready w" and "server_idle (sy_server (rw_rpmsg w)) app_ept" and "tmpbuf \<noteq> NULL" and "call \<noteq> NULL"
    and "disjoint_blocks call 16 tmpbuf 496" and "buffer \<noteq> NULL" and "buflen \<noteq> 0" and "unat buflen < 2 ^ 31"
    and "os_read os (sint fd) (if fd = 0 then 480 else ucast buflen) (sv_files (sy_server (rw_rpmsg w))) = (x, bs, fs)"
    and "x = int (length bs) \<or> x < 0 \<and> bs = []" and "- (2 ^ 31) \<le> x" and "length bs \<le> 480" and "k + 2 \<le> fuel"
  shows "\<exists>w'. rt_read fuel (sys_env k bo os junk app_ept sh (rw_default w)) tmpbuf call fd buffer buflen w = Inr (x, w') \<and>
    rd_bytes (rw_mem w') buffer (min (length bs) (unat buflen)) = take (unat buflen) bs \<and> served w fs w'"
  using assms(1-8) assms(9) [folded read_request_def] assms(10-13) by (rule rt_read_run)

text \<open>
  The terminator of the standard output. \<open>_write\<close> announces one byte more than the data and means to send a zero
  there, but stores the zero one byte behind it: what is sent is the byte that the stack held before.
\<close>

theorem write_terminator_misplaced:
  assumes "rw_default w \<noteq> NULL" and "disjoint_blocks tmpbuf 496 resp 16" and "data \<noteq> NULL"
    and "disjoint_blocks data (unat len) tmpbuf 16" and "unat len \<le> 478"
  shows "\<exists>m. rt_write fuel env tmpbuf resp 1 data len w =
      cbind (rpmsg_rpc_send fuel env (rw_default w) tmpbuf (of_nat (17 + unat len)) resp (of_nat SYSCALL_SIZE) (w\<lparr>rw_mem := m\<rparr>))
        (\<lambda>r. Inr (rpc_result WRITE_SYSCALL_ID resp r)) \<and>
    rd_bytes m tmpbuf (17 + unat len) =
      syscall_bytes \<lparr>sc_id = WRITE_SYSCALL_ID, int_field1 = 1, int_field2 = len, data_len = len + 1\<rparr> @
      rd_bytes (rw_mem w) data (unat len) @ [rw_mem w (tmpbuf + of_nat (16 + unat len))]"
  using write_request [OF assms(1-4), of 1 _ "17 + unat len" fuel env] assms(5) by simp

text \<open>
  C40. Reading more than a message holds. The server reads as many bytes as the client asks for into a buffer with room
  for 480: when it gets more, as with the 1024 bytes that \<open>rpc_demo\<close> asks for, it overruns its stack.
\<close>

theorem rt_read_overflows:
  fixes w :: "('b, 'f) rpc_sys rpc_world"
  assumes "client_ready w" and "server_idle (sy_server (rw_rpmsg w)) app_ept" and "tmpbuf \<noteq> NULL" and "call \<noteq> NULL"
    and "disjoint_blocks call 16 tmpbuf 496" and "buffer \<noteq> NULL" and "buflen \<noteq> 0" and "fd \<noteq> 0"
    and "os_read os (sint fd) (scast buflen) (sv_files (sy_server (rw_rpmsg w))) = (int (length bs), bs, fs)"
    and "480 < length bs" and "k < fuel"
  shows "rt_read fuel (sys_env k bo os junk app_ept sh (rw_default w)) tmpbuf call fd buffer buflen w = Inl Out_of_bounds"
proof -
  let ?c = "\<lparr>sc_id = READ_SYSCALL_ID, int_field1 = fd, int_field2 = buflen, data_len = 0\<rparr>"
  let ?rpc = "rw_default w" and ?env = "sys_env k bo os junk app_ept sh (rw_default w)" and ?sv = "sy_server (rw_rpmsg w)"
  define m where "m = wr32 (wr_bytes (rw_mem w) call (syscall_bytes ?c)) tmpbuf 0"
  have req: "rd_bytes m call 16 = syscall_bytes ?c"
    unfolding m_def using disjoint_blocks_mono [OF assms(5), of 16 4] by (intro request_in_mem) simp_all
  have fd: "sint fd \<noteq> 0" using assms(8) signed_word_eqI [of fd 0] by auto
  have "handle_rpc os out_send (syscall_bytes ?c @ drop 16 junk) app_ept ?sv = Inl Out_of_bounds"
    using assms(2,9,10) fd
    by (simp add: handle_rpc_def handle_read_def server_idle_def ept_live_def syscall_id_defs Let_def RPC_BUFF_SIZE_def
        SYSCALL_SIZE_def)
  then have srv: "serve os junk app_ept sh ((rw_rpmsg w)\<lparr>sy_requests := [syscall_bytes ?c]\<rparr>) = Inl Out_of_bounds"
    by (simp add: serve_def rpmsg_endpoint_cb_def copy_from_shbuf_eq RPC_BUFF_SIZE_def SYSCALL_SIZE_def)
  let ?w = "w\<lparr>rw_mem := m\<rparr>"
  have cr: "client_ready ?w" using assms(1) by (simp add: client_ready_mem)
  obtain d w2 where s: "rpmsg_rpc_send fuel ?env ?rpc call 16 tmpbuf 496 ?w =
      cbind (rpc_wait_ack fuel ?env ?rpc 0 w2) (\<lambda>w3. Inr (int (unat (16 :: u64)), w3))"
    and w2: "w2 = (put_rpc ?rpc d ?w)\<lparr>rw_rpmsg := (rw_rpmsg w)\<lparr>sy_requests := [rd_bytes m call 16]\<rparr>\<rparr>"
    and d: "rc_poll d \<noteq> NULL" "rc_nacked d"
    by (rule rpc_send_waits [OF cr assms(4,3), where len = 16 and fuel = fuel and resp_len = 496 and k = k and bo = bo and
          os = os and junk = junk and app_ept = app_ept and sh = sh]) simp_all
  have "rpc_wait_ack fuel ?env ?rpc 0 w2 = Inl Out_of_bounds"
    by (rule wait_ack_faults) (use srv req d assms(11) in \<open>simp_all add: w2\<close>)
  then show ?thesis
    using s assms(1,6,7)
    by (simp add: rt_read_def m_def [symmetric] Let_def client_ready_def ept_live_def rpc_size_defs)
qed

subsection \<open>A small system\<close>

text \<open>A server with one file, and a client and a server that have just been set up.\<close>

definition one_file :: "u8 list os_ops" where
  "one_file = \<lparr>os_open = (\<lambda>name fl mode s. (5, s)), os_close = (\<lambda>fd s. (0, s)),
     os_read = (\<lambda>fd n s. (int (length (take (unat n) s)), take (unat n) s, s)),
     os_write = (\<lambda>fd bs s. (int (length bs), s @ bs))\<rparr>"

definition live_ept :: rpmsg_endpoint where
  "live_ept = \<lparr>ep_name = [], ep_rdev = 0x10, ep_addr = 1024, ep_dest_addr = 1025, ep_cb = RPC_EPT_CB, ep_ns_unbind_cb = RPC_UNBIND,
     ep_priv = NULL\<rparr>"

definition live_dev :: "u64 list rpmsg_device" where
  "live_dev = \<lparr>endpoints = [0x100], ns_ept = NULL, bitmap = [1, 0], lock = False, ns_bind_cb = NULL, send_offchannel_raw = 0x130,
     support_ns = True\<rparr>"

definition small_sys :: "u8 list \<Rightarrow> (u64 list, u8 list) rpc_sys rpc_world" where
  "small_sys content = \<lparr>rw_rpmsg = \<lparr>self = 0x10, rdev = live_dev, epts = (\<lambda>p. Some live_ept), sy_requests = [],
       sy_server = \<lparr>sv_rpmsg = \<lparr>self = 0x10, rdev = live_dev, epts = (\<lambda>p. Some live_ept), out_msgs = []\<rparr>,
         sv_files = content, sv_request_termination = False, sv_ept_deleted = False, sv_err_cnt = 0\<rparr>\<rparr>,
     rw_rpcs = (\<lambda>p. Some \<lparr>rc_ept_destroyed = False, rc_nacked = True, rc_respbuf = NULL, rc_respbuf_len = 0, rc_poll = 0x400,
       rc_poll_arg = NULL, rc_shutdown_cb = NULL, rc_lock = False, rc_lock_live = True, rc_buflock = False\<rparr>),
     rw_default = 0x100, rw_mem = (\<lambda>a. 0x20)\<rparr>"

lemma small_sys_ready: "client_ready (small_sys c)" "server_idle (sy_server (rw_rpmsg (small_sys c))) 0x200"
  by (simp_all add: client_ready_def server_idle_def ept_live_def small_sys_def live_dev_def live_ept_def RPMSG_ADDR_ANY_def)

lemma small_sys_sel [simp]: "rw_default (small_sys c) = 0x100" "sv_files (sy_server (rw_rpmsg (small_sys c))) = c"
  by (simp_all add: small_sys_def)

lemma small_buffers: "disjoint_blocks 0x1000 496 0x2000 16" "disjoint_blocks 0x3000 2 0x1000 16" "disjoint_blocks 0x3000 16 0x1000 496"
  using disjoint_blocks_offset [of "0x1000" 496 "0x2000" 16 0] disjoint_blocks_offset [of "0x3000" 2 "0x1000" 16 0]
    disjoint_blocks_offset [of "0x3000" 16 "0x1000" 496 0] by simp_all

lemma rt_open_served_witness:
  "\<exists>w'. rt_open 9 (sys_env 7 long_bitmap one_file [] 0x200 0 (rw_default (small_sys [7, 8]))) 0x1000 0x2000 (Some [0x61]) 2 0 (small_sys [7, 8]) =
    Inr (5, w') \<and> served (small_sys [7, 8]) [7, 8] w'"
  by (rule rt_open_served [OF small_sys_ready]) (use small_buffers in \<open>simp_all add: one_file_def\<close>)

lemma rt_write_served_witness:
  "(\<exists>w'. rt_write 2 (sys_env 0 long_bitmap one_file [] 0x200 0 (rw_default (small_sys [7]))) 0x1000 0x2000 1 0x3000 2 (small_sys [7]) =
     Inr (2, w') \<and> served (small_sys [7]) [7, 0x20, 0x20] w') \<and>
   rt_write 2 (sys_env 0 long_bitmap one_file [] 0x200 0 (rw_default (small_sys [7]))) 0x1000 0x2000 1 0x3000 479 (small_sys [7]) = Inl Out_of_bounds"
proof
  have "rd_bytes (\<lambda>a. 0x20) 0x3000 2 = [0x20, 0x20 :: u8]" by (simp add: rd_bytes_def numeral_2_eq_2)
  then have w: "os_write one_file (sint (1 :: u32)) (rd_bytes (rw_mem (small_sys [7])) 0x3000 (unat (2 :: u32)))
      (sv_files (sy_server (rw_rpmsg (small_sys [7])))) = (2, [7, 0x20, 0x20])"
    by (simp add: one_file_def small_sys_def)
  show "\<exists>w'. rt_write 2 (sys_env 0 long_bitmap one_file [] 0x200 0 (rw_default (small_sys [7]))) 0x1000 0x2000 1 0x3000 2 (small_sys [7]) =
     Inr (2, w') \<and> served (small_sys [7]) [7, 0x20, 0x20] w'"
    using rt_write_served [OF small_sys_ready _ _ small_buffers(1) _ _ w, of 0 2 long_bitmap "[]" 0] small_buffers(2) by simp
  have b: "disjoint_blocks 0x3000 479 0x1000 16" using disjoint_blocks_offset [of "0x3000" 479 "0x1000" 16 0] by simp
  show "rt_write 2 (sys_env 0 long_bitmap one_file [] 0x200 0 (rw_default (small_sys [7]))) 0x1000 0x2000 1 0x3000 479 (small_sys [7]) = Inl Out_of_bounds"
    using rt_write_served [OF small_sys_ready [of "[7]"], where tmpbuf = "0x1000" and resp = "0x2000" and data = "0x3000" and len = 479 and fd = 1 and os = one_file and
        x = 479 and k = 0 and fuel = 2 and bo = long_bitmap and junk = "[]" and sh = 0 and
        fs = "7 # rd_bytes (\<lambda>a. 0x20) 0x3000 479"] small_buffers(1) b
    by (simp add: one_file_def small_sys_def)
qed

lemma rt_read_served_witness:
  "(\<exists>w'. rt_read 4 (sys_env 2 long_bitmap one_file [] 0x200 0 (rw_default (small_sys [7, 8, 9]))) 0x1000 0x3000 5 0x4000 2 (small_sys [7, 8, 9]) =
      Inr (2, w') \<and> rd_bytes (rw_mem w') 0x4000 (min (length [7, 8 :: u8]) (unat (2 :: u32))) = take (unat (2 :: u32)) [7, 8] \<and>
      served (small_sys [7, 8, 9]) [7, 8, 9] w') \<and>
   (\<exists>w'. rt_read 4 (sys_env 2 long_bitmap one_file [] 0x200 0 (rw_default (small_sys [7, 8, 9]))) 0x1000 0x3000 0 0x4000 2 (small_sys [7, 8, 9]) =
      Inr (3, w') \<and> rd_bytes (rw_mem w') 0x4000 (min (length [7, 8, 9 :: u8]) (unat (2 :: u32))) = take (unat (2 :: u32)) [7, 8, 9] \<and>
      served (small_sys [7, 8, 9]) [7, 8, 9] w')"
  by (intro conjI; rule rt_read_served [OF small_sys_ready])
    (use small_buffers in \<open>simp_all add: one_file_def\<close>)

lemma write_terminator_misplaced_witness:
  "\<exists>m. rt_write 2 (sys_env 0 long_bitmap one_file [] 0x200 0 0x100) 0x1000 0x2000 1 0x3000 2 (small_sys []) =
      cbind (rpmsg_rpc_send 2 (sys_env 0 long_bitmap one_file [] 0x200 0 0x100) (rw_default (small_sys [])) 0x1000 (of_nat (17 + unat (2 :: u32)))
        0x2000 (of_nat SYSCALL_SIZE) (small_sys []\<lparr>rw_mem := m\<rparr>)) (\<lambda>r. Inr (rpc_result WRITE_SYSCALL_ID 0x2000 r)) \<and>
    rd_bytes m 0x1000 (17 + unat (2 :: u32)) =
      syscall_bytes \<lparr>sc_id = WRITE_SYSCALL_ID, int_field1 = 1, int_field2 = 2, data_len = 2 + 1\<rparr> @
      rd_bytes (rw_mem (small_sys [])) 0x3000 (unat (2 :: u32)) @ [rw_mem (small_sys []) (0x1000 + of_nat (16 + unat (2 :: u32)))]"
  by (rule write_terminator_misplaced) (use small_buffers in simp_all)

lemma rt_read_overflows_witness:
  "rt_read 1 (sys_env 0 long_bitmap one_file [] 0x200 0 (rw_default (small_sys (replicate 600 1)))) 0x1000 0x3000 5 0x4000 1024
     (small_sys (replicate 600 1)) = Inl Out_of_bounds"
  by (rule rt_read_overflows [where bs = "replicate 600 1" and fs = "replicate 600 1", OF small_sys_ready])
    (use small_buffers in \<open>simp_all add: one_file_def\<close>)

end
