(* ===== verification/Rpc_Demo.thy ===== *)
theory Rpc_Demo
  imports Rpc_Props App_Base
begin

text \<open>
  The client of the proxy: \<open>apps/examples/rpc_demo/rpc_demo.c\<close>, which writes a file on the other processor, reads it back, and then asks its user questions.

  \<open>open\<close>, \<open>read\<close>, \<open>write\<close> and \<open>close\<close> are those of \<open>Retarget\<close>. \<open>printf\<close> and \<open>scanf\<close> of the C library, which call them for the standard
  streams, are the parameter record \<open>demo_io\<close>; the texts are left out, and \<open>scanf\<close> of a string gives its result and the string that the buffer holds then, which must fit into it. The addresses of the local variables are
  the record \<open>demo_stack\<close>; those of the functions that are called are \<open>ds_tmpbuf\<close>, \<open>ds_resp\<close> and \<open>ds_call\<close>.
\<close>

record 's demo_io =
  di_printf :: "'s rpc_world \<Rightarrow> 's rpc_world cres"
  di_scanf_string :: "'s rpc_world \<Rightarrow> (int \<times> u8 list \<times> 's rpc_world) cres"
  di_scanf_number :: "'s rpc_world \<Rightarrow> (int \<times> 's rpc_world) cres"

record demo_stack =
  ds_rpc :: ptr
  ds_rpccall :: ptr
  ds_wbuff :: ptr
  ds_rbuff :: ptr
  ds_tmpbuf :: ptr
  ds_resp :: ptr
  ds_call :: ptr

definition REDEF_O_CREAT :: u32 where "REDEF_O_CREAT = 0x40"
definition REDEF_O_RDONLY :: u32 where "REDEF_O_RDONLY = 0"
definition REDEF_O_WRONLY :: u32 where "REDEF_O_WRONLY = 1"
definition REDEF_O_APPEND :: u32 where "REDEF_O_APPEND = 0x400"
definition DEMO_MODE :: u32 where "DEMO_MODE = 0x180"
definition UBUFF_SIZE :: nat where "UBUFF_SIZE = 50"
definition RBUFF_SIZE :: u32 where "RBUFF_SIZE = 1024"

text \<open>\<open>remote.file\<close>, and \<open>This is a test string being written to file..\<close>\<close>

definition demo_fname :: "u8 list" where
  "demo_fname = [0x72, 0x65, 0x6d, 0x6f, 0x74, 0x65, 0x2e, 0x66, 0x69, 0x6c, 0x65]"
definition demo_text :: "u8 list" where
  "demo_text = [0x54, 0x68, 0x69, 0x73, 0x20, 0x69, 0x73, 0x20, 0x61, 0x20, 0x74, 0x65, 0x73, 0x74, 0x20, 0x73, 0x74, 0x72, 0x69, 0x6e, 0x67,
     0x20, 0x62, 0x65, 0x69, 0x6e, 0x67, 0x20, 0x77, 0x72, 0x69, 0x74, 0x74, 0x65, 0x6e, 0x20, 0x74, 0x6f, 0x20, 0x66, 0x69, 0x6c, 0x65, 0x2e, 0x2e]"

fun demo_print :: "nat \<Rightarrow> 's demo_io \<Rightarrow> 's rpc_world \<Rightarrow> 's rpc_world cres" where
  "demo_print 0 io w = Inr w"
| "demo_print (Suc n) io w = cbind (di_printf io w) (demo_print n io)"

definition demo_scan :: "'s demo_io \<Rightarrow> 's rpc_world \<Rightarrow> (int \<times> u8 list \<times> 's rpc_world) cres" where
  "demo_scan io w =
     cbind (di_scanf_string io w) (\<lambda>(ret, s, w1). if UBUFF_SIZE \<le> length s then Inl Out_of_bounds else Inr (ret, s, w1))"

subsection \<open>The program\<close>

text \<open>
  The part that works on a file. \<open>strlen (wbuff)\<close> is the length of the text. The terminator goes one byte behind the data that was read.
\<close>

definition demo_write_file ::
  "nat \<Rightarrow> ('b, 'x) rpc_e \<Rightarrow> ('b, 'x) rpmsg_state_scheme demo_io \<Rightarrow> demo_stack \<Rightarrow> ('b, 'x) rpc_w \<Rightarrow> ('b, 'x) rpc_w cres" where
  "demo_write_file fuel env io ds w =
     cbind (rt_open fuel env (ds_tmpbuf ds) (ds_resp ds) (Some demo_fname)
              (REDEF_O_CREAT OR REDEF_O_WRONLY OR REDEF_O_APPEND) DEMO_MODE w) (\<lambda>(fd, w1).
     cbind (demo_print 1 io w1) (\<lambda>w2.
     let w3 = w2\<lparr>rw_mem := wr_bytes (rw_mem w2) (ds_wbuff ds) (demo_text @ [0])\<rparr> in
     cbind (rt_write fuel env (ds_tmpbuf ds) (ds_resp ds) (word_of_int fd) (ds_wbuff ds) (of_nat (length demo_text)) w3) (\<lambda>(bytes_written, w4).
     cbind (demo_print 1 io w4) (\<lambda>w5.
     cbind (rt_close fuel env (ds_call ds) (ds_resp ds) (word_of_int fd) w5) (\<lambda>(_, w6).
     demo_print 1 io w6)))))"

definition demo_read_file ::
  "nat \<Rightarrow> ('b, 'x) rpc_e \<Rightarrow> ('b, 'x) rpmsg_state_scheme demo_io \<Rightarrow> demo_stack \<Rightarrow> ('b, 'x) rpc_w \<Rightarrow> (int \<times> ('b, 'x) rpc_w) cres" where
  "demo_read_file fuel env io ds w =
     cbind (rt_open fuel env (ds_tmpbuf ds) (ds_resp ds) (Some demo_fname) REDEF_O_RDONLY DEMO_MODE w) (\<lambda>(fd, w1).
     cbind (demo_print 1 io w1) (\<lambda>w2.
     cbind (rt_read fuel env (ds_tmpbuf ds) (ds_call ds) (word_of_int fd) (ds_rbuff ds) RBUFF_SIZE w2) (\<lambda>(bytes_read, w3).
     if bytes_read + 1 < 0 \<or> uint RBUFF_SIZE \<le> bytes_read + 1 then Inl Out_of_bounds
     else
       let w4 = w3\<lparr>rw_mem := wr8 (rw_mem w3) (ds_rbuff ds + word_of_int (bytes_read + 1)) 0\<rparr> in
       cbind (demo_print 1 io w4) (\<lambda>w5.
       cbind (rt_close fuel env (ds_call ds) (ds_resp ds) (word_of_int fd) w5) (\<lambda>(_, w6).
       cbind (demo_print 1 io w6) (\<lambda>w7. Inr (bytes_read, w7)))))))"

text \<open>The dialogue. A number that is not one restarts it; the user ends it with \<open>no\<close>.\<close>

definition demo_ask :: "'s demo_io \<Rightarrow> 's rpc_world \<Rightarrow> (int \<times> 's rpc_world) cres" where
  "demo_ask io w =
     cbind (demo_print 3 io w) (\<lambda>w1.
     cbind (demo_scan io w1) (\<lambda>(ret, _, w2).
     if ret = 0 then Inr (ret, w2)
     else
       cbind (demo_print 1 io w2) (\<lambda>w3.
       cbind (di_scanf_number io w3) (\<lambda>(ret', w4).
       if ret' = 0 then Inr (ret', w4)
       else
         cbind (demo_print 1 io w4) (\<lambda>w5.
         cbind (di_scanf_number io w5) (\<lambda>(ret'', w6).
         if ret'' = 0 then Inr (ret'', w6) else cbind (demo_print 3 io w6) (\<lambda>w7. Inr (ret'', w7))))))))"

fun demo_dialogue :: "nat \<Rightarrow> 's demo_io \<Rightarrow> 's rpc_world \<Rightarrow> 's rpc_world cres" where
  "demo_dialogue 0 io w = Inl Hang"
| "demo_dialogue (Suc fuel) io w =
     cbind (demo_ask io w) (\<lambda>(ret, w1).
     if ret = 0 then
       cbind (demo_scan io w1) (\<lambda>(_, _, w2). cbind (demo_print 1 io w2) (demo_dialogue fuel io))
     else
       cbind (demo_print 1 io w1) (\<lambda>w2.
       cbind (demo_scan io w2) (\<lambda>(_, s, w3).
       if s = [0x6e, 0x6f] then demo_print 1 io w3
       else if s = [0x79, 0x65, 0x73] then demo_dialogue fuel io w3
       else cbind (demo_print 1 io w3) (demo_dialogue fuel io))))"

definition DEMO_POLL :: ptr where "DEMO_POLL = 0x460"
definition DEMO_SHUTDOWN :: ptr where "DEMO_SHUTDOWN = 0x470"

text \<open>\<open>rpmsg_rpc_shutdown\<close> only prints.\<close>

definition rpmsg_rpc_shutdown :: "ptr \<Rightarrow> ptr \<Rightarrow> 's rpc_world \<Rightarrow> 's rpc_world cres" where
  "rpmsg_rpc_shutdown f rpc w = Inr w"

definition rpc_demo_app ::
  "nat \<Rightarrow> ('b, 'x) rpc_e \<Rightarrow> ('b, 'x) rpmsg_state_scheme demo_io \<Rightarrow> demo_stack \<Rightarrow> ptr \<Rightarrow> ptr \<Rightarrow> ('b, 'x) rpc_w \<Rightarrow>
   (int \<times> ('b, 'x) rpc_w) cres" where
  "rpc_demo_app fuel env io ds dev priv w =
     cbind (rpmsg_rpc_init fuel env (ds_rpc ds) dev (Some RPMSG_SERVICE_NAME) RPMSG_ADDR_ANY RPMSG_ADDR_ANY priv DEMO_POLL DEMO_SHUTDOWN w)
       (\<lambda>(ret, w1).
     let w2 = rpmsg_set_default_rpc (ds_rpc ds) w1 in
     if ret \<noteq> 0 then Inr (-1, w2)
     else
       cbind (demo_print 5 io w2) (\<lambda>w3.
       cbind (demo_write_file fuel env io ds w3) (\<lambda>w4.
       cbind (demo_print 1 io w4) (\<lambda>w5.
       cbind (demo_read_file fuel env io ds w5) (\<lambda>(_, w6).
       cbind (demo_dialogue fuel io w6) (\<lambda>w7.
       cbind (demo_print 1 io w7) (\<lambda>w8.
       let w9 = w8\<lparr>rw_mem := wr32 (rw_mem w8) (ds_rpccall ds) TERM_SYSCALL_ID\<rparr> in
       cbind (rpmsg_rpc_send fuel env (ds_rpc ds) (ds_rpccall ds) (of_nat SYSCALL_SIZE) NULL 0 w9) (\<lambda>(_, w10).
       cbind (rpmsg_rpc_release env (ds_rpc ds) w10) (\<lambda>w11. Inr (0, w11))))))))))"

definition rpc_demo_main ::
  "nat \<Rightarrow> ('b, 'x) rpc_e \<Rightarrow> ('b, 'x) rpmsg_state_scheme demo_io \<Rightarrow> demo_stack \<Rightarrow> ptr \<Rightarrow> ptr \<Rightarrow>
   ('p, 'd, 'w, ('b, 'x) rpc_w) platform_ops \<Rightarrow> 'p \<Rightarrow> 'w \<Rightarrow> (int \<times> 'w) cres" where
  "rpc_demo_main fuel env io ds dev priv pl = example_main pl VIRTIO_DEV_SLAVE NULL (rpc_demo_app fuel env io ds dev priv)"

subsection \<open>Properties\<close>

text \<open>
  What the proof needs of \<open>printf\<close>: between two calls of the proxy it may have the server write to its standard output, which changes the files by \<open>pr\<close>, and it
  leaves the buffers of the program alone.
\<close>

definition prints_ok :: "('f \<Rightarrow> 'f) \<Rightarrow> demo_stack \<Rightarrow> ptr \<Rightarrow> ('b, 'f) rpc_sys demo_io \<Rightarrow> bool" where
  "prints_ok pr ds app_ept io \<longleftrightarrow>
     (\<forall>w. client_ready w \<longrightarrow> server_idle (sy_server (rw_rpmsg w)) app_ept \<longrightarrow>
       (\<exists>w'. di_printf io w = Inr w' \<and> served w (pr (sv_files (sy_server (rw_rpmsg w)))) w' \<and>
          (\<forall>n \<le> 1024. rd_bytes (rw_mem w') (ds_rbuff ds) n = rd_bytes (rw_mem w) (ds_rbuff ds) n)))"

definition demo_stack_ok :: "demo_stack \<Rightarrow> bool" where
  "demo_stack_ok ds \<longleftrightarrow> NULL \<notin> {ds_tmpbuf ds, ds_resp ds, ds_call ds, ds_wbuff ds, ds_rbuff ds} \<and>
     disjoint_blocks (ds_tmpbuf ds) 496 (ds_resp ds) 16 \<and> disjoint_blocks (ds_call ds) 16 (ds_resp ds) 16 \<and>
     disjoint_blocks (ds_call ds) 16 (ds_tmpbuf ds) 496 \<and> disjoint_blocks (ds_wbuff ds) 50 (ds_tmpbuf ds) 496 \<and>
     disjoint_blocks (ds_rbuff ds) 1024 (ds_call ds) 16 \<and> disjoint_blocks (ds_rbuff ds) 1024 (ds_resp ds) 16"

lemma served_next:
  assumes "served w fs w'"
  shows "client_ready w'" "rw_default w' = rw_default w" "sv_files (sy_server (rw_rpmsg w')) = fs"
    "server_idle (sy_server (rw_rpmsg w)) p \<Longrightarrow> server_idle (sy_server (rw_rpmsg w')) p" "served w' gs w'' \<Longrightarrow> served w gs w''"
  using assms by (simp_all add: served_def server_idle_def)

lemma served_store: "served w fs w' \<Longrightarrow> served w fs (w'\<lparr>rw_mem := m\<rparr>)"
  by (simp add: served_def client_ready_mem)

lemma served_self: "client_ready w \<Longrightarrow> served w (sv_files (sy_server (rw_rpmsg w))) w"
  by (simp add: served_def)

text \<open>The program between two calls: since the start \<open>w\<close> only the files of the server have changed, to \<open>fs\<close>.\<close>

definition demo_at :: "('f \<Rightarrow> 'f) \<Rightarrow> demo_stack \<Rightarrow> ptr \<Rightarrow> ('b, 'f) rpc_sys demo_io \<Rightarrow> ('b, 'f) rpc_sys rpc_world \<Rightarrow> 'f \<Rightarrow>
    ('b, 'f) rpc_sys rpc_world \<Rightarrow> bool" where
  "demo_at pr ds app_ept io w fs w' \<longleftrightarrow> prints_ok pr ds app_ept io \<and> demo_stack_ok ds \<and> server_idle (sy_server (rw_rpmsg w)) app_ept \<and> served w fs w'"

lemma demo_atD:
  assumes "demo_at pr ds app_ept io w fs w'"
  shows "client_ready w'" "rw_default w' = rw_default w" "sv_files (sy_server (rw_rpmsg w')) = fs" "server_idle (sy_server (rw_rpmsg w')) app_ept"
    "served w' gs w'' \<Longrightarrow> demo_at pr ds app_ept io w gs w''" "demo_at pr ds app_ept io w fs (w'\<lparr>rw_mem := m\<rparr>)"
  using assms served_next [of w fs w'] served_store [of w fs w'] by (auto simp: demo_at_def)

lemma demo_at_stack:
  assumes "demo_at pr ds app_ept io w fs w'"
  shows "ds_tmpbuf ds \<noteq> NULL" "ds_resp ds \<noteq> NULL" "ds_call ds \<noteq> NULL" "ds_wbuff ds \<noteq> NULL" "ds_rbuff ds \<noteq> NULL"
    "disjoint_blocks (ds_tmpbuf ds) 496 (ds_resp ds) 16" "disjoint_blocks (ds_call ds) 16 (ds_resp ds) 16"
    "disjoint_blocks (ds_call ds) 16 (ds_tmpbuf ds) 496" "disjoint_blocks (ds_wbuff ds) 45 (ds_tmpbuf ds) 16"
    "disjoint_blocks (ds_rbuff ds) 1024 (ds_call ds) 16" "disjoint_blocks (ds_rbuff ds) 1024 (ds_resp ds) 16"
  using assms disjoint_blocks_mono [of "ds_wbuff ds" 50 "ds_tmpbuf ds" 496 45 16] by (auto simp: demo_at_def demo_stack_ok_def)

lemma demo_print_at:
  assumes "demo_at pr ds app_ept io w fs w'"
  shows "\<exists>w''. demo_print 1 io w' = Inr w'' \<and> demo_at pr ds app_ept io w (pr fs) w'' \<and>
    (\<forall>n \<le> 1024. rd_bytes (rw_mem w'') (ds_rbuff ds) n = rd_bytes (rw_mem w') (ds_rbuff ds) n)"
proof -
  obtain w'' where "di_printf io w' = Inr w''" "served w' (pr fs) w''"
      "\<forall>n \<le> 1024. rd_bytes (rw_mem w'') (ds_rbuff ds) n = rd_bytes (rw_mem w') (ds_rbuff ds) n"
    using assms demo_atD(1,3,4) [OF assms] unfolding demo_at_def prints_ok_def by blast
  then show ?thesis using demo_atD(5) [OF assms] by simp
qed

lemma demo_open_at:
  assumes "demo_at pr ds app_ept io w fs w'" and "k + 2 \<le> fuel" and "os_open os demo_fname (sint fl) (sint mode) fs = (fd, gs)"
    and "1 < fd" and "fd < 2 ^ 31"
  shows "\<exists>w''. rt_open fuel (sys_env k bo os junk app_ept sh (rw_default w)) (ds_tmpbuf ds) (ds_resp ds) (Some demo_fname) fl mode w' = Inr (fd, w'') \<and>
    demo_at pr ds app_ept io w gs w''"
proof -
  note d = demo_atD [OF assms(1)] and st = demo_at_stack [OF assms(1)]
  have nm: "length demo_fname \<le> 479" "0 \<notin> set demo_fname" by (simp_all add: demo_fname_def)
  have "- (2 ^ 31) \<le> fd" using assms(4) by simp
  from rt_open_run [OF d(1,4) st(1,2,6) nm _ this assms(5,2)] assms(3) d(2,3,5) show ?thesis by metis
qed

lemma demo_close_at:
  assumes "demo_at pr ds app_ept io w fs w'" and "k + 2 \<le> fuel" and "os_close os fd fs = (x, gs)" and "1 < fd" and "fd < 2 ^ 31"
    and "- (2 ^ 31) \<le> x" and "x < 2 ^ 31"
  shows "\<exists>w''. rt_close fuel (sys_env k bo os junk app_ept sh (rw_default w)) (ds_call ds) (ds_resp ds) (word_of_int fd) w' = Inr (x, w'') \<and>
    demo_at pr ds app_ept io w gs w'' \<and>
    (\<forall>n \<le> 1024. rd_bytes (rw_mem w'') (ds_rbuff ds) n = rd_bytes (rw_mem w') (ds_rbuff ds) n)"
proof -
  note d = demo_atD [OF assms(1)] and st = demo_at_stack [OF assms(1)]
  have "sint (word_of_int fd :: u32) = fd" using assms(4,5) by (intro sint_word_of_int) simp_all
  then have "os_close os (sint (word_of_int fd :: u32)) (sv_files (sy_server (rw_rpmsg w'))) = (x, gs)" using assms(3) d(3) by simp
  from rt_close_run [OF d(1,4) st(3,2,7) this assms(6,7,2)] d(2,5) disjoint_blocks_mono [OF st(10)] disjoint_blocks_mono [OF st(11)]
  show ?thesis by (metis order_refl)
qed

lemma demo_write_at:
  assumes "demo_at pr ds app_ept io w fs w'" and "k + 2 \<le> fuel" and "os_write os fd demo_text fs = (x, gs)" and "1 < fd" and "fd < 2 ^ 31"
    and "- (2 ^ 31) \<le> x" and "x < 2 ^ 31" and "rd_bytes (rw_mem w') (ds_wbuff ds) 45 = demo_text"
  shows "\<exists>w''. rt_write fuel (sys_env k bo os junk app_ept sh (rw_default w)) (ds_tmpbuf ds) (ds_resp ds) (word_of_int fd) (ds_wbuff ds)
      (of_nat (length demo_text)) w' = Inr (x, w'') \<and> demo_at pr ds app_ept io w gs w''"
proof -
  note d = demo_atD [OF assms(1)] and st = demo_at_stack [OF assms(1)]
  have sfd: "sint (word_of_int fd :: u32) = fd" using assms(4,5) by (intro sint_word_of_int) simp_all
  have len: "unat (of_nat (length demo_text) :: u32) = 45" by (simp add: demo_text_def)
  have "(word_of_int fd :: u32) \<noteq> 1" using sfd assms(4) by auto
  then have le: "unat (of_nat (length demo_text) :: u32) \<le> (if (word_of_int fd :: u32) = 1 then 478 else 480)" unfolding len by simp
  have dj: "disjoint_blocks (ds_wbuff ds) (unat (of_nat (length demo_text) :: u32)) (ds_tmpbuf ds) 16" unfolding len by (rule st(9))
  have "os_write os (sint (word_of_int fd :: u32)) (rd_bytes (rw_mem w') (ds_wbuff ds) (unat (of_nat (length demo_text) :: u32)))
      (sv_files (sy_server (rw_rpmsg w'))) = (x, gs)"
    unfolding sfd len using assms(3,8) d(3) by simp
  from rt_write_run [OF d(1,4) st(1,2,6,4) dj le this assms(6,7,2)] d(2,5) show ?thesis by metis
qed

lemma demo_read_at:
  assumes "demo_at pr ds app_ept io w fs w'" and "k + 2 \<le> fuel" and "os_read os fd 1024 fs = (int (length bs), bs, gs)" and "1 < fd" and "fd < 2 ^ 31"
    and "length bs \<le> 480"
  shows "\<exists>w''. rt_read fuel (sys_env k bo os junk app_ept sh (rw_default w)) (ds_tmpbuf ds) (ds_call ds) (word_of_int fd) (ds_rbuff ds) RBUFF_SIZE w' =
      Inr (int (length bs), w'') \<and> demo_at pr ds app_ept io w gs w'' \<and> rd_bytes (rw_mem w'') (ds_rbuff ds) (length bs) = bs"
proof -
  note d = demo_atD [OF assms(1)] and st = demo_at_stack [OF assms(1)]
  have sfd: "sint (word_of_int fd :: u32) = fd" using assms(4,5) by (intro sint_word_of_int) simp_all
  then have nz: "(word_of_int fd :: u32) \<noteq> 0" using assms(4) by auto
  have len: "RBUFF_SIZE \<noteq> 0" "unat RBUFF_SIZE < 2 ^ 31" "length bs \<le> unat RBUFF_SIZE" using assms(6) by (simp_all add: RBUFF_SIZE_def)
  have "os_read os (sint (word_of_int fd :: u32)) (read_request (word_of_int fd) RBUFF_SIZE) (sv_files (sy_server (rw_rpmsg w'))) =
      (int (length bs), bs, gs)"
    using assms(3) d(3) sfd nz by (simp add: RBUFF_SIZE_def read_request_def)
  from rt_read_run [OF d(1,4) st(1,3,8,5) len(1,2) this _ _ assms(6,2), of bo junk sh] d(2,5) len(3) show ?thesis by (auto simp: min_def)
qed

text \<open>The work on the file as the program means it: the same calls of the operating system, without a proxy.\<close>

definition demo_spec :: "'f os_ops \<Rightarrow> ('f \<Rightarrow> 'f) \<Rightarrow> 'f \<Rightarrow> int list \<times> u8 list \<times> 'f" where
  "demo_spec os pr fs =
     (case os_open os demo_fname 0x441 0x180 fs of (fd, f1) \<Rightarrow>
      case os_write os fd demo_text (pr f1) of (x, f2) \<Rightarrow>
      case os_close os fd (pr f2) of (y, f3) \<Rightarrow>
      case os_open os demo_fname 0 0x180 (pr (pr f3)) of (fd', g1) \<Rightarrow>
      case os_read os fd' 1024 (pr g1) of (n, bs, g2) \<Rightarrow>
      case os_close os fd' (pr g2) of (z, g3) \<Rightarrow> ([fd, x, y, fd', n, z], bs, pr g3))"

lemma demo_write_file_run:
  assumes "demo_at pr ds app_ept io w fs w'" and "k + 2 \<le> fuel" and "os_open os demo_fname 0x441 0x180 fs = (fd, f1)" and "1 < fd" and "fd < 2 ^ 31"
    and "os_write os fd demo_text (pr f1) = (x, f2)" and "- (2 ^ 31) \<le> x" and "x < 2 ^ 31"
    and "os_close os fd (pr f2) = (y, f3)" and "- (2 ^ 31) \<le> y" and "y < 2 ^ 31"
  shows "\<exists>w''. demo_write_file fuel (sys_env k bo os junk app_ept sh (rw_default w)) io ds w' = Inr w'' \<and> demo_at pr ds app_ept io w (pr f3) w''"
proof -
  let ?env = "sys_env k bo os junk app_ept sh (rw_default w)" and ?fl = "REDEF_O_CREAT OR REDEF_O_WRONLY OR REDEF_O_APPEND"
  have "sint ?fl = 0x441" "sint DEMO_MODE = 0x180"
    by (simp_all add: REDEF_O_CREAT_def REDEF_O_WRONLY_def REDEF_O_APPEND_def DEMO_MODE_def)
  then obtain w1 where 1: "rt_open fuel ?env (ds_tmpbuf ds) (ds_resp ds) (Some demo_fname) ?fl DEMO_MODE w' = Inr (fd, w1)" "demo_at pr ds app_ept io w f1 w1"
    using demo_open_at [OF assms(1,2) _ assms(4,5), of os ?fl DEMO_MODE f1 bo junk sh] assms(3) by auto
  obtain w2 where 2: "demo_print 1 io w1 = Inr w2" "demo_at pr ds app_ept io w (pr f1) w2" using demo_print_at [OF 1(2)] by blast
  let ?w3 = "w2\<lparr>rw_mem := wr_bytes (rw_mem w2) (ds_wbuff ds) (demo_text @ [0])\<rparr>"
  have "rd_bytes (rw_mem ?w3) (ds_wbuff ds) 45 = demo_text"
    using rd_wr_part [of 0 45 "demo_text @ [0]" "rw_mem w2" "ds_wbuff ds"] by (simp add: demo_text_def)
  then obtain w4 where 4: "rt_write fuel ?env (ds_tmpbuf ds) (ds_resp ds) (word_of_int fd) (ds_wbuff ds) (of_nat (length demo_text)) ?w3 = Inr (x, w4)"
      "demo_at pr ds app_ept io w f2 w4"
    using demo_write_at [OF demo_atD(6) [OF 2(2)] assms(2,6,4,5,7,8)] by blast
  obtain w5 where 5: "demo_print 1 io w4 = Inr w5" "demo_at pr ds app_ept io w (pr f2) w5" using demo_print_at [OF 4(2)] by blast
  obtain w6 where 6: "rt_close fuel ?env (ds_call ds) (ds_resp ds) (word_of_int fd) w5 = Inr (y, w6)" "demo_at pr ds app_ept io w f3 w6"
    using demo_close_at [OF 5(2) assms(2,9,4,5,10,11)] by blast
  obtain w7 where "demo_print 1 io w6 = Inr w7" "demo_at pr ds app_ept io w (pr f3) w7" using demo_print_at [OF 6(2)] by blast
  then show ?thesis using 1(1) 2(1) 4(1) 5(1) 6(1) by (simp add: demo_write_file_def Let_def del: demo_print.simps)
qed

lemma demo_read_file_run:
  assumes "demo_at pr ds app_ept io w fs w'" and "k + 2 \<le> fuel" and "os_open os demo_fname 0 0x180 fs = (fd, f1)" and "1 < fd" and "fd < 2 ^ 31"
    and "os_read os fd 1024 (pr f1) = (int (length bs), bs, f2)" and "length bs \<le> 480"
    and "os_close os fd (pr f2) = (y, f3)" and "- (2 ^ 31) \<le> y" and "y < 2 ^ 31"
  shows "\<exists>w''. demo_read_file fuel (sys_env k bo os junk app_ept sh (rw_default w)) io ds w' = Inr (int (length bs), w'') \<and>
    demo_at pr ds app_ept io w (pr f3) w'' \<and> rd_bytes (rw_mem w'') (ds_rbuff ds) (length bs) = bs"
proof -
  let ?env = "sys_env k bo os junk app_ept sh (rw_default w)" and ?n = "length bs"
  obtain w1 where 1: "rt_open fuel ?env (ds_tmpbuf ds) (ds_resp ds) (Some demo_fname) REDEF_O_RDONLY DEMO_MODE w' = Inr (fd, w1)"
      "demo_at pr ds app_ept io w f1 w1"
    using demo_open_at [OF assms(1,2) _ assms(4,5), of os REDEF_O_RDONLY DEMO_MODE f1 bo junk sh] assms(3)
    by (auto simp: REDEF_O_RDONLY_def DEMO_MODE_def)
  obtain w2 where 2: "demo_print 1 io w1 = Inr w2" "demo_at pr ds app_ept io w (pr f1) w2" using demo_print_at [OF 1(2)] by blast
  obtain w3 where 3: "rt_read fuel ?env (ds_tmpbuf ds) (ds_call ds) (word_of_int fd) (ds_rbuff ds) RBUFF_SIZE w2 = Inr (int ?n, w3)"
      "demo_at pr ds app_ept io w f2 w3" "rd_bytes (rw_mem w3) (ds_rbuff ds) ?n = bs"
    using demo_read_at [OF 2(2) assms(2,6,4,5,7)] by blast
  let ?w4 = "w3\<lparr>rw_mem := wr8 (rw_mem w3) (ds_rbuff ds + word_of_int (int ?n + 1)) 0\<rparr>"
  have "disjoint_blocks (ds_rbuff ds + of_nat 0) ?n (ds_rbuff ds + of_nat (?n + 1)) 1"
    using assms(7) by (intro disjoint_blocks_offset) simp_all
  then have 4: "rd_bytes (rw_mem ?w4) (ds_rbuff ds) ?n = bs" using 3(3) by (simp add: rd_wr_other add.commute)
  obtain w5 where 5: "demo_print 1 io ?w4 = Inr w5" "demo_at pr ds app_ept io w (pr f2) w5" "rd_bytes (rw_mem w5) (ds_rbuff ds) ?n = bs"
    using demo_print_at [OF demo_atD(6) [OF 3(2)]] 4 assms(7) by fastforce
  obtain w6 where 6: "rt_close fuel ?env (ds_call ds) (ds_resp ds) (word_of_int fd) w5 = Inr (y, w6)" "demo_at pr ds app_ept io w f3 w6"
      "rd_bytes (rw_mem w6) (ds_rbuff ds) ?n = bs"
    using demo_close_at [OF 5(2) assms(2,8,4,5,9,10)] 5(3) assms(7) by fastforce
  obtain w7 where "demo_print 1 io w6 = Inr w7" "demo_at pr ds app_ept io w (pr f3) w7" "rd_bytes (rw_mem w7) (ds_rbuff ds) ?n = bs"
    using demo_print_at [OF 6(2)] 6(3) assms(7) by fastforce
  then show ?thesis using 1(1) 2(1) 3(1) 5(1) 6(1) assms(7) by (simp add: demo_read_file_def Let_def RBUFF_SIZE_def del: demo_print.simps)
qed

text \<open>
  C11. The file demonstration. Writing the file, printing and reading the file back through the proxy makes the same calls of the server's operating system in the same order, with the same
  arguments, as the program would make locally, with what it prints in between; the bytes that the server read are in the buffer of the program and their number is the result. This holds however
  long the answers take, if the descriptors are those of files and at most 480 bytes are read, although the program asks for 1024.
\<close>

theorem rpc_demo_files:
  fixes w :: "('b, 'f) rpc_sys rpc_world"
  assumes "client_ready w" and "server_idle (sy_server (rw_rpmsg w)) app_ept" and "prints_ok pr ds app_ept io" and "demo_stack_ok ds" and "k + 2 \<le> fuel"
    and "demo_spec os pr (sv_files (sy_server (rw_rpmsg w))) = ([fd, x, y, fd', int (length bs), z], bs, gs)"
    and "1 < fd" and "1 < fd'" and "length bs \<le> 480" and "\<forall>i \<in> {fd, x, y, fd', z}. - (2 ^ 31) \<le> i \<and> i < 2 ^ 31"
  shows "\<exists>w'. cbind (demo_write_file fuel (sys_env k bo os junk app_ept sh (rw_default w)) io ds w) (\<lambda>w1.
      cbind (demo_print 1 io w1) (demo_read_file fuel (sys_env k bo os junk app_ept sh (rw_default w)) io ds)) = Inr (int (length bs), w') \<and>
    rd_bytes (rw_mem w') (ds_rbuff ds) (length bs) = bs \<and> served w gs w'"
proof -
  let ?env = "sys_env k bo os junk app_ept sh (rw_default w)"
  have i: "fd < 2 ^ 31" "fd' < 2 ^ 31" "- (2 ^ 31) \<le> x" "x < 2 ^ 31" "- (2 ^ 31) \<le> y" "y < 2 ^ 31" "- (2 ^ 31) \<le> z" "z < 2 ^ 31"
    using assms(10) by simp_all
  obtain f1 f2 f3 g1 g2 g3 where f: "os_open os demo_fname 0x441 0x180 (sv_files (sy_server (rw_rpmsg w))) = (fd, f1)"
      "os_write os fd demo_text (pr f1) = (x, f2)" "os_close os fd (pr f2) = (y, f3)"
    and g: "os_open os demo_fname 0 0x180 (pr (pr f3)) = (fd', g1)" "os_read os fd' 1024 (pr g1) = (int (length bs), bs, g2)"
      "os_close os fd' (pr g2) = (z, g3)" "gs = pr g3"
    using assms(6) by (auto simp: demo_spec_def split: prod.splits)
  have "demo_at pr ds app_ept io w (sv_files (sy_server (rw_rpmsg w))) w" using assms(1-4) by (simp add: demo_at_def served_self)
  then obtain w1 where 1: "demo_write_file fuel ?env io ds w = Inr w1" "demo_at pr ds app_ept io w (pr f3) w1"
    using demo_write_file_run [OF _ assms(5) f(1) assms(7) i(1) f(2) i(3,4) f(3) i(5,6)] by blast
  obtain w2 where 2: "demo_print 1 io w1 = Inr w2" "demo_at pr ds app_ept io w (pr (pr f3)) w2" using demo_print_at [OF 1(2)] by blast
  then show ?thesis
    using demo_read_file_run [OF 2(2) assms(5) g(1) assms(8) i(2) g(2) assms(9) g(3) i(7,8), where bo = bo and junk = junk and sh = sh] 1(1) g(4)
    by (auto simp: demo_at_def simp del: demo_print.simps)
qed

text \<open>A program whose console is its own, and a server with one file.\<close>

definition console :: "'s demo_io" where
  "console = \<lparr>di_printf = Inr, di_scanf_string = (\<lambda>w. Inr (1, [0x6e, 0x6f], w)), di_scanf_number = (\<lambda>w. Inr (1, w))\<rparr>"

definition small_stack :: demo_stack where
  "small_stack = \<lparr>ds_rpc = 0x100, ds_rpccall = 0x180, ds_wbuff = 0x1000, ds_rbuff = 0x2000, ds_tmpbuf = 0x3000, ds_resp = 0x4000, ds_call = 0x5000\<rparr>"

lemma small_stack_ok: "demo_stack_ok small_stack" "prints_ok (\<lambda>f. f) small_stack p console"
  using disjoint_blocks_offset [of "0x3000" 496 "0x4000" 16 0] disjoint_blocks_offset [of "0x5000" 16 "0x4000" 16 0]
    disjoint_blocks_offset [of "0x5000" 16 "0x3000" 496 0] disjoint_blocks_offset [of "0x1000" 50 "0x3000" 496 0]
    disjoint_blocks_offset [of "0x2000" 1024 "0x5000" 16 0] disjoint_blocks_offset [of "0x2000" 1024 "0x4000" 16 0]
  by (simp_all add: demo_stack_ok_def small_stack_def prints_ok_def console_def served_self)

lemma rpc_demo_files_witness:
  "\<exists>w'. cbind (demo_write_file 9 (sys_env 7 long_bitmap one_file [] 0x200 0 (rw_default (small_sys []))) console small_stack (small_sys [])) (\<lambda>w1.
      cbind (demo_print 1 console w1) (demo_read_file 9 (sys_env 7 long_bitmap one_file [] 0x200 0 (rw_default (small_sys []))) console small_stack)) =
      Inr (int (length demo_text), w') \<and>
    rd_bytes (rw_mem w') (ds_rbuff small_stack) (length demo_text) = demo_text \<and> served (small_sys []) demo_text w'"
  by (rule rpc_demo_files [OF small_sys_ready small_stack_ok(2,1), where fd = 5 and fd' = 5 and x = 45 and y = 0 and z = 0])
    (simp_all add: demo_spec_def one_file_def demo_text_def)

end
