(* ===== verification/System_Helpers.thy ===== *)
theory System_Helpers
  imports Metal
begin

text \<open>
  The set-up code of the boards: the files \<open>helper.c\<close> under \<open>apps/system\<close>, one definition per function. The two bare-metal boards configure the interrupt
  controller of the processor with the functions of the vendor, which are the parameter record \<open>board_ops\<close> on a state of the hardware; the others only initialise libmetal.
  \<open>bd_target_offset\<close> is the macro that gives the register of the targets of an interrupt, four interrupts to a register.
\<close>

record 'h board_ops =
  bd_metal_init :: "'h \<Rightarrow> 'h"
  bd_metal_finish :: "'h \<Rightarrow> 'h"
  bd_exception_disable :: "'h \<Rightarrow> 'h"
  bd_exception_enable :: "'h \<Rightarrow> 'h"
  bd_lookup_config :: "'h \<Rightarrow> ptr"
  bd_cfg_initialize :: "ptr \<Rightarrow> 'h \<Rightarrow> u32 \<times> 'h"
  bd_dist_read :: "u32 \<Rightarrow> 'h \<Rightarrow> u32"
  bd_dist_write :: "u32 \<Rightarrow> u32 \<Rightarrow> 'h \<Rightarrow> 'h"
  bd_map_to_cpu :: "u32 \<Rightarrow> u32 \<Rightarrow> 'h \<Rightarrow> 'h"
  bd_register_handler :: "'h \<Rightarrow> 'h"
  bd_gic_disable :: "u32 \<Rightarrow> 'h \<Rightarrow> 'h"
  bd_gic_connect :: "u32 \<Rightarrow> 'h \<Rightarrow> 'h"
  bd_irq_init :: "'h \<Rightarrow> int \<times> 'h"
  bd_dcache_disable :: "'h \<Rightarrow> 'h"
  bd_icache_disable :: "'h \<Rightarrow> 'h"
  bd_dcache_invalidate :: "'h \<Rightarrow> 'h"
  bd_icache_invalidate :: "'h \<Rightarrow> 'h"
  bd_target_offset :: "u32 \<Rightarrow> u32"
  bd_num_inputs :: nat
  bd_cpu_id :: nat

definition XST_SUCCESS :: u32 where "XST_SUCCESS = 0"
definition XST_FAILURE :: int where "XST_FAILURE = 1"

subsection \<open>The interrupt controller\<close>

text \<open>The common end of both functions: the handler is registered, and the interrupt connected once exceptions are enabled.\<close>

definition gic_finish :: "'h board_ops \<Rightarrow> u32 \<Rightarrow> 'h \<Rightarrow> 'h" where
  "gic_finish bd vec h =
     bd_gic_connect bd vec (bd_exception_enable bd (bd_gic_disable bd vec (bd_register_handler bd h)))"

definition gic_start :: "'h board_ops \<Rightarrow> 'h \<Rightarrow> bool \<times> 'h" where
  "gic_start bd h =
     (let h1 = bd_exception_disable bd h; cfg = bd_lookup_config bd h1 in
      if cfg = NULL then (False, h1)
      else case bd_cfg_initialize bd cfg h1 of (status, h2) \<Rightarrow> (status = XST_SUCCESS, h2))"

definition a9_gic_initialize :: "'h board_ops \<Rightarrow> u32 \<Rightarrow> 'h \<Rightarrow> int \<times> 'h" where
  "a9_gic_initialize bd vec h =
     (case gic_start bd h of (ok, h1) \<Rightarrow> if \<not> ok then (XST_FAILURE, h1) else (0, gic_finish bd vec h1))"

definition r5_cpu_mask :: "nat \<Rightarrow> u32" where
  "r5_cpu_mask cpu =
     (let m = push_bit cpu 1; m1 = m OR push_bit 8 m in m1 OR push_bit 16 m1)"

text \<open>The loop over the registers, \<open>n\<close> rounds from interrupt \<open>int_id\<close> on.\<close>

fun r5_untarget :: "nat \<Rightarrow> 'h board_ops \<Rightarrow> u32 \<Rightarrow> u32 \<Rightarrow> 'h \<Rightarrow> 'h" where
  "r5_untarget 0 bd msk int_id h = h"
| "r5_untarget (Suc n) bd msk int_id h =
     (let r = bd_target_offset bd int_id in
      r5_untarget n bd msk (int_id + 4) (bd_dist_write bd r (bd_dist_read bd r h AND NOT msk) h))"

definition r5_gic_initialize :: "'h board_ops \<Rightarrow> u32 \<Rightarrow> 'h \<Rightarrow> int \<times> 'h" where
  "r5_gic_initialize bd vec h =
     (case gic_start bd h of (ok, h1) \<Rightarrow>
        if \<not> ok then (XST_FAILURE, h1)
        else
          let h2 = r5_untarget ((bd_num_inputs bd - 32 + 3) div 4) bd (r5_cpu_mask (bd_cpu_id bd)) 32 h1 in
          (0, gic_finish bd vec (bd_map_to_cpu bd (of_nat (bd_cpu_id bd)) vec h2)))"

subsection \<open>The entry points\<close>

text \<open>The result of \<open>app_gic_initialize\<close> is not looked at.\<close>

definition bare_init_system :: "('h board_ops \<Rightarrow> u32 \<Rightarrow> 'h \<Rightarrow> int \<times> 'h) \<Rightarrow> 'h board_ops \<Rightarrow> u32 \<Rightarrow> 'h \<Rightarrow> int \<times> 'h" where
  "bare_init_system gic bd vec h = bd_irq_init bd (snd (gic bd vec (bd_metal_init bd h)))"

definition a9_init_system :: "'h board_ops \<Rightarrow> u32 \<Rightarrow> 'h \<Rightarrow> int \<times> 'h" where
  "a9_init_system = bare_init_system a9_gic_initialize"

definition r5_init_system :: "'h board_ops \<Rightarrow> u32 \<Rightarrow> 'h \<Rightarrow> int \<times> 'h" where
  "r5_init_system = bare_init_system r5_gic_initialize"

definition bare_cleanup_system :: "'h board_ops \<Rightarrow> 'h \<Rightarrow> 'h" where
  "bare_cleanup_system bd h =
     bd_icache_invalidate bd (bd_dcache_invalidate bd (bd_icache_disable bd (bd_dcache_disable bd (bd_metal_finish bd h))))"

definition a9_cleanup_system :: "'h board_ops \<Rightarrow> 'h \<Rightarrow> 'h" where
  "a9_cleanup_system = bare_cleanup_system"

definition r5_cleanup_system :: "'h board_ops \<Rightarrow> 'h \<Rightarrow> 'h" where
  "r5_cleanup_system = bare_cleanup_system"

definition rv64_init_system :: "'h board_ops \<Rightarrow> 'h \<Rightarrow> int \<times> 'h" where
  "rv64_init_system bd h = (0, bd_metal_init bd h)"

definition rv64_cleanup_system :: "'h board_ops \<Rightarrow> 'h \<Rightarrow> 'h" where
  "rv64_cleanup_system = bd_metal_finish"

definition rv64_linux_init_system :: "'h board_ops \<Rightarrow> 'h \<Rightarrow> int \<times> 'h" where
  "rv64_linux_init_system bd h = (0, bd_metal_init bd h)"

definition rv64_linux_cleanup_system :: "'h board_ops \<Rightarrow> 'h \<Rightarrow> 'h" where
  "rv64_linux_cleanup_system = bd_metal_finish"

definition linux_r5_init_system :: "'h board_ops \<Rightarrow> 'h \<Rightarrow> int \<times> 'h" where
  "linux_r5_init_system bd h = (0, bd_metal_init bd h)"

definition linux_r5_cleanup_system :: "'h board_ops \<Rightarrow> 'h \<Rightarrow> 'h" where
  "linux_r5_cleanup_system = bd_metal_finish"

definition generic_init_system :: "'h board_ops \<Rightarrow> 'h \<Rightarrow> int \<times> 'h" where
  "generic_init_system bd h = (0, bd_metal_init bd h)"

definition generic_cleanup_system :: "'h board_ops \<Rightarrow> 'h \<Rightarrow> 'h" where
  "generic_cleanup_system = bd_metal_finish"

subsection \<open>Properties\<close>

text \<open>The mask has the bit of the processor in each of its four bytes.\<close>

lemma r5_cpu_mask_bits: "cpu < 8 \<Longrightarrow> bit (r5_cpu_mask cpu) n \<longleftrightarrow> n < 32 \<and> n mod 8 = cpu"
proof -
  assume c: "cpu < 8"
  have "bit (r5_cpu_mask cpu) n \<longleftrightarrow> n = cpu \<or> n = cpu + 8 \<or> n = cpu + 16 \<or> n = cpu + 24"
    using c by (auto simp: r5_cpu_mask_def Let_def bit_simps)
  also have "\<dots> \<longleftrightarrow> (\<exists>k < 4. n = cpu + k * 8)"
  proof -
    have k: "k < 4 \<longleftrightarrow> k = 0 \<or> k = 1 \<or> k = 2 \<or> k = 3" for k :: nat by linarith
    have "(\<exists>k < 4. P k) \<longleftrightarrow> P 0 \<or> P 1 \<or> P 2 \<or> P 3" for P :: "nat \<Rightarrow> bool" unfolding k by blast
    then show ?thesis by simp
  qed
  also have "\<dots> \<longleftrightarrow> n div 8 < 4 \<and> n mod 8 = cpu"
  proof
    assume "\<exists>k < 4. n = cpu + k * 8"
    then show "n div 8 < 4 \<and> n mod 8 = cpu" using c by auto
  next
    assume n: "n div 8 < 4 \<and> n mod 8 = cpu"
    then have "n = cpu + n div 8 * 8" using mod_div_mult_eq [of n 8] by simp
    then show "\<exists>k < 4. n = cpu + k * 8" using n by blast
  qed
  also have "n div 8 < 4 \<longleftrightarrow> n < 32" by (simp add: div_less_iff_less_mult)
  finally show ?thesis .
qed

text \<open>
  A distributor whose registers keep what is written: after the loop the processor is no longer a target of any of the interrupts, and
  nothing else has changed. \<open>off\<close> gives each group of four interrupts a register of its own.
\<close>

locale gic_distributor =
  fixes rd :: "u32 \<Rightarrow> 'h \<Rightarrow> u32" and wr :: "u32 \<Rightarrow> u32 \<Rightarrow> 'h \<Rightarrow> 'h" and off :: "u32 \<Rightarrow> u32"
  assumes read_written: "rd r (wr r' v h) = (if r = r' then v else rd r h)"
    and own_register: "unat i < 2 ^ 16 \<Longrightarrow> unat j < 2 ^ 16 \<Longrightarrow> off i = off j \<longleftrightarrow> unat i div 4 = unat j div 4"
begin

lemma untarget_run:
  assumes "bd_dist_read bd = rd" and "bd_dist_write bd = wr" and "bd_target_offset bd = off"
  shows "i mod 4 = 0 \<Longrightarrow> i + 4 * n < 2 ^ 16 \<Longrightarrow> j < 2 ^ 16 \<Longrightarrow>
    rd (off (of_nat j)) (r5_untarget n bd msk (of_nat i) h) =
      (if i \<le> j \<and> j < i + 4 * n then rd (off (of_nat j)) h AND NOT msk else rd (off (of_nat j)) h)"
proof (induction n arbitrary: i h)
  case (Suc n)
  have u: "unat (of_nat i :: u32) = i" "unat (of_nat j :: u32) = j"
    using Suc.prems by (simp_all add: unat_of_nat_32)
  have o: "off (of_nat j) = off (of_nat i) \<longleftrightarrow> i \<le> j \<and> j < i + 4"
  proof -
    have "off (of_nat j) = off (of_nat i) \<longleftrightarrow> j div 4 = i div 4" using own_register [of "of_nat j" "of_nat i"] Suc.prems u by simp
    also have "\<dots> \<longleftrightarrow> i \<le> j \<and> j < i + 4"
    proof -
      obtain q where "i = 4 * q" using Suc.prems(1) by auto
      then show ?thesis by (auto simp: div_nat_eqI)
    qed
    finally show ?thesis .
  qed
  have "rd (off (of_nat j)) (r5_untarget (Suc n) bd msk (of_nat i) h) =
      rd (off (of_nat j)) (r5_untarget n bd msk (of_nat (i + 4)) (wr (off (of_nat i)) (rd (off (of_nat i)) h AND NOT msk) h))"
    by (simp add: assms Let_def add.commute)
  also have "\<dots> = (if i \<le> j \<and> j < i + 4 * Suc n then rd (off (of_nat j)) h AND NOT msk else rd (off (of_nat j)) h)"
  proof -
    have m: "(i + 4) mod 4 = 0" "i + 4 + 4 * n < 2 ^ 16" using Suc.prems by simp_all
    show ?thesis unfolding Suc.IH [OF m Suc.prems(3)] read_written using o by auto
  qed
  finally show ?case .
qed auto

end

text \<open>The registers of the controller: the targets of interrupt \<open>i\<close> are a byte of the register at \<open>0x800 + 4 * (i div 4)\<close>.\<close>

definition target_offset :: "u32 \<Rightarrow> u32" where
  "target_offset i = 0x800 + 4 * (i div 4)"

lemma target_offset_unat: "unat i < 2 ^ 16 \<Longrightarrow> unat (target_offset i) = 0x800 + 4 * (unat i div 4)"
proof -
  assume i: "unat i < 2 ^ 16"
  have d: "unat (i div 4) = unat i div 4" by (simp add: unat_div_distrib)
  have "unat (4 * (i div 4)) = 4 * (unat i div 4)" using i d by (simp add: unat_word_ariths)
  then show ?thesis using i by (simp add: target_offset_def unat_word_ariths)
qed

interpretation gic: gic_distributor "\<lambda>r h. h r" "\<lambda>r v h. h(r := v)" target_offset
proof
  fix i j :: u32
  assume "unat i < 2 ^ 16" and "unat j < 2 ^ 16"
  then show "target_offset i = target_offset j \<longleftrightarrow> unat i div 4 = unat j div 4"
    by (simp add: word_unat_eq_iff target_offset_unat)
qed simp

text \<open>After the loop of the Cortex-R5 board no shared interrupt is sent to this processor, and the other processors keep theirs.\<close>

lemma r5_untarget_cpu:
  assumes "bd_dist_read bd = (\<lambda>r h. h r)" and "bd_dist_write bd = (\<lambda>r v h. h(r := v))" and "bd_target_offset bd = target_offset"
    and "bd_num_inputs bd < 2 ^ 15" and "32 \<le> j" and "j < bd_num_inputs bd" and "bd_cpu_id bd < 8" and "b < 32"
  shows "bit (r5_untarget ((bd_num_inputs bd - 32 + 3) div 4) bd (r5_cpu_mask (bd_cpu_id bd)) 32 h (target_offset (of_nat j))) b \<longleftrightarrow>
    bit (h (target_offset (of_nat j))) b \<and> b mod 8 \<noteq> bd_cpu_id bd"
  using gic.untarget_run [OF assms(1-3), of 32 "(bd_num_inputs bd - 32 + 3) div 4" j "r5_cpu_mask (bd_cpu_id bd)" h] assms(4-8)
  by (auto simp: r5_cpu_mask_bits bit_simps)

text \<open>When the controller cannot be configured \<open>init_system\<close> still returns what the initialisation of libmetal's interrupts returns, with exceptions disabled.\<close>

lemma a9_init_ignores_controller:
  assumes "bd_lookup_config bd (bd_exception_disable bd (bd_metal_init bd h)) = NULL"
  shows "a9_init_system bd vec h = bd_irq_init bd (bd_exception_disable bd (bd_metal_init bd h))"
  using assms by (simp add: a9_init_system_def bare_init_system_def a9_gic_initialize_def gic_start_def)

end
