(* ===== verification/Remoteproc_Virtio.thy ===== *)
theory Remoteproc_Virtio
  imports Metal Virtio
begin

text \<open>
  The virtio device of a remote processor: \<open>lib/remoteproc/remoteproc_virtio.c\<close>, its header, and the
  vdev resource of \<open>lib/include/openamp/remoteproc.h\<close>, one definition per function, for the build
  with both roles.

  The resource is a packed structure in shared memory at the address \<open>rpv_vdev_rsc\<close>; a field is
  accessed at its offset, through libmetal where the code does so and by a plain load elsewhere. The
  world \<open>rproc_world\<close> holds memory, the allocated queue control blocks (\<open>None\<close> once freed), the
  other structures that were allocated (\<open>False\<close> once freed), the addresses of allocated buffers, the numbers of
  blocks the image loader holds and of images that are open, the private data of the platform, and the trace \<open>w_notes\<close> of calls of
  notify functions (function, private pointer, identifier). Freeing or using what is not allocated is the fault
  \<open>Bad_pointer\<close>. Parameters are libmetal (\<open>pe_io\<close>, \<open>pe_bitmap\<close>, the outcomes of allocations \<open>pe_alloc\<close> and \<open>pe_malloc\<close>), the
  contents \<open>pe_junk\<close> of fresh memory and \<open>pe_stack\<close> of uninitialised local variables, the callbacks of the queues, and what the other processor does
  to memory while this one yields.
\<close>

subsection \<open>The vdev resource\<close>

definition VDEV_RSC_NOTIFYID :: u64 where "VDEV_RSC_NOTIFYID = 8"
definition VDEV_RSC_DFEATURES :: u64 where "VDEV_RSC_DFEATURES = 12"
definition VDEV_RSC_GFEATURES :: u64 where "VDEV_RSC_GFEATURES = 16"
definition VDEV_RSC_CONFIG_LEN :: u64 where "VDEV_RSC_CONFIG_LEN = 20"
definition VDEV_RSC_STATUS :: u64 where "VDEV_RSC_STATUS = 24"
definition VDEV_RSC_NUM_OF_VRINGS :: u64 where "VDEV_RSC_NUM_OF_VRINGS = 25"

definition VRING_RSC_DA :: u64 where "VRING_RSC_DA = 0"
definition VRING_RSC_ALIGN :: u64 where "VRING_RSC_ALIGN = 4"
definition VRING_RSC_NUM :: u64 where "VRING_RSC_NUM = 8"
definition VRING_RSC_NOTIFYID :: u64 where "VRING_RSC_NOTIFYID = 12"

definition vdev_rsc_vring :: "ptr \<Rightarrow> u32 \<Rightarrow> ptr" where
  "vdev_rsc_vring rsc i = rsc + 28 + 20 * ucast i"

lemmas vdev_rsc_defs = VDEV_RSC_NOTIFYID_def VDEV_RSC_DFEATURES_def VDEV_RSC_GFEATURES_def
  VDEV_RSC_CONFIG_LEN_def VDEV_RSC_STATUS_def VDEV_RSC_NUM_OF_VRINGS_def

definition RSC_NOTIFY_ID_ANY :: u32 where "RSC_NOTIFY_ID_ANY = 0xFFFFFFFF"
definition RPROC_EINVAL :: int where "RPROC_EINVAL = 2"

subsection \<open>State\<close>

record remoteproc_virtio =
  rpv_priv :: ptr
  rpv_vdev_rsc :: ptr
  rpv_vdev_rsc_io :: ptr
  rpv_notify :: ptr
  rpv_vdev :: virtio_device
  rpv_block :: nat
  rpv_infos_block :: nat

text \<open>
  The private data of a platform, as far as the ports in the sources change it, and what libmetal keeps for it: the devices that
  are open, the names of the devices registered on its generic bus, and the interrupts whose handler is registered and
  those that are enabled.
\<close>

record remoteproc_priv =
  pv_ipi_dev :: ptr
  pv_shm_dev :: ptr
  pv_shm_io :: ptr
  pv_ipi_nokick :: bool
  pv_cpu_id :: u32
  pv_open_devs :: "ptr list"
  pv_poll_dev :: ptr
  pv_poll_io :: ptr
  pv_ipi_io :: ptr
  pv_generic_devs :: "string list"
  pv_irqs :: "u32 list"
  pv_irqs_on :: "u32 list"

record rproc_world =
  w_mem :: mem
  w_vqs :: "virtqueue option list"
  w_blocks :: "bool list"
  w_bytes :: "ptr list"
  w_loader :: nat
  w_open :: nat
  w_notes :: "(ptr \<times> ptr \<times> u32) list"
  w_priv :: remoteproc_priv

datatype alloc_req = Alloc_rpvdev | Alloc_vrings_info nat | Alloc_virtqueue nat
  | Alloc_priv | Alloc_mem | Alloc_io | Alloc_rpmsg_vdev

record rproc_env =
  pe_io :: io_ops
  pe_bitmap :: "u64 list bitmap_ops"
  pe_alloc :: "alloc_req \<Rightarrow> rproc_world \<Rightarrow> bool"
  pe_malloc :: "u64 \<Rightarrow> rproc_world \<Rightarrow> ptr"
  pe_junk :: "nat \<Rightarrow> virtio_vring_info"
  pe_stack :: u64
  pe_callback :: "ptr \<Rightarrow> nat \<Rightarrow> rproc_world \<Rightarrow> rproc_world cres"
  pe_yield :: "nat \<Rightarrow> mem \<Rightarrow> mem"

text \<open>Address of \<open>rproc_virtio_virtqueue_notify\<close> in the dispatch table.\<close>

definition VIRTQUEUE_NOTIFY :: ptr where "VIRTQUEUE_NOTIFY = 0x200"

subsection \<open>Allocation\<close>

definition alloc_block :: "rproc_env \<Rightarrow> alloc_req \<Rightarrow> rproc_world \<Rightarrow> nat option \<times> rproc_world" where
  "alloc_block env req w =
     (if pe_alloc env req w then (Some (length (w_blocks w)), w\<lparr>w_blocks := w_blocks w @ [True]\<rparr>)
      else (None, w))"

definition free_block :: "nat \<Rightarrow> rproc_world \<Rightarrow> rproc_world cres" where
  "free_block b w =
     (if b < length (w_blocks w) \<and> w_blocks w ! b then Inr (w\<lparr>w_blocks := (w_blocks w)[b := False]\<rparr>)
      else Inl Bad_pointer)"

definition alloc_vq :: "rproc_env \<Rightarrow> u32 \<Rightarrow> rproc_world \<Rightarrow> nat option \<times> rproc_world" where
  "alloc_vq env num_extra w =
     (case virtqueue_allocate (pe_alloc env (Alloc_virtqueue (unat num_extra)) w) (unat num_extra) of
        None \<Rightarrow> (None, w)
      | Some vq \<Rightarrow> (Some (length (w_vqs w)), w\<lparr>w_vqs := w_vqs w @ [Some vq]\<rparr>))"

definition get_vqp :: "nat option \<Rightarrow> rproc_world \<Rightarrow> virtqueue cres" where
  "get_vqp q w =
     (case q of None \<Rightarrow> Inl Null_deref
      | Some i \<Rightarrow> (if i < length (w_vqs w) then
                     (case w_vqs w ! i of None \<Rightarrow> Inl Bad_pointer | Some vq \<Rightarrow> Inr vq)
                   else Inl Bad_pointer))"

definition free_vq :: "nat option \<Rightarrow> rproc_world \<Rightarrow> rproc_world cres" where
  "free_vq q w =
     (case q of None \<Rightarrow> Inr w
      | Some i \<Rightarrow> cbind (get_vqp q w) (\<lambda>_. Inr (w\<lparr>w_vqs := (w_vqs w)[i := None]\<rparr>)))"

subsection \<open>Dispatch functions\<close>

definition call_notify :: "remoteproc_virtio \<Rightarrow> u32 \<Rightarrow> rproc_world \<Rightarrow> rproc_world" where
  "call_notify rpv i w = w\<lparr>w_notes := w_notes w @ [(rpv_notify rpv, rpv_priv rpv, i)]\<rparr>"

definition rproc_virtio_virtqueue_notify ::
  "remoteproc_virtio \<Rightarrow> virtqueue \<Rightarrow> rproc_world \<Rightarrow> rproc_world cres" where
  "rproc_virtio_virtqueue_notify rpv vq w =
     (let vq_id = (ucast (vq_queue_index vq) :: u32) in
      if \<not> vq_id < vd_vrings_num (rpv_vdev rpv) then Inl Assert_failed
      else cbind (rd (vd_vrings_info (rpv_vdev rpv)) (unat vq_id)) (\<lambda>info.
        Inr (call_notify rpv (vi_notifyid info) w)))"

definition rproc_virtio_get_status :: "rproc_env \<Rightarrow> remoteproc_virtio \<Rightarrow> rproc_world \<Rightarrow> u8" where
  "rproc_virtio_get_status env rpv w =
     (let io = rpv_vdev_rsc_io rpv in
      io_read8 (pe_io env) io
        (io_virt_to_offset (pe_io env) io (rpv_vdev_rsc rpv + VDEV_RSC_STATUS)) (w_mem w))"

definition rproc_virtio_set_status ::
  "rproc_env \<Rightarrow> remoteproc_virtio \<Rightarrow> u8 \<Rightarrow> rproc_world \<Rightarrow> rproc_world" where
  "rproc_virtio_set_status env rpv status w =
     (let io = rpv_vdev_rsc_io rpv;
          m = io_write8 (pe_io env) io
                (io_virt_to_offset (pe_io env) io (rpv_vdev_rsc rpv + VDEV_RSC_STATUS)) status (w_mem w) in
      call_notify rpv (vd_notifyid (rpv_vdev rpv)) (w\<lparr>w_mem := m\<rparr>))"

definition rproc_virtio_get_dfeatures :: "rproc_env \<Rightarrow> remoteproc_virtio \<Rightarrow> rproc_world \<Rightarrow> u32" where
  "rproc_virtio_get_dfeatures env rpv w =
     (let io = rpv_vdev_rsc_io rpv in
      io_read32 (pe_io env) io
        (io_virt_to_offset (pe_io env) io (rpv_vdev_rsc rpv + VDEV_RSC_DFEATURES)) (w_mem w))"

definition rproc_virtio_get_features :: "rproc_env \<Rightarrow> remoteproc_virtio \<Rightarrow> rproc_world \<Rightarrow> u32" where
  "rproc_virtio_get_features env rpv w =
     (let io = rpv_vdev_rsc_io rpv;
          gfeatures = io_read32 (pe_io env) io
            (io_virt_to_offset (pe_io env) io (rpv_vdev_rsc rpv + VDEV_RSC_GFEATURES)) (w_mem w);
          dfeatures = rproc_virtio_get_dfeatures env rpv w in
      dfeatures AND gfeatures)"

definition rproc_virtio_set_features ::
  "rproc_env \<Rightarrow> remoteproc_virtio \<Rightarrow> u32 \<Rightarrow> rproc_world \<Rightarrow> rproc_world" where
  "rproc_virtio_set_features env rpv features w =
     (let io = rpv_vdev_rsc_io rpv;
          m = io_write32 (pe_io env) io
                (io_virt_to_offset (pe_io env) io (rpv_vdev_rsc rpv + VDEV_RSC_GFEATURES)) features (w_mem w) in
      call_notify rpv (vd_notifyid (rpv_vdev rpv)) (w\<lparr>w_mem := m\<rparr>))"

definition rproc_virtio_negotiate_features ::
  "rproc_env \<Rightarrow> remoteproc_virtio \<Rightarrow> u32 \<Rightarrow> rproc_world \<Rightarrow> u32 \<times> rproc_world" where
  "rproc_virtio_negotiate_features env rpv features w =
     (let dfeatures = rproc_virtio_get_dfeatures env rpv w in
      (0, rproc_virtio_set_features env rpv (dfeatures AND features) w))"

text \<open>
  The configuration space follows the vring entries. The sum of offset and length is an
  \<open>unsigned int\<close>, so it wraps around. \<open>None\<close> means that the destination is left as it is.
\<close>

definition vdev_config :: "remoteproc_virtio \<Rightarrow> ptr" where
  "vdev_config rpv = vdev_rsc_vring (rpv_vdev_rsc rpv) (vd_vrings_num (rpv_vdev rpv))"

definition config_in_range :: "remoteproc_virtio \<Rightarrow> u32 \<Rightarrow> int \<Rightarrow> rproc_world \<Rightarrow> bool" where
  "config_in_range rpv off len w \<longleftrightarrow>
     off + word_of_int len \<le> rd32 (w_mem w) (rpv_vdev_rsc rpv + VDEV_RSC_CONFIG_LEN)"

definition rproc_virtio_read_config ::
  "rproc_env \<Rightarrow> remoteproc_virtio \<Rightarrow> u32 \<Rightarrow> int \<Rightarrow> rproc_world \<Rightarrow> u8 list option" where
  "rproc_virtio_read_config env rpv off len w =
     (let io = rpv_vdev_rsc_io rpv in
      if config_in_range rpv off len w
      then Some (snd (io_block_read (pe_io env) io
             (io_virt_to_offset (pe_io env) io (vdev_config rpv + ucast off)) len (w_mem w)))
      else None)"

definition rproc_virtio_write_config ::
  "rproc_env \<Rightarrow> remoteproc_virtio \<Rightarrow> u32 \<Rightarrow> u8 list \<Rightarrow> int \<Rightarrow> rproc_world \<Rightarrow> rproc_world" where
  "rproc_virtio_write_config env rpv off src len w =
     (let io = rpv_vdev_rsc_io rpv in
      if config_in_range rpv off len w
      then call_notify rpv (vd_notifyid (rpv_vdev rpv))
             (w\<lparr>w_mem := snd (io_block_write (pe_io env) io
                 (io_virt_to_offset (pe_io env) io (vdev_config rpv + ucast off)) src len (w_mem w))\<rparr>)
      else w)"

definition rproc_virtio_reset_device :: "rproc_env \<Rightarrow> remoteproc_virtio \<Rightarrow> rproc_world \<Rightarrow> rproc_world" where
  "rproc_virtio_reset_device env rpv w =
     (if vd_role (rpv_vdev rpv) = VIRTIO_DEV_MASTER
      then rproc_virtio_set_status env rpv VIRTIO_CONFIG_STATUS_NEEDS_RESET w else w)"

subsection \<open>Creation and removal\<close>

definition zero_vring_info :: virtio_vring_info where
  "zero_vring_info = \<lparr>vi_vq = None, vi_info = \<lparr>vai_vaddr = 0, vai_align = 0, vai_num_descs = 0\<rparr>,
     vi_notifyid = 0, vi_io = NULL\<rparr>"

text \<open>The loop that allocates the queues of the vrings from \<open>i\<close> on; \<open>False\<close> when one fails.\<close>

fun create_vqs_loop ::
  "rproc_env \<Rightarrow> u32 \<Rightarrow> ptr \<Rightarrow> nat \<Rightarrow> nat \<Rightarrow> virtio_vring_info list \<Rightarrow> rproc_world \<Rightarrow>
   (bool \<times> virtio_vring_info list \<times> rproc_world) cres" where
  "create_vqs_loop env role rsc 0 i infos w = Inr (True, infos, w)"
| "create_vqs_loop env role rsc (Suc n) i infos w =
     (let num_extra_desc = (if role = VIRTIO_DEV_MASTER
                            then rd32 (w_mem w) (vdev_rsc_vring rsc (of_nat i) + VRING_RSC_NUM) else 0) in
      case alloc_vq env num_extra_desc w of
        (None, w') \<Rightarrow> Inr (False, infos, w')
      | (Some q, w') \<Rightarrow>
          cbind (rd infos i) (\<lambda>info.
            create_vqs_loop env role rsc n (Suc i) (infos[i := info\<lparr>vi_vq := Some q\<rparr>]) w'))"

text \<open>The loops that free the queues of the vrings from \<open>i\<close> on.\<close>

fun free_vqs_loop :: "nat \<Rightarrow> nat \<Rightarrow> virtio_vring_info list \<Rightarrow> rproc_world \<Rightarrow> rproc_world cres" where
  "free_vqs_loop 0 i infos w = Inr w"
| "free_vqs_loop (Suc n) i infos w =
     cbind (rd infos i) (\<lambda>info. cbind (free_vq (vi_vq info) w) (\<lambda>w'. free_vqs_loop n (Suc i) infos w'))"

text \<open>The device as it is filled in once all queues are allocated.\<close>

definition fill_rpvdev ::
  "u32 \<Rightarrow> u32 \<Rightarrow> ptr \<Rightarrow> ptr \<Rightarrow> ptr \<Rightarrow> ptr \<Rightarrow> ptr \<Rightarrow> u32 \<Rightarrow> virtio_vring_info list \<Rightarrow> nat \<Rightarrow> nat \<Rightarrow> remoteproc_virtio" where
  "fill_rpvdev role notifyid rsc rsc_io priv notify rst_cb num_vrings infos b bi =
     \<lparr>rpv_priv = priv, rpv_vdev_rsc = rsc, rpv_vdev_rsc_io = rsc_io, rpv_notify = notify,
      rpv_vdev = \<lparr>vd_features = 0, vd_role = role, vd_notifyid = notifyid, vd_device_id = 0,
        vd_vendor_id = 0, vd_reset_cb = rst_cb, vd_func_notify = VIRTQUEUE_NOTIFY, vd_priv = NULL,
        vd_vrings_num = num_vrings, vd_vrings_info = infos\<rparr>,
      rpv_block = b, rpv_infos_block = bi\<rparr>"

text \<open>
  \<open>memset\<close> clears one entry of \<open>vrings_info\<close>; the others keep what the allocated memory holds. With
  no vrings it writes past the empty allocation.
\<close>

definition rproc_virtio_create_vdev ::
  "rproc_env \<Rightarrow> u32 \<Rightarrow> u32 \<Rightarrow> ptr \<Rightarrow> ptr \<Rightarrow> ptr \<Rightarrow> ptr \<Rightarrow> ptr \<Rightarrow> rproc_world \<Rightarrow>
   (remoteproc_virtio option \<times> rproc_world) cres" where
  "rproc_virtio_create_vdev env role notifyid rsc rsc_io priv notify rst_cb w =
     (let num_vrings = (ucast (w_mem w (rsc + VDEV_RSC_NUM_OF_VRINGS)) :: u32) in
      case alloc_block env Alloc_rpvdev w of
        (None, w1) \<Rightarrow> Inr (None, w1)
      | (Some b, w1) \<Rightarrow>
          (case alloc_block env (Alloc_vrings_info (unat num_vrings)) w1 of
             (None, w2) \<Rightarrow> cbind (free_block b w2) (\<lambda>w3. Inr (None, w3))
           | (Some bi, w2) \<Rightarrow>
               cbind (wr (map (pe_junk env) [0..<unat num_vrings]) 0 zero_vring_info) (\<lambda>infos0.
               cbind (create_vqs_loop env role rsc (unat num_vrings) 0 infos0 w2) (\<lambda>(ok, infos, w3).
               if ok then
                 (let rpv = fill_rpvdev role notifyid rsc rsc_io priv notify rst_cb num_vrings infos b bi in
                  if role = VIRTIO_DEV_MASTER
                  then Inr (Some rpv, snd (rproc_virtio_negotiate_features env rpv
                         (rproc_virtio_get_dfeatures env rpv w3) w3))
                  else Inr (Some rpv, w3))
               else
                 cbind (free_vqs_loop (unat num_vrings) 0 infos w3) (\<lambda>w4.
                 cbind (free_block bi w4) (\<lambda>w5.
                 cbind (free_block b w5) (\<lambda>w6. Inr (None, w6))))))))"

definition rproc_virtio_remove_vdev ::
  "remoteproc_virtio option \<Rightarrow> rproc_world \<Rightarrow> rproc_world cres" where
  "rproc_virtio_remove_vdev vdev w =
     (case vdev of None \<Rightarrow> Inr w
      | Some rpv \<Rightarrow>
          cbind (free_vqs_loop (unat (vd_vrings_num (rpv_vdev rpv))) 0 (vd_vrings_info (rpv_vdev rpv)) w) (\<lambda>w1.
          cbind (free_block (rpv_infos_block rpv) w1) (\<lambda>w2.
          free_block (rpv_block rpv) w2)))"

definition rproc_virtio_init_vring ::
  "u32 \<Rightarrow> u32 \<Rightarrow> ptr \<Rightarrow> ptr \<Rightarrow> u32 \<Rightarrow> u32 \<Rightarrow> remoteproc_virtio \<Rightarrow> (int \<times> remoteproc_virtio) cres" where
  "rproc_virtio_init_vring index notifyid va io num_descs align rpv =
     (let vdev = rpv_vdev rpv in
      if vd_vrings_num vdev \<le> index then Inr (- RPROC_EINVAL, rpv)
      else cbind (rd (vd_vrings_info vdev) (unat index)) (\<lambda>info.
        Inr (0, rpv\<lparr>rpv_vdev := vdev\<lparr>vd_vrings_info := (vd_vrings_info vdev)[unat index :=
          info\<lparr>vi_io := io, vi_notifyid := notifyid,
            vi_info := \<lparr>vai_vaddr = va, vai_align = align, vai_num_descs = ucast num_descs\<rparr>\<rparr>]\<rparr>\<rparr>)))"

subsection \<open>Notifications\<close>

fun notified_loop ::
  "rproc_env \<Rightarrow> virtio_device \<Rightarrow> u32 \<Rightarrow> nat \<Rightarrow> nat \<Rightarrow> rproc_world \<Rightarrow> rproc_world cres" where
  "notified_loop env vdev notifyid 0 i w = Inr w"
| "notified_loop env vdev notifyid (Suc n) i w =
     cbind (rd (vd_vrings_info vdev) i) (\<lambda>info.
       if vi_notifyid info = notifyid \<or> notifyid = RSC_NOTIFY_ID_ANY then
         cbind (get_vqp (vi_vq info) w) (\<lambda>vq.
         cbind (case virtqueue_notification vq of None \<Rightarrow> Inr w
                | Some cb \<Rightarrow> pe_callback env cb (the (vi_vq info)) w) (\<lambda>w'.
         notified_loop env vdev notifyid n (Suc i) w'))
       else notified_loop env vdev notifyid n (Suc i) w)"

definition rproc_virtio_notified ::
  "rproc_env \<Rightarrow> remoteproc_virtio option \<Rightarrow> u32 \<Rightarrow> rproc_world \<Rightarrow> (int \<times> rproc_world) cres" where
  "rproc_virtio_notified env vdev notifyid w =
     (case vdev of None \<Rightarrow> Inr (- RPROC_EINVAL, w)
      | Some rpv \<Rightarrow>
          (if vd_notifyid (rpv_vdev rpv) = notifyid then Inr (0, w)
           else cbind (notified_loop env (rpv_vdev rpv) notifyid (unat (vd_vrings_num (rpv_vdev rpv))) 0 w)
                  (\<lambda>w'. Inr (0, w'))))"

text \<open>
  The slave polls the status until the master sets \<open>DRIVER_OK\<close>. \<open>pe_yield env k\<close> is what the other
  processor does to memory during the \<open>k\<close>-th \<open>metal_cpu_yield\<close>; \<open>fuel\<close> bounds the number of polls
  after which the model gives up.
\<close>

fun wait_ready_loop :: "nat \<Rightarrow> nat \<Rightarrow> rproc_env \<Rightarrow> remoteproc_virtio \<Rightarrow> rproc_world \<Rightarrow> rproc_world cres" where
  "wait_ready_loop 0 k env rpv w = Inl Hang"
| "wait_ready_loop (Suc fuel) k env rpv w =
     (if rproc_virtio_get_status env rpv w AND VIRTIO_CONFIG_STATUS_DRIVER_OK \<noteq> 0 then Inr w
      else wait_ready_loop fuel (Suc k) env rpv (w\<lparr>w_mem := pe_yield env k (w_mem w)\<rparr>))"

definition rproc_virtio_wait_remote_ready ::
  "nat \<Rightarrow> rproc_env \<Rightarrow> remoteproc_virtio \<Rightarrow> rproc_world \<Rightarrow> rproc_world cres" where
  "rproc_virtio_wait_remote_ready fuel env rpv w =
     (if vd_role (rpv_vdev rpv) = VIRTIO_DEV_MASTER then Inr w
      else wait_ready_loop fuel 0 env rpv w)"

end
