(* ===== verification/Remoteproc.thy ===== *)
theory Remoteproc
  imports Remoteproc_Virtio
begin

text \<open>
  Remote processors: the life cycle, the memory regions and the identifiers of
  \<open>lib/remoteproc/remoteproc.c\<close> and \<open>lib/include/openamp/remoteproc.h\<close>, one definition per function.

  The state is the structure \<open>remoteproc\<close> together with the world of \<open>Remoteproc_Virtio\<close>. A pointer
  argument that the code compares with NULL is an option. The functions of \<open>remoteproc_ops\<close> belong
  to the platform and are the parameter \<open>ops\<close>, each an option since a platform may leave it NULL; they
  may change the structure and the world, and they may fault. \<open>rp_lock_live\<close> says that the mutex is initialised; to use it
  afterwards is the fault \<open>Bad_pointer\<close>.
\<close>

subsection \<open>Constants\<close>

definition RPROC_ENOMEM :: int where "RPROC_ENOMEM = 1"
definition RPROC_ENODEV :: int where "RPROC_ENODEV = 3"
definition RPROC_EAGAIN :: int where "RPROC_EAGAIN = 4"
definition RPROC_ERR_RSC_TAB_TRUNC :: int where "RPROC_ERR_RSC_TAB_TRUNC = 5"
definition RPROC_ERR_RSC_TAB_VER :: int where "RPROC_ERR_RSC_TAB_VER = 6"
definition RPROC_ERR_RSC_TAB_RSVD :: int where "RPROC_ERR_RSC_TAB_RSVD = 7"
definition RPROC_ERR_RSC_TAB_NP :: int where "RPROC_ERR_RSC_TAB_NP = 10"
definition RPROC_ERR_RSC_TAB_NS :: int where "RPROC_ERR_RSC_TAB_NS = 11"
definition RPROC_ERR_LOADER_STATE :: int where "RPROC_ERR_LOADER_STATE = 12"
definition RPROC_EMAX :: int where "RPROC_EMAX = 16"
definition RPROC_MAX_NAME_LEN :: nat where "RPROC_MAX_NAME_LEN = 32"
definition METAL_BAD_PHYS :: u64 where "METAL_BAD_PHYS = - 1"
definition METAL_BITS_PER_ULONG :: u32 where "METAL_BITS_PER_ULONG = 64"

lemmas rproc_err_defs = RPROC_ENOMEM_def RPROC_EINVAL_def RPROC_ENODEV_def RPROC_EAGAIN_def
  RPROC_ERR_RSC_TAB_TRUNC_def RPROC_ERR_RSC_TAB_VER_def RPROC_ERR_RSC_TAB_RSVD_def
  RPROC_ERR_RSC_TAB_NP_def RPROC_ERR_RSC_TAB_NS_def RPROC_ERR_LOADER_STATE_def RPROC_EMAX_def

text \<open>Error codes in pointers.\<close>

definition RPROC_PTR_ERR :: "ptr \<Rightarrow> int" where
  "RPROC_PTR_ERR p = sint p"

definition RPROC_IS_ERR :: "ptr \<Rightarrow> bool" where
  "RPROC_IS_ERR p \<longleftrightarrow> word_of_int (- RPROC_EMAX) \<le> p"

definition RPROC_ERR_PTR :: "int \<Rightarrow> ptr" where
  "RPROC_ERR_PTR e = word_of_int e"

subsection \<open>State\<close>

text \<open>\<open>rm_blocks\<close> are the allocations behind a region and its I/O region, for platforms that free them.\<close>

record remoteproc_mem =
  rm_da :: u64
  rm_pa :: u64
  rm_size :: u64
  rm_name :: "u8 list"
  rm_io :: ptr
  rm_blocks :: "nat list"

datatype remoteproc_state = RPROC_OFFLINE | RPROC_CONFIGURED | RPROC_READY | RPROC_RUNNING
  | RPROC_SUSPENDED | RPROC_ERROR | RPROC_STOPPED | RPROC_LAST

record remoteproc =
  rp_lock :: bool
  rp_lock_live :: bool
  rp_rsc_table :: ptr
  rp_rsc_len :: u64
  rp_rsc_io :: ptr
  rp_mems :: "remoteproc_mem list"
  rp_vdevs :: "remoteproc_virtio list"
  rp_bitmap :: "u64 list"
  rp_ops :: ptr
  rp_bootaddr :: u64
  rp_loader :: ptr
  rp_state :: remoteproc_state
  rp_priv :: ptr

type_synonym rproc_result = "(int \<times> remoteproc \<times> rproc_world) cres"

record remoteproc_ops =
  op_init :: "(remoteproc option \<Rightarrow> ptr \<Rightarrow> rproc_world \<Rightarrow> (remoteproc option \<times> rproc_world) cres) option"
  op_remove :: "(remoteproc \<Rightarrow> rproc_world \<Rightarrow> (remoteproc \<times> rproc_world) cres) option"
  op_mmap :: "(remoteproc \<Rightarrow> u64 \<Rightarrow> u64 \<Rightarrow> u64 \<Rightarrow> u32 \<Rightarrow> ptr option \<Rightarrow> rproc_world \<Rightarrow>
    (ptr \<times> u64 \<times> u64 \<times> ptr option \<times> remoteproc \<times> rproc_world) cres) option"
  op_handle_rsc :: "(remoteproc \<Rightarrow> ptr \<Rightarrow> u64 \<Rightarrow> rproc_world \<Rightarrow> rproc_result) option"
  op_config :: "(remoteproc \<Rightarrow> ptr \<Rightarrow> rproc_world \<Rightarrow> rproc_result) option"
  op_start :: "(remoteproc \<Rightarrow> rproc_world \<Rightarrow> rproc_result) option"
  op_stop :: "(remoteproc \<Rightarrow> rproc_world \<Rightarrow> rproc_result) option"
  op_shutdown :: "(remoteproc \<Rightarrow> rproc_world \<Rightarrow> rproc_result) option"
  op_notify :: "(remoteproc \<Rightarrow> u32 \<Rightarrow> rproc_world \<Rightarrow> rproc_result) option"

subsection \<open>Memory regions\<close>

definition remoteproc_init_mem ::
  "u8 list option \<Rightarrow> u64 \<Rightarrow> u64 \<Rightarrow> u64 \<Rightarrow> ptr \<Rightarrow> remoteproc_mem option \<Rightarrow> remoteproc_mem option" where
  "remoteproc_init_mem name pa da sz io m =
     (case m of None \<Rightarrow> None
      | Some r \<Rightarrow> Some (r\<lparr>rm_name := (case name of Some n \<Rightarrow> strncpy n RPROC_MAX_NAME_LEN
                                      | None \<Rightarrow> (rm_name r)[0 := 0]),
                          rm_pa := pa, rm_da := da, rm_io := io, rm_size := sz\<rparr>))"

definition remoteproc_add_mem :: "remoteproc option \<Rightarrow> remoteproc_mem option \<Rightarrow> remoteproc option" where
  "remoteproc_add_mem rproc m =
     (case (rproc, m) of (Some rp, Some r) \<Rightarrow> Some (rp\<lparr>rp_mems := rp_mems rp @ [r]\<rparr>) | _ \<Rightarrow> rproc)"

text \<open>The loop of \<open>remoteproc_get_mem\<close> over the list of regions.\<close>

fun get_mem_loop ::
  "io_ops \<Rightarrow> u8 list option \<Rightarrow> u64 \<Rightarrow> u64 \<Rightarrow> ptr \<Rightarrow> u64 \<Rightarrow> remoteproc_mem list \<Rightarrow> remoteproc_mem option" where
  "get_mem_loop io name pa da va sz [] = None"
| "get_mem_loop io name pa da va sz (m # ms) =
     (case name of
        Some n \<Rightarrow> if strncmp_eq n (rm_name m) (length n) then Some m
                  else get_mem_loop io name pa da va sz ms
      | None \<Rightarrow>
          if pa \<noteq> METAL_BAD_PHYS then
            (let pa_start = rm_pa m; pa_end = pa_start + rm_size m in
             if pa_start \<le> pa \<and> pa + sz \<le> pa_end then Some m else get_mem_loop io name pa da va sz ms)
          else if da \<noteq> METAL_BAD_PHYS then
            (let da_start = rm_da m; da_end = da_start + rm_size m in
             if da_start \<le> da \<and> da + sz \<le> da_end then Some m else get_mem_loop io name pa da va sz ms)
          else if va \<noteq> NULL then
            (if io_virt_to_offset io (rm_io m) va \<noteq> METAL_BAD_OFFSET then Some m
             else get_mem_loop io name pa da va sz ms)
          else None)"

definition remoteproc_get_mem ::
  "io_ops \<Rightarrow> remoteproc \<Rightarrow> u8 list option \<Rightarrow> u64 \<Rightarrow> u64 \<Rightarrow> ptr \<Rightarrow> u64 \<Rightarrow> remoteproc_mem option" where
  "remoteproc_get_mem io rp name pa da va sz =
     (if (case name of Some n \<Rightarrow> RPROC_MAX_NAME_LEN < length n | None \<Rightarrow> False) then None
      else get_mem_loop io name pa da va sz (rp_mems rp))"

definition remoteproc_datopa :: "remoteproc_mem \<Rightarrow> u64 \<Rightarrow> u64" where
  "remoteproc_datopa m da = rm_pa m + da - rm_da m"

definition remoteproc_patoda :: "remoteproc_mem \<Rightarrow> u64 \<Rightarrow> u64" where
  "remoteproc_patoda m pa = rm_da m + pa - rm_pa m"

definition remoteproc_get_io_with_name :: "io_ops \<Rightarrow> remoteproc \<Rightarrow> u8 list option \<Rightarrow> ptr" where
  "remoteproc_get_io_with_name io rp name =
     (case remoteproc_get_mem io rp name METAL_BAD_PHYS METAL_BAD_PHYS NULL 0 of
        Some m \<Rightarrow> rm_io m | None \<Rightarrow> NULL)"

definition remoteproc_get_io_with_pa :: "io_ops \<Rightarrow> remoteproc \<Rightarrow> u64 \<Rightarrow> ptr" where
  "remoteproc_get_io_with_pa io rp pa =
     (case remoteproc_get_mem io rp None pa METAL_BAD_PHYS NULL 0 of Some m \<Rightarrow> rm_io m | None \<Rightarrow> NULL)"

text \<open>The second component is the offset that the code stores; it is left alone without a region.\<close>

definition remoteproc_get_io_with_da :: "io_ops \<Rightarrow> remoteproc \<Rightarrow> u64 \<Rightarrow> u64 \<Rightarrow> ptr \<times> u64" where
  "remoteproc_get_io_with_da io rp da off =
     (case remoteproc_get_mem io rp None METAL_BAD_PHYS da NULL 0 of
        Some m \<Rightarrow> (rm_io m, io_phys_to_offset io (rm_io m) (remoteproc_datopa m da))
      | None \<Rightarrow> (NULL, off))"

definition remoteproc_get_io_with_va :: "io_ops \<Rightarrow> remoteproc \<Rightarrow> ptr \<Rightarrow> ptr" where
  "remoteproc_get_io_with_va io rp va =
     (case remoteproc_get_mem io rp None METAL_BAD_PHYS METAL_BAD_PHYS va 0 of
        Some m \<Rightarrow> rm_io m | None \<Rightarrow> NULL)"

text \<open>
  \<open>remoteproc_mmap\<close>. The pointers \<open>pa\<close>, \<open>da\<close> and \<open>io\<close> are options of what they point to, and the
  result gives what they point to afterwards.
\<close>

definition remoteproc_mmap ::
  "io_ops \<Rightarrow> remoteproc_ops \<Rightarrow> remoteproc option \<Rightarrow> u64 option \<Rightarrow> u64 option \<Rightarrow> u64 \<Rightarrow> u32 \<Rightarrow> ptr option \<Rightarrow>
   rproc_world \<Rightarrow> (ptr \<times> u64 option \<times> u64 option \<times> ptr option \<times> remoteproc option \<times> rproc_world) cres" where
  "remoteproc_mmap io ops rproc pa da sz attribute iop w =
     (case rproc of None \<Rightarrow> Inr (NULL, pa, da, iop, rproc, w)
      | Some rp \<Rightarrow>
     (if pa = None \<and> da = None then Inr (NULL, pa, da, iop, rproc, w) else
      let lpa = (case pa of Some p \<Rightarrow> p | None \<Rightarrow> METAL_BAD_PHYS);
          lda = (case da of Some d \<Rightarrow> d | None \<Rightarrow> METAL_BAD_PHYS) in
      case remoteproc_get_mem io rp None lpa lda NULL sz of
        Some m \<Rightarrow>
          (let (lpa', lda') =
             (if lpa \<noteq> METAL_BAD_PHYS then (lpa, remoteproc_patoda m lpa)
              else if lda \<noteq> METAL_BAD_PHYS then (remoteproc_datopa m lda, lda) else (lpa, lda)) in
           Inr (io_phys_to_virt io (rm_io m) lpa', map_option (\<lambda>_. lpa') pa, map_option (\<lambda>_. lda') da,
                map_option (\<lambda>_. rm_io m) iop, rproc, w))
      | None \<Rightarrow>
          if rp_ops rp = NULL then Inl Null_deref else
          (case op_mmap ops of
             Some f \<Rightarrow>
               cbind (f rp lpa lda sz attribute iop w) (\<lambda>(va, lpa', lda', iop', rp', w').
                 Inr (va, map_option (\<lambda>_. lpa') pa, map_option (\<lambda>_. lda') da, iop', Some rp', w'))
           | None \<Rightarrow> Inr (NULL, pa, da, iop, rproc, w))))"

subsection \<open>Life cycle\<close>

definition zero_remoteproc :: remoteproc where
  "zero_remoteproc = \<lparr>rp_lock = False, rp_lock_live = False, rp_rsc_table = NULL, rp_rsc_len = 0,
     rp_rsc_io = NULL, rp_mems = [], rp_vdevs = [], rp_bitmap = [0], rp_ops = NULL, rp_bootaddr = 0,
     rp_loader = NULL, rp_state = RPROC_OFFLINE, rp_priv = NULL\<rparr>"

definition remoteproc_init ::
  "remoteproc_ops \<Rightarrow> ptr \<Rightarrow> remoteproc option \<Rightarrow> rproc_world \<Rightarrow> (remoteproc option \<times> rproc_world) cres" where
  "remoteproc_init ops priv rproc w =
     (let rproc' = (case rproc of None \<Rightarrow> None
                    | Some _ \<Rightarrow> Some (zero_remoteproc\<lparr>rp_state := RPROC_OFFLINE, rp_lock_live := True\<rparr>)) in
      case op_init ops of None \<Rightarrow> Inl Null_deref | Some f \<Rightarrow> f rproc' priv w)"

text \<open>
  The frame of the functions that hold the lock while they run: \<open>metal_mutex_acquire\<close>, the body, and
  \<open>metal_mutex_release\<close> on every way out.
\<close>

definition rp_locked :: "(remoteproc \<Rightarrow> rproc_world \<Rightarrow> ('a \<times> remoteproc \<times> rproc_world) cres) \<Rightarrow>
  remoteproc \<Rightarrow> rproc_world \<Rightarrow> ('a \<times> remoteproc \<times> rproc_world) cres" where
  "rp_locked body rp w =
     (if \<not> rp_lock_live rp then Inl Bad_pointer
      else cbind (mutex_acquire (rp_lock rp)) (\<lambda>l.
           cbind (body (rp\<lparr>rp_lock := l\<rparr>) w) (\<lambda>(r, rp', w'). Inr (r, rp'\<lparr>rp_lock := False\<rparr>, w'))))"

definition rp_check_ops :: "remoteproc \<Rightarrow> 'a option \<Rightarrow> 'a option cres" where
  "rp_check_ops rp f = (if rp_ops rp = NULL then Inl Null_deref else Inr f)"

definition remoteproc_remove ::
  "remoteproc_ops \<Rightarrow> remoteproc option \<Rightarrow> rproc_world \<Rightarrow> (int \<times> remoteproc option \<times> rproc_world) cres" where
  "remoteproc_remove ops rproc w =
     (case rproc of None \<Rightarrow> Inr (- RPROC_EINVAL, None, w)
      | Some rp \<Rightarrow>
          cbind (rp_locked (\<lambda>rp w.
            if rp_state rp = RPROC_OFFLINE then
              cbind (rp_check_ops rp (op_remove ops)) (\<lambda>fo.
              case fo of None \<Rightarrow> Inl Null_deref
              | Some f \<Rightarrow> cbind (f rp w) (\<lambda>(rp', w'). Inr (0, rp', w')))
            else Inr (- RPROC_EAGAIN, rp, w)) rp w) (\<lambda>(ret, rp', w').
          Inr (ret, Some (rp'\<lparr>rp_lock_live := False\<rparr>), w')))"

definition remoteproc_config ::
  "remoteproc_ops \<Rightarrow> ptr \<Rightarrow> remoteproc option \<Rightarrow> rproc_world \<Rightarrow> (int \<times> remoteproc option \<times> rproc_world) cres" where
  "remoteproc_config ops data rproc w =
     (case rproc of None \<Rightarrow> Inr (- RPROC_ENODEV, None, w)
      | Some rp \<Rightarrow>
          cbind (rp_locked (\<lambda>rp w.
            if rp_state rp = RPROC_OFFLINE then
              cbind (rp_check_ops rp (op_config ops)) (\<lambda>fo.
              cbind (case fo of Some f \<Rightarrow> f rp data w | None \<Rightarrow> Inr (0, rp, w)) (\<lambda>(ret, rp', w').
              Inr (ret, rp'\<lparr>rp_state := RPROC_READY\<rparr>, w')))
            else Inr (- RPROC_EINVAL, rp, w)) rp w) (\<lambda>(ret, rp', w'). Inr (ret, Some rp', w')))"

definition remoteproc_start ::
  "remoteproc_ops \<Rightarrow> remoteproc option \<Rightarrow> rproc_world \<Rightarrow> (int \<times> remoteproc option \<times> rproc_world) cres" where
  "remoteproc_start ops rproc w =
     (case rproc of None \<Rightarrow> Inr (- RPROC_ENODEV, None, w)
      | Some rp \<Rightarrow>
          cbind (rp_locked (\<lambda>rp w.
            if rp_state rp = RPROC_READY then
              cbind (rp_check_ops rp (op_start ops)) (\<lambda>fo.
              case fo of None \<Rightarrow> Inl Null_deref
              | Some f \<Rightarrow> cbind (f rp w) (\<lambda>(ret, rp', w'). Inr (ret, rp'\<lparr>rp_state := RPROC_RUNNING\<rparr>, w')))
            else Inr (- RPROC_EINVAL, rp, w)) rp w) (\<lambda>(ret, rp', w'). Inr (ret, Some rp', w')))"

definition remoteproc_stop ::
  "remoteproc_ops \<Rightarrow> remoteproc option \<Rightarrow> rproc_world \<Rightarrow> (int \<times> remoteproc option \<times> rproc_world) cres" where
  "remoteproc_stop ops rproc w =
     (case rproc of None \<Rightarrow> Inr (- RPROC_ENODEV, None, w)
      | Some rp \<Rightarrow>
          cbind (rp_locked (\<lambda>rp w.
            if rp_state rp \<noteq> RPROC_STOPPED \<and> rp_state rp \<noteq> RPROC_OFFLINE then
              cbind (rp_check_ops rp (op_stop ops)) (\<lambda>fo.
              cbind (case fo of Some f \<Rightarrow> f rp w | None \<Rightarrow> Inr (- RPROC_ENODEV, rp, w)) (\<lambda>(ret, rp', w').
              Inr (ret, rp'\<lparr>rp_state := RPROC_STOPPED\<rparr>, w')))
            else Inr (0, rp, w)) rp w) (\<lambda>(ret, rp', w'). Inr (ret, Some rp', w')))"

definition remoteproc_shutdown ::
  "remoteproc_ops \<Rightarrow> remoteproc option \<Rightarrow> rproc_world \<Rightarrow> (int \<times> remoteproc option \<times> rproc_world) cres" where
  "remoteproc_shutdown ops rproc w =
     (case rproc of None \<Rightarrow> Inr (- RPROC_ENODEV, None, w)
      | Some rp \<Rightarrow>
          cbind (rp_locked (\<lambda>rp w.
            if rp_state rp \<noteq> RPROC_OFFLINE then
              cbind (if rp_state rp \<noteq> RPROC_STOPPED then
                       cbind (rp_check_ops rp (op_stop ops)) (\<lambda>fo.
                         case fo of Some f \<Rightarrow> f rp w | None \<Rightarrow> Inr (0, rp, w))
                     else Inr (0, rp, w)) (\<lambda>(ret, rp1, w1).
              if ret = 0 then
                cbind (rp_check_ops rp1 (op_shutdown ops)) (\<lambda>fo.
                cbind (case fo of Some f \<Rightarrow> f rp1 w1 | None \<Rightarrow> Inr (ret, rp1, w1)) (\<lambda>(ret', rp2, w2).
                Inr (ret', (if ret' = 0 then rp2\<lparr>rp_state := RPROC_OFFLINE\<rparr> else rp2), w2)))
              else Inr (ret, rp1, w1))
            else Inr (0, rp, w)) rp w) (\<lambda>(ret, rp', w'). Inr (ret, Some rp', w')))"

subsection \<open>Identifiers and notifications\<close>

text \<open>
  \<open>bitmap\<close> is one \<open>unsigned long\<close>: the search reads the bits from \<open>start\<close> up to its result, and one
  at position 64 or more lies outside.
\<close>

definition remoteproc_allocate_id ::
  "rproc_env \<Rightarrow> u32 \<Rightarrow> u32 \<Rightarrow> remoteproc \<Rightarrow> (u32 \<times> remoteproc) cres" where
  "remoteproc_allocate_id env start end rp =
     (let start' = (if start = RSC_NOTIFY_ID_ANY then 0 else start);
          end' = (if end = 0 then METAL_BITS_PER_ULONG else end);
          n = next_clear_bit (pe_bitmap env) (rp_bitmap rp) (unat start') (min 64 (unat end')) in
      if start' < end' \<and> (64 \<le> start' \<or> (64 < end' \<and> n = 64)) then Inl Out_of_bounds
      else if n \<noteq> unat end' then
        (if 64 \<le> n then Inl Out_of_bounds
         else Inr (of_nat n, rp\<lparr>rp_bitmap := set_bit_at (pe_bitmap env) (rp_bitmap rp) n\<rparr>))
      else Inr (RSC_NOTIFY_ID_ANY, rp))"

definition remoteproc_virtio_notify :: "remoteproc_ops \<Rightarrow> u32 \<Rightarrow> remoteproc \<Rightarrow> rproc_world \<Rightarrow> rproc_result" where
  "remoteproc_virtio_notify ops i rp w =
     cbind (rp_check_ops rp (op_notify ops)) (\<lambda>fo.
       case fo of None \<Rightarrow> Inl Null_deref | Some f \<Rightarrow> f rp i w)"

text \<open>The loop of \<open>remoteproc_get_notification\<close> over the virtio devices.\<close>

fun get_notification_loop ::
  "rproc_env \<Rightarrow> u32 \<Rightarrow> remoteproc_virtio list \<Rightarrow> rproc_world \<Rightarrow> (int \<times> rproc_world) cres" where
  "get_notification_loop env notifyid [] w = Inr (0, w)"
| "get_notification_loop env notifyid (v # vs) w =
     cbind (rproc_virtio_notified env (Some v) notifyid w) (\<lambda>(ret, w').
       if ret \<noteq> 0 then Inr (ret, w') else get_notification_loop env notifyid vs w')"

definition remoteproc_get_notification ::
  "rproc_env \<Rightarrow> u32 \<Rightarrow> remoteproc \<Rightarrow> rproc_world \<Rightarrow> (int \<times> rproc_world) cres" where
  "remoteproc_get_notification env notifyid rp w = get_notification_loop env notifyid (rp_vdevs rp) w"

end
