(* ===== verification/Rsc_Table.thy ===== *)
theory Rsc_Table
  imports Remoteproc
begin

text \<open>
  Resource tables: \<open>lib/remoteproc/rsc_table_parser.c\<close> and its header, and the functions of
  \<open>lib/remoteproc/remoteproc.c\<close> that work on a resource table: \<open>remoteproc_parse_rsc_table\<close>,
  \<open>remoteproc_set_rsc_table\<close>, \<open>remoteproc_create_virtio\<close> and \<open>remoteproc_remove_virtio\<close>.

  A table is bytes in memory: version, number of entries, two reserved words, the offsets of the
  entries, and the entries, each starting with its type. Fields are read where the code reads them,
  without a check that they lie inside the table, as in the code. A virtio device is referred to by
  the number of its block.
\<close>

definition RSC_CARVEOUT :: u32 where "RSC_CARVEOUT = 0"
definition RSC_DEVMEM :: u32 where "RSC_DEVMEM = 1"
definition RSC_TRACE :: u32 where "RSC_TRACE = 2"
definition RSC_VDEV :: u32 where "RSC_VDEV = 3"
definition RSC_LAST :: u32 where "RSC_LAST = 4"
definition RSC_VENDOR_START :: u32 where "RSC_VENDOR_START = 128"
definition RSC_VENDOR_END :: u32 where "RSC_VENDOR_END = 512"
definition FW_RSC_U32_ADDR_ANY :: u32 where "FW_RSC_U32_ADDR_ANY = 0xFFFFFFFF"
definition RSC_TAB_SUPPORTED_VERSION :: u32 where "RSC_TAB_SUPPORTED_VERSION = 1"

lemmas rsc_type_defs = RSC_CARVEOUT_def RSC_DEVMEM_def RSC_TRACE_def RSC_VDEV_def RSC_LAST_def
  RSC_VENDOR_START_def RSC_VENDOR_END_def

subsection \<open>Fields of a table\<close>

definition rt_ver :: "mem \<Rightarrow> ptr \<Rightarrow> u32" where "rt_ver m t = rd32 m t"
definition rt_num :: "mem \<Rightarrow> ptr \<Rightarrow> u32" where "rt_num m t = rd32 m (t + 4)"
definition rt_reserved :: "mem \<Rightarrow> ptr \<Rightarrow> nat \<Rightarrow> u32" where "rt_reserved m t i = rd32 m (t + 8 + 4 * of_nat i)"
definition rt_offset :: "mem \<Rightarrow> ptr \<Rightarrow> nat \<Rightarrow> u32" where "rt_offset m t i = rd32 m (t + 16 + 4 * of_nat i)"
definition rsc_type_at :: "mem \<Rightarrow> ptr \<Rightarrow> u32" where "rsc_type_at m p = rd32 m p"

subsection \<open>Handlers\<close>

definition handle_carve_out_rsc ::
  "rproc_env \<Rightarrow> remoteproc_ops \<Rightarrow> ptr \<Rightarrow> remoteproc \<Rightarrow> rproc_world \<Rightarrow> rproc_result" where
  "handle_carve_out_rsc env ops rsc rp w =
     (if rsc = NULL then Inr (- RPROC_ERR_RSC_TAB_NP, rp, w)
      else if rd32 (w_mem w) (rsc + 20) \<noteq> 0 then Inr (- RPROC_ERR_RSC_TAB_RSVD, rp, w)
      else
        (let pa = ucast (rd32 (w_mem w) (rsc + 8));
             da = ucast (rd32 (w_mem w) (rsc + 4));
             sz = ucast (rd32 (w_mem w) (rsc + 12));
             attribute = rd32 (w_mem w) (rsc + 16) in
         cbind (remoteproc_mmap (pe_io env) ops (Some rp) (Some pa) (Some da) sz attribute None w)
           (\<lambda>(va, pa', da', io', rp', w').
              Inr (if va \<noteq> NULL then 0 else - RPROC_EINVAL, the rp', w'))))"

definition handle_vendor_rsc :: "remoteproc_ops \<Rightarrow> ptr \<Rightarrow> remoteproc \<Rightarrow> rproc_world \<Rightarrow> rproc_result" where
  "handle_vendor_rsc ops rsc rp w =
     cbind (rp_check_ops rp (op_handle_rsc ops)) (\<lambda>fo.
       case fo of None \<Rightarrow> Inr (- RPROC_ERR_RSC_TAB_NS, rp, w)
       | Some f \<Rightarrow> f rp rsc (ucast (rd32 (w_mem w) (rsc + 4))) w)"

text \<open>
  The identifiers of the vrings, from the \<open>i\<close>-th on. As in the code, an identifier that could be
  allocated is stored into the device's own field.
\<close>

definition assign_id ::
  "rproc_env \<Rightarrow> ptr \<Rightarrow> u32 \<Rightarrow> remoteproc \<Rightarrow> rproc_world \<Rightarrow> (remoteproc \<times> rproc_world) cres" where
  "assign_id env rsc notifyid rp w =
     cbind (remoteproc_allocate_id env notifyid (notifyid + 1) rp) (\<lambda>(i, rp').
       Inr (rp', if i \<noteq> RSC_NOTIFY_ID_ANY then w\<lparr>w_mem := wr32 (w_mem w) (rsc + VDEV_RSC_NOTIFYID) i\<rparr> else w))"

fun vring_ids_loop ::
  "rproc_env \<Rightarrow> ptr \<Rightarrow> nat \<Rightarrow> nat \<Rightarrow> remoteproc \<Rightarrow> rproc_world \<Rightarrow> (remoteproc \<times> rproc_world) cres" where
  "vring_ids_loop env rsc 0 i rp w = Inr (rp, w)"
| "vring_ids_loop env rsc (Suc n) i rp w =
     cbind (assign_id env rsc (rd32 (w_mem w) (vdev_rsc_vring rsc (of_nat i) + VRING_RSC_NOTIFYID)) rp w)
       (\<lambda>(rp', w'). vring_ids_loop env rsc n (Suc i) rp' w')"

definition handle_vdev_rsc :: "rproc_env \<Rightarrow> ptr \<Rightarrow> remoteproc \<Rightarrow> rproc_world \<Rightarrow> rproc_result" where
  "handle_vdev_rsc env rsc rp w =
     cbind (assign_id env rsc (rd32 (w_mem w) (rsc + VDEV_RSC_NOTIFYID)) rp w) (\<lambda>(rp1, w1).
     cbind (vring_ids_loop env rsc (unat (w_mem w1 (rsc + VDEV_RSC_NUM_OF_VRINGS))) 0 rp1 w1) (\<lambda>(rp2, w2).
     Inr (0, rp2, w2)))"

definition handle_trace_rsc :: "ptr \<Rightarrow> rproc_world \<Rightarrow> int" where
  "handle_trace_rsc rsc w =
     (if rd32 (w_mem w) (rsc + 4) \<noteq> FW_RSC_U32_ADDR_ANY \<and> rd32 (w_mem w) (rsc + 8) \<noteq> 0 then 0
      else - RPROC_ERR_RSC_TAB_NS)"

definition handle_dummy_rsc :: int where
  "handle_dummy_rsc = - RPROC_ERR_RSC_TAB_NS"

subsection \<open>The table\<close>

text \<open>One entry: the handler table for the standard types, the vendor range, nothing for the rest.\<close>

definition handle_rsc_entry ::
  "rproc_env \<Rightarrow> remoteproc_ops \<Rightarrow> ptr \<Rightarrow> int \<Rightarrow> remoteproc \<Rightarrow> rproc_world \<Rightarrow> rproc_result" where
  "handle_rsc_entry env ops rsc status rp w =
     (let rsc_type = rsc_type_at (w_mem w) rsc in
      if rsc_type = RSC_CARVEOUT then handle_carve_out_rsc env ops rsc rp w
      else if rsc_type = RSC_DEVMEM then Inr (handle_dummy_rsc, rp, w)
      else if rsc_type = RSC_TRACE then Inr (handle_trace_rsc rsc w, rp, w)
      else if rsc_type = RSC_VDEV then handle_vdev_rsc env rsc rp w
      else if RSC_VENDOR_START \<le> rsc_type \<and> rsc_type \<le> RSC_VENDOR_END then handle_vendor_rsc ops rsc rp w
      else Inr (status, rp, w))"

text \<open>The number of entries is read anew in every round.\<close>

function rsc_table_loop ::
  "rproc_env \<Rightarrow> remoteproc_ops \<Rightarrow> ptr \<Rightarrow> ptr \<Rightarrow> nat \<Rightarrow> int \<Rightarrow> remoteproc \<Rightarrow> rproc_world \<Rightarrow> rproc_result" where
  "rsc_table_loop env ops t io idx status rp w =
     (if idx < unat (rt_num (w_mem w) t) then
        (let rsc = t + ucast (rt_offset (w_mem w) t idx) in
         if io \<noteq> NULL \<and> io_virt_to_offset (pe_io env) io rsc = METAL_BAD_OFFSET
         then Inr (- RPROC_ERR_RSC_TAB_TRUNC, rp, w)
         else cbind (handle_rsc_entry env ops rsc status rp w) (\<lambda>(status', rp', w').
           if status' = - RPROC_ERR_RSC_TAB_NS then rsc_table_loop env ops t io (Suc idx) 0 rp' w'
           else if status' \<noteq> 0 then Inr (status', rp', w')
           else rsc_table_loop env ops t io (Suc idx) status' rp' w'))
      else Inr (status, rp, w))"
  by pat_completeness auto
termination
proof (relation "measure (\<lambda>(env, ops, t, io, idx, status, rp, w). 2 ^ 32 - idx)", goal_cases)
  case (2 env ops t io idx status rp w)
  then show ?case using unsigned_less [of "rt_num (w_mem w) t", where 'a = nat] by simp
next
  case (3 env ops t io idx status rp w)
  then show ?case using unsigned_less [of "rt_num (w_mem w) t", where 'a = nat] by simp
qed simp

declare rsc_table_loop.simps [simp del]

definition handle_rsc_table ::
  "rproc_env \<Rightarrow> remoteproc_ops \<Rightarrow> ptr \<Rightarrow> u64 \<Rightarrow> ptr \<Rightarrow> remoteproc \<Rightarrow> rproc_world \<Rightarrow> rproc_result" where
  "handle_rsc_table env ops t sz io rp w =
     (if sz < 16 then Inr (- RPROC_ERR_RSC_TAB_TRUNC, rp, w)
      else if rt_ver (w_mem w) t \<noteq> RSC_TAB_SUPPORTED_VERSION then Inr (- RPROC_ERR_RSC_TAB_VER, rp, w)
      else
        (let off = (ucast (16 + ucast (rt_num (w_mem w) t) * 4 :: u64) :: u32) in
         if sz < ucast off then Inr (- RPROC_ERR_RSC_TAB_TRUNC, rp, w)
         else if rt_reserved (w_mem w) t 0 \<noteq> 0 \<or> rt_reserved (w_mem w) t 1 \<noteq> 0
         then Inr (- RPROC_ERR_RSC_TAB_RSVD, rp, w)
         else rsc_table_loop env ops t io 0 0 rp w))"

fun find_rsc_loop :: "mem \<Rightarrow> ptr \<Rightarrow> u32 \<Rightarrow> u32 \<Rightarrow> nat \<Rightarrow> nat \<Rightarrow> u32 \<Rightarrow> u64" where
  "find_rsc_loop m t ty index 0 i rsc_index = 0"
| "find_rsc_loop m t ty index (Suc n) i rsc_index =
     (if rsc_type_at m (t + ucast (rt_offset m t i)) = ty then
        (if rsc_index = index then ucast (rt_offset m t i)
         else find_rsc_loop m t ty index n (Suc i) (rsc_index + 1))
      else find_rsc_loop m t ty index n (Suc i) rsc_index)"

definition find_rsc :: "mem \<Rightarrow> ptr \<Rightarrow> u32 \<Rightarrow> u32 \<Rightarrow> u64 cres" where
  "find_rsc m t ty index =
     (if t = NULL then Inl Assert_failed else Inr (find_rsc_loop m t ty index (unat (rt_num m t)) 0 0))"

subsection \<open>Resource tables of a remote processor\<close>

definition remoteproc_parse_rsc_table ::
  "rproc_env \<Rightarrow> remoteproc_ops \<Rightarrow> ptr \<Rightarrow> u64 \<Rightarrow> remoteproc \<Rightarrow> rproc_world \<Rightarrow> rproc_result" where
  "remoteproc_parse_rsc_table env ops t sz rp w =
     (let io = remoteproc_get_io_with_va (pe_io env) rp t in handle_rsc_table env ops t sz io rp w)"

definition remoteproc_set_rsc_table ::
  "rproc_env \<Rightarrow> remoteproc_ops \<Rightarrow> ptr \<Rightarrow> u64 \<Rightarrow> remoteproc \<Rightarrow> rproc_world \<Rightarrow> rproc_result" where
  "remoteproc_set_rsc_table env ops t sz rp w =
     (let io = remoteproc_get_io_with_va (pe_io env) rp t in
      if io = NULL then Inr (- RPROC_EINVAL, rp, w)
      else cbind (remoteproc_parse_rsc_table env ops t sz rp w) (\<lambda>(ret, rp', w').
        if ret = 0 then Inr (ret, rp'\<lparr>rp_rsc_table := t, rp_rsc_len := sz, rp_rsc_io := io\<rparr>, w')
        else Inr (ret, rp', w')))"

subsection \<open>Virtio devices of a remote processor\<close>

definition VIRTIO_NOTIFY :: ptr where "VIRTIO_NOTIFY = 0x210"

text \<open>The device with a block number, storing it back, and taking it off the list.\<close>

definition find_vdev :: "nat \<Rightarrow> remoteproc \<Rightarrow> remoteproc_virtio option" where
  "find_vdev b rp = find (\<lambda>v. rpv_block v = b) (rp_vdevs rp)"

definition put_vdev :: "remoteproc_virtio \<Rightarrow> remoteproc \<Rightarrow> remoteproc" where
  "put_vdev rpv rp = rp\<lparr>rp_vdevs := map (\<lambda>v. if rpv_block v = rpv_block rpv then rpv else v) (rp_vdevs rp)\<rparr>"

definition del_vdev :: "nat \<Rightarrow> remoteproc \<Rightarrow> remoteproc" where
  "del_vdev b rp = rp\<lparr>rp_vdevs := filter (\<lambda>v. rpv_block v \<noteq> b) (rp_vdevs rp)\<rparr>"

definition remoteproc_remove_virtio ::
  "nat option \<Rightarrow> remoteproc \<Rightarrow> rproc_world \<Rightarrow> (remoteproc \<times> rproc_world) cres" where
  "remoteproc_remove_virtio vdev rp w =
     (case vdev of None \<Rightarrow> Inl Assert_failed
      | Some b \<Rightarrow>
          (case find_vdev b rp of None \<Rightarrow> Inl Bad_pointer
           | Some rpv \<Rightarrow>
               cbind (rproc_virtio_remove_vdev (Some rpv) w) (\<lambda>w'. Inr (del_vdev b rp, w'))))"

text \<open>The set-up of the vrings from the \<open>i\<close>-th on; \<open>False\<close> when one fails (label \<open>err1\<close>).\<close>

definition setup_vring ::
  "rproc_env \<Rightarrow> remoteproc_ops \<Rightarrow> ptr \<Rightarrow> nat \<Rightarrow> nat \<Rightarrow> remoteproc \<Rightarrow> rproc_world \<Rightarrow>
   (bool \<times> remoteproc \<times> rproc_world) cres" where
  "setup_vring env ops rsc b i rp w =
     (let p = vdev_rsc_vring rsc (of_nat i);
          notifyid = rd32 (w_mem w) (p + VRING_RSC_NOTIFYID);
          da = ucast (rd32 (w_mem w) (p + VRING_RSC_DA));
          num_descs = rd32 (w_mem w) (p + VRING_RSC_NUM);
          align = rd32 (w_mem w) (p + VRING_RSC_ALIGN);
          sz = word_of_int (vring_size num_descs (ucast align)) in
      cbind (remoteproc_mmap (pe_io env) ops (Some rp) None (Some da) sz 0 (Some (pe_stack env)) w)
        (\<lambda>(va, _, _, io, rp', w').
      if va = NULL then Inr (False, the rp', w')
      else
        (case find_vdev b (the rp') of None \<Rightarrow> Inl Bad_pointer
         | Some rpv \<Rightarrow>
             cbind (rproc_virtio_init_vring (of_nat i) notifyid va (the io) num_descs align rpv) (\<lambda>(ret, rpv').
             if ret \<noteq> 0 then Inr (False, the rp', w') else Inr (True, put_vdev rpv' (the rp'), w')))))"

fun setup_vrings_loop ::
  "rproc_env \<Rightarrow> remoteproc_ops \<Rightarrow> ptr \<Rightarrow> nat \<Rightarrow> nat \<Rightarrow> nat \<Rightarrow> remoteproc \<Rightarrow> rproc_world \<Rightarrow>
   (bool \<times> remoteproc \<times> rproc_world) cres" where
  "setup_vrings_loop env ops rsc b 0 i rp w = Inr (True, rp, w)"
| "setup_vrings_loop env ops rsc b (Suc n) i rp w =
     cbind (setup_vring env ops rsc b i rp w) (\<lambda>(ok, rp', w').
       if ok then setup_vrings_loop env ops rsc b n (Suc i) rp' w' else Inr (False, rp', w'))"

definition remoteproc_create_virtio ::
  "nat \<Rightarrow> rproc_env \<Rightarrow> remoteproc_ops \<Rightarrow> ptr \<Rightarrow> u32 \<Rightarrow> u32 \<Rightarrow> ptr \<Rightarrow> remoteproc option \<Rightarrow> rproc_world \<Rightarrow>
   (nat option \<times> remoteproc \<times> rproc_world) cres" where
  "remoteproc_create_virtio fuel env ops self vdev_id role rst_cb rproc w =
     (case rproc of None \<Rightarrow> Inl Assert_failed
      | Some rp \<Rightarrow>
     rp_locked (\<lambda>rp w.
       cbind (find_rsc (w_mem w) (rp_rsc_table rp) RSC_VDEV vdev_id) (\<lambda>vdev_rsc_offset.
       if vdev_rsc_offset = 0 then Inr (None, rp, w) else
       let rsc = rp_rsc_table rp + vdev_rsc_offset;
           notifyid = rd32 (w_mem w) (rsc + VDEV_RSC_NOTIFYID) in
       case find (\<lambda>v. vd_notifyid (rpv_vdev v) = notifyid) (rp_vdevs rp) of
         Some v \<Rightarrow> Inr (Some (rpv_block v), rp, w)
       | None \<Rightarrow>
           cbind (rproc_virtio_create_vdev env role notifyid rsc (rp_rsc_io rp) self VIRTIO_NOTIFY rst_cb w)
             (\<lambda>(vdev, w1).
           case vdev of None \<Rightarrow> Inr (None, rp, w1)
           | Some rpv \<Rightarrow>
               cbind (rproc_virtio_wait_remote_ready fuel env rpv w1) (\<lambda>w2.
               let rp1 = rp\<lparr>rp_vdevs := rp_vdevs rp @ [rpv]\<rparr>;
                   num_vrings = unat (w_mem w2 (rsc + VDEV_RSC_NUM_OF_VRINGS)) in
               cbind (setup_vrings_loop env ops rsc (rpv_block rpv) num_vrings 0 rp1 w2) (\<lambda>(ok, rp2, w3).
               if ok then Inr (Some (rpv_block rpv), rp2, w3)
               else cbind (remoteproc_remove_virtio (Some (rpv_block rpv)) rp2 w3) (\<lambda>(rp3, w4).
                 Inr (None, rp3, w4))))))) rp w)"

end
