(* ===== verification/Port_Base.thy ===== *)
theory Port_Base
  imports Rsc_Table
begin

text \<open>
  What the ports in \<open>apps/machine\<close> and \<open>apps/system\<close> share. Each port has a file with the operations of the
  remote processor and a \<open>platform_info.c\<close> with the functions that the applications call, and both were
  copied from port to port; what is the same in all copies is defined here once, and the theories of the
  ports instantiate it.

  The devices, interrupts and I/O regions of libmetal and the set-up code of the boards are not in the
  sources: they are the parameter record \<open>port_env\<close>. An open device is an entry of \<open>pv_open_devs\<close>; to close another
  one is the fault \<open>Bad_pointer\<close>. \<open>po_irq po k\<close> says whether the interrupt is pending when \<open>platform_poll\<close> waits for the
  \<open>k\<close>-th time, and \<open>pe_yield\<close> is what the other processor does to memory meanwhile.
\<close>

record port_env =
  po_device_open :: "string \<Rightarrow> string \<Rightarrow> rproc_world \<Rightarrow> int \<times> ptr"
  po_register_device :: "string \<Rightarrow> rproc_world \<Rightarrow> int"
  po_io_region :: "ptr \<Rightarrow> ptr"
  po_irq_info :: "ptr \<Rightarrow> u32"
  po_io_phys :: "ptr \<Rightarrow> u64 \<Rightarrow> u64"
  po_io_region_size :: "ptr \<Rightarrow> u64"
  po_io_init :: "nat \<Rightarrow> ptr \<Rightarrow> u64 \<Rightarrow> u64 \<Rightarrow> u32 \<Rightarrow> ptr"
  po_junk_mem :: remoteproc_mem
  po_init_system :: "rproc_world \<Rightarrow> rproc_world"
  po_cleanup_system :: "rproc_world \<Rightarrow> rproc_world"
  po_irq :: "nat \<Rightarrow> bool"

subsection \<open>Devices and interrupts\<close>

definition upd_priv :: "(remoteproc_priv \<Rightarrow> remoteproc_priv) \<Rightarrow> rproc_world \<Rightarrow> rproc_world" where
  "upd_priv f w = w\<lparr>w_priv := f (w_priv w)\<rparr>"

lemma upd_priv_sel [simp]:
  "w_priv (upd_priv f w) = f (w_priv w)" "w_mem (upd_priv f w) = w_mem w" "w_vqs (upd_priv f w) = w_vqs w"
  "w_blocks (upd_priv f w) = w_blocks w" "w_notes (upd_priv f w) = w_notes w"
  by (simp_all add: upd_priv_def)

lemma upd_priv_upd [simp]: "upd_priv f (upd_priv g w) = upd_priv (\<lambda>p. f (g p)) w"
  by (simp add: upd_priv_def)

definition dev_open :: "port_env \<Rightarrow> string \<Rightarrow> string \<Rightarrow> rproc_world \<Rightarrow> int \<times> ptr \<times> rproc_world" where
  "dev_open po bus name w =
     (case po_device_open po bus name w of (ret, dev) \<Rightarrow>
        (ret, dev, if ret = 0 then upd_priv (\<lambda>p. p\<lparr>pv_open_devs := dev # pv_open_devs p\<rparr>) w else w))"

definition dev_close :: "ptr \<Rightarrow> rproc_world \<Rightarrow> rproc_world cres" where
  "dev_close dev w =
     (if dev \<in> set (pv_open_devs (w_priv w))
      then Inr (upd_priv (\<lambda>p. p\<lparr>pv_open_devs := remove1 dev (pv_open_devs p)\<rparr>) w) else Inl Bad_pointer)"

definition metal_register_generic_device :: "port_env \<Rightarrow> string \<Rightarrow> rproc_world \<Rightarrow> int \<times> rproc_world" where
  "metal_register_generic_device po name w =
     (let ret = po_register_device po name w in
      (ret, if ret = 0 then upd_priv (\<lambda>p. p\<lparr>pv_generic_devs := name # pv_generic_devs p\<rparr>) w else w))"

definition metal_irq_register :: "u32 \<Rightarrow> rproc_world \<Rightarrow> rproc_world" where
  "metal_irq_register i = upd_priv (\<lambda>p. p\<lparr>pv_irqs := List.insert i (pv_irqs p)\<rparr>)"

definition metal_irq_unregister :: "u32 \<Rightarrow> rproc_world \<Rightarrow> rproc_world" where
  "metal_irq_unregister i = upd_priv (\<lambda>p. p\<lparr>pv_irqs := removeAll i (pv_irqs p)\<rparr>)"

definition metal_irq_enable :: "u32 \<Rightarrow> rproc_world \<Rightarrow> rproc_world" where
  "metal_irq_enable i = upd_priv (\<lambda>p. p\<lparr>pv_irqs_on := List.insert i (pv_irqs_on p)\<rparr>)"

definition metal_irq_disable :: "u32 \<Rightarrow> rproc_world \<Rightarrow> rproc_world" where
  "metal_irq_disable i = upd_priv (\<lambda>p. p\<lparr>pv_irqs_on := removeAll i (pv_irqs_on p)\<rparr>)"

lemmas irq_defs = metal_irq_register_def metal_irq_unregister_def metal_irq_enable_def metal_irq_disable_def

definition reg_write32 :: "rproc_env \<Rightarrow> ptr \<Rightarrow> u64 \<Rightarrow> u32 \<Rightarrow> rproc_world \<Rightarrow> rproc_world" where
  "reg_write32 env io off v w = w\<lparr>w_mem := io_write32 (pe_io env) io off v (w_mem w)\<rparr>"

definition reg_read32 :: "rproc_env \<Rightarrow> ptr \<Rightarrow> u64 \<Rightarrow> rproc_world \<Rightarrow> u32" where
  "reg_read32 env io off w = io_read32 (pe_io env) io off (w_mem w)"

text \<open>The value that stops polling, in all ports that poll.\<close>

definition POLL_STOP :: u32 where "POLL_STOP = 1"

subsection \<open>Mapping memory\<close>

text \<open>
  The two kinds of ports. On a processor without an operating system every request gets a region of its
  own, with physical addresses as virtual ones; \<open>attr\<close> are the attributes the port chooses when the caller gives none. Under Linux
  there is one region, the shared memory device.
\<close>

definition bare_mmap ::
  "u32 \<Rightarrow> rproc_env \<Rightarrow> port_env \<Rightarrow> remoteproc \<Rightarrow> u64 \<Rightarrow> u64 \<Rightarrow> u64 \<Rightarrow> u32 \<Rightarrow> ptr option \<Rightarrow> rproc_world \<Rightarrow>
   (ptr \<times> u64 \<times> u64 \<times> ptr option \<times> remoteproc \<times> rproc_world) cres" where
  "bare_mmap attr env po rp pa da sz attribute iop w =
     (if pa = METAL_BAD_PHYS \<and> da = METAL_BAD_PHYS then Inr (NULL, pa, da, iop, rp, w)
      else
        let lpa = (if pa = METAL_BAD_PHYS then da else pa);
            lda = (if da = METAL_BAD_PHYS then lpa else da);
            attribute' = (if attribute = 0 then attr else attribute) in
        case alloc_block env Alloc_mem w of
          (None, w1) \<Rightarrow> Inr (NULL, pa, da, iop, rp, w1)
        | (Some bm, w1) \<Rightarrow>
            (case alloc_block env Alloc_io w1 of
               (None, w2) \<Rightarrow> cbind (free_block bm w2) (\<lambda>w3. Inr (NULL, pa, da, iop, rp, w3))
             | (Some bi, w2) \<Rightarrow>
                 let tmpio = po_io_init po bi lpa lpa sz attribute';
                     m = remoteproc_init_mem None lpa lda sz tmpio (Some ((po_junk_mem po)\<lparr>rm_blocks := [bm, bi]\<rparr>)) in
                 Inr (io_phys_to_virt (pe_io env) tmpio lpa, lpa, lda, map_option (\<lambda>_. tmpio) iop,
                      the (remoteproc_add_mem (Some rp) m), w2)))"

definition shm_mmap ::
  "rproc_env \<Rightarrow> remoteproc \<Rightarrow> u64 \<Rightarrow> u64 \<Rightarrow> u64 \<Rightarrow> u32 \<Rightarrow> ptr option \<Rightarrow> rproc_world \<Rightarrow>
   (ptr \<times> u64 \<times> u64 \<times> ptr option \<times> remoteproc \<times> rproc_world) cres" where
  "shm_mmap env rp pa da sz attribute iop w =
     (if pa = METAL_BAD_PHYS \<and> da = METAL_BAD_PHYS then Inr (NULL, pa, da, iop, rp, w)
      else
        let lpa = (if pa = METAL_BAD_PHYS then da else pa);
            lda = (if da = METAL_BAD_PHYS then lpa else da);
            tmpio = pv_shm_io (w_priv w) in
        if tmpio = NULL then Inr (NULL, pa, da, iop, rp, w)
        else Inr (io_phys_to_virt (pe_io env) tmpio lpa, lpa, lda, map_option (\<lambda>_. tmpio) iop, rp, w))"

subsection \<open>Functions of \<open>platform_info.c\<close>\<close>

text \<open>
  \<open>platform_init\<close> with the port's \<open>platform_create_proc\<close>. \<open>platform\<close> says that the pointer for the result is not
  NULL. The numbers parsed from the arguments are not used by any port. The second component is what is stored there.
\<close>

definition port_init ::
  "(rproc_world \<Rightarrow> (remoteproc option \<times> rproc_world) cres) \<Rightarrow> port_env \<Rightarrow> bool \<Rightarrow> rproc_world \<Rightarrow>
   (int \<times> remoteproc option \<times> rproc_world) cres" where
  "port_init create po platform w =
     (if \<not> platform then Inr (- EINVAL, None, w)
      else cbind (create (po_init_system po w)) (\<lambda>(rproc, w1).
        case rproc of None \<Rightarrow> Inr (- EINVAL, None, w1) | Some rp \<Rightarrow> Inr (0, Some rp, w1)))"

text \<open>\<open>platform_poll\<close>, with a flag that the interrupt handler clears, and with a word in memory.\<close>

definition poll_wait ::
  "rproc_env \<Rightarrow> port_env \<Rightarrow> (rproc_world \<Rightarrow> bool \<times> rproc_world) \<Rightarrow> nat \<Rightarrow> rproc_world \<Rightarrow> rproc_world" where
  "poll_wait env po handler k w =
     (let w1 = w\<lparr>w_mem := pe_yield env k (w_mem w)\<rparr> in if po_irq po k then snd (handler w1) else w1)"

fun poll_irq_loop ::
  "nat \<Rightarrow> rproc_env \<Rightarrow> port_env \<Rightarrow> (rproc_world \<Rightarrow> bool \<times> rproc_world) \<Rightarrow> nat \<Rightarrow> remoteproc \<Rightarrow> rproc_world \<Rightarrow>
   (int \<times> rproc_world) cres" where
  "poll_irq_loop 0 env po handler k rp w = Inl Hang"
| "poll_irq_loop (Suc fuel) env po handler k rp w =
     (if \<not> pv_ipi_nokick (w_priv w)
      then remoteproc_get_notification env RSC_NOTIFY_ID_ANY rp (upd_priv (\<lambda>p. p\<lparr>pv_ipi_nokick := True\<rparr>) w)
      else poll_irq_loop fuel env po handler (Suc k) rp (poll_wait env po handler k w))"

fun poll_mem_loop :: "nat \<Rightarrow> rproc_env \<Rightarrow> nat \<Rightarrow> remoteproc \<Rightarrow> rproc_world \<Rightarrow> (int \<times> rproc_world) cres" where
  "poll_mem_loop 0 env k rp w = Inl Hang"
| "poll_mem_loop (Suc fuel) env k rp w =
     (if reg_read32 env (pv_poll_io (w_priv w)) 0 w \<noteq> 0
      then remoteproc_get_notification env RSC_NOTIFY_ID_ANY rp w
      else poll_mem_loop fuel env (Suc k) rp (w\<lparr>w_mem := pe_yield env k (w_mem w)\<rparr>))"

definition port_cleanup :: "port_env \<Rightarrow> remoteproc_ops \<Rightarrow> remoteproc option \<Rightarrow> rproc_world \<Rightarrow> (remoteproc option \<times> rproc_world) cres" where
  "port_cleanup po ops rproc w =
     (case rproc of None \<Rightarrow> Inr (None, po_cleanup_system po w)
      | Some rp \<Rightarrow> cbind (remoteproc_remove ops (Some rp) w) (\<lambda>(_, rproc', w1). Inr (rproc', po_cleanup_system po w1)))"

end
