(* ===== verification/Bare_Ports.thy ===== *)
theory Bare_Ports
  imports Port_Base
begin

text \<open>
  The ports for processors without an operating system: the Cortex-A9 of the Zynq (\<open>apps/machine/zynq7\<close>), the
  Cortex-R5 of the ZynqMP (\<open>apps/machine/zynqmp_r5\<close>) and the RISC-V virtual machine
  (\<open>apps/system/generic/machine/rv64_virt\<close>), one definition per function. The last two are the builds with
  \<open>RPMSG_NO_IPI\<close>: with interrupts the first of them uses a variable and a device that are not declared, and the second one stops at an
  \<open>#error\<close>.

  \<open>arg\<close> is the address of the static \<open>rproc_priv\<close>. \<open>rsc\<close> is the address of the resource table of the image and
  \<open>rsc_size\<close> its size, as \<open>get_resource_table\<close> returns them.
\<close>

subsection \<open>Set-up, the same in the three ports\<close>

text \<open>
  \<open>platform_create_proc\<close> from \<open>remoteproc_init\<close> on: the table at \<open>pa\<close> is mapped and its region stored in \<open>rsc_io\<close>, then the
  shared memory is mapped and the table is parsed. \<open>copy\<close> is what the port does to memory before.
\<close>

definition bare_create_proc ::
  "rproc_env \<Rightarrow> remoteproc_ops \<Rightarrow> u32 \<Rightarrow> ptr \<Rightarrow> (mem \<Rightarrow> mem) \<Rightarrow> u64 \<Rightarrow> u64 \<Rightarrow> u64 \<Rightarrow> u64 \<Rightarrow> rproc_world \<Rightarrow>
   (remoteproc option \<times> rproc_world) cres" where
  "bare_create_proc env ops attr arg copy pa rsc_size shm_pa shm_size w =
     cbind (remoteproc_init ops arg (Some zero_remoteproc) w) (\<lambda>(rproc, w1).
     case rproc of None \<Rightarrow> Inr (None, w1)
     | Some rp \<Rightarrow>
         let w2 = w1\<lparr>w_mem := copy (w_mem w1)\<rparr> in
         cbind (remoteproc_mmap (pe_io env) ops (Some rp) (Some pa) None rsc_size attr (Some (rp_rsc_io rp)) w2)
           (\<lambda>(_, _, _, io, rp1, w3).
         let rp2 = (the rp1)\<lparr>rp_rsc_io := the io\<rparr> in
         cbind (remoteproc_mmap (pe_io env) ops (Some rp2) (Some shm_pa) None shm_size attr None w3)
           (\<lambda>(_, _, _, _, rp3, w4).
         cbind (remoteproc_set_rsc_table env ops pa rsc_size (the rp3) w4) (\<lambda>(ret, rp4, w5).
         if ret \<noteq> 0 then cbind (remoteproc_remove ops (Some rp4) w5) (\<lambda>(_, _, w6). Inr (None, w6))
         else Inr (Some rp4, w5)))))"

text \<open>
  The operations that poll a word in memory: \<open>init\<close> opens the device and clears the word, \<open>notify\<close> sets it.
\<close>

definition poll_proc_init ::
  "rproc_env \<Rightarrow> port_env \<Rightarrow> ptr \<Rightarrow> string \<Rightarrow> string \<Rightarrow> remoteproc option \<Rightarrow> ptr \<Rightarrow> rproc_world \<Rightarrow>
   (remoteproc option \<times> rproc_world) cres" where
  "poll_proc_init env po ops_ptr bus name rproc arg w =
     (case rproc of None \<Rightarrow> Inr (None, w)
      | Some rp \<Rightarrow>
          if arg = NULL then Inr (None, w)
          else case dev_open po bus name w of (ret, dev, w1) \<Rightarrow>
            if ret \<noteq> 0 then Inr (None, w1)
            else
              let io = po_io_region po dev;
                  w2 = upd_priv (\<lambda>p. p\<lparr>pv_poll_dev := dev, pv_poll_io := io\<rparr>) w1 in
              if io = NULL then cbind (dev_close dev w2) (\<lambda>w3. Inr (None, w3))
              else Inr (Some (rp\<lparr>rp_priv := arg, rp_ops := ops_ptr\<rparr>), reg_write32 env io 0 0 w2))"

definition poll_proc_remove :: "remoteproc \<Rightarrow> rproc_world \<Rightarrow> (remoteproc \<times> rproc_world) cres" where
  "poll_proc_remove rp w = cbind (dev_close (pv_poll_dev (w_priv w)) w) (\<lambda>w1. Inr (rp, w1))"

definition poll_proc_notify :: "rproc_env \<Rightarrow> remoteproc \<Rightarrow> u32 \<Rightarrow> rproc_world \<Rightarrow> rproc_result" where
  "poll_proc_notify env rp i w = Inr (0, rp, reg_write32 env (pv_poll_io (w_priv w)) 0 POLL_STOP w)"

subsection \<open>Zynq, Cortex-A9\<close>

definition A9_PROC_OPS :: ptr where "A9_PROC_OPS = 0x240"

definition GIC_DIST_SOFTINT :: u64 where "GIC_DIST_SOFTINT = 0xF00"
definition GIC_SFI_TRIG_CPU_MASK :: u32 where "GIC_SFI_TRIG_CPU_MASK = 0x00FF0000"
definition GIC_SFI_TRIG_INTID_MASK :: u32 where "GIC_SFI_TRIG_INTID_MASK = 0x0000000F"
definition GIC_CPU_ID_BASE :: nat where "GIC_CPU_ID_BASE = 16"
definition SGI_TO_NOTIFY :: u32 where "SGI_TO_NOTIFY = 15"
definition SGI_NOTIFICATION :: u32 where "SGI_NOTIFICATION = 14"
definition NORM_NONCACHE :: u32 where "NORM_NONCACHE = 0x11DE2"
definition STRONG_ORDERED :: u32 where "STRONG_ORDERED = 0xC02"
definition A9_SHARED_MEM_PA :: u64 where "A9_SHARED_MEM_PA = 0x3e800000"
definition A9_SHARED_MEM_SIZE :: u64 where "A9_SHARED_MEM_SIZE = 0x80000"
definition A9_SHARED_BUF_OFFSET :: u64 where "A9_SHARED_BUF_OFFSET = 0x80000"
definition ZYNQ_CPU_ID_MASK :: u32 where "ZYNQ_CPU_ID_MASK = 1"
definition SCUGIC_DEV_NAME :: string where "SCUGIC_DEV_NAME = ''scugic_dev''"
definition SCUGIC_BUS_NAME :: string where "SCUGIC_BUS_NAME = ''generic''"

text \<open>The field \<open>cpu_id\<close> of the other processor; \<open>self\<close> is \<open>XPAR_CPU_ID\<close> of the board support package.\<close>

definition a9_cpu_id :: "u32 \<Rightarrow> u32" where
  "a9_cpu_id self = NOT self AND ZYNQ_CPU_ID_MASK"

definition zynq_a9_proc_irq_handler :: "remoteproc option \<Rightarrow> rproc_world \<Rightarrow> bool \<times> rproc_world" where
  "zynq_a9_proc_irq_handler rproc w =
     (case rproc of None \<Rightarrow> (False, w) | Some _ \<Rightarrow> (True, upd_priv (\<lambda>p. p\<lparr>pv_ipi_nokick := False\<rparr>) w))"

definition zynq_a9_proc_init ::
  "port_env \<Rightarrow> remoteproc option \<Rightarrow> ptr \<Rightarrow> rproc_world \<Rightarrow> (remoteproc option \<times> rproc_world) cres" where
  "zynq_a9_proc_init po rproc arg w =
     (case rproc of None \<Rightarrow> Inr (None, w)
      | Some rp \<Rightarrow>
          if arg = NULL then Inr (None, w)
          else case dev_open po SCUGIC_BUS_NAME SCUGIC_DEV_NAME w of (ret, dev, w1) \<Rightarrow>
            if ret \<noteq> 0 then Inr (None, w1)
            else
              let io = po_io_region po dev;
                  w2 = upd_priv (\<lambda>p. p\<lparr>pv_poll_dev := dev, pv_poll_io := io\<rparr>) w1 in
              if io = NULL then cbind (dev_close dev w2) (\<lambda>w3. Inr (None, w3))
              else
                let w3 = upd_priv (\<lambda>p. p\<lparr>pv_ipi_nokick := True\<rparr>) w2 in
                Inr (Some (rp\<lparr>rp_priv := arg, rp_ops := A9_PROC_OPS\<rparr>),
                     metal_irq_enable SGI_NOTIFICATION (metal_irq_register SGI_NOTIFICATION w3)))"

definition zynq_a9_proc_remove :: "remoteproc \<Rightarrow> rproc_world \<Rightarrow> (remoteproc \<times> rproc_world) cres" where
  "zynq_a9_proc_remove rp w =
     (let w1 = metal_irq_unregister SGI_TO_NOTIFY (metal_irq_disable SGI_TO_NOTIFY w);
          dev = pv_poll_dev (w_priv w1) in
      if dev \<noteq> NULL then cbind (dev_close dev w1) (\<lambda>w2. Inr (rp, w2)) else Inr (rp, w1))"

definition zynq_a9_proc_mmap ::
  "rproc_env \<Rightarrow> port_env \<Rightarrow> remoteproc \<Rightarrow> u64 \<Rightarrow> u64 \<Rightarrow> u64 \<Rightarrow> u32 \<Rightarrow> ptr option \<Rightarrow> rproc_world \<Rightarrow>
   (ptr \<times> u64 \<times> u64 \<times> ptr option \<times> remoteproc \<times> rproc_world) cres" where
  "zynq_a9_proc_mmap = bare_mmap (NORM_NONCACHE OR STRONG_ORDERED)"

definition zynq_a9_proc_notify :: "rproc_env \<Rightarrow> u32 \<Rightarrow> remoteproc \<Rightarrow> u32 \<Rightarrow> rproc_world \<Rightarrow> rproc_result" where
  "zynq_a9_proc_notify env self rp i w =
     (let io = pv_poll_io (w_priv w);
          mask = (push_bit (GIC_CPU_ID_BASE + unat (a9_cpu_id self)) 1 OR SGI_TO_NOTIFY) AND
                 (GIC_SFI_TRIG_CPU_MASK OR GIC_SFI_TRIG_INTID_MASK) in
      if io = NULL then Inr (-1, rp, w) else Inr (0, rp, reg_write32 env io GIC_DIST_SOFTINT mask w))"

definition zynq_a9_proc_ops :: "rproc_env \<Rightarrow> port_env \<Rightarrow> u32 \<Rightarrow> remoteproc_ops" where
  "zynq_a9_proc_ops env po self =
     \<lparr>op_init = Some (zynq_a9_proc_init po), op_remove = Some zynq_a9_proc_remove,
      op_mmap = Some (zynq_a9_proc_mmap env po), op_handle_rsc = None, op_config = None, op_start = None,
      op_stop = None, op_shutdown = None, op_notify = Some (zynq_a9_proc_notify env self)\<rparr>"

definition a9_create_proc ::
  "rproc_env \<Rightarrow> port_env \<Rightarrow> u32 \<Rightarrow> ptr \<Rightarrow> ptr \<Rightarrow> u64 \<Rightarrow> rproc_world \<Rightarrow> (remoteproc option \<times> rproc_world) cres" where
  "a9_create_proc env po self arg rsc rsc_size w =
     bare_create_proc env (zynq_a9_proc_ops env po self) (NORM_NONCACHE OR STRONG_ORDERED) arg (\<lambda>m. m) rsc rsc_size
       A9_SHARED_MEM_PA A9_SHARED_MEM_SIZE (snd (metal_register_generic_device po SCUGIC_DEV_NAME w))"

definition a9_platform_init ::
  "rproc_env \<Rightarrow> port_env \<Rightarrow> u32 \<Rightarrow> ptr \<Rightarrow> ptr \<Rightarrow> u64 \<Rightarrow> bool \<Rightarrow> rproc_world \<Rightarrow> (int \<times> remoteproc option \<times> rproc_world) cres" where
  "a9_platform_init env po self arg rsc rsc_size = port_init (a9_create_proc env po self arg rsc rsc_size) po"

text \<open>This port does not look at the result of \<open>remoteproc_get_notification\<close>.\<close>

definition a9_platform_poll :: "nat \<Rightarrow> rproc_env \<Rightarrow> port_env \<Rightarrow> remoteproc \<Rightarrow> rproc_world \<Rightarrow> (int \<times> rproc_world) cres" where
  "a9_platform_poll fuel env po rp w =
     cbind (poll_irq_loop fuel env po (zynq_a9_proc_irq_handler (Some rp)) 0 rp w) (\<lambda>(_, w1). Inr (0, w1))"

definition a9_platform_cleanup ::
  "rproc_env \<Rightarrow> port_env \<Rightarrow> u32 \<Rightarrow> remoteproc option \<Rightarrow> rproc_world \<Rightarrow> (remoteproc option \<times> rproc_world) cres" where
  "a9_platform_cleanup env po self = port_cleanup po (zynq_a9_proc_ops env po self)"

subsection \<open>ZynqMP, Cortex-R5\<close>

definition R5_A53_PROC_OPS :: ptr where "R5_A53_PROC_OPS = 0x250"
definition IPI_DEV_NAME :: string where "IPI_DEV_NAME = ''ipi_dev''"
definition IPI_BUS_NAME :: string where "IPI_BUS_NAME = ''generic''"
definition NORM_NSHARED_NCACHE :: u32 where "NORM_NSHARED_NCACHE = 0x8"
definition NORM_SHARED_NCACHE :: u32 where "NORM_SHARED_NCACHE = 0xC"
definition PRIV_RW_USER_RW :: u32 where "PRIV_RW_USER_RW = push_bit 8 3"
definition R5_SHARED_MEM_SIZE :: u64 where "R5_SHARED_MEM_SIZE = 0x100000"
definition R5_SHARED_BUF_OFFSET :: u64 where "R5_SHARED_BUF_OFFSET = 0x8000"

definition R5_SHARED_MEM_PA :: "u32 \<Rightarrow> u64" where
  "R5_SHARED_MEM_PA self = (if self = 0 then 0x3ED40000 else 0x3EF40000)"

definition zynqmp_r5_a53_proc_init ::
  "rproc_env \<Rightarrow> port_env \<Rightarrow> remoteproc option \<Rightarrow> ptr \<Rightarrow> rproc_world \<Rightarrow> (remoteproc option \<times> rproc_world) cres" where
  "zynqmp_r5_a53_proc_init env po = poll_proc_init env po R5_A53_PROC_OPS IPI_BUS_NAME IPI_DEV_NAME"

definition zynqmp_r5_a53_proc_remove :: "remoteproc \<Rightarrow> rproc_world \<Rightarrow> (remoteproc \<times> rproc_world) cres" where
  "zynqmp_r5_a53_proc_remove = poll_proc_remove"

definition zynqmp_r5_a53_proc_mmap ::
  "rproc_env \<Rightarrow> port_env \<Rightarrow> remoteproc \<Rightarrow> u64 \<Rightarrow> u64 \<Rightarrow> u64 \<Rightarrow> u32 \<Rightarrow> ptr option \<Rightarrow> rproc_world \<Rightarrow>
   (ptr \<times> u64 \<times> u64 \<times> ptr option \<times> remoteproc \<times> rproc_world) cres" where
  "zynqmp_r5_a53_proc_mmap = bare_mmap (NORM_SHARED_NCACHE OR PRIV_RW_USER_RW)"

definition zynqmp_r5_a53_proc_notify :: "rproc_env \<Rightarrow> remoteproc \<Rightarrow> u32 \<Rightarrow> rproc_world \<Rightarrow> rproc_result" where
  "zynqmp_r5_a53_proc_notify = poll_proc_notify"

definition zynqmp_r5_a53_proc_ops :: "rproc_env \<Rightarrow> port_env \<Rightarrow> remoteproc_ops" where
  "zynqmp_r5_a53_proc_ops env po =
     \<lparr>op_init = Some (zynqmp_r5_a53_proc_init env po), op_remove = Some zynqmp_r5_a53_proc_remove,
      op_mmap = Some (zynqmp_r5_a53_proc_mmap env po), op_handle_rsc = None, op_config = None, op_start = None,
      op_stop = None, op_shutdown = None, op_notify = Some (zynqmp_r5_a53_proc_notify env)\<rparr>"

definition r5_create_proc ::
  "rproc_env \<Rightarrow> port_env \<Rightarrow> u32 \<Rightarrow> ptr \<Rightarrow> ptr \<Rightarrow> u64 \<Rightarrow> rproc_world \<Rightarrow> (remoteproc option \<times> rproc_world) cres" where
  "r5_create_proc env po self arg rsc rsc_size w =
     bare_create_proc env (zynqmp_r5_a53_proc_ops env po) (NORM_NSHARED_NCACHE OR PRIV_RW_USER_RW) arg (\<lambda>m. m) rsc rsc_size
       (R5_SHARED_MEM_PA self) R5_SHARED_MEM_SIZE w"

definition r5_platform_init ::
  "rproc_env \<Rightarrow> port_env \<Rightarrow> u32 \<Rightarrow> ptr \<Rightarrow> ptr \<Rightarrow> u64 \<Rightarrow> bool \<Rightarrow> rproc_world \<Rightarrow> (int \<times> remoteproc option \<times> rproc_world) cres" where
  "r5_platform_init env po self arg rsc rsc_size = port_init (r5_create_proc env po self arg rsc rsc_size) po"

definition r5_platform_poll :: "nat \<Rightarrow> rproc_env \<Rightarrow> remoteproc \<Rightarrow> rproc_world \<Rightarrow> (int \<times> rproc_world) cres" where
  "r5_platform_poll fuel env = poll_mem_loop fuel env 0"

definition r5_platform_cleanup ::
  "rproc_env \<Rightarrow> port_env \<Rightarrow> remoteproc option \<Rightarrow> rproc_world \<Rightarrow> (remoteproc option \<times> rproc_world) cres" where
  "r5_platform_cleanup env po = port_cleanup po (zynqmp_r5_a53_proc_ops env po)"

subsection \<open>RISC-V virtual machine\<close>

definition RV64_PROC_OPS :: ptr where "RV64_PROC_OPS = 0x270"
definition RV64_SHM_BASE :: u64 where "RV64_SHM_BASE = 0x90100000"
definition RV64_RSC_MEM_PA :: u64 where "RV64_RSC_MEM_PA = RV64_SHM_BASE"
definition RV64_RSC_MEM_SIZE :: u64 where "RV64_RSC_MEM_SIZE = 0x00020000"
definition RV64_SHARED_BUF_PA :: u64 where "RV64_SHARED_BUF_PA = RV64_SHM_BASE + RV64_RSC_MEM_SIZE"
definition RV64_SHARED_BUF_SIZE :: u64 where "RV64_SHARED_BUF_SIZE = 0x00040000"

definition virt_rv64_proc_init ::
  "rproc_env \<Rightarrow> port_env \<Rightarrow> remoteproc option \<Rightarrow> ptr \<Rightarrow> rproc_world \<Rightarrow> (remoteproc option \<times> rproc_world) cres" where
  "virt_rv64_proc_init env po = poll_proc_init env po RV64_PROC_OPS IPI_BUS_NAME IPI_DEV_NAME"

definition virt_rv64_proc_remove :: "remoteproc \<Rightarrow> rproc_world \<Rightarrow> (remoteproc \<times> rproc_world) cres" where
  "virt_rv64_proc_remove = poll_proc_remove"

definition virt_rv64_proc_mmap ::
  "rproc_env \<Rightarrow> port_env \<Rightarrow> remoteproc \<Rightarrow> u64 \<Rightarrow> u64 \<Rightarrow> u64 \<Rightarrow> u32 \<Rightarrow> ptr option \<Rightarrow> rproc_world \<Rightarrow>
   (ptr \<times> u64 \<times> u64 \<times> ptr option \<times> remoteproc \<times> rproc_world) cres" where
  "virt_rv64_proc_mmap = bare_mmap 0"

definition virt_rv64_proc_notify :: "rproc_env \<Rightarrow> remoteproc \<Rightarrow> u32 \<Rightarrow> rproc_world \<Rightarrow> rproc_result" where
  "virt_rv64_proc_notify = poll_proc_notify"

definition virt_rv64_proc_ops :: "rproc_env \<Rightarrow> port_env \<Rightarrow> remoteproc_ops" where
  "virt_rv64_proc_ops env po =
     \<lparr>op_init = Some (virt_rv64_proc_init env po), op_remove = Some virt_rv64_proc_remove,
      op_mmap = Some (virt_rv64_proc_mmap env po), op_handle_rsc = None, op_config = None, op_start = None,
      op_stop = None, op_shutdown = None, op_notify = Some (virt_rv64_proc_notify env)\<rparr>"

text \<open>This port copies the table of the image to the start of the shared memory and uses it there.\<close>

definition rv64_create_proc ::
  "rproc_env \<Rightarrow> port_env \<Rightarrow> ptr \<Rightarrow> ptr \<Rightarrow> u64 \<Rightarrow> rproc_world \<Rightarrow> (remoteproc option \<times> rproc_world) cres" where
  "rv64_create_proc env po arg rsc rsc_size w =
     (case metal_register_generic_device po IPI_DEV_NAME w of (ret, w1) \<Rightarrow>
        if ret \<noteq> 0 then Inr (None, w1)
        else bare_create_proc env (virt_rv64_proc_ops env po) 0 arg
               (\<lambda>m. wr_bytes m RV64_RSC_MEM_PA (rd_bytes m rsc (unat rsc_size))) RV64_RSC_MEM_PA rsc_size
               RV64_SHARED_BUF_PA RV64_SHARED_BUF_SIZE w1)"

definition rv64_platform_init ::
  "rproc_env \<Rightarrow> port_env \<Rightarrow> ptr \<Rightarrow> ptr \<Rightarrow> u64 \<Rightarrow> bool \<Rightarrow> rproc_world \<Rightarrow> (int \<times> remoteproc option \<times> rproc_world) cres" where
  "rv64_platform_init env po arg rsc rsc_size = port_init (rv64_create_proc env po arg rsc rsc_size) po"

definition rv64_platform_poll :: "nat \<Rightarrow> rproc_env \<Rightarrow> remoteproc \<Rightarrow> rproc_world \<Rightarrow> (int \<times> rproc_world) cres" where
  "rv64_platform_poll fuel env = poll_mem_loop fuel env 0"

definition rv64_platform_cleanup ::
  "rproc_env \<Rightarrow> port_env \<Rightarrow> remoteproc option \<Rightarrow> rproc_world \<Rightarrow> (remoteproc option \<times> rproc_world) cres" where
  "rv64_platform_cleanup env po = port_cleanup po (virt_rv64_proc_ops env po)"

end
