(* ===== verification/Virtio_Dispatch.thy ===== *)
theory Virtio_Dispatch
  imports Remoteproc_Virtio
begin

text \<open>
  The contract of the virtio dispatch functions, and the proof that the functions of
  \<open>remoteproc_virtio.c\<close> keep it on a vdev resource that lies in a mapped region. A user of a virtio
  device relies on the locale \<open>virtio_dispatch\<close> only; the locale \<open>vdev_in_region\<close> states where the
  resource lies and is shown to give the contract.
\<close>

subsection \<open>The contract\<close>

locale virtio_dispatch =
  fixes get_status :: "'s \<Rightarrow> u8" and set_status :: "u8 \<Rightarrow> 's \<Rightarrow> 's"
    and offered :: "'s \<Rightarrow> u32" and get_features :: "'s \<Rightarrow> u32" and negotiate :: "u32 \<Rightarrow> 's \<Rightarrow> 's"
    and config_len :: nat
    and read_config :: "u32 \<Rightarrow> int \<Rightarrow> 's \<Rightarrow> u8 list option" and write_config :: "u32 \<Rightarrow> u8 list \<Rightarrow> int \<Rightarrow> 's \<Rightarrow> 's"
    and valid :: "'s \<Rightarrow> bool"
  assumes valid_status: "valid s \<Longrightarrow> valid (set_status b s)"
    and valid_negotiate: "valid s \<Longrightarrow> valid (negotiate f s)"
    and valid_write: "valid s \<Longrightarrow> unat off + length bs \<le> config_len \<Longrightarrow>
      valid (write_config off bs (int (length bs)) s)"
    and status_set: "valid s \<Longrightarrow> get_status (set_status b s) = b"
    and status_negotiate: "valid s \<Longrightarrow> get_status (negotiate f s) = get_status s"
    and status_write: "valid s \<Longrightarrow> unat off + length bs \<le> config_len \<Longrightarrow>
      get_status (write_config off bs (int (length bs)) s) = get_status s"
    and offered_status: "valid s \<Longrightarrow> offered (set_status b s) = offered s"
    and offered_negotiate: "valid s \<Longrightarrow> offered (negotiate f s) = offered s"
    and features_status: "valid s \<Longrightarrow> get_features (set_status b s) = get_features s"
    and features_negotiate: "valid s \<Longrightarrow> get_features (negotiate f s) = offered s AND f"
    and config_status: "valid s \<Longrightarrow> unat off + k \<le> config_len \<Longrightarrow>
      read_config off (int k) (set_status b s) = read_config off (int k) s"
    and config_write: "valid s \<Longrightarrow> unat off + length bs \<le> config_len \<Longrightarrow>
      read_config off (int (length bs)) (write_config off bs (int (length bs)) s) = Some bs"
begin

text \<open>What the handshake between the two processors uses.\<close>

lemma driver_ok_seen:
  "valid s \<Longrightarrow> get_status (set_status VIRTIO_CONFIG_STATUS_DRIVER_OK s) AND VIRTIO_CONFIG_STATUS_DRIVER_OK \<noteq> 0"
  by (simp add: status_set VIRTIO_CONFIG_STATUS_DRIVER_OK_def)

lemma status_survives_negotiation:
  "valid s \<Longrightarrow> get_status (negotiate f (set_status b s)) = b"
  by (simp add: status_negotiate valid_status status_set)

lemma features_only_shrink: "valid s \<Longrightarrow> offered s AND NOT (get_features (negotiate f s)) = offered s AND NOT f"
  by (simp add: features_negotiate bit_eq_iff bit_simps) blast

lemma negotiate_again:
  "valid s \<Longrightarrow> get_features (negotiate g (negotiate f s)) = offered s AND g"
  by (simp add: features_negotiate valid_negotiate offered_negotiate)

end

subsection \<open>Fields of the resource\<close>

lemma rd_wr_field:
  assumes "a + n \<le> b \<or> b + length bs \<le> a" and "a + n < 2 ^ 64" and "b + length bs < 2 ^ 64"
  shows "rd_bytes (wr_bytes m (p + of_nat b) bs) (p + of_nat a) n = rd_bytes m (p + of_nat a) n"
  using assms by (intro rd_wr_other disjoint_blocks_offset)

lemma wr_bytes_other_byte:
  assumes "a < b \<or> b + length bs \<le> a" and "a + 1 < 2 ^ 64" and "b + length bs < 2 ^ 64"
  shows "wr_bytes m (p + of_nat b) bs (p + of_nat a) = m (p + of_nat a)"
  using rd_wr_field [of a 1 b bs m p] assms by (auto simp: rd_bytes_def)

lemma config_wrap_free:
  assumes "unat off + k \<le> n" and "n < 2 ^ 32"
  shows "unat (off + of_nat k :: u32) = unat off + k"
proof -
  have "unat (of_nat k :: u32) = k" using assms by (intro unat_of_nat_lt) simp
  then show ?thesis using assms by (subst unat_plus_lt) simp_all
qed

text \<open>
  The configuration length that the resource gives, and the offset of the configuration space.
\<close>

definition rsc_valid :: "remoteproc_virtio \<Rightarrow> nat \<Rightarrow> rproc_world \<Rightarrow> bool" where
  "rsc_valid rpv cl w \<longleftrightarrow> unat (rd32 (w_mem w) (rpv_vdev_rsc rpv + VDEV_RSC_CONFIG_LEN)) = cl"

definition cfg_off :: "remoteproc_virtio \<Rightarrow> nat" where
  "cfg_off rpv = 28 + 20 * unat (vd_vrings_num (rpv_vdev rpv))"

lemma vdev_config_eq: "vdev_config rpv = rpv_vdev_rsc rpv + of_nat (cfg_off rpv)"
proof -
  have "20 * ucast (vd_vrings_num (rpv_vdev rpv)) = (of_nat (20 * unat (vd_vrings_num (rpv_vdev rpv))) :: u64)"
    by simp
  then show ?thesis by (simp add: vdev_config_def vdev_rsc_vring_def cfg_off_def add.assoc)
qed

lemma rsc_field_addr:
  "p + VDEV_RSC_STATUS = p + of_nat 24" "p + VDEV_RSC_DFEATURES = p + of_nat 12"
  "p + VDEV_RSC_GFEATURES = p + of_nat 16" "p + VDEV_RSC_CONFIG_LEN = p + of_nat 20"
  by (simp_all add: vdev_rsc_defs)

lemma call_notify_mem [simp]: "w_mem (call_notify rpv i w) = w_mem w"
  by (simp add: call_notify_def)

text \<open>
  The resource of a device inside a region: the fields, the vring entries and \<open>cl\<close> bytes of
  configuration.
\<close>

locale vdev_in_region = metal_region ops io base phys sz
  for ops :: io_ops and io :: ptr and base :: ptr and phys :: u64 and sz :: nat +
  fixes env :: rproc_env and rpv :: remoteproc_virtio and cl :: nat
  assumes env_ops: "pe_io env = ops"
    and rpv_io: "rpv_vdev_rsc_io rpv = io"
    and vrings_small: "vd_vrings_num (rpv_vdev rpv) < 256"
    and config_small: "cl < 2 ^ 32"
    and fits: "unat (rpv_vdev_rsc rpv - base) + cfg_off rpv + cl < sz"
begin

lemma cfg_off_bound: "28 \<le> cfg_off rpv" "cfg_off rpv + cl < 2 ^ 63"
  using fits size_fits by (simp_all add: cfg_off_def)

lemma offset_of:
  assumes "k \<le> cfg_off rpv + cl"
  shows "unat (rpv_vdev_rsc rpv + of_nat k - base) = unat (rpv_vdev_rsc rpv - base) + k"
    and "unat (rpv_vdev_rsc rpv - base) + k < sz"
    and "io_virt_to_offset ops io (rpv_vdev_rsc rpv + of_nat k) = rpv_vdev_rsc rpv + of_nat k - base"
proof -
  show s: "unat (rpv_vdev_rsc rpv - base) + k < sz" using assms fits by simp
  then have b: "unat (rpv_vdev_rsc rpv - base) + k < 2 ^ 63" using size_fits by linarith
  then have "k < 2 ^ 63" by linarith
  then have k: "unat (of_nat k :: u64) = k" by (intro unat_of_nat_64) simp
  have eq: "rpv_vdev_rsc rpv + of_nat k - base = (rpv_vdev_rsc rpv - base) + of_nat k" by simp
  show e: "unat (rpv_vdev_rsc rpv + of_nat k - base) = unat (rpv_vdev_rsc rpv - base) + k"
    unfolding eq using b k unat_plus_lt [of "rpv_vdev_rsc rpv - base" "of_nat k"] by simp
  show "io_virt_to_offset ops io (rpv_vdev_rsc rpv + of_nat k) = rpv_vdev_rsc rpv + of_nat k - base"
    using e s by (intro virt_to_offset) simp
qed

lemma field_in:
  assumes "k + n \<le> 28"
  shows "io_virt_to_offset ops io (rpv_vdev_rsc rpv + of_nat k) = rpv_vdev_rsc rpv + of_nat k - base"
    and "unat (rpv_vdev_rsc rpv + of_nat k - base) + n \<le> sz"
proof -
  have b: "k \<le> cfg_off rpv + cl" "k + n \<le> cfg_off rpv + cl" using assms cfg_off_bound by linarith+
  show "io_virt_to_offset ops io (rpv_vdev_rsc rpv + of_nat k) = rpv_vdev_rsc rpv + of_nat k - base"
    by (rule offset_of(3) [OF b(1)])
  show "unat (rpv_vdev_rsc rpv + of_nat k - base) + n \<le> sz"
    using offset_of(1) [OF b(1)] offset_of(2) [OF b(2)] by linarith
qed

lemma get_status_eq: "rproc_virtio_get_status env rpv w = w_mem w (rpv_vdev_rsc rpv + of_nat 24)"
  using field_in [of 24 1] read8 [of "rpv_vdev_rsc rpv + of_nat 24 - base" "w_mem w"]
  by (simp add: rproc_virtio_get_status_def env_ops rpv_io rsc_field_addr)

lemma set_status_eq:
  "rproc_virtio_set_status env rpv b w =
     call_notify rpv (vd_notifyid (rpv_vdev rpv)) (w\<lparr>w_mem := wr8 (w_mem w) (rpv_vdev_rsc rpv + of_nat 24) b\<rparr>)"
  using field_in [of 24 1] write8 [of "rpv_vdev_rsc rpv + of_nat 24 - base" b "w_mem w"]
  by (simp add: rproc_virtio_set_status_def env_ops rpv_io rsc_field_addr)

lemma get_dfeatures_eq: "rproc_virtio_get_dfeatures env rpv w = rd32 (w_mem w) (rpv_vdev_rsc rpv + of_nat 12)"
  using field_in [of 12 4] read32 [of "rpv_vdev_rsc rpv + of_nat 12 - base" "w_mem w"]
  by (simp add: rproc_virtio_get_dfeatures_def env_ops rpv_io rsc_field_addr)

lemma get_features_eq:
  "rproc_virtio_get_features env rpv w =
     rd32 (w_mem w) (rpv_vdev_rsc rpv + of_nat 12) AND rd32 (w_mem w) (rpv_vdev_rsc rpv + of_nat 16)"
  using field_in [of 16 4] read32 [of "rpv_vdev_rsc rpv + of_nat 16 - base" "w_mem w"]
  by (simp add: rproc_virtio_get_features_def env_ops rpv_io rsc_field_addr get_dfeatures_eq Let_def)

lemma set_features_eq:
  "rproc_virtio_set_features env rpv f w =
     call_notify rpv (vd_notifyid (rpv_vdev rpv)) (w\<lparr>w_mem := wr32 (w_mem w) (rpv_vdev_rsc rpv + of_nat 16) f\<rparr>)"
  using field_in [of 16 4] write32 [of "rpv_vdev_rsc rpv + of_nat 16 - base" f "w_mem w"]
  by (simp add: rproc_virtio_set_features_def env_ops rpv_io rsc_field_addr)

lemma negotiate_eq:
  "snd (rproc_virtio_negotiate_features env rpv f w) =
     rproc_virtio_set_features env rpv (rd32 (w_mem w) (rpv_vdev_rsc rpv + of_nat 12) AND f) w"
  by (simp add: rproc_virtio_negotiate_features_def get_dfeatures_eq Let_def)

text \<open>An access to the configuration that stays inside it.\<close>

abbreviation cfg_at :: "u32 \<Rightarrow> ptr" where
  "cfg_at off \<equiv> rpv_vdev_rsc rpv + of_nat (cfg_off rpv + unat off)"

lemma config_in_range_eq:
  assumes "rsc_valid rpv cl w" and "unat off + k \<le> cl"
  shows "config_in_range rpv off (int k) w"
proof -
  have "unat (off + of_nat k :: u32) = unat off + k" by (rule config_wrap_free [OF assms(2) config_small])
  then show ?thesis
    using assms by (simp add: config_in_range_def rsc_valid_def word_le_nat_alt)
qed

lemma config_addr: "vdev_config rpv + ucast off = cfg_at off"
  by (simp add: vdev_config_eq)

lemma config_in:
  assumes "unat off + k \<le> cl"
  shows "io_virt_to_offset ops io (cfg_at off) = cfg_at off - base"
    and "unat (cfg_at off - base) + k \<le> sz"
proof -
  have b: "cfg_off rpv + unat off \<le> cfg_off rpv + cl" "cfg_off rpv + unat off + k \<le> cfg_off rpv + cl"
    using assms by linarith+
  show "io_virt_to_offset ops io (cfg_at off) = cfg_at off - base" by (rule offset_of(3) [OF b(1)])
  show "unat (cfg_at off - base) + k \<le> sz"
    using offset_of(1) [OF b(1)] offset_of(2) [OF b(2)] by linarith
qed

lemma read_config_eq:
  assumes "rsc_valid rpv cl w" and "unat off + k \<le> cl"
  shows "rproc_virtio_read_config env rpv off (int k) w = Some (rd_bytes (w_mem w) (cfg_at off) k)"
  using config_in_range_eq [OF assms] config_in [OF assms(2)] block_read [of "cfg_at off - base" k "w_mem w"]
  by (simp add: rproc_virtio_read_config_def env_ops rpv_io config_addr del: of_nat_add)

lemma write_config_eq:
  assumes "rsc_valid rpv cl w" and "unat off + length bs \<le> cl"
  shows "rproc_virtio_write_config env rpv off bs (int (length bs)) w =
    call_notify rpv (vd_notifyid (rpv_vdev rpv)) (w\<lparr>w_mem := wr_bytes (w_mem w) (cfg_at off) bs\<rparr>)"
  using config_in_range_eq [OF assms] config_in [OF assms(2)] block_write [of "cfg_at off - base" bs "w_mem w"]
  by (simp add: rproc_virtio_write_config_def env_ops rpv_io config_addr del: of_nat_add)

lemmas dispatch_eqs = get_status_eq set_status_eq get_dfeatures_eq get_features_eq set_features_eq
  negotiate_eq read_config_eq write_config_eq

end

subsection \<open>The resource gives the contract\<close>

context vdev_in_region
begin

lemma cfg_rd_field:
  assumes "a + n \<le> 28" and "unat off + length bs \<le> cl"
  shows "rd_bytes (wr_bytes m (cfg_at off) bs) (rpv_vdev_rsc rpv + of_nat a) n =
    rd_bytes m (rpv_vdev_rsc rpv + of_nat a) n"
  using assms cfg_off_bound by (intro rd_wr_field) auto

lemma cfg_rd_after:
  assumes "unat off + n \<le> cl" and "a + length bs \<le> 28"
  shows "rd_bytes (wr_bytes m (rpv_vdev_rsc rpv + of_nat a) bs) (cfg_at off) n = rd_bytes m (cfg_at off) n"
  using assms cfg_off_bound by (intro rd_wr_field) auto

lemma byte_field: "m (p + of_nat a) = rd_bytes m (p + of_nat a) 1 ! 0"
  by simp

lemma rsc_valid_eq: "rsc_valid rpv cl w \<longleftrightarrow> unat (rd32 (w_mem w) (rpv_vdev_rsc rpv + of_nat 20)) = cl"
  by (simp add: rsc_valid_def rsc_field_addr)

lemma status_after: "wr8 m (rpv_vdev_rsc rpv + of_nat 24) b (rpv_vdev_rsc rpv + of_nat 24) = b"
  by (simp add: wr_bytes_def)

lemma status_after_other:
  assumes "b + length bs \<le> 24 \<or> 24 < b" and "b + length bs < 2 ^ 64"
  shows "wr_bytes m (rpv_vdev_rsc rpv + of_nat b) bs (rpv_vdev_rsc rpv + of_nat 24) = m (rpv_vdev_rsc rpv + of_nat 24)"
  using assms by (intro wr_bytes_other_byte) auto

end

context vdev_in_region
begin

text \<open>No operation touches the length of the configuration space.\<close>

lemma rsc_valid_kept:
  assumes "rsc_valid rpv cl w"
  shows "rsc_valid rpv cl (rproc_virtio_set_status env rpv b w)"
    and "rsc_valid rpv cl (snd (rproc_virtio_negotiate_features env rpv f w))"
    and "unat off + length bs \<le> cl \<Longrightarrow> rsc_valid rpv cl (rproc_virtio_write_config env rpv off bs (int (length bs)) w)"
  using assms rd_wr_field [of 20 4 24 "[b]"] rd_wr_field [of 20 4 16 "le_bytes 4 g" for g :: u32] cfg_rd_field [of 20 4 off bs]
  by (simp_all add: rsc_valid_eq set_status_eq negotiate_eq set_features_eq write_config_eq del: of_nat_numeral of_nat_add)

end

sublocale vdev_in_region \<subseteq> virtio_dispatch "rproc_virtio_get_status env rpv" "rproc_virtio_set_status env rpv"
  "rproc_virtio_get_dfeatures env rpv" "rproc_virtio_get_features env rpv"
  "\<lambda>f w. snd (rproc_virtio_negotiate_features env rpv f w)" cl
  "rproc_virtio_read_config env rpv" "rproc_virtio_write_config env rpv" "rsc_valid rpv cl"
proof unfold_locales
  fix w b assume v: "rsc_valid rpv cl w"
  show "rsc_valid rpv cl (rproc_virtio_set_status env rpv b w)"
    by (rule rsc_valid_kept [OF v])
  show "rproc_virtio_get_status env rpv (rproc_virtio_set_status env rpv b w) = b"
    by (simp add: get_status_eq set_status_eq status_after del: of_nat_numeral)
  show "rproc_virtio_get_dfeatures env rpv (rproc_virtio_set_status env rpv b w) = rproc_virtio_get_dfeatures env rpv w"
    using rd_wr_field [of 12 4 24 "[b]"] by (simp add: get_dfeatures_eq set_status_eq del: of_nat_numeral)
  show "rproc_virtio_get_features env rpv (rproc_virtio_set_status env rpv b w) = rproc_virtio_get_features env rpv w"
    using rd_wr_field [of 12 4 24 "[b]"] rd_wr_field [of 16 4 24 "[b]"]
    by (simp add: get_features_eq set_status_eq del: of_nat_numeral)
next
  fix w f assume v: "rsc_valid rpv cl w"
  show "rsc_valid rpv cl (snd (rproc_virtio_negotiate_features env rpv f w))"
    by (rule rsc_valid_kept [OF v])
  show "rproc_virtio_get_status env rpv (snd (rproc_virtio_negotiate_features env rpv f w)) =
      rproc_virtio_get_status env rpv w"
    by (simp add: get_status_eq negotiate_eq set_features_eq status_after_other del: of_nat_numeral)
  show "rproc_virtio_get_dfeatures env rpv (snd (rproc_virtio_negotiate_features env rpv f w)) =
      rproc_virtio_get_dfeatures env rpv w"
    using rd_wr_field [of 12 4 16 "le_bytes 4 g" for g :: u32]
    by (simp add: get_dfeatures_eq negotiate_eq set_features_eq del: of_nat_numeral)
  show "rproc_virtio_get_features env rpv (snd (rproc_virtio_negotiate_features env rpv f w)) =
      rproc_virtio_get_dfeatures env rpv w AND f"
    using rd_wr_field [of 12 4 16 "le_bytes 4 g" for g :: u32]
    by (simp add: get_features_eq get_dfeatures_eq negotiate_eq set_features_eq rd_wr_same le_word_bytes
        del: of_nat_numeral flip: and.assoc)
next
  fix w and off :: u32 and bs :: "u8 list"
  assume v: "rsc_valid rpv cl w" and r: "unat off + length bs \<le> cl"
  show v': "rsc_valid rpv cl (rproc_virtio_write_config env rpv off bs (int (length bs)) w)"
    by (rule rsc_valid_kept(3) [OF v r])
  show "rproc_virtio_get_status env rpv (rproc_virtio_write_config env rpv off bs (int (length bs)) w) =
      rproc_virtio_get_status env rpv w"
    using v r cfg_rd_field [of 24 1 off bs] 
    by (simp add: get_status_eq write_config_eq byte_field [where a = 24] del: of_nat_numeral of_nat_add rd_bytes_nth)
  show "rproc_virtio_read_config env rpv off (int (length bs))
      (rproc_virtio_write_config env rpv off bs (int (length bs)) w) = Some bs"
    using v v' r config_small by (simp add: read_config_eq write_config_eq rd_wr_same del: of_nat_numeral of_nat_add)
next
  fix w b and off :: u32 and k :: nat
  assume v: "rsc_valid rpv cl w" and r: "unat off + k \<le> cl"
  show "rproc_virtio_read_config env rpv off (int k) (rproc_virtio_set_status env rpv b w) =
      rproc_virtio_read_config env rpv off (int k) w"
    using v rsc_valid_kept(1) [OF v] r cfg_rd_after [of off k 24 "[b]"] by (simp add: read_config_eq set_status_eq del: of_nat_numeral of_nat_add)
qed

context vdev_in_region
begin

lemmas vdev_contract = status_set status_negotiate status_write offered_status offered_negotiate
  features_status features_negotiate config_status config_write valid_status valid_negotiate valid_write
lemmas vdev_config_write = config_write
lemmas vdev_status_write = status_write
lemmas vdev_status_set = status_set
lemmas vdev_driver_ok_seen = driver_ok_seen
lemmas vdev_features_negotiate = features_negotiate
lemmas vdev_status_negotiate = status_negotiate
lemmas vdev_offered_negotiate = offered_negotiate
lemmas vdev_features_status = features_status

end

end
