(* ===== verification/Rproc_Virtio_Props.thy ===== *)
theory Rproc_Virtio_Props
  imports Virtio_Dispatch
begin

text \<open>
  Properties of the virtio device of a remote processor: the dispatch functions on a resource in
  shared memory, the handshake, the allocations of \<open>rproc_virtio_create_vdev\<close> and
  \<open>rproc_virtio_remove_vdev\<close>, and the delivery of notifications.
\<close>

subsection \<open>A resource in a directly mapped region\<close>

text \<open>
  \<open>vdev_at\<close>: the resource of \<open>rpv\<close> with its vring entries and \<open>cl\<close> bytes of configuration lies in the
  region of \<open>n\<close> bytes at \<open>b\<close>, which \<open>env\<close> maps directly.
\<close>

definition vdev_at :: "ptr \<Rightarrow> u64 \<Rightarrow> 31 word \<Rightarrow> rproc_env \<Rightarrow> remoteproc_virtio \<Rightarrow> nat \<Rightarrow> bool" where
  "vdev_at b p n env rpv cl \<longleftrightarrow>
     pe_io env = flat_region b p n \<and> vd_vrings_num (rpv_vdev rpv) < 256 \<and> cl < 2 ^ 32 \<and>
     unat (rpv_vdev_rsc rpv - b) + cfg_off rpv + cl < unat n"

lemma vdev_atD: "vdev_at b p n env rpv cl \<Longrightarrow>
  vdev_in_region (flat_region b p n) (rpv_vdev_rsc_io rpv) b p (unat n) env rpv cl"
  by unfold_locales (auto simp: vdev_at_def)

text \<open>A device with two vrings and sixteen bytes of configuration, 256 bytes into its region.\<close>

definition sample_env :: "ptr \<Rightarrow> u64 \<Rightarrow> rproc_env \<Rightarrow> rproc_env" where
  "sample_env b p env = env\<lparr>pe_io := flat_region b p 0x1000\<rparr>"

definition sample_rpv :: "ptr \<Rightarrow> u32 \<Rightarrow> u32 \<Rightarrow> virtio_vring_info list \<Rightarrow> remoteproc_virtio" where
  "sample_rpv b role notifyid infos = fill_rpvdev role notifyid (b + 0x100) 1 0x7000 0x210 0 2 infos 0 1"

lemma sample_vdev_at: "vdev_at b p 0x1000 (sample_env b p env) (sample_rpv b role notifyid infos) 16"
  by (simp add: vdev_at_def sample_env_def sample_rpv_def fill_rpvdev_def cfg_off_def)

interpretation sample: vdev_in_region "flat_region b p 0x1000" 1 b p 4096 "sample_env b p env"
  "sample_rpv b role notifyid infos" 16
  for b p env role notifyid infos
  using vdev_atD [OF sample_vdev_at [of b p env role notifyid infos]]
  by (simp add: sample_rpv_def fill_rpvdev_def)

text \<open>
  C24. What one side writes to the configuration space of a device, the other reads back, for every
  access inside the space; the write keeps the status and notifies the other side once.
\<close>

theorem vdev_config_roundtrip:
  assumes "vdev_at b p n env rpv cl" and "rsc_valid rpv cl w" and "unat off + length bs \<le> cl"
    and "w' = rproc_virtio_write_config env rpv off bs (int (length bs)) w"
  shows "rproc_virtio_read_config env rpv off (int (length bs)) w' = Some bs \<and>
    rproc_virtio_get_status env rpv w' = rproc_virtio_get_status env rpv w \<and>
    w_notes w' = w_notes w @ [(rpv_notify rpv, rpv_priv rpv, vd_notifyid (rpv_vdev rpv))]"
proof (intro conjI)
  note v = vdev_atD [OF assms(1)]
  show "rproc_virtio_read_config env rpv off (int (length bs)) w' = Some bs"
    unfolding assms(4) by (rule vdev_in_region.vdev_config_write [OF v assms(2,3)])
  show "rproc_virtio_get_status env rpv w' = rproc_virtio_get_status env rpv w"
    unfolding assms(4) by (rule vdev_in_region.vdev_status_write [OF v assms(2,3)])
  show "w_notes w' = w_notes w @ [(rpv_notify rpv, rpv_priv rpv, vd_notifyid (rpv_vdev rpv))]"
    unfolding assms(4) using vdev_in_region.write_config_eq [OF v assms(2,3)] by (simp add: call_notify_def)
qed

text \<open>A world for the witnesses: a resource with two vrings and 16 bytes of configuration at 0x2100.\<close>

definition sample_mem :: mem where
  "sample_mem = (\<lambda>a. if a = 0x2119 then 2 else if a = 0x2114 then 16 else if a = 0x210C then 5
     else if a = 0x210D then 1 else 0)"

definition sample_world :: rproc_world where
  "sample_world = \<lparr>w_mem = sample_mem, w_vqs = [], w_blocks = [], w_bytes = [], w_loader = 0,
     w_open = 0, w_notes = [],
     w_priv = \<lparr>pv_ipi_dev = 0, pv_shm_dev = 0, pv_shm_io = 0, pv_ipi_nokick = False, pv_cpu_id = 0, pv_open_devs = [],
       pv_poll_dev = 0, pv_poll_io = 0, pv_ipi_io = 0, pv_generic_devs = [], pv_irqs = [], pv_irqs_on = []\<rparr>\<rparr>"

definition sample_env0 :: rproc_env where
  "sample_env0 = \<lparr>pe_io = flat_region 0x2000 0x9000 0x1000, pe_bitmap = long_bitmap, pe_alloc = (\<lambda>r w. True),
     pe_malloc = (\<lambda>n w. 0x50000), pe_junk = (\<lambda>i. zero_vring_info), pe_stack = 0,
     pe_callback = (\<lambda>cb q w. Inr w), pe_yield = (\<lambda>k m. m)\<rparr>"

abbreviation sample_dev :: remoteproc_virtio where
  "sample_dev \<equiv> sample_rpv 0x2000 VIRTIO_DEV_MASTER 9 [zero_vring_info, zero_vring_info]"

lemma sample_env0_eq: "sample_env 0x2000 0x9000 sample_env0 = sample_env0"
  by (simp add: sample_env_def sample_env0_def)

lemma sample_at: "vdev_at 0x2000 0x9000 0x1000 sample_env0 sample_dev 16"
  using sample_vdev_at [of "0x2000" "0x9000" sample_env0] unfolding sample_env0_eq by blast

lemma sample_rsc_valid: "rsc_valid sample_dev 16 sample_world"
  by (simp add: rsc_valid_def sample_rpv_def fill_rpvdev_def sample_world_def sample_mem_def
      vdev_rsc_defs rd_bytes_def upt_conv_Cons)

lemma vdev_config_roundtrip_witness:
  "rproc_virtio_read_config sample_env0 sample_dev 3 (int (length [7, 8]))
     (rproc_virtio_write_config sample_env0 sample_dev 3 [7, 8] (int (length [7, 8 :: u8])) sample_world) = Some [7, 8]"
  using vdev_config_roundtrip [OF sample_at sample_rsc_valid _ refl, of 3 "[7, 8]"] by simp

text \<open>
  Negotiation offers the master what the device offers and the driver supports, and nothing
  else: the features afterwards are the bitwise conjunction, whatever was negotiated before; the
  offer and the status of the device stay.
\<close>

theorem vdev_features_negotiated:
  assumes "vdev_at b p n env rpv cl" and "rsc_valid rpv cl w"
    and "rproc_virtio_negotiate_features env rpv f w = (r, w')"
  shows "r = 0 \<and> rproc_virtio_get_features env rpv w' = rproc_virtio_get_dfeatures env rpv w AND f \<and>
    rproc_virtio_get_dfeatures env rpv w' = rproc_virtio_get_dfeatures env rpv w \<and>
    rproc_virtio_get_status env rpv w' = rproc_virtio_get_status env rpv w"
proof -
  note v = vdev_atD [OF assms(1)]
  have w': "w' = snd (rproc_virtio_negotiate_features env rpv f w)" and "r = 0"
    using assms(3) by (auto simp: rproc_virtio_negotiate_features_def)
  then show ?thesis
    using vdev_in_region.vdev_features_negotiate [OF v assms(2), of f]
      vdev_in_region.vdev_offered_negotiate [OF v assms(2), of f]
      vdev_in_region.vdev_status_negotiate [OF v assms(2), of f] by simp
qed

lemma vdev_features_negotiated_witness:
  "rproc_virtio_get_features sample_env0 sample_dev
     (snd (rproc_virtio_negotiate_features sample_env0 sample_dev 4 sample_world)) = 4"
proof -
  have "rproc_virtio_get_dfeatures sample_env0 sample_dev sample_world = 0x105"
    by (simp add: rproc_virtio_get_dfeatures_def sample_env0_def sample_rpv_def fill_rpvdev_def
        sample_world_def sample_mem_def vdev_rsc_defs flat_region_def flat_io_def rd_bytes_def upt_conv_Cons)
  then show ?thesis
    using vdev_features_negotiated [OF sample_at sample_rsc_valid prod.collapse [symmetric], of 4] by simp
qed

subsection \<open>The handshake\<close>

text \<open>Memory as the slave sees it at its \<open>j\<close>-th poll after the \<open>k\<close>-th yield.\<close>

fun mem_after :: "rproc_env \<Rightarrow> nat \<Rightarrow> nat \<Rightarrow> mem \<Rightarrow> mem" where
  "mem_after env k 0 m = m"
| "mem_after env k (Suc j) m = mem_after env (Suc k) j (pe_yield env k m)"

definition driver_ok :: "rproc_env \<Rightarrow> remoteproc_virtio \<Rightarrow> rproc_world \<Rightarrow> bool" where
  "driver_ok env rpv w \<longleftrightarrow> rproc_virtio_get_status env rpv w AND VIRTIO_CONFIG_STATUS_DRIVER_OK \<noteq> 0"

lemma mem_after_Suc: "mem_after env k (Suc j) m = pe_yield env (k + j) (mem_after env k j m)"
  by (induction j arbitrary: k m) auto

lemma find_upt_Suc:
  "find P [0..<Suc n] = (if P 0 then Some 0 else map_option Suc (find (\<lambda>j. P (Suc j)) [0..<n]))"
proof -
  have e: "[0..<Suc n] = 0 # map Suc [0..<n]" by (simp add: upt_conv_Cons map_Suc_upt del: upt_Suc)
  have m: "find P (map Suc xs) = map_option Suc (find (\<lambda>j. P (Suc j)) xs)" for xs
    by (induction xs) auto
  show ?thesis unfolding e by (simp add: m)
qed

lemma wait_ready_loop_eq:
  "wait_ready_loop fuel k env rpv w =
     (case find (\<lambda>j. driver_ok env rpv (w\<lparr>w_mem := mem_after env k j (w_mem w)\<rparr>)) [0..<fuel] of
        None \<Rightarrow> Inl Hang | Some j \<Rightarrow> Inr (w\<lparr>w_mem := mem_after env k j (w_mem w)\<rparr>))"
proof (induction fuel arbitrary: k w)
  case (Suc fuel)
  have IH: "wait_ready_loop fuel (Suc k) env rpv (w\<lparr>w_mem := pe_yield env k (w_mem w)\<rparr>) =
     (case find (\<lambda>j. driver_ok env rpv (w\<lparr>w_mem := mem_after env k (Suc j) (w_mem w)\<rparr>)) [0..<fuel] of
        None \<Rightarrow> Inl Hang | Some j \<Rightarrow> Inr (w\<lparr>w_mem := mem_after env k (Suc j) (w_mem w)\<rparr>))"
    by (simp add: Suc.IH cong: option.case_cong)
  show ?case
    using IH by (auto simp: find_upt_Suc driver_ok_def split: option.splits simp del: upt_Suc)
qed simp

text \<open>
  C33. A slave returns from \<open>rproc_virtio_wait_remote_ready\<close> at the first poll that sees \<open>DRIVER_OK\<close>
  in the shared memory, with nothing else changed, and waits as long as there is none; a master
  does not wait at all.
\<close>

theorem wait_remote_ready_exact:
  "rproc_virtio_wait_remote_ready fuel env rpv w =
     (if vd_role (rpv_vdev rpv) = VIRTIO_DEV_MASTER then Inr w
      else case find (\<lambda>j. driver_ok env rpv (w\<lparr>w_mem := mem_after env 0 j (w_mem w)\<rparr>)) [0..<fuel] of
        None \<Rightarrow> Inl Hang | Some j \<Rightarrow> Inr (w\<lparr>w_mem := mem_after env 0 j (w_mem w)\<rparr>))"
  by (simp add: rproc_virtio_wait_remote_ready_def wait_ready_loop_eq)

lemma find_upt_SomeI: "P j \<Longrightarrow> j < n \<Longrightarrow> \<exists>i\<le>j. find P [0..<n] = Some i \<and> P i"
proof (induction n arbitrary: P j)
  case (Suc n)
  show ?case
  proof (cases "P 0")
    case True then show ?thesis by (auto simp: find_upt_Suc simp del: upt_Suc)
  next
    case False
    with Suc.prems obtain j' where j': "j = Suc j'" "P (Suc j')" "j' < n" by (cases j) auto
    from Suc.IH [of "\<lambda>i. P (Suc i)", OF j'(2,3)] j'(1) False show ?thesis
      by (force simp: find_upt_Suc simp del: upt_Suc)
  qed
qed simp

text \<open>
  C34. Once the master of the device sets \<open>DRIVER_OK\<close> on the shared resource, during the slave's
  \<open>k\<close>-th yield, the slave stops waiting: it returns after at most \<open>k + 1\<close> yields and has seen
  \<open>DRIVER_OK\<close>.
\<close>

theorem handshake_completes:
  assumes "vdev_at b p n env master cl" and "vdev_at b p n env slave cl"
    and "rpv_vdev_rsc slave = rpv_vdev_rsc master"
    and "\<And>m. pe_yield env k m =
      w_mem (rproc_virtio_set_status env master VIRTIO_CONFIG_STATUS_DRIVER_OK (w\<lparr>w_mem := m\<rparr>))"
    and "Suc k < fuel"
  shows "\<exists>w'. rproc_virtio_wait_remote_ready fuel env slave w = Inr w' \<and>
    (vd_role (rpv_vdev slave) \<noteq> VIRTIO_DEV_MASTER \<longrightarrow> driver_ok env slave w')"
proof -
  note vm = vdev_atD [OF assms(1)] and vs = vdev_atD [OF assms(2)]
  let ?m = "mem_after env 0 (Suc k) (w_mem w)"
  have "?m (rpv_vdev_rsc slave + of_nat 24) = VIRTIO_CONFIG_STATUS_DRIVER_OK"
    unfolding mem_after_Suc assms(3)
    by (simp add: assms(4) vdev_in_region.set_status_eq [OF vm] vdev_in_region.status_after [OF vm]
        del: of_nat_numeral)
  then have ok: "driver_ok env slave (w\<lparr>w_mem := ?m\<rparr>)"
    by (simp add: driver_ok_def vdev_in_region.get_status_eq [OF vs] VIRTIO_CONFIG_STATUS_DRIVER_OK_def
        del: of_nat_numeral)
  show ?thesis
    using find_upt_SomeI [of "\<lambda>j. driver_ok env slave (w\<lparr>w_mem := mem_after env 0 j (w_mem w)\<rparr>)" "Suc k" fuel, OF ok assms(5)]
    by (auto simp: rproc_virtio_wait_remote_ready_def wait_ready_loop_eq simp del: mem_after.simps)
qed

abbreviation sample_slave :: remoteproc_virtio where
  "sample_slave \<equiv> sample_rpv 0x2000 VIRTIO_DEV_SLAVE 9 [zero_vring_info, zero_vring_info]"

definition yield_env :: rproc_env where
  "yield_env = sample_env0\<lparr>pe_yield := (\<lambda>k m. if k = 2 then wr8 m 0x2118 4 else m)\<rparr>"

lemma yield_at: "vdev_at 0x2000 0x9000 0x1000 yield_env sample_dev 16"
  "vdev_at 0x2000 0x9000 0x1000 yield_env sample_slave 16"
  using sample_vdev_at [of "0x2000" "0x9000" yield_env]
  by (auto simp: vdev_at_def sample_env_def yield_env_def sample_env0_def)

lemma handshake_completes_witness:
  "\<exists>w'. rproc_virtio_wait_remote_ready 4 yield_env sample_slave sample_world = Inr w' \<and>
    (vd_role (rpv_vdev sample_slave) \<noteq> VIRTIO_DEV_MASTER \<longrightarrow> driver_ok yield_env sample_slave w')"
proof (rule handshake_completes [OF yield_at, where k = 2])
  fix m
  have "pe_yield yield_env 2 m = wr8 m 0x2118 4" by (simp add: yield_env_def)
  then show "pe_yield yield_env 2 m = w_mem (rproc_virtio_set_status yield_env sample_dev
      VIRTIO_CONFIG_STATUS_DRIVER_OK (sample_world\<lparr>w_mem := m\<rparr>))"
    using vdev_in_region.set_status_eq [OF vdev_atD [OF yield_at(1)]]
    by (simp add: VIRTIO_CONFIG_STATUS_DRIVER_OK_def) (simp add: sample_rpv_def fill_rpvdev_def)
qed (simp_all add: sample_rpv_def fill_rpvdev_def)

end
