(* ===== verification/Rproc_Virtio_Alloc.thy ===== *)
theory Rproc_Virtio_Alloc
  imports Rproc_Virtio_Props
begin

text \<open>
  Allocations of \<open>rproc_virtio_create_vdev\<close> and \<open>rproc_virtio_remove_vdev\<close>: nothing is leaked or freed
  twice, on the condition that the entries of \<open>vrings_info\<close> which the code leaves uninitialised hold
  no stray queue pointers; and the failure when they do.
\<close>

definition live_vqs :: "rproc_world \<Rightarrow> nat set" where
  "live_vqs w = {i. i < length (w_vqs w) \<and> w_vqs w ! i \<noteq> None}"

definition live_blocks :: "rproc_world \<Rightarrow> nat set" where
  "live_blocks w = {i. i < length (w_blocks w) \<and> w_blocks w ! i}"

text \<open>The queues that the entries of \<open>vrings_info\<close> point to.\<close>

fun vq_ptrs :: "virtio_vring_info list \<Rightarrow> nat list" where
  "vq_ptrs [] = []"
| "vq_ptrs (i # is) = (case vi_vq i of None \<Rightarrow> vq_ptrs is | Some q \<Rightarrow> q # vq_ptrs is)"

lemma vq_ptrs_append [simp]: "vq_ptrs (xs @ ys) = vq_ptrs xs @ vq_ptrs ys"
  by (induction xs) (auto split: option.splits)

lemma vq_ptrs_none: "(\<And>i. i \<in> set xs \<Longrightarrow> vi_vq i = None) \<Longrightarrow> vq_ptrs xs = []"
  by (induction xs) auto

lemma vq_ptrs_take_Suc:
  "i < length xs \<Longrightarrow> vq_ptrs (take (Suc i) (xs[i := x\<lparr>vi_vq := Some q\<rparr>])) = vq_ptrs (take i xs) @ [q]"
  by (simp add: take_Suc_conv_app_nth take_update_cancel)

lemma vq_ptrs_split: "vq_ptrs xs = vq_ptrs (take i xs) @ vq_ptrs (drop i xs)"
  by (metis append_take_drop_id vq_ptrs_append)

lemma vq_ptrs_drop_Suc:
  "i < length xs \<Longrightarrow> vq_ptrs (drop i xs) = (case vi_vq (xs ! i) of None \<Rightarrow> [] | Some q \<Rightarrow> [q]) @ vq_ptrs (drop (Suc i) xs)"
  by (simp add: Cons_nth_drop_Suc [symmetric] split: option.splits)

subsection \<open>The loop that allocates\<close>

lemma alloc_vq_cases:
  obtains "alloc_vq env k w = (None, w)"
  | vq where "alloc_vq env k w = (Some (length (w_vqs w)), w\<lparr>w_vqs := w_vqs w @ [Some vq]\<rparr>)"
  by (cases "virtqueue_allocate (pe_alloc env (Alloc_virtqueue (unat k)) w) (unat k)")
    (auto simp: alloc_vq_def)

lemma create_vqs_run:
  assumes "i + n = length infos" and "vq_ptrs (drop i infos) = []"
  shows "\<exists>ok infos' vs. create_vqs_loop env role rsc n i infos w =
      Inr (ok, infos', w\<lparr>w_vqs := w_vqs w @ map Some vs\<rparr>) \<and>
    length infos' = length infos \<and> length vs \<le> n \<and> (ok \<longleftrightarrow> length vs = n) \<and>
    vq_ptrs infos' = vq_ptrs (take i infos) @ [length (w_vqs w)..<length (w_vqs w) + length vs]"
  using assms
proof (induction n arbitrary: i infos w)
  case 0
  then show ?case by (intro exI [of _ True] exI [of _ infos] exI [of _ "[]"]) simp
next
  case (Suc n)
  then have i: "i < length infos" by simp
  define k where "k = (if role = VIRTIO_DEV_MASTER
    then rd32 (w_mem w) (vdev_rsc_vring rsc (of_nat i) + VRING_RSC_NUM) else 0)"
  show ?case
  proof (cases rule: alloc_vq_cases [of env k w])
    case 1
    then have "create_vqs_loop env role rsc (Suc n) i infos w = Inr (False, infos, w)"
      by (simp add: k_def)
    then show ?thesis
      using Suc.prems vq_ptrs_split [of infos i]
      by (intro exI [of _ False] exI [of _ infos] exI [of _ "[]"]) simp
  next
    case (2 vq)
    define infos1 where "infos1 = infos[i := (infos ! i)\<lparr>vi_vq := Some (length (w_vqs w))\<rparr>]"
    define w1 where "w1 = w\<lparr>w_vqs := w_vqs w @ [Some vq]\<rparr>"
    have step: "create_vqs_loop env role rsc (Suc n) i infos w = create_vqs_loop env role rsc n (Suc i) infos1 w1"
      using 2 i by (simp add: k_def infos1_def w1_def)
    have "vq_ptrs (drop (Suc i) infos) = []" using Suc.prems(2) vq_ptrs_drop_Suc [OF i] by simp
    then have d: "vq_ptrs (drop (Suc i) infos1) = []" by (simp add: infos1_def)
    have t: "vq_ptrs (take (Suc i) infos1) = vq_ptrs (take i infos) @ [length (w_vqs w)]"
      unfolding infos1_def by (rule vq_ptrs_take_Suc [OF i])
    have l: "Suc i + n = length infos1" using Suc.prems(1) by (simp add: infos1_def)
    obtain ok infos' vs where r: "create_vqs_loop env role rsc n (Suc i) infos1 w1 =
        Inr (ok, infos', w1\<lparr>w_vqs := w_vqs w1 @ map Some vs\<rparr>)"
      and p: "length infos' = length infos1" "length vs \<le> n" "ok \<longleftrightarrow> length vs = n"
        "vq_ptrs infos' = vq_ptrs (take (Suc i) infos1) @ [length (w_vqs w1)..<length (w_vqs w1) + length vs]"
      using Suc.IH [OF l d, of w1] by blast
    have "create_vqs_loop env role rsc (Suc n) i infos w =
        Inr (ok, infos', w\<lparr>w_vqs := w_vqs w @ map Some (vq # vs)\<rparr>)"
      unfolding step r by (simp add: w1_def)
    moreover have "vq_ptrs infos' = vq_ptrs (take i infos) @
        [length (w_vqs w)..<length (w_vqs w) + length (vq # vs)]"
      using p(4) t by (simp add: w1_def upt_conv_Cons del: upt_Suc)
    ultimately show ?thesis
      using p(1,2,3) by (intro exI [of _ ok] exI [of _ infos'] exI [of _ "vq # vs"]) (simp add: infos1_def)
  qed
qed

subsection \<open>The loop that frees\<close>

definition kill_vqs :: "nat list \<Rightarrow> virtqueue option list \<Rightarrow> virtqueue option list" where
  "kill_vqs qs vs = fold (\<lambda>q vs. vs[q := None]) qs vs"

lemma length_kill_vqs [simp]: "length (kill_vqs qs vs) = length vs"
  unfolding kill_vqs_def by (induction qs arbitrary: vs) auto

lemma kill_vqs_nth: "j < length vs \<Longrightarrow> kill_vqs qs vs ! j = (if j \<in> set qs then None else vs ! j)"
proof (induction qs arbitrary: vs)
  case (Cons q qs)
  have "kill_vqs (q # qs) vs = kill_vqs qs (vs[q := None])" by (simp add: kill_vqs_def)
  then show ?case using Cons.IH [of "vs[q := None]"] Cons.prems by (auto simp: nth_list_update)
qed (simp add: kill_vqs_def)

lemma free_vq_live:
  "q \<in> live_vqs w \<Longrightarrow> free_vq (Some q) w = Inr (w\<lparr>w_vqs := (w_vqs w)[q := None]\<rparr>)"
  by (auto simp: free_vq_def get_vqp_def live_vqs_def)

lemma free_vqs_run:
  assumes "i + n = length infos" and "distinct (vq_ptrs (drop i infos))"
    and "set (vq_ptrs (drop i infos)) \<subseteq> live_vqs w"
  shows "free_vqs_loop n i infos w = Inr (w\<lparr>w_vqs := kill_vqs (vq_ptrs (drop i infos)) (w_vqs w)\<rparr>)"
  using assms
proof (induction n arbitrary: i w)
  case 0
  then show ?case by (simp add: kill_vqs_def)
next
  case (Suc n)
  then have i: "i < length infos" and l: "Suc i + n = length infos" by simp_all
  note d = vq_ptrs_drop_Suc [OF i]
  show ?case
  proof (cases "vi_vq (infos ! i)")
    case None
    then show ?thesis using Suc.IH [OF l, of w] Suc.prems d i by (simp add: free_vq_def)
  next
    case (Some q)
    define w1 where "w1 = w\<lparr>w_vqs := (w_vqs w)[q := None]\<rparr>"
    have q: "q \<in> live_vqs w" "q \<notin> set (vq_ptrs (drop (Suc i) infos))" "distinct (vq_ptrs (drop (Suc i) infos))"
      using Suc.prems(2,3) d Some by auto
    have "set (vq_ptrs (drop (Suc i) infos)) \<subseteq> live_vqs w1"
      using Suc.prems(3) d Some q(2) by (auto simp: live_vqs_def w1_def nth_list_update)
    from Suc.IH [OF l q(3) this] show ?thesis
      using i Some free_vq_live [OF q(1)] d by (simp add: w1_def kill_vqs_def)
  qed
qed

subsection \<open>Creation and removal\<close>

lemma set_features_heap [simp]:
  "w_vqs (snd (rproc_virtio_negotiate_features env rpv f w)) = w_vqs w"
  "w_blocks (snd (rproc_virtio_negotiate_features env rpv f w)) = w_blocks w"
  by (simp_all add: rproc_virtio_negotiate_features_def rproc_virtio_set_features_def call_notify_def Let_def)

text \<open>The queues and blocks that a failed or undone creation leaves behind.\<close>

lemma free_fresh:
  assumes "length infos = n" and "vq_ptrs infos = [length vs0..<length vs0 + k]"
    and "w_vqs w = vs0 @ map Some vs" and "length vs = k"
    and "w_blocks w = bl @ [True, True]" and "bi = Suc (length bl)" and "b = length bl"
  shows "\<exists>w'. cbind (free_vqs_loop n 0 infos w) (\<lambda>w1. cbind (free_block bi w1) (free_block b)) = Inr w' \<and>
    live_vqs w' = {i. i < length vs0 \<and> vs0 ! i \<noteq> None} \<and> live_blocks w' = {i. i < length bl \<and> bl ! i}"
proof -
  have live: "set (vq_ptrs (drop 0 infos)) \<subseteq> live_vqs w"
    using assms(2-4) by (auto simp: live_vqs_def nth_append)
  have run: "free_vqs_loop n 0 infos w = Inr (w\<lparr>w_vqs := kill_vqs [length vs0..<length vs0 + k] (w_vqs w)\<rparr>)"
    using free_vqs_run [of 0 n infos w] live assms(1,2) by simp
  define w' where "w' = w\<lparr>w_vqs := kill_vqs [length vs0..<length vs0 + k] (w_vqs w),
    w_blocks := ((w_blocks w)[bi := False])[b := False]\<rparr>"
  have e: "cbind (free_vqs_loop n 0 infos w) (\<lambda>w1. cbind (free_block bi w1) (free_block b)) = Inr w'"
    using assms(5-7) by (simp add: run free_block_def nth_append nth_list_update w'_def)
  have "live_vqs w' = {i. i < length vs0 \<and> vs0 ! i \<noteq> None}"
    using assms(3,4) by (auto simp: live_vqs_def w'_def kill_vqs_nth nth_append split: if_splits)
  moreover have "live_blocks w' = {i. i < length bl \<and> bl ! i}"
    using assms(5-7) by (auto simp: live_blocks_def w'_def nth_append nth_list_update less_Suc_eq)
  ultimately show ?thesis using e by blast
qed

text \<open>A created device: each vring has a fresh queue, and the two structures are the newest blocks.\<close>

definition fresh_device :: "rproc_world \<Rightarrow> remoteproc_virtio \<Rightarrow> rproc_world \<Rightarrow> bool" where
  "fresh_device w rpv w' \<longleftrightarrow>
     (\<exists>vs. w_vqs w' = w_vqs w @ map Some vs \<and> length vs = unat (vd_vrings_num (rpv_vdev rpv)) \<and>
        vq_ptrs (vd_vrings_info (rpv_vdev rpv)) = [length (w_vqs w)..<length (w_vqs w) + length vs]) \<and>
     length (vd_vrings_info (rpv_vdev rpv)) = unat (vd_vrings_num (rpv_vdev rpv)) \<and>
     w_blocks w' = w_blocks w @ [True, True] \<and>
     rpv_block rpv = length (w_blocks w) \<and> rpv_infos_block rpv = Suc (length (w_blocks w))"

lemma remove_fresh:
  assumes "fresh_device w rpv w'"
  shows "\<exists>w''. rproc_virtio_remove_vdev (Some rpv) w' = Inr w'' \<and>
    live_vqs w'' = live_vqs w \<and> live_blocks w'' = live_blocks w"
proof -
  obtain vs where vs: "w_vqs w' = w_vqs w @ map Some vs" "length vs = unat (vd_vrings_num (rpv_vdev rpv))"
      "vq_ptrs (vd_vrings_info (rpv_vdev rpv)) = [length (w_vqs w)..<length (w_vqs w) + length vs]"
    and r: "length (vd_vrings_info (rpv_vdev rpv)) = unat (vd_vrings_num (rpv_vdev rpv))"
      "w_blocks w' = w_blocks w @ [True, True]"
      "rpv_block rpv = length (w_blocks w)" "rpv_infos_block rpv = Suc (length (w_blocks w))"
    using assms unfolding fresh_device_def by blast
  show ?thesis
    using free_fresh [OF r(1) vs(3) vs(1) refl r(2,4,3)]
    by (simp add: rproc_virtio_remove_vdev_def live_vqs_def live_blocks_def)
qed

text \<open>\<open>rproc_virtio_create_vdev\<close> once both structures are allocated and the loop has run.\<close>

lemma create_vdev_allocated:
  fixes rsc w
  defines "num \<equiv> (ucast (w_mem w (rsc + VDEV_RSC_NUM_OF_VRINGS)) :: u32)"
    and "b \<equiv> length (w_blocks w)"
  assumes "pe_alloc env Alloc_rpvdev w"
    and "pe_alloc env (Alloc_vrings_info (unat num)) (w\<lparr>w_blocks := w_blocks w @ [True]\<rparr>)"
    and "0 < unat num"
    and "create_vqs_loop env role rsc (unat num) 0 ((map (pe_junk env) [0..<unat num])[0 := zero_vring_info])
      (w\<lparr>w_blocks := w_blocks w @ [True, True]\<rparr>) = Inr (ok, infos, wl)"
    and "rpv = fill_rpvdev role notifyid rsc rsc_io priv notify rst_cb num infos b (Suc b)"
  shows "rproc_virtio_create_vdev env role notifyid rsc rsc_io priv notify rst_cb w =
    (if ok then
       Inr (Some rpv, if role = VIRTIO_DEV_MASTER
                      then snd (rproc_virtio_negotiate_features env rpv (rproc_virtio_get_dfeatures env rpv wl) wl)
                      else wl)
     else cbind (cbind (free_vqs_loop (unat num) 0 infos wl) (\<lambda>w1. cbind (free_block (Suc b) w1) (free_block b)))
            (\<lambda>w6. Inr (None, w6)))"
  using assms(3-7)
  by (simp add: rproc_virtio_create_vdev_def alloc_block_def num_def [symmetric] b_def cbind_assoc Let_def)

text \<open>The case in which both allocations succeed.\<close>

lemma create_vdev_queues:
  fixes num :: u32
  assumes junk: "\<And>i. vi_vq (pe_junk env i) = None"
    and num: "num = ucast (w_mem w (rsc + VDEV_RSC_NUM_OF_VRINGS))" "0 < unat num"
    and al: "pe_alloc env Alloc_rpvdev w" "pe_alloc env (Alloc_vrings_info (unat num)) (w\<lparr>w_blocks := w_blocks w @ [True]\<rparr>)"
  shows "\<exists>r w'. rproc_virtio_create_vdev env role notifyid rsc rsc_io priv notify rst_cb w = Inr (r, w') \<and>
    (case r of None \<Rightarrow> live_vqs w' = live_vqs w \<and> live_blocks w' = live_blocks w
     | Some rpv \<Rightarrow> fresh_device w rpv w')"
proof -
  define b where "b = length (w_blocks w)"
  define w2 where "w2 = w\<lparr>w_blocks := w_blocks w @ [True, True]\<rparr>"
  define infos0 where "infos0 = (map (pe_junk env) [0..<unat num])[0 := zero_vring_info]"
  have l0: "0 + unat num = length infos0" by (simp add: infos0_def)
  have "vq_ptrs (drop 0 infos0) = []"
    unfolding infos0_def using set_update_subset_insert [of "map (pe_junk env) [0..<unat num]" 0 zero_vring_info]
    by (intro vq_ptrs_none) (auto simp: zero_vring_info_def junk)
  from create_vqs_run [OF l0 this, of env role rsc w2]
  obtain ok infos vs where r: "create_vqs_loop env role rsc (unat num) 0 infos0 w2 =
      Inr (ok, infos, w2\<lparr>w_vqs := w_vqs w @ map Some vs\<rparr>)"
    and p: "length infos = unat num" "ok \<longleftrightarrow> length vs = unat num"
      "vq_ptrs infos = [length (w_vqs w)..<length (w_vqs w) + length vs]"
    by (auto simp: w2_def infos0_def)
  define rpv where "rpv = fill_rpvdev role notifyid rsc rsc_io priv notify rst_cb num infos b (Suc b)"
  note upto = create_vdev_allocated [OF al(1) al(2) [unfolded num(1)] num(2) [unfolded num(1)]
    r [unfolded infos0_def w2_def num(1)] rpv_def [unfolded num(1) b_def]]
  have "fresh_device w rpv w'" if "ok" "w_vqs w' = w_vqs w @ map Some vs" "w_blocks w' = w_blocks w @ [True, True]" for w'
    using that p by (auto simp: fresh_device_def rpv_def fill_rpvdev_def b_def)
  moreover have "\<exists>w'. cbind (free_vqs_loop (unat num) 0 infos (w2\<lparr>w_vqs := w_vqs w @ map Some vs\<rparr>)) (\<lambda>w1.
        cbind (free_block (Suc b) w1) (free_block b)) = Inr w' \<and>
      live_vqs w' = live_vqs w \<and> live_blocks w' = live_blocks w"
    using free_fresh [OF p(1,3), of "w2\<lparr>w_vqs := w_vqs w @ map Some vs\<rparr>" vs "w_blocks w"]
    by (simp add: w2_def live_vqs_def live_blocks_def b_def)
  ultimately show ?thesis
    unfolding upto by (cases ok) (fastforce simp: w2_def num(1) b_def)+
qed

text \<open>A device without vrings for which both allocations succeed: the code clears an entry of an array that has none.\<close>

definition no_vrings :: "rproc_env \<Rightarrow> ptr \<Rightarrow> rproc_world \<Rightarrow> bool" where
  "no_vrings env rsc w \<longleftrightarrow> w_mem w (rsc + VDEV_RSC_NUM_OF_VRINGS) = 0 \<and> pe_alloc env Alloc_rpvdev w \<and>
     pe_alloc env (Alloc_vrings_info 0) (w\<lparr>w_blocks := w_blocks w @ [True]\<rparr>)"

lemma create_vdev_result:
  assumes junk: "\<And>i. vi_vq (pe_junk env i) = None" and nv: "\<not> no_vrings env rsc w"
  shows "\<exists>r w'. rproc_virtio_create_vdev env role notifyid rsc rsc_io priv notify rst_cb w = Inr (r, w') \<and>
    (case r of None \<Rightarrow> live_vqs w' = live_vqs w \<and> live_blocks w' = live_blocks w
     | Some rpv \<Rightarrow> fresh_device w rpv w')"
proof -
  define num :: u32 where "num = ucast (w_mem w (rsc + VDEV_RSC_NUM_OF_VRINGS))"
  define w1 where "w1 = w\<lparr>w_blocks := w_blocks w @ [True]\<rparr>"
  consider "\<not> pe_alloc env Alloc_rpvdev w"
    | "pe_alloc env Alloc_rpvdev w" "\<not> pe_alloc env (Alloc_vrings_info (unat num)) w1"
    | "pe_alloc env Alloc_rpvdev w" "pe_alloc env (Alloc_vrings_info (unat num)) w1" by blast
  then show ?thesis
  proof cases
    case 1
    then show ?thesis
      by (intro exI [of _ None] exI [of _ w]) (simp add: rproc_virtio_create_vdev_def alloc_block_def Let_def)
  next
    case 2
    have "rproc_virtio_create_vdev env role notifyid rsc rsc_io priv notify rst_cb w =
        Inr (None, w\<lparr>w_blocks := w_blocks w @ [False]\<rparr>)"
      using 2 by (simp add: rproc_virtio_create_vdev_def alloc_block_def free_block_def num_def w1_def Let_def)
    then show ?thesis
      by (auto simp: live_vqs_def live_blocks_def nth_append less_Suc_eq)
  next
    case 3
    have "0 < unat num"
    proof (rule ccontr)
      assume "\<not> 0 < unat num"
      then have n0: "unat num = 0" by simp
      then have "unat (w_mem w (rsc + VDEV_RSC_NUM_OF_VRINGS)) = 0" by (simp add: num_def unat_ucast_up)
      then have "w_mem w (rsc + VDEV_RSC_NUM_OF_VRINGS) = 0" by (simp add: unat_eq_zero)
      then show False using nv 3 n0 by (simp add: no_vrings_def w1_def)
    qed
    from create_vdev_queues [OF junk num_def this] 3 show ?thesis by (simp add: w1_def)
  qed
qed

text \<open>
  C19. Creating a device either fails and leaves no allocation behind, or gives every vring a queue
  of its own; removing the device then frees exactly what was allocated. Neither call frees anything
  twice. This holds when the entries of \<open>vrings_info\<close> that the code does not clear happen to hold
  NULL queue pointers, and for a resource with at least one vring: for one without vrings the code
  writes behind the array of size zero that it has allocated, unless an allocation fails.
\<close>

theorem create_remove_vdev_no_leak:
  assumes "\<And>i. vi_vq (pe_junk env i) = None"
  shows "if no_vrings env rsc w
    then rproc_virtio_create_vdev env role notifyid rsc rsc_io priv notify rst_cb w = Inl Out_of_bounds
    else \<exists>r w'. rproc_virtio_create_vdev env role notifyid rsc rsc_io priv notify rst_cb w = Inr (r, w') \<and>
      (case r of None \<Rightarrow> live_vqs w' = live_vqs w \<and> live_blocks w' = live_blocks w
       | Some rpv \<Rightarrow>
           distinct (vq_ptrs (vd_vrings_info (rpv_vdev rpv))) \<and>
           length (vq_ptrs (vd_vrings_info (rpv_vdev rpv))) = unat (vd_vrings_num (rpv_vdev rpv)) \<and>
           live_vqs w' = live_vqs w \<union> set (vq_ptrs (vd_vrings_info (rpv_vdev rpv))) \<and>
           (\<exists>w''. rproc_virtio_remove_vdev (Some rpv) w' = Inr w'' \<and>
              live_vqs w'' = live_vqs w \<and> live_blocks w'' = live_blocks w))"
proof (cases "no_vrings env rsc w")
  case True
  then show ?thesis by (simp add: no_vrings_def rproc_virtio_create_vdev_def alloc_block_def wr_def Let_def)
next
  case False
  obtain r w' where c: "rproc_virtio_create_vdev env role notifyid rsc rsc_io priv notify rst_cb w = Inr (r, w')"
    and r: "case r of None \<Rightarrow> live_vqs w' = live_vqs w \<and> live_blocks w' = live_blocks w
      | Some rpv \<Rightarrow> fresh_device w rpv w'"
    using create_vdev_result [OF assms False, of role notifyid rsc_io priv notify rst_cb] by blast
  show ?thesis
  proof (cases r)
    case None
    with c r False show ?thesis by auto
  next
    case (Some rpv)
    with r have f: "fresh_device w rpv w'" by simp
    then have "live_vqs w' = live_vqs w \<union> set (vq_ptrs (vd_vrings_info (rpv_vdev rpv)))"
      by (fastforce simp: fresh_device_def live_vqs_def nth_append split: if_splits)
    then show ?thesis using c Some False remove_fresh [OF f] f by (auto simp: fresh_device_def)
  qed
qed

lemma create_remove_vdev_no_leak_witness:
  "\<exists>r w'. rproc_virtio_create_vdev sample_env0 VIRTIO_DEV_SLAVE 9 0x2100 1 0x7000 0x210 0 sample_world = Inr (r, w') \<and>
    (case r of None \<Rightarrow> live_vqs w' = live_vqs sample_world \<and> live_blocks w' = live_blocks sample_world
     | Some rpv \<Rightarrow>
         distinct (vq_ptrs (vd_vrings_info (rpv_vdev rpv))) \<and>
         length (vq_ptrs (vd_vrings_info (rpv_vdev rpv))) = unat (vd_vrings_num (rpv_vdev rpv)) \<and>
         live_vqs w' = live_vqs sample_world \<union> set (vq_ptrs (vd_vrings_info (rpv_vdev rpv))) \<and>
         (\<exists>w''. rproc_virtio_remove_vdev (Some rpv) w' = Inr w'' \<and>
            live_vqs w'' = live_vqs sample_world \<and> live_blocks w'' = live_blocks sample_world))"
proof -
  have "\<not> no_vrings sample_env0 0x2100 sample_world" by (simp add: no_vrings_def sample_world_def sample_mem_def vdev_rsc_defs)
  moreover have "vi_vq (pe_junk sample_env0 i) = None" for i by (simp add: sample_env0_def zero_vring_info_def)
  ultimately show ?thesis
    using create_remove_vdev_no_leak [of sample_env0 "0x2100" sample_world VIRTIO_DEV_SLAVE 9 1 "0x7000" "0x210" 0] by simp
qed

text \<open>
  The cleanup after a failed allocation of a queue reads the uninitialised entries: when memory
  is short for the first queue and the second entry happens to hold a pointer that is no live queue,
  the code passes it to the deallocator.
\<close>

theorem create_vdev_frees_stray_pointer:
  assumes "pe_alloc env Alloc_rpvdev w"
    and "pe_alloc env (Alloc_vrings_info 2) (w\<lparr>w_blocks := w_blocks w @ [True]\<rparr>)"
    and "\<And>k w'. \<not> pe_alloc env (Alloc_virtqueue k) w'"
    and "w_mem w (rsc + VDEV_RSC_NUM_OF_VRINGS) = 2"
    and "vi_vq (pe_junk env 1) = Some q" and "q \<notin> live_vqs w"
  shows "rproc_virtio_create_vdev env role notifyid rsc rsc_io priv notify rst_cb w = Inl Bad_pointer"
proof -
  have none: "alloc_vq env k w' = (None, w')" for k w'
    by (simp add: alloc_vq_def virtqueue_allocate_def assms(3))
  have bad: "get_vqp (Some q) w2 = Inl Bad_pointer" if "w_vqs w2 = w_vqs w" for w2
    using assms(6) that by (auto simp: get_vqp_def live_vqs_def split: option.splits)
  have two: "unat (ucast (w_mem w (rsc + VDEV_RSC_NUM_OF_VRINGS)) :: u32) = 2" by (simp add: assms(4))
  have infos: "(map (pe_junk env) [0..<2])[0 := zero_vring_info] = [zero_vring_info, pe_junk env 1]"
    by (simp add: upt_rec)
  have loop: "create_vqs_loop env role rsc 2 0 [zero_vring_info, pe_junk env 1] w2 =
      Inr (False, [zero_vring_info, pe_junk env 1], w2)" for w2
    by (simp add: numeral_2_eq_2 none)
  have free: "free_vqs_loop 2 0 [zero_vring_info, pe_junk env 1] w2 = Inl Bad_pointer"
    if "w_vqs w2 = w_vqs w" for w2
    using assms(5) bad [OF that] by (simp add: numeral_2_eq_2 free_vq_def zero_vring_info_def)
  show ?thesis
    by (subst create_vdev_allocated [where ok = False and infos = "[zero_vring_info, pe_junk env 1]" and
          wl = "w\<lparr>w_blocks := w_blocks w @ [True, True]\<rparr>", OF assms(1) _ _ _ refl])
      (simp_all add: two assms(2) infos [simplified] loop [simplified] free [simplified])
qed

lemma create_vdev_frees_stray_pointer_witness:
  "rproc_virtio_create_vdev
     (sample_env0\<lparr>pe_alloc := (\<lambda>r w. case r of Alloc_virtqueue k \<Rightarrow> False | _ \<Rightarrow> True),
                  pe_junk := (\<lambda>i. zero_vring_info\<lparr>vi_vq := Some 5\<rparr>)\<rparr>)
     VIRTIO_DEV_MASTER 9 0x2100 1 0x7000 0x210 0 sample_world = Inl Bad_pointer"
  by (rule create_vdev_frees_stray_pointer [where q = 5])
    (simp_all add: sample_world_def sample_mem_def vdev_rsc_defs live_vqs_def)

end
