(* ===== verification/Rproc_Mem_Props.thy ===== *)
theory Rproc_Mem_Props
  imports Remoteproc Rproc_Virtio_Alloc
begin

text \<open>
  Properties of the memory regions, the identifiers and the notifications of a remote processor:
  the lookup of a region against a reference definition, the translation of addresses, the
  allocation of identifiers on any bitmap that keeps the laws of libmetal, and the callbacks that a
  notification runs.
\<close>

subsection \<open>Looking up a region\<close>

text \<open>What makes a region match: its name, else the physical, the device or the virtual address.\<close>

definition mem_matches :: "io_ops \<Rightarrow> u8 list option \<Rightarrow> u64 \<Rightarrow> u64 \<Rightarrow> ptr \<Rightarrow> u64 \<Rightarrow> remoteproc_mem \<Rightarrow> bool" where
  "mem_matches io name pa da va sz m \<longleftrightarrow>
     (case name of
        Some n \<Rightarrow> cstrn (length n) (rm_name m) = cstrn (length n) n
      | None \<Rightarrow>
          if pa \<noteq> METAL_BAD_PHYS then rm_pa m \<le> pa \<and> pa + sz \<le> rm_pa m + rm_size m
          else if da \<noteq> METAL_BAD_PHYS then rm_da m \<le> da \<and> da + sz \<le> rm_da m + rm_size m
          else va \<noteq> NULL \<and> io_virt_to_offset io (rm_io m) va \<noteq> METAL_BAD_OFFSET)"

lemma find_False [simp]: "find (\<lambda>x. False) xs = None"
  by (induction xs) auto

lemma get_mem_loop_eq: "get_mem_loop io name pa da va sz ms = find (mem_matches io name pa da va sz) ms"
  by (induction ms) (auto simp: mem_matches_def strncmp_eq_def Let_def split: option.splits)

lemma get_mem_eq:
  "remoteproc_get_mem io rp name pa da va sz =
     (case name of Some n \<Rightarrow> if RPROC_MAX_NAME_LEN < length n then None
                              else find (mem_matches io name pa da va sz) (rp_mems rp)
      | None \<Rightarrow> find (mem_matches io name pa da va sz) (rp_mems rp))"
  by (auto simp: remoteproc_get_mem_def get_mem_loop_eq split: option.splits)

text \<open>
  \<open>remoteproc_get_mem\<close> returns the first registered region that matches the key it is given: the
  name when there is one, otherwise the physical address, the device address or the virtual address,
  in this order; a name that is too long matches nothing.
\<close>

theorem get_mem_first_match:
  "remoteproc_get_mem io rp name pa da va sz =
     (if (\<exists>n. name = Some n \<and> RPROC_MAX_NAME_LEN < length n) then None
      else find (mem_matches io name pa da va sz) (rp_mems rp))"
  by (auto simp: get_mem_eq split: option.splits)

subsection \<open>Mapping memory\<close>

definition pa_range :: "remoteproc_mem \<Rightarrow> nat set" where
  "pa_range m = {unat (rm_pa m)..<unat (rm_pa m) + unat (rm_size m)}"

definition da_range :: "remoteproc_mem \<Rightarrow> nat set" where
  "da_range m = {unat (rm_da m)..<unat (rm_da m) + unat (rm_size m)}"

text \<open>Regions that do not wrap around and do not overlap.\<close>

definition mems_ok :: "remoteproc_mem list \<Rightarrow> bool" where
  "mems_ok ms \<longleftrightarrow>
     (\<forall>m \<in> set ms. unat (rm_pa m) + unat (rm_size m) < 2 ^ 64 \<and> unat (rm_da m) + unat (rm_size m) < 2 ^ 64 \<and>
        (\<forall>m' \<in> set ms. m \<noteq> m' \<longrightarrow> pa_range m \<inter> pa_range m' = {} \<and> da_range m \<inter> da_range m' = {}))"

lemma find_unique: "x \<in> set xs \<Longrightarrow> P x \<Longrightarrow> (\<And>y. y \<in> set xs \<Longrightarrow> P y \<Longrightarrow> y = x) \<Longrightarrow> find P xs = Some x"
proof (induction xs)
  case (Cons a xs)
  then show ?case by (cases "P a") (metis find.simps(2) list.set_intros set_ConsD)+
qed simp

lemma range_matches:
  fixes a s start n :: u64
  assumes "unat start + unat n < 2 ^ 64" and "unat a + unat s < 2 ^ 64"
  shows "start \<le> a \<and> a + s \<le> start + n \<longleftrightarrow> unat start \<le> unat a \<and> unat a + unat s \<le> unat start + unat n"
  using assms by (simp add: word_le_nat_alt unat_plus_lt)

lemma not_bad_phys: "unat a < 2 ^ 64 - 1 \<Longrightarrow> a \<noteq> METAL_BAD_PHYS"
  by (auto simp: METAL_BAD_PHYS_def unsigned_minus_1_eq_mask mask_eq_exp_minus_1)

lemma get_mem_da:
  assumes "mems_ok (rp_mems rp)" and "m \<in> set (rp_mems rp)" and "0 < unat sz"
    and "unat (rm_da m) \<le> unat da" and "unat da + unat sz \<le> unat (rm_da m) + unat (rm_size m)"
  shows "remoteproc_get_mem io rp None METAL_BAD_PHYS da va sz = Some m"
proof -
  have b: "unat da + unat sz < 2 ^ 64" using assms by (auto simp: mems_ok_def)
  then have nb: "da \<noteq> METAL_BAD_PHYS" using assms(3) by (intro not_bad_phys) simp
  have i: "mem_matches io None METAL_BAD_PHYS da va sz m' \<longleftrightarrow>
      unat (rm_da m') \<le> unat da \<and> unat da + unat sz \<le> unat (rm_da m') + unat (rm_size m')"
    if "m' \<in> set (rp_mems rp)" for m'
    using that assms(1) b nb range_matches [of "rm_da m'" "rm_size m'" da sz] by (simp add: mem_matches_def mems_ok_def)
  have "find (mem_matches io None METAL_BAD_PHYS da va sz) (rp_mems rp) = Some m"
  proof (rule find_unique [OF assms(2)])
    show "mem_matches io None METAL_BAD_PHYS da va sz m" using i assms by simp
    fix m' assume m': "m' \<in> set (rp_mems rp)" "mem_matches io None METAL_BAD_PHYS da va sz m'"
    then have "unat da \<in> da_range m \<inter> da_range m'" using i assms(3-5) by (simp add: da_range_def)
    then show "m' = m" using assms(1,2) m'(1) unfolding mems_ok_def by blast
  qed
  then show ?thesis by (simp add: get_mem_eq)
qed

lemma get_mem_pa:
  assumes "mems_ok (rp_mems rp)" and "m \<in> set (rp_mems rp)" and "0 < unat sz"
    and "unat (rm_pa m) \<le> unat pa" and "unat pa + unat sz \<le> unat (rm_pa m) + unat (rm_size m)"
  shows "remoteproc_get_mem io rp None pa da va sz = Some m"
proof -
  have b: "unat pa + unat sz < 2 ^ 64" using assms by (auto simp: mems_ok_def)
  then have nb: "pa \<noteq> METAL_BAD_PHYS" using assms(3) by (intro not_bad_phys) simp
  have i: "mem_matches io None pa da va sz m' \<longleftrightarrow>
      unat (rm_pa m') \<le> unat pa \<and> unat pa + unat sz \<le> unat (rm_pa m') + unat (rm_size m')"
    if "m' \<in> set (rp_mems rp)" for m'
    using that assms(1) b nb range_matches [of "rm_pa m'" "rm_size m'" pa sz] by (simp add: mem_matches_def mems_ok_def)
  have "find (mem_matches io None pa da va sz) (rp_mems rp) = Some m"
  proof (rule find_unique [OF assms(2)])
    show "mem_matches io None pa da va sz m" using i assms by simp
    fix m' assume m': "m' \<in> set (rp_mems rp)" "mem_matches io None pa da va sz m'"
    then have "unat pa \<in> pa_range m \<inter> pa_range m'" using i assms(3-5) by (simp add: pa_range_def)
    then show "m' = m" using assms(1,2) m'(1) unfolding mems_ok_def by blast
  qed
  then show ?thesis by (simp add: get_mem_eq)
qed

text \<open>The physical address of a device address inside a region.\<close>

lemma datopa_inside:
  assumes "mems_ok (rp_mems rp)" and "m \<in> set (rp_mems rp)" and "0 < unat sz"
    and "unat (rm_da m) \<le> unat da" and "unat da + unat sz \<le> unat (rm_da m) + unat (rm_size m)"
  shows "unat (remoteproc_datopa m da) = unat (rm_pa m) + (unat da - unat (rm_da m))"
    and "unat (da - rm_da m) = unat da - unat (rm_da m)"
    and "remoteproc_datopa m da - rm_pa m = da - rm_da m"
proof -
  have w: "unat (rm_pa m) + unat (rm_size m) < 2 ^ 64" using assms(1,2) by (simp add: mems_ok_def)
  show d: "unat (da - rm_da m) = unat da - unat (rm_da m)"
    using assms(4) by (simp add: unat_sub word_le_nat_alt)
  show p: "remoteproc_datopa m da - rm_pa m = da - rm_da m" by (simp add: remoteproc_datopa_def)
  have "unat (rm_pa m + (da - rm_da m)) = unat (rm_pa m) + unat (da - rm_da m)"
    by (rule unat_plus_lt) (use w assms d in simp)
  then show "unat (remoteproc_datopa m da) = unat (rm_pa m) + (unat da - unat (rm_da m))"
    by (simp add: remoteproc_datopa_def d add_diff_eq)
qed

text \<open>
  C23. Mapping a block that lies in a registered region gives, from its device address, the physical
  address and the pointer of the same place in the region, and from the physical address the same
  pointer and the device address back; the pointer translates to the physical address. The platform
  is not asked and nothing changes. Regions must not overlap or wrap around.
\<close>

theorem mmap_roundtrip:
  assumes "mems_ok (rp_mems rp)" and "m \<in> set (rp_mems rp)" and "0 < unat sz"
    and "unat (rm_da m) \<le> unat da" and "unat da + unat sz \<le> unat (rm_da m) + unat (rm_size m)"
    and "metal_region io (rm_io m) base (rm_pa m) (unat (rm_size m))"
  shows "\<exists>pa. remoteproc_mmap io ops (Some rp) (Some METAL_BAD_PHYS) (Some da) sz attr (Some iop) w =
        Inr (base + (da - rm_da m), Some pa, Some da, Some (rm_io m), Some rp, w) \<and>
      remoteproc_mmap io ops (Some rp) (Some pa) (Some METAL_BAD_PHYS) sz attr (Some iop) w =
        Inr (base + (da - rm_da m), Some pa, Some da, Some (rm_io m), Some rp, w) \<and>
      unat pa - unat (rm_pa m) = unat da - unat (rm_da m) \<and>
      io_virt_to_phys io (rm_io m) (base + (da - rm_da m)) = pa"
proof -
  define pa where "pa = remoteproc_datopa m da"
  note d = datopa_inside [OF assms(1-5), folded pa_def]
  have w: "unat (rm_pa m) + unat (rm_size m) < 2 ^ 64" using assms(1,2) by (simp add: mems_ok_def)
  have off: "unat (pa - rm_pa m) < unat (rm_size m)" using assms(3-5) d(2,3) by simp
  have nb: "pa \<noteq> METAL_BAD_PHYS" by (rule not_bad_phys) (use d(1) w assms(3-5) in simp)
  have nd: "da \<noteq> METAL_BAD_PHYS" by (rule not_bad_phys) (use assms(1-5) in \<open>auto simp: mems_ok_def\<close>)
  have g1: "remoteproc_get_mem io rp None METAL_BAD_PHYS da NULL sz = Some m" by (rule get_mem_da [OF assms(1-5)])
  have g2: "remoteproc_get_mem io rp None pa METAL_BAD_PHYS NULL sz = Some m"
    by (rule get_mem_pa [OF assms(1-3)]) (use d(1) assms(4,5) in simp_all)
  have v: "io_phys_to_virt io (rm_io m) pa = base + (da - rm_da m)"
    using metal_region.phys_to_virt [OF assms(6) off] d(3) by simp
  have "io_virt_to_phys io (rm_io m) (base + (da - rm_da m)) = rm_pa m + (da - rm_da m)"
    using metal_region.virt_to_phys [OF assms(6), of "base + (da - rm_da m)"] off d(3) by simp
  moreover have "rm_pa m + (da - rm_da m) = pa" "remoteproc_patoda m pa = da"
    by (simp_all add: pa_def remoteproc_datopa_def remoteproc_patoda_def add_diff_eq)
  ultimately show ?thesis
    using g1 g2 v nb nd d(1) by (intro exI [of _ pa]) (simp add: remoteproc_mmap_def pa_def [symmetric])
qed

text \<open>A processor with one region of 256 bytes.\<close>

definition sample_mem_region :: remoteproc_mem where
  "sample_mem_region = \<lparr>rm_da = 0x10, rm_pa = 0x9000, rm_size = 0x100, rm_name = [], rm_io = 1, rm_blocks = []\<rparr>"

lemma mmap_roundtrip_witness:
  "\<forall>ops. \<exists>pa. remoteproc_mmap (flat_region 0x2000 0x9000 0x100) ops
          (Some (zero_remoteproc\<lparr>rp_mems := [sample_mem_region]\<rparr>)) (Some METAL_BAD_PHYS) (Some 0x20) 8 0 (Some NULL) sample_world =
        Inr (0x2000 + (0x20 - rm_da sample_mem_region), Some pa, Some 0x20, Some (rm_io sample_mem_region),
          Some (zero_remoteproc\<lparr>rp_mems := [sample_mem_region]\<rparr>), sample_world) \<and>
      remoteproc_mmap (flat_region 0x2000 0x9000 0x100) ops
          (Some (zero_remoteproc\<lparr>rp_mems := [sample_mem_region]\<rparr>)) (Some pa) (Some METAL_BAD_PHYS) 8 0 (Some NULL) sample_world =
        Inr (0x2000 + (0x20 - rm_da sample_mem_region), Some pa, Some 0x20, Some (rm_io sample_mem_region),
          Some (zero_remoteproc\<lparr>rp_mems := [sample_mem_region]\<rparr>), sample_world) \<and>
      unat pa - unat (rm_pa sample_mem_region) = unat (0x20::u64) - unat (rm_da sample_mem_region) \<and>
      io_virt_to_phys (flat_region 0x2000 0x9000 0x100) (rm_io sample_mem_region)
        (0x2000 + (0x20 - rm_da sample_mem_region)) = pa"
  by (intro allI mmap_roundtrip)
    (use flat.metal_region_axioms [where b = "0x2000" and p = "0x9000" and n = "0x100" and io = "1"] in
      \<open>simp_all add: sample_mem_region_def mems_ok_def zero_remoteproc_def\<close>)

subsection \<open>Identifiers\<close>

lemma allocate_id_wish:
  assumes "metal_bitmap (pe_bitmap env) bits 64 valid" and "valid (rp_bitmap rp)" and True: "unat i < 64"
  shows "remoteproc_allocate_id env i (i + 1) rp =
       (if unat i \<in> bits (rp_bitmap rp) then Inr (RSC_NOTIFY_ID_ANY, rp)
        else Inr (i, rp\<lparr>rp_bitmap := set_bit_at (pe_bitmap env) (rp_bitmap rp) (unat i)\<rparr>))"
proof -
  let ?bm = "rp_bitmap rp"
  let ?k = "next_clear_bit (pe_bitmap env) (rp_bitmap rp) (unat i) (unat i + 1)"
  have ni: "i \<noteq> RSC_NOTIFY_ID_ANY" using True by (auto simp: RSC_NOTIFY_ID_ANY_def)
  have i1: "unat (i + 1) = unat i + 1" using True unat_plus_lt [of i 1] by simp
  then have "i + 1 \<noteq> 0" by (metis add_is_0 unat_0 zero_neq_one)
  have m: "min 64 (unat i + 1) = unat i + 1" "\<not> 64 \<le> i" "\<not> 64 < i + 1"
    using True i1 by (auto simp: word_le_nat_alt word_less_nat_alt)
  have k: "?k = (if unat i \<in> bits ?bm then unat i + 1 else unat i)"
    using metal_bitmap.next_clear_from_start [OF assms(1,2), of "unat i" "unat i + 1"] True
    by (auto simp: le_Suc_eq)
  show "remoteproc_allocate_id env i (i + 1) rp =
     (if unat i \<in> bits ?bm then Inr (RSC_NOTIFY_ID_ANY, rp)
      else Inr (i, rp\<lparr>rp_bitmap := set_bit_at (pe_bitmap env) ?bm (unat i)\<rparr>))"
    using ni \<open>i + 1 \<noteq> 0\<close> m k i1 True by (simp add: remoteproc_allocate_id_def Let_def)
qed

text \<open>
  C32. Allocation of identifiers on a bitmap of 64 bits. Without a wish the lowest free identifier is
  allocated, and \<open>RSC_NOTIFY_ID_ANY\<close> is returned when there is none. A wish below 64 is granted
  exactly when the identifier is free. A wish from 64 on leaves the bitmap.
\<close>

theorem allocate_id_exact:
  assumes "metal_bitmap (pe_bitmap env) bits 64 valid" and "valid (rp_bitmap rp)"
  shows "(if bits (rp_bitmap rp) = {..<64}
          then remoteproc_allocate_id env RSC_NOTIFY_ID_ANY 0 rp = Inr (RSC_NOTIFY_ID_ANY, rp)
          else \<exists>n bm. n < 64 \<and> n \<notin> bits (rp_bitmap rp) \<and> {..<n} \<subseteq> bits (rp_bitmap rp) \<and>
            valid bm \<and> bits bm = insert n (bits (rp_bitmap rp)) \<and>
            remoteproc_allocate_id env RSC_NOTIFY_ID_ANY 0 rp = Inr (of_nat n, rp\<lparr>rp_bitmap := bm\<rparr>)) \<and>
         (if unat i < 64 then
            (if unat i \<in> bits (rp_bitmap rp)
             then remoteproc_allocate_id env i (i + 1) rp = Inr (RSC_NOTIFY_ID_ANY, rp)
             else \<exists>bm. valid bm \<and> bits bm = insert (unat i) (bits (rp_bitmap rp)) \<and>
               remoteproc_allocate_id env i (i + 1) rp = Inr (i, rp\<lparr>rp_bitmap := bm\<rparr>))
          else i \<noteq> RSC_NOTIFY_ID_ANY \<longrightarrow> remoteproc_allocate_id env i (i + 1) rp = Inl Out_of_bounds)"
    (is "?any \<and> ?one")
proof
  let ?bm = "rp_bitmap rp" and ?n = "next_clear_bit (pe_bitmap env) (rp_bitmap rp) 0 64"
  note set = metal_bitmap.set_bits [OF assms]
  have n: "?n \<le> 64" "?n < 64 \<longrightarrow> ?n \<notin> bits ?bm" "{..<?n} \<subseteq> bits ?bm"
    using metal_bitmap.next_clear [OF assms, of 64] by auto
  have full: "?n = 64 \<longleftrightarrow> bits ?bm = {..<64}" by (rule metal_bitmap.next_clear_full [OF assms])
  have "remoteproc_allocate_id env RSC_NOTIFY_ID_ANY 0 rp =
     (if ?n \<noteq> 64 then Inr (of_nat ?n, rp\<lparr>rp_bitmap := set_bit_at (pe_bitmap env) ?bm ?n\<rparr>)
      else Inr (RSC_NOTIFY_ID_ANY, rp))"
    using n(1) by (simp add: remoteproc_allocate_id_def METAL_BITS_PER_ULONG_def Let_def)
  then show ?any
    using n full set [of ?n]
    by (cases "bits ?bm = {..<64}")
      (simp, simp only: if_False, intro exI [of _ ?n] exI [of _ "set_bit_at (pe_bitmap env) ?bm ?n"], simp)
  show ?one
  proof (cases "unat i < 64")
    case True
    with allocate_id_wish [OF assms True] metal_bitmap.set_bits [OF assms True] show ?thesis by auto
  next
    case False
    show ?thesis
    proof (simp only: False if_False, intro impI)
      assume ni: "i \<noteq> RSC_NOTIFY_ID_ANY"
      then have "unat i \<noteq> 2 ^ 32 - 1" by (auto simp: RSC_NOTIFY_ID_ANY_def word_unat_eq_iff)
      then have i1: "unat (i + 1) = unat i + 1"
        using unsigned_less [of i, where 'a = nat] by (intro trans [OF unat_plus_lt]) auto
      then have "i + 1 \<noteq> 0" by (metis add_is_0 unat_0 zero_neq_one)
      moreover have "i < i + 1" using i1 by (simp add: word_less_nat_alt)
      moreover have "64 \<le> i" using False by (simp add: word_le_nat_alt)
      ultimately show "remoteproc_allocate_id env i (i + 1) rp = Inl Out_of_bounds"
        using ni by (simp add: remoteproc_allocate_id_def Let_def)
    qed
  qed
qed

lemma allocate_id_exact_witness:
  "(if long_bits (rp_bitmap zero_remoteproc) = {..<64}
    then remoteproc_allocate_id sample_env0 RSC_NOTIFY_ID_ANY 0 zero_remoteproc = Inr (RSC_NOTIFY_ID_ANY, zero_remoteproc)
    else \<exists>n bm. n < 64 \<and> n \<notin> long_bits (rp_bitmap zero_remoteproc) \<and> {..<n} \<subseteq> long_bits (rp_bitmap zero_remoteproc) \<and>
      length bm = 1 \<and> long_bits bm = insert n (long_bits (rp_bitmap zero_remoteproc)) \<and>
      remoteproc_allocate_id sample_env0 RSC_NOTIFY_ID_ANY 0 zero_remoteproc =
        Inr (of_nat n, zero_remoteproc\<lparr>rp_bitmap := bm\<rparr>)) \<and>
   (if unat (100 :: u32) < 64 then
      (if unat (100 :: u32) \<in> long_bits (rp_bitmap zero_remoteproc)
       then remoteproc_allocate_id sample_env0 100 (100 + 1) zero_remoteproc = Inr (RSC_NOTIFY_ID_ANY, zero_remoteproc)
       else \<exists>bm. length bm = 1 \<and> long_bits bm = insert (unat (100 :: u32)) (long_bits (rp_bitmap zero_remoteproc)) \<and>
         remoteproc_allocate_id sample_env0 100 (100 + 1) zero_remoteproc = Inr (100, zero_remoteproc\<lparr>rp_bitmap := bm\<rparr>))
    else (100 :: u32) \<noteq> RSC_NOTIFY_ID_ANY \<longrightarrow>
      remoteproc_allocate_id sample_env0 100 (100 + 1) zero_remoteproc = Inl Out_of_bounds)"
  by (rule allocate_id_exact)
    (use longs.metal_bitmap_axioms [of 1] in \<open>simp_all add: sample_env0_def zero_remoteproc_def\<close>)

subsection \<open>Notifications\<close>

text \<open>The callbacks of the queues, the calls that one device makes, and all calls in order.\<close>

definition vq_callbacks :: "rproc_world \<Rightarrow> ptr option option list" where
  "vq_callbacks w = map (map_option virtqueue_notification) (w_vqs w)"

definition vring_calls :: "ptr option option list \<Rightarrow> u32 \<Rightarrow> virtio_vring_info \<Rightarrow> (ptr \<times> nat) list" where
  "vring_calls cbs notifyid info =
     (if vi_notifyid info = notifyid \<or> notifyid = RSC_NOTIFY_ID_ANY
      then (case vi_vq info of Some q \<Rightarrow> (case cbs ! q of Some (Some cb) \<Rightarrow> [(cb, q)] | _ \<Rightarrow> []) | None \<Rightarrow> [])
      else [])"

definition vdev_calls :: "ptr option option list \<Rightarrow> u32 \<Rightarrow> remoteproc_virtio \<Rightarrow> (ptr \<times> nat) list" where
  "vdev_calls cbs notifyid v =
     (if vd_notifyid (rpv_vdev v) = notifyid then []
      else concat (map (vring_calls cbs notifyid) (vd_vrings_info (rpv_vdev v))))"

fun run_calls :: "rproc_env \<Rightarrow> (ptr \<times> nat) list \<Rightarrow> rproc_world \<Rightarrow> rproc_world cres" where
  "run_calls env [] w = Inr w"
| "run_calls env ((cb, q) # cs) w = cbind (pe_callback env cb q w) (run_calls env cs)"

lemma run_calls_append: "run_calls env (xs @ ys) w = cbind (run_calls env xs w) (run_calls env ys)"
  by (induction env xs w rule: run_calls.induct) (auto simp: cbind_assoc intro: cbind_cong)

text \<open>A device whose vrings all have live queues.\<close>

definition vdev_live :: "nat set \<Rightarrow> remoteproc_virtio \<Rightarrow> bool" where
  "vdev_live live v \<longleftrightarrow> length (vd_vrings_info (rpv_vdev v)) = unat (vd_vrings_num (rpv_vdev v)) \<and>
     (\<forall>info \<in> set (vd_vrings_info (rpv_vdev v)). \<exists>q. vi_vq info = Some q \<and> q \<in> live)"

definition callbacks_keep :: "rproc_env \<Rightarrow> bool" where
  "callbacks_keep env \<longleftrightarrow> (\<forall>cb q w w'. pe_callback env cb q w = Inr w' \<longrightarrow> vq_callbacks w' = vq_callbacks w)"

lemma live_vqs_callbacks: "live_vqs w = {i. i < length (vq_callbacks w) \<and> vq_callbacks w ! i \<noteq> None}"
  by (auto simp: live_vqs_def vq_callbacks_def)

lemma run_calls_keep: "callbacks_keep env \<Longrightarrow> run_calls env cs w = Inr w' \<Longrightarrow> vq_callbacks w' = vq_callbacks w"
  by (induction env cs w arbitrary: w' rule: run_calls.induct) (auto simp: cbind_eq_Inr callbacks_keep_def)

lemma notified_loop_calls:
  assumes "callbacks_keep env"
  shows "i + n = length (vd_vrings_info v) \<Longrightarrow>
    \<forall>info \<in> set (vd_vrings_info v). \<exists>q. vi_vq info = Some q \<and> q \<in> live_vqs w \<Longrightarrow>
    notified_loop env v notifyid n i w =
      run_calls env (concat (map (vring_calls (vq_callbacks w) notifyid) (drop i (vd_vrings_info v)))) w"
proof (induction n arbitrary: i w)
  case (Suc n)
  let ?info = "vd_vrings_info v ! i"
  have i: "i < length (vd_vrings_info v)" using Suc.prems(1) by simp
  then have m: "?info \<in> set (vd_vrings_info v)" by simp
  with Suc.prems(2) obtain q where q: "vi_vq ?info = Some q" "q \<in> live_vqs w" by blast
  then obtain vq where vq: "get_vqp (Some q) w = Inr vq" "vq_callbacks w ! q = Some (virtqueue_notification vq)"
    by (auto simp: live_vqs_def get_vqp_def vq_callbacks_def)
  have d: "drop i (vd_vrings_info v) = ?info # drop (Suc i) (vd_vrings_info v)"
    using i by (simp add: Cons_nth_drop_Suc)
  have IH: "notified_loop env v notifyid n (Suc i) w' =
      run_calls env (concat (map (vring_calls (vq_callbacks w) notifyid) (drop (Suc i) (vd_vrings_info v)))) w'"
    if "vq_callbacks w' = vq_callbacks w" for w'
    using Suc.IH [of "Suc i" w'] Suc.prems that by (simp add: live_vqs_callbacks)
  show ?case
  proof (cases "virtqueue_notification vq")
    case None
    then show ?thesis using i q vq d IH [of w] by (simp add: vring_calls_def [of _ _ ?info])
  next
    case (Some cb)
    have "cbind (pe_callback env cb q w) (notified_loop env v notifyid n (Suc i)) =
        cbind (pe_callback env cb q w)
          (run_calls env (concat (map (vring_calls (vq_callbacks w) notifyid) (drop (Suc i) (vd_vrings_info v)))))"
      using assms IH by (intro cbind_cong refl) (auto simp: callbacks_keep_def)
    then show ?thesis using Some i q vq d IH [of w] by (simp add: vring_calls_def [of _ _ ?info])
  qed
qed simp

lemma get_notification_calls:
  assumes "callbacks_keep env"
  shows "\<forall>v \<in> set vs. vdev_live (live_vqs w) v \<Longrightarrow>
    get_notification_loop env notifyid vs w =
      cbind (run_calls env (concat (map (vdev_calls (vq_callbacks w) notifyid) vs)) w) (\<lambda>w'. Inr (0, w'))"
proof (induction vs arbitrary: w)
  case (Cons v vs)
  have v: "rproc_virtio_notified env (Some v) notifyid w =
      cbind (run_calls env (vdev_calls (vq_callbacks w) notifyid v) w) (\<lambda>w'. Inr (0, w'))"
    using Cons.prems notified_loop_calls [OF assms, of 0 _ "rpv_vdev v" w notifyid]
    by (simp add: rproc_virtio_notified_def vdev_live_def vdev_calls_def)
  have "cbind (run_calls env (vdev_calls (vq_callbacks w) notifyid v) w) (get_notification_loop env notifyid vs) =
      cbind (run_calls env (vdev_calls (vq_callbacks w) notifyid v) w) (\<lambda>w1.
        cbind (run_calls env (concat (map (vdev_calls (vq_callbacks w) notifyid) vs)) w1) (\<lambda>w'. Inr (0, w')))"
  proof (intro cbind_cong refl)
    fix w1 assume "run_calls env (vdev_calls (vq_callbacks w) notifyid v) w = Inr w1"
    from run_calls_keep [OF assms this] Cons.IH [of w1] Cons.prems
    show "get_notification_loop env notifyid vs w1 =
        cbind (run_calls env (concat (map (vdev_calls (vq_callbacks w) notifyid) vs)) w1) (\<lambda>w'. Inr (0, w'))"
      by (simp add: live_vqs_callbacks)
  qed
  then show ?case by (simp add: v run_calls_append cbind_assoc)
qed simp

text \<open>
  C25. A notification runs exactly the callbacks of the vrings with its identifier, or of all vrings
  when it is \<open>RSC_NOTIFY_ID_ANY\<close>, in the order of the devices and of their vrings, and returns
  success; a device whose own identifier is notified runs none.
\<close>

theorem notification_runs_callbacks:
  assumes "callbacks_keep env" and "\<forall>v \<in> set (rp_vdevs rp). vdev_live (live_vqs w) v"
  shows "remoteproc_get_notification env notifyid rp w =
    cbind (run_calls env (concat (map (vdev_calls (vq_callbacks w) notifyid) (rp_vdevs rp))) w) (\<lambda>w'. Inr (0, w'))"
  unfolding remoteproc_get_notification_def by (rule get_notification_calls [OF assms])

text \<open>A callback that leaves a trace, and a processor with one device and two queues, one with a callback.\<close>

definition sample_vq :: "ptr \<Rightarrow> virtqueue" where
  "sample_vq cb = (the (virtqueue_allocate True 0))\<lparr>vq_callback := cb\<rparr>"

definition trace_env :: rproc_env where
  "trace_env = sample_env0\<lparr>pe_callback := (\<lambda>cb q w. Inr (w\<lparr>w_notes := w_notes w @ [(cb, of_nat q, 0)]\<rparr>))\<rparr>"

definition notify_world :: rproc_world where
  "notify_world = sample_world\<lparr>w_vqs := [Some (sample_vq 0x500), Some (sample_vq NULL)]\<rparr>"

definition notify_dev :: remoteproc_virtio where
  "notify_dev = sample_rpv 0x2000 VIRTIO_DEV_MASTER 9
     [zero_vring_info\<lparr>vi_vq := Some 0, vi_notifyid := 4\<rparr>, zero_vring_info\<lparr>vi_vq := Some 1, vi_notifyid := 5\<rparr>]"

lemma notification_runs_callbacks_witness:
  "remoteproc_get_notification trace_env 4 (zero_remoteproc\<lparr>rp_vdevs := [notify_dev]\<rparr>) notify_world =
     Inr (0, notify_world\<lparr>w_notes := w_notes notify_world @ [(0x500, 0, 0)]\<rparr>)"
  by (subst notification_runs_callbacks)
    (simp_all add: callbacks_keep_def trace_env_def vdev_live_def notify_dev_def notify_world_def sample_rpv_def
      fill_rpvdev_def live_vqs_def vq_callbacks_def vdev_calls_def vring_calls_def sample_vq_def virtqueue_notification_def
      zero_vring_info_def RSC_NOTIFY_ID_ANY_def less_Suc_eq)

end
