(* ===== verification/Rsc_Table_Props.thy ===== *)
theory Rsc_Table_Props
  imports Rsc_Table Rproc_Mem_Props
begin

text \<open>
  Properties of the resource table parser: the search for a resource against a reference definition,
  where the check of the length of a table fails, the identifiers of a virtio device, and the error
  codes in pointers.
\<close>

subsection \<open>Error codes in pointers\<close>

text \<open>
  An error code in a pointer reads back as itself, and a pointer that was made from a code counts
  as an error exactly for the codes from -16 to -1; all codes that the functions return are among
  these.
\<close>

theorem err_ptr_roundtrip:
  assumes "- (2 ^ 63) \<le> e" and "e < 2 ^ 63"
  shows "RPROC_PTR_ERR (RPROC_ERR_PTR e) = e \<and>
    (RPROC_IS_ERR (RPROC_ERR_PTR e) \<longleftrightarrow> - RPROC_EMAX \<le> e \<and> e < 0)"
proof
  have s: "sint (word_of_int e :: ptr) = e" using assms by (simp add: signed_of_int signed_take_bit_int_eq_self)
  then show "RPROC_PTR_ERR (RPROC_ERR_PTR e) = e" by (simp add: RPROC_PTR_ERR_def RPROC_ERR_PTR_def)
  have u: "uint (word_of_int e :: ptr) = (if 0 \<le> e then e else e + 2 ^ 64)"
  proof (cases "0 \<le> e")
    case False
    have "e mod 2 ^ 64 = (e + 2 ^ 64) mod 2 ^ 64" by simp
    also have "\<dots> = e + 2 ^ 64" using False assms(1) by (intro mod_pos_pos_trivial) auto
    finally show ?thesis using False by (simp add: uint_word_of_int)
  qed (use assms in \<open>simp add: uint_word_of_int\<close>)
  have "uint (word_of_int (- RPROC_EMAX) :: ptr) = 2 ^ 64 - 16" by (simp add: RPROC_EMAX_def)
  then show "RPROC_IS_ERR (RPROC_ERR_PTR e) \<longleftrightarrow> - RPROC_EMAX \<le> e \<and> e < 0"
    using u assms by (auto simp: RPROC_IS_ERR_def RPROC_ERR_PTR_def word_le_def RPROC_EMAX_def)
qed

lemma err_ptr_roundtrip_witness:
  "RPROC_PTR_ERR (RPROC_ERR_PTR (- RPROC_ERR_LOADER_STATE)) = - RPROC_ERR_LOADER_STATE \<and>
    (RPROC_IS_ERR (RPROC_ERR_PTR (- RPROC_ERR_LOADER_STATE)) \<longleftrightarrow>
      - RPROC_EMAX \<le> - RPROC_ERR_LOADER_STATE \<and> - RPROC_ERR_LOADER_STATE < 0)"
  by (rule err_ptr_roundtrip) (simp_all add: RPROC_ERR_LOADER_STATE_def)

subsection \<open>Searching a resource\<close>

text \<open>The entries of a type, by position.\<close>

definition entries_of :: "mem \<Rightarrow> ptr \<Rightarrow> u32 \<Rightarrow> nat list \<Rightarrow> nat list" where
  "entries_of m t ty is = filter (\<lambda>i. rsc_type_at m (t + ucast (rt_offset m t i)) = ty) is"

lemma find_rsc_loop_eq:
  assumes "unat k \<le> unat index" and "i + n < 2 ^ 32" and "unat k \<le> i"
  shows "find_rsc_loop m t ty index n i k =
    (let es = entries_of m t ty [i..<i + n]; j = unat index - unat k in
     if j < length es then ucast (rt_offset m t (es ! j)) else 0)"
  using assms
proof (induction n arbitrary: i k)
  case 0
  then show ?case by (simp add: entries_of_def Let_def)
next
  case (Suc n)
  have split: "[i..<i + Suc n] = i # [Suc i..<Suc i + n]" by (simp add: upt_conv_Cons)
  have k1: "unat (k + 1) = unat k + 1" using Suc.prems unat_plus_lt [of k 1] by simp
  show ?case
  proof (cases "rsc_type_at m (t + ucast (rt_offset m t i)) = ty")
    case True
    show ?thesis
    proof (cases "k = index")
      case True
      then show ?thesis
        unfolding split using \<open>rsc_type_at _ _ = _\<close> by (simp add: entries_of_def Let_def)
    next
      case False
      then have "unat k < unat index" using Suc.prems(1) by (metis le_neq_implies_less word_unat_eq_iff)
      then have "unat index - unat k = Suc (unat index - unat (k + 1))" using k1 by simp
      with True False show ?thesis
        unfolding split using Suc.IH [of "k + 1" "Suc i"] Suc.prems k1 \<open>unat k < unat index\<close>
        by (simp add: entries_of_def Let_def)
    qed
  next
    case False
    then show ?thesis
      unfolding split using Suc.IH [of k "Suc i"] Suc.prems by (simp add: entries_of_def Let_def)
  qed
qed

text \<open>
  C37. \<open>find_rsc\<close> returns the offset of the resource with the given index among the resources of the
  given type, in the order of the table, and 0 when there are not so many.
\<close>

theorem find_rsc_exact:
  "find_rsc m t ty index =
     (if t = NULL then Inl Assert_failed
      else let es = entries_of m t ty [0..<unat (rt_num m t)] in
        Inr (if unat index < length es then ucast (rt_offset m t (es ! unat index)) else 0))"
  using find_rsc_loop_eq [of 0 index 0 "unat (rt_num m t)" m t ty] unsigned_less [of "rt_num m t", where 'a = nat]
  by (simp add: find_rsc_def Let_def)

subsection \<open>The header of a table\<close>

text \<open>
  With \<open>2 ^ 30\<close> entries the sum of the sizes wraps around, and a table of 16 bytes passes the
  check of its length.
\<close>

theorem rsc_table_length_check_wraps:
  assumes "rt_num (w_mem w) t = 2 ^ 30" and "16 \<le> unat sz" and "rt_ver (w_mem w) t = 1"
    and "rt_reserved (w_mem w) t 0 = 0" and "rt_reserved (w_mem w) t 1 = 0"
  shows "handle_rsc_table env ops t sz io rp w = rsc_table_loop env ops t io 0 0 rp w"
  using assms by (simp add: handle_rsc_table_def word_less_nat_alt RSC_TAB_SUPPORTED_VERSION_def Let_def)

text \<open>A table at 0x3000 with one virtio device at offset 20, and the same with too many entries.\<close>

definition table_mem :: "u32 \<Rightarrow> mem" where
  "table_mem num = wr_bytes (\<lambda>_. 0) 0x3000
     (le_bytes 4 (1 :: u32) @ le_bytes 4 num @ [0, 0, 0, 0, 0, 0, 0, 0] @ le_bytes 4 (20 :: u32) @
      le_bytes 4 RSC_VDEV @ le_bytes 4 (7 :: u32) @ le_bytes 4 (3 :: u32) @ [0, 0, 0, 0, 0, 0, 0, 0, 0, 0, 0, 0, 0, 2, 0, 0] @
      [0, 0, 0, 0, 0, 0, 0, 0, 0, 0, 0, 0] @ le_bytes 4 (4 :: u32) @ [0, 0, 0, 0, 0, 0, 0, 0, 0, 0, 0, 0, 0, 0, 0, 0] @ le_bytes 4 (5 :: u32) @ [0, 0, 0, 0])"

lemmas table_mem_eval = table_mem_def wr_bytes_def rd_bytes_def le_bytes_def upt_rec RSC_VDEV_def
  rt_num_def rt_ver_def rt_reserved_def

lemma rsc_table_length_check_wraps_witness:
  "\<forall>env ops rp. handle_rsc_table env ops 0x3000 16 NULL rp (sample_world\<lparr>w_mem := table_mem (2 ^ 30)\<rparr>) =
    rsc_table_loop env ops 0x3000 NULL 0 0 rp (sample_world\<lparr>w_mem := table_mem (2 ^ 30)\<rparr>)"
  by (intro allI rsc_table_length_check_wraps) (simp_all add: table_mem_eval)

subsection \<open>Identifiers of a virtio device\<close>

lemma wr_bytes_twice: "length a = length b \<Longrightarrow> wr_bytes (wr_bytes m p a) p b = wr_bytes m p b"
  by (auto simp: wr_bytes_def fun_eq_iff)

definition vring_id :: "mem \<Rightarrow> ptr \<Rightarrow> nat \<Rightarrow> u32" where
  "vring_id m rsc i = rd32 m (vdev_rsc_vring rsc (of_nat i) + VRING_RSC_NOTIFYID)"

lemma vring_id_other:
  assumes "i < 256"
  shows "vring_id (wr32 m (rsc + VDEV_RSC_NOTIFYID) x) rsc i = vring_id m rsc i"
proof -
  have "unat (ucast (of_nat i :: u32) :: u64) = i"
    using assms by (simp add: unat_ucast_up unat_of_nat_lt)
  then have e: "(ucast (of_nat i :: u32) :: u64) = of_nat i" 
    using assms by (simp add: word_unat_eq_iff unat_of_nat_64)
  have "vdev_rsc_vring rsc (of_nat i) + VRING_RSC_NOTIFYID = rsc + of_nat (40 + 20 * i)"
    by (simp add: vdev_rsc_vring_def VRING_RSC_NOTIFYID_def e)
  moreover have "disjoint_blocks (rsc + of_nat (40 + 20 * i)) 4 (rsc + of_nat 8) 4"
    using assms by (intro disjoint_blocks_offset) auto
  ultimately show ?thesis by (simp add: vring_id_def VDEV_RSC_NOTIFYID_def rd_wr_other)
qed

text \<open>Allocating an identifier that is free, for the device with the resource \<open>rsc\<close>.\<close>

lemma assign_id_free:
  assumes "metal_bitmap (pe_bitmap env) bits 64 valid" and "valid (rp_bitmap rp)"
    and "unat x < 64" and "unat x \<notin> bits (rp_bitmap rp)"
  shows "\<exists>bm. assign_id env rsc x rp w =
      Inr (rp\<lparr>rp_bitmap := bm\<rparr>, w\<lparr>w_mem := wr32 (w_mem w) (rsc + VDEV_RSC_NOTIFYID) x\<rparr>) \<and>
    valid bm \<and> bits bm = insert (unat x) (bits (rp_bitmap rp))"
proof -
  have "x \<noteq> RSC_NOTIFY_ID_ANY" using assms(3) by (auto simp: RSC_NOTIFY_ID_ANY_def)
  then show ?thesis
    using allocate_id_wish [OF assms(1-3)] metal_bitmap.set_bits [OF assms(1-3)] assms(4)
    by (intro exI [of _ "set_bit_at (pe_bitmap env) (rp_bitmap rp) (unat x)"]) (simp add: assign_id_def)
qed

lemma vring_ids_run:
  assumes "metal_bitmap (pe_bitmap env) bits 64 valid"
  shows "valid (rp_bitmap rp) \<Longrightarrow> i + n \<le> 256 \<Longrightarrow>
    distinct (map (vring_id (w_mem w) rsc) [i..<i + n]) \<Longrightarrow>
    \<forall>x \<in> vring_id (w_mem w) rsc ` {i..<i + n}. unat x < 64 \<and> unat x \<notin> bits (rp_bitmap rp) \<Longrightarrow>
    \<exists>bm. vring_ids_loop env rsc n i rp w =
        Inr (rp\<lparr>rp_bitmap := bm\<rparr>, if n = 0 then w
             else w\<lparr>w_mem := wr32 (w_mem w) (rsc + VDEV_RSC_NOTIFYID) (vring_id (w_mem w) rsc (i + n - 1))\<rparr>) \<and>
      valid bm \<and> bits bm = bits (rp_bitmap rp) \<union> unat ` vring_id (w_mem w) rsc ` {i..<i + n}"
proof (induction n arbitrary: i rp w)
  case 0
  then show ?case by (intro exI [of _ "rp_bitmap rp"]) simp
next
  case (Suc n)
  let ?x = "vring_id (w_mem w) rsc i"
  define w1 where "w1 = w\<lparr>w_mem := wr32 (w_mem w) (rsc + VDEV_RSC_NOTIFYID) ?x\<rparr>"
  have range: "{i..<i + Suc n} = insert i {Suc i..<Suc i + n}" by auto
  have list: "[i..<i + Suc n] = i # [Suc i..<Suc i + n]" by (simp add: upt_conv_Cons)
  have same: "vring_id (w_mem w1) rsc j = vring_id (w_mem w) rsc j" if "j < i + Suc n" for j
    unfolding w1_def using that Suc.prems(2) by (simp add: vring_id_other)
  have x: "unat ?x < 64" "unat ?x \<notin> bits (rp_bitmap rp)" using Suc.prems(4) by auto
  obtain bm1 where a: "assign_id env rsc ?x rp w = Inr (rp\<lparr>rp_bitmap := bm1\<rparr>, w1)"
    and b1: "valid bm1" "bits bm1 = insert (unat ?x) (bits (rp_bitmap rp))"
    using assign_id_free [OF assms Suc.prems(1) x, of rsc w] unfolding w1_def by blast
  have m: "map (vring_id (w_mem w1) rsc) [Suc i..<Suc i + n] = map (vring_id (w_mem w) rsc) [Suc i..<Suc i + n]"
    "vring_id (w_mem w1) rsc ` {Suc i..<Suc i + n} = vring_id (w_mem w) rsc ` {Suc i..<Suc i + n}"
    using same by (auto intro!: image_cong)
  have d: "distinct (map (vring_id (w_mem w) rsc) [Suc i..<Suc i + n])"
    "?x \<notin> vring_id (w_mem w) rsc ` {Suc i..<Suc i + n}"
    using Suc.prems(3) unfolding list by (auto simp del: upt_Suc)
  have fresh: "\<forall>y \<in> V. unat y < 64 \<and> unat y \<notin> bits bm1"
    if "\<forall>y \<in> insert ?x V. unat y < 64 \<and> unat y \<notin> bits (rp_bitmap rp)" "?x \<notin> V" for V
    using that b1(2) by (auto simp flip: word_unat_eq_iff)
  have fr: "\<forall>y \<in> vring_id (w_mem w1) rsc ` {Suc i..<Suc i + n}. unat y < 64 \<and> unat y \<notin> bits (rp_bitmap (rp\<lparr>rp_bitmap := bm1\<rparr>))"
    unfolding m using fresh [OF Suc.prems(4) [unfolded range image_insert] d(2)] by simp
  have v1: "valid (rp_bitmap (rp\<lparr>rp_bitmap := bm1\<rparr>))" and l1: "Suc i + n \<le> 256"
    and d1: "distinct (map (vring_id (w_mem w1) rsc) [Suc i..<Suc i + n])"
    using b1(1) Suc.prems(2) d(1) unfolding m by simp_all
  from Suc.IH [OF v1 l1 d1 fr]
  obtain bm where r: "vring_ids_loop env rsc n (Suc i) (rp\<lparr>rp_bitmap := bm1\<rparr>) w1 =
        Inr (rp\<lparr>rp_bitmap := bm\<rparr>, if n = 0 then w1
             else w1\<lparr>w_mem := wr32 (w_mem w1) (rsc + VDEV_RSC_NOTIFYID) (vring_id (w_mem w1) rsc (i + n))\<rparr>)"
    and b: "valid bm" "bits bm = bits bm1 \<union> unat ` vring_id (w_mem w1) rsc ` {Suc i..<Suc i + n}" by auto
  have "bits bm = bits (rp_bitmap rp) \<union> unat ` vring_id (w_mem w) rsc ` {i..<i + Suc n}"
    unfolding b(2) b1(2) m(2) range by auto
  moreover have "vring_ids_loop env rsc (Suc n) i rp w = Inr (rp\<lparr>rp_bitmap := bm\<rparr>,
      w\<lparr>w_mem := wr32 (w_mem w) (rsc + VDEV_RSC_NOTIFYID) (vring_id (w_mem w) rsc (i + n))\<rparr>)"
    using a r same [of "i + n"] by (auto simp: vring_id_def [symmetric] w1_def wr_bytes_twice)
  ultimately show ?case using b(1) by (intro exI [of _ bm]) simp
qed

lemma vdev_rsc_run:
  fixes w rsc
  defines "num \<equiv> unat (w_mem w (rsc + VDEV_RSC_NUM_OF_VRINGS))"
    and "dev_id \<equiv> rd32 (w_mem w) (rsc + VDEV_RSC_NOTIFYID)"
  assumes "metal_bitmap (pe_bitmap env) bits 64 valid" and "valid (rp_bitmap rp)" and "0 < num"
    and "distinct (dev_id # map (vring_id (w_mem w) rsc) [0..<num])"
    and "\<forall>x \<in> set (dev_id # map (vring_id (w_mem w) rsc) [0..<num]). unat x < 64 \<and> unat x \<notin> bits (rp_bitmap rp)"
  shows "\<exists>bm. handle_vdev_rsc env rsc rp w = Inr (0, rp\<lparr>rp_bitmap := bm\<rparr>,
      w\<lparr>w_mem := wr32 (w_mem w) (rsc + VDEV_RSC_NOTIFYID) (vring_id (w_mem w) rsc (num - 1))\<rparr>) \<and>
    valid bm \<and> bits bm = bits (rp_bitmap rp) \<union> unat ` set (dev_id # map (vring_id (w_mem w) rsc) [0..<num])"
proof -
  define w1 where "w1 = w\<lparr>w_mem := wr32 (w_mem w) (rsc + VDEV_RSC_NOTIFYID) dev_id\<rparr>"
  have n256: "num < 256" unfolding num_def using unsigned_less [of "w_mem w (rsc + VDEV_RSC_NUM_OF_VRINGS)", where 'a = nat] by simp
  have num1: "w_mem w1 (rsc + VDEV_RSC_NUM_OF_VRINGS) = w_mem w (rsc + VDEV_RSC_NUM_OF_VRINGS)"
    by (simp add: w1_def wr_bytes_def vdev_rsc_defs)
  have same: "vring_id (w_mem w1) rsc j = vring_id (w_mem w) rsc j" if "j < 256" for j
    unfolding w1_def using that by (simp add: vring_id_other)
  have m: "map (vring_id (w_mem w1) rsc) [0..<num] = map (vring_id (w_mem w) rsc) [0..<num]"
    "vring_id (w_mem w1) rsc ` {0..<num} = vring_id (w_mem w) rsc ` {0..<num}"
    using same n256 by (auto intro!: image_cong)
  obtain bm1 where a: "assign_id env rsc dev_id rp w = Inr (rp\<lparr>rp_bitmap := bm1\<rparr>, w1)"
    and b1: "valid bm1" "bits bm1 = insert (unat dev_id) (bits (rp_bitmap rp))"
    using assign_id_free [OF assms(3,4), of dev_id rsc w] assms(7) unfolding w1_def by auto
  have "\<forall>y \<in> vring_id (w_mem w1) rsc ` {0..<num}. unat y < 64 \<and> unat y \<notin> bits (rp_bitmap (rp\<lparr>rp_bitmap := bm1\<rparr>))"
    unfolding m using assms(6,7) b1(2) by (auto simp flip: word_unat_eq_iff)
  with vring_ids_run [OF assms(3), of "rp\<lparr>rp_bitmap := bm1\<rparr>" 0 num w1 rsc] b1(1) n256 assms(5,6) m
  obtain bm where r: "vring_ids_loop env rsc num 0 (rp\<lparr>rp_bitmap := bm1\<rparr>) w1 = Inr (rp\<lparr>rp_bitmap := bm\<rparr>,
      w1\<lparr>w_mem := wr32 (w_mem w1) (rsc + VDEV_RSC_NOTIFYID) (vring_id (w_mem w1) rsc (num - 1))\<rparr>)"
    and b: "valid bm" "bits bm = bits bm1 \<union> unat ` vring_id (w_mem w) rsc ` {0..<num}" by auto
  have "handle_vdev_rsc env rsc rp w = Inr (0, rp\<lparr>rp_bitmap := bm\<rparr>,
      w1\<lparr>w_mem := wr32 (w_mem w1) (rsc + VDEV_RSC_NOTIFYID) (vring_id (w_mem w1) rsc (num - 1))\<rparr>)"
    using a r by (simp add: handle_vdev_rsc_def dev_id_def num1 num_def [symmetric])
  moreover have "bits bm = bits (rp_bitmap rp) \<union> unat ` set (dev_id # map (vring_id (w_mem w) rsc) [0..<num])"
    unfolding b(2) b1(2) by auto
  ultimately show ?thesis
    using same [of "num - 1"] n256 b(1) by (intro exI [of _ bm]) (simp add: w1_def wr_bytes_twice)
qed

text \<open>
  Handling a virtio device with vrings allocates the identifiers that the device and its vrings
  ask for, when they are free and different. But the code stores each of them into the field of the
  device: afterwards the table claims that the identifier of the device is the one of its last vring.
\<close>

theorem vdev_id_overwritten:
  fixes w rsc
  defines "num \<equiv> unat (w_mem w (rsc + VDEV_RSC_NUM_OF_VRINGS))"
    and "dev_id \<equiv> rd32 (w_mem w) (rsc + VDEV_RSC_NOTIFYID)"
  assumes "metal_bitmap (pe_bitmap env) bits 64 valid" and "valid (rp_bitmap rp)" and "0 < num"
    and "distinct (dev_id # map (vring_id (w_mem w) rsc) [0..<num])"
    and "\<forall>x \<in> set (dev_id # map (vring_id (w_mem w) rsc) [0..<num]). unat x < 64 \<and> unat x \<notin> bits (rp_bitmap rp)"
  shows "\<exists>rp' w'. handle_vdev_rsc env rsc rp w = Inr (0, rp', w') \<and>
    bits (rp_bitmap rp') = bits (rp_bitmap rp) \<union> unat ` set (dev_id # map (vring_id (w_mem w) rsc) [0..<num]) \<and>
    rd32 (w_mem w') (rsc + VDEV_RSC_NOTIFYID) = vring_id (w_mem w) rsc (num - 1)"
  using vdev_rsc_run [OF assms(3,4), of w rsc] assms(5-7) unfolding num_def dev_id_def
  by (auto simp: rd_wr_same le_word_bytes)

lemma vdev_id_overwritten_witness:
  "\<exists>rp' w'. handle_vdev_rsc sample_env0 0x3014 zero_remoteproc (sample_world\<lparr>w_mem := table_mem 1\<rparr>) = Inr (0, rp', w') \<and>
    long_bits (rp_bitmap rp') = {3, 4, 5} \<and> rd32 (w_mem w') (0x3014 + VDEV_RSC_NOTIFYID) = 5"
proof -
  let ?w = "sample_world\<lparr>w_mem := table_mem 1\<rparr>"
  have v: "w_mem ?w (0x3014 + VDEV_RSC_NUM_OF_VRINGS) = 2" "rd32 (w_mem ?w) (0x3014 + VDEV_RSC_NOTIFYID) = 3"
    "vring_id (w_mem ?w) 0x3014 0 = 4" "vring_id (w_mem ?w) 0x3014 (Suc 0) = 5"
    by (simp_all add: table_mem_eval vdev_rsc_defs vring_id_def vdev_rsc_vring_def VRING_RSC_NOTIFYID_def)
  have u: "[0..<unat (2 :: u8)] = [0, Suc 0]" "unat (2 :: u8) - 1 = Suc 0" by (simp_all add: upt_rec)
  have b: "long_bits (rp_bitmap zero_remoteproc) = {}" by (auto simp: zero_remoteproc_def long_bits_def)
  have m: "metal_bitmap (pe_bitmap sample_env0) long_bits 64 (\<lambda>b. length b = 1)"
    using longs.metal_bitmap_axioms [of 1] by (simp add: sample_env0_def)
  have l: "length (rp_bitmap zero_remoteproc) = 1" by (simp add: zero_remoteproc_def)
  show ?thesis
    using vdev_id_overwritten [where rsc = "0x3014" and w = ?w and rp = zero_remoteproc, OF m l]
    by (simp only: v u b list.map) simp
qed

end
