(* ===== verification/Port_Tables.thy ===== *)
theory Port_Tables
  imports Rsc_Table_Props
begin

text \<open>
  The resource tables of the ports: \<open>rsc_table.c\<close> and \<open>rsc_table.h\<close> of \<open>apps/machine/zynq7\<close>,
  \<open>apps/machine/zynqmp_r5\<close>, \<open>apps/system/generic/machine/rv64_virt\<close>, \<open>apps/system/linux/machine/rv64_virt\<close> and
  \<open>apps/system/linux/machine/generic\<close>. The structure is a record and the bytes it occupies; \<open>get_resource_table\<close>
  gives the address of the table and its size, which the alignment of the structure rounds up. The main theorem says that
  the parser accepts each of the tables.
\<close>

subsection \<open>The structure\<close>

record fw_rsc_vdev_vring =
  fr_da :: u32
  fr_align :: u32
  fr_num :: u32
  fr_notifyid :: u32
  fr_reserved :: u32

record fw_rsc_vdev =
  fr_type :: u32
  fr_id :: u32
  fr_vdev_notifyid :: u32
  fr_dfeatures :: u32
  fr_gfeatures :: u32
  fr_config_len :: u32
  fr_status :: u8
  fr_num_of_vrings :: u8

record remote_resource_table =
  tb_version :: u32
  tb_num :: u32
  tb_offset :: "u32 list"
  tb_rpmsg_vdev :: fw_rsc_vdev
  tb_rpmsg_vring0 :: fw_rsc_vdev_vring
  tb_rpmsg_vring1 :: fw_rsc_vdev_vring

definition vring_rsc_bytes :: "fw_rsc_vdev_vring \<Rightarrow> u8 list" where
  "vring_rsc_bytes v = le_bytes 4 (fr_da v) @ le_bytes 4 (fr_align v) @ le_bytes 4 (fr_num v) @ le_bytes 4 (fr_notifyid v) @
     le_bytes 4 (fr_reserved v)"

definition vdev_rsc_bytes :: "fw_rsc_vdev \<Rightarrow> u8 list" where
  "vdev_rsc_bytes v = le_bytes 4 (fr_type v) @ le_bytes 4 (fr_id v) @ le_bytes 4 (fr_vdev_notifyid v) @
     le_bytes 4 (fr_dfeatures v) @ le_bytes 4 (fr_gfeatures v) @ le_bytes 4 (fr_config_len v) @
     [fr_status v, fr_num_of_vrings v, 0, 0]"

definition table_bytes :: "remote_resource_table \<Rightarrow> u8 list" where
  "table_bytes t = le_bytes 4 (tb_version t) @ le_bytes 4 (tb_num t) @ le_bytes 4 (0 :: u32) @ le_bytes 4 (0 :: u32) @
     concat (map (le_bytes 4) (tb_offset t)) @ vdev_rsc_bytes (tb_rpmsg_vdev t) @
     vring_rsc_bytes (tb_rpmsg_vring0 t) @ vring_rsc_bytes (tb_rpmsg_vring1 t)"

subsection \<open>The tables\<close>

definition NUM_VRINGS :: u8 where "NUM_VRINGS = 2"
definition VRING_ALIGN :: u32 where "VRING_ALIGN = 0x1000"
definition VRING_SIZE :: u32 where "VRING_SIZE = 256"
definition PORT_VIRTIO_ID_RPMSG :: u32 where "PORT_VIRTIO_ID_RPMSG = 7"
definition RPMSG_IPU_C0_FEATURES :: u32 where "RPMSG_IPU_C0_FEATURES = 1"
definition NUM_TABLE_ENTRIES :: u32 where "NUM_TABLE_ENTRIES = 1"

text \<open>
  The initialiser, the same in the five files up to the number of offsets of the structure and the addresses of the
  rings; offsets that are not given are 0.
\<close>

definition rpmsg_table :: "nat \<Rightarrow> u32 \<Rightarrow> u32 \<Rightarrow> remote_resource_table" where
  "rpmsg_table no_resource_entries ring_tx ring_rx =
     \<lparr>tb_version = 1, tb_num = NUM_TABLE_ENTRIES,
      tb_offset = of_nat (16 + 4 * no_resource_entries) # replicate (no_resource_entries - 1) 0,
      tb_rpmsg_vdev = \<lparr>fr_type = RSC_VDEV, fr_id = PORT_VIRTIO_ID_RPMSG, fr_vdev_notifyid = 0, fr_dfeatures = RPMSG_IPU_C0_FEATURES,
        fr_gfeatures = 0, fr_config_len = 0, fr_status = 0, fr_num_of_vrings = NUM_VRINGS\<rparr>,
      tb_rpmsg_vring0 = \<lparr>fr_da = ring_tx, fr_align = VRING_ALIGN, fr_num = VRING_SIZE, fr_notifyid = 1, fr_reserved = 0\<rparr>,
      tb_rpmsg_vring1 = \<lparr>fr_da = ring_rx, fr_align = VRING_ALIGN, fr_num = VRING_SIZE, fr_notifyid = 2, fr_reserved = 0\<rparr>\<rparr>"

definition a9_resources :: remote_resource_table where
  "a9_resources = rpmsg_table 8 FW_RSC_U32_ADDR_ANY FW_RSC_U32_ADDR_ANY"

definition r5_resources :: remote_resource_table where
  "r5_resources = rpmsg_table 8 FW_RSC_U32_ADDR_ANY FW_RSC_U32_ADDR_ANY"

definition rv64_resources :: remote_resource_table where
  "rv64_resources = rpmsg_table 8 FW_RSC_U32_ADDR_ANY FW_RSC_U32_ADDR_ANY"

text \<open>The rings behind the shared buffers: \<open>RING_TX\<close> and \<open>RING_RX\<close> of the Linux side of the virtual machine.\<close>

definition RING_TX :: u32 where "RING_TX = 0x90160000"
definition RING_RX :: u32 where "RING_RX = 0x90164000"

definition rv64_linux_resources :: remote_resource_table where
  "rv64_linux_resources = rpmsg_table 8 RING_TX RING_RX"

definition linux_resources :: remote_resource_table where
  "linux_resources = rpmsg_table 1 0x4000 0x8000"

text \<open>\<open>get_resource_table\<close>: the address of \<open>resources\<close>, and its size with the alignment of the type.\<close>

definition a9_get_resource_table :: "ptr \<Rightarrow> ptr \<times> int" where
  "a9_get_resource_table resources = (resources, 0x100000)"

definition r5_get_resource_table :: "ptr \<Rightarrow> ptr \<times> int" where
  "r5_get_resource_table resources = (resources, 0x100)"

definition rv64_get_resource_table :: "ptr \<Rightarrow> ptr \<times> int" where
  "rv64_get_resource_table resources = (resources, 0x100)"

definition rv64_linux_get_resource_table :: "ptr \<Rightarrow> ptr \<times> int" where
  "rv64_linux_get_resource_table resources = (resources, 116)"

definition linux_get_resource_table :: "ptr \<Rightarrow> ptr \<times> int" where
  "linux_get_resource_table resources = (resources, 88)"

subsection \<open>The parser accepts them\<close>

lemma length_rsc_bytes [simp]: "length (vring_rsc_bytes v) = 20" "length (vdev_rsc_bytes d) = 28"
  by (simp_all add: vring_rsc_bytes_def vdev_rsc_bytes_def)

lemma length_offsets: "length (concat (replicate k (le_bytes 4 x))) = 4 * k"
  by (induction k) simp_all

lemma length_table_bytes: "0 < n \<Longrightarrow> length (table_bytes (rpmsg_table n tx rx)) = 84 + 4 * n"
  by (simp add: table_bytes_def rpmsg_table_def length_offsets)

text \<open>The two parts of a table in memory: up to the first offset, and from the entry of the device on.\<close>

lemma table_head:
  assumes "rd_bytes m t (84 + 4 * n) = table_bytes (rpmsg_table n tx rx)" and "0 < n"
  shows "rt_ver m t = 1" "rt_num m t = 1" "rt_reserved m t 0 = 0" "rt_reserved m t 1 = 0" "rt_offset m t 0 = of_nat (16 + 4 * n)"
  using rd_bytes_slice [OF assms(1), of 0 4] rd_bytes_slice [OF assms(1), of 4 4] rd_bytes_slice [OF assms(1), of 8 4]
    rd_bytes_slice [OF assms(1), of 12 4] rd_bytes_slice [OF assms(1), of 16 4] assms(2)
  by (simp_all add: table_bytes_def rpmsg_table_def rt_ver_def rt_num_def rt_reserved_def rt_offset_def le_word_bytes
      NUM_TABLE_ENTRIES_def add.commute [of 12 t])

lemma table_entry:
  assumes "rd_bytes m t (84 + 4 * n) = table_bytes (rpmsg_table n tx rx)" and "0 < n"
    and "rsc = t + of_nat (16 + 4 * n)"
  shows "rsc_type_at m rsc = RSC_VDEV" "rd32 m (rsc + VDEV_RSC_NOTIFYID) = 0" "m (rsc + VDEV_RSC_NUM_OF_VRINGS) = 2"
    "vring_id m rsc 0 = 1" "vring_id m rsc (Suc 0) = 2"
proof -
  let ?b = "vdev_rsc_bytes (tb_rpmsg_vdev (rpmsg_table n tx rx)) @ vring_rsc_bytes (tb_rpmsg_vring0 (rpmsg_table n tx rx)) @
    vring_rsc_bytes (tb_rpmsg_vring1 (rpmsg_table n tx rx))"
  have "drop (16 + 4 * n) (table_bytes (rpmsg_table n tx rx)) = ?b"
    using assms(2) by (simp add: table_bytes_def length_offsets rpmsg_table_def)
  then have e: "rd_bytes m rsc 68 = ?b"
    using rd_bytes_slice [OF assms(1), of "16 + 4 * n" 68] by (simp add: assms(3))
  note s = rd_bytes_slice [OF e]
  show "rsc_type_at m rsc = RSC_VDEV"
    using s [of 0 4] by (simp add: rsc_type_at_def vdev_rsc_bytes_def rpmsg_table_def le_word_bytes)
  show "rd32 m (rsc + VDEV_RSC_NOTIFYID) = 0"
    using s [of 8 4] by (simp add: vdev_rsc_defs vdev_rsc_bytes_def rpmsg_table_def le_word_bytes)
  show "m (rsc + VDEV_RSC_NUM_OF_VRINGS) = 2"
    using s [of 25 1]
    by (simp add: vdev_rsc_defs vdev_rsc_bytes_def rpmsg_table_def NUM_VRINGS_def rd_bytes_Suc [of _ _ 0, simplified])
  show "vring_id m rsc 0 = 1"
    using s [of 40 4]
    by (simp add: vring_id_def vdev_rsc_vring_def VRING_RSC_NOTIFYID_def vring_rsc_bytes_def rpmsg_table_def le_word_bytes add.assoc)
  show "vring_id m rsc (Suc 0) = 2"
    using s [of 60 4]
    by (simp add: vring_id_def vdev_rsc_vring_def VRING_RSC_NOTIFYID_def vring_rsc_bytes_def rpmsg_table_def le_word_bytes add.assoc)
qed

text \<open>What the parser does to a table with one virtio device of two vrings.\<close>

lemma rpmsg_table_parsed:
  assumes "rd_bytes (w_mem w) t (84 + 4 * n) = table_bytes (rpmsg_table n tx rx)" and "0 < n" and "n \<le> 8"
    and "84 + 4 * n \<le> unat sz" and "rsc = t + of_nat (16 + 4 * n)"
    and "io = NULL \<or> io_virt_to_offset (pe_io env) io rsc \<noteq> METAL_BAD_OFFSET"
    and "metal_bitmap (pe_bitmap env) bits 64 valid" and "valid (rp_bitmap rp)" and "bits (rp_bitmap rp) \<inter> {0, 1, 2} = {}"
  shows "\<exists>bm. handle_rsc_table env ops t sz io rp w =
      Inr (0, rp\<lparr>rp_bitmap := bm\<rparr>, w\<lparr>w_mem := wr32 (w_mem w) (rsc + VDEV_RSC_NOTIFYID) 2\<rparr>) \<and>
    valid bm \<and> bits bm = bits (rp_bitmap rp) \<union> {0, 1, 2}"
proof -
  note h = table_head [OF assms(1,2)] and e = table_entry [OF assms(1,2,5)]
  let ?w = "w\<lparr>w_mem := wr32 (w_mem w) (rsc + VDEV_RSC_NOTIFYID) 2\<rparr>"
  have u: "[0..<2] = [0, Suc 0]" "(2 :: nat) - 1 = Suc 0" by (simp_all add: upt_rec)
  have off: "(ucast (of_nat (16 + 4 * n) :: u32) :: u64) = of_nat (16 + 4 * n)"
    using assms(3) unat_of_nat_32 [of "16 + 4 * n"] unat_of_nat_64 [of "16 + 4 * n"]
    by (simp add: word_unat_eq_iff unat_ucast_up del: of_nat_add of_nat_mult)
  have "rt_num (w_mem ?w) t = rt_num (w_mem w) t"
  proof -
    have "disjoint_blocks (t + of_nat 4) 4 (t + of_nat (24 + 4 * n)) 4"
      using assms(3) by (intro disjoint_blocks_offset) simp_all
    then have "rd_bytes (w_mem ?w) (t + 4) 4 = rd_bytes (w_mem w) (t + 4) 4"
      by (simp add: rd_wr_other assms(5) vdev_rsc_defs add_ac)
    then show ?thesis by (simp add: rt_num_def)
  qed
  then have last: "rsc_table_loop env ops t io (Suc 0) 0 rp' ?w = Inr (0, rp', ?w)" for rp'
    using h(2) by (simp add: rsc_table_loop.simps [of _ _ _ _ "Suc 0"])
  obtain bm where b: "handle_vdev_rsc env rsc rp w = Inr (0, rp\<lparr>rp_bitmap := bm\<rparr>, ?w)" "valid bm"
      "bits bm = bits (rp_bitmap rp) \<union> {0, 1, 2}"
    using vdev_rsc_run [OF assms(7,8), of w rsc] assms(9) by (auto simp: e u)
  have "rsc_table_loop env ops t io 0 0 rp w = Inr (0, rp\<lparr>rp_bitmap := bm\<rparr>, ?w)"
    using b(1) last assms(6) h e(1) off assms(5)
    by (simp add: rsc_table_loop.simps [of _ _ _ _ 0] handle_rsc_entry_def rsc_type_defs rproc_err_defs Let_def
        del: of_nat_add of_nat_mult) 
  then show ?thesis
    using b h assms(4) by (auto simp: handle_rsc_table_def RSC_TAB_SUPPORTED_VERSION_def word_less_nat_alt Let_def)
qed

definition port_tables :: "(remote_resource_table \<times> (ptr \<Rightarrow> ptr \<times> int)) list" where
  "port_tables = [(a9_resources, a9_get_resource_table), (r5_resources, r5_get_resource_table),
     (rv64_resources, rv64_get_resource_table), (rv64_linux_resources, rv64_linux_get_resource_table),
     (linux_resources, linux_get_resource_table)]"

lemma port_tables_shape:
  assumes "(tb, get) \<in> set port_tables" and "get resources = (t, len)"
  obtains n tx rx where "tb = rpmsg_table n tx rx" and "0 < n" and "n \<le> 8" and "t = resources" and
    "84 + 4 * n \<le> unat (word_of_int len :: u64)"
  using assms unfolding port_tables_def
  by (auto simp: a9_resources_def r5_resources_def rv64_resources_def rv64_linux_resources_def linux_resources_def
      a9_get_resource_table_def r5_get_resource_table_def rv64_get_resource_table_def rv64_linux_get_resource_table_def
      linux_get_resource_table_def)

text \<open>
  C26. The tables of the ports are well-formed. Where a port's \<open>get_resource_table\<close> points to its table, the parser
  accepts it without an error: the identifiers 0, 1 and 2 of the device and its two rings are allocated, only the
  identifier field of the device is written (with that of the last ring), and a search for the first virtio device finds the entry.
\<close>

theorem port_tables_accepted:
  assumes "(tb, get) \<in> set port_tables" and "get resources = (t, len)" and "t \<noteq> NULL"
    and "rd_bytes (w_mem w) t (length (table_bytes tb)) = table_bytes tb"
    and "rsc = t + ucast (hd (tb_offset tb))" and "io = NULL \<or> io_virt_to_offset (pe_io env) io rsc \<noteq> METAL_BAD_OFFSET"
    and "metal_bitmap (pe_bitmap env) bits 64 valid" and "valid (rp_bitmap rp)" and "bits (rp_bitmap rp) \<inter> {0, 1, 2} = {}"
  shows "\<exists>bm. handle_rsc_table env ops t (word_of_int len) io rp w =
      Inr (0, rp\<lparr>rp_bitmap := bm\<rparr>, w\<lparr>w_mem := wr32 (w_mem w) (rsc + VDEV_RSC_NOTIFYID) 2\<rparr>) \<and>
    bits bm = bits (rp_bitmap rp) \<union> {0, 1, 2} \<and> find_rsc (w_mem w) t RSC_VDEV 0 = Inr (ucast (hd (tb_offset tb)))"
proof -
  obtain n tx rx where s: "tb = rpmsg_table n tx rx" "0 < n" "n \<le> 8" "84 + 4 * n \<le> unat (word_of_int len :: u64)"
    by (rule port_tables_shape [OF assms(1,2)])
  have b: "rd_bytes (w_mem w) t (84 + 4 * n) = table_bytes (rpmsg_table n tx rx)"
    using assms(4) length_table_bytes [OF s(2)] by (simp add: s(1))
  have off: "(ucast (of_nat (16 + 4 * n) :: u32) :: u64) = of_nat (16 + 4 * n)"
    using s(3) unat_of_nat_32 [of "16 + 4 * n"] unat_of_nat_64 [of "16 + 4 * n"]
    by (simp add: word_unat_eq_iff unat_ucast_up del: of_nat_add of_nat_mult)
  have hd: "hd (tb_offset tb) = of_nat (16 + 4 * n)" by (simp add: s(1) rpmsg_table_def)
  have r: "rsc = t + of_nat (16 + 4 * n)" unfolding assms(5) hd off ..
  have "find_rsc (w_mem w) t RSC_VDEV 0 = Inr (ucast (hd (tb_offset tb)))"
    using table_head [OF b s(2)] table_entry(1) [OF b s(2) r] assms(3) off
    by (simp add: find_rsc_def hd r del: of_nat_add of_nat_mult)
  then show ?thesis
    using rpmsg_table_parsed [OF b s(2,3,4) r assms(6-9)] by blast
qed

text \<open>A platform without operations.\<close>

definition no_ops :: remoteproc_ops where
  "no_ops = \<lparr>op_init = None, op_remove = None, op_mmap = None, op_handle_rsc = None, op_config = None, op_start = None,
     op_stop = None, op_shutdown = None, op_notify = None\<rparr>"

lemma port_tables_accepted_witness:
  "\<exists>bm. handle_rsc_table sample_env0 no_ops 0x3000 (word_of_int 88) NULL zero_remoteproc
      (sample_world\<lparr>w_mem := wr_bytes (\<lambda>_. 0) 0x3000 (table_bytes linux_resources)\<rparr>) =
      Inr (0, zero_remoteproc\<lparr>rp_bitmap := bm\<rparr>, sample_world\<lparr>w_mem :=
        wr32 (wr_bytes (\<lambda>_. 0) 0x3000 (table_bytes linux_resources)) (0x3000 + ucast (hd (tb_offset linux_resources)) + VDEV_RSC_NOTIFYID) 2\<rparr>) \<and>
    long_bits bm = long_bits (rp_bitmap zero_remoteproc) \<union> {0, 1, 2} \<and>
    find_rsc (wr_bytes (\<lambda>_. 0) 0x3000 (table_bytes linux_resources)) 0x3000 RSC_VDEV 0 = Inr (ucast (hd (tb_offset linux_resources)))"
proof -
  let ?w = "sample_world\<lparr>w_mem := wr_bytes (\<lambda>_. 0) 0x3000 (table_bytes linux_resources)\<rparr>"
  have m: "metal_bitmap (pe_bitmap sample_env0) long_bits 64 (\<lambda>b. length b = 1)"
    using longs.metal_bitmap_axioms [of 1] by (simp add: sample_env0_def)
  have z: "length (rp_bitmap zero_remoteproc) = 1" "long_bits (rp_bitmap zero_remoteproc) \<inter> {0, 1, 2} = {}"
    by (auto simp: zero_remoteproc_def long_bits_def)
  have "length (table_bytes linux_resources) = 88" by (simp add: linux_resources_def length_table_bytes)
  then have r: "rd_bytes (w_mem ?w) 0x3000 (length (table_bytes linux_resources)) = table_bytes linux_resources"
    by (simp add: rd_wr_same)
  have p: "(linux_resources, linux_get_resource_table) \<in> set port_tables" by (simp add: port_tables_def)
  have g: "linux_get_resource_table 0x3000 = (0x3000, 88)" by (simp add: linux_get_resource_table_def)
  show ?thesis
    using port_tables_accepted [OF p g _ r refl _ m z, of NULL no_ops] by simp
qed

end
