(* ===== verification/Linux_Ports.thy ===== *)
theory Linux_Ports
  imports Port_Tables Port_Base
begin

text \<open>
  The ports for Linux: the ZynqMP with a Cortex-R5 (\<open>apps/machine/zynqmp\<close>, the build with interrupts), the RISC-V
  virtual machine (\<open>apps/system/linux/machine/rv64_virt\<close>, which defines \<open>RPMSG_NO_IPI\<close>) and the generic one
  (\<open>apps/system/linux/machine/generic\<close>, the build without \<open>RPMSG_IPI\<close>, where there are no notifications), one definition per
  function. Only one region of memory is used, that of the shared memory device.
\<close>

subsection \<open>The shared memory device\<close>

text \<open>The static \<open>shm_mem\<close> before its initialisation, and its name.\<close>

definition zero_mem :: remoteproc_mem where
  "zero_mem = \<lparr>rm_da = 0, rm_pa = 0, rm_size = 0, rm_name = replicate RPROC_MAX_NAME_LEN 0, rm_io = NULL, rm_blocks = []\<rparr>"

definition SHM_MEM_NAME :: "u8 list" where "SHM_MEM_NAME = [0x73, 0x68, 0x6d]"

text \<open>
  The first part of \<open>init\<close> opens the device and the continuation \<open>rest\<close> does what the port does then; label \<open>err2\<close> closes it.
\<close>

definition shm_proc_init ::
  "port_env \<Rightarrow> ptr \<Rightarrow> string \<Rightarrow> string \<Rightarrow> (remoteproc \<Rightarrow> rproc_world \<Rightarrow> (remoteproc option \<times> rproc_world) cres) \<Rightarrow>
   remoteproc option \<Rightarrow> ptr \<Rightarrow> rproc_world \<Rightarrow> (remoteproc option \<times> rproc_world) cres" where
  "shm_proc_init po ops_ptr bus name rest rproc arg w =
     (case rproc of None \<Rightarrow> Inr (None, w)
      | Some rp \<Rightarrow>
          if arg = NULL then Inr (None, w)
          else
            let rp1 = rp\<lparr>rp_priv := arg, rp_ops := ops_ptr\<rparr>;
                w1 = upd_priv (\<lambda>p. p\<lparr>pv_ipi_dev := NULL, pv_shm_dev := NULL\<rparr>) w in
            case dev_open po bus name w1 of (ret, dev, w2) \<Rightarrow>
            if ret \<noteq> 0 then Inr (None, w2)
            else
              let io = po_io_region po dev;
                  w3 = upd_priv (\<lambda>p. p\<lparr>pv_shm_dev := dev, pv_shm_io := io\<rparr>) w2 in
              if io = NULL then cbind (dev_close dev w3) (\<lambda>w4. Inr (None, w4)) else rest rp1 w3)"

definition add_shm_mem :: "port_env \<Rightarrow> remoteproc \<Rightarrow> rproc_world \<Rightarrow> remoteproc" where
  "add_shm_mem po rp w =
     (let io = pv_shm_io (w_priv w); mem_pa = po_io_phys po io 0 in
      the (remoteproc_add_mem (Some rp)
        (remoteproc_init_mem (Some SHM_MEM_NAME) mem_pa mem_pa (po_io_region_size po io) io (Some zero_mem))))"

definition close_shm :: "remoteproc \<Rightarrow> rproc_world \<Rightarrow> (remoteproc \<times> rproc_world) cres" where
  "close_shm rp w =
     (let dev = pv_shm_dev (w_priv w) in
      if dev \<noteq> NULL then cbind (dev_close dev w) (\<lambda>w1. Inr (rp, w1)) else Inr (rp, w))"

text \<open>
  \<open>platform_create_proc\<close>: the table is mapped at \<open>pa\<close>; \<open>parse\<close> is what the port does with the pointer to it. When the table
  cannot be mapped the processor is not removed.
\<close>

definition linux_create_proc ::
  "rproc_env \<Rightarrow> remoteproc_ops \<Rightarrow> ptr \<Rightarrow> u64 \<Rightarrow> u64 \<Rightarrow> (ptr \<Rightarrow> remoteproc \<Rightarrow> rproc_world \<Rightarrow> rproc_result) \<Rightarrow> rproc_world \<Rightarrow>
   (remoteproc option \<times> rproc_world) cres" where
  "linux_create_proc env ops arg pa rsc_size parse w =
     cbind (remoteproc_init ops arg (Some zero_remoteproc) w) (\<lambda>(rproc, w1).
     case rproc of None \<Rightarrow> Inr (None, w1)
     | Some rp \<Rightarrow>
         cbind (remoteproc_mmap (pe_io env) ops (Some rp) (Some pa) None rsc_size 0 None w1) (\<lambda>(rsc_table, _, _, _, rp1, w2).
         if rsc_table = NULL then Inr (None, w2)
         else cbind (parse rsc_table (the rp1) w2) (\<lambda>(ret, rp2, w3).
           if ret \<noteq> 0 then cbind (remoteproc_remove ops (Some rp2) w3) (\<lambda>(_, _, w4). Inr (None, w4))
           else Inr (Some rp2, w3))))"

definition DEV_BUS_NAME :: string where "DEV_BUS_NAME = ''platform''"

subsection \<open>ZynqMP\<close>

definition LINUX_R5_PROC_OPS :: ptr where "LINUX_R5_PROC_OPS = 0x280"
definition IPI_TRIG_OFFSET :: u64 where "IPI_TRIG_OFFSET = 0x00"
definition IPI_ISR_OFFSET :: u64 where "IPI_ISR_OFFSET = 0x10"
definition IPI_IER_OFFSET :: u64 where "IPI_IER_OFFSET = 0x18"
definition IPI_IDR_OFFSET :: u64 where "IPI_IDR_OFFSET = 0x1C"
definition IPI_CHN_BITMASK :: u32 where "IPI_CHN_BITMASK = 0x100"
definition LINUX_R5_IPI_NAME :: string where "LINUX_R5_IPI_NAME = ''ff340000.ipi''"
definition LINUX_R5_SHM_NAME :: string where "LINUX_R5_SHM_NAME = ''3ed20000.shm''"
definition LINUX_R5_RSC_MEM_PA :: u64 where "LINUX_R5_RSC_MEM_PA = 0x3ED20000"
definition LINUX_R5_RSC_MEM_SIZE :: u64 where "LINUX_R5_RSC_MEM_SIZE = 0x2000"
definition LINUX_R5_SHARED_BUF_PA :: u64 where "LINUX_R5_SHARED_BUF_PA = 0x3ED48000"
definition LINUX_R5_SHARED_BUF_SIZE :: u64 where "LINUX_R5_SHARED_BUF_SIZE = 0x40000"

definition zynqmp_linux_r5_proc_irq_handler :: "rproc_env \<Rightarrow> remoteproc option \<Rightarrow> rproc_world \<Rightarrow> bool \<times> rproc_world" where
  "zynqmp_linux_r5_proc_irq_handler env rproc w =
     (case rproc of None \<Rightarrow> (False, w)
      | Some _ \<Rightarrow>
          let io = pv_ipi_io (w_priv w);
              ipi_intr_status = reg_read32 env io IPI_ISR_OFFSET w in
          if ipi_intr_status AND IPI_CHN_BITMASK \<noteq> 0
          then (True, reg_write32 env io IPI_ISR_OFFSET IPI_CHN_BITMASK (upd_priv (\<lambda>p. p\<lparr>pv_ipi_nokick := False\<rparr>) w))
          else (False, w))"

text \<open>\<open>init\<close> from the shared memory on: labels \<open>err2\<close> and \<open>err3\<close> close what is open.\<close>

definition linux_r5_ipi_init ::
  "rproc_env \<Rightarrow> port_env \<Rightarrow> remoteproc \<Rightarrow> rproc_world \<Rightarrow> (remoteproc option \<times> rproc_world) cres" where
  "linux_r5_ipi_init env po rp w =
     (let rp1 = add_shm_mem po rp w in
      case dev_open po DEV_BUS_NAME LINUX_R5_IPI_NAME w of (ret, dev, w1) \<Rightarrow>
      if ret \<noteq> 0 then cbind (dev_close (pv_shm_dev (w_priv w1)) w1) (\<lambda>w2. Inr (None, w2))
      else
        let io = po_io_region po dev;
            w2 = upd_priv (\<lambda>p. p\<lparr>pv_ipi_dev := dev, pv_ipi_io := io\<rparr>) w1 in
        if io = NULL
        then cbind (dev_close (pv_ipi_dev (w_priv w2)) w2) (\<lambda>w3.
             cbind (dev_close (pv_shm_dev (w_priv w3)) w3) (\<lambda>w4. Inr (None, w4)))
        else
          let irq_vect = po_irq_info po dev;
              w3 = upd_priv (\<lambda>p. p\<lparr>pv_ipi_nokick := True\<rparr>) w2;
              w4 = metal_irq_enable irq_vect (metal_irq_register irq_vect w3) in
          Inr (Some rp1, reg_write32 env io IPI_IER_OFFSET IPI_CHN_BITMASK w4))"

definition zynqmp_linux_r5_proc_init ::
  "rproc_env \<Rightarrow> port_env \<Rightarrow> remoteproc option \<Rightarrow> ptr \<Rightarrow> rproc_world \<Rightarrow> (remoteproc option \<times> rproc_world) cres" where
  "zynqmp_linux_r5_proc_init env po =
     shm_proc_init po LINUX_R5_PROC_OPS DEV_BUS_NAME LINUX_R5_SHM_NAME (linux_r5_ipi_init env po)"

definition zynqmp_linux_r5_proc_remove ::
  "rproc_env \<Rightarrow> port_env \<Rightarrow> remoteproc \<Rightarrow> rproc_world \<Rightarrow> (remoteproc \<times> rproc_world) cres" where
  "zynqmp_linux_r5_proc_remove env po rp w =
     (let w1 = reg_write32 env (pv_ipi_io (w_priv w)) IPI_IDR_OFFSET IPI_CHN_BITMASK w;
          dev = pv_ipi_dev (w_priv w1) in
      cbind (if dev \<noteq> NULL
             then dev_close dev (metal_irq_unregister (po_irq_info po dev) (metal_irq_disable (po_irq_info po dev) w1))
             else Inr w1) (close_shm rp))"

definition zynqmp_linux_r5_proc_mmap ::
  "rproc_env \<Rightarrow> remoteproc \<Rightarrow> u64 \<Rightarrow> u64 \<Rightarrow> u64 \<Rightarrow> u32 \<Rightarrow> ptr option \<Rightarrow> rproc_world \<Rightarrow>
   (ptr \<times> u64 \<times> u64 \<times> ptr option \<times> remoteproc \<times> rproc_world) cres" where
  "zynqmp_linux_r5_proc_mmap = shm_mmap"

definition zynqmp_linux_r5_proc_notify :: "rproc_env \<Rightarrow> remoteproc \<Rightarrow> u32 \<Rightarrow> rproc_world \<Rightarrow> rproc_result" where
  "zynqmp_linux_r5_proc_notify env rp i w =
     Inr (0, rp, reg_write32 env (pv_ipi_io (w_priv w)) IPI_TRIG_OFFSET IPI_CHN_BITMASK w)"

definition zynqmp_linux_r5_proc_ops :: "rproc_env \<Rightarrow> port_env \<Rightarrow> remoteproc_ops" where
  "zynqmp_linux_r5_proc_ops env po =
     \<lparr>op_init = Some (zynqmp_linux_r5_proc_init env po), op_remove = Some (zynqmp_linux_r5_proc_remove env po),
      op_mmap = Some (zynqmp_linux_r5_proc_mmap env), op_handle_rsc = None, op_config = None, op_start = None,
      op_stop = None, op_shutdown = None, op_notify = Some (zynqmp_linux_r5_proc_notify env)\<rparr>"

definition linux_r5_create_proc :: "rproc_env \<Rightarrow> port_env \<Rightarrow> ptr \<Rightarrow> rproc_world \<Rightarrow> (remoteproc option \<times> rproc_world) cres" where
  "linux_r5_create_proc env po arg =
     linux_create_proc env (zynqmp_linux_r5_proc_ops env po) arg LINUX_R5_RSC_MEM_PA LINUX_R5_RSC_MEM_SIZE
       (\<lambda>t. remoteproc_set_rsc_table env (zynqmp_linux_r5_proc_ops env po) t LINUX_R5_RSC_MEM_SIZE)"

definition linux_r5_platform_init ::
  "rproc_env \<Rightarrow> port_env \<Rightarrow> ptr \<Rightarrow> bool \<Rightarrow> rproc_world \<Rightarrow> (int \<times> remoteproc option \<times> rproc_world) cres" where
  "linux_r5_platform_init env po arg = port_init (linux_r5_create_proc env po arg) po"

definition linux_r5_platform_poll :: "nat \<Rightarrow> rproc_env \<Rightarrow> port_env \<Rightarrow> remoteproc \<Rightarrow> rproc_world \<Rightarrow> (int \<times> rproc_world) cres" where
  "linux_r5_platform_poll fuel env po rp w =
     poll_irq_loop fuel env po (zynqmp_linux_r5_proc_irq_handler env (Some rp)) 0 rp w"

definition linux_r5_platform_cleanup ::
  "rproc_env \<Rightarrow> port_env \<Rightarrow> remoteproc option \<Rightarrow> rproc_world \<Rightarrow> (remoteproc option \<times> rproc_world) cres" where
  "linux_r5_platform_cleanup env po = port_cleanup po (zynqmp_linux_r5_proc_ops env po)"

subsection \<open>RISC-V virtual machine\<close>

definition RV64_LINUX_PROC_OPS :: ptr where "RV64_LINUX_PROC_OPS = 0x290"
definition RV64_LINUX_SHM_NAME :: string where "RV64_LINUX_SHM_NAME = ''90100000.shm''"
definition RV64_LINUX_POLL_NAME :: string where "RV64_LINUX_POLL_NAME = ''90000000.shm''"
definition RV64_LINUX_RSC_MEM_PA :: u64 where "RV64_LINUX_RSC_MEM_PA = 0x90100000"
definition RV64_LINUX_RSC_MEM_SIZE :: u64 where "RV64_LINUX_RSC_MEM_SIZE = 0x20000"
definition RV64_LINUX_SHARED_BUF_PA :: u64 where "RV64_LINUX_SHARED_BUF_PA = RV64_LINUX_RSC_MEM_PA + RV64_LINUX_RSC_MEM_SIZE"
definition RV64_LINUX_SHARED_BUF_SIZE :: u64 where "RV64_LINUX_SHARED_BUF_SIZE = 0x40000"

text \<open>
  \<open>init\<close> from the shared memory on. As in the code, a polling device that cannot be opened leaves the shared memory
  device open, and one without a region is left open itself.
\<close>

definition rv64_linux_poll_init ::
  "rproc_env \<Rightarrow> port_env \<Rightarrow> remoteproc \<Rightarrow> rproc_world \<Rightarrow> (remoteproc option \<times> rproc_world) cres" where
  "rv64_linux_poll_init env po rp w =
     (case dev_open po DEV_BUS_NAME RV64_LINUX_POLL_NAME w of (ret, dev, w1) \<Rightarrow>
      if ret \<noteq> 0 then Inr (None, w1)
      else
        let io = po_io_region po dev;
            w2 = upd_priv (\<lambda>p. p\<lparr>pv_poll_dev := dev, pv_poll_io := io\<rparr>) w1 in
        if io = NULL then cbind (dev_close (pv_shm_dev (w_priv w2)) w2) (\<lambda>w3. Inr (None, w3))
        else
          let w3 = reg_write32 env io 0 0 w2 in
          Inr (Some (add_shm_mem po rp w3), w3))"

definition rv64_virt_linux_proc_init ::
  "rproc_env \<Rightarrow> port_env \<Rightarrow> remoteproc option \<Rightarrow> ptr \<Rightarrow> rproc_world \<Rightarrow> (remoteproc option \<times> rproc_world) cres" where
  "rv64_virt_linux_proc_init env po =
     shm_proc_init po RV64_LINUX_PROC_OPS DEV_BUS_NAME RV64_LINUX_SHM_NAME (rv64_linux_poll_init env po)"

definition rv64_virt_linux_proc_remove :: "remoteproc \<Rightarrow> rproc_world \<Rightarrow> (remoteproc \<times> rproc_world) cres" where
  "rv64_virt_linux_proc_remove = close_shm"

definition rv64_virt_linux_proc_mmap ::
  "rproc_env \<Rightarrow> remoteproc \<Rightarrow> u64 \<Rightarrow> u64 \<Rightarrow> u64 \<Rightarrow> u32 \<Rightarrow> ptr option \<Rightarrow> rproc_world \<Rightarrow>
   (ptr \<times> u64 \<times> u64 \<times> ptr option \<times> remoteproc \<times> rproc_world) cres" where
  "rv64_virt_linux_proc_mmap = shm_mmap"

definition rv64_virt_linux_proc_notify :: "rproc_env \<Rightarrow> remoteproc \<Rightarrow> u32 \<Rightarrow> rproc_world \<Rightarrow> rproc_result" where
  "rv64_virt_linux_proc_notify env rp i w = Inr (0, rp, reg_write32 env (pv_poll_io (w_priv w)) 0 POLL_STOP w)"

definition rv64_virt_linux_proc_ops :: "rproc_env \<Rightarrow> port_env \<Rightarrow> remoteproc_ops" where
  "rv64_virt_linux_proc_ops env po =
     \<lparr>op_init = Some (rv64_virt_linux_proc_init env po), op_remove = Some rv64_virt_linux_proc_remove,
      op_mmap = Some (rv64_virt_linux_proc_mmap env), op_handle_rsc = None, op_config = None, op_start = None,
      op_stop = None, op_shutdown = None, op_notify = Some (rv64_virt_linux_proc_notify env)\<rparr>"

text \<open>
  The table of the program is copied to the shared memory. \<open>rsc_len\<close> is an argument of \<open>memcpy\<close> next to the call that sets it; the
  language does not say which comes first, so that \<open>copied\<close> is its size or 0.
\<close>

definition rv64_linux_create_proc ::
  "rproc_env \<Rightarrow> port_env \<Rightarrow> nat \<Rightarrow> ptr \<Rightarrow> ptr \<Rightarrow> rproc_world \<Rightarrow> (remoteproc option \<times> rproc_world) cres" where
  "rv64_linux_create_proc env po copied arg resources =
     linux_create_proc env (rv64_virt_linux_proc_ops env po) arg RV64_LINUX_RSC_MEM_PA RV64_LINUX_RSC_MEM_SIZE
       (\<lambda>t rp w. remoteproc_set_rsc_table env (rv64_virt_linux_proc_ops env po) t RV64_LINUX_RSC_MEM_SIZE rp
          (w\<lparr>w_mem := wr_bytes (w_mem w) t (rd_bytes (w_mem w) (fst (rv64_linux_get_resource_table resources)) copied)\<rparr>))"

definition rv64_linux_platform_init ::
  "rproc_env \<Rightarrow> port_env \<Rightarrow> nat \<Rightarrow> ptr \<Rightarrow> ptr \<Rightarrow> bool \<Rightarrow> rproc_world \<Rightarrow> (int \<times> remoteproc option \<times> rproc_world) cres" where
  "rv64_linux_platform_init env po copied arg resources = port_init (rv64_linux_create_proc env po copied arg resources) po"

definition rv64_linux_platform_poll :: "nat \<Rightarrow> rproc_env \<Rightarrow> remoteproc \<Rightarrow> rproc_world \<Rightarrow> (int \<times> rproc_world) cres" where
  "rv64_linux_platform_poll fuel env = poll_mem_loop fuel env 0"

definition rv64_linux_platform_cleanup ::
  "rproc_env \<Rightarrow> port_env \<Rightarrow> remoteproc option \<Rightarrow> rproc_world \<Rightarrow> (remoteproc option \<times> rproc_world) cres" where
  "rv64_linux_platform_cleanup env po = port_cleanup po (rv64_virt_linux_proc_ops env po)"

subsection \<open>Generic\<close>

definition LINUX_PROC_OPS :: ptr where "LINUX_PROC_OPS = 0x2a0"
definition LINUX_SHM_NAME :: string where "LINUX_SHM_NAME = ''90000000.shm''"
definition LINUX_RSC_MEM_PA :: u64 where "LINUX_RSC_MEM_PA = 0x90000000"
definition LINUX_RSC_MEM_SIZE :: u64 where "LINUX_RSC_MEM_SIZE = 0x2000"
definition LINUX_SHARED_BUF_PA :: u64 where "LINUX_SHARED_BUF_PA = 0x90100000"
definition LINUX_SHARED_BUF_SIZE :: u64 where "LINUX_SHARED_BUF_SIZE = 0x00100000"

definition linux_proc_init ::
  "port_env \<Rightarrow> remoteproc option \<Rightarrow> ptr \<Rightarrow> rproc_world \<Rightarrow> (remoteproc option \<times> rproc_world) cres" where
  "linux_proc_init po =
     shm_proc_init po LINUX_PROC_OPS DEV_BUS_NAME LINUX_SHM_NAME (\<lambda>rp w. Inr (Some (add_shm_mem po rp w), w))"

definition linux_proc_remove :: "remoteproc \<Rightarrow> rproc_world \<Rightarrow> (remoteproc \<times> rproc_world) cres" where
  "linux_proc_remove = close_shm"

definition linux_proc_mmap ::
  "rproc_env \<Rightarrow> remoteproc \<Rightarrow> u64 \<Rightarrow> u64 \<Rightarrow> u64 \<Rightarrow> u32 \<Rightarrow> ptr option \<Rightarrow> rproc_world \<Rightarrow>
   (ptr \<times> u64 \<times> u64 \<times> ptr option \<times> remoteproc \<times> rproc_world) cres" where
  "linux_proc_mmap = shm_mmap"

definition linux_proc_notify :: "remoteproc \<Rightarrow> u32 \<Rightarrow> rproc_world \<Rightarrow> rproc_result" where
  "linux_proc_notify rp i w = Inr (0, rp, w)"

definition linux_proc_ops :: "rproc_env \<Rightarrow> port_env \<Rightarrow> remoteproc_ops" where
  "linux_proc_ops env po =
     \<lparr>op_init = Some (linux_proc_init po), op_remove = Some linux_proc_remove,
      op_mmap = Some (linux_proc_mmap env), op_handle_rsc = None, op_config = None, op_start = None,
      op_stop = None, op_shutdown = None, op_notify = Some linux_proc_notify\<rparr>"

text \<open>With \<open>OPENAMP_HACK_RSC\<close>, which the file defines, the table is mapped but not parsed.\<close>

definition generic_create_proc :: "rproc_env \<Rightarrow> port_env \<Rightarrow> ptr \<Rightarrow> rproc_world \<Rightarrow> (remoteproc option \<times> rproc_world) cres" where
  "generic_create_proc env po arg =
     linux_create_proc env (linux_proc_ops env po) arg LINUX_RSC_MEM_PA LINUX_RSC_MEM_SIZE (\<lambda>t rp w. Inr (0, rp, w))"

definition generic_platform_init ::
  "rproc_env \<Rightarrow> port_env \<Rightarrow> ptr \<Rightarrow> bool \<Rightarrow> rproc_world \<Rightarrow> (int \<times> remoteproc option \<times> rproc_world) cres" where
  "generic_platform_init env po arg = port_init (generic_create_proc env po arg) po"

text \<open>No handler is registered, so that no interrupt changes the flag.\<close>

definition generic_platform_poll :: "nat \<Rightarrow> rproc_env \<Rightarrow> port_env \<Rightarrow> remoteproc \<Rightarrow> rproc_world \<Rightarrow> (int \<times> rproc_world) cres" where
  "generic_platform_poll fuel env po rp w = poll_irq_loop fuel env po (\<lambda>w. (False, w)) 0 rp w"

definition generic_platform_cleanup ::
  "rproc_env \<Rightarrow> port_env \<Rightarrow> remoteproc option \<Rightarrow> rproc_world \<Rightarrow> (remoteproc option \<times> rproc_world) cres" where
  "generic_platform_cleanup env po = port_cleanup po (linux_proc_ops env po)"

end
