(* ===== verification/Port_Props.thy ===== *)
theory Port_Props
  imports Bare_Ports Linux_Ports
begin

text \<open>
  Properties of the ports: what \<open>platform_poll\<close> waits for, which devices and interrupts initialisation and removal
  leave behind, and what \<open>platform_init\<close> sets up.
\<close>

subsection \<open>Waiting for a kick\<close>

text \<open>
  What \<open>platform_poll\<close> relies on: the handler takes an interrupt when \<open>pending\<close> holds, and then clears the flag
  (\<open>taken\<close>), and leaves everything alone otherwise.
\<close>

locale kick_handler =
  fixes handler :: "rproc_world \<Rightarrow> bool \<times> rproc_world" and pending :: "rproc_world \<Rightarrow> bool" and taken :: "rproc_world \<Rightarrow> rproc_world"
  assumes handler_eq: "handler w = (if pending w then (True, taken w) else (False, w))"
    and taken_flag: "\<not> pv_ipi_nokick (w_priv (taken w))"
begin

text \<open>The loop returns at the first interrupt that the handler takes, and hangs without one.\<close>

lemma poll_exact:
  "pv_ipi_nokick (w_priv w) \<Longrightarrow> poll_irq_loop (Suc fuel) env po handler k rp w =
     (case find (\<lambda>j. po_irq po (k + j) \<and> pending (w\<lparr>w_mem := mem_after env k (Suc j) (w_mem w)\<rparr>)) [0..<fuel] of
        None \<Rightarrow> Inl Hang
      | Some j \<Rightarrow> remoteproc_get_notification env RSC_NOTIFY_ID_ANY rp
          (upd_priv (\<lambda>p. p\<lparr>pv_ipi_nokick := True\<rparr>) (taken (w\<lparr>w_mem := mem_after env k (Suc j) (w_mem w)\<rparr>))))"
proof (induction fuel arbitrary: k w)
  case (Suc fuel)
  let ?w = "w\<lparr>w_mem := pe_yield env k (w_mem w)\<rparr>"
  have IH: "poll_irq_loop (Suc fuel) env po handler (Suc k) rp ?w =
     (case find (\<lambda>j. po_irq po (k + Suc j) \<and> pending (w\<lparr>w_mem := mem_after env k (Suc (Suc j)) (w_mem w)\<rparr>)) [0..<fuel] of
        None \<Rightarrow> Inl Hang
      | Some j \<Rightarrow> remoteproc_get_notification env RSC_NOTIFY_ID_ANY rp
          (upd_priv (\<lambda>p. p\<lparr>pv_ipi_nokick := True\<rparr>) (taken (w\<lparr>w_mem := mem_after env k (Suc (Suc j)) (w_mem w)\<rparr>))))"
    using Suc.IH [of ?w "Suc k"] Suc.prems by (simp cong: option.case_cong)
  show ?case
  proof (cases "po_irq po k \<and> pending ?w")
    case True
    then show ?thesis using Suc.prems by (simp add: poll_wait_def handler_eq taken_flag find_upt_Suc del: upt_Suc)
  next
    case False
    then have "poll_wait env po handler k w = ?w" by (auto simp: poll_wait_def handler_eq Let_def)
    then show ?thesis
      using IH False Suc.prems by (auto simp: find_upt_Suc split: option.splits simp del: upt_Suc)
  qed
qed (simp add: poll_wait_def handler_eq taken_flag)

end

interpretation a9_kick: kick_handler "zynq_a9_proc_irq_handler (Some irp)" "\<lambda>_. True" "upd_priv (\<lambda>p. p\<lparr>pv_ipi_nokick := False\<rparr>)" for irp
  by unfold_locales (simp_all add: zynq_a9_proc_irq_handler_def)

interpretation linux_r5_kick: kick_handler "zynqmp_linux_r5_proc_irq_handler ie (Some irp)"
  "\<lambda>w. reg_read32 ie (pv_ipi_io (w_priv w)) IPI_ISR_OFFSET w AND IPI_CHN_BITMASK \<noteq> 0"
  "\<lambda>w. reg_write32 ie (pv_ipi_io (w_priv w)) IPI_ISR_OFFSET IPI_CHN_BITMASK (upd_priv (\<lambda>p. p\<lparr>pv_ipi_nokick := False\<rparr>) w)" for ie irp
  by unfold_locales (simp_all add: zynqmp_linux_r5_proc_irq_handler_def reg_write32_def Let_def)

interpretation generic_kick: kick_handler "\<lambda>w. (False, w)" "\<lambda>_. False" "upd_priv (\<lambda>p. p\<lparr>pv_ipi_nokick := False\<rparr>)"
  by unfold_locales simp_all

text \<open>
  C29. Waiting on Linux for the Cortex-R5. \<open>platform_poll\<close> returns exactly at the first interrupt during whose handling the
  status register shows the channel of the other processor, after having run the callbacks of all queues on the state of that
  moment; the interrupt is acknowledged and the flag is set again, so that the kick is taken once. While there is none, it waits.
\<close>

theorem linux_r5_poll_exact:
  assumes "pv_ipi_nokick (w_priv w)" and "io = pv_ipi_io (w_priv w)"
  shows "linux_r5_platform_poll (Suc fuel) env po rp w =
     (case find (\<lambda>j. po_irq po j \<and>
          io_read32 (pe_io env) io IPI_ISR_OFFSET (mem_after env 0 (Suc j) (w_mem w)) AND IPI_CHN_BITMASK \<noteq> 0) [0..<fuel] of
        None \<Rightarrow> Inl Hang
      | Some j \<Rightarrow> remoteproc_get_notification env RSC_NOTIFY_ID_ANY rp
          (w\<lparr>w_mem := io_write32 (pe_io env) io IPI_ISR_OFFSET IPI_CHN_BITMASK (mem_after env 0 (Suc j) (w_mem w))\<rparr>))"
proof -
  have "w\<lparr>w_mem := m\<rparr> = w\<lparr>w_mem := m, w_priv := (w_priv w)\<lparr>pv_ipi_nokick := True\<rparr>\<rparr>" for m
    using assms(1) by simp
  then show ?thesis
    using linux_r5_kick.poll_exact [OF assms(1), where fuel = fuel and env = env and po = po and k = 0 and rp = rp and ie = env and irp = rp] assms(2)
    by (simp add: linux_r5_platform_poll_def reg_read32_def reg_write32_def upd_priv_def cong: option.case_cong)
qed

text \<open>
  On the generic Linux port only the first \<open>platform_poll\<close> returns: it finds the flag clear and sets it, and since the port registers no
  interrupt handler, every later call waits forever.
\<close>

theorem generic_poll_only_once:
  assumes "\<not> pv_ipi_nokick (w_priv w)"
    and "remoteproc_get_notification env RSC_NOTIFY_ID_ANY rp (upd_priv (\<lambda>p. p\<lparr>pv_ipi_nokick := True\<rparr>) w) = Inr (ret, w1)"
    and "pv_ipi_nokick (w_priv w1)"
  shows "generic_platform_poll (Suc fuel) env po rp w = Inr (ret, w1) \<and> generic_platform_poll fuel' env po rp w1 = Inl Hang"
proof -
  have n: "find (\<lambda>j. False) xs = None" for xs :: "nat list" by (induction xs) simp_all
  have "generic_platform_poll fuel' env po rp w1 = Inl Hang"
    using generic_kick.poll_exact [OF assms(3), where env = env and po = po and k = 0 and rp = rp]
    by (cases fuel') (simp_all add: generic_platform_poll_def n)
  then show ?thesis using assms(1,2) by (simp add: generic_platform_poll_def)
qed

subsection \<open>Devices and interrupts\<close>

text \<open>What a port holds of libmetal: open devices, and interrupts with a handler or enabled.\<close>

definition held :: "rproc_world \<Rightarrow> ptr list \<times> u32 list \<times> u32 list" where
  "held w = (pv_open_devs (w_priv w), pv_irqs (w_priv w), pv_irqs_on (w_priv w))"

definition irq_unused :: "u32 \<Rightarrow> rproc_world \<Rightarrow> bool" where
  "irq_unused i w \<longleftrightarrow> i \<notin> set (pv_irqs (w_priv w)) \<and> i \<notin> set (pv_irqs_on (w_priv w))"

lemma dev_open_cases:
  obtains (fail) ret dev where "dev_open po bus name w = (ret, dev, w)" and "ret \<noteq> 0"
  | (ok) dev where "po_device_open po bus name w = (0, dev)"
    and "dev_open po bus name w = (0, dev, upd_priv (\<lambda>p. p\<lparr>pv_open_devs := dev # pv_open_devs p\<rparr>) w)"
  by (cases "po_device_open po bus name w") (auto simp: dev_open_def)

text \<open>The part of initialisation that the Linux ports share either fails and gives back what it opened, or runs the rest.\<close>

lemma shm_init_cases:
  assumes "arg \<noteq> NULL"
  obtains (fail) v where "shm_proc_init po ops_ptr bus name rest (Some rp) arg w = Inr (None, v)" and "held v = held w"
  | (ok) dev v where "po_device_open po bus name (upd_priv (\<lambda>p. p\<lparr>pv_ipi_dev := NULL, pv_shm_dev := NULL\<rparr>) w) = (0, dev)"
    and "shm_proc_init po ops_ptr bus name rest (Some rp) arg w = rest (rp\<lparr>rp_priv := arg, rp_ops := ops_ptr\<rparr>) v"
    and "held v = (dev # fst (held w), snd (held w))" and "pv_shm_dev (w_priv v) = dev"
proof (cases rule: dev_open_cases [of po bus name "upd_priv (\<lambda>p. p\<lparr>pv_ipi_dev := NULL, pv_shm_dev := NULL\<rparr>) w"])
  case (fail ret dev)
  then show thesis using assms
    by (intro that(1) [of "upd_priv (\<lambda>p. p\<lparr>pv_ipi_dev := NULL, pv_shm_dev := NULL\<rparr>) w"])
      (simp_all add: shm_proc_init_def held_def Let_def)
next
  case (ok dev)
  show thesis
  proof (cases "po_io_region po dev = NULL")
    case True
    then show thesis
      using ok(2) assms
      by (intro that(1) [of "upd_priv (\<lambda>p. p\<lparr>pv_ipi_dev := NULL, pv_shm_dev := dev, pv_shm_io := NULL\<rparr>) w"])
        (simp_all add: shm_proc_init_def held_def Let_def dev_close_def)
  next
    case False
    then show thesis
      using ok assms
      by (intro that(2) [of dev "upd_priv (\<lambda>p. p\<lparr>pv_ipi_dev := NULL, pv_open_devs := dev # pv_open_devs p,
            pv_shm_dev := dev, pv_shm_io := po_io_region po dev\<rparr>) w"])
        (simp_all add: shm_proc_init_def held_def Let_def)
  qed
qed

lemma removeAll_insert: "x \<notin> set xs \<Longrightarrow> removeAll x (List.insert x xs) = xs"
  by (simp add: List.insert_def)

text \<open>
  C28. Devices on Linux for the Cortex-R5. However the devices behave, initialisation does not fault; when it fails, every device that it
  opened is closed and no interrupt stays registered, and when it succeeds, removal gives back exactly the two devices
  and the interrupt. This relies on libmetal not to return NULL for an open device.
\<close>

theorem linux_r5_gives_back:
  assumes "\<And>bus name v dev. po_device_open po bus name v = (0, dev) \<Longrightarrow> dev \<noteq> NULL \<and> irq_unused (po_irq_info po dev) w"
    and "arg \<noteq> NULL"
  shows "\<exists>r w1. zynqmp_linux_r5_proc_init env po (Some rp) arg w = Inr (r, w1) \<and>
    (case r of None \<Rightarrow> held w1 = held w
     | Some rp1 \<Rightarrow> \<exists>w2. zynqmp_linux_r5_proc_remove env po rp1 w1 = Inr (rp1, w2) \<and> held w2 = held w)"
proof (cases rule: shm_init_cases [OF assms(2), of po LINUX_R5_PROC_OPS DEV_BUS_NAME LINUX_R5_SHM_NAME "linux_r5_ipi_init env po" rp w])
  case (1 v)
  then show ?thesis by (simp add: zynqmp_linux_r5_proc_init_def)
next
  case ok: (2 dev v)
  have d: "dev \<noteq> NULL" using assms(1) ok(1) by blast
  show ?thesis
  proof (cases rule: dev_open_cases [of po DEV_BUS_NAME LINUX_R5_IPI_NAME v])
    case (fail ret dev')
    then show ?thesis
      using ok by (auto simp: zynqmp_linux_r5_proc_init_def linux_r5_ipi_init_def dev_close_def held_def)
  next
    case ok': (ok dev')
    have d': "dev' \<noteq> NULL" "irq_unused (po_irq_info po dev') w" using assms(1) ok'(1) by blast+
    then show ?thesis
      using ok ok'(2) d
      by (auto simp: zynqmp_linux_r5_proc_init_def linux_r5_ipi_init_def dev_close_def held_def Let_def
          zynqmp_linux_r5_proc_remove_def close_shm_def reg_write32_def irq_defs irq_unused_def removeAll_insert)
  qed
qed

text \<open>
  Devices that the Linux port of the virtual machine keeps. When the polling device cannot be opened the shared memory
  device stays open, and after a successful initialisation the removal does not close the polling device.
\<close>

theorem rv64_linux_keeps_devices:
  assumes "arg \<noteq> NULL" and "\<And>v. po_device_open po DEV_BUS_NAME RV64_LINUX_SHM_NAME v = (0, shm)" and "shm \<noteq> NULL"
    and "po_io_region po shm \<noteq> NULL" and "\<And>v. po_device_open po DEV_BUS_NAME RV64_LINUX_POLL_NAME v = (ret, poll)"
    and "ret = 0 \<Longrightarrow> po_io_region po poll \<noteq> NULL" and "shm \<noteq> poll" and "fst (held w) = []"
  shows "\<exists>r w1. rv64_virt_linux_proc_init env po (Some rp) arg w = Inr (r, w1) \<and>
    (if ret \<noteq> 0 then r = None \<and> fst (held w1) = [shm]
     else \<exists>rp1 w2. r = Some rp1 \<and> rv64_virt_linux_proc_remove rp1 w1 = Inr (rp1, w2) \<and> fst (held w2) = [poll])"
proof (cases "ret = 0")
  case True
  then show ?thesis
    using assms
    by (simp add: rv64_virt_linux_proc_init_def shm_proc_init_def rv64_linux_poll_init_def dev_open_def held_def Let_def
        reg_write32_def rv64_virt_linux_proc_remove_def close_shm_def dev_close_def)
next
  case False
  then show ?thesis
    using assms by (simp add: rv64_virt_linux_proc_init_def shm_proc_init_def rv64_linux_poll_init_def dev_open_def held_def Let_def)
qed

text \<open>
  The handler that the Cortex-A9 port leaves behind. \<open>init\<close> registers and enables the interrupt that the other processor
  raises, but \<open>remove\<close> disables and unregisters the one raised towards it: afterwards the handler is still registered and
  enabled, with a processor that is gone.
\<close>

theorem a9_remove_leaves_handler:
  assumes "arg \<noteq> NULL" and "\<And>v. po_device_open po SCUGIC_BUS_NAME SCUGIC_DEV_NAME v = (0, dev)" and "dev \<noteq> NULL"
    and "po_io_region po dev \<noteq> NULL"
  shows "\<exists>rp1 w1 w2. zynq_a9_proc_init po (Some rp) arg w = Inr (Some rp1, w1) \<and> zynq_a9_proc_remove rp1 w1 = Inr (rp1, w2) \<and>
    pv_open_devs (w_priv w2) = pv_open_devs (w_priv w) \<and>
    SGI_NOTIFICATION \<in> set (pv_irqs (w_priv w2)) \<and> SGI_NOTIFICATION \<in> set (pv_irqs_on (w_priv w2))"
  using assms
  by (simp add: zynq_a9_proc_init_def zynq_a9_proc_remove_def dev_open_def dev_close_def Let_def irq_defs
      SGI_NOTIFICATION_def SGI_TO_NOTIFY_def)

text \<open>
  The Cortex-R5 port never starts. Its driver opens a device of the generic bus that the port does not register: with a libmetal that only opens
  what is registered there, \<open>platform_init\<close> fails.
\<close>

theorem r5_platform_never_starts:
  assumes "\<And>name v. name \<notin> set (pv_generic_devs (w_priv v)) \<Longrightarrow> fst (po_device_open po IPI_BUS_NAME name v) \<noteq> 0"
    and "IPI_DEV_NAME \<notin> set (pv_generic_devs (w_priv (po_init_system po w)))"
  shows "\<exists>w1. r5_platform_init env po self arg rsc rsc_size True w = Inr (- EINVAL, None, w1)"
proof (cases "po_device_open po IPI_BUS_NAME IPI_DEV_NAME (po_init_system po w)")
  case (Pair ret dev)
  then have "ret \<noteq> 0" using assms(1) [OF assms(2)] by simp
  then show ?thesis
    using Pair
    by (auto simp: r5_platform_init_def port_init_def r5_create_proc_def bare_create_proc_def remoteproc_init_def
        zynqmp_r5_a53_proc_ops_def zynqmp_r5_a53_proc_init_def poll_proc_init_def dev_open_def)
qed

end
