(* ===== verification/Port_Setup.thy ===== *)
theory Port_Setup
  imports Port_Props
begin

text \<open>
  What \<open>platform_init\<close> sets up on a processor without an operating system: the table and the shared memory are mapped
  at their physical addresses, the table is parsed, and everything is found again by address.
\<close>

subsection \<open>Mapping memory\<close>

text \<open>The region that \<open>bare_mmap\<close> adds, with the blocks it allocates.\<close>

definition bare_region :: "port_env \<Rightarrow> u32 \<Rightarrow> nat \<Rightarrow> u64 \<Rightarrow> u64 \<Rightarrow> remoteproc_mem" where
  "bare_region po attr b pa sz =
     (po_junk_mem po)\<lparr>rm_name := (rm_name (po_junk_mem po))[0 := 0], rm_pa := pa, rm_da := pa,
       rm_io := po_io_init po (Suc b) pa pa sz attr, rm_size := sz, rm_blocks := [b, Suc b]\<rparr>"

lemma bare_region_sel [simp]:
  "rm_pa (bare_region po attr b pa sz) = pa" "rm_da (bare_region po attr b pa sz) = pa"
  "rm_size (bare_region po attr b pa sz) = sz" "rm_io (bare_region po attr b pa sz) = po_io_init po (Suc b) pa pa sz attr"
  by (simp_all add: bare_region_def)

text \<open>A request for a physical address that no region covers yet.\<close>

lemma bare_mmap_new:
  assumes "op_mmap ops = Some (bare_mmap attr0 env po)" and "\<And>req v. pe_alloc env req v" and "rp_ops rp \<noteq> NULL"
    and "pa \<noteq> METAL_BAD_PHYS" and "remoteproc_get_mem (pe_io env) rp None pa METAL_BAD_PHYS NULL sz = None"
    and "attr' = (if attr = 0 then attr0 else attr)" and "b = length (w_blocks w)"
  shows "remoteproc_mmap (pe_io env) ops (Some rp) (Some pa) None sz attr iop w =
    Inr (io_phys_to_virt (pe_io env) (po_io_init po (Suc b) pa pa sz attr') pa, Some pa, None,
      map_option (\<lambda>_. po_io_init po (Suc b) pa pa sz attr') iop,
      Some (rp\<lparr>rp_mems := rp_mems rp @ [bare_region po attr' b pa sz]\<rparr>), w\<lparr>w_blocks := w_blocks w @ [True, True]\<rparr>)"
  using assms
  by (simp add: remoteproc_mmap_def bare_mmap_def alloc_block_def remoteproc_init_mem_def remoteproc_add_mem_def bare_region_def
      Let_def)

subsection \<open>Creating the processor\<close>

text \<open>
  What the set-up needs of the board: memory for the regions, regions that \<open>metal_io_init\<close> sets up as libmetal documents it, and the
  bitmap functions.
\<close>

definition regions_work :: "rproc_env \<Rightarrow> port_env \<Rightarrow> u32 \<Rightarrow> u64 \<Rightarrow> u64 \<Rightarrow> bool" where
  "regions_work env po attr pa sz \<longleftrightarrow>
     (\<forall>b. po_io_init po b pa pa sz attr \<noteq> NULL \<and> metal_region (pe_io env) (po_io_init po b pa pa sz attr) pa pa (unat sz))"

lemma region_offset:
  assumes "regions_work env po attr pa sz" and "k < unat sz"
  shows "io_virt_to_offset (pe_io env) (po_io_init po b pa pa sz attr) (pa + of_nat k) \<noteq> METAL_BAD_OFFSET"
proof -
  have r: "metal_region (pe_io env) (po_io_init po b pa pa sz attr) pa pa (unat sz)"
    using assms(1) by (simp add: regions_work_def)
  have k: "unat (of_nat k :: u64) = k" using assms(2) unsigned_less [of sz, where 'a = nat] by (intro unat_of_nat_64) simp
  have "io_virt_to_offset (pe_io env) (po_io_init po b pa pa sz attr) (pa + of_nat k) = of_nat k"
    using metal_region.virt_to_offset [OF r, of "pa + of_nat k"] k assms(2) by simp
  moreover have "k < 2 ^ 63" using metal_region.size_fits [OF r] assms(2) by simp
  then have "of_nat k \<noteq> METAL_BAD_OFFSET" using k by (auto simp: METAL_BAD_OFFSET_def word_unat_eq_iff unsigned_minus_1_eq_mask mask_eq_exp_minus_1)
  ultimately show ?thesis by simp
qed

lemma bare_create_run:
  fixes w1 :: rproc_world and pa shm :: u64
  defines "b \<equiv> length (w_blocks w1)"
  assumes init: "remoteproc_init ops arg (Some zero_remoteproc) w = Inr (Some rp, w1)"
    and rp: "rp = zero_remoteproc\<lparr>rp_lock_live := True, rp_priv := arg, rp_ops := ops_ptr\<rparr>" "ops_ptr \<noteq> NULL"
    and ops: "op_mmap ops = Some (bare_mmap attr0 env po)" "\<And>req v. pe_alloc env req v"
    and attr': "attr' = (if attr = 0 then attr0 else attr)"
    and reg: "regions_work env po attr' pa sz" and addr: "pa \<noteq> METAL_BAD_PHYS" "shm \<noteq> METAL_BAD_PHYS" "pa \<noteq> NULL"
    and apart: "\<not> (pa \<le> shm \<and> shm + shm_size \<le> pa + sz)"
    and tab: "rd_bytes (copy (w_mem w1)) pa (84 + 4 * n) = table_bytes (rpmsg_table n tx rx)" "0 < n" "n \<le> 8" "84 + 4 * n \<le> unat sz"
    and bm: "metal_bitmap (pe_bitmap env) bits 64 valid" "valid [0]" "bits [0] = {}"
  shows "\<exists>ids rp' w'. bare_create_proc env ops attr arg copy pa sz shm shm_size w = Inr (Some rp', w') \<and>
    rp' = rp\<lparr>rp_mems := [bare_region po attr' b pa sz, bare_region po attr' (Suc (Suc b)) shm shm_size], rp_bitmap := ids,
      rp_rsc_table := pa, rp_rsc_len := sz, rp_rsc_io := po_io_init po (Suc b) pa pa sz attr'\<rparr> \<and>
    bits ids = {0, 1, 2} \<and>
    w' = w1\<lparr>w_blocks := w_blocks w1 @ [True, True, True, True],
      w_mem := wr32 (copy (w_mem w1)) (pa + of_nat (24 + 4 * n)) 2\<rparr>"
proof -
  let ?io = "po_io_init po (Suc b) pa pa sz attr'"
  let ?m1 = "bare_region po attr' b pa sz" and ?m2 = "bare_region po attr' (Suc (Suc b)) shm shm_size"
  define w2 where "w2 = w1\<lparr>w_mem := copy (w_mem w1)\<rparr>"
  define rp3 where "rp3 = rp\<lparr>rp_mems := [?m1, ?m2], rp_rsc_io := ?io\<rparr>"
  define w4 where "w4 = w2\<lparr>w_blocks := w_blocks w1 @ [True, True, True, True]\<rparr>"
  have m1: "remoteproc_mmap (pe_io env) ops (Some rp) (Some pa) None sz attr (Some (rp_rsc_io rp)) w2 =
      Inr (io_phys_to_virt (pe_io env) ?io pa, Some pa, None, Some ?io, Some (rp\<lparr>rp_mems := [?m1]\<rparr>),
        w2\<lparr>w_blocks := w_blocks w1 @ [True, True]\<rparr>)"
    using bare_mmap_new [OF ops, of rp pa sz attr' attr b w2 "Some (rp_rsc_io rp)"] attr' addr(1) rp
    by (simp add: w2_def b_def remoteproc_get_mem_def zero_remoteproc_def)
  have "remoteproc_get_mem (pe_io env) (rp\<lparr>rp_mems := [?m1], rp_rsc_io := ?io\<rparr>) None shm METAL_BAD_PHYS NULL shm_size = None"
    using apart addr(2) by (auto simp: remoteproc_get_mem_def Let_def)
  then have m2: "remoteproc_mmap (pe_io env) ops (Some (rp\<lparr>rp_mems := [?m1], rp_rsc_io := ?io\<rparr>)) (Some shm) None shm_size attr None
      (w2\<lparr>w_blocks := w_blocks w1 @ [True, True]\<rparr>) =
      Inr (io_phys_to_virt (pe_io env) (po_io_init po (Suc (Suc (Suc b))) shm shm shm_size attr') shm, Some shm, None, None, Some rp3, w4)"
    using bare_mmap_new [OF ops, of "rp\<lparr>rp_mems := [?m1], rp_rsc_io := ?io\<rparr>" shm shm_size attr' attr "Suc (Suc b)"
        "w2\<lparr>w_blocks := w_blocks w1 @ [True, True]\<rparr>" None] attr' addr(2) rp
    by (simp add: b_def w2_def w4_def rp3_def)
  have off: "io_virt_to_offset (pe_io env) ?io pa \<noteq> METAL_BAD_OFFSET"
      "io_virt_to_offset (pe_io env) ?io (pa + of_nat (16 + 4 * n)) \<noteq> METAL_BAD_OFFSET"
    using region_offset [OF reg, of 0] region_offset [OF reg, of "16 + 4 * n"] tab(4) by simp_all
  have io: "remoteproc_get_io_with_va (pe_io env) rp3 pa = ?io"
    using off(1) addr(3) by (simp add: rp3_def remoteproc_get_io_with_va_def remoteproc_get_mem_def)
  obtain ids where p: "handle_rsc_table env ops pa sz ?io rp3 w4 =
      Inr (0, rp3\<lparr>rp_bitmap := ids\<rparr>, w4\<lparr>w_mem := wr32 (w_mem w4) (pa + of_nat (16 + 4 * n) + VDEV_RSC_NOTIFYID) 2\<rparr>)"
      "bits ids = {0, 1, 2}"
    using rpmsg_table_parsed [OF _ tab(2,3,4) refl _ bm(1), of w4 pa tx rx ?io rp3 ops] tab(1) off(2) bm(2,3)
    by (auto simp: w4_def w2_def rp3_def rp(1) zero_remoteproc_def)
  have "?io \<noteq> NULL" using reg by (simp add: regions_work_def)
  then have s: "remoteproc_set_rsc_table env ops pa sz rp3 w4 = Inr (0, rp3\<lparr>rp_bitmap := ids, rp_rsc_table := pa, rp_rsc_len := sz, rp_rsc_io := ?io\<rparr>,
      w4\<lparr>w_mem := wr32 (w_mem w4) (pa + of_nat (16 + 4 * n) + VDEV_RSC_NOTIFYID) 2\<rparr>)"
    using p(1) by (simp add: remoteproc_set_rsc_table_def remoteproc_parse_rsc_table_def io)
  have "bare_create_proc env ops attr arg copy pa sz shm shm_size w = Inr (Some (rp3\<lparr>rp_bitmap := ids, rp_rsc_table := pa, rp_rsc_len := sz,
      rp_rsc_io := ?io\<rparr>), w4\<lparr>w_mem := wr32 (w_mem w4) (pa + of_nat (16 + 4 * n) + VDEV_RSC_NOTIFYID) 2\<rparr>)"
    using m1 m2 s by (simp add: bare_create_proc_def init w2_def [symmetric] Let_def)
  then show ?thesis
    using p(2) by (intro exI [of _ ids] exI conjI) (auto simp: rp3_def w4_def w2_def vdev_rsc_defs add.assoc)
qed

text \<open>The initialisation of a port that polls, when its device can be opened.\<close>

lemma poll_init_run:
  assumes "\<And>v. po_device_open po bus name v = (0, dev)" and "po_io_region po dev = io" and "io \<noteq> NULL" and "arg \<noteq> NULL"
    and "metal_region (pe_io env) io poll poll 0x1000" and "op_init ops = Some (poll_proc_init env po ops_ptr bus name)"
  shows "\<exists>w1. remoteproc_init ops arg (Some zero_remoteproc) w =
      Inr (Some (zero_remoteproc\<lparr>rp_lock_live := True, rp_priv := arg, rp_ops := ops_ptr\<rparr>), w1) \<and>
    w_mem w1 = wr32 (w_mem w) poll 0 \<and> w_blocks w1 = w_blocks w \<and> pv_poll_io (w_priv w1) = io"
  using assms(1-4,6) metal_region.write32 [OF assms(5), of 0]
  by (simp add: remoteproc_init_def poll_proc_init_def dev_open_def reg_write32_def Let_def zero_remoteproc_def)

lemma copied_table:
  assumes "length bs \<le> n" and "n < 2 ^ 64" and "rd_bytes m src (length bs) = bs"
  shows "rd_bytes (wr_bytes m dst (rd_bytes m src n)) dst (length bs) = bs"
  using rd_wr_part [of 0 "length bs" "rd_bytes m src n" m dst] rd_bytes_slice [of m src n "rd_bytes m src n" 0 "length bs"] assms
  by simp

lemma rv64_addresses:
  "RV64_RSC_MEM_PA \<noteq> METAL_BAD_PHYS" "RV64_SHARED_BUF_PA \<noteq> METAL_BAD_PHYS" "RV64_RSC_MEM_PA \<noteq> NULL" "RV64_PROC_OPS \<noteq> NULL"
  "RV64_RSC_MEM_PA \<le> RV64_SHARED_BUF_PA" "RV64_RSC_MEM_PA + 0x100 < RV64_SHARED_BUF_PA"
  "RV64_SHARED_BUF_PA \<le> RV64_SHARED_BUF_PA + RV64_SHARED_BUF_SIZE"
  by (simp_all add: RV64_RSC_MEM_PA_def RV64_SHARED_BUF_PA_def RV64_SHM_BASE_def RV64_RSC_MEM_SIZE_def METAL_BAD_PHYS_def
      RV64_PROC_OPS_def RV64_SHARED_BUF_SIZE_def)

text \<open>
  C27. Set-up on the RISC-V virtual machine. When its devices can be opened and there is memory, \<open>platform_init\<close> returns 0 with a processor that is off-line, whose
  resource table is the copy at the start of the shared memory, parsed with the identifiers 0, 1 and 2 allocated, and which has two
  regions, mapped one to one: the table and the shared buffers, whose region is found by its address. The word for polling is cleared.
\<close>

theorem rv64_platform_ready:
  assumes "\<And>v. po_register_device po IPI_DEV_NAME v = 0" and "\<And>v. po_device_open po IPI_BUS_NAME IPI_DEV_NAME v = (0, dev)"
    and "po_io_region po dev = io" and "io \<noteq> NULL" and "metal_region (pe_io env) io poll poll 0x1000" and "arg \<noteq> NULL"
    and "\<And>req v. pe_alloc env req v" and "regions_work env po 0 RV64_RSC_MEM_PA 0x100"
    and "regions_work env po 0 RV64_SHARED_BUF_PA RV64_SHARED_BUF_SIZE"
    and "metal_bitmap (pe_bitmap env) bits 64 valid" and "valid [0]" and "bits [0] = {}"
    and "rv64_get_resource_table resources = (rsc, sz)"
    and "rd_bytes (w_mem (po_init_system po w)) rsc (length (table_bytes rv64_resources)) = table_bytes rv64_resources"
    and "disjoint_blocks rsc 116 poll 4" and "disjoint_blocks poll 4 RV64_RSC_MEM_PA 0x100"
  shows "\<exists>rp w'. rv64_platform_init env po arg rsc (word_of_int sz) True w = Inr (0, Some rp, w') \<and>
    rp_state rp = RPROC_OFFLINE \<and> rp_rsc_table rp = RV64_RSC_MEM_PA \<and> bits (rp_bitmap rp) = {0, 1, 2} \<and>
    map (\<lambda>m. (rm_pa m, rm_da m, rm_size m)) (rp_mems rp) =
      [(RV64_RSC_MEM_PA, RV64_RSC_MEM_PA, 0x100), (RV64_SHARED_BUF_PA, RV64_SHARED_BUF_PA, RV64_SHARED_BUF_SIZE)] \<and>
    remoteproc_get_io_with_pa (pe_io env) rp RV64_SHARED_BUF_PA = rm_io (rp_mems rp ! 1) \<and> rm_io (rp_mems rp ! 1) \<noteq> NULL \<and>
    reg_read32 env (pv_poll_io (w_priv w')) 0 w' = 0"
proof -
  let ?ops = "virt_rv64_proc_ops env po" and ?copy = "\<lambda>m. wr_bytes m RV64_RSC_MEM_PA (rd_bytes m rsc 0x100)"
  have sz: "sz = 0x100" "rsc = resources" using assms(13) by (auto simp: rv64_get_resource_table_def)
  define w0 where "w0 = snd (metal_register_generic_device po IPI_DEV_NAME (po_init_system po w))"
  have w0: "w_mem w0 = w_mem (po_init_system po w)"
    by (simp add: w0_def metal_register_generic_device_def Let_def)
  obtain w1 where w1: "remoteproc_init ?ops arg (Some zero_remoteproc) w0 =
      Inr (Some (zero_remoteproc\<lparr>rp_lock_live := True, rp_priv := arg, rp_ops := RV64_PROC_OPS\<rparr>), w1)"
      "w_mem w1 = wr32 (w_mem w0) poll 0" "pv_poll_io (w_priv w1) = io"
    using poll_init_run [OF assms(2-4,6,5), of ?ops RV64_PROC_OPS w0]
    by (auto simp: virt_rv64_proc_ops_def virt_rv64_proc_init_def)
  have l: "length (table_bytes rv64_resources) = 116" by (simp add: rv64_resources_def length_table_bytes)
  have "rd_bytes (w_mem w1) rsc 116 = table_bytes rv64_resources"
    using rd_wr_other [of rsc 116 poll "le_bytes 4 (0 :: u32)"] assms(14,15) l by (simp add: w1(2) w0)
  then have tab: "rd_bytes (?copy (w_mem w1)) RV64_RSC_MEM_PA (84 + 4 * 8) =
      table_bytes (rpmsg_table 8 FW_RSC_U32_ADDR_ANY FW_RSC_U32_ADDR_ANY)"
    using copied_table [of "table_bytes rv64_resources" "0x100" "w_mem w1" rsc RV64_RSC_MEM_PA] l by (simp add: rv64_resources_def)
  have mm: "op_mmap ?ops = Some (bare_mmap 0 env po)" by (simp add: virt_rv64_proc_ops_def virt_rv64_proc_mmap_def)
  have apart: "\<not> (RV64_RSC_MEM_PA \<le> RV64_SHARED_BUF_PA \<and> RV64_SHARED_BUF_PA + RV64_SHARED_BUF_SIZE \<le> RV64_RSC_MEM_PA + 0x100)"
    using rv64_addresses(6,7) by auto
  obtain ids rp w' where r: "bare_create_proc env ?ops 0 arg ?copy RV64_RSC_MEM_PA 0x100 RV64_SHARED_BUF_PA RV64_SHARED_BUF_SIZE w0 = Inr (Some rp, w')"
      "bits ids = {0, 1, 2}"
    and rp: "rp = (zero_remoteproc\<lparr>rp_lock_live := True, rp_priv := arg, rp_ops := RV64_PROC_OPS\<rparr>)\<lparr>
      rp_mems := [bare_region po 0 (length (w_blocks w1)) RV64_RSC_MEM_PA 0x100,
        bare_region po 0 (Suc (Suc (length (w_blocks w1)))) RV64_SHARED_BUF_PA RV64_SHARED_BUF_SIZE], rp_bitmap := ids,
      rp_rsc_table := RV64_RSC_MEM_PA, rp_rsc_len := 0x100, rp_rsc_io := po_io_init po (Suc (length (w_blocks w1))) RV64_RSC_MEM_PA RV64_RSC_MEM_PA 0x100 0\<rparr>"
    and w': "w' = w1\<lparr>w_blocks := w_blocks w1 @ [True, True, True, True],
      w_mem := wr32 (?copy (w_mem w1)) (RV64_RSC_MEM_PA + of_nat (24 + 4 * 8)) 2\<rparr>"
    using bare_create_run [where copy = ?copy and n = 8 and attr = 0 and attr' = 0, OF w1(1) refl rv64_addresses(4) mm assms(7) _ _
        rv64_addresses(1-3) apart tab _ _ _ assms(10-12)] assms(8)
    by auto
  have "rv64_platform_init env po arg rsc (word_of_int sz) True w = Inr (0, Some rp, w')"
    using r(1) assms(1) by (simp add: rv64_platform_init_def port_init_def rv64_create_proc_def sz w0_def metal_register_generic_device_def)
  moreover have "remoteproc_get_io_with_pa (pe_io env) rp RV64_SHARED_BUF_PA = rm_io (rp_mems rp ! 1) \<and> rm_io (rp_mems rp ! 1) \<noteq> NULL"
    using rv64_addresses assms(9) by (auto simp: rp remoteproc_get_io_with_pa_def remoteproc_get_mem_def regions_work_def Let_def)
  moreover have "reg_read32 env (pv_poll_io (w_priv w')) 0 w' = 0"
  proof -
    have "disjoint_blocks poll 4 (RV64_RSC_MEM_PA + of_nat (24 + 4 * 8)) 4" by (rule disjoint_blocks_sub [OF assms(16)]) simp
    then have "rd_bytes (w_mem w') poll 4 = rd_bytes (w_mem w1) poll 4"
      using assms(16) by (simp add: w' rd_wr_other)
    then show ?thesis
      using metal_region.read32 [OF assms(5), of 0] w1(2,3) by (simp add: reg_read32_def w' rd_wr_same le_word_bytes)
  qed
  ultimately show ?thesis using r(2) by (simp add: rp zero_remoteproc_def)
qed

subsection \<open>A board\<close>

text \<open>A board with directly mapped regions, whose devices can be opened and whose interrupt arrives in the fourth round.\<close>

definition board :: port_env where
  "board = \<lparr>po_device_open = (\<lambda>bus name v. (0, if name = RV64_LINUX_POLL_NAME \<or> name = LINUX_R5_IPI_NAME then 0x2000 else 0x1000)),
     po_register_device = (\<lambda>name v. 0), po_io_region = (\<lambda>dev. 0x90000000), po_irq_info = (\<lambda>dev. 40), po_io_phys = (\<lambda>io off. io + off),
     po_io_region_size = (\<lambda>io. 0x40000), po_io_init = (\<lambda>b va pa sz attr. va), po_junk_mem = zero_mem,
     po_init_system = (\<lambda>w. w), po_cleanup_system = (\<lambda>w. w), po_irq = (\<lambda>k. k = 3)\<rparr>"

definition board_env :: rproc_env where
  "board_env = sample_env0\<lparr>pe_io := flat_io (\<lambda>io. (io, io, 0x40000))\<rparr>"

definition board_world :: rproc_world where
  "board_world = sample_world\<lparr>w_mem := wr_bytes (\<lambda>_. 0) 0x5000 (table_bytes rv64_resources)\<rparr>"

lemma board_region: "sz \<le> 0x40000 \<Longrightarrow> metal_region (pe_io board_env) io io io sz"
  by (auto simp: board_env_def intro!: flat_io_region)

lemma board_regions_work: "unat sz \<le> 0x40000 \<Longrightarrow> pa \<noteq> NULL \<Longrightarrow> regions_work board_env board 0 pa sz"
  by (simp add: regions_work_def board_def board_region)

lemma rv64_platform_ready_witness:
  "\<exists>rp w'. rv64_platform_init board_env board 0x10 0x5000 (word_of_int 0x100) True board_world = Inr (0, Some rp, w') \<and>
    rp_state rp = RPROC_OFFLINE \<and> rp_rsc_table rp = RV64_RSC_MEM_PA \<and> long_bits (rp_bitmap rp) = {0, 1, 2} \<and>
    map (\<lambda>m. (rm_pa m, rm_da m, rm_size m)) (rp_mems rp) =
      [(RV64_RSC_MEM_PA, RV64_RSC_MEM_PA, 0x100), (RV64_SHARED_BUF_PA, RV64_SHARED_BUF_PA, RV64_SHARED_BUF_SIZE)] \<and>
    remoteproc_get_io_with_pa (pe_io board_env) rp RV64_SHARED_BUF_PA = rm_io (rp_mems rp ! 1) \<and> rm_io (rp_mems rp ! 1) \<noteq> NULL \<and>
    reg_read32 board_env (pv_poll_io (w_priv w')) 0 w' = 0"
proof (rule rv64_platform_ready [where resources = "0x5000" and valid = "\<lambda>b. length b = 1" and poll = "0x90000000" and dev = "0x1000" and io = "0x90000000"])
  show "metal_region (pe_io board_env) 0x90000000 0x90000000 0x90000000 0x1000" by (rule board_region) simp
  show "regions_work board_env board 0 RV64_RSC_MEM_PA 0x100" "regions_work board_env board 0 RV64_SHARED_BUF_PA RV64_SHARED_BUF_SIZE"
    by (rule board_regions_work; simp add: RV64_RSC_MEM_PA_def RV64_SHARED_BUF_PA_def RV64_SHM_BASE_def RV64_RSC_MEM_SIZE_def RV64_SHARED_BUF_SIZE_def)+
  show "metal_bitmap (pe_bitmap board_env) long_bits 64 (\<lambda>b. length b = 1)"
    using longs.metal_bitmap_axioms [of 1] by (simp add: board_env_def sample_env0_def)
  show "rd_bytes (w_mem (po_init_system board board_world)) 0x5000 (length (table_bytes rv64_resources)) = table_bytes rv64_resources"
    by (simp add: board_def board_world_def rd_wr_same rv64_resources_def length_table_bytes)
  show "disjoint_blocks 0x5000 116 0x90000000 4"
    using disjoint_blocks_offset [of "0x5000" 116 "0x90000000" 4 0] by simp
  show "disjoint_blocks 0x90000000 4 RV64_RSC_MEM_PA 0x100"
    using disjoint_blocks_offset [of "0x90000000" 4 "0x90100000" "0x100" 0] by (simp add: RV64_RSC_MEM_PA_def RV64_SHM_BASE_def)
  show "long_bits [0] = {}" by (auto simp: long_bits_def)
qed (simp_all add: board_def board_env_def sample_env0_def IPI_DEV_NAME_def RV64_LINUX_POLL_NAME_def LINUX_R5_IPI_NAME_def
    rv64_get_resource_table_def)

text \<open>The other processor raises the interrupt in the fourth round.\<close>

definition kick_env :: rproc_env where
  "kick_env = board_env\<lparr>pe_yield := (\<lambda>k m. if k = 3 then wr32 m 0x90000010 IPI_CHN_BITMASK else m)\<rparr>"

definition kick_world :: rproc_world where
  "kick_world = upd_priv (\<lambda>p. p\<lparr>pv_ipi_nokick := True, pv_ipi_io := 0x90000000\<rparr>) board_world"

lemma kick_mem: "mem_after kick_env 0 j m = (if j \<le> 3 then m else wr32 m 0x90000010 IPI_CHN_BITMASK)"
proof (induction j)
  case (Suc j)
  then show ?case by (auto simp: mem_after_Suc kick_env_def simp del: mem_after.simps)
qed simp

lemma linux_r5_poll_exact_witness:
  "linux_r5_platform_poll (Suc 5) kick_env board zero_remoteproc kick_world =
    Inr (0, kick_world\<lparr>w_mem := wr32 (wr32 (w_mem kick_world) 0x90000010 IPI_CHN_BITMASK) 0x90000010 IPI_CHN_BITMASK\<rparr>)"
proof -
  have io: "io_read32 (pe_io kick_env) 0x90000000 IPI_ISR_OFFSET m = rd32 m 0x90000010"
    "io_write32 (pe_io kick_env) 0x90000000 IPI_ISR_OFFSET v m = wr32 m 0x90000010 v" for m v
    by (simp_all add: kick_env_def board_env_def flat_io_def IPI_ISR_OFFSET_def)
  have f: "find (\<lambda>j. j = 3 \<and> P j) [0..<5] = (if P 3 then Some 3 else None)" for P :: "nat \<Rightarrow> bool"
    by (simp add: upt_rec eval_nat_numeral)
  have w: "pv_ipi_nokick (w_priv kick_world)" "0x90000000 = pv_ipi_io (w_priv kick_world)" by (simp_all add: kick_world_def)
  show ?thesis
    using linux_r5_poll_exact [OF w, of 5 kick_env board zero_remoteproc]
    by (simp add: io kick_mem board_def f rd_wr_same le_word_bytes IPI_CHN_BITMASK_def remoteproc_get_notification_def
        zero_remoteproc_def del: mem_after.simps)
qed

lemma generic_poll_only_once_witness:
  "generic_platform_poll (Suc 0) board_env board zero_remoteproc board_world =
      Inr (0, upd_priv (\<lambda>p. p\<lparr>pv_ipi_nokick := True\<rparr>) board_world) \<and>
    generic_platform_poll 100 board_env board zero_remoteproc (upd_priv (\<lambda>p. p\<lparr>pv_ipi_nokick := True\<rparr>) board_world) = Inl Hang"
  by (rule generic_poll_only_once)
    (simp_all add: board_world_def sample_world_def remoteproc_get_notification_def zero_remoteproc_def)

lemma linux_r5_gives_back_witness:
  "\<exists>r w1. zynqmp_linux_r5_proc_init board_env board (Some zero_remoteproc) 0x10 board_world = Inr (r, w1) \<and>
    (case r of None \<Rightarrow> held w1 = held board_world
     | Some rp1 \<Rightarrow> \<exists>w2. zynqmp_linux_r5_proc_remove board_env board rp1 w1 = Inr (rp1, w2) \<and> held w2 = held board_world)"
  by (rule linux_r5_gives_back) (auto simp: board_def board_world_def sample_world_def irq_unused_def)

lemma rv64_linux_keeps_devices_witness:
  "\<exists>r w1. rv64_virt_linux_proc_init board_env board (Some zero_remoteproc) 0x10 board_world = Inr (r, w1) \<and>
    (if (0 :: int) \<noteq> 0 then r = None \<and> fst (held w1) = [0x1000]
     else \<exists>rp1 w2. r = Some rp1 \<and> rv64_virt_linux_proc_remove rp1 w1 = Inr (rp1, w2) \<and> fst (held w2) = [0x2000])"
  by (rule rv64_linux_keeps_devices)
    (auto simp: board_def board_world_def sample_world_def held_def RV64_LINUX_SHM_NAME_def RV64_LINUX_POLL_NAME_def
      LINUX_R5_IPI_NAME_def)

lemma a9_remove_leaves_handler_witness:
  "\<exists>rp1 w1 w2. zynq_a9_proc_init board (Some zero_remoteproc) 0x10 board_world = Inr (Some rp1, w1) \<and>
    zynq_a9_proc_remove rp1 w1 = Inr (rp1, w2) \<and> pv_open_devs (w_priv w2) = pv_open_devs (w_priv board_world) \<and>
    SGI_NOTIFICATION \<in> set (pv_irqs (w_priv w2)) \<and> SGI_NOTIFICATION \<in> set (pv_irqs_on (w_priv w2))"
  by (rule a9_remove_leaves_handler [where dev = "0x1000"])
    (simp_all add: board_def SCUGIC_DEV_NAME_def RV64_LINUX_POLL_NAME_def LINUX_R5_IPI_NAME_def)

lemma r5_platform_never_starts_witness:
  "\<exists>w1. r5_platform_init board_env
      (board\<lparr>po_device_open := (\<lambda>bus name v. if name \<in> set (pv_generic_devs (w_priv v)) then (0, 0x1000) else (- 19, NULL))\<rparr>)
      0 0x10 0x5000 0x100 True board_world = Inr (- EINVAL, None, w1)"
  by (rule r5_platform_never_starts) (simp_all add: board_def board_world_def sample_world_def)

end
