(* ===== verification/Rpmsg_Virtio.thy ===== *)
theory Rpmsg_Virtio
  imports Rpmsg Virtio
begin

text \<open>
  Rpmsg over virtio: \<open>lib/rpmsg/rpmsg_virtio.c\<close> and \<open>lib/include/openamp/rpmsg_virtio.h\<close>, one
  definition per function, for the build with both roles.

  The state extends that of the rpmsg device with the virtio device, the queue control blocks and
  rings, the pointers \<open>rvq\<close> and \<open>svq\<close>, the buffer pool, memory, and a trace \<open>kicks\<close> of the queues
  whose notify function was called. What is not in the file is the parameter record \<open>rv_env\<close>: the
  functions of libmetal, the virtio dispatch functions of the device (\<open>get_status\<close>, \<open>set_status\<close>,
  \<open>get_features\<close>, \<open>read_config\<close>, \<open>write_config\<close>, which act on memory), the application's callbacks,
  what the other processor does to the shared state while this one sleeps or polls, and the bytes
  of the header field \<open>flags\<close>, which the code leaves uninitialised on the stack.
\<close>

definition RPMSG_BUFFER_SIZE :: u64 where "RPMSG_BUFFER_SIZE = 512"
definition RPMSG_NUM_VRINGS :: nat where "RPMSG_NUM_VRINGS = 2"
definition RPMSG_TICK_COUNT :: nat where "RPMSG_TICK_COUNT = 15000000"
definition RPMSG_TICKS_PER_INTERVAL :: nat where "RPMSG_TICKS_PER_INTERVAL = 1000"
definition VIRTIO_RPMSG_F_NS :: nat where "VIRTIO_RPMSG_F_NS = 0"
definition HDR_SIZE :: nat where "HDR_SIZE = 16"
definition NS_MSG_SIZE :: nat where "NS_MSG_SIZE = 40"

abbreviation RPMSG_REMOTE :: u32 where "RPMSG_REMOTE \<equiv> VIRTIO_DEV_SLAVE"
abbreviation RPMSG_MASTER :: u32 where "RPMSG_MASTER \<equiv> VIRTIO_DEV_MASTER"

text \<open>Addresses of the functions of the file whose pointers are stored.\<close>

definition RX_CALLBACK :: ptr where "RX_CALLBACK = 0x100"
definition TX_CALLBACK :: ptr where "TX_CALLBACK = 0x110"
definition NS_CALLBACK :: ptr where "NS_CALLBACK = 0x120"
definition SEND_RAW :: ptr where "SEND_RAW = 0x130"

record rpmsg_virtio_shm_pool =
  pool_base :: ptr
  pool_avail :: u64
  pool_size :: u64

record 'b rpmsg_virtio_device = "'b rpmsg_state" +
  vdev :: virtio_device
  vqs :: "virtqueue list"
  rings :: "vring_mem list"
  rvq :: "nat option"
  svq :: "nat option"
  shbuf_io :: ptr
  shpool :: rpmsg_virtio_shm_pool
  memory :: mem
  kicks :: "nat list"

record 'b rv_env =
  e_io :: io_ops
  e_bitmap :: "'b bitmap_ops"
  e_zero_ring :: "ptr \<Rightarrow> ptr \<Rightarrow> int \<Rightarrow> vring_mem \<Rightarrow> vring_mem"
  e_dbg :: bool
  e_get_status :: "mem \<Rightarrow> u8"
  e_set_status :: "u8 \<Rightarrow> mem \<Rightarrow> mem"
  e_get_features :: "mem \<Rightarrow> u32"
  e_read_config :: "u32 \<Rightarrow> int \<Rightarrow> mem \<Rightarrow> u8 list option"
  e_write_config :: "u32 \<Rightarrow> u8 list \<Rightarrow> int \<Rightarrow> mem \<Rightarrow> mem"
  e_junk :: u16
  e_sleep :: "nat \<Rightarrow> 'b rpmsg_virtio_device \<Rightarrow> 'b rpmsg_virtio_device"
  e_poll :: "nat \<Rightarrow> mem \<Rightarrow> mem"
  e_cb :: "ptr \<Rightarrow> ptr \<Rightarrow> ptr \<Rightarrow> u64 \<Rightarrow> u32 \<Rightarrow> ptr \<Rightarrow> 'b rpmsg_virtio_device \<Rightarrow>
    (int \<times> 'b rpmsg_virtio_device) cres"
  e_unbind :: "ptr \<Rightarrow> ptr \<Rightarrow> 'b rpmsg_virtio_device \<Rightarrow> 'b rpmsg_virtio_device cres"
  e_bind :: "ptr \<Rightarrow> u8 list \<Rightarrow> u32 \<Rightarrow> 'b rpmsg_virtio_device \<Rightarrow> 'b rpmsg_virtio_device cres"

subsection \<open>Inline accessors\<close>

definition rpmsg_virtio_get_role :: "'b rpmsg_virtio_device \<Rightarrow> u32" where
  "rpmsg_virtio_get_role st = vd_role (vdev st)"

definition rpmsg_virtio_set_status :: "'b rv_env \<Rightarrow> u8 \<Rightarrow> 'b rpmsg_virtio_device \<Rightarrow> 'b rpmsg_virtio_device" where
  "rpmsg_virtio_set_status env s st = st\<lparr>memory := e_set_status env s (memory st)\<rparr>"

definition rpmsg_virtio_get_status :: "'b rv_env \<Rightarrow> 'b rpmsg_virtio_device \<Rightarrow> u8" where
  "rpmsg_virtio_get_status env st = e_get_status env (memory st)"

definition rpmsg_virtio_get_features :: "'b rv_env \<Rightarrow> 'b rpmsg_virtio_device \<Rightarrow> u32" where
  "rpmsg_virtio_get_features env st = e_get_features env (memory st)"

definition rpmsg_virtio_read_config ::
  "'b rv_env \<Rightarrow> u32 \<Rightarrow> int \<Rightarrow> 'b rpmsg_virtio_device \<Rightarrow> u8 list option" where
  "rpmsg_virtio_read_config env off len st = e_read_config env off len (memory st)"

definition rpmsg_virtio_write_config ::
  "'b rv_env \<Rightarrow> u32 \<Rightarrow> u8 list \<Rightarrow> int \<Rightarrow> 'b rpmsg_virtio_device \<Rightarrow> 'b rpmsg_virtio_device" where
  "rpmsg_virtio_write_config env off bs len st = st\<lparr>memory := e_write_config env off bs len (memory st)\<rparr>"

definition rpmsg_virtio_create_virtqueues ::
  "'b rv_env \<Rightarrow> u32 \<Rightarrow> string list \<Rightarrow> ptr list \<Rightarrow> 'b rpmsg_virtio_device \<Rightarrow>
   (int \<times> 'b rpmsg_virtio_device) cres" where
  "rpmsg_virtio_create_virtqueues env nvqs names callbacks st =
     cbind (virtio_create_virtqueues (e_zero_ring env) (e_dbg env) 1 (vdev st) nvqs names callbacks
              (vqs st, rings st)) (\<lambda>(ret, qs, rs).
       Inr (ret, st\<lparr>vqs := qs, rings := rs\<rparr>))"

definition rpmsg_virtio_get_rpmsg_device :: "'b rpmsg_virtio_device \<Rightarrow> 'b rpmsg_device" where
  "rpmsg_virtio_get_rpmsg_device st = rdev st"

text \<open>The queue behind a pointer, and storing it back.\<close>

definition get_vq :: "'b rpmsg_virtio_device \<Rightarrow> nat option \<Rightarrow> (nat \<times> virtqueue \<times> vring_mem) cres" where
  "get_vq st q = (case q of None \<Rightarrow> Inl Null_deref
     | Some i \<Rightarrow> cbind (rd (vqs st) i) (\<lambda>vq. cbind (rd (rings st) i) (\<lambda>m. Inr (i, vq, m))))"

definition put_vq :: "nat \<Rightarrow> virtqueue \<Rightarrow> vring_mem \<Rightarrow> 'b rpmsg_virtio_device \<Rightarrow> 'b rpmsg_virtio_device" where
  "put_vq i vq m st = st\<lparr>vqs := (vqs st)[i := vq], rings := (rings st)[i := m]\<rparr>"

abbreviation dev_of :: "'b rpmsg_virtio_device \<Rightarrow> vq_device" where
  "dev_of st \<equiv> vq_device.truncate (vdev st)"

text \<open>\<open>virtqueue_kick\<close> on a queue of the device; a call of the notify function goes to the trace.\<close>

definition kick_vq :: "'b rv_env \<Rightarrow> nat option \<Rightarrow> 'b rpmsg_virtio_device \<Rightarrow> 'b rpmsg_virtio_device cres" where
  "kick_vq env q st =
     cbind (get_vq st q) (\<lambda>(i, vq, m).
     cbind (virtqueue_kick (e_dbg env) (dev_of st) vq m) (\<lambda>(called, vq').
       Inr ((put_vq i vq' m st)\<lparr>kicks := (case called of None \<Rightarrow> kicks st | Some f \<Rightarrow> kicks st @ [i])\<rparr>)))"

subsection \<open>The buffer pool\<close>

definition rpmsg_virtio_shm_pool_get_buffer ::
  "rpmsg_virtio_shm_pool \<Rightarrow> u64 \<Rightarrow> ptr \<times> rpmsg_virtio_shm_pool" where
  "rpmsg_virtio_shm_pool_get_buffer p sz =
     (if pool_avail p < sz then (NULL, p)
      else (pool_base p + pool_size p - pool_avail p, p\<lparr>pool_avail := pool_avail p - sz\<rparr>))"

definition rpmsg_virtio_init_shm_pool ::
  "rpmsg_virtio_shm_pool option \<Rightarrow> ptr \<Rightarrow> u64 \<Rightarrow> rpmsg_virtio_shm_pool option" where
  "rpmsg_virtio_init_shm_pool po shb sz =
     (case po of None \<Rightarrow> None
      | Some p \<Rightarrow> Some (p\<lparr>pool_base := shb, pool_size := sz, pool_avail := sz\<rparr>))"

subsection \<open>Buffers and queues\<close>

definition rpmsg_virtio_return_buffer ::
  "'b rv_env \<Rightarrow> ptr \<Rightarrow> u32 \<Rightarrow> u16 \<Rightarrow> 'b rpmsg_virtio_device \<Rightarrow> 'b rpmsg_virtio_device cres" where
  "rpmsg_virtio_return_buffer env buffer len idx st =
     (let role = rpmsg_virtio_get_role st in
      if role = RPMSG_MASTER then
        cbind (get_vq st (rvq st)) (\<lambda>(i, vq, m).
        cbind (virtqueue_add_buffer (io_virt_to_phys (e_io env)) (e_dbg env) vq m
                 [\<lparr>vqb_buf = buffer, vqb_len = sint len\<rparr>] 0 1 buffer) (\<lambda>(_, vq', m').
          Inr (put_vq i vq' m' st)))
      else if role = RPMSG_REMOTE then
        cbind (get_vq st (rvq st)) (\<lambda>(i, vq, m).
        cbind (virtqueue_add_consumed_buffer (e_dbg env) vq m idx len) (\<lambda>(_, vq', m').
          Inr (put_vq i vq' m' st)))
      else Inr st)"

definition rpmsg_virtio_enqueue_buffer ::
  "'b rv_env \<Rightarrow> ptr \<Rightarrow> u32 \<Rightarrow> u16 \<Rightarrow> 'b rpmsg_virtio_device \<Rightarrow> (int \<times> 'b rpmsg_virtio_device) cres" where
  "rpmsg_virtio_enqueue_buffer env buffer len idx st =
     (let role = rpmsg_virtio_get_role st in
      if role = RPMSG_MASTER then
        cbind (get_vq st (svq st)) (\<lambda>(i, vq, m).
        cbind (virtqueue_add_buffer (io_virt_to_phys (e_io env)) (e_dbg env) vq m
                 [\<lparr>vqb_buf = buffer, vqb_len = sint len\<rparr>] 1 0 buffer) (\<lambda>(s, vq', m').
          Inr (s, put_vq i vq' m' st)))
      else if role = RPMSG_REMOTE then
        cbind (get_vq st (svq st)) (\<lambda>(i, vq, m).
        cbind (virtqueue_add_consumed_buffer (e_dbg env) vq m idx len) (\<lambda>(s, vq', m').
          Inr (s, put_vq i vq' m' st)))
      else Inr (0, st))"

text \<open>The old values of \<open>*len\<close> and \<open>*idx\<close> are passed in.\<close>

definition rpmsg_virtio_get_tx_buffer ::
  "'b rv_env \<Rightarrow> u32 \<Rightarrow> u16 \<Rightarrow> 'b rpmsg_virtio_device \<Rightarrow> (ptr \<times> u32 \<times> u16 \<times> 'b rpmsg_virtio_device) cres" where
  "rpmsg_virtio_get_tx_buffer env len idx st =
     (let role = rpmsg_virtio_get_role st in
      if role = RPMSG_MASTER then
        cbind (case svq st of None \<Rightarrow> Inr (NULL, len, idx, st)
               | Some _ \<Rightarrow> cbind (get_vq st (svq st)) (\<lambda>(i, vq, m).
                   cbind (virtqueue_get_buffer (e_dbg env) (Some vq) m len idx) (\<lambda>(data, len', idx', vqo, m').
                     Inr (data, len', idx', put_vq i (case vqo of None \<Rightarrow> vq | Some v \<Rightarrow> v) m' st))))
          (\<lambda>(data, len', idx', st').
             if data \<noteq> NULL then Inr (data, len', idx', st')
             else let (b, p) = rpmsg_virtio_shm_pool_get_buffer (shpool st') RPMSG_BUFFER_SIZE
                  in Inr (b, ucast RPMSG_BUFFER_SIZE, idx', st'\<lparr>shpool := p\<rparr>))
      else if role = RPMSG_REMOTE then
        cbind (get_vq st (svq st)) (\<lambda>(i, vq, m).
        cbind (virtqueue_get_available_buffer (io_phys_to_virt (e_io env)) (e_dbg env) vq m idx len)
          (\<lambda>(data, idx', len', vq'). Inr (data, len', idx', put_vq i vq' m st)))
      else Inr (NULL, len, idx, st))"

definition rpmsg_virtio_get_rx_buffer ::
  "'b rv_env \<Rightarrow> u32 \<Rightarrow> u16 \<Rightarrow> 'b rpmsg_virtio_device \<Rightarrow> (ptr \<times> u32 \<times> u16 \<times> 'b rpmsg_virtio_device) cres" where
  "rpmsg_virtio_get_rx_buffer env len idx st =
     (let role = rpmsg_virtio_get_role st in
      if role = RPMSG_MASTER then
        (case rvq st of None \<Rightarrow> Inr (NULL, len, idx, st)
         | Some _ \<Rightarrow> cbind (get_vq st (rvq st)) (\<lambda>(i, vq, m).
             cbind (virtqueue_get_buffer (e_dbg env) (Some vq) m len idx) (\<lambda>(data, len', idx', vqo, m').
               Inr (data, len', idx', put_vq i (case vqo of None \<Rightarrow> vq | Some v \<Rightarrow> v) m' st))))
      else if role = RPMSG_REMOTE then
        cbind (get_vq st (rvq st)) (\<lambda>(i, vq, m).
        cbind (virtqueue_get_available_buffer (io_phys_to_virt (e_io env)) (e_dbg env) vq m idx len)
          (\<lambda>(data, idx', len', vq'). Inr (data, len', idx', put_vq i vq' m st)))
      else Inr (NULL, len, idx, st))"

text \<open>
  The size is computed in \<open>size_t\<close> and converted to \<open>int\<close>, which is the difference modulo 2^32 read
  as a signed number.
\<close>

definition rpmsg_virtio_get_buffer_size_nolock ::
  "'b rv_env \<Rightarrow> 'b rpmsg_virtio_device \<Rightarrow> (int \<times> 'b rpmsg_virtio_device) cres" where
  "rpmsg_virtio_get_buffer_size_nolock env st =
     (let role = rpmsg_virtio_get_role st in
      if role = RPMSG_MASTER then Inr (sint (ucast RPMSG_BUFFER_SIZE - of_nat HDR_SIZE :: u32), st)
      else if role = RPMSG_REMOTE then
        cbind (get_vq st (svq st)) (\<lambda>(i, vq, m).
        cbind (virtqueue_get_desc_size (e_dbg env) vq m) (\<lambda>(n, vq').
          let len = sint (n - of_nat HDR_SIZE)
          in Inr (if len < 0 then 0 else len, put_vq i vq' m st)))
      else Inr (0, st))"

definition rpmsg_virtio_get_buffer_size ::
  "'b rv_env \<Rightarrow> 'b rpmsg_virtio_device option \<Rightarrow> (int \<times> 'b rpmsg_virtio_device option) cres" where
  "rpmsg_virtio_get_buffer_size env sto =
     (case sto of None \<Rightarrow> Inr (RPMSG_ERR_PARAM, None)
      | Some st \<Rightarrow>
          cbind (lock_dev st) (\<lambda>st1.
          cbind (rpmsg_virtio_get_buffer_size_nolock env st1) (\<lambda>(n, st2).
            Inr (n, Some (unlock_dev st2)))))"

text \<open>
  \<open>rpmsg_virtio_wait_remote_ready\<close> polls the status byte. Between two polls the other processor may
  change memory (\<open>e_poll\<close>). The loop has no bound; the first argument is the number of polls after
  which the model gives up.
\<close>

fun rpmsg_virtio_wait_remote_ready ::
  "nat \<Rightarrow> nat \<Rightarrow> 'b rv_env \<Rightarrow> 'b rpmsg_virtio_device \<Rightarrow> 'b rpmsg_virtio_device cres" where
  "rpmsg_virtio_wait_remote_ready 0 k env st = Inl Hang"
| "rpmsg_virtio_wait_remote_ready (Suc fuel) k env st =
     (let st0 = st\<lparr>memory := e_poll env k (memory st)\<rparr>;
          status = rpmsg_virtio_get_status env st0 in
      if status AND VIRTIO_CONFIG_STATUS_NEEDS_RESET \<noteq> 0
      then rpmsg_virtio_wait_remote_ready fuel (Suc k) env (rpmsg_virtio_set_status env 0 st0)
      else if status AND VIRTIO_CONFIG_STATUS_DRIVER_OK \<noteq> 0 then Inr st0
      else rpmsg_virtio_wait_remote_ready fuel (Suc k) env st0)"

subsection \<open>Sending\<close>

text \<open>
  The loop of \<open>rpmsg_virtio_send_offchannel_raw\<close> that waits for a buffer; its first argument is
  \<open>tick_count\<close>. It ends with an early return (\<open>Inl status\<close>) or with the buffer, its length and index.
  While it sleeps, the other processor acts (\<open>e_sleep\<close>).
\<close>

fun rpmsg_virtio_send_wait ::
  "nat \<Rightarrow> 'b rv_env \<Rightarrow> int \<Rightarrow> u32 \<Rightarrow> u16 \<Rightarrow> 'b rpmsg_virtio_device \<Rightarrow>
   ((int + ptr \<times> u32 \<times> u16) \<times> 'b rpmsg_virtio_device) cres" where
  "rpmsg_virtio_send_wait tick_count env sz buff_len idx st =
     cbind (lock_dev st) (\<lambda>st1.
     cbind (rpmsg_virtio_get_buffer_size_nolock env st1) (\<lambda>(avail_size, st2).
       if avail_size \<noteq> 0 \<and> avail_size < sz then Inr (Inl RPMSG_ERR_BUFF_SIZE, unlock_dev st2)
       else
         cbind (rpmsg_virtio_get_tx_buffer env buff_len idx st2) (\<lambda>(buffer, len', idx', st3).
         let st4 = unlock_dev st3 in
         if buffer \<noteq> NULL \<or> tick_count = 0 then Inr (Inr (buffer, len', idx'), st4)
         else if avail_size \<noteq> 0 then Inr (Inl RPMSG_ERR_BUFF_SIZE, st4)
         else case tick_count of
           0 \<Rightarrow> Inr (Inl RPMSG_ERR_BUFF_SIZE, st4)
         | Suc k \<Rightarrow> rpmsg_virtio_send_wait k env sz len' idx' (e_sleep env k st4))))"

declare rpmsg_virtio_send_wait.simps [simp del]

definition RPMSG_LOCATE_DATA :: "ptr \<Rightarrow> ptr" where
  "RPMSG_LOCATE_DATA p = p + of_nat HDR_SIZE"

definition RPMSG_ASSERT :: "bool \<Rightarrow> unit cres" where
  "RPMSG_ASSERT e = (if e then Inr () else Inl Assert_failed)"

text \<open>The second half of the function, once it has a buffer: header, payload, enqueue, kick.\<close>

definition rpmsg_virtio_send_fill ::
  "'b rv_env \<Rightarrow> u32 \<Rightarrow> u32 \<Rightarrow> u8 list \<Rightarrow> int \<Rightarrow> ptr \<Rightarrow> 'b rpmsg_virtio_device \<Rightarrow> 'b rpmsg_virtio_device cres" where
  "rpmsg_virtio_send_fill env src dst data sz buffer st =
     (let rp_hdr = \<lparr>hdr_src = src, hdr_dst = dst, hdr_reserved = 0, hdr_len = of_int sz,
                    hdr_flags = e_junk env\<rparr>;
          io = shbuf_io st;
          (s1, m1) = io_block_write (e_io env) io (io_virt_to_offset (e_io env) io buffer)
                       (hdr_bytes rp_hdr) (int HDR_SIZE) (memory st) in
      cbind (RPMSG_ASSERT (s1 = int HDR_SIZE)) (\<lambda>_.
      if length data < nat sz then Inl Out_of_bounds
      else
        let (s2, m2) = io_block_write (e_io env) io
                         (io_virt_to_offset (e_io env) io (RPMSG_LOCATE_DATA buffer)) (take (nat sz) data) sz m1 in
        cbind (RPMSG_ASSERT (s2 = sz)) (\<lambda>_. Inr (st\<lparr>memory := m2\<rparr>))))"

definition rpmsg_virtio_send_commit ::
  "'b rv_env \<Rightarrow> ptr \<Rightarrow> u32 \<Rightarrow> u16 \<Rightarrow> 'b rpmsg_virtio_device \<Rightarrow> 'b rpmsg_virtio_device cres" where
  "rpmsg_virtio_send_commit env buffer buff_len idx st =
     cbind (lock_dev st) (\<lambda>st1.
     cbind (rpmsg_virtio_enqueue_buffer env buffer buff_len idx st1) (\<lambda>(status, st2).
     cbind (RPMSG_ASSERT (status = VQUEUE_SUCCESS)) (\<lambda>_.
     cbind (kick_vq env (svq st2) st2) (\<lambda>st3. Inr (unlock_dev st3)))))"

definition rpmsg_virtio_send_offchannel_raw ::
  "'b rv_env \<Rightarrow> u32 \<Rightarrow> u32 \<Rightarrow> u8 list \<Rightarrow> int \<Rightarrow> bool \<Rightarrow> 'b rpmsg_virtio_device \<Rightarrow>
   (int \<times> 'b rpmsg_virtio_device) cres" where
  "rpmsg_virtio_send_offchannel_raw env src dst data sz wait st =
     (if rpmsg_virtio_get_status env st AND VIRTIO_CONFIG_STATUS_DRIVER_OK = 0
      then Inr (RPMSG_ERR_DEV_STATE, st)
      else
        let tick_count = (if wait then RPMSG_TICK_COUNT div RPMSG_TICKS_PER_INTERVAL else 0) in
        cbind (rpmsg_virtio_send_wait tick_count env sz 0 0 st) (\<lambda>(r, st1).
          case r of
            Inl status \<Rightarrow> Inr (status, st1)
          | Inr (buffer, buff_len, idx) \<Rightarrow>
              if buffer = NULL then Inr (RPMSG_ERR_NO_BUFF, st1)
              else
                cbind (rpmsg_virtio_send_fill env src dst data sz buffer st1) (\<lambda>st2.
                cbind (rpmsg_virtio_send_commit env buffer buff_len idx st2) (\<lambda>st3.
                  Inr (sz, st3)))))"

subsection \<open>Receiving\<close>

definition rpmsg_virtio_tx_callback :: "'b rpmsg_virtio_device \<Rightarrow> 'b rpmsg_virtio_device" where
  "rpmsg_virtio_tx_callback st = st"

definition rpmsg_virtio_ns_callback ::
  "'b rv_env \<Rightarrow> ptr \<Rightarrow> ptr \<Rightarrow> u64 \<Rightarrow> 'b rpmsg_virtio_device \<Rightarrow> (int \<times> 'b rpmsg_virtio_device) cres" where
  "rpmsg_virtio_ns_callback env ept data len st =
     (if unat len \<noteq> NS_MSG_SIZE then Inr (RPMSG_SUCCESS, st)
      else
        let io = shbuf_io st;
            (_, name) = io_block_read (e_io env) io (io_virt_to_offset (e_io env) io data)
                          (int RPMSG_NAME_SIZE) (memory st);
            dest = rd32 (memory st) (data + of_nat RPMSG_NAME_SIZE);
            flags = rd32 (memory st) (data + of_nat RPMSG_NAME_SIZE + 4) in
        cbind (lock_dev st) (\<lambda>st1.
        cbind (rpmsg_get_endpoint st1 (Some name) RPMSG_ADDR_ANY dest) (\<lambda>ep.
          if flags AND RPMSG_NS_DESTROY \<noteq> 0 then
            (if ep \<noteq> NULL then
               cbind (get_ept st1 ep) (\<lambda>e.
               let st2 = unlock_dev (put_ept st1 ep (e\<lparr>ep_dest_addr := RPMSG_ADDR_ANY\<rparr>)) in
               if ep_ns_unbind_cb e \<noteq> NULL
               then cbind (e_unbind env (ep_ns_unbind_cb e) ept st2) (\<lambda>st3. Inr (RPMSG_SUCCESS, st3))
               else Inr (RPMSG_SUCCESS, st2))
             else Inr (RPMSG_SUCCESS, unlock_dev st1))
          else if ep = NULL then
            let st2 = unlock_dev st1 in
            if ns_bind_cb (rdev st2) \<noteq> NULL
            then cbind (e_bind env (ns_bind_cb (rdev st2)) name dest st2) (\<lambda>st3. Inr (RPMSG_SUCCESS, st3))
            else Inr (RPMSG_SUCCESS, st2)
          else
            cbind (get_ept st1 ep) (\<lambda>e.
              Inr (RPMSG_SUCCESS, unlock_dev (put_ept st1 ep (e\<lparr>ep_dest_addr := dest\<rparr>)))))))"

text \<open>Calling \<open>ept->cb\<close>: the name service callback of this file, or the application's.\<close>

definition call_ept_cb ::
  "'b rv_env \<Rightarrow> ptr \<Rightarrow> ptr \<Rightarrow> ptr \<Rightarrow> u64 \<Rightarrow> u32 \<Rightarrow> ptr \<Rightarrow> 'b rpmsg_virtio_device \<Rightarrow>
   (int \<times> 'b rpmsg_virtio_device) cres" where
  "call_ept_cb env cb ept data len src priv st =
     (if cb = NULL then Inl Null_deref
      else if cb = NS_CALLBACK then rpmsg_virtio_ns_callback env ept data len st
      else e_cb env cb ept data len src priv st)"

text \<open>Handing one received buffer to its endpoint: the body of the loop of the receive callback.\<close>

definition rpmsg_virtio_deliver ::
  "'b rv_env \<Rightarrow> ptr \<Rightarrow> 'b rpmsg_virtio_device \<Rightarrow> 'b rpmsg_virtio_device cres" where
  "rpmsg_virtio_deliver env rp_hdr st =
     cbind (lock_dev st) (\<lambda>st1.
     cbind (rpmsg_get_ept_from_addr st1 (rd32 (memory st1) (rp_hdr + 4))) (\<lambda>ept.
     let st2 = unlock_dev st1 in
     if ept = NULL then Inr st2
     else
       cbind (get_ept st2 ept) (\<lambda>e.
       let src = rd32 (memory st2) rp_hdr;
           e' = (if ep_dest_addr e = RPMSG_ADDR_ANY then e\<lparr>ep_dest_addr := src\<rparr> else e);
           st3 = put_ept st2 ept e' in
       cbind (call_ept_cb env (ep_cb e') ept (RPMSG_LOCATE_DATA rp_hdr)
                (ucast (rd16 (memory st3) (rp_hdr + 12))) src (ep_priv e') st3) (\<lambda>(status, st4).
       cbind (RPMSG_ASSERT (0 \<le> status)) (\<lambda>_. Inr st4)))))"

text \<open>
  The loop of \<open>rpmsg_virtio_rx_callback\<close>. It goes on as long as there are buffers; the first argument
  bounds the number of rounds.
\<close>

fun rpmsg_virtio_rx_loop ::
  "nat \<Rightarrow> 'b rv_env \<Rightarrow> ptr \<Rightarrow> u32 \<Rightarrow> u16 \<Rightarrow> 'b rpmsg_virtio_device \<Rightarrow> 'b rpmsg_virtio_device cres" where
  "rpmsg_virtio_rx_loop 0 env rp_hdr len idx st = (if rp_hdr = NULL then Inr st else Inl Hang)"
| "rpmsg_virtio_rx_loop (Suc fuel) env rp_hdr len idx st =
     (if rp_hdr = NULL then Inr st
      else
        cbind (rpmsg_virtio_deliver env rp_hdr st) (\<lambda>st1.
        cbind (lock_dev st1) (\<lambda>st2.
        cbind (rpmsg_virtio_return_buffer env rp_hdr len idx st2) (\<lambda>st3.
        cbind (rpmsg_virtio_get_rx_buffer env len idx st3) (\<lambda>(hdr', len', idx', st4).
        cbind (if hdr' = NULL then kick_vq env (rvq st4) st4 else Inr st4) (\<lambda>st5.
          rpmsg_virtio_rx_loop fuel env hdr' len' idx' (unlock_dev st5)))))))"

definition rpmsg_virtio_rx_callback ::
  "nat \<Rightarrow> 'b rv_env \<Rightarrow> 'b rpmsg_virtio_device \<Rightarrow> 'b rpmsg_virtio_device cres" where
  "rpmsg_virtio_rx_callback fuel env st =
     cbind (lock_dev st) (\<lambda>st1.
     cbind (rpmsg_virtio_get_rx_buffer env 0 0 st1) (\<lambda>(hdr, len, idx, st2).
       rpmsg_virtio_rx_loop fuel env hdr len idx (unlock_dev st2)))"

subsection \<open>Initialisation\<close>

text \<open>The loop of \<open>rpmsg_init_vdev\<close> that fills the master's receive queue with empty buffers.\<close>

fun rpmsg_init_buffers ::
  "nat \<Rightarrow> 'b rv_env \<Rightarrow> ptr \<Rightarrow> 'b rpmsg_virtio_device \<Rightarrow> (int \<times> 'b rpmsg_virtio_device) cres" where
  "rpmsg_init_buffers 0 env shm st = Inr (RPMSG_SUCCESS, st)"
| "rpmsg_init_buffers (Suc n) env shm st =
     (let (buffer, p) = rpmsg_virtio_shm_pool_get_buffer (shpool st) RPMSG_BUFFER_SIZE;
          st1 = st\<lparr>shpool := p\<rparr> in
      if buffer = NULL then Inr (RPMSG_ERR_NO_BUFF, st1)
      else
        let (_, m') = io_block_set (e_io env) shm (io_virt_to_offset (e_io env) shm buffer) 0
                        (uint RPMSG_BUFFER_SIZE) (memory st1);
            st2 = st1\<lparr>memory := m'\<rparr> in
        cbind (get_vq st2 (rvq st2)) (\<lambda>(i, vq, m).
        cbind (virtqueue_add_buffer (io_virt_to_phys (e_io env)) (e_dbg env) vq m
                 [\<lparr>vqb_buf = buffer, vqb_len = uint RPMSG_BUFFER_SIZE\<rparr>] 0 1 buffer) (\<lambda>(status, vq', m').
        let st3 = put_vq i vq' m' st2 in
        if status \<noteq> RPMSG_SUCCESS then Inr (status, st3)
        else rpmsg_init_buffers n env shm st3)))"

text \<open>The end of \<open>rpmsg_init_vdev\<close>: the endpoint list, the name service endpoint, the driver status.\<close>

definition rpmsg_init_endpoints ::
  "'b rv_env \<Rightarrow> int \<Rightarrow> 'b rpmsg_virtio_device \<Rightarrow> (int \<times> 'b rpmsg_virtio_device) cres" where
  "rpmsg_init_endpoints env status st =
     (let st1 = st\<lparr>rdev := (rdev st)\<lparr>endpoints := []\<rparr>\<rparr> in
      cbind (if support_ns (rdev st1) then
               cbind (get_ept st1 (ns_ept (rdev st1))) (\<lambda>e.
                 rpmsg_register_endpoint (ns_ept (rdev st1))
                   (put_ept st1 (ns_ept (rdev st1))
                     (rpmsg_initialize_ept e (Some [0x4E, 0x53]) RPMSG_NS_EPT_ADDR RPMSG_NS_EPT_ADDR
                        NS_CALLBACK NULL)))
             else Inr st1) (\<lambda>st2.
        Inr (status, if rpmsg_virtio_get_role st2 = RPMSG_MASTER
                     then rpmsg_virtio_set_status env VIRTIO_CONFIG_STATUS_DRIVER_OK st2 else st2)))"

text \<open>
  The \<open>memset\<close> at the start clears the device structure; \<open>zero_bm\<close> is the cleared bitmap and the
  embedded endpoint \<open>ns_ept\<close> is cleared with it. The virtio device given by the caller is in the
  state already; \<open>pool\<close> is the argument \<open>shpool\<close>.
\<close>

definition zero_ept :: rpmsg_endpoint where
  "zero_ept = \<lparr>ep_name = replicate RPMSG_NAME_SIZE 0, ep_rdev = NULL, ep_addr = 0, ep_dest_addr = 0,
     ep_cb = NULL, ep_ns_unbind_cb = NULL, ep_priv = NULL\<rparr>"

definition rpmsg_init_device ::
  "'b rv_env \<Rightarrow> 'b \<Rightarrow> ptr \<Rightarrow> 'b rpmsg_virtio_device \<Rightarrow> 'b rpmsg_virtio_device" where
  "rpmsg_init_device env zero_bm bind_cb st =
     (put_ept st (ns_ept (rdev st)) zero_ept)
       \<lparr>rdev := \<lparr>endpoints = [], ns_ept = ns_ept (rdev st), bitmap = zero_bm, lock = False,
                 ns_bind_cb = bind_cb, send_offchannel_raw = SEND_RAW, support_ns = False\<rparr>,
        vdev := (vdev st)\<lparr>vd_priv := self st\<rparr>\<rparr>"

text \<open>Choosing names, callbacks and queue pointers by role.\<close>

definition rpmsg_init_roles ::
  "rpmsg_virtio_shm_pool option \<Rightarrow> 'b rpmsg_virtio_device \<Rightarrow>
   (int + string list \<times> ptr list \<times> 'b rpmsg_virtio_device) cres" where
  "rpmsg_init_roles pool st =
     (let role = rpmsg_virtio_get_role st in
      if role = RPMSG_MASTER then
        (case pool of
           None \<Rightarrow> Inr (Inl RPMSG_ERR_PARAM)
         | Some p \<Rightarrow>
             if pool_size p = 0 then Inr (Inl RPMSG_ERR_NO_BUFF)
             else
               cbind (rd (vd_vrings_info (vdev st)) 0) (\<lambda>i0.
               cbind (rd (vd_vrings_info (vdev st)) 1) (\<lambda>i1.
                 Inr (Inr ([''rx_vq'', ''tx_vq''], [RX_CALLBACK, TX_CALLBACK],
                   st\<lparr>shpool := p, rvq := vi_vq i0, svq := vi_vq i1\<rparr>)))))
      else if role = RPMSG_REMOTE then
        cbind (rd (vd_vrings_info (vdev st)) 0) (\<lambda>i0.
        cbind (rd (vd_vrings_info (vdev st)) 1) (\<lambda>i1.
          Inr (Inr ([''tx_vq'', ''rx_vq''], [TX_CALLBACK, RX_CALLBACK],
            st\<lparr>rvq := vi_vq i1, svq := vi_vq i0\<rparr>))))
      else Inr (Inr ([], [], st)))"

definition set_shm_io :: "ptr \<Rightarrow> nat option \<Rightarrow> 'b rpmsg_virtio_device \<Rightarrow> 'b rpmsg_virtio_device cres" where
  "set_shm_io shm q st = cbind (get_vq st q) (\<lambda>(i, vq, m). Inr (put_vq i (vq\<lparr>shm_io := shm\<rparr>) m st))"

definition rpmsg_init_vdev ::
  "nat \<Rightarrow> 'b rv_env \<Rightarrow> 'b \<Rightarrow> ptr \<Rightarrow> ptr \<Rightarrow> rpmsg_virtio_shm_pool option \<Rightarrow> 'b rpmsg_virtio_device \<Rightarrow>
   (int \<times> 'b rpmsg_virtio_device) cres" where
  "rpmsg_init_vdev fuel env zero_bm bind_cb shm pool st =
     (let st1 = rpmsg_init_device env zero_bm bind_cb st;
          role = rpmsg_virtio_get_role st1 in
      cbind (if role = RPMSG_REMOTE then rpmsg_virtio_wait_remote_ready fuel 0 env st1 else Inr st1) (\<lambda>st2.
      let feats = (ucast (rpmsg_virtio_get_features env st2) :: u64);
          st3 = st2\<lparr>vdev := (vdev st2)\<lparr>vd_features := feats\<rparr>,
                    rdev := (rdev st2)\<lparr>support_ns := (feats AND 2 ^ VIRTIO_RPMSG_F_NS \<noteq> 0)\<rparr>\<rparr> in
      cbind (rpmsg_init_roles pool st3) (\<lambda>r.
      case r of
        Inl status \<Rightarrow> Inr (status, st3)
      | Inr (names, callbacks, st4) \<Rightarrow>
          let st5 = st4\<lparr>shbuf_io := shm\<rparr> in
          cbind (rpmsg_virtio_create_virtqueues env (of_nat RPMSG_NUM_VRINGS) names callbacks st5)
            (\<lambda>(status, st6).
          if status \<noteq> RPMSG_SUCCESS then Inr (status, st6)
          else
            cbind (get_vq st6 (svq st6)) (\<lambda>(i, vq, m).
            cbind (virtqueue_disable_cb (e_dbg env) (dev_of st6) vq m) (\<lambda>(vq', m').
            let st7 = put_vq i vq' m' st6 in
            cbind (rd (vd_vrings_info (vdev st7)) 0) (\<lambda>i0.
            cbind (rd (vd_vrings_info (vdev st7)) 1) (\<lambda>i1.
            cbind (set_shm_io shm (vi_vq i0) st7) (\<lambda>st8.
            cbind (set_shm_io shm (vi_vq i1) st8) (\<lambda>st9.
            cbind (if role = RPMSG_MASTER then
                     cbind (get_vq st9 (rvq st9)) (\<lambda>(i, vq, m).
                       rpmsg_init_buffers (unat (vq_nentries vq)) env shm st9)
                   else Inr (status, st9)) (\<lambda>(status', st10).
              if status' \<noteq> RPMSG_SUCCESS then Inr (status', st10)
              else rpmsg_init_endpoints env status' st10))))))))))) "

text \<open>The loop of \<open>rpmsg_deinit_vdev\<close> destroys the first endpoint until the list is empty.\<close>

fun rpmsg_deinit_loop ::
  "nat \<Rightarrow> 'b rv_env \<Rightarrow> 'b rpmsg_virtio_device \<Rightarrow> 'b rpmsg_virtio_device cres" where
  "rpmsg_deinit_loop 0 env st = (if endpoints (rdev st) = [] then Inr st else Inl Hang)"
| "rpmsg_deinit_loop (Suc n) env st =
     (case endpoints (rdev st) of
        [] \<Rightarrow> Inr st
      | p # ps \<Rightarrow>
          cbind (rpmsg_destroy_ept (e_bitmap env) (rpmsg_virtio_send_offchannel_raw env) p st) (\<lambda>st'.
            rpmsg_deinit_loop n env st'))"

definition rpmsg_deinit_vdev :: "nat \<Rightarrow> 'b rv_env \<Rightarrow> 'b rpmsg_virtio_device \<Rightarrow> 'b rpmsg_virtio_device cres" where
  "rpmsg_deinit_vdev fuel env st =
     cbind (rpmsg_deinit_loop fuel env st) (\<lambda>st'. Inr (st'\<lparr>rvq := None, svq := None\<rparr>))"

end
