(* ===== verification/Rpmsg_Pool.thy ===== *)
theory Rpmsg_Pool
  imports Rpmsg_Virtio
begin

text \<open>
  The buffer pool, and messages in memory. Buffers that the pool hands out are consecutive blocks of
  512 bytes; \<open>msg_at\<close> reads the message that a buffer holds.
\<close>

subsection \<open>Blocks of the pool\<close>

definition pool_wf :: "rpmsg_virtio_shm_pool \<Rightarrow> bool" where
  "pool_wf p \<longleftrightarrow> pool_base p \<noteq> NULL \<and> unat (pool_base p) + unat (pool_size p) < 2 ^ 64 \<and>
     pool_avail p \<le> pool_size p \<and> 512 dvd (unat (pool_size p) - unat (pool_avail p))"

definition pool_taken :: "rpmsg_virtio_shm_pool \<Rightarrow> nat" where
  "pool_taken p = (unat (pool_size p) - unat (pool_avail p)) div 512"

definition pool_left :: "rpmsg_virtio_shm_pool \<Rightarrow> nat" where
  "pool_left p = unat (pool_avail p) div 512"

definition pool_block :: "rpmsg_virtio_shm_pool \<Rightarrow> nat \<Rightarrow> ptr" where
  "pool_block p k = pool_base p + of_nat (512 * k)"

lemma unat_pool_block:
  assumes "unat (pool_base p) + unat (pool_size p) < 2 ^ 64" and "512 * k \<le> unat (pool_size p)"
  shows "unat (pool_block p k) = unat (pool_base p) + 512 * k"
proof -
  have "unat (of_nat (512 * k) :: u64) = 512 * k" using assms by (intro unat_of_nat_64) simp
  then show ?thesis using assms unfolding pool_block_def by (subst unat_plus_lt) simp_all
qed

lemma pool_get_block:
  assumes wf: "pool_wf p" and l: "0 < pool_left p"
  obtains p' where "rpmsg_virtio_shm_pool_get_buffer p RPMSG_BUFFER_SIZE = (pool_block p (pool_taken p), p')"
    and "pool_block p (pool_taken p) \<noteq> NULL" and "pool_wf p'"
    and "pool_base p' = pool_base p" and "pool_size p' = pool_size p"
    and "pool_taken p' = Suc (pool_taken p)" and "pool_left p' = pool_left p - 1"
    and "512 * Suc (pool_taken p) \<le> unat (pool_size p)"
proof -
  let ?p = "p\<lparr>pool_avail := pool_avail p - 512\<rparr>"
  have w: "pool_base p \<noteq> NULL" "unat (pool_base p) + unat (pool_size p) < 2 ^ 64"
    "pool_avail p \<le> pool_size p" and d: "512 dvd (unat (pool_size p) - unat (pool_avail p))"
    using wf by (auto simp: pool_wf_def)
  have a: "512 \<le> unat (pool_avail p)" using l by (simp add: pool_left_def div_greater_zero_iff)
  have le: "unat (pool_avail p) \<le> unat (pool_size p)" using w(3) by (simp add: word_le_nat_alt)
  have t: "512 * pool_taken p = unat (pool_size p) - unat (pool_avail p)"
    using d by (simp add: pool_taken_def)
  have u: "unat (pool_avail p - 512) = unat (pool_avail p) - 512"
    using a by (subst unat_sub) (simp_all add: word_le_nat_alt)
  have sub: "of_nat (512 * pool_taken p) = pool_size p - pool_avail p"
    unfolding t using le by (simp add: of_nat_diff)
  have blk: "pool_base p + pool_size p - pool_avail p = pool_block p (pool_taken p)"
    unfolding pool_block_def sub by simp
  have tk: "unat (pool_size p) - (unat (pool_avail p) - 512) = 512 * Suc (pool_taken p)"
    using t a le by simp
  have "rpmsg_virtio_shm_pool_get_buffer p RPMSG_BUFFER_SIZE = (pool_block p (pool_taken p), ?p)"
    using a by (simp add: rpmsg_virtio_shm_pool_get_buffer_def RPMSG_BUFFER_SIZE_def word_less_nat_alt blk)
  moreover have "pool_block p (pool_taken p) \<noteq> NULL"
  proof
    assume z: "pool_block p (pool_taken p) = NULL"
    have "unat (pool_block p (pool_taken p)) = unat (pool_base p) + 512 * pool_taken p"
      using w t by (intro unat_pool_block) simp_all
    then show False using w(1) z by (simp add: unat_eq_0)
  qed
  moreover have "pool_wf ?p" using w tk u le by (simp add: pool_wf_def word_le_nat_alt)
  moreover have "pool_taken ?p = Suc (pool_taken p)" unfolding pool_taken_def [of ?p] using u tk by simp
  moreover have "pool_left ?p = pool_left p - 1"
    using u a by (simp add: pool_left_def)
  moreover have "512 * Suc (pool_taken p) \<le> unat (pool_size p)" using t a le by simp
  ultimately show ?thesis using that [of ?p] by simp
qed

lemma pool_get_none:
  assumes "pool_left p = 0"
  shows "rpmsg_virtio_shm_pool_get_buffer p RPMSG_BUFFER_SIZE = (NULL, p)"
proof -
  have "unat (pool_avail p) < 512" using assms by (simp add: pool_left_def div_eq_0_iff)
  then show ?thesis
    by (simp add: rpmsg_virtio_shm_pool_get_buffer_def RPMSG_BUFFER_SIZE_def word_less_nat_alt)
qed

lemma pool_blocks_disjoint:
  assumes "j \<noteq> k" and "512 * Suc j < 2 ^ 64" and "512 * Suc k < 2 ^ 64" and "a + n \<le> 512" and "b + l \<le> 512"
  shows "disjoint_blocks (pool_block p j + of_nat a) n (pool_block p k + of_nat b) l"
proof -
  have "disjoint_blocks (pool_base p + of_nat (512 * j + a)) n (pool_base p + of_nat (512 * k + b)) l"
  proof (rule disjoint_blocks_offset)
    show "512 * j + a + n \<le> 512 * k + b \<or> 512 * k + b + l \<le> 512 * j + a"
      using assms by (cases "j < k") auto
  qed (use assms in simp_all)
  then show ?thesis by (simp add: pool_block_def add.assoc)
qed

text \<open>The buffers that \<open>n\<close> calls return, NULL included.\<close>

fun pool_calls :: "nat \<Rightarrow> rpmsg_virtio_shm_pool \<Rightarrow> ptr list" where
  "pool_calls 0 p = []"
| "pool_calls (Suc n) p =
     (let (b, p') = rpmsg_virtio_shm_pool_get_buffer p RPMSG_BUFFER_SIZE in b # pool_calls n p')"

lemma pool_calls_eq:
  "pool_wf p \<Longrightarrow> pool_calls n p =
     map (\<lambda>k. if k < pool_left p then pool_block p (pool_taken p + k) else NULL) [0..<n]"
proof (induction n arbitrary: p)
  case (Suc n)
  show ?case
  proof (cases "pool_left p = 0")
    case True
    then show ?thesis using Suc by (simp add: pool_get_none map_replicate_const del: upt_Suc)
  next
    case False
    then have "0 < pool_left p" by simp
    from pool_get_block [OF Suc.prems this] obtain p' where
      p': "rpmsg_virtio_shm_pool_get_buffer p RPMSG_BUFFER_SIZE = (pool_block p (pool_taken p), p')"
        "pool_wf p'" "pool_base p' = pool_base p" "pool_taken p' = Suc (pool_taken p)"
        "pool_left p' = pool_left p - 1" by metis
    have "pool_block p' = pool_block p" using p'(3) by (simp add: pool_block_def fun_eq_iff)
    then show ?thesis using False Suc.IH [OF p'(2)] p'
      by (auto simp: upt_conv_Cons map_Suc_upt [symmetric] simp del: upt_Suc map_Suc_upt)
  qed
qed simp

lemma init_pool_wf:
  assumes "shb \<noteq> NULL" and "unat shb + unat sz < 2 ^ 64"
    and "rpmsg_virtio_init_shm_pool (Some p) shb sz = Some p'"
  shows "pool_wf p'" and "pool_taken p' = 0" and "pool_left p' = unat sz div 512"
    and "pool_base p' = shb" and "pool_size p' = sz"
  using assms by (auto simp: rpmsg_virtio_init_shm_pool_def pool_wf_def pool_taken_def pool_left_def)

text \<open>
  C35. The buffer pool. From a freshly initialised pool that does not reach the end of the address
  space, the first \<open>size div 512\<close> calls return consecutive 512-byte blocks, which are disjoint and
  lie inside the pool; every later call returns NULL.
\<close>

theorem shm_pool_blocks:
  assumes "shb \<noteq> NULL" and "unat shb + unat sz < 2 ^ 64"
    and "rpmsg_virtio_init_shm_pool (Some p) shb sz = Some p'" and "k < n"
  shows "if k < unat sz div 512
    then unat (pool_calls n p' ! k) = unat shb + 512 * k \<and> 512 * k + 512 \<le> unat sz
    else pool_calls n p' ! k = NULL"
proof -
  note i = init_pool_wf [OF assms(1-3)]
  have "512 * k + 512 \<le> unat sz" if "k < unat sz div 512"
    using mult_le_mono2 [OF Suc_leI [OF that], of 512] times_div_less_eq_dividend [of 512 "unat sz"] by simp
  moreover have "unat (pool_block p' k) = unat shb + 512 * k" if "k < unat sz div 512"
    using unat_pool_block [of p' k] calculation [OF that] i assms(2) by simp
  ultimately show ?thesis using assms(4) by (simp add: pool_calls_eq [OF i(1)] i(2,3))
qed

theorem shm_pool_blocks_witness:
  "if (1::nat) < unat (1100 :: u64) div 512
   then unat (pool_calls 3 \<lparr>pool_base = 0x3000, pool_avail = 1100, pool_size = 1100\<rparr> ! 1) =
       unat (0x3000 :: u64) + 512 * 1 \<and> 512 * 1 + 512 \<le> unat (1100 :: u64)
   else pool_calls 3 \<lparr>pool_base = 0x3000, pool_avail = 1100, pool_size = 1100\<rparr> ! 1 = NULL"
  by (rule shm_pool_blocks [where p = "\<lparr>pool_base = 0, pool_avail = 0, pool_size = 0\<rparr>"])
    (simp_all add: rpmsg_virtio_init_shm_pool_def)

subsection \<open>Messages in memory\<close>

definition msg_at :: "mem \<Rightarrow> ptr \<Rightarrow> u32 \<times> u32 \<times> u8 list" where
  "msg_at m p = (rd32 m p, rd32 m (p + 4), rd_bytes m (p + 16) (unat (rd16 m (p + 12))))"

definition msg_fits :: "mem \<Rightarrow> ptr \<Rightarrow> bool" where
  "msg_fits m p \<longleftrightarrow> unat (rd16 m (p + 12)) \<le> 496"

lemma length_hdr_bytes [simp]: "length (hdr_bytes h) = 16"
  by (simp add: hdr_bytes_def)

lemma hdr_at:
  assumes "rd_bytes m p 16 = hdr_bytes h"
  shows "rd32 m p = hdr_src h" and "rd32 m (p + 4) = hdr_dst h" and "rd16 m (p + 12) = hdr_len h"
  using rd_bytes_slice [OF assms, of 0 4] rd_bytes_slice [OF assms, of 4 4]
    rd_bytes_slice [OF assms, of 12 2]
  by (simp_all add: hdr_bytes_def le_word_bytes)

lemma msg_at_written:
  assumes "length data \<le> 496" and "hdr_len h = of_nat (length data)"
  shows "msg_at (wr_bytes (wr_bytes m p (hdr_bytes h)) (p + 16) data) p = (hdr_src h, hdr_dst h, data)"
    and "msg_fits (wr_bytes (wr_bytes m p (hdr_bytes h)) (p + 16) data) p"
proof -
  let ?m = "wr_bytes (wr_bytes m p (hdr_bytes h)) (p + 16) data"
  have d: "disjoint_blocks (p + of_nat 0) 16 (p + of_nat 16) (length data)"
    by (rule disjoint_blocks_offset) (use assms(1) in simp_all)
  have "rd_bytes ?m p 16 = hdr_bytes h"
    using rd_wr_other [of p 16 "p + 16" data] d by (simp add: rd_wr_same)
  note h = hdr_at [OF this]
  have l: "unat (of_nat (length data) :: u16) = length data"
    using assms(1) by (intro unat_of_nat_lt) simp
  show "msg_at ?m p = (hdr_src h, hdr_dst h, data)"
    unfolding msg_at_def h assms(2) l using assms(1) by (simp add: rd_wr_same)
  show "msg_fits ?m p" unfolding msg_fits_def h assms(2) l by (rule assms(1))
qed

lemma msg_at_other:
  assumes "msg_fits m p"
    and "\<And>a n. a + n \<le> 512 \<Longrightarrow> rd_bytes m' (p + of_nat a) n = rd_bytes m (p + of_nat a) n"
  shows "msg_at m' p = msg_at m p" and "msg_fits m' p"
proof -
  have h: "rd_bytes m' p 4 = rd_bytes m p 4" "rd_bytes m' (p + 4) 4 = rd_bytes m (p + 4) 4"
    "rd_bytes m' (p + 12) 2 = rd_bytes m (p + 12) 2"
    using assms(2) [of 0 4] assms(2) [of 4 4] assms(2) [of 12 2] by simp_all
  show "msg_fits m' p" using assms(1) by (simp add: msg_fits_def h)
  show "msg_at m' p = msg_at m p"
    using assms(2) [of 16 "unat (rd16 m (p + 12))"] assms(1) by (simp add: msg_at_def msg_fits_def h)
qed

end
