(* ===== verification/Ring.thy ===== *)
theory Ring
  imports Virtqueue
begin

text \<open>
  Generic facts behind the virtqueue invariant: the contents of a power-of-two ring addressed by
  free-running 16-bit indices, and chains of descriptors linked through their \<open>next\<close> fields (the
  free chain, which ends in \<open>VQ_RING_DESC_CHAIN_END\<close>, and the chain of one queued buffer, which
  ends at the first descriptor without the NEXT flag).
\<close>

subsection \<open>Rings\<close>

definition ring_holds :: "'e list \<Rightarrow> u16 \<Rightarrow> 'e list \<Rightarrow> bool" where
  "ring_holds r s xs \<longleftrightarrow> (\<forall>j < length xs. r ! ((unat s + j) mod length r) = xs ! j)"

lemma pow2_dvd_16:
  assumes "pow2 (n :: u16)"
  shows "unat n dvd 2 ^ 16"
proof -
  obtain k where k: "unat n = 2 ^ k" using pow2_unat [OF assms] by blast
  have "(2::nat) ^ k < 2 ^ 16" using unsigned_less [of n, where 'a = nat] by (simp add: k)
  then have "k \<le> 16" using power_less_imp_less_exp [of "2::nat" k 16] by simp
  then have "(2::nat) ^ k dvd 2 ^ 16" by (rule le_imp_power_dvd)
  then show ?thesis by (simp only: k)
qed

lemma ring_index_add [ring_simps]:
  assumes "pow2 (n :: u16)"
  shows "unat ((s :: u16) + of_nat k) mod unat n = (unat s + k) mod unat n"
proof -
  have "unat (s + of_nat k) = (unat s + k) mod 2 ^ 16"
    by (simp add: unat_word_ariths unat_of_nat mod_add_right_eq)
  then show ?thesis using pow2_dvd_16 [OF assms] by (simp add: mod_mod_cancel)
qed

lemma ring_index_inj:
  assumes "i < N" and "j < N" and "(s + i) mod N = (s + j) mod (N::nat)"
  shows "i = j"
proof -
  have *: "j = i" if "i \<le> j" "j < N" "(s + j) mod N = (s + i) mod N" for i j
  proof -
    have "N dvd (s + j) - (s + i)"
      using that by (simp only: mod_eq_dvd_iff_nat [symmetric] add_le_cancel_left)
    then have "N dvd j - i" by simp
    then show ?thesis using that(1,2) nat_dvd_not_less [of "j - i" N] by (cases "j = i") auto
  qed
  show ?thesis
  proof (cases "i \<le> j")
    case True
    show ?thesis by (rule * [OF True assms(2) assms(3) [symmetric], symmetric])
  next
    case False
    then show ?thesis by (intro * [OF _ assms(1) assms(3)]) simp
  qed
qed

lemma ring_holds_Nil [simp]: "ring_holds r s []"
  by (simp add: ring_holds_def)

lemma ring_holds_push:
  assumes "ring_holds r s xs" and "length r = unat (n :: u16)" and "pow2 n"
    and "length xs < unat n"
  shows "ring_holds (r[unat ((s + of_nat (length xs)) AND (n - 1)) := x]) s (xs @ [x])"
proof -
  let ?k = "(unat s + length xs) mod unat n"
  have slot: "unat ((s + of_nat (length xs)) AND (n - 1)) = ?k"
    using assms(3) by (simp add: unat_and_pred ring_index_add)
  have pos: "0 < unat n" using assms(4) by simp
  have "r[?k := x] ! ((unat s + j) mod unat n) = (xs @ [x]) ! j" if "j < length xs + 1" for j
  proof (cases "j < length xs")
    case True
    then have "(unat s + j) mod unat n \<noteq> ?k"
      using ring_index_inj [of j "unat n" "length xs" "unat s"] assms(4) by auto
    then show ?thesis using assms(1,2) True by (simp add: ring_holds_def nth_append)
  next
    case False
    then have "j = length xs" using that by simp
    then show ?thesis using assms(2) pos by simp
  qed
  then show ?thesis unfolding slot by (simp add: ring_holds_def assms(2))
qed

lemma ring_holds_pop:
  assumes "ring_holds r s (x # xs)" and "length r = unat (n :: u16)" and "pow2 n"
  shows "r ! unat (s AND (n - 1)) = x" and "ring_holds r (s + 1) xs"
proof -
  have "r ! ((unat s + 0) mod unat n) = x"
    using assms(1,2) unfolding ring_holds_def by force
  then show "r ! unat (s AND (n - 1)) = x" using assms(3) by (simp add: unat_and_pred)
  show "ring_holds r (s + 1) xs"
    unfolding ring_holds_def
  proof (intro allI impI)
    fix j assume j: "j < length xs"
    have "(unat (s + 1) + j) mod unat n = (unat s + Suc j) mod unat n"
      using ring_index_add [OF assms(3), of s 1] by (simp add: mod_add_cong)
    then show "r ! ((unat (s + 1) + j) mod length r) = xs ! j"
      using assms(1,2) j by (force simp: ring_holds_def)
  qed
qed

lemma ring_slot_less: "pow2 (n :: u16) \<Longrightarrow> unat (i AND (n - 1)) < unat n"
  by (simp add: unat_and_pred pow2_pos)

subsection \<open>Descriptor chains\<close>

fun free_chain :: "vring_desc list \<Rightarrow> u16 \<Rightarrow> nat list \<Rightarrow> bool" where
  "free_chain ds h [] \<longleftrightarrow> h = VQ_RING_DESC_CHAIN_END"
| "free_chain ds h (i # is) \<longleftrightarrow> unat h = i \<and> i < length ds \<and> free_chain ds (d_next (ds ! i)) is"

fun buf_chain :: "vring_desc list \<Rightarrow> nat list \<Rightarrow> bool" where
  "buf_chain ds [] \<longleftrightarrow> False"
| "buf_chain ds [i] \<longleftrightarrow> i < length ds \<and> d_flags (ds ! i) AND VRING_DESC_F_NEXT = 0 \<and>
     d_flags (ds ! i) AND VRING_DESC_F_INDIRECT = 0"
| "buf_chain ds (i # j # js) \<longleftrightarrow> i < length ds \<and> d_flags (ds ! i) AND VRING_DESC_F_NEXT \<noteq> 0 \<and>
     d_flags (ds ! i) AND VRING_DESC_F_INDIRECT = 0 \<and>
     unat (d_next (ds ! i)) = j \<and> buf_chain ds (j # js)"

lemma buf_chain_ne: "buf_chain ds c \<Longrightarrow> c \<noteq> []"
  by auto

lemma buf_chain_bound: "buf_chain ds c \<Longrightarrow> i \<in> set c \<Longrightarrow> i < length ds"
  by (induction ds c rule: buf_chain.induct) auto

lemma free_chain_bound: "free_chain ds h is \<Longrightarrow> i \<in> set is \<Longrightarrow> i < length ds"
  by (induction "is" arbitrary: h) auto

text \<open>Chains do not notice changes to descriptors outside them.\<close>

lemma free_chain_upd: "i \<notin> set is \<Longrightarrow> free_chain (ds[i := d]) h is = free_chain ds h is"
  by (induction "is" arbitrary: h) auto

lemma buf_chain_upd: "i \<notin> set c \<Longrightarrow> buf_chain (ds[i := d]) c = buf_chain ds c"
  by (induction ds c rule: buf_chain.induct) auto

lemma buf_chain_cong:
  "\<forall>i \<in> set c. ds' ! i = ds ! i \<Longrightarrow> length ds' = length ds \<Longrightarrow> buf_chain ds' c = buf_chain ds c"
  by (induction ds c rule: buf_chain.induct) auto

text \<open>
  Only the \<open>next\<close> field of the last descriptor of a buffer may change without breaking its chain.
\<close>

lemma free_chain_join:
  assumes "buf_chain ds c" and "distinct (c @ is)" and "free_chain ds h is"
    and "length ds \<le> 2 ^ 16"
  shows "free_chain (ds[last c := (ds ! last c)\<lparr>d_next := h\<rparr>]) (of_nat (hd c)) (c @ is)"
  using assms
proof (induction ds c rule: buf_chain.induct)
  case (1 ds)
  then show ?case by simp
next
  case (2 ds i)
  then show ?case by (simp add: free_chain_upd unat_of_nat_lt)
next
  case (3 ds i j js)
  let ?l = "last (j # js)"
  have "?l \<in> set (j # js)" by (rule last_in_set) simp
  then have ne: "?l \<noteq> i" using "3.prems"(2) by auto
  have IH: "free_chain (ds[?l := (ds ! ?l)\<lparr>d_next := h\<rparr>]) (of_nat j) (j # js @ is)"
    using 3 by simp
  have "of_nat j = d_next (ds ! i)" using "3.prems"(1) by auto
  with IH ne "3.prems" show ?case by (simp add: unat_of_nat_lt)
qed

subsection \<open>The loops over a chain\<close>

lemma free_chain_head_not_end:
  "free_chain ds h (i # is) \<Longrightarrow> length ds \<le> 2 ^ 15 \<Longrightarrow> h \<noteq> VQ_RING_DESC_CHAIN_END"
  by (auto simp: VQ_RING_DESC_CHAIN_END_def)

lemma vq_ring_add_loop_ok:
  assumes "free_chain ds h (c @ rest)" and "distinct (c @ rest)" and "length ds \<le> 2 ^ 15"
    and "i + length c \<le> length bufs"
  shows "\<exists>h' ds'. vq_ring_add_loop v2p dbg io bufs needed readable (length c) i h ds = Inr (h', ds') \<and>
    free_chain ds' h' rest \<and> length ds' = length ds \<and>
    (\<forall>j. j \<notin> set c \<longrightarrow> ds' ! j = ds ! j) \<and>
    (\<forall>p < length c. ds' ! (c ! p) =
       vq_fill_desc v2p io needed readable (i + p) (bufs ! (i + p)) (ds ! (c ! p)))"
  using assms
proof (induction c arbitrary: i h ds)
  case Nil
  then show ?case by simp
next
  case (Cons x c)
  let ?d = "vq_fill_desc v2p io needed readable i (bufs ! i) (ds ! x)"
  let ?ds = "ds[x := ?d]"
  have h: "unat h = x" "x < length ds" using Cons.prems(1) by auto
  have nx: "d_next ?d = d_next (ds ! x)" by (simp add: vq_fill_desc_def Let_def)
  have notin: "x \<notin> set (c @ rest)" using Cons.prems(2) by simp
  have fc: "free_chain ?ds (d_next ?d) (c @ rest)"
    using Cons.prems(1) notin by (simp add: free_chain_upd nx)
  from Cons.IH [of ?ds "d_next ?d" "Suc i"] fc Cons.prems obtain h' ds' where
    r: "vq_ring_add_loop v2p dbg io bufs needed readable (length c) (Suc i) (d_next ?d) ?ds = Inr (h', ds')"
    and f: "free_chain ds' h' rest" "length ds' = length ds"
    and o: "\<forall>j. j \<notin> set c \<longrightarrow> ds' ! j = ?ds ! j"
    and p: "\<forall>p < length c. ds' ! (c ! p) =
       vq_fill_desc v2p io needed readable (Suc i + p) (bufs ! (Suc i + p)) (?ds ! (c ! p))"
    by auto
  have step: "vq_ring_add_loop v2p dbg io bufs needed readable (length (x # c)) i h ds = Inr (h', ds')"
    using r h Cons.prems free_chain_head_not_end [of ds h x "c @ rest"]
    by (simp add: VQASSERT_def Let_def)
  have others: "ds' ! j = ds ! j" if "j \<notin> set (x # c)" for j
    using o that by simp
  have filled: "ds' ! ((x # c) ! q) =
      vq_fill_desc v2p io needed readable (i + q) (bufs ! (i + q)) (ds ! ((x # c) ! q))"
    if "q < length (x # c)" for q
  proof (cases q)
    case 0
    have "ds' ! x = ?d" using o notin h by simp
    then show ?thesis by (simp add: 0)
  next
    case (Suc q')
    then have "q' < length c" using that by simp
    moreover have "c ! q' \<noteq> x" using calculation notin by (auto simp: nth_mem)
    ultimately show ?thesis using p by (simp add: Suc)
  qed
  show ?case using step f others filled by blast
qed

definition chain_desc_ok :: "vring_desc list \<Rightarrow> nat list \<Rightarrow> nat \<Rightarrow> bool" where
  "chain_desc_ok ds c p \<longleftrightarrow> c ! p < length ds \<and> d_flags (ds ! (c ! p)) AND VRING_DESC_F_INDIRECT = 0 \<and>
     (d_flags (ds ! (c ! p)) AND VRING_DESC_F_NEXT \<noteq> 0 \<longleftrightarrow> p + 1 < length c) \<and>
     (p + 1 < length c \<longrightarrow> unat (d_next (ds ! (c ! p))) = c ! (p + 1))"

lemma buf_chainI:
  "c \<noteq> [] \<Longrightarrow> (\<And>p. p < length c \<Longrightarrow> chain_desc_ok ds c p) \<Longrightarrow> buf_chain ds c"
proof (induction ds c rule: buf_chain.induct)
  case (2 ds i)
  then show ?case using "2.prems"(2) [of 0] by (simp add: chain_desc_ok_def)
next
  case (3 ds i j js)
  have "chain_desc_ok ds (j # js) p" if "p < length (j # js)" for p
    using "3.prems"(2) [of "Suc p"] that by (simp add: chain_desc_ok_def)
  then have "buf_chain ds (j # js)" by (intro "3.IH") auto
  then show ?case using "3.prems"(2) [of 0] by (simp add: chain_desc_ok_def)
qed simp

lemma free_chain_link:
  "free_chain ds h (c @ rest) \<Longrightarrow> p + 1 < length c \<Longrightarrow> unat (d_next (ds ! (c ! p))) = c ! (p + 1)"
proof (induction c arbitrary: h p)
  case (Cons x c)
  show ?case
  proof (cases p)
    case 0
    with Cons.prems show ?thesis by (cases c) auto
  next
    case (Suc q)
    with Cons.prems Cons.IH [of "d_next (ds ! x)" q] show ?thesis by simp
  qed
qed simp

text \<open>The chain that the loop of \<open>vq_ring_add_buffer\<close> leaves behind is the chain of one buffer.\<close>

lemma vq_fill_desc_flags:
  "d_flags (vq_fill_desc v2p io needed readable i b d) AND VRING_DESC_F_INDIRECT = 0"
  "d_flags (vq_fill_desc v2p io needed readable i b d) AND VRING_DESC_F_NEXT \<noteq> 0 \<longleftrightarrow> int i < needed - 1"
  "d_flags (vq_fill_desc v2p io needed readable i b d) AND VRING_DESC_F_WRITE \<noteq> 0 \<longleftrightarrow> readable \<le> int i"
  by (auto simp: vq_fill_desc_def Let_def vring_flag_defs)

lemma vq_fill_desc_sel [simp]:
  "d_next (vq_fill_desc v2p io needed readable i b d) = d_next d"
  "d_addr (vq_fill_desc v2p io needed readable i b d) = v2p io (vqb_buf b)"
  "d_len (vq_fill_desc v2p io needed readable i b d) = of_int (vqb_len b)"
  by (simp_all add: vq_fill_desc_def Let_def)

lemma filled_buf_chain:
  assumes "free_chain ds h (c @ rest)" and "c \<noteq> []" and "length ds' = length ds"
    and "needed = int (length c)"
    and "\<forall>p < length c. ds' ! (c ! p) =
       vq_fill_desc v2p io needed readable p (bufs ! p) (ds ! (c ! p))"
  shows "buf_chain ds' c"
proof (rule buf_chainI [OF assms(2)])
  fix p assume p: "p < length c"
  have "c ! p < length ds" using free_chain_bound [OF assms(1)] p by simp
  moreover have "int p < needed - 1 \<longleftrightarrow> p + 1 < length c" using assms(4) by auto
  ultimately show "chain_desc_ok ds' c p"
    using assms(3,5) p free_chain_link [OF assms(1), of p]
    by (simp add: chain_desc_ok_def vq_fill_desc_flags)
qed

lemma vq_free_chain_loop_ok:
  assumes "buf_chain ds c" and "length c \<le> fuel" and "length ds = unat (vq_nentries vq)"
  shows "vq_free_chain_loop fuel dbg vq ds (hd c) nd = Inr (last c, nd - of_nat (length c - 1))"
  using assms
proof (induction ds c arbitrary: fuel nd rule: buf_chain.induct)
  case (2 ds i)
  then show ?case by (cases fuel) auto
next
  case (3 ds i j js)
  then obtain f where f: "fuel = Suc f" by (cases fuel) auto
  have b: "buf_chain ds (j # js)" and j: "unat (d_next (ds ! i)) = j" using "3.prems"(1) by auto
  have jl: "d_next (ds ! i) < vq_nentries vq"
    using buf_chain_bound [OF b, of j] "3.prems"(3) j by (simp add: word_less_nat_alt)
  have "vq_free_chain_loop f dbg vq ds (hd (j # js)) (nd - 1) =
      Inr (last (j # js), nd - 1 - of_nat (length (j # js) - 1))"
    using "3.IH" [of f "nd - 1"] b "3.prems" f by simp
  then show ?case
    using "3.prems"(1) f j jl
    by (simp add: VQ_RING_ASSERT_VALID_IDX_def VQASSERT_def algebra_simps)
qed simp

end
