(* ===== verification/Virtqueue_Inv.thy ===== *)
theory Virtqueue_Inv
  imports Ring "HOL-Library.Multiset"
begin

text \<open>
  The contract of a virtqueue between two processors. The driver (the master, which owns the
  buffers) and the device (the slave) each have a control block; the rings are shared. The abstract
  queue \<open>avq\<close> says where every descriptor is: in the free chain, offered to the device
  (\<open>a_avail\<close>), taken by it (\<open>a_held\<close>), or given back and not yet collected (\<open>a_used\<close>).
  \<open>vq_rel\<close> relates the two control blocks and the rings to such an abstract queue; the lemmas show
  that each operation of \<open>virtqueue.c\<close> carries out the corresponding abstract step, with no fault.
\<close>

subsection \<open>The abstract queue\<close>

text \<open>
  A queued buffer: its descriptors, the driver's cookie, and the address and length that the head
  descriptor carries to the device.
\<close>

record abuf =
  ab_chain :: "nat list"
  ab_cookie :: ptr
  ab_addr :: u64
  ab_len :: u32

record avq =
  a_free :: "nat list"
  a_avail :: "abuf list"
  a_held :: "abuf list"
  a_used :: "(abuf \<times> u32) list"

abbreviation ab_head :: "abuf \<Rightarrow> nat" where "ab_head b \<equiv> hd (ab_chain b)"

definition in_flight :: "avq \<Rightarrow> abuf list" where
  "in_flight a = a_avail a @ a_held a @ map fst (a_used a)"

record vq_sys =
  drv :: virtqueue
  dev :: virtqueue
  shm :: vring_mem

subsection \<open>The relation\<close>

definition vq_sizes :: "vq_sys \<Rightarrow> bool" where
  "vq_sizes s \<longleftrightarrow>
     pow2 (vq_nentries (drv s)) \<and> vq_nentries (dev s) = vq_nentries (drv s) \<and>
     unat (vq_nentries (drv s)) \<le> 2 ^ 15 \<and> vring_mem_size (unat (vq_nentries (drv s))) (shm s) \<and>
     length (vq_descx (drv s)) = unat (vq_nentries (drv s)) \<and>
     \<not> vq_inuse (drv s) \<and> \<not> vq_inuse (dev s)"

definition buf_ok :: "virtqueue \<Rightarrow> vring_desc list \<Rightarrow> abuf \<Rightarrow> bool" where
  "buf_ok vq ds b \<longleftrightarrow>
     buf_chain ds (ab_chain b) \<and> ab_cookie b \<noteq> NULL \<and>
     d_addr (ds ! ab_head b) = ab_addr b \<and> d_len (ds ! ab_head b) = ab_len b \<and>
     vq_descx vq ! ab_head b = \<lparr>cookie = ab_cookie b, ndescs = of_nat (length (ab_chain b))\<rparr>"

definition vq_free_ok :: "vq_sys \<Rightarrow> avq \<Rightarrow> bool" where
  "vq_free_ok s a \<longleftrightarrow>
     free_chain (desc (shm s)) (vq_desc_head_idx (drv s)) (a_free a) \<and>
     vq_free_cnt (drv s) = of_nat (length (a_free a))"

definition vq_flight_ok :: "vq_sys \<Rightarrow> avq \<Rightarrow> bool" where
  "vq_flight_ok s a \<longleftrightarrow>
     (\<forall>b \<in># mset (in_flight a). buf_ok (drv s) (desc (shm s)) b) \<and>
     (\<forall>i < unat (vq_nentries (drv s)). i \<notin># image_mset ab_head (mset (in_flight a)) \<longrightarrow>
        cookie (vq_descx (drv s) ! i) = NULL)"

definition vq_part_ok :: "vq_sys \<Rightarrow> avq \<Rightarrow> bool" where
  "vq_part_ok s a \<longleftrightarrow>
     mset (a_free a) + sum_mset (image_mset (\<lambda>b. mset (ab_chain b)) (mset (in_flight a))) =
     mset [0..<unat (vq_nentries (drv s))]"

definition vq_avail_ok :: "vq_sys \<Rightarrow> avq \<Rightarrow> bool" where
  "vq_avail_ok s a \<longleftrightarrow>
     avail_idx (avail (shm s)) = vq_available_idx (dev s) + of_nat (length (a_avail a)) \<and>
     ring_holds (avail_ring (avail (shm s))) (vq_available_idx (dev s))
       (map (\<lambda>b. of_nat (ab_head b)) (a_avail a))"

definition vq_used_ok :: "vq_sys \<Rightarrow> avq \<Rightarrow> bool" where
  "vq_used_ok s a \<longleftrightarrow>
     used_idx (used (shm s)) = vq_used_cons_idx (drv s) + of_nat (length (a_used a)) \<and>
     ring_holds (used_ring (used (shm s))) (vq_used_cons_idx (drv s))
       (map (\<lambda>(b, l). \<lparr>ue_id = of_nat (ab_head b), ue_len = l\<rparr>) (a_used a))"

definition vq_rel :: "vq_sys \<Rightarrow> avq \<Rightarrow> bool" where
  "vq_rel s a \<longleftrightarrow> vq_sizes s \<and> vq_free_ok s a \<and> vq_flight_ok s a \<and> vq_part_ok s a \<and>
     vq_avail_ok s a \<and> vq_used_ok s a"

lemma vq_relD:
  assumes "vq_rel s a"
  shows "vq_sizes s" "vq_free_ok s a" "vq_flight_ok s a" "vq_part_ok s a" "vq_avail_ok s a"
    "vq_used_ok s a"
  using assms by (auto simp: vq_rel_def)

lemma vq_sizesD:
  assumes "vq_sizes s"
  shows "pow2 (vq_nentries (drv s))" "vq_nentries (dev s) = vq_nentries (drv s)"
    "unat (vq_nentries (drv s)) \<le> 2 ^ 15"
    "length (desc (shm s)) = unat (vq_nentries (drv s))"
    "length (avail_ring (avail (shm s))) = unat (vq_nentries (drv s))"
    "length (used_ring (used (shm s))) = unat (vq_nentries (drv s))"
    "length (vq_descx (drv s)) = unat (vq_nentries (drv s))"
    "\<not> vq_inuse (drv s)" "\<not> vq_inuse (dev s)"
  using assms by (auto simp: vq_sizes_def vring_mem_size_def)

text \<open>The fields of a control block that no queue operation changes after creation.\<close>

definition vq_config :: "virtqueue \<Rightarrow> ptr \<times> string \<times> u16 \<times> u16 \<times> ptr \<times> ptr \<times> vring \<times> ptr" where
  "vq_config vq = (vq_dev vq, vq_name vq, vq_queue_index vq, vq_nentries vq, vq_callback vq,
     vq_notify vq, vq_ring vq, shm_io vq)"

subsection \<open>Consequences of the partition\<close>

lemma part_distinct_perm:
  assumes "vq_part_ok s a" and "mset fl = mset (in_flight a)"
  shows "distinct (a_free a @ concat (map ab_chain fl))"
    and "set (a_free a @ concat (map ab_chain fl)) = {..<unat (vq_nentries (drv s))}"
proof -
  have *: "mset (a_free a @ concat (map ab_chain fl)) = mset [0..<unat (vq_nentries (drv s))]"
    using assms(1) unfolding vq_part_ok_def assms(2) [symmetric]
    by (simp add: mset_concat sum_mset_sum_list comp_def flip: mset_map)
  show "distinct (a_free a @ concat (map ab_chain fl))"
    using mset_eq_imp_distinct_iff [OF *] by simp
  show "set (a_free a @ concat (map ab_chain fl)) = {..<unat (vq_nentries (drv s))}"
    using mset_eq_setD [OF *] by auto
qed

lemmas part_distinct = part_distinct_perm [OF _ refl]

lemma sum_list_len_ge: "(\<And>x. x \<in> set xs \<Longrightarrow> f x \<noteq> []) \<Longrightarrow> length xs \<le> length (concat (map f xs))"
proof (induction xs)
  case (Cons x xs)
  have "1 \<le> length (f x)" using Cons.prems [of x] by (simp add: Suc_le_eq)
  moreover have "length xs \<le> length (concat (map f xs))" using Cons by simp
  ultimately have "1 + length xs \<le> length (f x) + length (concat (map f xs))" by (rule add_mono)
  then show ?case by simp
qed simp

lemma flight_length:
  assumes "vq_part_ok s a" and "vq_flight_ok s a"
  shows "length (a_free a) + length (in_flight a) \<le> unat (vq_nentries (drv s))"
proof -
  have "length (in_flight a) \<le> length (concat (map ab_chain (in_flight a)))"
    using assms(2) by (intro sum_list_len_ge) (auto simp: vq_flight_ok_def buf_ok_def)
  moreover have "length (a_free a @ concat (map ab_chain (in_flight a))) =
      unat (vq_nentries (drv s))"
    using part_distinct [OF assms(1)] by (metis card_lessThan distinct_card)
  ultimately show ?thesis by simp
qed

lemma heads_disjoint:
  assumes "vq_part_ok s a" and "vq_flight_ok s a" and "i \<in> set (a_free a)"
  shows "i \<notin># image_mset ab_head (mset (in_flight a))"
proof
  assume "i \<in># image_mset ab_head (mset (in_flight a))"
  then obtain b where b: "b \<in> set (in_flight a)" "i = ab_head b" by auto
  then have "i \<in> set (ab_chain b)"
    using assms(2) buf_chain_ne by (auto simp: vq_flight_ok_def buf_ok_def)
  then show False using part_distinct(1) [OF assms(1)] assms(3) b by auto
qed

subsection \<open>Busy and idle\<close>

lemma VQUEUE_BUSY_idle [simp]:
  "\<not> vq_inuse vq \<Longrightarrow> VQUEUE_BUSY dbg vq = Inr (vq\<lparr>vq_inuse := dbg\<rparr>)"
  by (cases vq) (auto simp: VQUEUE_BUSY_def)

lemma VQUEUE_IDLE_busy [simp]:
  "vq_inuse vq = dbg \<Longrightarrow> VQUEUE_IDLE dbg vq = vq\<lparr>vq_inuse := False\<rparr>"
  by (cases vq) (auto simp: VQUEUE_IDLE_def)

lemma descx_upd [simp]: "(d :: vq_desc_extra)\<lparr>cookie := x, ndescs := y\<rparr> = \<lparr>cookie = x, ndescs = y\<rparr>"
  by (cases d) simp

lemma VQASSERT_holds [simp]: "e \<Longrightarrow> VQASSERT dbg e = Inr ()"
  by (simp add: VQASSERT_def)

lemmas vq_macro_defs = VQ_RING_ASSERT_VALID_IDX_def VQ_RING_ASSERT_CHAIN_TERM_def VQ_PARAM_CHK_def

subsection \<open>Offering a buffer\<close>

lemma free_cnt_zero:
  assumes "vq_sizes s" and "vq_part_ok s a" and "vq_flight_ok s a" and "k \<le> length (a_free a)"
  shows "(of_nat k :: u16) = 0 \<longleftrightarrow> k = 0"
proof -
  have "k < 2 ^ 16" using flight_length [OF assms(2,3)] vq_sizesD(3) [OF assms(1)] assms(4) by simp
  then show ?thesis using unat_of_nat_lt [of k, where 'a = 16] by auto
qed

lemma virtqueue_add_buffer_eq:
  assumes "\<not> vq_inuse vq" and "readable + writable = int n" and "0 < n" and "vq_free_cnt vq \<noteq> 0"
    and "ck \<noteq> NULL" and "vq_desc_head_idx vq < vq_nentries vq"
    and "unat (vq_desc_head_idx vq) < length (vq_descx vq)"
    and "cookie (vq_descx vq ! unat (vq_desc_head_idx vq)) = NULL"
    and "vq_ring_add_loop v2p dbg (shm_io vq) bufs (int n) readable n 0 (vq_desc_head_idx vq) (desc m) =
      Inr (h', ds')"
    and "if vq_free_cnt vq - of_nat n = 0 then h' = VQ_RING_DESC_CHAIN_END else h' < vq_nentries vq"
    and "unat (avail_idx (avail m) AND (vq_nentries vq - 1)) < length (avail_ring (avail m))"
  shows "virtqueue_add_buffer v2p dbg vq m bufs readable writable ck =
    Inr (VQUEUE_SUCCESS,
      vq\<lparr>vq_descx := (vq_descx vq)[unat (vq_desc_head_idx vq) := \<lparr>cookie = ck, ndescs = of_nat n\<rparr>],
        vq_desc_head_idx := h', vq_free_cnt := vq_free_cnt vq - of_nat n,
        vq_queued_cnt := vq_queued_cnt vq + 1, vq_inuse := False\<rparr>,
      m\<lparr>desc := ds', avail := (avail m)\<lparr>
        avail_ring := (avail_ring (avail m))
          [unat (avail_idx (avail m) AND (vq_nentries vq - 1)) := vq_desc_head_idx vq],
        avail_idx := avail_idx (avail m) + 1\<rparr>\<rparr>)"
proof -
  have a: "h' = VQ_RING_DESC_CHAIN_END" if "vq_free_cnt vq - of_nat n = 0" using assms(10) that by simp
  have b: "h' < vq_nentries vq" if "vq_free_cnt vq - of_nat n \<noteq> 0" using assms(10) that by simp
  show ?thesis
    using assms(1-9,11) a b
    by (cases "vq_free_cnt vq - of_nat n = 0")
      (simp_all add: virtqueue_add_buffer_def vq_ring_add_buffer_def vq_ring_update_avail_def
        vq_macro_defs VQUEUE_SUCCESS_def Let_def del: right_minus_eq)
qed

text \<open>
  The control block and the rings after a chain of \<open>n\<close> descriptors from \<open>x\<close> on was added, with \<open>h\<close> the head and
  \<open>r\<close> the length of what remains free.
\<close>

definition added_vq :: "nat \<Rightarrow> nat \<Rightarrow> ptr \<Rightarrow> u16 \<Rightarrow> nat \<Rightarrow> virtqueue \<Rightarrow> virtqueue" where
  "added_vq x n ck h r vq =
     vq\<lparr>vq_descx := (vq_descx vq)[x := \<lparr>cookie = ck, ndescs = of_nat n\<rparr>], vq_desc_head_idx := h,
       vq_free_cnt := of_nat r, vq_queued_cnt := vq_queued_cnt vq + 1, vq_inuse := False\<rparr>"

definition added_mem :: "virtqueue \<Rightarrow> nat \<Rightarrow> vring_desc list \<Rightarrow> vring_mem \<Rightarrow> vring_mem" where
  "added_mem vq x ds m =
     m\<lparr>desc := ds, avail := (avail m)\<lparr>
       avail_ring := (avail_ring (avail m))[unat (avail_idx (avail m) AND (vq_nentries vq - 1)) := of_nat x],
       avail_idx := avail_idx (avail m) + 1\<rparr>\<rparr>"

lemmas added_defs = added_vq_def added_mem_def

lemma virtqueue_add_buffer_exec:
  assumes R: "vq_rel s a" and n: "readable + writable = int n" "0 < n" "n \<le> length (a_free a)"
    and b: "n \<le> length bufs" and ck: "ck \<noteq> NULL"
  defines "c \<equiv> take n (a_free a)" and "rest \<equiv> drop n (a_free a)"
  obtains h' ds' where "virtqueue_add_buffer v2p dbg (drv s) (shm s) bufs readable writable ck =
      Inr (VQUEUE_SUCCESS, added_vq (hd c) n ck h' (length rest) (drv s), added_mem (drv s) (hd c) ds' (shm s))"
    and "free_chain ds' h' rest" and "length ds' = length (desc (shm s))"
    and "\<forall>j. j \<notin> set c \<longrightarrow> ds' ! j = desc (shm s) ! j"
    and "\<forall>p < n. ds' ! (c ! p) = vq_fill_desc v2p (shm_io (drv s)) (int n) readable p (bufs ! p)
       (desc (shm s) ! (c ! p))"
proof -
  note Rs = vq_relD [OF R] and sz = vq_sizesD [OF vq_relD(1) [OF R]]
  have fc: "free_chain (desc (shm s)) (vq_desc_head_idx (drv s)) (c @ rest)"
    using Rs(2) by (simp add: vq_free_ok_def c_def rest_def)
  have dist: "distinct (c @ rest)" using part_distinct(1) [OF Rs(4)] by (simp add: c_def rest_def)
  have len: "length c = n" using n by (simp add: c_def)
  then obtain x xs where cx: "c = x # xs" using n(2) by (cases c) auto
  have x: "unat (vq_desc_head_idx (drv s)) = x" "x < unat (vq_nentries (drv s))"
    using fc sz(4) by (auto simp: cx)
  have hx: "vq_desc_head_idx (drv s) = of_nat x" using x(1) by auto
  have "x \<in> set (a_free a)" using cx in_set_takeD [of x n "a_free a"] by (simp add: c_def)
  then have ckx: "cookie (vq_descx (drv s) ! x) = NULL"
    using heads_disjoint [OF Rs(4,3)] Rs(3) x(2) by (simp add: vq_flight_ok_def)
  obtain h' ds' where L: "vq_ring_add_loop v2p dbg (shm_io (drv s)) bufs (int n) readable n 0
        (vq_desc_head_idx (drv s)) (desc (shm s)) = Inr (h', ds')"
    and f: "free_chain ds' h' rest" "length ds' = length (desc (shm s))"
    and o: "\<forall>j. j \<notin> set c \<longrightarrow> ds' ! j = desc (shm s) ! j"
    and p: "\<forall>p < n. ds' ! (c ! p) = vq_fill_desc v2p (shm_io (drv s)) (int n) readable p (bufs ! p)
       (desc (shm s) ! (c ! p))"
    using vq_ring_add_loop_ok [OF fc dist, of 0 bufs v2p dbg "shm_io (drv s)" "int n" readable]
      sz(3,4) b len by auto
  have fcnt: "vq_free_cnt (drv s) = of_nat (length (a_free a))"
    using Rs(2) by (simp add: vq_free_ok_def)
  have cnt: "vq_free_cnt (drv s) - of_nat n = of_nat (length rest)"
    using n(3) by (simp add: fcnt rest_def of_nat_diff)
  have cnt0: "vq_free_cnt (drv s) \<noteq> 0"
    using free_cnt_zero [OF Rs(1,4,3), of "length (a_free a)"] n by (auto simp: fcnt)
  have cnt1: "(of_nat (length rest) :: u16) = 0 \<longleftrightarrow> rest = []"
    using free_cnt_zero [OF Rs(1,4,3), of "length rest"] by (simp add: rest_def)
  have hc: "if vq_free_cnt (drv s) - of_nat n = 0 then h' = VQ_RING_DESC_CHAIN_END
      else h' < vq_nentries (drv s)"
    unfolding cnt cnt1 using f sz(4) by (cases rest) (auto simp: word_less_nat_alt)
  have xl: "vq_desc_head_idx (drv s) < vq_nentries (drv s)" using x by (simp add: word_less_nat_alt)
  have sl: "unat (avail_idx (avail (shm s)) AND (vq_nentries (drv s) - 1)) <
      length (avail_ring (avail (shm s)))"
    using ring_slot_less [OF sz(1)] sz(5) by simp
  show thesis
    using virtqueue_add_buffer_eq [OF sz(8) n(1,2) cnt0 ck xl _ _ L hc sl] x sz(7) ckx
    by (intro that [OF _ f o p]) (simp add: cnt hx cx added_defs)
qed

text \<open>Buffers in flight are not touched, and the new chain holds the new buffer.\<close>

lemma buf_ok_kept:
  assumes "buf_ok vq ds b" and "set (ab_chain b) \<inter> set c = {}" and "x \<in> set c"
    and "\<forall>j. j \<notin> set c \<longrightarrow> ds' ! j = ds ! j" and "length ds' = length ds"
  shows "buf_ok (added_vq x n ck h r vq) ds' b"
proof -
  have ch: "buf_chain ds' (ab_chain b)"
    using assms buf_chain_cong [of "ab_chain b" ds' ds] by (auto simp: buf_ok_def)
  have "ab_head b \<in> set (ab_chain b)" using buf_chain_ne [OF ch] by simp
  then have "ab_head b \<noteq> x" and "ab_head b \<notin> set c" using assms(2,3) by auto
  then show ?thesis using assms(1,4) ch by (simp add: buf_ok_def added_vq_def)
qed

lemma buf_ok_added:
  assumes "free_chain ds hd0 (c @ rest)" and "length c = n" and "0 < n" and "length ds' = length ds"
    and "\<forall>p < n. ds' ! (c ! p) = vq_fill_desc v2p io (int n) readable p (bufs ! p) (ds ! (c ! p))"
    and "ck \<noteq> NULL" and "length (vq_descx vq) = length ds"
  shows "buf_ok (added_vq (hd c) n ck h r vq) ds' \<lparr>ab_chain = c, ab_cookie = ck, ab_addr = v2p io (vqb_buf (bufs ! 0)),
    ab_len = of_int (vqb_len (bufs ! 0))\<rparr>"
proof -
  have c0: "c \<noteq> []" using assms(2,3) by auto
  have bc: "buf_chain ds' c"
    using filled_buf_chain [OF assms(1) c0 assms(4), of "int n" v2p io readable bufs] assms(2,5) by simp
  have "hd c < length ds" using buf_chain_bound [OF bc, of "hd c"] c0 assms(4) by simp
  moreover have "ds' ! hd c = vq_fill_desc v2p io (int n) readable 0 (bufs ! 0) (ds ! hd c)"
    using assms(3,5) c0 by (simp add: hd_conv_nth)
  ultimately show ?thesis using bc assms(2,6,7) by (simp add: buf_ok_def added_vq_def)
qed

lemma virtqueue_add_buffer_refines:
  assumes R: "vq_rel s a" and n: "readable + writable = int n" "0 < n" "n \<le> length (a_free a)"
    and b: "n \<le> length bufs" and ck: "ck \<noteq> NULL"
  shows "\<exists>vq' m'. virtqueue_add_buffer v2p dbg (drv s) (shm s) bufs readable writable ck =
      Inr (VQUEUE_SUCCESS, vq', m') \<and> vq_config vq' = vq_config (drv s) \<and>
    vq_rel (s\<lparr>drv := vq', shm := m'\<rparr>)
      (a\<lparr>a_free := drop n (a_free a),
         a_avail := a_avail a @ [\<lparr>ab_chain = take n (a_free a), ab_cookie = ck,
           ab_addr = v2p (shm_io (drv s)) (vqb_buf (bufs ! 0)),
           ab_len = of_int (vqb_len (bufs ! 0))\<rparr>]\<rparr>) \<and>
    (\<forall>p < n. desc m' ! (a_free a ! p) = vq_fill_desc v2p (shm_io (drv s)) (int n) readable p (bufs ! p)
       (desc (shm s) ! (a_free a ! p)))"
proof (rule virtqueue_add_buffer_exec [OF R n b ck, of v2p dbg])
  note Rs = vq_relD [OF R] and sz = vq_sizesD [OF vq_relD(1) [OF R]]
  let ?c = "take n (a_free a)" and ?rest = "drop n (a_free a)"
  fix h' ds'
  let ?vq = "added_vq (hd ?c) n ck h' (length ?rest) (drv s)" and ?m = "added_mem (drv s) (hd ?c) ds' (shm s)"
  assume E: "virtqueue_add_buffer v2p dbg (drv s) (shm s) bufs readable writable ck = Inr (VQUEUE_SUCCESS, ?vq, ?m)"
    and f: "free_chain ds' h' ?rest" and ld: "length ds' = length (desc (shm s))"
    and o: "\<forall>j. j \<notin> set ?c \<longrightarrow> ds' ! j = desc (shm s) ! j"
    and p: "\<forall>p < n. ds' ! (?c ! p) = vq_fill_desc v2p (shm_io (drv s)) (int n) readable p (bufs ! p)
       (desc (shm s) ! (?c ! p))"
  let ?b = "\<lparr>ab_chain = ?c, ab_cookie = ck, ab_addr = v2p (shm_io (drv s)) (vqb_buf (bufs ! 0)),
    ab_len = of_int (vqb_len (bufs ! 0))\<rparr>"
  let ?s = "s\<lparr>drv := ?vq, shm := ?m\<rparr>" and ?a = "a\<lparr>a_free := ?rest, a_avail := a_avail a @ [?b]\<rparr>"
  have fl: "mset (in_flight ?a) = add_mset ?b (mset (in_flight a))" by (simp add: in_flight_def)
  have c: "length ?c = n" "hd ?c \<in> set ?c" using n by (simp, intro hd_in_set, auto)
  have newb: "buf_ok ?vq ds' ?b"
    by (rule buf_ok_added [OF _ c(1) n(2) ld p ck, of "vq_desc_head_idx (drv s)" ?rest])
      (use Rs(2) sz(4,7) in \<open>simp_all add: vq_free_ok_def\<close>)
  have oldb: "buf_ok ?vq ds' b" if "b \<in> set (in_flight a)" for b
  proof (rule buf_ok_kept [OF _ _ c(2) o ld])
    show "buf_ok (drv s) (desc (shm s)) b" using Rs(3) that by (simp add: vq_flight_ok_def)
    show "set (ab_chain b) \<inter> set ?c = {}"
      using part_distinct(1) [OF Rs(4)] that set_take_subset [of n "a_free a"] by auto
  qed
  have "length (a_avail a) < unat (vq_nentries (drv s))"
    using flight_length [OF Rs(4,3)] n by (simp add: in_flight_def)
  then have "vq_avail_ok ?s ?a"
    using Rs(5) sz(1,5) ring_holds_push [where n = "vq_nentries (drv s)" and x = "of_nat (hd ?c) :: u16"
        and xs = "map (\<lambda>b. of_nat (ab_head b)) (a_avail a)"]
    by (simp add: vq_avail_ok_def added_defs)
  moreover have "vq_flight_ok ?s ?a"
    using oldb newb Rs(3) unfolding vq_flight_ok_def fl by (simp add: added_defs)
  moreover have "vq_part_ok ?s ?a"
    using Rs(4) mset_append [of ?c ?rest] unfolding vq_part_ok_def fl append_take_drop_id
    by (simp add: added_defs ac_simps)
  ultimately have "vq_rel ?s ?a"
    using Rs(1,6) f ld
    by (simp add: vq_rel_def vq_sizes_def vring_mem_size_def vq_free_ok_def vq_used_ok_def added_defs)
  then show ?thesis using E p n(3) by (auto simp: vq_config_def added_defs)
qed

subsection \<open>Taking an offered buffer\<close>

lemma flight_count_small:
  assumes "vq_rel s a" and "k \<le> length (in_flight a)"
  shows "unat (of_nat k :: u16) = k" and "(of_nat k :: u16) = 0 \<longleftrightarrow> k = 0"
proof -
  have "k < 2 ^ 16"
    using flight_length [OF vq_relD(4,3) [OF assms(1)]] vq_sizesD(3) [OF vq_relD(1) [OF assms(1)]]
      assms(2) by simp
  then show "unat (of_nat k :: u16) = k" using unat_of_nat_lt [of k, where 'a = 16] by simp
  then show "(of_nat k :: u16) = 0 \<longleftrightarrow> k = 0" by auto
qed

lemma flight_head_bound:
  assumes "vq_rel s a" and "b \<in> set (in_flight a)"
  shows "ab_head b < unat (vq_nentries (drv s))" and "unat (of_nat (ab_head b) :: u16) = ab_head b"
    and "buf_ok (drv s) (desc (shm s)) b"
proof -
  note Rs = vq_relD [OF assms(1)] and sz = vq_sizesD [OF vq_relD(1) [OF assms(1)]]
  show ok: "buf_ok (drv s) (desc (shm s)) b"
    using Rs(3) assms(2) by (simp add: vq_flight_ok_def)
  then have "ab_head b \<in> set (ab_chain b)" using buf_chain_ne by (auto simp: buf_ok_def)
  then show lt: "ab_head b < unat (vq_nentries (drv s))"
    using buf_chain_bound [of "desc (shm s)" "ab_chain b"] ok sz(4) by (auto simp: buf_ok_def)
  show "unat (of_nat (ab_head b) :: u16) = ab_head b"
    by (rule unat_of_nat_lt) (use lt sz(3) in simp)
qed

lemma get_available_empty:
  assumes "vq_rel s a" and "a_avail a = []"
  shows "virtqueue_get_available_buffer p2v dbg (dev s) (shm s) ai l = Inr (NULL, ai, l, dev s)"
  using vq_relD(5) [OF assms(1)] assms(2)
  by (simp add: virtqueue_get_available_buffer_def vq_avail_ok_def)

lemma get_available_refines:
  assumes R: "vq_rel s a" and av: "a_avail a = b # bs"
  shows "\<exists>vq'. virtqueue_get_available_buffer p2v dbg (dev s) (shm s) ai l =
      Inr (p2v (shm_io (dev s)) (ab_addr b), of_nat (ab_head b), ab_len b, vq') \<and>
    vq_config vq' = vq_config (dev s) \<and>
    vq_rel (s\<lparr>dev := vq'\<rparr>) (a\<lparr>a_avail := bs, a_held := a_held a @ [b]\<rparr>)"
proof -
  note Rs = vq_relD [OF R] and sz = vq_sizesD [OF vq_relD(1) [OF R]]
  let ?vq = "(dev s)\<lparr>vq_available_idx := vq_available_idx (dev s) + 1, vq_inuse := False\<rparr>"
  let ?n = "vq_nentries (drv s)"
  have b: "b \<in> set (in_flight a)" by (simp add: in_flight_def av)
  note hb = flight_head_bound [OF R b]
  have ne: "avail_idx (avail (shm s)) \<noteq> vq_available_idx (dev s)"
    using Rs(5) flight_count_small(2) [OF R, of "length (a_avail a)"] av
    by (simp add: vq_avail_ok_def in_flight_def)
  have h: "ring_holds (avail_ring (avail (shm s))) (vq_available_idx (dev s))
      (of_nat (ab_head b) # map (\<lambda>b. of_nat (ab_head b)) bs)"
    using Rs(5) by (simp add: vq_avail_ok_def av)
  note pop = ring_holds_pop [OF h sz(5,1)]
  have "virtqueue_get_available_buffer p2v dbg (dev s) (shm s) ai l =
      Inr (p2v (shm_io (dev s)) (ab_addr b), of_nat (ab_head b), ab_len b, ?vq)"
    using ne pop(1) hb sz ring_slot_less [OF sz(1), of "vq_available_idx (dev s)"]
    by (simp add: virtqueue_get_available_buffer_def Let_def buf_ok_def)
  moreover have "vq_config ?vq = vq_config (dev s)" by (simp add: vq_config_def)
  moreover have "vq_rel (s\<lparr>dev := ?vq\<rparr>) (a\<lparr>a_avail := bs, a_held := a_held a @ [b]\<rparr>)"
  proof -
    have fl: "mset (in_flight (a\<lparr>a_avail := bs, a_held := a_held a @ [b]\<rparr>)) = mset (in_flight a)"
      by (simp add: in_flight_def av)
    show ?thesis
      using Rs pop(2) unfolding vq_rel_def vq_flight_ok_def vq_part_ok_def fl
      by (simp add: vq_sizes_def vq_free_ok_def vq_avail_ok_def vq_used_ok_def av)
  qed
  ultimately show ?thesis by blast
qed

subsection \<open>Giving a buffer back\<close>

lemma add_consumed_refines:
  assumes R: "vq_rel s a" and b: "b \<in> set (a_held a)"
  shows "\<exists>vq' m'. virtqueue_add_consumed_buffer dbg (dev s) (shm s) (of_nat (ab_head b)) l =
      Inr (VQUEUE_SUCCESS, vq', m') \<and> vq_config vq' = vq_config (dev s) \<and>
    vq_rel (s\<lparr>dev := vq', shm := m'\<rparr>)
      (a\<lparr>a_held := remove1 b (a_held a), a_used := a_used a @ [(b, l)]\<rparr>)"
proof -
  note Rs = vq_relD [OF R] and sz = vq_sizesD [OF vq_relD(1) [OF R]]
  let ?e = "\<lparr>ue_id = of_nat (ab_head b), ue_len = l\<rparr>"
  let ?slot = "unat (used_idx (used (shm s)) AND (vq_nentries (drv s) - 1))"
  let ?vq = "(dev s)\<lparr>vq_queued_cnt := vq_queued_cnt (dev s) + 1, vq_inuse := False\<rparr>"
  let ?m = "(shm s)\<lparr>used := (used (shm s))\<lparr>used_ring := (used_ring (used (shm s)))[?slot := ?e],
      used_idx := used_idx (used (shm s)) + 1\<rparr>\<rparr>"
  let ?a = "a\<lparr>a_held := remove1 b (a_held a), a_used := a_used a @ [(b, l)]\<rparr>"
  have bf: "b \<in> set (in_flight a)" using b by (simp add: in_flight_def)
  note hb = flight_head_bound [OF R bf]
  have uc: "(ucast (of_nat (ab_head b) :: u16) :: u32) = of_nat (ab_head b)"
    using hb(2) by (metis of_nat_unat)
  have le: "\<not> vq_nentries (dev s) < of_nat (ab_head b)"
    using hb sz(2) by (simp add: word_less_nat_alt)
  have sl: "?slot < length (used_ring (used (shm s)))"
    using ring_slot_less [OF sz(1)] sz(6) by simp
  have E: "virtqueue_add_consumed_buffer dbg (dev s) (shm s) (of_nat (ab_head b)) l =
      Inr (VQUEUE_SUCCESS, ?vq, ?m)"
    using le sl sz(2,9) by (simp add: virtqueue_add_consumed_buffer_def Let_def uc)
  have fl: "mset (in_flight ?a) = mset (in_flight a)"
    using b by (simp add: in_flight_def)
  have room: "length (a_used a) < unat (vq_nentries (drv s))"
    using flight_length [OF Rs(4,3)] length_pos_if_in_set [OF b]
    by (simp add: in_flight_def del: length_greater_0_conv)
  have "vq_used_ok (s\<lparr>dev := ?vq, shm := ?m\<rparr>) ?a"
    using Rs(6) room ring_holds_push [OF _ sz(6,1),
        of "vq_used_cons_idx (drv s)" "map (\<lambda>(b, l). \<lparr>ue_id = of_nat (ab_head b), ue_len = l\<rparr>) (a_used a)" ?e]
    by (simp add: vq_used_ok_def)
  then have "vq_rel (s\<lparr>dev := ?vq, shm := ?m\<rparr>) ?a"
    using Rs unfolding vq_rel_def vq_flight_ok_def vq_part_ok_def fl
    by (simp add: vq_sizes_def vq_free_ok_def vq_avail_ok_def vring_mem_size_def)
  moreover have "vq_config ?vq = vq_config (dev s)" by (simp add: vq_config_def)
  ultimately show ?thesis using E by blast
qed

subsection \<open>Collecting a returned buffer\<close>

lemma vq_ring_free_chain_eq:
  assumes "buf_chain (desc m) c" and "length (desc m) = unat (vq_nentries vq)"
    and "length (vq_descx vq) = unat (vq_nentries vq)" and "unat i = hd c" and "distinct c"
    and "ndescs (vq_descx vq ! hd c) = of_nat (length c)"
    and "vq_free_cnt vq = 0 \<Longrightarrow> vq_desc_head_idx vq = VQ_RING_DESC_CHAIN_END"
  shows "vq_ring_free_chain dbg vq m i =
    Inr (vq\<lparr>vq_free_cnt := vq_free_cnt vq + of_nat (length c),
            vq_descx := (vq_descx vq)[hd c := (vq_descx vq ! hd c)\<lparr>ndescs := 0\<rparr>],
            vq_desc_head_idx := i\<rparr>,
         m\<lparr>desc := (desc m)[last c := (desc m ! last c)\<lparr>d_next := vq_desc_head_idx vq\<rparr>]\<rparr>)"
proof -
  have c0: "c \<noteq> []" using assms(1) by auto
  have hl: "hd c < unat (vq_nentries vq)" and ll: "last c < unat (vq_nentries vq)"
    using buf_chain_bound [OF assms(1)] assms(2) c0 by auto
  have "length c \<le> length (desc m)"
    using card_mono [of "{..<length (desc m)}" "set c"] buf_chain_bound [OF assms(1)] assms(5)
    by (auto simp: distinct_card)
  then have loop: "vq_free_chain_loop (Suc (unat (vq_nentries vq))) dbg vq (desc m) (hd c) nd =
      Inr (last c, nd - of_nat (length c - 1))" for nd
    using vq_free_chain_loop_ok [OF assms(1) _ assms(2)] assms(2)
    by (simp del: vq_free_chain_loop.simps)
  have nd: "(of_nat (length c) :: u16) - 1 - of_nat (length c - 1) = 0"
    using c0 by (cases c) auto
  have ind: "d_flags (desc m ! hd c) AND VRING_DESC_F_INDIRECT = 0"
    using assms(1) c0 by (cases "(desc m, c)" rule: buf_chain.cases) auto
  have hv: "i < vq_nentries vq" using hl assms(4) by (simp add: word_less_nat_alt)
  show ?thesis
    using assms(2-4,6,7) hl ll ind hv nd
    by (cases "vq_free_cnt vq = 0")
      (simp_all add: vq_ring_free_chain_def VQ_RING_ASSERT_VALID_IDX_def
        VQ_RING_ASSERT_CHAIN_TERM_def loop Let_def del: vq_free_chain_loop.simps)
qed

lemma get_buffer_empty:
  assumes "vq_rel s a" and "a_used a = []"
  shows "virtqueue_get_buffer dbg (Some (drv s)) (shm s) l i = Inr (NULL, l, i, Some (drv s), shm s)"
  using vq_relD(6) [OF assms(1)] assms(2)
  by (simp add: virtqueue_get_buffer_def vq_used_ok_def)

lemma get_buffer_exec:
  assumes R: "vq_rel s a" and us: "a_used a = (b, l) # us"
  shows "virtqueue_get_buffer dbg (Some (drv s)) (shm s) l0 i0 =
    Inr (ab_cookie b, l, vq_used_cons_idx (drv s) AND (vq_nentries (drv s) - 1),
      Some ((drv s)\<lparr>vq_used_cons_idx := vq_used_cons_idx (drv s) + 1,
        vq_free_cnt := of_nat (length (ab_chain b @ a_free a)),
        vq_descx := (vq_descx (drv s))[ab_head b := \<lparr>cookie = NULL, ndescs = 0\<rparr>],
        vq_desc_head_idx := of_nat (ab_head b), vq_inuse := False\<rparr>),
      (shm s)\<lparr>desc := (desc (shm s))[last (ab_chain b) :=
        (desc (shm s) ! last (ab_chain b))\<lparr>d_next := vq_desc_head_idx (drv s)\<rparr>]\<rparr>)"
proof -
  note Rs = vq_relD [OF R] and sz = vq_sizesD [OF vq_relD(1) [OF R]]
  have b: "b \<in> set (in_flight a)" by (simp add: in_flight_def us)
  note hb = flight_head_bound [OF R b]
  have ok: "buf_chain (desc (shm s)) (ab_chain b)"
      "vq_descx (drv s) ! ab_head b = \<lparr>cookie = ab_cookie b, ndescs = of_nat (length (ab_chain b))\<rparr>"
    using hb(3) by (auto simp: buf_ok_def)
  have dc: "distinct (ab_chain b)"
    using part_distinct(1) [OF Rs(4)] b by (auto simp: distinct_concat_iff)
  have ne: "vq_used_cons_idx (drv s) \<noteq> used_idx (used (shm s))"
    using Rs(6) flight_count_small(2) [OF R, of "length (a_used a)"] us
    by (simp add: vq_used_ok_def in_flight_def)
  have h: "ring_holds (used_ring (used (shm s))) (vq_used_cons_idx (drv s))
      (\<lparr>ue_id = of_nat (ab_head b), ue_len = l\<rparr> #
        map (\<lambda>(b, l). \<lparr>ue_id = of_nat (ab_head b), ue_len = l\<rparr>) us)"
    using Rs(6) by (simp add: vq_used_ok_def us)
  note pop = ring_holds_pop(1) [OF h sz(6,1)]
  have "unat (of_nat (ab_head b) :: u32) = ab_head b"
    by (rule unat_of_nat_lt) (use hb(1) sz(3) in simp)
  then have uc: "(ucast (of_nat (ab_head b) :: u32) :: u16) = of_nat (ab_head b)"
    by (metis of_nat_unat)
  have zero: "vq_free_cnt (drv s) = 0 \<Longrightarrow> vq_desc_head_idx (drv s) = VQ_RING_DESC_CHAIN_END"
    using Rs(2) free_cnt_zero [OF Rs(1,4,3), of "length (a_free a)"] by (auto simp: vq_free_ok_def)
  have cnt: "vq_free_cnt (drv s) = of_nat (length (a_free a))" using Rs(2) by (simp add: vq_free_ok_def)
  let ?vq = "(drv s)\<lparr>vq_inuse := dbg, vq_used_cons_idx := vq_used_cons_idx (drv s) + 1\<rparr>"
  have F: "vq_ring_free_chain dbg ?vq (shm s) (of_nat (ab_head b)) =
    Inr (?vq\<lparr>vq_free_cnt := of_nat (length (ab_chain b @ a_free a)),
            vq_descx := (vq_descx (drv s))[ab_head b := \<lparr>cookie = ab_cookie b, ndescs = 0\<rparr>],
            vq_desc_head_idx := of_nat (ab_head b)\<rparr>,
         (shm s)\<lparr>desc := (desc (shm s))[last (ab_chain b) :=
           (desc (shm s) ! last (ab_chain b))\<lparr>d_next := vq_desc_head_idx (drv s)\<rparr>]\<rparr>)"
    using vq_ring_free_chain_eq [of "shm s" "ab_chain b" ?vq "of_nat (ab_head b)" dbg]
      ok dc sz hb zero cnt by (simp add: add.commute)
  show ?thesis
    using ne pop F hb sz ok ring_slot_less [OF sz(1), of "vq_used_cons_idx (drv s)"]
    by (simp add: virtqueue_get_buffer_def Let_def uc)
qed

text \<open>Freeing a chain leaves the buffers with other descriptors alone.\<close>

lemma buf_ok_freed:
  assumes ok: "buf_ok vq ds b'" and disj: "set (ab_chain b') \<inter> set c = {}" and c0: "c \<noteq> []"
    and "vq_descx vq' = (vq_descx vq)[hd c := x]"
  shows "buf_ok vq' (ds[last c := d]) b'"
proof -
  have l: "last c \<notin> set (ab_chain b')" using disj c0 last_in_set [of c] by auto
  have h: "ab_head b' \<in> set (ab_chain b')" using ok buf_chain_ne by (auto simp: buf_ok_def)
  have "ab_head b' \<noteq> hd c" using h disj c0 list.set_sel(1) [of c] by auto
  moreover have "ab_head b' \<noteq> last c" using h l by auto
  ultimately show ?thesis using ok l assms(4) by (simp add: buf_ok_def buf_chain_upd)
qed

lemma get_buffer_refines:
  assumes R: "vq_rel s a" and us: "a_used a = (b, l) # us"
  shows "\<exists>vq' m'. virtqueue_get_buffer dbg (Some (drv s)) (shm s) l0 i0 =
      Inr (ab_cookie b, l, vq_used_cons_idx (drv s) AND (vq_nentries (drv s) - 1), Some vq', m') \<and>
    vq_config vq' = vq_config (drv s) \<and>
    vq_rel (s\<lparr>drv := vq', shm := m'\<rparr>) (a\<lparr>a_free := ab_chain b @ a_free a, a_used := us\<rparr>)"
proof -
  note Rs = vq_relD [OF R] and sz = vq_sizesD [OF vq_relD(1) [OF R]]
  let ?c = "ab_chain b"
  let ?vq = "(drv s)\<lparr>vq_used_cons_idx := vq_used_cons_idx (drv s) + 1,
        vq_free_cnt := of_nat (length (ab_chain b @ a_free a)),
        vq_descx := (vq_descx (drv s))[ab_head b := \<lparr>cookie = NULL, ndescs = 0\<rparr>],
        vq_desc_head_idx := of_nat (ab_head b), vq_inuse := False\<rparr>"
  let ?ds = "(desc (shm s))[last ?c := (desc (shm s) ! last ?c)\<lparr>d_next := vq_desc_head_idx (drv s)\<rparr>]"
  let ?s = "s\<lparr>drv := ?vq, shm := (shm s)\<lparr>desc := ?ds\<rparr>\<rparr>"
  let ?a = "a\<lparr>a_free := ?c @ a_free a, a_used := us\<rparr>"
  have b: "b \<in> set (in_flight a)" by (simp add: in_flight_def us)
  note hb = flight_head_bound [OF R b]
  have bc: "buf_chain (desc (shm s)) ?c" using hb(3) by (simp add: buf_ok_def)
  have c0: "?c \<noteq> []" using bc by auto
  have fl: "mset (in_flight a) = add_mset b (mset (in_flight ?a))"
    by (simp add: in_flight_def us)
  have dist: "distinct (a_free a @ ?c @ concat (map ab_chain (in_flight ?a)))"
    using part_distinct_perm(1) [OF Rs(4), of "b # in_flight ?a"] by (simp add: fl)
  have free: "vq_free_ok ?s ?a"
    using free_chain_join [OF bc, of "a_free a" "vq_desc_head_idx (drv s)"] dist Rs(2) sz(3,4)
    by (simp add: vq_free_ok_def) auto
  have other: "buf_ok ?vq ?ds b'" if b': "b' \<in> set (in_flight ?a)" for b'
  proof -
    have ok: "buf_ok (drv s) (desc (shm s)) b'"
      using Rs(3) b' unfolding vq_flight_ok_def fl by simp
    have "set (ab_chain b') \<inter> set ?c = {}" using dist b' by auto
    then show ?thesis by (rule buf_ok_freed [OF ok _ c0]) simp
  qed
  have "cookie (vq_descx ?vq ! i) = NULL"
    if "i < unat (vq_nentries (drv s))" "i \<notin># image_mset ab_head (mset (in_flight ?a))" for i
    using Rs(3) that sz(7) unfolding vq_flight_ok_def fl by (cases "i = ab_head b") auto
  then have flight: "vq_flight_ok ?s ?a" using other by (simp add: vq_flight_ok_def)
  have part: "vq_part_ok ?s ?a"
    using Rs(4) unfolding vq_part_ok_def fl by (simp add: ac_simps)
  have used: "vq_used_ok ?s ?a"
    using Rs(6) ring_holds_pop(2) [OF _ sz(6,1), of "vq_used_cons_idx (drv s)"
        "\<lparr>ue_id = of_nat (ab_head b), ue_len = l\<rparr>"
        "map (\<lambda>(b, l). \<lparr>ue_id = of_nat (ab_head b), ue_len = l\<rparr>) us"]
    by (simp add: vq_used_ok_def us)
  have "vq_rel ?s ?a"
    using Rs(1,5) free flight part used
    by (simp add: vq_rel_def vq_sizes_def vring_mem_size_def vq_avail_ok_def)
  moreover have "vq_config ?vq = vq_config (drv s)" by (simp add: vq_config_def)
  ultimately show ?thesis using get_buffer_exec [OF R us, of dbg l0 i0] by blast
qed

end
