(* ===== verification/Virtqueue_Proto.thy ===== *)
theory Virtqueue_Proto
  imports Virtqueue_Inv "HOL-Library.Sublist"
begin

text \<open>
  The virtqueue as a protocol between two processors. \<open>vq_exec\<close> runs one operation of the driver or
  of the device on the shared state; an interleaving of the two processors is a list of operations.
  \<open>avq_step\<close> is the same operation on the abstract queue. The locale \<open>vq_contract\<close> is the interface a
  client of the queue relies on (each legal operation succeeds and does the abstract step); inside
  it, the facts about whole runs are proved once: buffers reach the device in the order the driver
  offered them, and every cookie the driver collects is one it offered and did not get back before.
\<close>

subsection \<open>Operations\<close>

datatype vq_op = Offer "virtqueue_buf list" int int ptr | Take | Give u16 u32 | Collect

datatype vq_out = Offered int | Taken ptr u16 u32 | Given int | Collected ptr u32

fun vq_exec :: "(ptr \<Rightarrow> ptr \<Rightarrow> u64) \<Rightarrow> (ptr \<Rightarrow> u64 \<Rightarrow> ptr) \<Rightarrow> bool \<Rightarrow> vq_op \<Rightarrow> vq_sys \<Rightarrow>
  (vq_out \<times> vq_sys) cres" where
  "vq_exec v2p p2v dbg (Offer bufs readable writable ck) s =
     cbind (virtqueue_add_buffer v2p dbg (drv s) (shm s) bufs readable writable ck)
       (\<lambda>(st, vq, m). Inr (Offered st, s\<lparr>drv := vq, shm := m\<rparr>))"
| "vq_exec v2p p2v dbg Take s =
     cbind (virtqueue_get_available_buffer p2v dbg (dev s) (shm s) 0 0)
       (\<lambda>(b, i, l, vq). Inr (Taken b i l, s\<lparr>dev := vq\<rparr>))"
| "vq_exec v2p p2v dbg (Give i l) s =
     cbind (virtqueue_add_consumed_buffer dbg (dev s) (shm s) i l)
       (\<lambda>(st, vq, m). Inr (Given st, s\<lparr>dev := vq, shm := m\<rparr>))"
| "vq_exec v2p p2v dbg Collect s =
     cbind (virtqueue_get_buffer dbg (Some (drv s)) (shm s) 0 0)
       (\<lambda>(ck, l, i, vqo, m).
          case vqo of None \<Rightarrow> Inl Null_deref | Some vq \<Rightarrow> Inr (Collected ck l, s\<lparr>drv := vq, shm := m\<rparr>))"

fun run_ops :: "('o \<Rightarrow> 's \<Rightarrow> ('r \<times> 's) cres) \<Rightarrow> 'o list \<Rightarrow> 's \<Rightarrow> ('r list \<times> 's) cres" where
  "run_ops ex [] s = Inr ([], s)"
| "run_ops ex (op # ops) s =
     cbind (ex op s) (\<lambda>(r, s'). cbind (run_ops ex ops s') (\<lambda>(rs, s''). Inr (r # rs, s'')))"

text \<open>
  The contract of the callers: the driver offers at least one buffer, no more than there are free
  descriptors, with a cookie; the device gives back only buffers it holds.
\<close>

fun avq_ok :: "vq_op \<Rightarrow> avq \<Rightarrow> bool" where
  "avq_ok (Offer bufs readable writable ck) a \<longleftrightarrow>
     0 < readable + writable \<and> nat (readable + writable) \<le> length (a_free a) \<and>
     nat (readable + writable) \<le> length bufs \<and> ck \<noteq> NULL"
| "avq_ok (Give i l) a \<longleftrightarrow> i \<in> set (map (\<lambda>b. of_nat (ab_head b)) (a_held a))"
| "avq_ok _ a \<longleftrightarrow> True"

fun avq_step :: "(ptr \<Rightarrow> u64) \<Rightarrow> (u64 \<Rightarrow> ptr) \<Rightarrow> vq_op \<Rightarrow> avq \<Rightarrow> vq_out \<times> avq" where
  "avq_step tr rt (Offer bufs readable writable ck) a =
     (let n = nat (readable + writable) in
      (Offered VQUEUE_SUCCESS,
       a\<lparr>a_free := drop n (a_free a),
         a_avail := a_avail a @ [\<lparr>ab_chain = take n (a_free a), ab_cookie = ck,
           ab_addr = tr (vqb_buf (bufs ! 0)), ab_len = of_int (vqb_len (bufs ! 0))\<rparr>]\<rparr>))"
| "avq_step tr rt Take a =
     (case a_avail a of
        [] \<Rightarrow> (Taken NULL 0 0, a)
      | b # bs \<Rightarrow> (Taken (rt (ab_addr b)) (of_nat (ab_head b)) (ab_len b),
                  a\<lparr>a_avail := bs, a_held := a_held a @ [b]\<rparr>))"
| "avq_step tr rt (Give i l) a =
     (case find (\<lambda>b. of_nat (ab_head b) = i) (a_held a) of
        None \<Rightarrow> (Given VQUEUE_SUCCESS, a)
      | Some b \<Rightarrow> (Given VQUEUE_SUCCESS,
                   a\<lparr>a_held := remove1 b (a_held a), a_used := a_used a @ [(b, l)]\<rparr>))"
| "avq_step tr rt Collect a =
     (case a_used a of
        [] \<Rightarrow> (Collected NULL 0, a)
      | (b, l) # us \<Rightarrow> (Collected (ab_cookie b) l,
                        a\<lparr>a_free := ab_chain b @ a_free a, a_used := us\<rparr>))"

fun avq_run :: "(ptr \<Rightarrow> u64) \<Rightarrow> (u64 \<Rightarrow> ptr) \<Rightarrow> vq_op list \<Rightarrow> avq \<Rightarrow> vq_out list \<times> avq" where
  "avq_run tr rt [] a = ([], a)"
| "avq_run tr rt (op # ops) a =
     (let (r, a') = avq_step tr rt op a; (rs, a'') = avq_run tr rt ops a' in (r # rs, a''))"

fun avq_run_ok :: "(ptr \<Rightarrow> u64) \<Rightarrow> (u64 \<Rightarrow> ptr) \<Rightarrow> vq_op list \<Rightarrow> avq \<Rightarrow> bool" where
  "avq_run_ok tr rt [] a \<longleftrightarrow> True"
| "avq_run_ok tr rt (op # ops) a \<longleftrightarrow> avq_ok op a \<and> avq_run_ok tr rt ops (snd (avq_step tr rt op a))"

lemma avq_run_Cons:
  "avq_run tr rt (op # ops) a =
     (fst (avq_step tr rt op a) # fst (avq_run tr rt ops (snd (avq_step tr rt op a))),
      snd (avq_run tr rt ops (snd (avq_step tr rt op a))))"
  by (simp add: Let_def split: prod.splits)

declare avq_run.simps(2) [simp del]

subsection \<open>What a run offers, delivers and returns\<close>

fun offered_bufs :: "(ptr \<Rightarrow> u64) \<Rightarrow> (u64 \<Rightarrow> ptr) \<Rightarrow> vq_op list \<Rightarrow> (ptr \<times> u32) list" where
  "offered_bufs tr rt [] = []"
| "offered_bufs tr rt (Offer bufs r w ck # ops) =
     (rt (tr (vqb_buf (bufs ! 0))), of_int (vqb_len (bufs ! 0))) # offered_bufs tr rt ops"
| "offered_bufs tr rt (_ # ops) = offered_bufs tr rt ops"

fun taken_bufs :: "vq_out list \<Rightarrow> (ptr \<times> u32) list" where
  "taken_bufs [] = []"
| "taken_bufs (Taken p i l # os) = (if p = NULL then taken_bufs os else (p, l) # taken_bufs os)"
| "taken_bufs (_ # os) = taken_bufs os"

fun offered_cookies :: "vq_op list \<Rightarrow> ptr list" where
  "offered_cookies [] = []"
| "offered_cookies (Offer bufs r w ck # ops) = ck # offered_cookies ops"
| "offered_cookies (_ # ops) = offered_cookies ops"

fun collected_cookies :: "vq_out list \<Rightarrow> ptr list" where
  "collected_cookies [] = []"
| "collected_cookies (Collected ck l # os) =
     (if ck = NULL then collected_cookies os else ck # collected_cookies os)"
| "collected_cookies (_ # os) = collected_cookies os"

subsection \<open>Facts about abstract runs\<close>

definition avail_view :: "(u64 \<Rightarrow> ptr) \<Rightarrow> avq \<Rightarrow> (ptr \<times> u32) list" where
  "avail_view rt a = map (\<lambda>b. (rt (ab_addr b), ab_len b)) (a_avail a)"

lemma avq_run_fifo:
  assumes "\<forall>p \<in> set (map fst (avail_view rt a @ offered_bufs tr rt ops)). p \<noteq> NULL"
  shows "taken_bufs (fst (avq_run tr rt ops a)) @ avail_view rt (snd (avq_run tr rt ops a)) =
    avail_view rt a @ offered_bufs tr rt ops"
  using assms
proof (induction ops arbitrary: a)
  case Nil
  then show ?case by simp
next
  case (Cons op ops)
  show ?case
  proof (cases op)
    case (Offer bufs r w ck)
    with Cons.prems Cons.IH [of "snd (avq_step tr rt op a)"] show ?thesis
      by (simp add: avail_view_def avq_run_Cons Let_def)
  next
    case Take
    with Cons.prems Cons.IH [of "snd (avq_step tr rt op a)"] show ?thesis
      by (cases "a_avail a") (auto simp: avail_view_def avq_run_Cons)
  next
    case (Give i l)
    with Cons.prems Cons.IH [of "snd (avq_step tr rt op a)"] show ?thesis
      by (auto simp: avail_view_def avq_run_Cons split: option.splits)
  next
    case Collect
    with Cons.prems Cons.IH [of "snd (avq_step tr rt op a)"] show ?thesis
      by (cases "a_used a") (auto simp: avail_view_def avq_run_Cons)
  qed
qed

lemma find_SomeD: "find P xs = Some x \<Longrightarrow> P x" "find P xs = Some x \<Longrightarrow> x \<in> set xs"
  by (auto simp: find_Some_iff)

definition flight_cookies :: "avq \<Rightarrow> ptr multiset" where
  "flight_cookies a = image_mset ab_cookie (mset (in_flight a))"

lemma avq_step_cookies:
  assumes "avq_ok op a" and "NULL \<notin># flight_cookies a"
  shows "flight_cookies a + mset (offered_cookies [op]) =
    mset (collected_cookies [fst (avq_step tr rt op a)]) + flight_cookies (snd (avq_step tr rt op a))"
proof (cases op)
  case (Give i l)
  have "image_mset ab_cookie (mset (a_held a)) =
      add_mset (ab_cookie b) (image_mset ab_cookie (mset (a_held a) - {#b#}))"
    if "find (\<lambda>b. of_nat (ab_head b) = i) (a_held a) = Some b" for b
    using find_SomeD(2) [OF that] by (metis image_mset_add_mset insert_DiffM set_mset_mset)
  then show ?thesis
    by (auto simp: Give flight_cookies_def in_flight_def split: option.split)
next
  case Collect
  show ?thesis
  proof (cases "a_used a")
    case (Cons u us)
    then show ?thesis using assms(2)
      by (cases u) (auto simp: Collect flight_cookies_def in_flight_def)
  qed (simp add: Collect)
qed (auto simp: flight_cookies_def in_flight_def Let_def split: list.split)

lemma collected_cookies_Cons:
  "collected_cookies (r # rs) = collected_cookies [r] @ collected_cookies rs"
  by (cases r) auto

lemma offered_cookies_Cons:
  "offered_cookies (op # ops) = offered_cookies [op] @ offered_cookies ops"
  by (cases op) auto

lemma avq_run_cookies:
  assumes "avq_run_ok tr rt ops a" and "NULL \<notin># flight_cookies a"
  shows "flight_cookies a + mset (offered_cookies ops) =
    mset (collected_cookies (fst (avq_run tr rt ops a))) + flight_cookies (snd (avq_run tr rt ops a))"
  using assms
proof (induction ops arbitrary: a)
  case (Cons op ops)
  let ?r = "avq_step tr rt op a"
  have ok: "avq_ok op a" "avq_run_ok tr rt ops (snd ?r)" using Cons.prems(1) by auto
  note step = avq_step_cookies [OF ok(1) Cons.prems(2), of tr rt]
  have "NULL \<notin> set (offered_cookies [op])" using ok(1) by (cases op) auto
  then have "NULL \<notin># flight_cookies (snd ?r)"
    using Cons.prems(2) step by (metis set_mset_mset union_iff)
  then have IH: "flight_cookies (snd ?r) + mset (offered_cookies ops) =
      mset (collected_cookies (fst (avq_run tr rt ops (snd ?r)))) +
      flight_cookies (snd (avq_run tr rt ops (snd ?r)))"
    using Cons.IH ok(2) by blast
  have "flight_cookies a + mset (offered_cookies (op # ops)) =
      (flight_cookies a + mset (offered_cookies [op])) + mset (offered_cookies ops)"
    unfolding offered_cookies_Cons [of op ops] by (simp add: ac_simps)
  also have "\<dots> = mset (collected_cookies [fst ?r]) +
      (flight_cookies (snd ?r) + mset (offered_cookies ops))"
    unfolding step by (simp add: ac_simps)
  finally show ?case
    unfolding IH avq_run_Cons fst_conv snd_conv 
      collected_cookies_Cons [of "fst ?r" "fst (avq_run tr rt ops (snd ?r))"]
    by (simp add: ac_simps)
qed simp

subsection \<open>The interface of a queue, and its clients\<close>

locale vq_contract =
  fixes exec :: "vq_op \<Rightarrow> 's \<Rightarrow> (vq_out \<times> 's) cres"
    and abs :: "'s \<Rightarrow> avq \<Rightarrow> bool"
    and tr :: "ptr \<Rightarrow> u64" and rt :: "u64 \<Rightarrow> ptr"
  assumes step: "abs s a \<Longrightarrow> avq_ok op a \<Longrightarrow>
    \<exists>s'. exec op s = Inr (fst (avq_step tr rt op a), s') \<and> abs s' (snd (avq_step tr rt op a))"
    and cookies: "abs s a \<Longrightarrow> NULL \<notin># flight_cookies a"
begin

lemma run:
  "abs s a \<Longrightarrow> avq_run_ok tr rt ops a \<Longrightarrow>
   \<exists>s'. run_ops exec ops s = Inr (fst (avq_run tr rt ops a), s') \<and> abs s' (snd (avq_run tr rt ops a))"
proof (induction ops arbitrary: s a)
  case (Cons op ops)
  then obtain s1 where s1: "exec op s = Inr (fst (avq_step tr rt op a), s1)"
      "abs s1 (snd (avq_step tr rt op a))"
    using step [of s a op] by auto
  with Cons.IH [OF s1(2)] Cons.prems(2) obtain s2 where
    "run_ops exec ops s1 = Inr (fst (avq_run tr rt ops (snd (avq_step tr rt op a))), s2)"
    "abs s2 (snd (avq_run tr rt ops (snd (avq_step tr rt op a))))" by auto
  with s1 show ?case by (simp add: avq_run_Cons)
qed simp

lemma fifo:
  assumes "abs s a" and "avq_run_ok tr rt ops a" and "a_avail a = []"
    and "\<forall>p \<in> set (map fst (offered_bufs tr rt ops)). p \<noteq> NULL"
  shows "\<exists>outs s'. run_ops exec ops s = Inr (outs, s') \<and> prefix (taken_bufs outs) (offered_bufs tr rt ops)"
proof -
  have "taken_bufs (fst (avq_run tr rt ops a)) @ avail_view rt (snd (avq_run tr rt ops a)) =
      offered_bufs tr rt ops"
    using avq_run_fifo [of rt a tr ops] assms(3,4) by (simp add: avail_view_def)
  then have "prefix (taken_bufs (fst (avq_run tr rt ops a))) (offered_bufs tr rt ops)"
    by (metis prefixI)
  then show ?thesis using run [OF assms(1,2)] by blast
qed

lemma cookies_returned:
  assumes "abs s a" and "avq_run_ok tr rt ops a" and "in_flight a = []"
  shows "\<exists>outs s'. run_ops exec ops s = Inr (outs, s') \<and>
    mset (collected_cookies outs) \<subseteq># mset (offered_cookies ops)"
proof -
  have "mset (offered_cookies ops) = mset (collected_cookies (fst (avq_run tr rt ops a))) +
      flight_cookies (snd (avq_run tr rt ops a))"
    using avq_run_cookies [OF assms(2) cookies [OF assms(1)]] assms(3)
    by (simp add: flight_cookies_def)
  then have "mset (collected_cookies (fst (avq_run tr rt ops a))) \<subseteq># mset (offered_cookies ops)"
    by simp
  then show ?thesis using run [OF assms(1,2)] by blast
qed

end

definition vq_abs :: "ptr \<Rightarrow> ptr \<Rightarrow> vq_sys \<Rightarrow> avq \<Rightarrow> bool" where
  "vq_abs io io' s a \<longleftrightarrow> vq_rel s a \<and> shm_io (drv s) = io \<and> shm_io (dev s) = io'"

lemma vq_config_shm_io: "vq_config vq' = vq_config vq \<Longrightarrow> shm_io vq' = shm_io vq"
  by (simp add: vq_config_def)

lemma vq_exec_refines:
  assumes A: "vq_abs io io' s a" and ok: "avq_ok op a"
  shows "\<exists>s'. vq_exec v2p p2v dbg op s = Inr (fst (avq_step (v2p io) (p2v io') op a), s') \<and>
    vq_abs io io' s' (snd (avq_step (v2p io) (p2v io') op a))"
proof (cases op)
  case (Offer bufs r w ck)
  have R: "vq_rel s a" using A by (simp add: vq_abs_def)
  show ?thesis
    using virtqueue_add_buffer_refines [OF R, of r w "nat (r + w)" bufs ck v2p dbg] ok A
    by (auto simp: Offer vq_abs_def Let_def dest: vq_config_shm_io)
next
  case Take
  have R: "vq_rel s a" using A by (simp add: vq_abs_def)
  show ?thesis
  proof (cases "a_avail a")
    case Nil
    then show ?thesis using A get_available_empty [OF R Nil] by (simp add: Take)
  next
    case (Cons b bs)
    then show ?thesis using A get_available_refines [OF R Cons, of p2v dbg 0 0]
      by (auto simp: Take vq_abs_def dest: vq_config_shm_io)
  qed
next
  case (Give i l)
  have R: "vq_rel s a" using A by (simp add: vq_abs_def)
  have "find (\<lambda>b. of_nat (ab_head b) = i) (a_held a) \<noteq> None"
    using ok by (auto simp: Give find_None_iff)
  then obtain b where b: "find (\<lambda>b. of_nat (ab_head b) = i) (a_held a) = Some b" by blast
  have i: "of_nat (ab_head b) = i" and h: "b \<in> set (a_held a)" using find_SomeD [OF b] by auto
  from add_consumed_refines [OF R h, of dbg l] obtain vq' m' where
    "virtqueue_add_consumed_buffer dbg (dev s) (shm s) i l = Inr (VQUEUE_SUCCESS, vq', m')"
    "shm_io vq' = shm_io (dev s)"
    "vq_rel (s\<lparr>dev := vq', shm := m'\<rparr>)
      (a\<lparr>a_held := remove1 b (a_held a), a_used := a_used a @ [(b, l)]\<rparr>)"
    unfolding i by (blast dest: vq_config_shm_io)
  then show ?thesis using A by (simp add: Give b vq_abs_def)
next
  case Collect
  have R: "vq_rel s a" using A by (simp add: vq_abs_def)
  show ?thesis
  proof (cases "a_used a")
    case Nil
    then show ?thesis using A get_buffer_empty [OF R Nil] by (simp add: Collect)
  next
    case (Cons u us)
    then show ?thesis using A get_buffer_refines [OF R, of "fst u" "snd u" us dbg 0 0]
      by (cases u) (auto simp: Collect vq_abs_def dest: vq_config_shm_io)
  qed
qed

interpretation vq: vq_contract "vq_exec v2p p2v dbg" "vq_abs io io'" "v2p io" "p2v io'"
  for v2p p2v dbg io io'
proof unfold_locales
  fix s a op
  assume "vq_abs io io' s a" and "avq_ok op a"
  then show "\<exists>s'. vq_exec v2p p2v dbg op s = Inr (fst (avq_step (v2p io) (p2v io') op a), s') \<and>
      vq_abs io io' s' (snd (avq_step (v2p io) (p2v io') op a))"
    by (rule vq_exec_refines)
next
  fix s a
  assume "vq_abs io io' s a"
  then show "NULL \<notin># flight_cookies a"
    by (auto simp: vq_abs_def flight_cookies_def vq_rel_def vq_flight_ok_def buf_ok_def)
qed

end
