(* ===== verification/Virtqueue_Sys.thy ===== *)
theory Virtqueue_Sys
  imports Virtqueue_Proto
begin

text \<open>
  A virtqueue from its creation on. \<open>vq_boot\<close> creates the driver's and the device's control block
  over one block of zeroed ring memory, as \<open>rpmsg_init_vdev\<close> does on the two processors;
  \<open>vq_ctl\<close> runs the operations that only concern interrupts. \<open>vq_reach\<close> are the states that any
  interleaving of the two processors reaches. The theorems say what the queue promises its clients
  in all of them.
\<close>

subsection \<open>Creation of both ends\<close>

definition vq_boot ::
  "bool \<Rightarrow> u64 \<Rightarrow> string \<Rightarrow> vring_alloc_info \<Rightarrow> ptr \<Rightarrow> ptr \<Rightarrow> ptr \<Rightarrow> ptr \<Rightarrow> (int \<times> int \<times> vq_sys) cres" where
  "vq_boot dbg feat name r cb nf io io' =
     (let n = unat (vai_num_descs r) in
      cbind (virtqueue_create dbg 1 \<lparr>vd_features = feat, vd_role = VIRTIO_DEV_MASTER\<rparr> 0 name (Some r)
               cb nf (virtqueue_allocate True n) (zero_vring_mem n)) (\<lambda>(st, vo, m).
      cbind (virtqueue_create dbg 1 \<lparr>vd_features = feat, vd_role = VIRTIO_DEV_SLAVE\<rparr> 0 name (Some r)
               cb nf (virtqueue_allocate True n) m) (\<lambda>(st', vo', m').
        case (vo, vo') of
          (Some d, Some v) \<Rightarrow>
            Inr (st, st', \<lparr>drv = virtqueue_set_shmem_io d io, dev = virtqueue_set_shmem_io v io',
                           shm = m'\<rparr>)
        | _ \<Rightarrow> Inl Null_deref)))"

definition avq_init :: "nat \<Rightarrow> avq" where
  "avq_init n = \<lparr>a_free = [0..<n], a_avail = [], a_held = [], a_used = []\<rparr>"

lemma vq_ring_init_loop_eq:
  "i + k \<le> length ds \<Longrightarrow> vq_ring_init_loop k i ds =
     Inr (map (\<lambda>j. if i \<le> j \<and> j < i + k then (ds ! j)\<lparr>d_next := of_nat j + 1\<rparr> else ds ! j)
       [0..<length ds])"
proof (induction k arbitrary: i ds)
  case 0
  then show ?case by (auto intro!: nth_equalityI)
next
  case (Suc k)
  then show ?case
    by (auto intro!: map_cong simp: nth_list_update)
qed

lemma free_chain_linked:
  assumes "\<And>j. Suc j < length ds \<Longrightarrow> d_next (ds ! j) = of_nat j + 1"
    and "d_next (ds ! (length ds - 1)) = VQ_RING_DESC_CHAIN_END" and "length ds \<le> 2 ^ 15"
    and "i < length ds"
  shows "free_chain ds (of_nat i) [i..<length ds]"
  using assms(4)
proof (induction "length ds - i" arbitrary: i)
  case (Suc k)
  have u: "unat (of_nat i :: u16) = i" using Suc.prems assms(3) by (intro unat_of_nat_lt) simp
  show ?case
  proof (cases "Suc i < length ds")
    case True
    then have "free_chain ds (of_nat (Suc i)) [Suc i..<length ds]" using Suc(1) [of "Suc i"] Suc(2) by simp
    then show ?thesis using Suc.prems assms(1) [OF True] u by (simp add: upt_conv_Cons add.commute)
  next
    case False
    then have "i = length ds - 1" using Suc.prems by simp
    then show ?thesis using Suc.prems assms(2) u by (simp add: upt_conv_Cons)
  qed
qed simp

lemma vq_ring_init_master:
  assumes "vq_nentries vq = n" and "0 < n" and "unat n \<le> 2 ^ 15" and "length (desc m) = unat n"
    and "vd_role vdev = VIRTIO_DEV_MASTER"
  obtains ds where "vq_ring_init vdev vq m p al =
      Inr (vq\<lparr>vq_ring := vring_init (ucast n) p al\<rparr>, m\<lparr>desc := ds\<rparr>)"
    and "length ds = unat n" and "free_chain ds 0 [0..<unat n]"
proof -
  define k where "k = unat n - 1"
  have k: "unat n = Suc k" using assms(2) by (simp add: k_def word_less_nat_alt)
  define ds1 where "ds1 = map (\<lambda>j. if j < k then (desc m ! j)\<lparr>d_next := of_nat j + 1\<rparr>
    else desc m ! j) [0..<Suc k]"
  define ds where "ds = ds1[k := (ds1 ! k)\<lparr>d_next := VQ_RING_DESC_CHAIN_END\<rparr>]"
  have l: "length ds1 = Suc k" by (simp add: ds1_def)
  have "vq_ring_init_loop k 0 (desc m) = Inr ds1"
    using vq_ring_init_loop_eq [of 0 k "desc m"] assms(4) k by (simp add: ds1_def)
  then have "vq_ring_init vdev vq m p al =
      Inr (vq\<lparr>vq_ring := vring_init (ucast n) p al\<rparr>, m\<lparr>desc := ds\<rparr>)"
    by (simp add: vq_ring_init_def Let_def assms(1,5) k l ds_def)
  moreover have "length ds = unat n" by (simp add: ds_def l k)
  moreover have "free_chain ds 0 [0..<unat n]"
  proof -
    have "free_chain ds (of_nat 0) [0..<length ds]"
    proof (rule free_chain_linked)
      show "d_next (ds ! j) = of_nat j + 1" if "Suc j < length ds" for j
        using that by (simp add: ds_def l) (simp add: ds1_def nth_append del: upt_Suc)
    qed (use assms(3) k in \<open>simp_all add: ds_def l\<close>)
    then show ?thesis by (simp add: ds_def l k)
  qed
  ultimately show ?thesis by (rule that)
qed

lemma vq_boot_ok:
  assumes p: "pow2 (vai_num_descs r)" and n: "unat (vai_num_descs r) \<le> 2 ^ 15"
  shows "\<exists>s. vq_boot dbg feat name r cb nf io io' = Inr (VQUEUE_SUCCESS, VQUEUE_SUCCESS, s) \<and>
    vq_abs io io' s (avq_init (unat (vai_num_descs r))) \<and>
    vq_notify (drv s) = nf \<and> vq_notify (dev s) = nf"
proof -
  let ?n = "vai_num_descs r"
  define k where "k = unat ?n"
  have n0: "0 < ?n" "?n \<noteq> 0" "?n AND (?n - 1) = 0" using p by (auto simp: pow2_def word_gt_0)
  define vq where "vq = the (virtqueue_allocate True k)\<lparr>vq_dev := 1, vq_name := name,
    vq_queue_index := 0, vq_nentries := ?n, vq_free_cnt := ?n, vq_callback := cb, vq_notify := nf\<rparr>"
  define ring where "ring = vring_init (ucast ?n) (vai_vaddr r) (scast (vai_align r))"
  let ?m = "zero_vring_mem k"
  have e: "vq_nentries vq = ?n" by (simp add: vq_def)
  have md: "length (desc ?m) = unat ?n" by (simp add: zero_vring_mem_def k_def)
  obtain ds where ds: "vq_ring_init \<lparr>vd_features = feat, vd_role = VIRTIO_DEV_MASTER\<rparr> vq ?m
        (vai_vaddr r) (scast (vai_align r)) = Inr (vq\<lparr>vq_ring := ring\<rparr>, ?m\<lparr>desc := ds\<rparr>)"
    and dl: "length ds = unat ?n" and fc: "free_chain ds 0 [0..<unat ?n]"
    using vq_ring_init_master [OF e n0(1) n md] unfolding ring_def by (metis vq_device.select_convs(2))
  have slave: "vq_ring_init \<lparr>vd_features = feat, vd_role = VIRTIO_DEV_SLAVE\<rparr> vq m'
        (vai_vaddr r) (scast (vai_align r)) = Inr (vq\<lparr>vq_ring := ring\<rparr>, m')" for m'
    by (simp add: vq_ring_init_def Let_def vq_const_defs e ring_def)
  let ?s = "\<lparr>drv = vq\<lparr>vq_ring := ring, shm_io := io\<rparr>, dev = vq\<lparr>vq_ring := ring, shm_io := io'\<rparr>,
    shm = ?m\<lparr>desc := ds\<rparr>\<rparr>"
  have "vq_boot dbg feat name r cb nf io io' = Inr (VQUEUE_SUCCESS, VQUEUE_SUCCESS, ?s)"
    using ds slave n0
    by (simp add: vq_boot_def virtqueue_create_def VQ_PARAM_CHK_def Let_def vq_status_defs
        virtqueue_set_shmem_io_def k_def vq_def virtqueue_allocate_def)
  moreover have "vq_rel ?s (avq_init (unat ?n))"
    using p n dl fc
    by (simp add: vq_rel_def vq_sizes_def vq_free_ok_def vq_flight_ok_def vq_part_ok_def vq_avail_ok_def
        vq_used_ok_def avq_init_def in_flight_def vq_def virtqueue_allocate_def vring_mem_size_def
        zero_vring_mem_def k_def)
  ultimately show ?thesis by (auto simp: vq_abs_def vq_def)
qed

subsection \<open>Interrupt operations\<close>

definition master_dev :: "u64 \<Rightarrow> vq_device" where
  "master_dev feat = \<lparr>vd_features = feat, vd_role = VIRTIO_DEV_MASTER\<rparr>"

definition slave_dev :: "u64 \<Rightarrow> vq_device" where
  "slave_dev feat = \<lparr>vd_features = feat, vd_role = VIRTIO_DEV_SLAVE\<rparr>"

lemma dev_sel [simp]:
  "vd_features (master_dev f) = f" "vd_role (master_dev f) = VIRTIO_DEV_MASTER"
  "vd_features (slave_dev f) = f" "vd_role (slave_dev f) = VIRTIO_DEV_SLAVE"
  by (simp_all add: master_dev_def slave_dev_def)

datatype vq_side = Driver | Device

datatype vq_ctl = Kick vq_side | Enable_cb vq_side | Disable_cb vq_side

fun vq_ctl_exec :: "bool \<Rightarrow> u64 \<Rightarrow> vq_ctl \<Rightarrow> vq_sys \<Rightarrow> vq_sys cres" where
  "vq_ctl_exec dbg feat (Kick Driver) s =
     cbind (virtqueue_kick dbg (master_dev feat) (drv s) (shm s)) (\<lambda>(c, vq). Inr (s\<lparr>drv := vq\<rparr>))"
| "vq_ctl_exec dbg feat (Kick Device) s =
     cbind (virtqueue_kick dbg (slave_dev feat) (dev s) (shm s)) (\<lambda>(c, vq). Inr (s\<lparr>dev := vq\<rparr>))"
| "vq_ctl_exec dbg feat (Enable_cb Driver) s =
     cbind (virtqueue_enable_cb dbg (master_dev feat) (drv s) (shm s)) (\<lambda>(c, m). Inr (s\<lparr>shm := m\<rparr>))"
| "vq_ctl_exec dbg feat (Enable_cb Device) s =
     cbind (virtqueue_enable_cb dbg (slave_dev feat) (dev s) (shm s)) (\<lambda>(c, m). Inr (s\<lparr>shm := m\<rparr>))"
| "vq_ctl_exec dbg feat (Disable_cb Driver) s =
     cbind (virtqueue_disable_cb dbg (master_dev feat) (drv s) (shm s))
       (\<lambda>(vq, m). Inr (s\<lparr>drv := vq, shm := m\<rparr>))"
| "vq_ctl_exec dbg feat (Disable_cb Device) s =
     cbind (virtqueue_disable_cb dbg (slave_dev feat) (dev s) (shm s))
       (\<lambda>(vq, m). Inr (s\<lparr>dev := vq, shm := m\<rparr>))"

text \<open>The parts of the shared memory that the interrupt operations leave alone.\<close>

definition ring_view where
  "ring_view m = (desc m, avail_idx (avail m), avail_ring (avail m), used_idx (used m),
     used_ring (used m))"

definition ctl_view where
  "ctl_view vq = (vq_config vq, vq_free_cnt vq, vq_desc_head_idx vq, vq_used_cons_idx vq,
     vq_available_idx vq, vq_inuse vq, vq_descx vq)"

lemma vq_abs_view:
  assumes "ring_view (shm s') = ring_view (shm s)" and "ctl_view (drv s') = ctl_view (drv s)"
    and "ctl_view (dev s') = ctl_view (dev s)"
  shows "vq_abs io io' s' a = vq_abs io io' s a"
  using assms
  by (simp add: ring_view_def ctl_view_def vq_config_def vq_abs_def vq_rel_def vq_sizes_def vq_free_ok_def
      vq_flight_ok_def vq_part_ok_def vq_avail_ok_def vq_used_ok_def buf_ok_def vring_mem_size_def)

lemma pending_counts:
  assumes "vq_rel s a"
  shows "used_idx (used (shm s)) - vq_used_cons_idx (drv s) \<le> vq_nentries (drv s)"
    and "avail_idx (avail (shm s)) - vq_available_idx (dev s) \<le> vq_nentries (dev s)"
    and "unat (used_idx (used (shm s)) - vq_used_cons_idx (drv s)) = length (a_used a)"
    and "unat (avail_idx (avail (shm s)) - vq_available_idx (dev s)) = length (a_avail a)"
proof -
  note Rs = vq_relD [OF assms] and sz = vq_sizesD [OF vq_relD(1) [OF assms]]
  have l: "length (in_flight a) \<le> unat (vq_nentries (drv s))" using flight_length [OF Rs(4,3)] by simp
  have u: "length (a_used a) \<le> unat (vq_nentries (drv s))" and
    v: "length (a_avail a) \<le> unat (vq_nentries (drv s))" using l by (simp_all add: in_flight_def)
  show U: "unat (used_idx (used (shm s)) - vq_used_cons_idx (drv s)) = length (a_used a)"
    using Rs(6) u sz(3) unat_of_nat_lt [of "length (a_used a)", where 'a = 16]
    by (simp add: vq_used_ok_def)
  show V: "unat (avail_idx (avail (shm s)) - vq_available_idx (dev s)) = length (a_avail a)"
    using Rs(5) v sz(3) unat_of_nat_lt [of "length (a_avail a)", where 'a = 16]
    by (simp add: vq_avail_ok_def)
  show "used_idx (used (shm s)) - vq_used_cons_idx (drv s) \<le> vq_nentries (drv s)"
    using U u by (simp add: word_le_nat_alt)
  show "avail_idx (avail (shm s)) - vq_available_idx (dev s) \<le> vq_nentries (dev s)"
    using V v by (simp add: word_le_nat_alt sz(2))
qed

lemmas vq_ctl_defs = virtqueue_kick_def virtqueue_enable_cb_def vq_ring_enable_interrupt_def
  virtqueue_disable_cb_def virtqueue_nused_def virtqueue_navail_def

lemma master_not_slave [simp]: "VIRTIO_DEV_SLAVE \<noteq> VIRTIO_DEV_MASTER"
  by (simp add: vq_const_defs)

lemma vq_ctl_exec_abs:
  assumes A: "vq_abs io io' s a"
  shows "\<exists>s'. vq_ctl_exec dbg feat c s = Inr s' \<and> vq_abs io io' s' a"
proof -
  have R: "vq_rel s a" using A by (simp add: vq_abs_def)
  note sz = vq_sizesD(8,9) [OF vq_relD(1) [OF R]]
  have "\<exists>s'. vq_ctl_exec dbg feat c s = Inr s' \<and> ring_view (shm s') = ring_view (shm s) \<and>
      ctl_view (drv s') = ctl_view (drv s) \<and> ctl_view (dev s') = ctl_view (dev s)"
    using sz pending_counts(1,2) [OF R]
    by (cases "(dbg, feat, c, s)" rule: vq_ctl_exec.cases)
      (simp_all add: vq_ctl_defs ring_view_def ctl_view_def vq_config_def Let_def)
  then show ?thesis using vq_abs_view A by blast
qed

subsection \<open>Reachable states\<close>

inductive vq_reach :: "(ptr \<Rightarrow> ptr \<Rightarrow> u64) \<Rightarrow> (ptr \<Rightarrow> u64 \<Rightarrow> ptr) \<Rightarrow> bool \<Rightarrow> u64 \<Rightarrow> vring_alloc_info \<Rightarrow>
    ptr \<Rightarrow> ptr \<Rightarrow> vq_sys \<Rightarrow> avq \<Rightarrow> bool"
  for v2p p2v dbg feat r io io' where
  boot: "vq_boot dbg feat name r cb nf io io' = Inr (st, st', s) \<Longrightarrow>
    vq_reach v2p p2v dbg feat r io io' s (avq_init (unat (vai_num_descs r)))"
| data: "vq_reach v2p p2v dbg feat r io io' s a \<Longrightarrow> avq_ok op a \<Longrightarrow>
    vq_exec v2p p2v dbg op s = Inr (out, s') \<Longrightarrow>
    vq_reach v2p p2v dbg feat r io io' s' (snd (avq_step (v2p io) (p2v io') op a))"
| ctl: "vq_reach v2p p2v dbg feat r io io' s a \<Longrightarrow> vq_ctl_exec dbg feat c s = Inr s' \<Longrightarrow>
    vq_reach v2p p2v dbg feat r io io' s' a"

lemma vq_reach_abs:
  assumes "vq_reach v2p p2v dbg feat r io io' s a"
    and "pow2 (vai_num_descs r)" and "unat (vai_num_descs r) \<le> 2 ^ 15"
  shows "vq_abs io io' s a"
  using assms(1)
proof induction
  case (boot name cb nf st st' s)
  then show ?case using vq_boot_ok [OF assms(2,3), of dbg feat name cb nf io io'] by auto
next
  case (data s a op out s')
  then show ?case using vq.step [of io io' s a op v2p p2v dbg] by auto
next
  case (ctl s a c s')
  then show ?case using vq_ctl_exec_abs [of io io' s a dbg feat c] by auto
qed

subsection \<open>The chains in the descriptor table\<close>

text \<open>
  \<open>desc_walk\<close> follows \<open>next\<close> in the descriptor table. The free descriptors of a queue are those on the way from
  \<open>vq_desc_head_idx\<close>, as many as \<open>vq_free_cnt\<close> says; the ones in flight are those on the way from every entry that has a
  cookie, as many as its \<open>ndescs\<close> says.
\<close>

fun desc_walk :: "vring_desc list \<Rightarrow> nat \<Rightarrow> nat \<Rightarrow> nat list" where
  "desc_walk ds i 0 = []"
| "desc_walk ds i (Suc n) = i # desc_walk ds (unat (d_next (ds ! i))) n"

definition free_descs :: "vq_sys \<Rightarrow> nat list" where
  "free_descs s = desc_walk (desc (shm s)) (unat (vq_desc_head_idx (drv s))) (unat (vq_free_cnt (drv s)))"

definition flight_heads :: "vq_sys \<Rightarrow> nat list" where
  "flight_heads s = filter (\<lambda>i. cookie (vq_descx (drv s) ! i) \<noteq> NULL) [0..<unat (vq_nentries (drv s))]"

definition chain_from :: "vq_sys \<Rightarrow> nat \<Rightarrow> nat list" where
  "chain_from s i = desc_walk (desc (shm s)) i (unat (ndescs (vq_descx (drv s) ! i)))"

lemma walk_free: "free_chain ds h is \<Longrightarrow> desc_walk ds (unat h) (length is) = is"
  by (induction ds h "is" rule: free_chain.induct) auto

lemma walk_buf: "buf_chain ds c \<Longrightarrow> desc_walk ds (hd c) (length c) = c"
  by (induction ds c rule: buf_chain.induct) auto

lemma distinct_heads:
  "distinct (concat (map f bs)) \<Longrightarrow> \<forall>b \<in> set bs. f b \<noteq> [] \<Longrightarrow> distinct (map (\<lambda>b. hd (f b)) bs)"
proof (induction bs)
  case (Cons b bs)
  then have "hd (f b) \<in> set (f b)" "\<forall>c \<in> set bs. hd (f c) \<in> set (f c)" by auto
  moreover have "set (f b) \<inter> set (concat (map f bs)) = {}" using Cons.prems(1) by simp
  ultimately have "hd (f b) \<notin> (\<lambda>b. hd (f b)) ` set bs" by force
  then show ?case using Cons by simp
qed simp

lemma chains_of_rel:
  assumes "vq_rel s a"
  shows "free_descs s = a_free a" and "mset (flight_heads s) = mset (map ab_head (in_flight a))"
    and "\<And>b. b \<in> set (in_flight a) \<Longrightarrow> chain_from s (ab_head b) = ab_chain b"
proof -
  note Rs = vq_relD [OF assms] and sz = vq_sizesD [OF vq_relD(1) [OF assms]]
  note d = part_distinct [OF Rs(4)]
  have small: "length c \<le> unat (vq_nentries (drv s))" if "distinct c" "set c \<subseteq> {..<unat (vq_nentries (drv s))}" for c
    using that card_mono [of "{..<unat (vq_nentries (drv s))}" "set c"] by (simp add: distinct_card)
  have u: "unat (of_nat (length c) :: u16) = length c" if "distinct c" "set c \<subseteq> {..<unat (vq_nentries (drv s))}" for c
    by (rule unat_of_nat_lt) (use small [OF that] sz(3) in simp)
  show "free_descs s = a_free a"
  proof -
    have "distinct (a_free a)" "set (a_free a) \<subseteq> {..<unat (vq_nentries (drv s))}" using d by auto
    then show ?thesis using u Rs(2) walk_free by (simp add: free_descs_def vq_free_ok_def)
  qed
  have ok: "buf_ok (drv s) (desc (shm s)) b" if "b \<in> set (in_flight a)" for b using Rs(3) that by (simp add: vq_flight_ok_def)
  show "chain_from s (ab_head b) = ab_chain b" if b: "b \<in> set (in_flight a)" for b
  proof -
    have "distinct (ab_chain b)" "set (ab_chain b) \<subseteq> {..<unat (vq_nentries (drv s))}"
      using d b by (auto simp: distinct_concat_iff)
    then show ?thesis using u ok [OF b] walk_buf by (simp add: chain_from_def buf_ok_def)
  qed
  have "\<forall>b \<in> set (in_flight a). ab_chain b \<noteq> []" using ok buf_chain_ne unfolding buf_ok_def by blast
  then have "distinct (map ab_head (in_flight a))" using d by (intro distinct_heads) auto
  moreover have "set (flight_heads s) = set (map ab_head (in_flight a))"
    using ok flight_head_bound(1) [OF assms] Rs(3) unfolding flight_heads_def vq_flight_ok_def
    by (force simp: buf_ok_def)
  moreover have "distinct (flight_heads s)" by (simp add: flight_heads_def)
  ultimately show "mset (flight_heads s) = mset (map ab_head (in_flight a))"
    using set_eq_iff_mset_eq_distinct by blast
qed

subsection \<open>What each side's operations leave to the other side's kick\<close>

fun is_offer :: "vq_op \<Rightarrow> bool" where
  "is_offer (Offer bufs r w ck) \<longleftrightarrow> True"
| "is_offer _ \<longleftrightarrow> False"

fun is_give :: "vq_op \<Rightarrow> bool" where
  "is_give (Give i l) \<longleftrightarrow> True"
| "is_give _ \<longleftrightarrow> False"

lemma VQUEUE_BUSY_keeps:
  "VQUEUE_BUSY dbg vq = Inr vq1 \<Longrightarrow> vq_queued_cnt vq1 = vq_queued_cnt vq \<and> vq_notify vq1 = vq_notify vq"
  by (auto simp: VQUEUE_BUSY_def split: if_splits)

lemma VQUEUE_IDLE_keeps [simp]:
  "vq_queued_cnt (VQUEUE_IDLE dbg vq) = vq_queued_cnt vq" "vq_notify (VQUEUE_IDLE dbg vq) = vq_notify vq"
  by (simp_all add: VQUEUE_IDLE_def)

lemma add_buffer_success:
  assumes "virtqueue_add_buffer v2p dbg vq m bufs r w ck = Inr (VQUEUE_SUCCESS, vq', m')"
  shows "\<exists>vq3 ds i vq4. vq_ring_update_avail vq3 (m\<lparr>desc := ds\<rparr>) i = Inr (vq4, m') \<and>
    vq_queued_cnt vq3 = vq_queued_cnt vq \<and> vq_notify vq3 = vq_notify vq \<and> vq' = VQUEUE_IDLE dbg vq4"
proof (cases "VQ_PARAM_CHK dbg (vq_free_cnt vq = 0)
    (VQ_PARAM_CHK dbg (r + w < 1) VQUEUE_SUCCESS ERROR_VQUEUE_INVLD_PARAM) ERROR_VRING_FULL = VQUEUE_SUCCESS")
  case True
  show ?thesis using assms True
    by (clarsimp simp: virtqueue_add_buffer_def Let_def cres_simps)
      (drule VQUEUE_BUSY_keeps, intro exI conjI, assumption, simp_all)
next
  case False
  then show ?thesis using assms by (auto simp: virtqueue_add_buffer_def Let_def cres_simps)
qed

lemma add_buffer_effect:
  assumes "virtqueue_add_buffer v2p dbg vq m bufs r w ck = Inr (VQUEUE_SUCCESS, vq', m')"
  shows "avail_idx (avail m') = avail_idx (avail m) + 1" and "used m' = used m"
    and "vq_queued_cnt vq' = vq_queued_cnt vq + 1" and "vq_notify vq' = vq_notify vq"
  using add_buffer_success [OF assms] by (auto simp: vq_ring_update_avail_def Let_def cres_simps)

lemma add_consumed_effect:
  assumes "virtqueue_add_consumed_buffer dbg vq m i l = Inr (VQUEUE_SUCCESS, vq', m')"
  shows "used_idx (used m') = used_idx (used m) + 1" and "avail m' = avail m"
    and "vq_queued_cnt vq' = vq_queued_cnt vq + 1" and "vq_notify vq' = vq_notify vq"
  using assms
  by (auto simp: virtqueue_add_consumed_buffer_def VQUEUE_BUSY_def
      VQUEUE_IDLE_def Let_def cres_simps vq_status_defs split: if_splits)

lemma offers_effect:
  assumes "vq_abs io io' s a" and "avq_run_ok (v2p io) (p2v io') ops a" and "\<forall>op \<in> set ops. is_offer op"
  shows "\<exists>outs s' a'. run_ops (vq_exec v2p p2v dbg) ops s = Inr (outs, s') \<and> vq_abs io io' s' a' \<and>
    avail_idx (avail (shm s')) = avail_idx (avail (shm s)) + of_nat (length ops) \<and>
    used (shm s') = used (shm s) \<and>
    vq_queued_cnt (drv s') = vq_queued_cnt (drv s) + of_nat (length ops) \<and>
    vq_notify (drv s') = vq_notify (drv s)"
  using assms
proof (induction ops arbitrary: s a)
  case (Cons op ops)
  then obtain bufs r w ck where op: "op = Offer bufs r w ck" by (cases op) auto
  let ?a = "snd (avq_step (v2p io) (p2v io') op a)"
  obtain s1 where s1: "vq_exec v2p p2v dbg op s = Inr (Offered VQUEUE_SUCCESS, s1)" "vq_abs io io' s1 ?a"
    using vq.step [of io io' s a op v2p p2v dbg] Cons.prems by (auto simp: op Let_def)
  from s1(1) have e: "virtqueue_add_buffer v2p dbg (drv s) (shm s) bufs r w ck =
      Inr (VQUEUE_SUCCESS, drv s1, shm s1)" by (auto simp: op cres_simps)
  have "\<exists>outs s' a'. run_ops (vq_exec v2p p2v dbg) ops s1 = Inr (outs, s') \<and> vq_abs io io' s' a' \<and>
      avail_idx (avail (shm s')) = avail_idx (avail (shm s1)) + of_nat (length ops) \<and>
      used (shm s') = used (shm s1) \<and>
      vq_queued_cnt (drv s') = vq_queued_cnt (drv s1) + of_nat (length ops) \<and>
      vq_notify (drv s') = vq_notify (drv s1)"
    using Cons.IH [OF s1(2)] Cons.prems by simp
  then show ?case using s1(1) add_buffer_effect [OF e] by (auto simp: add.assoc)
qed auto

lemma gives_effect:
  assumes "vq_abs io io' s a" and "avq_run_ok (v2p io) (p2v io') ops a" and "\<forall>op \<in> set ops. is_give op"
  shows "\<exists>outs s' a'. run_ops (vq_exec v2p p2v dbg) ops s = Inr (outs, s') \<and> vq_abs io io' s' a' \<and>
    used_idx (used (shm s')) = used_idx (used (shm s)) + of_nat (length ops) \<and>
    avail (shm s') = avail (shm s) \<and>
    vq_queued_cnt (dev s') = vq_queued_cnt (dev s) + of_nat (length ops) \<and>
    vq_notify (dev s') = vq_notify (dev s)"
  using assms
proof (induction ops arbitrary: s a)
  case (Cons op ops)
  then obtain i l where op: "op = Give i l" by (cases op) auto
  let ?a = "snd (avq_step (v2p io) (p2v io') op a)"
  have "fst (avq_step (v2p io) (p2v io') op a) = Given VQUEUE_SUCCESS" by (simp add: op split: option.split)
  then obtain s1 where s1: "vq_exec v2p p2v dbg op s = Inr (Given VQUEUE_SUCCESS, s1)" "vq_abs io io' s1 ?a"
    using vq.step [of io io' s a op v2p p2v dbg] Cons.prems by auto
  from s1(1) have e: "virtqueue_add_consumed_buffer dbg (dev s) (shm s) i l =
      Inr (VQUEUE_SUCCESS, dev s1, shm s1)" by (auto simp: op cres_simps)
  have "\<exists>outs s' a'. run_ops (vq_exec v2p p2v dbg) ops s1 = Inr (outs, s') \<and> vq_abs io io' s' a' \<and>
      used_idx (used (shm s')) = used_idx (used (shm s1)) + of_nat (length ops) \<and>
      avail (shm s') = avail (shm s1) \<and>
      vq_queued_cnt (dev s') = vq_queued_cnt (dev s1) + of_nat (length ops) \<and>
      vq_notify (dev s') = vq_notify (dev s1)"
    using Cons.IH [OF s1(2)] Cons.prems by simp
  then show ?case using s1(1) add_consumed_effect [OF e] by (auto simp: add.assoc)
qed auto

lemma need_event_after:
  assumes "unat q + k < 2 ^ 16" and "0 < k"
  shows "vring_need_event e (e + of_nat k) (e + of_nat k - (q + of_nat k))"
proof -
  have k: "unat (of_nat k :: u16) = k" using assms(1) by (intro unat_of_nat_lt) simp
  have "unat (q + of_nat k :: u16) = unat q + k"
    using assms(1) k by (subst unat_plus_lt) simp_all
  moreover have "unat (of_nat k - 1 :: u16) = k - 1"
    using assms k by (subst unat_minus_one) auto
  ultimately show ?thesis using assms by (simp add: vring_need_event_def word_less_nat_alt add.commute)
qed

subsection \<open>The promises of the queue\<close>

text \<open>
  C1. The virtqueue protocol. Create the two ends of a queue whose size is a power of two of at most
  2^15, on zeroed memory. Then every interleaving of calls by the driver and the device that keeps
  their contract runs with no fault, in a debug build and in a normal one; the calls return what
  the abstract queue returns, and the control blocks and rings then represent the abstract queue.
\<close>

theorem vq_protocol_refines:
  assumes "pow2 (vai_num_descs r)" and "unat (vai_num_descs r) \<le> 2 ^ 15"
    and "avq_run_ok (v2p io) (p2v io') ops (avq_init (unat (vai_num_descs r)))"
  shows "\<exists>s s'. vq_boot dbg feat name r cb nf io io' = Inr (VQUEUE_SUCCESS, VQUEUE_SUCCESS, s) \<and>
    run_ops (vq_exec v2p p2v dbg) ops s =
      Inr (fst (avq_run (v2p io) (p2v io') ops (avq_init (unat (vai_num_descs r)))), s') \<and>
    vq_rel s' (snd (avq_run (v2p io) (p2v io') ops (avq_init (unat (vai_num_descs r)))))"
  using vq_boot_ok [OF assms(1,2), of dbg feat name cb nf io io']
    vq.run [of io io' _ "avq_init (unat (vai_num_descs r))" v2p p2v ops dbg, OF _ assms(3)]
  unfolding vq_abs_def by blast

definition demo_ring :: vring_alloc_info where
  "demo_ring = \<lparr>vai_vaddr = 0x1000, vai_align = 0x1000, vai_num_descs = 4\<rparr>"

definition demo_ops :: "vq_op list" where
  "demo_ops = [Offer [\<lparr>vqb_buf = 0x8000, vqb_len = 64\<rparr>, \<lparr>vqb_buf = 0x9000, vqb_len = 32\<rparr>] 1 1 7, Take,
     Offer [\<lparr>vqb_buf = 0xA000, vqb_len = 16\<rparr>] 0 1 8, Give 0 40, Take, Collect, Give 2 16, Collect]"

lemma demo_ring_size [simp]: "vai_num_descs demo_ring = 4"
  by (simp add: demo_ring_def)

lemma demo_pow2: "pow2 (4 :: u16)"
  by (simp add: pow2_def)

lemma demo_ops_ok: "avq_run_ok (\<lambda>p. p) (\<lambda>p. p) demo_ops (avq_init 4)"
  by (simp add: demo_ops_def avq_init_def Let_def upt_conv_Cons)

theorem vq_protocol_refines_witness:
  "\<exists>s s'. vq_boot False 0 ''q'' demo_ring 0 9 1 2 = Inr (VQUEUE_SUCCESS, VQUEUE_SUCCESS, s) \<and>
    run_ops (vq_exec (\<lambda>io p. p) (\<lambda>io p. p) False) demo_ops s =
      Inr (fst (avq_run (\<lambda>p. p) (\<lambda>p. p) demo_ops (avq_init (unat (vai_num_descs demo_ring)))), s') \<and>
    vq_rel s' (snd (avq_run (\<lambda>p. p) (\<lambda>p. p) demo_ops (avq_init (unat (vai_num_descs demo_ring)))))"
  by (rule vq_protocol_refines) (simp_all add: demo_pow2 demo_ops_ok)

text \<open>
  C15. Order. In every such interleaving the device takes the buffers in the order in which the
  driver offered them, each once, with the address (translated by the driver's I/O region and back
  by the device's) and the length of the buffer's first descriptor; a prefix of them, since some may
  still be waiting.
\<close>

theorem vq_protocol_fifo:
  assumes "pow2 (vai_num_descs r)" and "unat (vai_num_descs r) \<le> 2 ^ 15"
    and "avq_run_ok (v2p io) (p2v io') ops (avq_init (unat (vai_num_descs r)))"
    and "\<forall>p \<in> set (map fst (offered_bufs (v2p io) (p2v io') ops)). p \<noteq> NULL"
  shows "\<exists>s outs s'. vq_boot dbg feat name r cb nf io io' = Inr (VQUEUE_SUCCESS, VQUEUE_SUCCESS, s) \<and>
    run_ops (vq_exec v2p p2v dbg) ops s = Inr (outs, s') \<and>
    prefix (taken_bufs outs) (offered_bufs (v2p io) (p2v io') ops)"
  using vq_boot_ok [OF assms(1,2), of dbg feat name cb nf io io']
    vq.fifo [of io io' _ "avq_init (unat (vai_num_descs r))" v2p p2v ops dbg, OF _ assms(3) _ assms(4)]
  by (fastforce simp: avq_init_def)

theorem vq_protocol_fifo_witness:
  "\<exists>s outs s'. vq_boot True 0 ''q'' demo_ring 0 9 1 2 = Inr (VQUEUE_SUCCESS, VQUEUE_SUCCESS, s) \<and>
    run_ops (vq_exec (\<lambda>io p. p) (\<lambda>io p. p) True) demo_ops s = Inr (outs, s') \<and>
    prefix (taken_bufs outs) (offered_bufs (\<lambda>p. p) (\<lambda>p. p) demo_ops)"
  by (rule vq_protocol_fifo) (simp_all add: demo_pow2 demo_ops_ok, simp add: demo_ops_def)

text \<open>
  C16. Cookies. In every such interleaving, the cookies that the driver collects are cookies it
  offered, each at most as often as it offered it: no buffer is returned twice and none is made up.
\<close>

theorem vq_protocol_cookies:
  assumes "pow2 (vai_num_descs r)" and "unat (vai_num_descs r) \<le> 2 ^ 15"
    and "avq_run_ok (v2p io) (p2v io') ops (avq_init (unat (vai_num_descs r)))"
  shows "\<exists>s outs s'. vq_boot dbg feat name r cb nf io io' = Inr (VQUEUE_SUCCESS, VQUEUE_SUCCESS, s) \<and>
    run_ops (vq_exec v2p p2v dbg) ops s = Inr (outs, s') \<and>
    mset (collected_cookies outs) \<subseteq># mset (offered_cookies ops)"
  using vq_boot_ok [OF assms(1,2), of dbg feat name cb nf io io']
    vq.cookies_returned [of io io' _ "avq_init (unat (vai_num_descs r))" v2p p2v ops dbg, OF _ assms(3)]
  by (fastforce simp: avq_init_def in_flight_def)

theorem vq_protocol_cookies_witness:
  "\<exists>s outs s'. vq_boot True 0 ''q'' demo_ring 0 9 1 2 = Inr (VQUEUE_SUCCESS, VQUEUE_SUCCESS, s) \<and>
    run_ops (vq_exec (\<lambda>io p. p) (\<lambda>io p. p) True) demo_ops s = Inr (outs, s') \<and>
    mset (collected_cookies outs) \<subseteq># mset (offered_cookies demo_ops)"
  by (rule vq_protocol_cookies) (simp_all add: demo_pow2 demo_ops_ok)

text \<open>
  C17. Safety of every reachable state. In any state that the two processors reach by calls that keep the contract, the
  free chain, which starts at \<open>vq_desc_head_idx\<close>, has the length \<open>vq_free_cnt\<close> and ends with the end mark; from every entry
  that holds a cookie a chain of \<open>ndescs\<close> descriptors with the right flags starts; and these chains and the free one are disjoint and together
  are all descriptors, so that no descriptor is ever in two buffers or lost. Any further call that keeps the contract
  returns without a fault, and so do \<open>virtqueue_kick\<close>, \<open>virtqueue_enable_cb\<close> and \<open>virtqueue_disable_cb\<close> on either side.
\<close>

theorem vq_reach_safe:
  assumes "vq_reach v2p p2v dbg feat r io io' s a"
    and "pow2 (vai_num_descs r)" and "unat (vai_num_descs r) \<le> 2 ^ 15" and "avq_ok op a"
  shows "free_chain (desc (shm s)) (vq_desc_head_idx (drv s)) (free_descs s) \<and>
    (\<forall>i \<in> set (flight_heads s). buf_chain (desc (shm s)) (chain_from s i)) \<and>
    distinct (free_descs s @ concat (map (chain_from s) (flight_heads s))) \<and>
    set (free_descs s @ concat (map (chain_from s) (flight_heads s))) = {..<unat (vq_nentries (drv s))} \<and>
    (\<exists>out s'. vq_exec v2p p2v dbg op s = Inr (out, s')) \<and> (\<exists>s'. vq_ctl_exec dbg feat c s = Inr s')"
proof -
  have A: "vq_abs io io' s a" by (rule vq_reach_abs [OF assms(1-3)])
  then have R: "vq_rel s a" by (simp add: vq_abs_def)
  note ch = chains_of_rel [OF R] and Rs = vq_relD [OF R]
  have f: "free_chain (desc (shm s)) (vq_desc_head_idx (drv s)) (free_descs s)"
    using Rs(2) by (simp add: ch(1) vq_free_ok_def)
  have b: "\<forall>i \<in> set (flight_heads s). buf_chain (desc (shm s)) (chain_from s i)"
    using mset_eq_setD [OF ch(2)] ch(3) Rs(3) by (auto simp: vq_flight_ok_def buf_ok_def)
  have "mset (map (mset \<circ> chain_from s) (flight_heads s)) = image_mset (mset \<circ> chain_from s) (mset (map ab_head (in_flight a)))"
    by (simp add: ch(2))
  also have "\<dots> = image_mset (\<lambda>b. mset (ab_chain b)) (mset (in_flight a))"
    by (auto simp: ch(3) image_mset.compositionality intro!: image_mset_cong)
  finally have "mset (concat (map (chain_from s) (flight_heads s))) = sum_mset (image_mset (\<lambda>b. mset (ab_chain b)) (mset (in_flight a)))"
    by (simp add: mset_concat comp_def flip: sum_mset_sum_list)
  then have m: "mset (free_descs s @ concat (map (chain_from s) (flight_heads s))) = mset [0..<unat (vq_nentries (drv s))]"
    using Rs(4) by (simp add: ch(1) vq_part_ok_def)
  show ?thesis
    using f b mset_eq_imp_distinct_iff [OF m] mset_eq_setD [OF m] vq.step [OF A assms(4), of v2p p2v dbg]
      vq_ctl_exec_abs [OF A, of dbg feat c] by auto
qed

lemma demo_boot: "\<exists>s. vq_boot dbg feat ''q'' demo_ring 0 9 1 2 = Inr (VQUEUE_SUCCESS, VQUEUE_SUCCESS, s) \<and>
    vq_abs 1 2 s (avq_init 4) \<and> vq_notify (drv s) = 9 \<and> vq_notify (dev s) = 9"
  using vq_boot_ok [of demo_ring] by (simp add: demo_pow2)

theorem vq_reach_safe_witness:
  "\<exists>s. vq_boot True 0 ''q'' demo_ring 0 9 1 2 = Inr (VQUEUE_SUCCESS, VQUEUE_SUCCESS, s) \<and>
    free_chain (desc (shm s)) (vq_desc_head_idx (drv s)) (free_descs s) \<and>
    distinct (free_descs s @ concat (map (chain_from s) (flight_heads s))) \<and>
    set (free_descs s @ concat (map (chain_from s) (flight_heads s))) = {..<4} \<and>
    (\<exists>out s'. vq_exec (\<lambda>io p. p) (\<lambda>io p. p) True (Offer [\<lparr>vqb_buf = 0x8000, vqb_len = 64\<rparr>] 1 0 7) s = Inr (out, s')) \<and>
    (\<exists>s'. vq_ctl_exec True 0 (Kick Driver) s = Inr s')"
proof -
  obtain s where s: "vq_boot True 0 ''q'' demo_ring 0 9 1 2 = Inr (VQUEUE_SUCCESS, VQUEUE_SUCCESS, s)"
    and A: "vq_abs 1 2 s (avq_init 4)" using demo_boot by blast
  have "mset [0..<4] = mset [0..<unat (vq_nentries (drv s))]"
    using vq_relD(4) [of s "avq_init 4"] A by (simp add: vq_abs_def vq_part_ok_def avq_init_def in_flight_def)
  then have "length [0..<4 :: nat] = length [0..<unat (vq_nentries (drv s))]" by (rule mset_eq_length)
  then have n: "unat (vq_nentries (drv s)) = 4" by simp
  have "vq_reach (\<lambda>io p. p) (\<lambda>io p. p) True 0 demo_ring 1 2 s (avq_init 4)"
    using vq_reach.boot [OF s] by simp
  from vq_reach_safe [OF this, of "Offer [\<lparr>vqb_buf = 0x8000, vqb_len = 64\<rparr>] 1 0 7" "Kick Driver"] s n
  show ?thesis by (simp add: demo_pow2 avq_init_def)
qed

text \<open>
  C20. The driver's kick is not lost. If the device enables its notifications and \<open>virtqueue_enable_cb\<close>
  reports that no buffer is pending, then after the driver has offered one or more buffers its
  next \<open>virtqueue_kick\<close> calls the notify function, with event indices and with flags alike, unless
  the driver's 16-bit count of queued buffers has wrapped since its last kick.
\<close>

theorem driver_kick_not_lost:
  assumes "vq_abs io io' s a" and "virtqueue_enable_cb dbg (slave_dev feat) (dev s) (shm s) = Inr (0, m)"
    and "avq_run_ok (v2p io) (p2v io') ops a" and "\<forall>op \<in> set ops. is_offer op" and "ops \<noteq> []"
    and "unat (vq_queued_cnt (drv s)) + length ops < 2 ^ 16" and "vq_notify (drv s) \<noteq> NULL"
  shows "\<exists>outs s' vq'. run_ops (vq_exec v2p p2v dbg) ops (s\<lparr>shm := m\<rparr>) = Inr (outs, s') \<and>
    virtqueue_kick dbg (master_dev feat) (drv s') (shm s') = Inr (Some (vq_notify (drv s)), vq')"
proof -
  let ?s = "s\<lparr>shm := m\<rparr>"
  have R: "vq_rel s a" using assms(1) by (simp add: vq_abs_def)
  have "vq_ctl_exec dbg feat (Enable_cb Device) s = Inr ?s" by (simp add: assms(2))
  then have A: "vq_abs io io' ?s a" using vq_ctl_exec_abs [OF assms(1), of dbg feat "Enable_cb Device"] by simp
  have ev: "if feat AND VIRTIO_RING_F_EVENT_IDX \<noteq> 0 then used_avail_event (used m) = avail_idx (avail m)
      else used_flags (used m) AND VRING_USED_F_NO_NOTIFY = 0"
    using assms(2) pending_counts(2) [OF R] 
    by (auto simp: vq_ctl_defs Let_def word_gt_0 cres_simps and.assoc split: if_splits)
  obtain outs s' a' where s': "run_ops (vq_exec v2p p2v dbg) ops ?s = Inr (outs, s')" "vq_abs io io' s' a'"
    "avail_idx (avail (shm s')) = avail_idx (avail m) + of_nat (length ops)" "used (shm s') = used m"
    "vq_queued_cnt (drv s') = vq_queued_cnt (drv s) + of_nat (length ops)" "vq_notify (drv s') = vq_notify (drv s)"
    using offers_effect [where v2p = v2p and p2v = p2v and dbg = dbg, OF A assms(3,4)] by auto
  have "vq_ring_must_notify (master_dev feat) ((drv s')\<lparr>vq_inuse := dbg\<rparr>) (shm s')"
    using ev s' need_event_after [OF assms(6), of "avail_idx (avail m)"] assms(5)
    by (auto simp: vq_ring_must_notify_def Let_def split: if_splits)
  moreover have "\<not> vq_inuse (drv s')" using s'(2) by (simp add: vq_abs_def vq_rel_def vq_sizes_def)
  ultimately show ?thesis using s' assms(7)
    by (simp add: virtqueue_kick_def vq_ring_notify_def)
qed

theorem driver_kick_not_lost_witness:
  "\<exists>s m outs s' vq'. vq_boot True 0x20000000 ''q'' demo_ring 0 9 1 2 = Inr (VQUEUE_SUCCESS, VQUEUE_SUCCESS, s) \<and>
    virtqueue_enable_cb True (slave_dev 0x20000000) (dev s) (shm s) = Inr (0, m) \<and>
    run_ops (vq_exec (\<lambda>io p. p) (\<lambda>io p. p) True) [Offer [\<lparr>vqb_buf = 0x8000, vqb_len = 64\<rparr>] 1 0 7] (s\<lparr>shm := m\<rparr>) =
      Inr (outs, s') \<and>
    virtqueue_kick True (master_dev 0x20000000) (drv s') (shm s') = Inr (Some (vq_notify (drv s)), vq')"
proof -
  obtain s where s: "vq_boot True 0x20000000 ''q'' demo_ring 0 9 1 2 = Inr (VQUEUE_SUCCESS, VQUEUE_SUCCESS, s)"
    and A: "vq_abs 1 2 s (avq_init 4)" and n: "vq_notify (drv s) = 9" using demo_boot by blast
  have q: "vq_queued_cnt (drv s) = 0"
    using s by (auto simp: vq_boot_def virtqueue_create_def vq_ring_init_def virtqueue_allocate_def Let_def
        cres_simps virtqueue_set_shmem_io_def split: if_splits)
  have R: "vq_rel s (avq_init 4)" using A by (simp add: vq_abs_def)
  have "avail_idx (avail (shm s)) = vq_available_idx (dev s)"
    using pending_counts(4) [OF R] by (simp add: avq_init_def unat_eq_0)
  then obtain m where m: "virtqueue_enable_cb True (slave_dev 0x20000000) (dev s) (shm s) = Inr (0, m)"
    by (simp add: vq_ctl_defs Let_def)
  show ?thesis
    using driver_kick_not_lost [OF A m, of "\<lambda>io p. p" "\<lambda>io p. p" "[Offer [\<lparr>vqb_buf = 0x8000, vqb_len = 64\<rparr>] 1 0 7]"]
      s m n q by (simp add: avq_init_def)
qed

text \<open>
  C21. The device's kick is not lost: the same in the other direction. If the driver enables its
  callback and \<open>virtqueue_enable_cb\<close> reports that no used buffer is pending, then after the device
  has given back one or more buffers its next \<open>virtqueue_kick\<close> calls the notify function.
\<close>

theorem device_kick_not_lost:
  assumes "vq_abs io io' s a" and "virtqueue_enable_cb dbg (master_dev feat) (drv s) (shm s) = Inr (0, m)"
    and "avq_run_ok (v2p io) (p2v io') ops a" and "\<forall>op \<in> set ops. is_give op" and "ops \<noteq> []"
    and "unat (vq_queued_cnt (dev s)) + length ops < 2 ^ 16" and "vq_notify (dev s) \<noteq> NULL"
  shows "\<exists>outs s' vq'. run_ops (vq_exec v2p p2v dbg) ops (s\<lparr>shm := m\<rparr>) = Inr (outs, s') \<and>
    virtqueue_kick dbg (slave_dev feat) (dev s') (shm s') = Inr (Some (vq_notify (dev s)), vq')"
proof -
  let ?s = "s\<lparr>shm := m\<rparr>"
  have R: "vq_rel s a" using assms(1) by (simp add: vq_abs_def)
  have "vq_ctl_exec dbg feat (Enable_cb Driver) s = Inr ?s" by (simp add: assms(2))
  then have A: "vq_abs io io' ?s a" using vq_ctl_exec_abs [OF assms(1), of dbg feat "Enable_cb Driver"] by simp
  have ev: "if feat AND VIRTIO_RING_F_EVENT_IDX \<noteq> 0 then avail_used_event (avail m) = used_idx (used m)
      else avail_flags (avail m) AND VRING_AVAIL_F_NO_INTERRUPT = 0"
    using assms(2) pending_counts(1) [OF R]
    by (auto simp: vq_ctl_defs Let_def word_gt_0 cres_simps and.assoc split: if_splits)
  obtain outs s' a' where s': "run_ops (vq_exec v2p p2v dbg) ops ?s = Inr (outs, s')" "vq_abs io io' s' a'"
    "used_idx (used (shm s')) = used_idx (used m) + of_nat (length ops)" "avail (shm s') = avail m"
    "vq_queued_cnt (dev s') = vq_queued_cnt (dev s) + of_nat (length ops)" "vq_notify (dev s') = vq_notify (dev s)"
    using gives_effect [where v2p = v2p and p2v = p2v and dbg = dbg, OF A assms(3,4)] by auto
  have "vq_ring_must_notify (slave_dev feat) ((dev s')\<lparr>vq_inuse := dbg\<rparr>) (shm s')"
    using ev s' need_event_after [OF assms(6), of "used_idx (used m)"] assms(5)
    by (auto simp: vq_ring_must_notify_def Let_def split: if_splits)
  moreover have "\<not> vq_inuse (dev s')" using s'(2) by (simp add: vq_abs_def vq_rel_def vq_sizes_def)
  ultimately show ?thesis using s' assms(7)
    by (simp add: virtqueue_kick_def vq_ring_notify_def)
qed

definition demo_held :: "vq_sys cres" where
  "demo_held = cbind (vq_boot False 0 ''q'' demo_ring 0 9 1 2) (\<lambda>(st, st', s).
     cbind (run_ops (vq_exec (\<lambda>io p. p) (\<lambda>io p. p) False)
       [Offer [\<lparr>vqb_buf = 0x8000, vqb_len = 64\<rparr>] 1 0 7, Take] s) (\<lambda>(outs, s'). Inr s'))"

lemma demo_held_dev:
  "case demo_held of Inl e \<Rightarrow> False
   | Inr s \<Rightarrow> vq_queued_cnt (dev s) = 0 \<and> vq_notify (dev s) = 9 \<and>
       (case virtqueue_enable_cb False (master_dev 0) (drv s) (shm s) of
          Inl e \<Rightarrow> False | Inr (c, m) \<Rightarrow> c = 0)"
  by code_simp

theorem device_kick_not_lost_witness:
  "\<exists>s m outs s' vq'. demo_held = Inr s \<and>
    virtqueue_enable_cb False (master_dev 0) (drv s) (shm s) = Inr (0, m) \<and>
    run_ops (vq_exec (\<lambda>io p. p) (\<lambda>io p. p) False) [Give 0 3] (s\<lparr>shm := m\<rparr>) = Inr (outs, s') \<and>
    virtqueue_kick False (slave_dev 0) (dev s') (shm s') = Inr (Some (vq_notify (dev s)), vq')"
proof -
  let ?ops = "[Offer [\<lparr>vqb_buf = 0x8000, vqb_len = 64\<rparr>] 1 0 7, Take]"
  let ?a = "snd (avq_run (\<lambda>p. p) (\<lambda>p. p) ?ops (avq_init 4))"
  obtain s0 where b: "vq_boot False 0 ''q'' demo_ring 0 9 1 2 = Inr (VQUEUE_SUCCESS, VQUEUE_SUCCESS, s0)"
    and A: "vq_abs 1 2 s0 (avq_init 4)" using demo_boot by blast
  have ok: "avq_run_ok (\<lambda>p. p) (\<lambda>p. p) ?ops (avq_init 4)" by (simp add: avq_init_def Let_def)
  obtain s where s: "demo_held = Inr s" and A': "vq_abs 1 2 s ?a"
    using vq.run [OF A, of "\<lambda>io p. p" "\<lambda>io p. p" ?ops False] ok by (auto simp: demo_held_def b)
  obtain m where m: "virtqueue_enable_cb False (master_dev 0) (drv s) (shm s) = Inr (0, m)"
    and q: "vq_queued_cnt (dev s) = 0" "vq_notify (dev s) = 9"
    using demo_held_dev by (auto simp: s split: sum.splits prod.splits)
  have g: "avq_run_ok (\<lambda>p. p) (\<lambda>p. p) [Give 0 3] ?a"
    by (simp add: avq_init_def Let_def avq_run_Cons upt_conv_Cons)
  have "\<exists>outs s' vq'. run_ops (vq_exec (\<lambda>io p. p) (\<lambda>io p. p) False) [Give 0 3] (s\<lparr>shm := m\<rparr>) =
      Inr (outs, s') \<and>
      virtqueue_kick False (slave_dev 0) (dev s') (shm s') = Inr (Some (vq_notify (dev s)), vq')"
    by (rule device_kick_not_lost [OF A' m g]) (simp_all add: q)
  then show ?thesis using s m by blast
qed

lemma add_buffer_full_lemma:
  assumes "vq_rel s a" and "a_free a = []" and "0 < readable + writable"
  shows "virtqueue_add_buffer v2p True (drv s) (shm s) bufs readable writable ck =
      Inr (ERROR_VRING_FULL, drv s, shm s) \<and>
    virtqueue_add_buffer v2p False (drv s) (shm s) bufs readable writable ck = Inl Out_of_bounds"
proof -
  note sz = vq_sizesD [OF vq_relD(1) [OF assms(1)]]
  have f: "vq_free_cnt (drv s) = 0" "vq_desc_head_idx (drv s) = VQ_RING_DESC_CHAIN_END"
    using vq_relD(2) [OF assms(1)] assms(2) by (simp_all add: vq_free_ok_def)
  have o: "\<not> unat VQ_RING_DESC_CHAIN_END < length (vq_descx (drv s))"
    using sz(3,7) by (simp add: vq_const_defs)
  have i: "(drv s)\<lparr>vq_inuse := False\<rparr> = drv s" using sz(8) by simp
  show ?thesis
  proof
    show "virtqueue_add_buffer v2p True (drv s) (shm s) bufs readable writable ck =
        Inr (ERROR_VRING_FULL, drv s, shm s)"
      using sz(8) f(1) i assms(3)
      by (simp add: virtqueue_add_buffer_def VQ_PARAM_CHK_def vq_status_defs)
    show "virtqueue_add_buffer v2p False (drv s) (shm s) bufs readable writable ck = Inl Out_of_bounds"
      using sz(8) f o
      by (simp add: virtqueue_add_buffer_def VQ_PARAM_CHK_def vq_status_defs VQASSERT_def
          VQ_RING_ASSERT_VALID_IDX_def Let_def)
  qed
qed

text \<open>
  A full ring. When no descriptor is free, a debug build of \<open>virtqueue_add_buffer\<close> refuses with
  \<open>ERROR_VRING_FULL\<close> and changes nothing. In a normal build the check does not exist: the call
  uses the end marker of the free chain as an index and leaves the array of descriptor extras.
\<close>

theorem add_buffer_full:
  assumes "vq_rel s a" and "a_free a = []" and "0 < readable + writable"
  shows "virtqueue_add_buffer v2p True (drv s) (shm s) bufs readable writable ck =
      Inr (ERROR_VRING_FULL, drv s, shm s) \<and>
    virtqueue_add_buffer v2p False (drv s) (shm s) bufs readable writable ck = Inl Out_of_bounds"
  by (rule add_buffer_full_lemma [OF assms])

definition demo_full_ops :: "vq_op list" where
  "demo_full_ops = [Offer (replicate 4 \<lparr>vqb_buf = 0x8000, vqb_len = 64\<rparr>) 4 0 7]"

lemma demo_full:
  "\<exists>s0 outs s a. vq_boot False 0 ''q'' demo_ring 0 9 1 2 = Inr (VQUEUE_SUCCESS, VQUEUE_SUCCESS, s0) \<and>
    run_ops (vq_exec (\<lambda>io p. p) (\<lambda>io p. p) False) demo_full_ops s0 = Inr (outs, s) \<and>
    vq_abs 1 2 s a \<and> a_free a = [] \<and> a_used a = []"
proof -
  let ?a = "snd (avq_run (\<lambda>p. p) (\<lambda>p. p) demo_full_ops (avq_init 4))"
  obtain s0 where b: "vq_boot False 0 ''q'' demo_ring 0 9 1 2 = Inr (VQUEUE_SUCCESS, VQUEUE_SUCCESS, s0)"
    and A: "vq_abs 1 2 s0 (avq_init 4)" using demo_boot by blast
  have ok: "avq_run_ok (\<lambda>p. p) (\<lambda>p. p) demo_full_ops (avq_init 4)"
    by (simp add: avq_init_def demo_full_ops_def)
  have "a_free ?a = [] \<and> a_used ?a = []" by (simp add: avq_init_def Let_def avq_run_Cons demo_full_ops_def)
  then show ?thesis using vq.run [OF A, of "\<lambda>io p. p" "\<lambda>io p. p" demo_full_ops False] ok b by blast
qed

theorem add_buffer_full_witness:
  "\<exists>s0 outs s. vq_boot False 0 ''q'' demo_ring 0 9 1 2 = Inr (VQUEUE_SUCCESS, VQUEUE_SUCCESS, s0) \<and>
    run_ops (vq_exec (\<lambda>io p. p) (\<lambda>io p. p) False) demo_full_ops s0 = Inr (outs, s) \<and>
    virtqueue_add_buffer (\<lambda>io p. p) True (drv s) (shm s) [] 1 0 8 = Inr (ERROR_VRING_FULL, drv s, shm s) \<and>
    virtqueue_add_buffer (\<lambda>io p. p) False (drv s) (shm s) [] 1 0 8 = Inl Out_of_bounds"
  using demo_full add_buffer_full [where v2p = "\<lambda>io p. p" and bufs = "[]" and ck = 8 and readable = 1 and writable = 0]
  unfolding vq_abs_def by (metis add.right_neutral zero_less_one)

lemma vq_ring_free_chain_out:
  "\<not> unat i < length (desc m) \<Longrightarrow> vq_ring_free_chain False vq m i = Inl Out_of_bounds"
  by (simp add: vq_ring_free_chain_def VQ_RING_ASSERT_VALID_IDX_def VQASSERT_def)

text \<open>
  C39. The index check of \<open>virtqueue_add_consumed_buffer\<close>. An index above the number of entries is
  refused with \<open>ERROR_VRING_NO_BUFF\<close> and nothing changes. The index equal to the number of entries,
  which names no descriptor, passes the check and is published in the used ring; when it is the
  next one the driver collects, \<open>virtqueue_get_buffer\<close> leaves the descriptor table.
\<close>

theorem add_consumed_index_check:
  assumes "vq_rel s a" and "a_used a = []"
  shows "(\<forall>i. vq_nentries (dev s) < i \<longrightarrow>
      virtqueue_add_consumed_buffer dbg (dev s) (shm s) i l = Inr (ERROR_VRING_NO_BUFF, dev s, shm s)) \<and>
    (\<exists>vq' m'. virtqueue_add_consumed_buffer dbg (dev s) (shm s) (vq_nentries (dev s)) l =
       Inr (VQUEUE_SUCCESS, vq', m') \<and>
       virtqueue_get_buffer False (Some (drv s)) m' l0 i0 = Inl Out_of_bounds)"
proof -
  note Rs = vq_relD [OF assms(1)] and sz = vq_sizesD [OF vq_relD(1) [OF assms(1)]]
  let ?n = "vq_nentries (drv s)" and ?u = "used (shm s)"
  have c: "used_idx ?u = vq_used_cons_idx (drv s)" using Rs(6) assms(2) by (simp add: vq_used_ok_def)
  define slot where "slot = unat (vq_used_cons_idx (drv s) AND (?n - 1))"
  have sl: "slot < length (used_ring ?u)"
    using sz(1,6) by (simp add: slot_def unat_and_pred pow2_pos)
  let ?e = "\<lparr>ue_id = ucast ?n, ue_len = l\<rparr>"
  let ?m = "(shm s)\<lparr>used := ?u\<lparr>used_ring := (used_ring ?u)[slot := ?e], used_idx := used_idx ?u + 1\<rparr>\<rparr>"
  have "virtqueue_add_consumed_buffer dbg (dev s) (shm s) (vq_nentries (dev s)) l =
      Inr (VQUEUE_SUCCESS, (dev s)\<lparr>vq_queued_cnt := vq_queued_cnt (dev s) + 1, vq_inuse := False\<rparr>, ?m)"
    using sz(2,9) sl c by (simp add: virtqueue_add_consumed_buffer_def Let_def flip: slot_def)
  moreover have "virtqueue_get_buffer False (Some (drv s)) ?m l0 i0 = Inl Out_of_bounds"
    using sl sz(4) c
    by (simp add: virtqueue_get_buffer_def VQUEUE_BUSY_def vq_ring_free_chain_out Let_def flip: slot_def)
  ultimately show ?thesis by (auto simp: virtqueue_add_consumed_buffer_def)
qed

theorem add_consumed_index_check_witness:
  "\<exists>s. vq_boot False 0 ''q'' demo_ring 0 9 1 2 = Inr (VQUEUE_SUCCESS, VQUEUE_SUCCESS, s) \<and>
    (\<forall>i. vq_nentries (dev s) < i \<longrightarrow>
      virtqueue_add_consumed_buffer True (dev s) (shm s) i 5 = Inr (ERROR_VRING_NO_BUFF, dev s, shm s)) \<and>
    (\<exists>vq' m'. virtqueue_add_consumed_buffer True (dev s) (shm s) (vq_nentries (dev s)) 5 =
       Inr (VQUEUE_SUCCESS, vq', m') \<and>
       virtqueue_get_buffer False (Some (drv s)) m' 0 0 = Inl Out_of_bounds)"
proof -
  obtain s where b: "vq_boot False 0 ''q'' demo_ring 0 9 1 2 = Inr (VQUEUE_SUCCESS, VQUEUE_SUCCESS, s)"
    and A: "vq_abs 1 2 s (avq_init 4)" using demo_boot by blast
  have R: "vq_rel s (avq_init 4)" using A by (simp add: vq_abs_def)
  show ?thesis using b add_consumed_index_check [OF R, of True 5 0 0] by (simp add: avq_init_def)
qed

end
