(* ===== verification/Rpmsg_Tx.thy ===== *)
theory Rpmsg_Tx
  imports Rpmsg_Pool Rpmsg_Inv Virtqueue_Sys
begin

text \<open>
  The master's send channel. \<open>tx_chan\<close> ties the send queue, the buffer pool and memory together:
  every buffer of the queue is a block of the pool, no block is in two places, and the pool never
  holds more blocks than the queue has free descriptors. The messages waiting in the queue are
  \<open>tx_msgs\<close>; sending appends one, and disturbs none of the others.
\<close>

subsection \<open>The channel invariant\<close>

text \<open>
  \<open>dv\<close> is the remote's control block of the queue \<open>q\<close> and \<open>a\<close> the abstract queue; \<open>R\<close> are buffers that
  the sender holds between taking and enqueueing them.
\<close>

definition tx_queue where
  "tx_queue sio q st dv a \<longleftrightarrow>
     svq st = Some q \<and> q < length (vqs st) \<and> q < length (rings st) \<and>
     vq_rel \<lparr>drv = vqs st ! q, dev = dv, shm = rings st ! q\<rparr> a \<and> shm_io (vqs st ! q) = sio"

definition tx_pool where
  "tx_pool base sz p a R \<longleftrightarrow>
     pool_wf p \<and> unat (pool_base p - base) + unat (pool_size p) \<le> sz \<and>
     pool_left p + length R \<le> length (a_free a) \<and>
     distinct (R @ map ab_cookie (in_flight a)) \<and>
     (\<forall>c \<in> set (R @ map ab_cookie (in_flight a)). \<exists>k < pool_taken p. c = pool_block p k)"

definition tx_bufs where
  "tx_bufs v2p m a \<longleftrightarrow>
     (\<forall>b \<in> set (in_flight a). length (ab_chain b) = 1 \<and> ab_addr b = v2p (ab_cookie b)) \<and>
     (\<forall>b \<in> set (a_avail a). msg_fits m (ab_cookie b))"

definition tx_chan where
  "tx_chan env sio base sz q st dv a R \<longleftrightarrow>
     rpmsg_virtio_get_role st = RPMSG_MASTER \<and> shbuf_io st = sio \<and> tx_queue sio q st dv a \<and>
     tx_pool base sz (shpool st) a R \<and> tx_bufs (io_virt_to_phys (e_io env) sio) (memory st) a"

definition tx_msgs :: "mem \<Rightarrow> avq \<Rightarrow> (u32 \<times> u32 \<times> u8 list) list" where
  "tx_msgs m a = map (\<lambda>b. msg_at m (ab_cookie b)) (a_avail a)"

text \<open>What the send path leaves alone.\<close>

definition same_dev :: "'b rpmsg_virtio_device \<Rightarrow> 'b rpmsg_virtio_device \<Rightarrow> bool" where
  "same_dev st st' \<longleftrightarrow> self st' = self st \<and> rdev st' = rdev st \<and> epts st' = epts st"

lemma same_dev_trans: "same_dev s t \<Longrightarrow> same_dev t u \<Longrightarrow> same_dev s u"
  by (simp add: same_dev_def)

lemma same_dev_put [simp]: "same_dev st (put_vq i vq m st)"
  by (simp add: same_dev_def put_vq_def)

lemma put_vq_sel [simp]:
  "rpmsg_virtio_get_role (put_vq i vq m st) = rpmsg_virtio_get_role st"
  "shbuf_io (put_vq i vq m st) = shbuf_io st" "shpool (put_vq i vq m st) = shpool st"
  "memory (put_vq i vq m st) = memory st" "svq (put_vq i vq m st) = svq st"
  "vdev (put_vq i vq m st) = vdev st" "length (vqs (put_vq i vq m st)) = length (vqs st)"
  "length (rings (put_vq i vq m st)) = length (rings st)" "kicks (put_vq i vq m st) = kicks st"
  "rvq (put_vq i vq m st) = rvq st" "rdev (put_vq i vq m st) = rdev st" "epts (put_vq i vq m st) = epts st"
  "self (put_vq i vq m st) = self st"
  by (simp_all add: put_vq_def rpmsg_virtio_get_role_def)

lemma put_vq_nth [simp]:
  "i < length (vqs st) \<Longrightarrow> vqs (put_vq i vq m st) ! i = vq"
  "i < length (rings st) \<Longrightarrow> rings (put_vq i vq m st) ! i = m"
  by (simp_all add: put_vq_def)

text \<open>The invariant depends on the transport part of the state only.\<close>

lemma tx_chan_frame [simp]:
  "tx_chan env sio base sz q (st\<lparr>rdev := d\<rparr>) dv a R = tx_chan env sio base sz q st dv a R"
  "tx_chan env sio base sz q (st\<lparr>epts := h\<rparr>) dv a R = tx_chan env sio base sz q st dv a R"
  "tx_chan env sio base sz q (st\<lparr>kicks := ks\<rparr>) dv a R = tx_chan env sio base sz q st dv a R"
  by (simp_all add: tx_chan_def tx_queue_def rpmsg_virtio_get_role_def)

lemma get_vq_tx:
  assumes "tx_queue sio q st dv a"
  shows "get_vq st (svq st) = Inr (q, vqs st ! q, rings st ! q)"
  using assms by (simp add: tx_queue_def get_vq_def)

lemma tx_queue_put:
  assumes "tx_queue sio q st dv a" and "vq_rel \<lparr>drv = vq, dev = dv, shm = m\<rparr> a'" and "shm_io vq = sio"
  shows "tx_queue sio q (put_vq q vq m st) dv a'"
  using assms by (simp add: tx_queue_def)

subsection \<open>Taking a buffer\<close>

lemma tx_get_used:
  assumes c: "tx_chan env sio base sz q st dv a []" and u: "a_used a = (b, l) # us"
  shows "\<exists>i st'. rpmsg_virtio_get_tx_buffer env l0 i0 st = Inr (ab_cookie b, l, i, st') \<and> same_dev st st' \<and>
    tx_chan env sio base sz q st' dv (a\<lparr>a_free := ab_chain b @ a_free a, a_used := us\<rparr>) [ab_cookie b] \<and>
    memory st' = memory st \<and> kicks st' = kicks st \<and> vdev st' = vdev st"
proof -
  let ?s = "\<lparr>drv = vqs st ! q, dev = dv, shm = rings st ! q\<rparr>"
  let ?a = "a\<lparr>a_free := ab_chain b @ a_free a, a_used := us\<rparr>"
  have Q: "tx_queue sio q st dv a" and role: "rpmsg_virtio_get_role st = RPMSG_MASTER"
    and P: "tx_pool base sz (shpool st) a []" and B: "tx_bufs (io_virt_to_phys (e_io env) sio) (memory st) a"
    and sb: "shbuf_io st = sio" using c by (auto simp: tx_chan_def)
  have R: "vq_rel ?s a" using Q by (simp add: tx_queue_def)
  obtain vq m where g: "virtqueue_get_buffer (e_dbg env) (Some (vqs st ! q)) (rings st ! q) l0 i0 =
        Inr (ab_cookie b, l, vq_used_cons_idx (vqs st ! q) AND (vq_nentries (vqs st ! q) - 1), Some vq, m)"
      "vq_config vq = vq_config (vqs st ! q)" "vq_rel \<lparr>drv = vq, dev = dv, shm = m\<rparr> ?a"
    using get_buffer_refines [OF R u, of "e_dbg env" l0 i0] by auto
  have bf: "b \<in> set (in_flight a)" by (simp add: in_flight_def u)
  have bn: "ab_cookie b \<noteq> NULL" using vq_relD(3) [OF R] bf by (simp add: vq_flight_ok_def buf_ok_def)
  have run: "rpmsg_virtio_get_tx_buffer env l0 i0 st = Inr (ab_cookie b, l,
      vq_used_cons_idx (vqs st ! q) AND (vq_nentries (vqs st ! q) - 1), put_vq q vq m st)"
    using role get_vq_tx [OF Q] g(1) bn Q
    by (simp add: rpmsg_virtio_get_tx_buffer_def tx_queue_def)
  have io: "shm_io vq = sio" using vq_config_shm_io [OF g(2)] Q by (simp add: tx_queue_def)
  have fl: "mset (in_flight a) = add_mset b (mset (in_flight ?a))" by (simp add: in_flight_def u)
  have "mset (map ab_cookie (in_flight a)) = mset (ab_cookie b # map ab_cookie (in_flight ?a))"
    using fl by simp
  then have cs: "distinct (ab_cookie b # map ab_cookie (in_flight ?a))"
      "set (ab_cookie b # map ab_cookie (in_flight ?a)) = set (map ab_cookie (in_flight a))"
    using P by (metis append_Nil mset_eq_imp_distinct_iff tx_pool_def, metis mset_eq_setD)
  have sub: "set (in_flight ?a) \<subseteq> set (in_flight a)" by (auto simp: in_flight_def u)
  have "tx_pool base sz (shpool st) ?a [ab_cookie b]"
    using P B bf cs by (auto simp: tx_pool_def tx_bufs_def)
  moreover have "tx_bufs (io_virt_to_phys (e_io env) sio) (memory st) ?a"
    using B sub by (auto simp: tx_bufs_def)
  ultimately have "tx_chan env sio base sz q (put_vq q vq m st) dv ?a [ab_cookie b]"
    using role sb tx_queue_put [OF Q g(3) io] by (simp add: tx_chan_def)
  then show ?thesis using run by auto
qed

lemma tx_get_pool:
  assumes c: "tx_chan env sio base sz q st dv a []" and u: "a_used a = []" and l: "0 < pool_left (shpool st)"
  shows "\<exists>buf i st'. rpmsg_virtio_get_tx_buffer env l0 i0 st = Inr (buf, 512, i, st') \<and> buf \<noteq> NULL \<and>
    same_dev st st' \<and> tx_chan env sio base sz q st' dv a [buf] \<and>
    memory st' = memory st \<and> kicks st' = kicks st \<and> vdev st' = vdev st"
proof -
  let ?s = "\<lparr>drv = vqs st ! q, dev = dv, shm = rings st ! q\<rparr>" and ?p = "shpool st"
  have Q: "tx_queue sio q st dv a" and role: "rpmsg_virtio_get_role st = RPMSG_MASTER"
    and P: "tx_pool base sz ?p a []" and B: "tx_bufs (io_virt_to_phys (e_io env) sio) (memory st) a"
    and sb: "shbuf_io st = sio" using c by (auto simp: tx_chan_def)
  have R: "vq_rel ?s a" using Q by (simp add: tx_queue_def)
  have wf: "pool_wf ?p" using P by (simp add: tx_pool_def)
  have g: "virtqueue_get_buffer (e_dbg env) (Some (vqs st ! q)) (rings st ! q) l0 i0 =
      Inr (NULL, l0, i0, Some (vqs st ! q), rings st ! q)"
    using get_buffer_empty [OF R u] by simp
  obtain p' where p': "rpmsg_virtio_shm_pool_get_buffer ?p RPMSG_BUFFER_SIZE = (pool_block ?p (pool_taken ?p), p')"
      "pool_block ?p (pool_taken ?p) \<noteq> NULL" "pool_wf p'" "pool_base p' = pool_base ?p"
      "pool_size p' = pool_size ?p" "pool_taken p' = Suc (pool_taken ?p)" "pool_left p' = pool_left ?p - 1"
      "512 * Suc (pool_taken ?p) \<le> unat (pool_size ?p)"
    using pool_get_block [OF wf l] by metis
  have id: "put_vq q (vqs st ! q) (rings st ! q) st = st" by (simp add: put_vq_def)
  have run: "rpmsg_virtio_get_tx_buffer env l0 i0 st =
      Inr (pool_block ?p (pool_taken ?p), 512, i0, st\<lparr>shpool := p'\<rparr>)"
    using role get_vq_tx [OF Q] g p'(1) Q id
    by (simp add: rpmsg_virtio_get_tx_buffer_def tx_queue_def RPMSG_BUFFER_SIZE_def)
  have blk: "pool_block p' = pool_block ?p" using p'(4) by (simp add: pool_block_def fun_eq_iff)
  have lim: "unat (pool_base ?p) + unat (pool_size ?p) < 2 ^ 64" using wf by (simp add: pool_wf_def)
  have "pool_block ?p k \<noteq> pool_block ?p (pool_taken ?p)" if "k < pool_taken ?p" for k
    using unat_pool_block [OF lim, of k] unat_pool_block [OF lim, of "pool_taken ?p"] that p'(8) by auto
  then have "pool_block ?p (pool_taken ?p) \<notin> ab_cookie ` set (in_flight a)"
    using P by (force simp: tx_pool_def)
  then have "tx_pool base sz p' a [pool_block ?p (pool_taken ?p)]"
    using P p' l unfolding tx_pool_def blk by (auto simp: less_Suc_eq)
  moreover have "tx_queue sio q (st\<lparr>shpool := p'\<rparr>) dv a" using Q by (simp add: tx_queue_def)
  ultimately have "tx_chan env sio base sz q (st\<lparr>shpool := p'\<rparr>) dv a [pool_block ?p (pool_taken ?p)]"
    using role sb B by (simp add: tx_chan_def rpmsg_virtio_get_role_def)
  then show ?thesis using run p'(2) by (auto simp: same_dev_def)
qed

lemma tx_get_none:
  assumes c: "tx_chan env sio base sz q st dv a []" and u: "a_used a = []" and l: "pool_left (shpool st) = 0"
  shows "rpmsg_virtio_get_tx_buffer env l0 i0 st = Inr (NULL, 512, i0, st)"
proof -
  let ?s = "\<lparr>drv = vqs st ! q, dev = dv, shm = rings st ! q\<rparr>"
  have Q: "tx_queue sio q st dv a" and role: "rpmsg_virtio_get_role st = RPMSG_MASTER"
    using c by (auto simp: tx_chan_def)
  have R: "vq_rel ?s a" using Q by (simp add: tx_queue_def)
  have g: "virtqueue_get_buffer (e_dbg env) (Some (vqs st ! q)) (rings st ! q) l0 i0 =
      Inr (NULL, l0, i0, Some (vqs st ! q), rings st ! q)"
    using get_buffer_empty [OF R u] by simp
  have id: "put_vq q (vqs st ! q) (rings st ! q) st = st" by (simp add: put_vq_def)
  show ?thesis using role get_vq_tx [OF Q] g Q id pool_get_none [OF l]
    by (simp add: rpmsg_virtio_get_tx_buffer_def tx_queue_def RPMSG_BUFFER_SIZE_def)
qed

subsection \<open>Writing the message\<close>

lemma pool_block_in_region:
  assumes wf: "pool_wf p" and r: "unat (pool_base p - base) + unat (pool_size p) \<le> sz" and k: "k < pool_taken p"
    and sz: "sz < 2 ^ 63"
  shows "unat (pool_block p k - base) + 512 \<le> sz"
proof -
  have t: "512 * pool_taken p \<le> unat (pool_size p)" by (simp add: pool_taken_def)
  have le: "512 * Suc k \<le> unat (pool_size p)" using k t by (metis Suc_leI le_trans mult_le_mono2)
  have "unat (of_nat (512 * k) :: u64) = 512 * k" using le r sz by (intro unat_of_nat_64) simp
  moreover have "pool_block p k - base = (pool_base p - base) + of_nat (512 * k)"
    by (simp add: pool_block_def)
  ultimately have "unat (pool_block p k - base) = unat (pool_base p - base) + 512 * k"
    using r le sz by (simp only:) (subst unat_plus_lt, simp_all)
  then show ?thesis using r le by simp
qed

lemma fill_run:
  assumes mr: "metal_region (e_io env) sio base phys sz" and sb: "shbuf_io st = sio"
    and in1: "unat (buf - base) + 512 \<le> sz" and d: "length data \<le> 496"
  shows "rpmsg_virtio_send_fill env src dst data (int (length data)) buf st =
    Inr (st\<lparr>memory := wr_bytes (wr_bytes (memory st) buf (hdr_bytes \<lparr>hdr_src = src, hdr_dst = dst,
      hdr_reserved = 0, hdr_len = of_int (int (length data)), hdr_flags = e_junk env\<rparr>)) (buf + 16) data\<rparr>)"
proof -
  let ?h = "\<lparr>hdr_src = src, hdr_dst = dst, hdr_reserved = 0, hdr_len = of_int (int (length data)),
    hdr_flags = e_junk env\<rparr>"
  have s63: "sz < 2 ^ 63" by (rule metal_region.size_fits [OF mr])
  have in2: "unat (buf + 16 - base) = unat (buf - base) + 16"
  proof -
    have "buf + 16 - base = (buf - base) + 16" by simp
    then show ?thesis using in1 s63 by (simp only:) (subst unat_plus_lt, simp_all)
  qed
  have w1: "io_block_write (e_io env) sio (io_virt_to_offset (e_io env) sio buf) (hdr_bytes ?h) (int HDR_SIZE)
      (memory st) = (int HDR_SIZE, wr_bytes (memory st) buf (hdr_bytes ?h))"
    using metal_region.write_at [OF mr, of buf "hdr_bytes ?h" "memory st"] in1 by (simp add: HDR_SIZE_def)
  have w2: "io_block_write (e_io env) sio (io_virt_to_offset (e_io env) sio (buf + 16)) data (int (length data)) m' =
      (int (length data), wr_bytes m' (buf + 16) data)" for m'
    using metal_region.write_at [OF mr, of "buf + 16" data m'] in1 in2 d by simp
  show ?thesis
    using w1 w2 sb
    by (simp add: rpmsg_virtio_send_fill_def RPMSG_LOCATE_DATA_def RPMSG_ASSERT_def HDR_SIZE_def)
qed

lemma tx_fill:
  assumes mr: "metal_region (e_io env) sio base phys sz" and c: "tx_chan env sio base sz q st dv a [buf]"
    and d: "length data \<le> 496"
  shows "\<exists>st'. rpmsg_virtio_send_fill env src dst data (int (length data)) buf st = Inr st' \<and> same_dev st st' \<and>
    tx_chan env sio base sz q st' dv a [buf] \<and> kicks st' = kicks st \<and> vdev st' = vdev st \<and>
    msg_at (memory st') buf = (src, dst, data) \<and> msg_fits (memory st') buf \<and>
    tx_msgs (memory st') a = tx_msgs (memory st) a"
proof -
  let ?h = "\<lparr>hdr_src = src, hdr_dst = dst, hdr_reserved = 0, hdr_len = of_int (int (length data)),
    hdr_flags = e_junk env\<rparr>"
  let ?m = "wr_bytes (wr_bytes (memory st) buf (hdr_bytes ?h)) (buf + 16) data"
  let ?p = "shpool st"
  have P: "tx_pool base sz ?p a [buf]" and B: "tx_bufs (io_virt_to_phys (e_io env) sio) (memory st) a"
    and sb: "shbuf_io st = sio" and Q: "tx_queue sio q st dv a" and role: "rpmsg_virtio_get_role st = RPMSG_MASTER"
    using c by (auto simp: tx_chan_def)
  obtain k where k: "k < pool_taken ?p" "buf = pool_block ?p k" using P by (auto simp: tx_pool_def)
  have wf: "pool_wf ?p" and rg: "unat (pool_base ?p - base) + unat (pool_size ?p) \<le> sz"
    using P by (auto simp: tx_pool_def)
  have s63: "sz < 2 ^ 63" by (rule metal_region.size_fits [OF mr])
  have in1: "unat (buf - base) + 512 \<le> sz"
    unfolding k(2) by (rule pool_block_in_region [OF wf rg k(1) s63])
  note run = fill_run [OF mr sb in1 d, of src dst]
  have hl: "hdr_len ?h = of_nat (length data)" by simp
  note wm = msg_at_written [OF d hl, of "memory st" buf]
  have other: "msg_at ?m (ab_cookie b) = msg_at (memory st) (ab_cookie b) \<and> msg_fits ?m (ab_cookie b)"
    if b: "b \<in> set (a_avail a)" for b
  proof -
    have bf: "b \<in> set (in_flight a)" using b by (simp add: in_flight_def)
    obtain j where j: "j < pool_taken ?p" "ab_cookie b = pool_block ?p j"
      using P bf by (force simp: tx_pool_def)
    have "ab_cookie b \<in> ab_cookie ` set (in_flight a)" using bf by simp
    then have "ab_cookie b \<noteq> buf" using P by (auto simp: tx_pool_def)
    then have jk: "j \<noteq> k" using j k by auto
    have t: "512 * pool_taken ?p \<le> unat (pool_size ?p)" by (simp add: pool_taken_def)
    have lim: "512 * Suc j < 2 ^ 64" "512 * Suc k < 2 ^ 64"
      using j(1) k(1) t rg s63 by simp_all
    have "rd_bytes ?m (ab_cookie b + of_nat o') n = rd_bytes (memory st) (ab_cookie b + of_nat o') n"
      if "o' + n \<le> 512" for o' n
      using rd_wr_other [of "ab_cookie b + of_nat o'" n "buf + 16" data]
        rd_wr_other [of "ab_cookie b + of_nat o'" n buf "hdr_bytes ?h"]
        pool_blocks_disjoint [OF jk lim that, of 16 "length data" ?p]
        pool_blocks_disjoint [OF jk lim that, of 0 16 ?p] d
      by (simp add: j(2) k(2))
    then show ?thesis using msg_at_other [of "memory st" "ab_cookie b" ?m] B b by (auto simp: tx_bufs_def)
  qed
  have "tx_chan env sio base sz q (st\<lparr>memory := ?m\<rparr>) dv a [buf]"
    using Q P B sb role other by (simp add: tx_chan_def tx_queue_def tx_bufs_def rpmsg_virtio_get_role_def)
  moreover have "tx_msgs ?m a = tx_msgs (memory st) a" using other by (simp add: tx_msgs_def)
  ultimately show ?thesis using run wm by (auto simp: same_dev_def)
qed

subsection \<open>Enqueueing\<close>

lemma of_int_sint: "of_int (sint w) = (w :: 'a::len word)"
  by simp

lemma tx_enqueue:
  assumes c: "tx_chan env sio base sz q st dv a [buf]" and f: "msg_fits (memory st) buf" and bn: "buf \<noteq> NULL"
  shows "\<exists>vq m a'. rpmsg_virtio_enqueue_buffer env buf len idx st = Inr (VQUEUE_SUCCESS, put_vq q vq m st) \<and>
    tx_chan env sio base sz q (put_vq q vq m st) dv a' [] \<and> a_used a' = a_used a \<and> a_held a' = a_held a \<and>
    (\<exists>i. a_avail a' = a_avail a @ [\<lparr>ab_chain = [i], ab_cookie = buf,
       ab_addr = io_virt_to_phys (e_io env) sio buf, ab_len = len\<rparr>])"
proof -
  let ?s = "\<lparr>drv = vqs st ! q, dev = dv, shm = rings st ! q\<rparr>"
  have Q: "tx_queue sio q st dv a" and role: "rpmsg_virtio_get_role st = RPMSG_MASTER"
    and P: "tx_pool base sz (shpool st) a [buf]" and B: "tx_bufs (io_virt_to_phys (e_io env) sio) (memory st) a"
    and sb: "shbuf_io st = sio" using c by (auto simp: tx_chan_def)
  have R: "vq_rel ?s a" and sio: "shm_io (vqs st ! q) = sio" using Q by (simp_all add: tx_queue_def)
  obtain i fr where fr: "a_free a = i # fr" using P by (cases "a_free a") (auto simp: tx_pool_def)
  let ?b = "\<lparr>ab_chain = [i], ab_cookie = buf, ab_addr = io_virt_to_phys (e_io env) sio buf, ab_len = len\<rparr>"
  let ?a = "a\<lparr>a_free := fr, a_avail := a_avail a @ [?b]\<rparr>"
  obtain vq m where g: "virtqueue_add_buffer (io_virt_to_phys (e_io env)) (e_dbg env) (vqs st ! q) (rings st ! q)
        [\<lparr>vqb_buf = buf, vqb_len = sint len\<rparr>] 1 0 buf = Inr (VQUEUE_SUCCESS, vq, m)"
      "vq_config vq = vq_config (vqs st ! q)" "vq_rel \<lparr>drv = vq, dev = dv, shm = m\<rparr> ?a"
    using virtqueue_add_buffer_refines [OF R, of 1 0 1 "[\<lparr>vqb_buf = buf, vqb_len = sint len\<rparr>]" buf
        "io_virt_to_phys (e_io env)" "e_dbg env"] fr bn sio by auto
  have run: "rpmsg_virtio_enqueue_buffer env buf len idx st = Inr (VQUEUE_SUCCESS, put_vq q vq m st)"
    using role get_vq_tx [OF Q] g(1) by (simp add: rpmsg_virtio_enqueue_buffer_def)
  have io: "shm_io vq = sio" using vq_config_shm_io [OF g(2)] sio by simp
  have fl: "mset (map ab_cookie (in_flight ?a)) = mset (buf # map ab_cookie (in_flight a))"
    by (simp add: in_flight_def)
  have d: "distinct (map ab_cookie (in_flight ?a))"
    using mset_eq_imp_distinct_iff [OF fl] P by (simp add: tx_pool_def)
  have st: "set (map ab_cookie (in_flight ?a)) = set (buf # map ab_cookie (in_flight a))"
    by (rule mset_eq_setD [OF fl])
  have "tx_pool base sz (shpool st) ?a []"
    using P d unfolding tx_pool_def append_Nil st by (auto simp: fr)
  moreover have "tx_bufs (io_virt_to_phys (e_io env) sio) (memory st) ?a"
    using B f by (auto simp: tx_bufs_def in_flight_def)
  ultimately have "tx_chan env sio base sz q (put_vq q vq m st) dv ?a []"
    using role sb tx_queue_put [OF Q g(3) io] by (simp add: tx_chan_def)
  then show ?thesis using run by (intro exI [of _ vq] exI [of _ m] exI [of _ ?a]) auto
qed

lemma truncate_vdev: "vq_device.truncate (vdev st) = \<lparr>vd_features = vd_features (vdev st), vd_role = vd_role (vdev st)\<rparr>"
  by (simp add: vq_device.truncate_def)

lemma kick_notify:
  "virtqueue_kick dbg d vq m = Inr (c, vq') \<Longrightarrow> vq_config vq' = vq_config vq"
  by (auto simp: virtqueue_kick_def Let_def cres_simps VQUEUE_BUSY_def VQUEUE_IDLE_def vq_config_def split: if_splits)

lemma tx_kick:
  assumes c: "tx_chan env sio base sz q st dv a R"
  shows "\<exists>st'. kick_vq env (svq st) st = Inr st' \<and> same_dev st st' \<and> tx_chan env sio base sz q st' dv a R \<and>
    memory st' = memory st"
proof -
  let ?s = "\<lparr>drv = vqs st ! q, dev = dv, shm = rings st ! q\<rparr>"
  have Q: "tx_queue sio q st dv a" and role: "vd_role (vdev st) = RPMSG_MASTER"
    using c by (auto simp: tx_chan_def rpmsg_virtio_get_role_def)
  have A: "vq_abs sio (shm_io dv) ?s a" using Q by (simp add: tx_queue_def vq_abs_def)
  have md: "vq_device.truncate (vdev st) = master_dev (vd_features (vdev st))"
    using role by (simp add: truncate_vdev master_dev_def)
  from vq_ctl_exec_abs [OF A, of "e_dbg env" "vd_features (vdev st)" "Kick Driver"]
  obtain cl vq where k: "virtqueue_kick (e_dbg env) (master_dev (vd_features (vdev st))) (vqs st ! q) (rings st ! q) =
      Inr (cl, vq)" and r: "vq_rel \<lparr>drv = vq, dev = dv, shm = rings st ! q\<rparr> a" and io: "shm_io vq = sio"
    by (auto simp: cres_simps vq_abs_def)
  let ?st = "(put_vq q vq (rings st ! q) st)\<lparr>kicks := (case cl of None \<Rightarrow> kicks st | Some f \<Rightarrow> kicks st @ [q])\<rparr>"
  have "kick_vq env (svq st) st = Inr ?st"
    using get_vq_tx [OF Q] k md by (simp add: kick_vq_def)
  moreover have "tx_chan env sio base sz q ?st dv a R"
    using c tx_queue_put [OF Q r io] unfolding tx_chan_frame by (simp add: tx_chan_def)
  ultimately show ?thesis by (auto simp: same_dev_def)
qed

lemma tx_commit:
  assumes c: "tx_chan env sio base sz q st dv a [buf]" and f: "msg_fits (memory st) buf" and bn: "buf \<noteq> NULL"
    and l: "\<not> lock (rdev st)"
  shows "\<exists>st' a'. rpmsg_virtio_send_commit env buf len idx st = Inr st' \<and> same_dev st st' \<and>
    tx_chan env sio base sz q st' dv a' [] \<and> memory st' = memory st \<and>
    a_used a' = a_used a \<and> a_held a' = a_held a \<and>
    (\<exists>i. a_avail a' = a_avail a @ [\<lparr>ab_chain = [i], ab_cookie = buf,
       ab_addr = io_virt_to_phys (e_io env) sio buf, ab_len = len\<rparr>])"
proof -
  let ?st1 = "st\<lparr>rdev := (rdev st)\<lparr>lock := True\<rparr>\<rparr>"
  have lk: "lock_dev st = Inr ?st1" using l by (simp add: lock_dev_def)
  have c1: "tx_chan env sio base sz q ?st1 dv a [buf]" using c by simp
  have f1: "msg_fits (memory ?st1) buf" using f by simp
  obtain vq m a' where e: "rpmsg_virtio_enqueue_buffer env buf len idx ?st1 = Inr (VQUEUE_SUCCESS, put_vq q vq m ?st1)"
      and c2: "tx_chan env sio base sz q (put_vq q vq m ?st1) dv a' []"
      and a': "a_used a' = a_used a" "a_held a' = a_held a" "\<exists>i. a_avail a' = a_avail a @ [\<lparr>ab_chain = [i],
        ab_cookie = buf, ab_addr = io_virt_to_phys (e_io env) sio buf, ab_len = len\<rparr>]"
    using tx_enqueue [OF c1 f1 bn] by metis
  obtain st3 where k: "kick_vq env (svq (put_vq q vq m ?st1)) (put_vq q vq m ?st1) = Inr st3"
      "same_dev (put_vq q vq m ?st1) st3" "tx_chan env sio base sz q st3 dv a' []"
      "memory st3 = memory (put_vq q vq m ?st1)"
    using tx_kick [OF c2] by metis
  have "rpmsg_virtio_send_commit env buf len idx st = Inr (unlock_dev st3)"
    using lk e k(1) by (simp add: rpmsg_virtio_send_commit_def RPMSG_ASSERT_def)
  moreover have "same_dev st (unlock_dev st3)"
    using k(2) l by (simp add: same_dev_def unlock_dev_def)
  moreover have "tx_chan env sio base sz q (unlock_dev st3) dv a' []" using k(3) by (simp add: unlock_dev_def)
  ultimately show ?thesis using a' k(4) by (auto simp: unlock_dev_def)
qed

subsection \<open>The whole send\<close>

lemma buffer_size_master:
  "rpmsg_virtio_get_role st = RPMSG_MASTER \<Longrightarrow> rpmsg_virtio_get_buffer_size_nolock env st = Inr (496, st)"
  by (simp add: rpmsg_virtio_get_buffer_size_nolock_def RPMSG_BUFFER_SIZE_def HDR_SIZE_def)

lemma send_wait_master:
  assumes "rpmsg_virtio_get_role st = RPMSG_MASTER" and "\<not> lock (rdev st)" and "n \<le> 496"
  shows "rpmsg_virtio_send_wait tick env n l0 i0 st =
    cbind (rpmsg_virtio_get_tx_buffer env l0 i0 (st\<lparr>rdev := (rdev st)\<lparr>lock := True\<rparr>\<rparr>)) (\<lambda>(buf, len, idx, st3).
      if buf \<noteq> NULL \<or> tick = 0 then Inr (Inr (buf, len, idx), unlock_dev st3)
      else Inr (Inl RPMSG_ERR_BUFF_SIZE, unlock_dev st3))"
proof -
  let ?st1 = "st\<lparr>rdev := (rdev st)\<lparr>lock := True\<rparr>\<rparr>"
  have r: "rpmsg_virtio_get_role ?st1 = RPMSG_MASTER" using assms(1) by (simp add: rpmsg_virtio_get_role_def)
  show ?thesis
    unfolding rpmsg_virtio_send_wait.simps [of tick env n l0 i0 st]
    using assms buffer_size_master [OF r, of env]
    by (simp add: lock_dev_def Let_def cong: if_cong)
qed

lemma unlock_id: "\<not> lock (rdev st) \<Longrightarrow> unlock_dev (st\<lparr>rdev := (rdev st)\<lparr>lock := True\<rparr>\<rparr>) = st"
  by (simp add: unlock_dev_def)

text \<open>Whether a buffer is to be had: one that the remote gave back, or one of the pool.\<close>

definition tx_buffer_left where
  "tx_buffer_left st a \<longleftrightarrow> a_used a \<noteq> [] \<or> 0 < pool_left (shpool st)"

lemma tx_get:
  assumes c: "tx_chan env sio base sz q st dv a []" and left: "tx_buffer_left st a"
  shows "\<exists>buf len i st' a'. rpmsg_virtio_get_tx_buffer env l0 i0 st = Inr (buf, len, i, st') \<and> buf \<noteq> NULL \<and>
    same_dev st st' \<and> tx_chan env sio base sz q st' dv a' [buf] \<and> memory st' = memory st \<and>
    a_avail a' = a_avail a \<and> a_held a' = a_held a \<and> a_used a' = tl (a_used a)"
proof (cases "a_used a")
  case Nil
  then show ?thesis
    using tx_get_pool [OF c Nil, of l0 i0] left by (fastforce simp: tx_buffer_left_def)
next
  case (Cons u us)
  obtain b l where u: "u = (b, l)" by (cases u)
  have R: "vq_rel \<lparr>drv = vqs st ! q, dev = dv, shm = rings st ! q\<rparr> a"
    using c by (simp add: tx_chan_def tx_queue_def)
  have bn: "ab_cookie b \<noteq> NULL"
    using vq_relD(3) [OF R] Cons u by (simp add: vq_flight_ok_def buf_ok_def in_flight_def)
  show ?thesis
    using tx_get_used [OF c, of b l us l0 i0] Cons u bn by fastforce
qed

lemma send_master:
  assumes mr: "metal_region (e_io env) sio base phys sz" and c: "tx_chan env sio base sz q st dv a []"
    and ok: "rpmsg_virtio_get_status env st AND VIRTIO_CONFIG_STATUS_DRIVER_OK \<noteq> 0"
    and l: "\<not> lock (rdev st)" and d: "length data \<le> 496"
  shows "if tx_buffer_left st a then
      \<exists>st' a'. rpmsg_virtio_send_offchannel_raw env src dst data (int (length data)) wait st =
          Inr (int (length data), st') \<and>
        same_dev st st' \<and> tx_chan env sio base sz q st' dv a' [] \<and>
        tx_msgs (memory st') a' = tx_msgs (memory st) a @ [(src, dst, data)] \<and> a_held a' = a_held a
    else rpmsg_virtio_send_offchannel_raw env src dst data (int (length data)) wait st =
      Inr (if wait then RPMSG_ERR_BUFF_SIZE else RPMSG_ERR_NO_BUFF, st)"
proof -
  let ?st1 = "st\<lparr>rdev := (rdev st)\<lparr>lock := True\<rparr>\<rparr>"
  have role: "rpmsg_virtio_get_role st = RPMSG_MASTER" using c by (simp add: tx_chan_def)
  have c1: "tx_chan env sio base sz q ?st1 dv a []" using c by simp
  note w = send_wait_master [OF role l, of "int (length data)" _ env 0 0]
  have n: "int (length data) \<le> 496" using d by simp
  have t0: "RPMSG_TICK_COUNT div RPMSG_TICKS_PER_INTERVAL \<noteq> 0"
    by (simp add: RPMSG_TICK_COUNT_def RPMSG_TICKS_PER_INTERVAL_def)
  show ?thesis
  proof (cases "tx_buffer_left st a")
    case True
    then have "tx_buffer_left ?st1 a" by (simp add: tx_buffer_left_def)
    from tx_get [OF c1 this, of 0 0] obtain buf len i st3 a3 where
      g: "rpmsg_virtio_get_tx_buffer env 0 0 ?st1 = Inr (buf, len, i, st3)" "buf \<noteq> NULL" "same_dev ?st1 st3"
        "tx_chan env sio base sz q st3 dv a3 [buf]" "memory st3 = memory st" "a_avail a3 = a_avail a"
        "a_held a3 = a_held a" by auto
    let ?st4 = "unlock_dev st3"
    have c4: "tx_chan env sio base sz q ?st4 dv a3 [buf]" using g(4) by (simp add: unlock_dev_def)
    have sd: "same_dev st ?st4" using g(3) l by (simp add: same_dev_def unlock_dev_def)
    have l4: "\<not> lock (rdev ?st4)" using sd l by (simp add: same_dev_def)
    obtain st5 where f: "rpmsg_virtio_send_fill env src dst data (int (length data)) buf ?st4 = Inr st5"
        "same_dev ?st4 st5" "tx_chan env sio base sz q st5 dv a3 [buf]"
        "msg_at (memory st5) buf = (src, dst, data)" "msg_fits (memory st5) buf"
        "tx_msgs (memory st5) a3 = tx_msgs (memory ?st4) a3"
      using tx_fill [OF mr c4 d, of src dst] by auto
    have l5: "\<not> lock (rdev st5)" using f(2) l4 by (simp add: same_dev_def)
    obtain st6 a6 i6 where cm: "rpmsg_virtio_send_commit env buf len i st5 = Inr st6" "same_dev st5 st6"
        "tx_chan env sio base sz q st6 dv a6 []" "memory st6 = memory st5" "a_held a6 = a_held a3"
        "a_avail a6 = a_avail a3 @ [\<lparr>ab_chain = [i6], ab_cookie = buf,
           ab_addr = io_virt_to_phys (e_io env) sio buf, ab_len = len\<rparr>]"
      using tx_commit [OF f(3,5) g(2) l5, of len i] by auto
    have "rpmsg_virtio_send_offchannel_raw env src dst data (int (length data)) wait st =
        Inr (int (length data), st6)"
      using ok w [OF n] g(1,2) f(1) cm(1) by (simp add: rpmsg_virtio_send_offchannel_raw_def)
    moreover have "same_dev st st6" using sd f(2) cm(2) by (meson same_dev_trans)
    moreover have "tx_msgs (memory st6) a6 = tx_msgs (memory st) a @ [(src, dst, data)]"
      using cm(4,6) f(4,6) g(5,6) by (simp add: tx_msgs_def unlock_dev_def)
    ultimately show ?thesis using True cm(3,5) g(7) by auto
  next
    case False
    then have u: "a_used a = []" "pool_left (shpool ?st1) = 0" by (auto simp: tx_buffer_left_def)
    show ?thesis
      using False ok w [OF n] tx_get_none [OF c1 u, of 0 0] t0 unlock_id [OF l]
      by (simp add: rpmsg_virtio_send_offchannel_raw_def)
  qed
qed

end
