(* ===== verification/Rpmsg_Props.thy ===== *)
theory Rpmsg_Props
  imports Rpmsg_Tx
begin

text \<open>
  What rpmsg over virtio promises. The locale \<open>master_channel\<close> assumes the laws of libmetal for the
  shared buffer region and the address bitmap; the master's send function then satisfies the
  contract of a transport, so that the facts about endpoint management hold for it. The contract is
  interpreted for directly mapped regions and bitmaps of longs.
\<close>

locale master_channel = region: metal_region "e_io env" sio base phys sz +
  addrs: metal_bitmap "e_bitmap env" bits RPMSG_ADDR_BMP_SIZE valid
  for env :: "'b rv_env" and sio base phys sz bits valid and q :: nat
begin

lemma send_total:
  assumes "\<exists>dv a. tx_chan env sio base sz q st dv a []" and "\<not> lock (rdev st)" and "length bs \<le> 496"
  shows "\<exists>r st'. rpmsg_virtio_send_offchannel_raw env src dst bs (int (length bs)) w st = Inr (r, st') \<and>
    (\<exists>dv a. tx_chan env sio base sz q st' dv a []) \<and> self st' = self st \<and> rdev st' = rdev st \<and> epts st' = epts st"
proof (cases "rpmsg_virtio_get_status env st AND VIRTIO_CONFIG_STATUS_DRIVER_OK = 0")
  case True
  then show ?thesis using assms(1) by (simp add: rpmsg_virtio_send_offchannel_raw_def)
next
  case False
  obtain dv a where c: "tx_chan env sio base sz q st dv a []" using assms(1) by blast
  note s = send_master [OF region.metal_region_axioms c False assms(2,3), of src dst w]
  show ?thesis
  proof (cases "tx_buffer_left st a")
    case True
    then show ?thesis using s by (auto simp: same_dev_def)
  next
    case False
    then show ?thesis using s assms(1) by simp
  qed
qed

end

sublocale master_channel \<subseteq> mgmt: rpmsg_mgmt "e_bitmap env" bits valid "rpmsg_virtio_send_offchannel_raw env"
  "\<lambda>st. \<exists>dv a. tx_chan env sio base sz q st dv a []"
proof unfold_locales
  fix st :: "'b rpmsg_virtio_device" and bs :: "u8 list" and src dst :: u32 and w :: bool
  assume "\<exists>dv a. tx_chan env sio base sz q st dv a []" and "\<not> lock (rdev st)" and "length bs \<le> 496"
  then show "\<exists>r st'. rpmsg_virtio_send_offchannel_raw env src dst bs (int (length bs)) w st = Inr (r, st') \<and>
      (\<exists>dv a. tx_chan env sio base sz q st' dv a []) \<and> self st' = self st \<and> rdev st' = rdev st \<and> epts st' = epts st"
    by (rule send_total)
qed simp

context master_channel
begin

lemmas create_master = mgmt.create_ok
lemmas destroy_master = mgmt.destroy_ok

end

definition flat_env :: "u64 list rv_env \<Rightarrow> ptr \<Rightarrow> u64 \<Rightarrow> 31 word \<Rightarrow> u64 list rv_env" where
  "flat_env env b p n = env\<lparr>e_io := flat_region b p n, e_bitmap := long_bitmap\<rparr>"

interpretation flat_master: master_channel "flat_env env b p n" sio b p "unat n" long_bits "\<lambda>b. length b = 2" q
  for env b p n sio q
proof -
  have r: "metal_region (e_io (flat_env env b p n)) sio b p (unat n)"
    using flat.metal_region_axioms [where b = b and p = p and n = n and io = sio] by (simp add: flat_env_def)
  have m: "metal_bitmap (e_bitmap (flat_env env b p n)) long_bits RPMSG_ADDR_BMP_SIZE (\<lambda>b. length b = 2)"
    using longs.metal_bitmap_axioms [of 2] by (simp add: flat_env_def RPMSG_ADDR_BMP_SIZE_def)
  show "master_channel (flat_env env b p n) sio b p (unat n) long_bits (\<lambda>b. length b = 2)"
    using r m by (simp add: master_channel_def)
qed

subsection \<open>A concrete device\<close>

text \<open>A master whose send queue was just created, with a pool of two buffers and no endpoint yet.\<close>

definition demo_env :: "u64 list rv_env" where
  "demo_env = flat_env
     \<lparr>e_io = flat_region 0x3000 0x3000 0x1000, e_bitmap = long_bitmap,
      e_zero_ring = (\<lambda>io va len m. zero_vring_mem (length (desc m))), e_dbg = False,
      e_get_status = (\<lambda>m. m 0x9000), e_set_status = (\<lambda>s m. wr8 m 0x9000 s), e_get_features = (\<lambda>m. 1),
      e_read_config = (\<lambda>off len m. None), e_write_config = (\<lambda>off bs len m. m), e_junk = 0xBEEF,
      e_sleep = (\<lambda>k st. st), e_poll = (\<lambda>k m. m), e_cb = (\<lambda>cb ept data len src priv st. Inr (0, st)),
      e_unbind = (\<lambda>cb ept st. Inr st), e_bind = (\<lambda>cb name dest st. Inr st)\<rparr> 0x3000 0x3000 0x1000"

definition demo_mem :: mem where
  "demo_mem = (\<lambda>a. if a = 0x9000 then 4 else 0)"

definition demo_ept :: "ptr \<Rightarrow> rpmsg_endpoint option" where
  "demo_ept = [0x700 \<mapsto> zero_ept]"

definition demo_dev :: "u32 \<Rightarrow> virtqueue \<Rightarrow> vring_mem \<Rightarrow> u64 list rpmsg_virtio_device" where
  "demo_dev role vq m =
     \<lparr>self = 0x500,
      rdev = \<lparr>endpoints = [], ns_ept = 0x600, bitmap = [0, 0], lock = False, ns_bind_cb = 0,
              send_offchannel_raw = SEND_RAW, support_ns = True\<rparr>,
      epts = demo_ept,
      vdev = \<lparr>vd_features = 1, vd_role = role, vd_notifyid = 0, vd_device_id = 7, vd_vendor_id = 0,
              vd_reset_cb = 0, vd_func_notify = 9, vd_priv = 0, vd_vrings_num = 2, vd_vrings_info = []\<rparr>,
      vqs = [vq], rings = [m], rvq = Some 0, svq = Some 0, shbuf_io = 1,
      shpool = \<lparr>pool_base = 0x3000, pool_avail = 1024, pool_size = 1024\<rparr>, memory = demo_mem, kicks = []\<rparr>"

lemma demo_sel [simp]:
  "vd_role (vdev (demo_dev r vq m)) = r" "shbuf_io (demo_dev r vq m) = 1" "lock (rdev (demo_dev r vq m)) = False"
  "shpool (demo_dev r vq m) = \<lparr>pool_base = 0x3000, pool_avail = 1024, pool_size = 1024\<rparr>"
  "endpoints (rdev (demo_dev r vq m)) = []" "epts (demo_dev r vq m) = demo_ept" "self (demo_dev r vq m) = 0x500"
  "memory (demo_dev r vq m) = demo_mem" "bitmap (rdev (demo_dev r vq m)) = [0, 0]"
  by (simp_all add: demo_dev_def)

lemma demo_chan:
  assumes "vq_abs 1 2 s (avq_init 4)"
  shows "tx_chan demo_env 1 0x3000 0x1000 0 (demo_dev RPMSG_MASTER (drv s) (shm s)) (dev s) (avq_init 4) []"
proof -
  have s: "vq_rel \<lparr>drv = drv s, dev = dev s, shm = shm s\<rparr> (avq_init 4)" "shm_io (drv s) = 1"
    using assms by (cases s; simp add: vq_abs_def)+
  show ?thesis
    using s by (simp add: tx_chan_def tx_queue_def tx_pool_def tx_bufs_def demo_dev_def rpmsg_virtio_get_role_def
        pool_wf_def pool_left_def avq_init_def in_flight_def)
qed

lemma demo_region: "metal_region (e_io demo_env) 1 0x3000 0x3000 0x1000"
  using flat.metal_region_axioms [where b = "0x3000" and p = "0x3000" and n = "0x1000" and io = "1"] by (simp add: demo_env_def flat_env_def)

lemma demo_bitmap: "metal_bitmap (e_bitmap demo_env) long_bits RPMSG_ADDR_BMP_SIZE (\<lambda>b. length b = 2)"
  using longs.metal_bitmap_axioms [of 2] by (simp add: demo_env_def flat_env_def RPMSG_ADDR_BMP_SIZE_def)

lemma demo_status [simp]: "rpmsg_virtio_get_status demo_env (demo_dev r vq m) = 4"
  by (simp add: rpmsg_virtio_get_status_def demo_env_def flat_env_def demo_dev_def demo_mem_def)

lemma demo_inv: "ept_inv long_bits (\<lambda>b. length b = 2) (demo_dev r vq m)"
  by (auto simp: ept_inv_def demo_dev_def demo_ept_def dyn_epts_def long_bits_def less_Suc_eq nth_Cons'
      less_2_cases_iff)

subsection \<open>Sending\<close>

text \<open>
  C3. Sending from the master. In a ready device whose send channel is in order, a message of at
  most 496 bytes is handled as follows. If the remote has given back a buffer or the pool has one
  left, the call returns the length, appends exactly this message to the messages that wait for the
  remote, leaves the waiting messages as they are and keeps the channel in order. Otherwise it
  returns at once with an error, also when asked to wait, and nothing changes.
\<close>

theorem send_appends_message:
  assumes "metal_region (e_io env) sio base phys sz" and "tx_chan env sio base sz q st dv a []"
    and "rpmsg_virtio_get_status env st AND VIRTIO_CONFIG_STATUS_DRIVER_OK \<noteq> 0"
    and "\<not> lock (rdev st)" and "length data \<le> 496"
  shows "if a_used a \<noteq> [] \<or> 0 < pool_left (shpool st) then
      \<exists>st' a'. rpmsg_virtio_send_offchannel_raw env src dst data (int (length data)) wait st =
          Inr (int (length data), st') \<and>
        tx_chan env sio base sz q st' dv a' [] \<and>
        tx_msgs (memory st') a' = tx_msgs (memory st) a @ [(src, dst, data)] \<and>
        rdev st' = rdev st \<and> epts st' = epts st
    else rpmsg_virtio_send_offchannel_raw env src dst data (int (length data)) wait st =
      Inr (if wait then RPMSG_ERR_BUFF_SIZE else RPMSG_ERR_NO_BUFF, st)"
  using send_master [OF assms, of src dst wait]
  by (cases "tx_buffer_left st a") (auto simp: tx_buffer_left_def same_dev_def)

theorem send_appends_message_witness:
  "\<exists>s st' a'. vq_boot False 0 ''q'' demo_ring 0 9 1 2 = Inr (VQUEUE_SUCCESS, VQUEUE_SUCCESS, s) \<and>
    rpmsg_virtio_send_offchannel_raw demo_env 5 6 [1, 2, 3] (int (length [1, 2, 3 :: u8])) True
      (demo_dev RPMSG_MASTER (drv s) (shm s)) = Inr (int (length [1, 2, 3 :: u8]), st') \<and>
    tx_chan demo_env 1 0x3000 0x1000 0 st' (dev s) a' [] \<and> tx_msgs (memory st') a' = [(5, 6, [1, 2, 3])]"
proof -
  obtain s where b: "vq_boot False 0 ''q'' demo_ring 0 9 1 2 = Inr (VQUEUE_SUCCESS, VQUEUE_SUCCESS, s)"
    and A: "vq_abs 1 2 s (avq_init 4)" using demo_boot by blast
  have p: "pool_left (shpool (demo_dev RPMSG_MASTER (drv s) (shm s))) = 2"
    by (simp add: demo_dev_def pool_left_def)
  have l: "\<not> lock (rdev (demo_dev RPMSG_MASTER (drv s) (shm s)))" by (simp add: demo_dev_def)
  have t: "tx_msgs m0 (avq_init 4) = []" for m0 by (simp add: tx_msgs_def avq_init_def)
  show ?thesis
    using send_appends_message [OF demo_region demo_chan [OF A] _ l, of "[1, 2, 3]" 5 6 True] b p t
    by (auto simp: VIRTIO_CONFIG_STATUS_DRIVER_OK_def)
qed

text \<open>
  C38. A pool that is too large. The pool may hold more buffers than the send queue has descriptors,
  and nothing in the code compares the two. If the pool still has a buffer while every descriptor
  of the master's send queue is in flight and none has come back, then sending a message leaves the
  array of descriptor extras (in a build without \<open>VQUEUE_DEBUG\<close>); in a debug build it stops at the
  assertion after enqueueing.
\<close>

theorem send_full_ring_faults:
  assumes "metal_region (e_io env) sio base phys sz" and "rpmsg_virtio_get_role st = RPMSG_MASTER"
    and "shbuf_io st = sio" and "tx_queue sio q st dv a" and "a_free a = []" and "a_used a = []"
    and "pool_wf (shpool st)" and "0 < pool_left (shpool st)"
    and "unat (pool_base (shpool st) - base) + unat (pool_size (shpool st)) \<le> sz"
    and "rpmsg_virtio_get_status env st AND VIRTIO_CONFIG_STATUS_DRIVER_OK \<noteq> 0"
    and "\<not> lock (rdev st)" and "length data \<le> 496"
  shows "rpmsg_virtio_send_offchannel_raw env src dst data (int (length data)) wait st =
    Inl (if e_dbg env then Assert_failed else Out_of_bounds)"
proof -
  let ?s = "\<lparr>drv = vqs st ! q, dev = dv, shm = rings st ! q\<rparr>" and ?p = "shpool st"
  let ?st1 = "st\<lparr>rdev := (rdev st)\<lparr>lock := True\<rparr>\<rparr>"
  have R: "vq_rel ?s a" using assms(4) by (simp add: tx_queue_def)
  have Q1: "tx_queue sio q ?st1 dv a" and r1: "rpmsg_virtio_get_role ?st1 = RPMSG_MASTER"
    using assms(2,4) by (simp_all add: tx_queue_def rpmsg_virtio_get_role_def)
  have g: "virtqueue_get_buffer (e_dbg env) (Some (vqs st ! q)) (rings st ! q) 0 0 =
      Inr (NULL, 0, 0, Some (vqs st ! q), rings st ! q)"
    using get_buffer_empty [OF R assms(6)] by simp
  obtain p' where p': "rpmsg_virtio_shm_pool_get_buffer ?p RPMSG_BUFFER_SIZE = (pool_block ?p (pool_taken ?p), p')"
      "pool_block ?p (pool_taken ?p) \<noteq> NULL" "pool_wf p'" "pool_base p' = pool_base ?p"
      "pool_size p' = pool_size ?p" "pool_taken p' = Suc (pool_taken ?p)"
    using pool_get_block [OF assms(7,8)] by metis
  let ?buf = "pool_block ?p (pool_taken ?p)"
  have id: "put_vq q (vqs st ! q) (rings st ! q) ?st1 = ?st1" by (simp add: put_vq_def)
  have tx: "rpmsg_virtio_get_tx_buffer env 0 0 ?st1 = Inr (?buf, 512, 0, ?st1\<lparr>shpool := p'\<rparr>)"
    using r1 get_vq_tx [OF Q1] g p'(1) Q1 id
    by (simp add: rpmsg_virtio_get_tx_buffer_def tx_queue_def RPMSG_BUFFER_SIZE_def)
  let ?st4 = "unlock_dev (?st1\<lparr>shpool := p'\<rparr>)"
  have "pool_block p' (pool_taken ?p) = ?buf" using p'(4) by (simp add: pool_block_def)
  moreover have "unat (pool_block p' (pool_taken ?p) - base) + 512 \<le> sz"
    using pool_block_in_region [OF p'(3), of base sz "pool_taken ?p"] p'(4-6) assms(9)
      metal_region.size_fits [OF assms(1)] by simp
  ultimately have "unat (?buf - base) + 512 \<le> sz" by simp
  then obtain m5 where f: "rpmsg_virtio_send_fill env src dst data (int (length data)) ?buf ?st4 =
      Inr (?st4\<lparr>memory := m5\<rparr>)"
    using fill_run [OF assms(1) _ _ assms(12), of ?st4 ?buf src dst] assms(3) by (simp add: unlock_dev_def)
  let ?st6 = "?st4\<lparr>memory := m5, rdev := (rdev st)\<lparr>lock := True\<rparr>\<rparr>"
  have Q6: "tx_queue sio q ?st6 dv a" and r6: "rpmsg_virtio_get_role ?st6 = RPMSG_MASTER"
    using assms(2,4) by (simp_all add: tx_queue_def rpmsg_virtio_get_role_def unlock_dev_def)
  have same: "vqs ?st6 = vqs st" "rings ?st6 = rings st" by (simp_all add: unlock_dev_def)
  have "rpmsg_virtio_send_commit env ?buf 512 0 (?st4\<lparr>memory := m5\<rparr>) =
      Inl (if e_dbg env then Assert_failed else Out_of_bounds)"
    using add_buffer_full_lemma [OF R assms(5), of 1 0 "io_virt_to_phys (e_io env)"
        "[\<lparr>vqb_buf = ?buf, vqb_len = sint (512 :: u32)\<rparr>]" ?buf] get_vq_tx [OF Q6] r6 same
    by (cases "e_dbg env") (simp_all add: rpmsg_virtio_send_commit_def rpmsg_virtio_enqueue_buffer_def
        lock_dev_def unlock_dev_def RPMSG_ASSERT_def vq_status_defs)
  then show ?thesis
    using assms(10) send_wait_master [OF assms(2,11), of "int (length data)" _ env 0 0] tx p'(2) f assms(12)
    by (simp add: rpmsg_virtio_send_offchannel_raw_def)
qed

theorem send_full_ring_faults_witness:
  "\<exists>s0 outs s. vq_boot False 0 ''q'' demo_ring 0 9 1 2 = Inr (VQUEUE_SUCCESS, VQUEUE_SUCCESS, s0) \<and>
    run_ops (vq_exec (\<lambda>io p. p) (\<lambda>io p. p) False) demo_full_ops s0 = Inr (outs, s) \<and>
    rpmsg_virtio_send_offchannel_raw demo_env 5 6 [1, 2, 3] (int (length [1, 2, 3 :: u8])) True
      (demo_dev RPMSG_MASTER (drv s) (shm s)) = Inl (if e_dbg demo_env then Assert_failed else Out_of_bounds)"
proof -
  obtain s0 outs s a where b: "vq_boot False 0 ''q'' demo_ring 0 9 1 2 = Inr (VQUEUE_SUCCESS, VQUEUE_SUCCESS, s0)"
    "run_ops (vq_exec (\<lambda>io p. p) (\<lambda>io p. p) False) demo_full_ops s0 = Inr (outs, s)"
    and A: "vq_abs 1 2 s a" "a_free a = []" "a_used a = []" using demo_full by blast
  let ?st = "demo_dev RPMSG_MASTER (drv s) (shm s)"
  have Q: "tx_queue 1 0 ?st (dev s) a"
    using A(1) by (cases s) (simp add: tx_queue_def demo_dev_def vq_abs_def)
  have "rpmsg_virtio_send_offchannel_raw demo_env 5 6 [1, 2, 3] (int (length [1, 2, 3 :: u8])) True ?st =
      Inl (if e_dbg demo_env then Assert_failed else Out_of_bounds)"
    by (rule send_full_ring_faults [OF demo_region _ _ Q A(2,3)])
      (simp_all add: rpmsg_virtio_get_role_def pool_wf_def pool_left_def VIRTIO_CONFIG_STATUS_DRIVER_OK_def)
  then show ?thesis using b by blast
qed

subsection \<open>Endpoints\<close>

text \<open>
  C18. Creating an endpoint. From a device that satisfies the endpoint invariant, and for an
  endpoint that is not registered yet, \<open>rpmsg_create_ept\<close> returns without a fault or a deadlock and
  keeps the invariant: the bitmap is exactly the set of dynamic addresses in use and no two
  endpoints share one. On success the endpoint is registered last, with the address asked for, or
  with a dynamic address that was free. On any error, a failed announcement included, the list and
  the set of used addresses are as before.
\<close>

theorem create_ept_keeps_inv:
  assumes "metal_region (e_io env) sio base phys sz"
    and "metal_bitmap (e_bitmap env) bits RPMSG_ADDR_BMP_SIZE valid"
    and "ept_inv bits valid st" and "tx_chan env sio base sz q st dv a []"
    and "p \<notin> set (endpoints (rdev st))" and "p \<noteq> NULL" and "epts st p = Some e0"
  shows "\<exists>r st'. rpmsg_create_ept (e_bitmap env) (rpmsg_virtio_send_offchannel_raw env) p name src dest cb ucb st =
      Inr (r, st') \<and> ept_inv bits valid st' \<and>
    (if r = 0 then endpoints (rdev st') = endpoints (rdev st) @ [p] \<and>
       (\<exists>ad. epts st' = (epts st)(p \<mapsto> (rpmsg_initialize_ept e0 name ad dest cb ucb)\<lparr>ep_rdev := self st\<rparr>) \<and>
          (if src = RPMSG_ADDR_ANY
           then 1024 \<le> unat ad \<and> unat ad < 1152 \<and> unat ad - 1024 \<notin> bits (bitmap (rdev st)) else ad = src))
     else r < 0 \<and> endpoints (rdev st') = endpoints (rdev st) \<and>
       bits (bitmap (rdev st')) = bits (bitmap (rdev st)))"
proof -
  have mc: "master_channel env sio base phys sz bits valid"
    using assms(1,2) by (simp add: master_channel_def)
  have t: "\<exists>dv a. tx_chan env sio base sz q st dv a []" using assms(4) by blast
  show ?thesis
    using master_channel.create_master [OF mc assms(3) t assms(5,6,7), of name src dest cb ucb]
    unfolding dyn_addr_def conj_assoc by blast
qed

theorem create_ept_keeps_inv_witness:
  "\<exists>s. vq_boot False 0 ''q'' demo_ring 0 9 1 2 = Inr (VQUEUE_SUCCESS, VQUEUE_SUCCESS, s) \<and>
    (let st = demo_dev RPMSG_MASTER (drv s) (shm s); bits = long_bits; valid = (\<lambda>b. length b = 2) in
     \<exists>r st'. rpmsg_create_ept (e_bitmap demo_env) (rpmsg_virtio_send_offchannel_raw demo_env) 0x700
         (Some [0x65, 0x66]) RPMSG_ADDR_ANY RPMSG_ADDR_ANY 11 12 st = Inr (r, st') \<and> ept_inv bits valid st' \<and>
       (if r = 0 then endpoints (rdev st') = endpoints (rdev st) @ [0x700] \<and>
          (\<exists>ad. epts st' = (epts st)(0x700 \<mapsto> (rpmsg_initialize_ept zero_ept (Some [0x65, 0x66]) ad RPMSG_ADDR_ANY 11 12)
               \<lparr>ep_rdev := self st\<rparr>) \<and>
             (if RPMSG_ADDR_ANY = RPMSG_ADDR_ANY
              then 1024 \<le> unat ad \<and> unat ad < 1152 \<and> unat ad - 1024 \<notin> bits (bitmap (rdev st)) else ad = RPMSG_ADDR_ANY))
        else r < 0 \<and> endpoints (rdev st') = endpoints (rdev st) \<and>
          bits (bitmap (rdev st')) = bits (bitmap (rdev st))))"
proof -
  obtain s where b: "vq_boot False 0 ''q'' demo_ring 0 9 1 2 = Inr (VQUEUE_SUCCESS, VQUEUE_SUCCESS, s)"
    and A: "vq_abs 1 2 s (avq_init 4)" using demo_boot by blast
  show ?thesis
    using b create_ept_keeps_inv [OF demo_region demo_bitmap demo_inv demo_chan [OF A],
        where p = "0x700" and ?e0.0 = zero_ept and name = "Some [0x65, 0x66]" and src = RPMSG_ADDR_ANY
          and dest = RPMSG_ADDR_ANY and cb = "11" and ucb = "12"] unfolding Let_def
    by (simp add: demo_ept_def)
qed

text \<open>
  C22. Destroying an endpoint. \<open>rpmsg_destroy_ept\<close> on a registered endpoint returns without a fault
  or a deadlock, keeps the invariant, removes the endpoint from the list and frees its address if
  it is a dynamic one; whether the announcement can be sent makes no difference.
\<close>

theorem destroy_ept_frees_address:
  assumes "metal_region (e_io env) sio base phys sz"
    and "metal_bitmap (e_bitmap env) bits RPMSG_ADDR_BMP_SIZE valid"
    and "ept_inv bits valid st" and "tx_chan env sio base sz q st dv a []"
    and "p \<in> set (endpoints (rdev st))" and "epts st p = Some e"
  shows "\<exists>st'. rpmsg_destroy_ept (e_bitmap env) (rpmsg_virtio_send_offchannel_raw env) p st = Inr st' \<and>
    ept_inv bits valid st' \<and> endpoints (rdev st') = remove1 p (endpoints (rdev st)) \<and>
    epts st' = (epts st)(p \<mapsto> e\<lparr>ep_rdev := NULL\<rparr>) \<and>
    bits (bitmap (rdev st')) = bits (bitmap (rdev st)) -
      (if 1024 \<le> unat (ep_addr e) then {unat (ep_addr e) - 1024} else {})"
proof -
  have mc: "master_channel env sio base phys sz bits valid"
    using assms(1,2) by (simp add: master_channel_def)
  have t: "\<exists>dv a. tx_chan env sio base sz q st dv a []" using assms(4) by blast
  have lt: "unat (ep_addr e) < 1152" using assms(3,5,6) by (auto simp: ept_inv_def registered_def)
  obtain st' where s: "rpmsg_destroy_ept (e_bitmap env) (rpmsg_virtio_send_offchannel_raw env) p st = Inr st'"
      "ept_inv bits valid st'" "endpoints (rdev st') = remove1 p (endpoints (rdev st))"
      "epts st' = (epts st)(p \<mapsto> e\<lparr>ep_rdev := NULL\<rparr>)"
      "bits (bitmap (rdev st')) = (if dyn_addr (ep_addr e)
        then bits (bitmap (rdev st)) - {unat (ep_addr e) - 1024} else bits (bitmap (rdev st)))"
    using master_channel.destroy_master [OF mc assms(3) t assms(5,6)] by blast
  then show ?thesis using dyn_addr_iff [OF lt] by auto
qed

text \<open>The device with one endpoint, at the first dynamic address.\<close>

definition demo_reg :: "u32 \<Rightarrow> virtqueue \<Rightarrow> vring_mem \<Rightarrow> u64 list rpmsg_virtio_device" where
  "demo_reg r vq m = (demo_dev r vq m)
     \<lparr>rdev := (rdev (demo_dev r vq m))\<lparr>endpoints := [0x700], bitmap := set_bit_at long_bitmap [0, 0] 0\<rparr>,
      epts := [0x700 \<mapsto> zero_ept\<lparr>ep_addr := 1024, ep_rdev := 0x500, ep_cb := 11\<rparr>]\<rparr>"

lemma demo_reg_inv: "ept_inv long_bits (\<lambda>b. length b = 2) (demo_reg r vq m)"
proof -
  have "long_bits [0, 0] = {}" by (auto simp: long_bits_def less_Suc_eq nth_Cons' less_2_cases_iff)
  moreover have "(1024 :: u32) < 1152" by simp
  ultimately have "long_bits (set_bit_at long_bitmap [0, 0] 0) = {0} \<and> length (set_bit_at long_bitmap [0, 0] 0) = 2"
    using longs.set_bits [of "[0, 0]" 2 0] by simp
  then show ?thesis
    by (simp add: ept_inv_def demo_reg_def dyn_epts_def registered_def ept_addr_def)
qed

theorem destroy_ept_frees_address_witness:
  "\<exists>s. vq_boot False 0 ''q'' demo_ring 0 9 1 2 = Inr (VQUEUE_SUCCESS, VQUEUE_SUCCESS, s) \<and>
    (let st = demo_reg RPMSG_MASTER (drv s) (shm s); e = zero_ept\<lparr>ep_addr := 1024, ep_rdev := 0x500, ep_cb := 11\<rparr> in
     \<exists>st'. rpmsg_destroy_ept (e_bitmap demo_env) (rpmsg_virtio_send_offchannel_raw demo_env) 0x700 st = Inr st' \<and>
       ept_inv long_bits (\<lambda>b. length b = 2) st' \<and> endpoints (rdev st') = remove1 0x700 (endpoints (rdev st)) \<and>
       epts st' = (epts st)(0x700 \<mapsto> e\<lparr>ep_rdev := NULL\<rparr>) \<and>
       long_bits (bitmap (rdev st')) = long_bits (bitmap (rdev st)) -
         (if 1024 \<le> unat (ep_addr e) then {unat (ep_addr e) - 1024} else {}))"
proof -
  obtain s where b: "vq_boot False 0 ''q'' demo_ring 0 9 1 2 = Inr (VQUEUE_SUCCESS, VQUEUE_SUCCESS, s)"
    and A: "vq_abs 1 2 s (avq_init 4)" using demo_boot by blast
  have c: "tx_chan demo_env 1 0x3000 0x1000 0 (demo_reg RPMSG_MASTER (drv s) (shm s)) (dev s) (avq_init 4) []"
    using demo_chan [OF A] by (simp add: demo_reg_def)
  show ?thesis unfolding Let_def
    by (rule exI [of _ s], rule conjI [OF b],
        rule destroy_ept_frees_address [OF demo_region demo_bitmap demo_reg_inv c])
      (simp_all add: demo_reg_def)
qed

lemma get_endpoint_loop_cong:
  "epts st = epts st' \<Longrightarrow> rpmsg_get_endpoint_loop st name addr dest ps = rpmsg_get_endpoint_loop st' name addr dest ps"
  by (induction ps) (auto simp: get_ept_def split: option.split)

lemma get_endpoint_loop_find:
  assumes "\<forall>p \<in> set ps. registered st p" and "addr \<noteq> RPMSG_ADDR_ANY"
  shows "rpmsg_get_endpoint_loop st None addr RPMSG_ADDR_ANY ps =
    Inr (case find (\<lambda>p. ept_addr st p = unat addr) ps of None \<Rightarrow> NULL | Some p \<Rightarrow> p)"
  using assms
proof (induction ps)
  case (Cons p ps)
  then obtain e where "epts st p = Some e" by (auto simp: registered_def)
  moreover have "unat (ep_addr e) = unat addr \<longleftrightarrow> ep_addr e = addr" by (simp add: word_unat_eq_iff)
  ultimately show ?case using Cons by (auto simp: get_ept_def ept_matches_def ept_addr_def)
qed simp

text \<open>
  Finding the endpoint of a message. In a device that satisfies the invariant, the search for a
  local address other than \<open>RPMSG_ADDR_ANY\<close> returns a registered endpoint that has this address, or
  NULL when there is none; for a dynamic address the endpoint found is the only one.
\<close>

theorem lookup_by_address:
  assumes "ept_inv bits valid st" and "addr \<noteq> RPMSG_ADDR_ANY"
  shows "\<exists>p. rpmsg_get_ept_from_addr st addr = Inr p \<and>
    (if p = NULL then \<forall>r \<in> set (endpoints (rdev st)). ept_addr st r \<noteq> unat addr
     else p \<in> set (endpoints (rdev st)) \<and> ept_addr st p = unat addr \<and>
       (1024 \<le> unat addr \<longrightarrow> (\<forall>r \<in> set (endpoints (rdev st)). ept_addr st r = unat addr \<longrightarrow> r = p)))"
proof -
  note i = assms(1) [unfolded ept_inv_def]
  let ?f = "find (\<lambda>p. ept_addr st p = unat addr) (endpoints (rdev st))"
  have run: "rpmsg_get_ept_from_addr st addr = Inr (case ?f of None \<Rightarrow> NULL | Some p \<Rightarrow> p)"
    unfolding rpmsg_get_ept_from_addr_def rpmsg_get_endpoint_def
    using get_endpoint_loop_find assms(2) i by blast
  have nn: "NULL \<notin> set (endpoints (rdev st))" using i by (force simp: registered_def)
  have uniq: "r = p" if "1024 \<le> unat addr" "p \<in> set (endpoints (rdev st))" "r \<in> set (endpoints (rdev st))"
      "ept_addr st p = unat addr" "ept_addr st r = unat addr" for p r
    using i that by (auto simp: distinct_map inj_on_def dyn_epts_def)
  show ?thesis
  proof (cases ?f)
    case None
    then have "\<forall>r \<in> set (endpoints (rdev st)). ept_addr st r \<noteq> unat addr" by (auto simp: find_None_iff)
    then show ?thesis using run unfolding None by simp
  next
    case (Some p)
    have p: "p \<in> set (endpoints (rdev st))" "ept_addr st p = unat addr" using find_SomeD [OF Some] by auto
    then have "p \<noteq> NULL" using nn by auto
    then show ?thesis using run Some p uniq by auto
  qed
qed

definition demo_vq :: virtqueue where
  "demo_vq = the (virtqueue_allocate True 4)"

theorem lookup_by_address_witness:
  "let st = demo_reg RPMSG_REMOTE demo_vq (zero_vring_mem 4) in
   \<exists>p. rpmsg_get_ept_from_addr st 1024 = Inr p \<and>
    (if p = NULL then \<forall>r \<in> set (endpoints (rdev st)). ept_addr st r \<noteq> unat (1024 :: u32)
     else p \<in> set (endpoints (rdev st)) \<and> ept_addr st p = unat (1024 :: u32) \<and>
       (1024 \<le> unat (1024 :: u32) \<longrightarrow>
         (\<forall>r \<in> set (endpoints (rdev st)). ept_addr st r = unat (1024 :: u32) \<longrightarrow> r = p)))"
  unfolding Let_def by (rule lookup_by_address [OF demo_reg_inv]) (simp add: RPMSG_ADDR_ANY_def)

subsection \<open>From the master's send to the remote's callback\<close>

lemma rd_bytes_view:
  assumes "\<forall>i < 512. m' (p' + of_nat i) = m (p + of_nat i)" and "a + n \<le> 512"
  shows "rd_bytes m' (p' + of_nat a) n = rd_bytes m (p + of_nat a) n"
proof (rule nth_equalityI)
  fix i assume "i < length (rd_bytes m' (p' + of_nat a) n)"
  then have "a + i < 512" "i < n" using assms(2) by simp_all
  then show "rd_bytes m' (p' + of_nat a) n ! i = rd_bytes m (p + of_nat a) n ! i"
    using assms(1) [rule_format, of "a + i"] by (simp add: add.assoc)
qed simp

lemma msg_at_view:
  assumes v: "\<forall>i < 512. m' (p' + of_nat i) = m (p + of_nat i)" and f: "msg_fits m p"
  shows "msg_at m' p' = msg_at m p"
  using rd_bytes_view [OF v, of 0 4] rd_bytes_view [OF v, of 4 4] rd_bytes_view [OF v, of 12 2]
    rd_bytes_view [OF v, of 16 "unat (rd16 m (p + 12))"] f
  by (simp add: msg_at_def msg_fits_def)

lemma get_rx_remote:
  assumes role: "rpmsg_virtio_get_role rst = RPMSG_REMOTE" and q: "rvq rst = Some q'" "q' < length (vqs rst)"
      "q' < length (rings rst)"
    and R: "vq_rel \<lparr>drv = mv, dev = vqs rst ! q', shm = rings rst ! q'\<rparr> a" and av: "a_avail a = b # bs"
  shows "\<exists>vq. rpmsg_virtio_get_rx_buffer renv l i rst =
      Inr (io_phys_to_virt (e_io renv) (shm_io (vqs rst ! q')) (ab_addr b), ab_len b, of_nat (ab_head b),
        put_vq q' vq (rings rst ! q') rst) \<and>
    vq_rel \<lparr>drv = mv, dev = vq, shm = rings rst ! q'\<rparr> (a\<lparr>a_avail := bs, a_held := a_held a @ [b]\<rparr>)"
  using get_available_refines [OF R av, of "io_phys_to_virt (e_io renv)" "e_dbg renv" i l] role q
  by (auto simp: rpmsg_virtio_get_rx_buffer_def get_vq_def)

lemma deliver_eq:
  assumes l: "\<not> lock (rdev st)" and k: "rpmsg_get_ept_from_addr st (rd32 (memory st) (p + 4)) = Inr ep"
    and e: "ep \<noteq> NULL" "epts st ep = Some e"
  shows "rpmsg_virtio_deliver env p st =
    cbind (call_ept_cb env (ep_cb e) ep (p + 16) (ucast (rd16 (memory st) (p + 12))) (rd32 (memory st) p) (ep_priv e)
        (put_ept st ep (e\<lparr>ep_dest_addr := (if ep_dest_addr e = RPMSG_ADDR_ANY then rd32 (memory st) p
           else ep_dest_addr e)\<rparr>)))
      (\<lambda>(status, st4). cbind (RPMSG_ASSERT (0 \<le> status)) (\<lambda>_. Inr st4))"
proof -
  let ?st1 = "st\<lparr>rdev := (rdev st)\<lparr>lock := True\<rparr>\<rparr>"
  have lk: "lock_dev st = Inr ?st1" using l by (simp add: lock_dev_def)
  have "rpmsg_get_endpoint_loop ?st1 name addr dest ps = rpmsg_get_endpoint_loop st name addr dest ps"
    for name addr dest ps by (rule get_endpoint_loop_cong) simp
  then have k1: "rpmsg_get_ept_from_addr ?st1 (rd32 (memory ?st1) (p + 4)) = Inr ep"
    using k by (simp add: rpmsg_get_ept_from_addr_def rpmsg_get_endpoint_def)
  have g: "get_ept st ep = Inr e" using e(2) by (simp add: get_ept_def)
  have id: "e\<lparr>ep_dest_addr := ep_dest_addr e\<rparr> = e" by simp
  have mm: "memory (put_ept st ep x) = memory st" for x by (simp add: put_ept_def)
  show ?thesis
    unfolding rpmsg_virtio_deliver_def lk cbind.simps k1 unlock_id [OF l] Let_def g
    using e(1) by (simp add: RPMSG_LOCATE_DATA_def HDR_SIZE_def mm id)
qed

text \<open>The receiver sees each waiting message through its own mapping of the block.\<close>

lemma tx_message_view:
  assumes mr: "metal_region (e_io env) sio base phys sz" and c: "tx_chan env sio base sz q st dv a []"
    and b: "b \<in> set (a_avail a)" and rr: "metal_region (e_io renv) rio rbase phys sz"
    and rb: "rbase \<noteq> NULL" "unat rbase + sz \<le> 2 ^ 64"
    and share: "\<forall>i < sz. m (rbase + of_nat i) = memory st (base + of_nat i)"
  obtains p where "io_phys_to_virt (e_io renv) rio (ab_addr b) = p" and "p \<noteq> NULL"
    and "msg_at m p = msg_at (memory st) (ab_cookie b)"
proof (rule that [OF refl])
  have bf: "b \<in> set (in_flight a)" using b by (simp add: in_flight_def)
  have P: "tx_pool base sz (shpool st) a []" and B: "tx_bufs (io_virt_to_phys (e_io env) sio) (memory st) a"
    using c by (auto simp: tx_chan_def)
  obtain k where k: "k < pool_taken (shpool st)" "ab_cookie b = pool_block (shpool st) k"
    using P bf by (force simp: tx_pool_def)
  define d where "d = ab_cookie b - base"
  have s63: "sz < 2 ^ 63" by (rule metal_region.size_fits [OF mr])
  have dl: "unat d + 512 \<le> sz"
    unfolding d_def k(2) by (rule pool_block_in_region) (use P k(1) s63 in \<open>auto simp: tx_pool_def\<close>)
  have ad: "ab_addr b = phys + d"
    using B bf metal_region.virt_to_phys [OF mr, of "ab_cookie b"] dl by (simp add: tx_bufs_def d_def)
  have pv: "io_phys_to_virt (e_io renv) rio (ab_addr b) = rbase + d"
    using metal_region.phys_to_virt [OF rr, of "phys + d"] dl by (simp add: ad)
  have "unat (rbase + d) = unat rbase + unat d" using rb(2) dl by (intro unat_plus_lt) simp
  then show "io_phys_to_virt (e_io renv) rio (ab_addr b) \<noteq> NULL" using rb(1) pv by (auto simp: unat_eq_0)
  have view: "\<forall>i < 512. m (rbase + d + of_nat i) = memory st (ab_cookie b + of_nat i)"
  proof (intro allI impI)
    fix i :: nat assume "i < 512"
    then have "unat d + i < sz" using dl by simp
    from share [rule_format, OF this]
    show "m (rbase + d + of_nat i) = memory st (ab_cookie b + of_nat i)" by (simp add: d_def add.assoc)
  qed
  have "msg_fits (memory st) (ab_cookie b)" using B b by (simp add: tx_bufs_def)
  then show "msg_at m (io_phys_to_virt (e_io renv) rio (ab_addr b)) = msg_at (memory st) (ab_cookie b)"
    unfolding pv by (rule msg_at_view [OF view])
qed

text \<open>The search for an address finds its one endpoint, wherever it stands in the list.\<close>

lemma lookup_unique:
  assumes "ept_inv bits valid st" and "ep \<in> set (endpoints (rdev st))" and "epts st ep = Some e" and "ep_addr e = addr"
    and "1024 \<le> unat addr \<or> (\<forall>r \<in> set (endpoints (rdev st)). ept_addr st r = unat addr \<longrightarrow> r = ep)"
  shows "rpmsg_get_ept_from_addr st addr = Inr ep" and "ep \<noteq> NULL"
proof -
  note i = assms(1) [unfolded ept_inv_def]
  have a: "ept_addr st ep = unat addr" using assms(3,4) by (simp add: ept_addr_def)
  have only: "r = ep" if "r \<in> set (endpoints (rdev st))" "ept_addr st r = unat addr" for r
    using assms(5) that a assms(2) i by (auto simp: distinct_map inj_on_def dyn_epts_def)
  have "unat addr < 1152" using i assms(2-4) by (auto simp: registered_def)
  then have any: "addr \<noteq> RPMSG_ADDR_ANY" by (auto simp: RPMSG_ADDR_ANY_def)
  obtain p where f: "find (\<lambda>p. ept_addr st p = unat addr) (endpoints (rdev st)) = Some p"
    using assms(2) a by (cases "find (\<lambda>p. ept_addr st p = unat addr) (endpoints (rdev st))") (auto simp: find_None_iff)
  then have "p = ep" using only find_SomeD [OF f] by auto
  moreover have "\<forall>p \<in> set (endpoints (rdev st)). registered st p" using i by blast
  ultimately show "rpmsg_get_ept_from_addr st addr = Inr ep"
    unfolding rpmsg_get_ept_from_addr_def rpmsg_get_endpoint_def using f any by (simp add: get_endpoint_loop_find)
  show "ep \<noteq> NULL" using i assms(3) by auto
qed

text \<open>
  C2. Delivery. Let a master and a remote share one block of physical memory, each through its own
  mapping, and one queue. Let the first message waiting in the master's send channel be
  \<open>(src, dst, data)\<close> and let the remote, which keeps the invariant of endpoints and addresses, have a
  registered endpoint \<open>ep\<close> with the address \<open>dst\<close>; for a fixed address, below 1024, which the invariant
  does not keep apart, \<open>ep\<close> is the only one with it. Then the remote's receive path takes a buffer and
  calls exactly the callback of \<open>ep\<close>, with the length of \<open>data\<close>, the source address, and a pointer at
  which the remote's memory holds \<open>data\<close>.
\<close>

theorem receive_delivers_message:
  assumes mr: "metal_region (e_io env) sio base phys sz" and c: "tx_chan env sio base sz q st dv a []"
    and msg: "tx_msgs (memory st) a = (src, dst, data) # rest"
    and rr: "metal_region (e_io renv) rio rbase phys sz" and rb: "rbase \<noteq> NULL" "unat rbase + sz \<le> 2 ^ 64"
    and role: "rpmsg_virtio_get_role rst = RPMSG_REMOTE"
    and q: "rvq rst = Some q'" "q' < length (vqs rst)" "q' < length (rings rst)"
    and share: "vqs rst ! q' = dv" "shm_io dv = rio" "rings rst ! q' = rings st ! q"
      "\<forall>i < sz. memory rst (rbase + of_nat i) = memory st (base + of_nat i)"
    and inv: "ept_inv bits valid rst"
    and ept: "ep \<in> set (endpoints (rdev rst))" "epts rst ep = Some e" "ep_addr e = dst"
      "1024 \<le> unat dst \<or> (\<forall>r \<in> set (endpoints (rdev rst)). ept_addr rst r = unat dst \<longrightarrow> r = ep)"
  shows "\<exists>p len idx st2 e' st3. rpmsg_virtio_get_rx_buffer renv 0 0 rst = Inr (p, len, idx, st2) \<and> p \<noteq> NULL \<and>
    e' = e\<lparr>ep_dest_addr := (if ep_dest_addr e = RPMSG_ADDR_ANY then src else ep_dest_addr e)\<rparr> \<and>
    st3 = put_ept st2 ep e' \<and> rd_bytes (memory st3) (p + 16) (length data) = data \<and>
    rpmsg_virtio_deliver renv p st2 =
      cbind (call_ept_cb renv (ep_cb e) ep (p + 16) (of_nat (length data)) src (ep_priv e) st3)
        (\<lambda>(status, st4). cbind (RPMSG_ASSERT (0 \<le> status)) (\<lambda>_. Inr st4))"
proof -
  obtain b bs where av: "a_avail a = b # bs" using msg by (cases "a_avail a") (auto simp: tx_msgs_def)
  have bm: "msg_at (memory st) (ab_cookie b) = (src, dst, data)" using msg av by (simp add: tx_msgs_def)
  obtain p where p: "io_phys_to_virt (e_io renv) rio (ab_addr b) = p" "p \<noteq> NULL"
      "msg_at (memory rst) p = msg_at (memory st) (ab_cookie b)"
    using tx_message_view [OF mr c _ rr rb share(4)] av by auto
  have R: "vq_rel \<lparr>drv = vqs st ! q, dev = vqs rst ! q', shm = rings rst ! q'\<rparr> a"
    using c share by (simp add: tx_chan_def tx_queue_def)
  obtain vq where g: "rpmsg_virtio_get_rx_buffer renv 0 0 rst =
      Inr (p, ab_len b, of_nat (ab_head b), put_vq q' vq (rings rst ! q') rst)"
    using get_rx_remote [OF role q R av, of renv 0 0] share p(1) by auto
  let ?st2 = "put_vq q' vq (rings rst ! q') rst"
  let ?e = "e\<lparr>ep_dest_addr := (if ep_dest_addr e = RPMSG_ADDR_ANY then src else ep_dest_addr e)\<rparr>"
  have h: "rd32 (memory rst) p = src" "rd32 (memory rst) (p + 4) = dst"
    "rd_bytes (memory rst) (p + 16) (unat (rd16 (memory rst) (p + 12))) = data"
    using p(3) bm by (simp_all add: msg_at_def)
  have len: "unat (rd16 (memory rst) (p + 12)) = length data"
    using arg_cong [OF h(3), of length] by simp
  then have lw: "ucast (rd16 (memory rst) (p + 12)) = (of_nat (length data) :: u64)"
    by (metis of_nat_unat)
  note look = lookup_unique [OF inv ept]
  have lk: "\<not> lock (rdev rst)" using inv by (simp add: ept_inv_def)
  have "rpmsg_get_endpoint_loop ?st2 name addr dest ps = rpmsg_get_endpoint_loop rst name addr dest ps"
    for name addr dest ps by (rule get_endpoint_loop_cong) simp
  then have lookup: "rpmsg_get_ept_from_addr ?st2 (rd32 (memory ?st2) (p + 4)) = Inr ep"
    using look(1) h(2) by (simp add: rpmsg_get_ept_from_addr_def rpmsg_get_endpoint_def)
  have "rpmsg_virtio_deliver renv p ?st2 =
      cbind (call_ept_cb renv (ep_cb e) ep (p + 16) (of_nat (length data)) src (ep_priv e) (put_ept ?st2 ep ?e))
        (\<lambda>(status, st4). cbind (RPMSG_ASSERT (0 \<le> status)) (\<lambda>_. Inr st4))"
    using deliver_eq [OF _ lookup look(2), of e renv] lk ept(2) h(1) lw by simp
  then show ?thesis using g p(2) h(3) len by (auto simp: put_ept_def)
qed

text \<open>A device with two endpoints, of which the first has the fixed address 60.\<close>

definition demo_two :: "u32 \<Rightarrow> virtqueue \<Rightarrow> vring_mem \<Rightarrow> u64 list rpmsg_virtio_device" where
  "demo_two r vq m = (demo_reg r vq m)
     \<lparr>rdev := (rdev (demo_reg r vq m))\<lparr>endpoints := [0x680, 0x700]\<rparr>,
      epts := [0x680 \<mapsto> zero_ept\<lparr>ep_addr := 60, ep_rdev := 0x500, ep_cb := 12\<rparr>,
               0x700 \<mapsto> zero_ept\<lparr>ep_addr := 1024, ep_rdev := 0x500, ep_cb := 11\<rparr>]\<rparr>"

lemma demo_two_inv: "ept_inv long_bits (\<lambda>b. length b = 2) (demo_two r vq m)"
  using demo_reg_inv [of r vq m]
  by (simp add: ept_inv_def demo_two_def demo_reg_def dyn_epts_def registered_def ept_addr_def)

theorem receive_delivers_message_witness:
  "\<exists>s st rst p len idx st2 e e' st3.
    vq_boot False 0 ''q'' demo_ring 0 9 1 2 = Inr (VQUEUE_SUCCESS, VQUEUE_SUCCESS, s) \<and>
    rpmsg_virtio_send_offchannel_raw demo_env 5 1024 [1, 2, 3] (int (length [1, 2, 3 :: u8])) True
      (demo_dev RPMSG_MASTER (drv s) (shm s)) = Inr (int (length [1, 2, 3 :: u8]), st) \<and>
    rst = (demo_two RPMSG_REMOTE (dev s) (rings st ! 0))\<lparr>memory := memory st\<rparr> \<and> epts rst 0x700 = Some e \<and>
    rpmsg_virtio_get_rx_buffer demo_env 0 0 rst = Inr (p, len, idx, st2) \<and> p \<noteq> NULL \<and>
    e' = e\<lparr>ep_dest_addr := (if ep_dest_addr e = RPMSG_ADDR_ANY then 5 else ep_dest_addr e)\<rparr> \<and>
    st3 = put_ept st2 0x700 e' \<and>
    rd_bytes (memory st3) (p + 16) (length [1, 2, 3 :: u8]) = [1, 2, 3] \<and>
    rpmsg_virtio_deliver demo_env p st2 =
      cbind (call_ept_cb demo_env (ep_cb e) 0x700 (p + 16) (of_nat (length [1, 2, 3 :: u8])) 5 (ep_priv e) st3)
        (\<lambda>(status, st4). cbind (RPMSG_ASSERT (0 \<le> status)) (\<lambda>_. Inr st4))"
proof -
  obtain s where b: "vq_boot False 0 ''q'' demo_ring 0 9 1 2 = Inr (VQUEUE_SUCCESS, VQUEUE_SUCCESS, s)"
    and A: "vq_abs 1 2 s (avq_init 4)" using demo_boot by blast
  let ?d = "demo_dev RPMSG_MASTER (drv s) (shm s)"
  have "tx_buffer_left ?d (avq_init 4)" by (simp add: tx_buffer_left_def pool_left_def)
  then obtain st a' where st: "rpmsg_virtio_send_offchannel_raw demo_env 5 1024 [1, 2, 3]
        (int (length [1, 2, 3 :: u8])) True ?d = Inr (int (length [1, 2, 3 :: u8]), st)"
      "tx_chan demo_env 1 0x3000 0x1000 0 st (dev s) a' []" "tx_msgs (memory st) a' = [(5, 1024, [1, 2, 3])]"
    using send_master [OF demo_region demo_chan [OF A], of "[1, 2, 3]" 5 1024 True]
    by (auto simp: VIRTIO_CONFIG_STATUS_DRIVER_OK_def tx_msgs_def avq_init_def)
  let ?rst = "(demo_two RPMSG_REMOTE (dev s) (rings st ! 0))\<lparr>memory := memory st\<rparr>"
  let ?e = "zero_ept\<lparr>ep_addr := 1024, ep_rdev := 0x500, ep_cb := 11\<rparr>"
  have rr: "metal_region (e_io demo_env) 2 0x3000 0x3000 0x1000"
    using flat.metal_region_axioms [where b = "0x3000" and p = "0x3000" and n = "0x1000" and io = "2"]
    by (simp add: demo_env_def flat_env_def)
  have r: "rpmsg_virtio_get_role ?rst = RPMSG_REMOTE" "rvq ?rst = Some 0" "0 < length (vqs ?rst)"
    "0 < length (rings ?rst)" "vqs ?rst ! 0 = dev s" "rings ?rst ! 0 = rings st ! 0" "epts ?rst 0x700 = Some ?e"
    "0x700 \<in> set (endpoints (rdev ?rst))"
    by (simp_all add: demo_two_def demo_reg_def rpmsg_virtio_get_role_def) (simp_all add: demo_dev_def)
  have inv: "ept_inv long_bits (\<lambda>b. length b = 2) ?rst"
    using demo_two_inv [of RPMSG_REMOTE "dev s" "rings st ! 0"] by (subst ept_inv_cong) simp_all
  have io: "shm_io (dev s) = 2" using A by (simp add: vq_abs_def)
  have sh: "\<forall>i < 0x1000. memory ?rst (0x3000 + of_nat i) = memory st (0x3000 + of_nat i)" by simp
  show ?thesis
    using b st(1) r(7) receive_delivers_message [OF demo_region st(2,3) rr _ _ r(1-5) io r(6) sh inv r(8,7)] by auto
qed

end
