(* ===== verification/Port_Rpmsg.thy ===== *)
theory Port_Rpmsg
  imports Port_Setup Rpmsg_Props
begin

text \<open>
  The remaining functions of \<open>platform_info.c\<close>, which join the remote processor and rpmsg: \<open>platform_create_rpmsg_vdev\<close> and
  \<open>platform_release_rpmsg_vdev\<close>.

  The two halves of the library are modelled on different states. \<open>rpmsg_start\<close> is the rpmsg device as
  \<open>rpmsg_init_vdev\<close> finds it: its virtio device, the control blocks of the queues and memory are those of the remote processor; the
  rings, which \<open>Rpmsg_Virtio\<close> keeps apart from the rest of memory, are part of \<open>rpmsg_setup\<close>, as are the contents of the allocated block. The dispatch functions of the
  device are those of \<open>remoteproc_virtio.c\<close> (\<open>rproc_rv_env\<close>). \<open>rpmsg_done\<close> is the world afterwards.
\<close>

record 'b rpmsg_setup =
  rs_fuel :: nat
  rs_env :: "'b rv_env"
  rs_zero_bm :: 'b
  rs_junk :: "'b rpmsg_virtio_device"
  rs_rings :: "vring_mem list"
  rs_pool :: rpmsg_virtio_shm_pool

definition rproc_rv_env :: "rproc_env \<Rightarrow> remoteproc_virtio \<Rightarrow> rproc_world \<Rightarrow> 'b rv_env \<Rightarrow> 'b rv_env" where
  "rproc_rv_env env rpv w e =
     e\<lparr>e_io := pe_io env,
       e_get_status := (\<lambda>m. rproc_virtio_get_status env rpv (w\<lparr>w_mem := m\<rparr>)),
       e_set_status := (\<lambda>s m. w_mem (rproc_virtio_set_status env rpv s (w\<lparr>w_mem := m\<rparr>))),
       e_get_features := (\<lambda>m. rproc_virtio_get_features env rpv (w\<lparr>w_mem := m\<rparr>)),
       e_read_config := (\<lambda>off len m. rproc_virtio_read_config env rpv off len (w\<lparr>w_mem := m\<rparr>)),
       e_write_config := (\<lambda>off bs len m. w_mem (rproc_virtio_write_config env rpv off bs len (w\<lparr>w_mem := m\<rparr>)))\<rparr>"

text \<open>The control blocks by number; the place of one that was freed is filled with an empty one.\<close>

definition rpmsg_start :: "'b rpmsg_setup \<Rightarrow> remoteproc_virtio \<Rightarrow> rproc_world \<Rightarrow> 'b rpmsg_virtio_device" where
  "rpmsg_start s rpv w =
     (rs_junk s)\<lparr>vdev := rpv_vdev rpv,
       vqs := map (\<lambda>q. case q of Some vq \<Rightarrow> vq | None \<Rightarrow> the (virtqueue_allocate True 0)) (w_vqs w),
       rings := rs_rings s, memory := w_mem w, kicks := []\<rparr>"

definition rpmsg_done :: "'b rpmsg_virtio_device \<Rightarrow> rproc_world \<Rightarrow> rproc_world" where
  "rpmsg_done st w =
     w\<lparr>w_mem := memory st, w_vqs := map2 (\<lambda>q vq. map_option (\<lambda>_. vq) q) (w_vqs w) (vqs st)\<rparr>"

text \<open>
  \<open>platform_create_rpmsg_vdev\<close>: \<open>shm_pa\<close> is the address whose region is used, \<open>buf_pa\<close> and \<open>buf_size\<close> the buffers, and
  \<open>with_pool\<close> says whether the pool is given to \<open>rpmsg_init_vdev\<close>. As in the code, the block of the device is not freed when there is no region.
  The result is the block and the rpmsg device in it.
\<close>

definition port_create_rpmsg_vdev ::
  "'b rpmsg_setup \<Rightarrow> rproc_env \<Rightarrow> remoteproc_ops \<Rightarrow> ptr \<Rightarrow> u64 \<Rightarrow> u64 \<Rightarrow> u64 \<Rightarrow> bool \<Rightarrow> u32 \<Rightarrow> u32 \<Rightarrow> ptr \<Rightarrow> ptr \<Rightarrow>
   remoteproc \<Rightarrow> rproc_world \<Rightarrow> ((nat \<times> 'b rpmsg_virtio_device) option \<times> remoteproc \<times> rproc_world) cres" where
  "port_create_rpmsg_vdev s env ops rproc_self shm_pa buf_pa buf_size with_pool vdev_index role rst_cb bind_cb rp w =
     (case alloc_block env Alloc_rpmsg_vdev w of
        (None, w1) \<Rightarrow> Inr (None, rp, w1)
      | (Some b, w1) \<Rightarrow>
          (let io = remoteproc_get_io_with_pa (pe_io env) rp shm_pa in
           if io = NULL then Inr (None, rp, w1)
           else
             let shbuf = io_phys_to_virt (pe_io env) io buf_pa in
             cbind (remoteproc_create_virtio (rs_fuel s) env ops rproc_self vdev_index role rst_cb (Some rp) w1) (\<lambda>(v, rp1, w2).
             case v of None \<Rightarrow> cbind (free_block b w2) (\<lambda>w3. Inr (None, rp1, w3))
             | Some vb \<Rightarrow>
                 (case find_vdev vb rp1 of None \<Rightarrow> Inl Bad_pointer
                  | Some rpv \<Rightarrow>
                      let pool = (if with_pool then rpmsg_virtio_init_shm_pool (Some (rs_pool s)) shbuf buf_size else None) in
                      cbind (rpmsg_init_vdev (rs_fuel s) (rproc_rv_env env rpv w2 (rs_env s)) (rs_zero_bm s) bind_cb io pool
                               (rpmsg_start s rpv w2)) (\<lambda>(ret, st).
                      let w3 = rpmsg_done st w2; rp2 = put_vdev (rpv\<lparr>rpv_vdev := vdev st\<rparr>) rp1 in
                      if ret \<noteq> 0
                      then cbind (remoteproc_remove_virtio (Some vb) rp2 w3) (\<lambda>(rp3, w4).
                           cbind (free_block b w4) (\<lambda>w5. Inr (None, rp3, w5)))
                      else Inr (Some (b, st), rp2, w3))))))"

subsection \<open>The ports\<close>

text \<open>On the Zynq only a master gets the pool; the other ports give it to both.\<close>

definition a9_create_rpmsg_vdev ::
  "'b rpmsg_setup \<Rightarrow> rproc_env \<Rightarrow> port_env \<Rightarrow> u32 \<Rightarrow> ptr \<Rightarrow> u32 \<Rightarrow> u32 \<Rightarrow> ptr \<Rightarrow> ptr \<Rightarrow> remoteproc \<Rightarrow> rproc_world \<Rightarrow>
   ((nat \<times> 'b rpmsg_virtio_device) option \<times> remoteproc \<times> rproc_world) cres" where
  "a9_create_rpmsg_vdev s env po cpu rproc_self vdev_index role =
     port_create_rpmsg_vdev s env (zynq_a9_proc_ops env po cpu) rproc_self A9_SHARED_MEM_PA (A9_SHARED_MEM_PA + A9_SHARED_BUF_OFFSET)
       (A9_SHARED_MEM_SIZE - A9_SHARED_BUF_OFFSET) (role = VIRTIO_DEV_MASTER) vdev_index role"

definition r5_create_rpmsg_vdev ::
  "'b rpmsg_setup \<Rightarrow> rproc_env \<Rightarrow> port_env \<Rightarrow> u32 \<Rightarrow> ptr \<Rightarrow> u32 \<Rightarrow> u32 \<Rightarrow> ptr \<Rightarrow> ptr \<Rightarrow> remoteproc \<Rightarrow> rproc_world \<Rightarrow>
   ((nat \<times> 'b rpmsg_virtio_device) option \<times> remoteproc \<times> rproc_world) cres" where
  "r5_create_rpmsg_vdev s env po cpu rproc_self =
     port_create_rpmsg_vdev s env (zynqmp_r5_a53_proc_ops env po) rproc_self (R5_SHARED_MEM_PA cpu)
       (R5_SHARED_MEM_PA cpu + R5_SHARED_BUF_OFFSET) (R5_SHARED_MEM_SIZE - R5_SHARED_BUF_OFFSET) True"

definition rv64_create_rpmsg_vdev ::
  "'b rpmsg_setup \<Rightarrow> rproc_env \<Rightarrow> port_env \<Rightarrow> ptr \<Rightarrow> u32 \<Rightarrow> u32 \<Rightarrow> ptr \<Rightarrow> ptr \<Rightarrow> remoteproc \<Rightarrow> rproc_world \<Rightarrow>
   ((nat \<times> 'b rpmsg_virtio_device) option \<times> remoteproc \<times> rproc_world) cres" where
  "rv64_create_rpmsg_vdev s env po rproc_self =
     port_create_rpmsg_vdev s env (virt_rv64_proc_ops env po) rproc_self RV64_SHARED_BUF_PA RV64_SHARED_BUF_PA
       RV64_SHARED_BUF_SIZE True"

definition linux_r5_create_rpmsg_vdev ::
  "'b rpmsg_setup \<Rightarrow> rproc_env \<Rightarrow> port_env \<Rightarrow> ptr \<Rightarrow> u32 \<Rightarrow> u32 \<Rightarrow> ptr \<Rightarrow> ptr \<Rightarrow> remoteproc \<Rightarrow> rproc_world \<Rightarrow>
   ((nat \<times> 'b rpmsg_virtio_device) option \<times> remoteproc \<times> rproc_world) cres" where
  "linux_r5_create_rpmsg_vdev s env po rproc_self =
     port_create_rpmsg_vdev s env (zynqmp_linux_r5_proc_ops env po) rproc_self LINUX_R5_SHARED_BUF_PA LINUX_R5_SHARED_BUF_PA
       LINUX_R5_SHARED_BUF_SIZE True"

definition rv64_linux_create_rpmsg_vdev ::
  "'b rpmsg_setup \<Rightarrow> rproc_env \<Rightarrow> port_env \<Rightarrow> ptr \<Rightarrow> u32 \<Rightarrow> u32 \<Rightarrow> ptr \<Rightarrow> ptr \<Rightarrow> remoteproc \<Rightarrow> rproc_world \<Rightarrow>
   ((nat \<times> 'b rpmsg_virtio_device) option \<times> remoteproc \<times> rproc_world) cres" where
  "rv64_linux_create_rpmsg_vdev s env po rproc_self =
     port_create_rpmsg_vdev s env (rv64_virt_linux_proc_ops env po) rproc_self RV64_LINUX_SHARED_BUF_PA RV64_LINUX_SHARED_BUF_PA
       RV64_LINUX_SHARED_BUF_SIZE True"

definition generic_create_rpmsg_vdev ::
  "'b rpmsg_setup \<Rightarrow> rproc_env \<Rightarrow> port_env \<Rightarrow> ptr \<Rightarrow> u32 \<Rightarrow> u32 \<Rightarrow> ptr \<Rightarrow> ptr \<Rightarrow> remoteproc \<Rightarrow> rproc_world \<Rightarrow>
   ((nat \<times> 'b rpmsg_virtio_device) option \<times> remoteproc \<times> rproc_world) cres" where
  "generic_create_rpmsg_vdev s env po rproc_self =
     port_create_rpmsg_vdev s env (linux_proc_ops env po) rproc_self LINUX_SHARED_BUF_PA LINUX_SHARED_BUF_PA
       LINUX_SHARED_BUF_SIZE True"

text \<open>
  \<open>platform_release_rpmsg_vdev\<close> of the two ports of the virtual machine; \<open>vb\<close> is the virtio device. The other ports do nothing.
\<close>

definition port_release_rpmsg_vdev ::
  "'b rpmsg_setup \<Rightarrow> rproc_env \<Rightarrow> nat \<Rightarrow> 'b rpmsg_virtio_device \<Rightarrow> remoteproc \<Rightarrow> rproc_world \<Rightarrow> (remoteproc \<times> rproc_world) cres" where
  "port_release_rpmsg_vdev s env vb st rp w =
     (case find_vdev vb rp of None \<Rightarrow> Inl Bad_pointer
      | Some rpv \<Rightarrow>
          cbind (rpmsg_deinit_vdev (rs_fuel s) (rproc_rv_env env rpv w (rs_env s)) st) (\<lambda>st1.
          remoteproc_remove_virtio (Some vb) rp (rpmsg_done st1 w)))"

definition rv64_release_rpmsg_vdev ::
  "'b rpmsg_setup \<Rightarrow> rproc_env \<Rightarrow> nat \<Rightarrow> 'b rpmsg_virtio_device \<Rightarrow> remoteproc \<Rightarrow> rproc_world \<Rightarrow> (remoteproc \<times> rproc_world) cres" where
  "rv64_release_rpmsg_vdev = port_release_rpmsg_vdev"

definition rv64_linux_release_rpmsg_vdev ::
  "'b rpmsg_setup \<Rightarrow> rproc_env \<Rightarrow> nat \<Rightarrow> 'b rpmsg_virtio_device \<Rightarrow> remoteproc \<Rightarrow> rproc_world \<Rightarrow> (remoteproc \<times> rproc_world) cres" where
  "rv64_linux_release_rpmsg_vdev = port_release_rpmsg_vdev"

subsection \<open>What cannot start\<close>

text \<open>Mapping and the set-up of vrings keep the roles of the virtio devices, if the platform does.\<close>

definition mmap_keeps_vdevs :: "remoteproc_ops \<Rightarrow> bool" where
  "mmap_keeps_vdevs ops \<longleftrightarrow> (\<forall>f rp pa da sz attr io w va pa' da' io' rp' w'.
     op_mmap ops = Some f \<longrightarrow> f rp pa da sz attr io w = Inr (va, pa', da', io', rp', w') \<longrightarrow> rp_vdevs rp' = rp_vdevs rp)"

definition all_roles :: "u32 \<Rightarrow> remoteproc \<Rightarrow> bool" where
  "all_roles role rp \<longleftrightarrow> (\<forall>v \<in> set (rp_vdevs rp). vd_role (rpv_vdev v) = role)"

lemma mmap_keepsD:
  "mmap_keeps_vdevs ops \<Longrightarrow> op_mmap ops = Some f \<Longrightarrow> f rp pa da sz attr io w = Inr (va, pa', da', io', rp', w') \<Longrightarrow>
    rp_vdevs rp' = rp_vdevs rp"
  unfolding mmap_keeps_vdevs_def by blast

lemma mmap_vdevs:
  assumes "mmap_keeps_vdevs ops" and "remoteproc_mmap io ops (Some rp) pa da sz attr iop w = Inr (va, pa', da', io', rp', w')"
  shows "rp_vdevs (the rp') = rp_vdevs rp"
  using assms(2)
  by (auto simp: remoteproc_mmap_def Let_def cbind_eq_Inr split: option.splits if_splits dest: mmap_keepsD [OF assms(1)])

lemma init_vring_role: "rproc_virtio_init_vring i n va io k a rpv = Inr (ret, rpv') \<Longrightarrow> vd_role (rpv_vdev rpv') = vd_role (rpv_vdev rpv)"
  by (auto simp: rproc_virtio_init_vring_def Let_def cbind_eq_Inr split: if_splits)

lemma put_vdev_roles: "all_roles role rp \<Longrightarrow> vd_role (rpv_vdev v) = role \<Longrightarrow> all_roles role (put_vdev v rp)"
  by (auto simp: all_roles_def put_vdev_def)

lemma find_vdev_role: "find_vdev b rp = Some v \<Longrightarrow> all_roles role rp \<Longrightarrow> vd_role (rpv_vdev v) = role"
  by (auto simp: all_roles_def find_vdev_def find_Some_iff)

lemma setup_vring_roles:
  assumes "mmap_keeps_vdevs ops" and "setup_vring env ops rsc b i rp w = Inr (ok, rp', w')" and "all_roles role rp"
  shows "all_roles role rp'"
proof -
  obtain va x y io rp1 w1 where m: "\<exists>da sz. remoteproc_mmap (pe_io env) ops (Some rp) None (Some da) sz 0 (Some (pe_stack env)) w =
      Inr (va, x, y, io, rp1, w1)"
    and r: "rp' = the rp1 \<or> (\<exists>v v' j n k a ret. find_vdev b (the rp1) = Some v \<and>
      rproc_virtio_init_vring j n va (the io) k a v = Inr (ret, v') \<and> rp' = put_vdev v' (the rp1))"
    using assms(2) unfolding setup_vring_def Let_def cbind_eq_Inr
    by (clarsimp split: option.splits if_splits prod.splits simp: cbind_eq_Inr) blast+
  have "all_roles role (the rp1)" using m mmap_vdevs [OF assms(1)] assms(3) by (auto simp: all_roles_def)
  then show ?thesis using r by (auto intro!: put_vdev_roles dest: init_vring_role find_vdev_role)
qed

lemma setup_vrings_roles:
  assumes "mmap_keeps_vdevs ops"
  shows "setup_vrings_loop env ops rsc b n i rp w = Inr (ok, rp', w') \<Longrightarrow> all_roles role rp \<Longrightarrow> all_roles role rp'"
proof (induction n arbitrary: i rp w)
  case (Suc n)
  then show ?case
    by (auto simp: cbind_eq_Inr split: if_splits prod.splits dest: setup_vring_roles [OF assms])
qed simp

lemma create_vdev_role:
  assumes "rproc_virtio_create_vdev env role notifyid rsc rsc_io priv notify rst_cb w = Inr (Some rpv, w')"
  shows "vd_role (rpv_vdev rpv) = role"
  using assms
  by (auto simp: rproc_virtio_create_vdev_def Let_def cbind_eq_Inr fill_rpvdev_def split: option.splits prod.splits if_splits)

lemma all_roles_lock [simp]: "all_roles role (rp\<lparr>rp_lock := l\<rparr>) = all_roles role rp"
  by (simp add: all_roles_def)

lemma all_roles_add: "all_roles role (rp\<lparr>rp_lock := l, rp_vdevs := rp_vdevs rp @ [v]\<rparr>) \<longleftrightarrow> all_roles role rp \<and> vd_role (rpv_vdev v) = role"
  by (auto simp: all_roles_def)

lemma create_virtio_roles:
  assumes "mmap_keeps_vdevs ops" and "all_roles role rp"
    and "remoteproc_create_virtio fuel env ops rproc_self idx role rst_cb (Some rp) w = Inr (Some vb, rp', w')"
  shows "all_roles role rp'"
  using assms(3) assms(2)
  unfolding remoteproc_create_virtio_def rp_locked_def Let_def
  by (auto simp: cbind_eq_Inr all_roles_lock all_roles_add split: if_splits option.splits
      dest!: create_vdev_role setup_vrings_roles [OF assms(1), where role = role])

text \<open>The Zynq gives the whole of its shared memory to the offset of the buffers: a pool of size 0.\<close>

lemma init_vdev_no_buffers:
  assumes "vd_role (vdev st) = VIRTIO_DEV_MASTER" and "pool_size p = 0"
  shows "\<exists>st'. rpmsg_init_vdev fuel env zero_bm bind_cb shio (Some p) st = Inr (RPMSG_ERR_NO_BUFF, st')"
  using assms
  by (simp add: rpmsg_init_vdev_def rpmsg_init_roles_def rpmsg_init_device_def rpmsg_virtio_get_role_def put_ept_def
      VIRTIO_DEV_MASTER_def VIRTIO_DEV_SLAVE_def Let_def)

lemma a9_mmap_vdevs: "mmap_keeps_vdevs (zynq_a9_proc_ops env po cpu)"
  by (auto simp: mmap_keeps_vdevs_def zynq_a9_proc_ops_def zynq_a9_proc_mmap_def bare_mmap_def Let_def remoteproc_init_mem_def
      remoteproc_add_mem_def cbind_eq_Inr split: if_splits option.splits prod.splits)

text \<open>What a result means: the virtio device was created and \<open>rpmsg_init_vdev\<close> returned 0.\<close>

lemma port_create_device:
  assumes "port_create_rpmsg_vdev s env ops rproc_self shm_pa buf_pa buf_size with_pool vdev_index role rst_cb bind_cb rp w =
      Inr (Some d, rp', w')"
  obtains w1 vb rp1 w2 rpv st io p where "remoteproc_create_virtio (rs_fuel s) env ops rproc_self vdev_index role rst_cb (Some rp) w1 =
      Inr (Some vb, rp1, w2)" and "find_vdev vb rp1 = Some rpv"
    and "p = (if with_pool then rpmsg_virtio_init_shm_pool (Some (rs_pool s)) (io_phys_to_virt (pe_io env) io buf_pa) buf_size else None)"
    and "rpmsg_init_vdev (rs_fuel s) (rproc_rv_env env rpv w2 (rs_env s)) (rs_zero_bm s) bind_cb io p (rpmsg_start s rpv w2) = Inr (0, st)"
proof -
  obtain b w1 where a: "alloc_block env Alloc_rpmsg_vdev w = (Some b, w1)"
    using assms by (auto simp: port_create_rpmsg_vdev_def split: option.splits prod.splits)
  let ?io = "remoteproc_get_io_with_pa (pe_io env) rp shm_pa"
  have io: "?io \<noteq> NULL" using assms a by (auto simp: port_create_rpmsg_vdev_def)
  obtain v rp1 w2 where c: "remoteproc_create_virtio (rs_fuel s) env ops rproc_self vdev_index role rst_cb (Some rp) w1 = Inr (v, rp1, w2)"
    using assms a io by (cases "remoteproc_create_virtio (rs_fuel s) env ops rproc_self vdev_index role rst_cb (Some rp) w1")
      (auto simp: port_create_rpmsg_vdev_def Let_def)
  obtain vb where v: "v = Some vb" using assms a io c by (cases v) (auto simp: port_create_rpmsg_vdev_def Let_def cbind_eq_Inr)
  obtain rpv where f: "find_vdev vb rp1 = Some rpv"
    using assms a io c v by (cases "find_vdev vb rp1") (auto simp: port_create_rpmsg_vdev_def Let_def)
  show thesis
    using assms a io c v f by (auto simp: port_create_rpmsg_vdev_def Let_def cbind_eq_Inr split: if_splits intro: that)
qed

text \<open>
  No master on the Zynq. The offset of the buffers is the size of the shared memory, so that the pool is empty: when the virtio devices of the
  processor have the role of a master, \<open>platform_create_rpmsg_vdev\<close> never gives a master an rpmsg device.
\<close>

theorem a9_master_gets_no_device:
  assumes "all_roles VIRTIO_DEV_MASTER rp"
  shows "a9_create_rpmsg_vdev s env po cpu rproc_self vdev_index VIRTIO_DEV_MASTER rst_cb bind_cb rp w \<noteq> Inr (Some d, rp', w')"
proof
  assume "a9_create_rpmsg_vdev s env po cpu rproc_self vdev_index VIRTIO_DEV_MASTER rst_cb bind_cb rp w = Inr (Some d, rp', w')"
  then show False
    unfolding a9_create_rpmsg_vdev_def
  proof (rule port_create_device)
    fix w1 vb rp1 w2 rpv st io p
    assume c: "remoteproc_create_virtio (rs_fuel s) env (zynq_a9_proc_ops env po cpu) rproc_self vdev_index VIRTIO_DEV_MASTER rst_cb
        (Some rp) w1 = Inr (Some vb, rp1, w2)" "find_vdev vb rp1 = Some rpv"
      and p: "p = (if VIRTIO_DEV_MASTER = VIRTIO_DEV_MASTER then rpmsg_virtio_init_shm_pool (Some (rs_pool s))
        (io_phys_to_virt (pe_io env) io (A9_SHARED_MEM_PA + A9_SHARED_BUF_OFFSET)) (A9_SHARED_MEM_SIZE - A9_SHARED_BUF_OFFSET) else None)"
      and i: "rpmsg_init_vdev (rs_fuel s) (rproc_rv_env env rpv w2 (rs_env s)) (rs_zero_bm s) bind_cb io p (rpmsg_start s rpv w2) = Inr (0, st)"
    have "vd_role (rpv_vdev rpv) = VIRTIO_DEV_MASTER"
      using find_vdev_role [OF c(2) create_virtio_roles [OF a9_mmap_vdevs assms c(1)]] .
    then show False
      using init_vdev_no_buffers [of "rpmsg_start s rpv w2" "the p" "rs_fuel s" "rproc_rv_env env rpv w2 (rs_env s)" "rs_zero_bm s" bind_cb io] i p
      by (simp add: rpmsg_start_def RPMSG_ERR_NO_BUFF_def rpmsg_virtio_init_shm_pool_def A9_SHARED_MEM_SIZE_def A9_SHARED_BUF_OFFSET_def)
  qed
qed

text \<open>
  No rpmsg on the generic Linux port. It maps the resource table but does not parse it: after a successful
  \<open>platform_init\<close> the creation of an rpmsg device stops at the assertion for a missing table.
\<close>

theorem generic_vdev_asserts:
  assumes "\<And>v. po_device_open po DEV_BUS_NAME LINUX_SHM_NAME v = (0, d)" and "po_io_region po d = io" and "io \<noteq> NULL"
    and "arg \<noteq> NULL" and "po_io_phys po io 0 = LINUX_RSC_MEM_PA" and "po_io_region_size po io = 0x200000"
    and "io_phys_to_virt (pe_io env) io LINUX_RSC_MEM_PA \<noteq> NULL" and "\<And>v. pe_alloc env Alloc_rpmsg_vdev v"
  shows "\<exists>rp w1. generic_platform_init env po arg True w = Inr (0, Some rp, w1) \<and>
    generic_create_rpmsg_vdev s env po rproc_self vdev_index role rst_cb bind_cb rp w1 = Inl Assert_failed"
proof -
  let ?m = "\<lparr>rm_da = LINUX_RSC_MEM_PA, rm_pa = LINUX_RSC_MEM_PA, rm_size = 0x200000, rm_name = strncpy SHM_MEM_NAME RPROC_MAX_NAME_LEN,
    rm_io = io, rm_blocks = []\<rparr> :: remoteproc_mem"
  let ?rp = "zero_remoteproc\<lparr>rp_lock_live := True, rp_priv := arg, rp_ops := LINUX_PROC_OPS, rp_mems := [?m]\<rparr>"
  have i: "\<exists>w1. remoteproc_init (linux_proc_ops env po) arg (Some zero_remoteproc) v = Inr (Some ?rp, w1)" for v
    using assms(1-6)
    by (simp add: remoteproc_init_def linux_proc_ops_def linux_proc_init_def shm_proc_init_def dev_open_def Let_def add_shm_mem_def
        remoteproc_init_mem_def remoteproc_add_mem_def zero_mem_def zero_remoteproc_def)
  have m: "remoteproc_mmap (pe_io env) (linux_proc_ops env po) (Some ?rp) (Some LINUX_RSC_MEM_PA) None LINUX_RSC_MEM_SIZE 0 None v =
      Inr (io_phys_to_virt (pe_io env) io LINUX_RSC_MEM_PA, Some LINUX_RSC_MEM_PA, None, None, Some ?rp, v)" for v
    by (simp add: remoteproc_mmap_def remoteproc_get_mem_def Let_def LINUX_RSC_MEM_PA_def LINUX_RSC_MEM_SIZE_def METAL_BAD_PHYS_def)
  obtain w1 where p: "generic_platform_init env po arg True w = Inr (0, Some ?rp, w1)"
    using i [of "po_init_system po w"] m assms(7)
    by (auto simp: generic_platform_init_def port_init_def generic_create_proc_def linux_create_proc_def)
  have "remoteproc_get_io_with_pa (pe_io env) ?rp LINUX_SHARED_BUF_PA = io"
    by (simp add: remoteproc_get_io_with_pa_def remoteproc_get_mem_def Let_def LINUX_RSC_MEM_PA_def LINUX_SHARED_BUF_PA_def METAL_BAD_PHYS_def)
  then have "generic_create_rpmsg_vdev s env po rproc_self vdev_index role rst_cb bind_cb ?rp w1 = Inl Assert_failed"
    using assms(3,8)
    by (simp add: generic_create_rpmsg_vdev_def port_create_rpmsg_vdev_def alloc_block_def remoteproc_create_virtio_def rp_locked_def
        find_rsc_def Let_def zero_remoteproc_def)
  then show ?thesis using p by blast
qed

text \<open>A set-up on the board, with the rings and the contents of fresh memory of the rpmsg example.\<close>

definition board_setup :: "u64 list rpmsg_setup" where
  "board_setup = \<lparr>rs_fuel = 10, rs_env = demo_env, rs_zero_bm = [0, 0],
     rs_junk = demo_dev VIRTIO_DEV_MASTER (the (virtqueue_allocate True 0)) (zero_vring_mem 4), rs_rings = [],
     rs_pool = \<lparr>pool_base = NULL, pool_avail = 0, pool_size = 0\<rparr>\<rparr>"

lemma a9_master_gets_no_device_witness:
  "a9_create_rpmsg_vdev board_setup board_env board 1 0x20 0 VIRTIO_DEV_MASTER NULL NULL zero_remoteproc board_world \<noteq>
    Inr (Some (0, rs_junk board_setup), zero_remoteproc, board_world)"
  by (rule a9_master_gets_no_device) (simp add: all_roles_def zero_remoteproc_def)

lemma generic_vdev_asserts_witness:
  "\<exists>rp w1. generic_platform_init (board_env\<lparr>pe_io := flat_io (\<lambda>io. (io, io, 0x200000))\<rparr>) (board\<lparr>po_io_region_size := (\<lambda>io. 0x200000)\<rparr>) 0x10
      True board_world = Inr (0, Some rp, w1) \<and>
    generic_create_rpmsg_vdev board_setup (board_env\<lparr>pe_io := flat_io (\<lambda>io. (io, io, 0x200000))\<rparr>)
      (board\<lparr>po_io_region_size := (\<lambda>io. 0x200000)\<rparr>) 0x20 0 VIRTIO_DEV_MASTER NULL NULL rp w1 = Inl Assert_failed"
  by (rule generic_vdev_asserts [where d = "0x2000" and io = "0x90000000"])
    (simp_all add: board_def board_env_def sample_env0_def LINUX_SHM_NAME_def RV64_LINUX_POLL_NAME_def LINUX_R5_IPI_NAME_def
      LINUX_RSC_MEM_PA_def flat_io_def)

end
