(* ===== verification/Elf_Loader.thy ===== *)
theory Elf_Loader
  imports Remoteproc
begin

text \<open>
  The ELF loader: \<open>lib/remoteproc/elf_loader.c\<close> and \<open>lib/include/openamp/elf_loader.h\<close>, one definition
  per function, with the states of \<open>lib/include/openamp/remoteproc_loader.h\<close>.

  Image data is a list of bytes (\<open>None\<close> for NULL). The decoding information \<open>elf_info\<close> holds the raw
  file header and the copies of the program headers, the section headers and the section name
  table; fields are read from the bytes at the offsets that the 32-bit and the 64-bit layout give
  them, and an access beyond a copy is the fault \<open>Out_of_bounds\<close>. \<open>al size live\<close> is the outcome of
  \<open>metal_allocate_memory\<close> and \<open>live\<close> the number of blocks the loader holds.
\<close>

subsection \<open>Constants\<close>

definition EI_CLASS :: nat where "EI_CLASS = 4"
definition ELFCLASS64 :: u8 where "ELFCLASS64 = 2"
definition ELFMAG :: "u8 list" where "ELFMAG = [0x7f, 0x45, 0x4c, 0x46]"
definition SELFMAG :: nat where "SELFMAG = 4"
definition PT_NULL :: u32 where "PT_NULL = 0"
definition PT_LOAD :: u32 where "PT_LOAD = 1"

definition ELF32_EHDR_SIZE :: nat where "ELF32_EHDR_SIZE = 52"
definition ELF64_EHDR_SIZE :: nat where "ELF64_EHDR_SIZE = 64"
definition ELF32_PHDR_SIZE :: nat where "ELF32_PHDR_SIZE = 32"
definition ELF64_PHDR_SIZE :: nat where "ELF64_PHDR_SIZE = 56"
definition ELF32_SHDR_SIZE :: nat where "ELF32_SHDR_SIZE = 40"
definition ELF64_SHDR_SIZE :: nat where "ELF64_SHDR_SIZE = 64"

definition ELF_STATE_INIT :: int where "ELF_STATE_INIT = 0x0"
definition ELF_STATE_WAIT_FOR_PHDRS :: int where "ELF_STATE_WAIT_FOR_PHDRS = 0x100"
definition ELF_STATE_WAIT_FOR_SHDRS :: int where "ELF_STATE_WAIT_FOR_SHDRS = 0x200"
definition ELF_STATE_WAIT_FOR_SHSTRTAB :: int where "ELF_STATE_WAIT_FOR_SHSTRTAB = 0x400"
definition ELF_STATE_HDRS_COMPLETE :: int where "ELF_STATE_HDRS_COMPLETE = 0x800"
definition ELF_STATE_MASK :: int where "ELF_STATE_MASK = 0xFF00"
definition ELF_NEXT_SEGMENT_MASK :: int where "ELF_NEXT_SEGMENT_MASK = 0xFF"

definition RPROC_LOADER_NOT_READY :: int where "RPROC_LOADER_NOT_READY = 0x0"
definition RPROC_LOADER_READY_TO_LOAD :: int where "RPROC_LOADER_READY_TO_LOAD = 0x10000"
definition RPROC_LOADER_POST_DATA_LOAD :: int where "RPROC_LOADER_POST_DATA_LOAD = 0x20000"
definition RPROC_LOADER_LOAD_COMPLETE :: int where "RPROC_LOADER_LOAD_COMPLETE = 0x40000"
definition RPROC_LOADER_MASK :: int where "RPROC_LOADER_MASK = 0xFF0000"
definition RPROC_LOAD_ANYADDR :: u64 where "RPROC_LOAD_ANYADDR = - 1"

lemmas elf_size_defs = ELF32_EHDR_SIZE_def ELF64_EHDR_SIZE_def ELF32_PHDR_SIZE_def
  ELF64_PHDR_SIZE_def ELF32_SHDR_SIZE_def ELF64_SHDR_SIZE_def

lemmas elf_state_defs = ELF_STATE_INIT_def ELF_STATE_WAIT_FOR_PHDRS_def ELF_STATE_WAIT_FOR_SHDRS_def
  ELF_STATE_WAIT_FOR_SHSTRTAB_def ELF_STATE_HDRS_COMPLETE_def ELF_STATE_MASK_def
  ELF_NEXT_SEGMENT_MASK_def RPROC_LOADER_NOT_READY_def RPROC_LOADER_READY_TO_LOAD_def
  RPROC_LOADER_POST_DATA_LOAD_def RPROC_LOADER_LOAD_COMPLETE_def RPROC_LOADER_MASK_def

subsection \<open>Decoding information\<close>

record elf_info =
  ei_ehdr :: "u8 list"
  ei_load_state :: int
  ei_phdrs :: "u8 list option"
  ei_shdrs :: "u8 list option"
  ei_shstrtab :: "u8 list option"

text \<open>The little-endian fields of a block.\<close>

definition fld16 :: "u8 list \<Rightarrow> nat \<Rightarrow> u16 cres" where
  "fld16 bs off = cbind (sub_bytes bs off 2) (\<lambda>b. Inr (le_word b))"

definition fld32 :: "u8 list \<Rightarrow> nat \<Rightarrow> u32 cres" where
  "fld32 bs off = cbind (sub_bytes bs off 4) (\<lambda>b. Inr (le_word b))"

definition fld64 :: "u8 list \<Rightarrow> nat \<Rightarrow> u64 cres" where
  "fld64 bs off = cbind (sub_bytes bs off 8) (\<lambda>b. Inr (le_word b))"

text \<open>A field that has 32 bits in one class and 64 in the other, widened to 64.\<close>

definition fld_addr :: "bool \<Rightarrow> u8 list \<Rightarrow> nat \<Rightarrow> nat \<Rightarrow> u64 cres" where
  "fld_addr is64 bs off32 off64 =
     (if \<not> is64 then cbind (fld32 bs off32) (\<lambda>x. Inr (ucast x)) else fld64 bs off64)"

definition elf_is_64 :: "u8 list \<Rightarrow> bool cres" where
  "elf_is_64 bs = cbind (rd bs EI_CLASS) (\<lambda>c. Inr (c = ELFCLASS64))"

definition elf_ehdr_size :: "u8 list option \<Rightarrow> nat cres" where
  "elf_ehdr_size img =
     (case img of None \<Rightarrow> Inr ELF64_EHDR_SIZE
      | Some bs \<Rightarrow> cbind (elf_is_64 bs) (\<lambda>b. Inr (if b then ELF64_EHDR_SIZE else ELF32_EHDR_SIZE)))"

definition elf_phoff :: "elf_info \<Rightarrow> u64 cres" where
  "elf_phoff ei = cbind (elf_is_64 (ei_ehdr ei)) (\<lambda>b. fld_addr b (ei_ehdr ei) 28 32)"

definition elf_phentsize :: "elf_info \<Rightarrow> u64 cres" where
  "elf_phentsize ei = cbind (elf_is_64 (ei_ehdr ei)) (\<lambda>b.
     cbind (fld16 (ei_ehdr ei) (if \<not> b then 42 else 54)) (\<lambda>x. Inr (ucast x)))"

definition elf_phnum :: "elf_info \<Rightarrow> int cres" where
  "elf_phnum ei = cbind (elf_is_64 (ei_ehdr ei)) (\<lambda>b.
     cbind (fld16 (ei_ehdr ei) (if \<not> b then 44 else 56)) (\<lambda>x. Inr (uint x)))"

definition elf_shoff :: "elf_info \<Rightarrow> u64 cres" where
  "elf_shoff ei = cbind (elf_is_64 (ei_ehdr ei)) (\<lambda>b. fld_addr b (ei_ehdr ei) 32 40)"

definition elf_shentsize :: "elf_info \<Rightarrow> u64 cres" where
  "elf_shentsize ei = cbind (elf_is_64 (ei_ehdr ei)) (\<lambda>b.
     cbind (fld16 (ei_ehdr ei) (if \<not> b then 46 else 58)) (\<lambda>x. Inr (ucast x)))"

definition elf_shnum :: "elf_info \<Rightarrow> int cres" where
  "elf_shnum ei = cbind (elf_is_64 (ei_ehdr ei)) (\<lambda>b.
     cbind (fld16 (ei_ehdr ei) (if \<not> b then 48 else 60)) (\<lambda>x. Inr (uint x)))"

definition elf_shstrndx :: "elf_info \<Rightarrow> int cres" where
  "elf_shstrndx ei = cbind (elf_is_64 (ei_ehdr ei)) (\<lambda>b.
     cbind (fld16 (ei_ehdr ei) (if \<not> b then 50 else 62)) (\<lambda>x. Inr (uint x)))"

text \<open>Storing through \<open>elf_phtable_ptr\<close>, \<open>elf_shtable_ptr\<close>, \<open>elf_shstrtab_ptr\<close> and \<open>elf_load_state\<close>.\<close>

definition elf_phtable_ptr :: "u8 list \<Rightarrow> elf_info \<Rightarrow> elf_info" where
  "elf_phtable_ptr bs ei = ei\<lparr>ei_phdrs := Some bs\<rparr>"

definition elf_shtable_ptr :: "u8 list \<Rightarrow> elf_info \<Rightarrow> elf_info" where
  "elf_shtable_ptr bs ei = ei\<lparr>ei_shdrs := Some bs\<rparr>"

definition elf_shstrtab_ptr :: "u8 list \<Rightarrow> elf_info \<Rightarrow> elf_info" where
  "elf_shstrtab_ptr bs ei = ei\<lparr>ei_shstrtab := Some bs\<rparr>"

definition elf_load_state :: "int \<Rightarrow> elf_info \<Rightarrow> elf_info" where
  "elf_load_state s ei = ei\<lparr>ei_load_state := s\<rparr>"

subsection \<open>Segments and sections\<close>

record elf_segment =
  p_type :: u32
  p_offset :: u64
  p_vaddr :: u64
  p_paddr :: u64
  p_filesz :: u64
  p_memsz :: u64

text \<open>A pointer to a header is the rest of the table from that header on.\<close>

definition elf_parse_segment :: "elf_info \<Rightarrow> u8 list \<Rightarrow> elf_segment cres" where
  "elf_parse_segment ei phdr =
     cbind (elf_is_64 (ei_ehdr ei)) (\<lambda>b.
     cbind (fld32 phdr 0) (\<lambda>ty.
     cbind (fld_addr b phdr 4 8) (\<lambda>off.
     cbind (fld_addr b phdr 8 16) (\<lambda>va.
     cbind (fld_addr b phdr 12 24) (\<lambda>pa.
     cbind (fld_addr b phdr 16 32) (\<lambda>fs.
     cbind (fld_addr b phdr 20 40) (\<lambda>ms.
     Inr \<lparr>p_type = ty, p_offset = off, p_vaddr = va, p_paddr = pa, p_filesz = fs, p_memsz = ms\<rparr>)))))))"

definition elf_get_segment_from_index :: "elf_info \<Rightarrow> int \<Rightarrow> u8 list option cres" where
  "elf_get_segment_from_index ei index =
     cbind (elf_is_64 (ei_ehdr ei)) (\<lambda>b.
     case ei_phdrs ei of None \<Rightarrow> Inr None
     | Some phdrs \<Rightarrow>
         cbind (elf_phnum ei) (\<lambda>phnum.
         if index < 0 \<or> phnum \<le> index then Inr None
         else Inr (Some (drop (nat index * (if \<not> b then ELF32_PHDR_SIZE else ELF64_PHDR_SIZE)) phdrs))))"

text \<open>\<open>strcmp\<close> of a name, given without its terminator, with a string that the block \<open>t\<close> starts with.\<close>

fun strcmp_eq :: "u8 list \<Rightarrow> u8 list \<Rightarrow> bool cres" where
  "strcmp_eq cs [] = Inl Out_of_bounds"
| "strcmp_eq [] (b # bs) = Inr (b = 0)"
| "strcmp_eq (c # cs) (b # bs) = (if c = b then strcmp_eq cs bs else Inr False)"

fun section_name_loop :: "bool \<Rightarrow> u8 list \<Rightarrow> u8 list \<Rightarrow> nat \<Rightarrow> u8 list \<Rightarrow> u8 list option cres" where
  "section_name_loop b name name_table 0 shdr = Inr None"
| "section_name_loop b name name_table (Suc n) shdr =
     cbind (fld32 shdr 0) (\<lambda>sh_name.
     cbind (strcmp_eq name (drop (unat sh_name) name_table)) (\<lambda>eq.
     if eq then Inr (Some shdr)
     else section_name_loop b name name_table n (drop (if \<not> b then ELF32_SHDR_SIZE else ELF64_SHDR_SIZE) shdr)))"

definition elf_get_section_from_name :: "elf_info \<Rightarrow> u8 list \<Rightarrow> u8 list option cres" where
  "elf_get_section_from_name ei name =
     cbind (elf_is_64 (ei_ehdr ei)) (\<lambda>b.
     case (ei_shdrs ei, ei_shstrtab ei) of
       (Some shdrs, Some name_table) \<Rightarrow>
         cbind (elf_shnum ei) (\<lambda>shnum. section_name_loop b name name_table (nat shnum) shdrs)
     | _ \<Rightarrow> Inr None)"

definition elf_get_section_from_index :: "elf_info \<Rightarrow> int \<Rightarrow> u8 list option cres" where
  "elf_get_section_from_index ei index =
     cbind (elf_is_64 (ei_ehdr ei)) (\<lambda>b.
     case ei_shdrs ei of None \<Rightarrow> Inr None
     | Some shdrs \<Rightarrow>
         cbind (elf_shnum ei) (\<lambda>shnum.
         if index < 0 \<or> shnum \<le> index then Inr None
         else Inr (Some (drop (nat index * (if \<not> b then ELF32_SHDR_SIZE else ELF64_SHDR_SIZE)) shdrs))))"

text \<open>
  A section header. Each field is a checked read, which takes place where the caller passes a
  pointer for it.
\<close>

record elf_section =
  sh_type :: "u32 cres"
  sh_flags :: "u32 cres"
  sh_addr :: "u64 cres"
  sh_offset :: "u64 cres"
  sh_size :: "u64 cres"
  sh_link :: "u32 cres"
  sh_info :: "u32 cres"
  sh_addralign :: "u32 cres"
  sh_entsize :: "u64 cres"

definition elf_parse_section :: "elf_info \<Rightarrow> u8 list \<Rightarrow> elf_section cres" where
  "elf_parse_section ei shdr =
     cbind (elf_is_64 (ei_ehdr ei)) (\<lambda>b.
     Inr (if \<not> b then
       \<lparr>sh_type = fld32 shdr 4, sh_flags = fld32 shdr 8,
        sh_addr = cbind (fld32 shdr 12) (\<lambda>x. Inr (ucast x)),
        sh_offset = cbind (fld32 shdr 16) (\<lambda>x. Inr (ucast x)),
        sh_size = cbind (fld32 shdr 20) (\<lambda>x. Inr (ucast x)),
        sh_link = fld32 shdr 24, sh_info = fld32 shdr 28, sh_addralign = fld32 shdr 32,
        sh_entsize = cbind (fld32 shdr 36) (\<lambda>x. Inr (ucast x))\<rparr>
     else
       \<lparr>sh_type = fld32 shdr 4, sh_flags = cbind (fld64 shdr 8) (\<lambda>x. Inr (ucast x)),
        sh_addr = fld64 shdr 16, sh_offset = fld64 shdr 24, sh_size = fld64 shdr 32,
        sh_link = fld32 shdr 40, sh_info = fld32 shdr 44,
        sh_addralign = cbind (fld64 shdr 48) (\<lambda>x. Inr (ucast x)), sh_entsize = fld64 shdr 56\<rparr>))"

lemma elf_phnum_bound: "elf_phnum ei = Inr k \<Longrightarrow> 0 \<le> k \<and> k < 65536"
  using unsigned_less [where 'a = int and 'b = 16]
  by (auto simp: elf_phnum_def cbind_eq_Inr)

lemma elf_get_segment_bound: "elf_get_segment_from_index ei i = Inr (Some ph) \<Longrightarrow> 0 \<le> i \<and> i < 65536"
  by (auto simp: elf_get_segment_from_index_def cbind_eq_Inr dest!: elf_phnum_bound
      split: option.splits if_splits)

text \<open>
  The search for the next loadable segment. \<open>None\<close> in the first component is NULL; the others are
  \<open>nseg\<close> and the segment parsed last, whose fields the code has stored already.
\<close>

function next_load_loop ::
  "elf_info \<Rightarrow> int \<Rightarrow> elf_segment option \<Rightarrow> (u8 list option \<times> int \<times> elf_segment option) cres" where
  "next_load_loop ei nseg seg =
     cbind (elf_get_segment_from_index ei nseg) (\<lambda>pho.
     case pho of None \<Rightarrow> Inr (None, nseg, seg)
     | Some ph \<Rightarrow>
         cbind (elf_parse_segment ei ph) (\<lambda>s.
         if p_type s \<noteq> PT_LOAD then next_load_loop ei (nseg + 1) (Some s)
         else Inr (Some ph, nseg + 1, Some s)))"
  by pat_completeness auto
termination
  by (relation "measure (\<lambda>(ei, nseg, seg). nat (65536 - nseg))") (auto dest: elf_get_segment_bound)

declare next_load_loop.simps [simp del]

definition elf_next_load_segment ::
  "elf_info \<Rightarrow> int \<Rightarrow> (u8 list option \<times> int \<times> elf_segment option) cres" where
  "elf_next_load_segment ei nseg = next_load_loop ei nseg None"

definition elf_info_size :: "u8 list \<Rightarrow> u64 cres" where
  "elf_info_size bs = cbind (elf_is_64 bs) (\<lambda>b. Inr (if \<not> b then 80 else 96))"

definition elf_identify :: "u8 list option \<Rightarrow> u64 \<Rightarrow> int cres" where
  "elf_identify img len =
     (if unat len < SELFMAG then Inr (- RPROC_EINVAL)
      else case img of None \<Rightarrow> Inr (- RPROC_EINVAL)
      | Some bs \<Rightarrow> cbind (sub_bytes bs 0 SELFMAG) (\<lambda>m. Inr (if m \<noteq> ELFMAG then - RPROC_EINVAL else 0)))"

subsection \<open>Loading the headers\<close>

text \<open>
  The variables that a loader works on through pointers: its decoding information, the range
  of the image it asks for next, and the number of blocks held. Each stage returns \<open>Some r\<close> where
  the code returns \<open>r\<close>.
\<close>

record 'i elf_hs =
  hs_info :: "'i option"
  hs_noffset :: u64
  hs_nlen :: u64
  hs_live :: nat

definition new_elf_info :: "u8 list \<Rightarrow> elf_info" where
  "new_elf_info ehdr = \<lparr>ei_ehdr = ehdr, ei_load_state = 0, ei_phdrs = None, ei_shdrs = None, ei_shstrtab = None\<rparr>"

definition elf_ehdr_stage ::
  "(u64 \<Rightarrow> nat \<Rightarrow> bool) \<Rightarrow> u8 list option \<Rightarrow> u64 \<Rightarrow> int \<Rightarrow> (elf_info, 'x) elf_hs_scheme \<Rightarrow>
   (int option \<times> int \<times> (elf_info, 'x) elf_hs_scheme) cres" where
  "elf_ehdr_stage al img len lst hs =
     (if lst = ELF_STATE_INIT then
        cbind (elf_ehdr_size img) (\<lambda>tmpsize.
        if unat len < tmpsize
        then Inr (Some ELF_STATE_INIT, lst, hs\<lparr>hs_noffset := 0, hs_nlen := of_nat tmpsize\<rparr>)
        else case img of None \<Rightarrow> Inl Null_deref
        | Some bs \<Rightarrow>
            cbind (elf_info_size bs) (\<lambda>infosize.
            if hs_info hs = None \<and> \<not> al infosize (hs_live hs) then Inr (Some (- RPROC_ENOMEM), lst, hs)
            else cbind (sub_bytes bs 0 tmpsize) (\<lambda>ehdr.
              let base = (case hs_info hs of None \<Rightarrow> new_elf_info ehdr | Some ei \<Rightarrow> ei);
                  live = (case hs_info hs of None \<Rightarrow> hs_live hs + 1 | Some _ \<Rightarrow> hs_live hs) in
              if length (ei_ehdr base) \<noteq> tmpsize then Inl Bad_pointer
              else Inr (None, ELF_STATE_WAIT_FOR_PHDRS,
                     hs\<lparr>hs_info := Some (elf_load_state ELF_STATE_WAIT_FOR_PHDRS (base\<lparr>ei_ehdr := ehdr\<rparr>)),
                        hs_live := live\<rparr>))))
      else Inr (None, lst, hs))"

text \<open>
  Copying \<open>n\<close> bytes at offset \<open>tab_off\<close> of the image when the data at hand, \<open>len\<close> bytes from \<open>off\<close>
  on, covers them (\<open>Some\<close> of the copy, or \<open>Some None\<close> when memory is short), and asking for them
  otherwise (\<open>None\<close>). The sums are of type \<open>size_t\<close>.
\<close>

definition elf_copy_table ::
  "(u64 \<Rightarrow> nat \<Rightarrow> bool) \<Rightarrow> u8 list option \<Rightarrow> u64 \<Rightarrow> u64 \<Rightarrow> u64 \<Rightarrow> u64 \<Rightarrow> nat \<Rightarrow> u8 list option option cres" where
  "elf_copy_table al img off len tab_off n live =
     (if tab_off < off \<or> off + len < tab_off + n then Inr None
      else if \<not> al n live then Inr (Some None)
      else case img of None \<Rightarrow> Inl Null_deref
      | Some bs \<Rightarrow> cbind (sub_bytes bs (unat (tab_off - off)) (unat n)) (\<lambda>b. Inr (Some (Some b))))"

definition elf_phdrs_stage ::
  "(u64 \<Rightarrow> nat \<Rightarrow> bool) \<Rightarrow> u8 list option \<Rightarrow> u64 \<Rightarrow> u64 \<Rightarrow> elf_info \<Rightarrow> (elf_info, 'x) elf_hs_scheme \<Rightarrow>
   (int option \<times> elf_info \<times> (elf_info, 'x) elf_hs_scheme) cres" where
  "elf_phdrs_stage al img off len ei hs =
     (if ei_load_state ei = ELF_STATE_WAIT_FOR_PHDRS then
        cbind (elf_phoff ei) (\<lambda>phoff.
        cbind (elf_phnum ei) (\<lambda>phnum.
        cbind (elf_phentsize ei) (\<lambda>phentsize.
        let sz = word_of_int phnum * phentsize in
        cbind (elf_copy_table al img off len phoff sz (hs_live hs)) (\<lambda>c.
        case c of None \<Rightarrow> Inr (Some (ei_load_state ei), ei, hs\<lparr>hs_noffset := phoff, hs_nlen := sz\<rparr>)
        | Some None \<Rightarrow> Inr (Some (- RPROC_ENOMEM), ei, hs)
        | Some (Some b) \<Rightarrow>
            Inr (None, elf_load_state (ELF_STATE_WAIT_FOR_SHDRS OR RPROC_LOADER_READY_TO_LOAD)
                         (elf_phtable_ptr b ei), hs\<lparr>hs_live := hs_live hs + 1\<rparr>)))))
      else Inr (None, ei, hs))"

definition elf_shdrs_stage ::
  "(u64 \<Rightarrow> nat \<Rightarrow> bool) \<Rightarrow> u8 list option \<Rightarrow> u64 \<Rightarrow> u64 \<Rightarrow> elf_info \<Rightarrow> (elf_info, 'x) elf_hs_scheme \<Rightarrow>
   (int option \<times> elf_info \<times> (elf_info, 'x) elf_hs_scheme) cres" where
  "elf_shdrs_stage al img off len ei hs =
     (if ei_load_state ei AND ELF_STATE_WAIT_FOR_SHDRS \<noteq> 0 then
        cbind (elf_shoff ei) (\<lambda>shoff.
        cbind (elf_shnum ei) (\<lambda>shnum.
        if shnum = 0 then
          (let s = (ei_load_state ei AND NOT ELF_STATE_MASK) OR ELF_STATE_HDRS_COMPLETE in
           Inr (Some s, elf_load_state s ei, hs\<lparr>hs_nlen := 0\<rparr>))
        else
        cbind (elf_shentsize ei) (\<lambda>shentsize.
        let sz = word_of_int shnum * shentsize in
        cbind (elf_copy_table al img off len shoff sz (hs_live hs)) (\<lambda>c.
        case c of None \<Rightarrow> Inr (Some (ei_load_state ei), ei, hs\<lparr>hs_noffset := shoff, hs_nlen := sz\<rparr>)
        | Some None \<Rightarrow> Inr (Some (- RPROC_ENOMEM), ei, hs)
        | Some (Some b) \<Rightarrow>
            Inr (None, elf_load_state ((ei_load_state ei AND NOT ELF_STATE_MASK) OR ELF_STATE_WAIT_FOR_SHSTRTAB)
                         (elf_shtable_ptr b ei), hs\<lparr>hs_live := hs_live hs + 1\<rparr>)))))
      else Inr (None, ei, hs))"

definition elf_shstrtab_stage ::
  "(u64 \<Rightarrow> nat \<Rightarrow> bool) \<Rightarrow> u8 list option \<Rightarrow> u64 \<Rightarrow> u64 \<Rightarrow> elf_info \<Rightarrow> (elf_info, 'x) elf_hs_scheme \<Rightarrow>
   (int option \<times> elf_info \<times> (elf_info, 'x) elf_hs_scheme) cres" where
  "elf_shstrtab_stage al img off len ei hs =
     (if ei_load_state ei AND ELF_STATE_WAIT_FOR_SHSTRTAB \<noteq> 0 then
        cbind (elf_shstrndx ei) (\<lambda>shstrndx.
        cbind (elf_get_section_from_index ei shstrndx) (\<lambda>shdro.
        case shdro of None \<Rightarrow> Inr (Some (- RPROC_EINVAL), ei, hs)
        | Some shdr \<Rightarrow>
        cbind (elf_parse_section ei shdr) (\<lambda>sec.
        cbind (sh_offset sec) (\<lambda>stoff.
        cbind (sh_size sec) (\<lambda>sz.
        cbind (elf_copy_table al img off len stoff sz (hs_live hs)) (\<lambda>c.
        case c of None \<Rightarrow> Inr (Some (ei_load_state ei), ei, hs\<lparr>hs_noffset := stoff, hs_nlen := sz\<rparr>)
        | Some None \<Rightarrow> Inr (Some (- RPROC_ENOMEM), ei, hs)
        | Some (Some b) \<Rightarrow>
            (let s = (ei_load_state ei AND NOT ELF_STATE_MASK) OR ELF_STATE_HDRS_COMPLETE in
             Inr (Some s, elf_load_state s (elf_shstrtab_ptr b ei),
                  hs\<lparr>hs_live := hs_live hs + 1, hs_nlen := 0\<rparr>))))))))
      else Inr (None, ei, hs))"

definition elf_load_header ::
  "(u64 \<Rightarrow> nat \<Rightarrow> bool) \<Rightarrow> u8 list option \<Rightarrow> u64 \<Rightarrow> u64 \<Rightarrow> int \<Rightarrow> (elf_info, 'x) elf_hs_scheme \<Rightarrow>
   (int \<times> (elf_info, 'x) elf_hs_scheme) cres" where
  "elf_load_header al img off len lst hs =
     cbind (elf_ehdr_stage al img len lst hs) (\<lambda>(r0, lst1, hs0).
     case r0 of Some r \<Rightarrow> Inr (r, hs0) | None \<Rightarrow>
     case hs_info hs0 of None \<Rightarrow> Inl Assert_failed
     | Some ei0 \<Rightarrow>
     if lst1 \<noteq> ei_load_state ei0 then Inr (- RPROC_EINVAL, hs0)
     else
     cbind (elf_phdrs_stage al img off len ei0 hs0) (\<lambda>(r1, ei1, hs1).
     case r1 of Some r \<Rightarrow> Inr (r, hs1\<lparr>hs_info := Some ei1\<rparr>) | None \<Rightarrow>
     cbind (elf_shdrs_stage al img off len ei1 hs1) (\<lambda>(r2, ei2, hs2).
     case r2 of Some r \<Rightarrow> Inr (r, hs2\<lparr>hs_info := Some ei2\<rparr>) | None \<Rightarrow>
     cbind (elf_shstrtab_stage al img off len ei2 hs2) (\<lambda>(r3, ei3, hs3).
     case r3 of Some r \<Rightarrow> Inr (r, hs3\<lparr>hs_info := Some ei3\<rparr>)
     | None \<Rightarrow> Inr (lst1, hs3\<lparr>hs_info := Some ei3\<rparr>)))))"

subsection \<open>Loading the segments\<close>

record 'i elf_ld = "'i elf_hs" +
  ld_da :: u64
  ld_padding :: "u8 option"
  ld_nmemsize :: u64

text \<open>The branch that looks for the next segment to load.\<close>

definition elf_load_segment :: "elf_info \<Rightarrow> elf_info elf_ld \<Rightarrow> (int \<times> elf_info elf_ld) cres" where
  "elf_load_segment ei ld =
     cbind (elf_next_load_segment ei (ei_load_state ei AND ELF_NEXT_SEGMENT_MASK)) (\<lambda>(phdr, nsegment, seg).
     let ld1 = (case seg of None \<Rightarrow> ld | Some s \<Rightarrow> ld\<lparr>ld_da := p_vaddr s, hs_noffset := p_offset s\<rparr>) in
     case (phdr, seg) of
       (Some _, Some s) \<Rightarrow>
         cbind (elf_phnum ei) (\<lambda>phnums.
         let ls0 = ei_load_state ei;
             ls1 = (if nsegment = phnums
                    then (ls0 AND NOT RPROC_LOADER_MASK) OR RPROC_LOADER_POST_DATA_LOAD else ls0);
             ls2 = (ls1 AND NOT ELF_NEXT_SEGMENT_MASK) OR (nsegment AND ELF_NEXT_SEGMENT_MASK) in
         Inr (ls2, ld1\<lparr>hs_nlen := p_filesz s, ld_nmemsize := p_memsz s,
                       hs_info := Some (elf_load_state ls2 ei)\<rparr>))
     | _ \<Rightarrow>
         (let ls = (ei_load_state ei AND NOT ELF_NEXT_SEGMENT_MASK) OR (nsegment AND ELF_NEXT_SEGMENT_MASK) in
          Inr (ls, ld1\<lparr>hs_info := Some (elf_load_state ls ei)\<rparr>)))"

text \<open>The branch after the segments: the headers that are still missing.\<close>

definition elf_load_post ::
  "(u64 \<Rightarrow> nat \<Rightarrow> bool) \<Rightarrow> u8 list option \<Rightarrow> u64 \<Rightarrow> u64 \<Rightarrow> int \<Rightarrow> elf_info \<Rightarrow> elf_info elf_ld \<Rightarrow>
   (int \<times> elf_info elf_ld) cres" where
  "elf_load_post al img off len lst ei ld =
     (if ei_load_state ei AND ELF_STATE_HDRS_COMPLETE = 0 then
        cbind (elf_load_header al img off len lst ld) (\<lambda>(ret, ld1).
        if ret < 0 then Inr (ret, ld1)
        else case hs_info ld1 of None \<Rightarrow> Inl Null_deref
        | Some ei1 \<Rightarrow>
            (let fin = ret AND ELF_STATE_HDRS_COMPLETE \<noteq> 0;
                 ls = (if fin then (ei_load_state ei1 AND NOT RPROC_LOADER_MASK) OR RPROC_LOADER_LOAD_COMPLETE
                       else ei_load_state ei1) in
             Inr (ls, ld1\<lparr>hs_info := Some (elf_load_state ls ei1),
                          hs_nlen := (if fin then 0 else hs_nlen ld1), ld_da := RPROC_LOAD_ANYADDR\<rparr>)))
      else
        (let ls = (ei_load_state ei AND NOT RPROC_LOADER_MASK) OR RPROC_LOADER_LOAD_COMPLETE in
         Inr (ls, ld\<lparr>hs_nlen := 0, hs_info := Some (elf_load_state ls ei)\<rparr>)))"

definition elf_load ::
  "(u64 \<Rightarrow> nat \<Rightarrow> bool) \<Rightarrow> u8 list option \<Rightarrow> u64 \<Rightarrow> u64 \<Rightarrow> int \<Rightarrow> elf_info elf_ld \<Rightarrow>
   (int \<times> elf_info elf_ld) cres" where
  "elf_load al img off len lst ld =
     cbind (if lst AND RPROC_LOADER_MASK = RPROC_LOADER_NOT_READY
            then cbind (elf_load_header al img off len lst ld) (\<lambda>(ret, ld1). Inr (True, ret, ld1))
            else Inr (False, lst, ld)) (\<lambda>(hdr, lst1, ld1).
     if hdr \<and> lst1 AND RPROC_LOADER_MASK = RPROC_LOADER_NOT_READY
     then Inr (lst1, ld1\<lparr>ld_da := RPROC_LOAD_ANYADDR\<rparr>)
     else case hs_info ld1 of None \<Rightarrow> Inl Assert_failed
     | Some ei \<Rightarrow>
         (let ld2 = ld1\<lparr>ld_padding := map_option (\<lambda>_. 0) (ld_padding ld1)\<rparr> in
          if ei_load_state ei AND RPROC_LOADER_READY_TO_LOAD \<noteq> 0 then elf_load_segment ei ld2
          else if ei_load_state ei AND RPROC_LOADER_POST_DATA_LOAD \<noteq> 0
          then elf_load_post al img off len lst1 ei ld2
          else Inr (ei_load_state ei, ld2)))"

subsection \<open>Queries and release\<close>

definition elf_release :: "elf_info option \<Rightarrow> nat \<Rightarrow> nat" where
  "elf_release info live =
     (case info of None \<Rightarrow> live
      | Some ei \<Rightarrow> live - (1 + (if ei_phdrs ei = None then 0 else 1) + (if ei_shdrs ei = None then 0 else 1)
                             + (if ei_shstrtab ei = None then 0 else 1)))"

definition elf_get_entry :: "elf_info option \<Rightarrow> u64 cres" where
  "elf_get_entry info =
     (case info of None \<Rightarrow> Inr METAL_BAD_PHYS
      | Some ei \<Rightarrow> cbind (elf_is_64 (ei_ehdr ei)) (\<lambda>b. fld_addr b (ei_ehdr ei) 24 24))"

definition RSC_TABLE_SECTION :: "u8 list" where
  "RSC_TABLE_SECTION = [0x2e, 0x72, 0x65, 0x73, 0x6f, 0x75, 0x72, 0x63, 0x65, 0x5f, 0x74, 0x61, 0x62, 0x6c, 0x65]"

text \<open>The arguments are what the pointers \<open>da\<close>, \<open>offset\<close> and \<open>size\<close> refer to before the call.\<close>

definition elf_locate_rsc_table ::
  "elf_info option \<Rightarrow> u64 \<Rightarrow> u64 \<Rightarrow> u64 \<Rightarrow> (int \<times> u64 \<times> u64 \<times> u64) cres" where
  "elf_locate_rsc_table info da off sz =
     (case info of None \<Rightarrow> Inr (- RPROC_EINVAL, da, off, sz)
      | Some ei \<Rightarrow>
          if ei_load_state ei AND ELF_STATE_HDRS_COMPLETE = 0 then Inr (- RPROC_ERR_LOADER_STATE, da, off, sz)
          else cbind (elf_get_section_from_name ei RSC_TABLE_SECTION) (\<lambda>shdro.
            case shdro of None \<Rightarrow> Inr (0, da, off, 0)
            | Some shdr \<Rightarrow>
                cbind (elf_parse_section ei shdr) (\<lambda>sec.
                cbind (sh_addr sec) (\<lambda>a. cbind (sh_offset sec) (\<lambda>o'. cbind (sh_size sec) (\<lambda>s.
                Inr (0, a, o', s)))))))"

definition elf_get_load_state :: "elf_info option \<Rightarrow> int" where
  "elf_get_load_state info = (case info of None \<Rightarrow> - RPROC_EINVAL | Some ei \<Rightarrow> ei_load_state ei)"

subsection \<open>The loader interface\<close>

text \<open>\<open>struct loader_ops\<close>, and the table of the ELF loader.\<close>

record 'i loader_ops =
  lo_load_header :: "u8 list option \<Rightarrow> u64 \<Rightarrow> u64 \<Rightarrow> int \<Rightarrow> 'i elf_ld \<Rightarrow> (int \<times> 'i elf_ld) cres"
  lo_load_data :: "remoteproc \<Rightarrow> u8 list option \<Rightarrow> u64 \<Rightarrow> u64 \<Rightarrow> int \<Rightarrow> 'i elf_ld \<Rightarrow> (int \<times> 'i elf_ld) cres"
  lo_locate_rsc_table :: "'i option \<Rightarrow> u64 \<Rightarrow> u64 \<Rightarrow> u64 \<Rightarrow> (int \<times> u64 \<times> u64 \<times> u64) cres"
  lo_release :: "'i option \<Rightarrow> nat \<Rightarrow> nat"
  lo_get_entry :: "'i option \<Rightarrow> u64 cres"
  lo_get_load_state :: "'i option \<Rightarrow> int"

definition elf_ops :: "(u64 \<Rightarrow> nat \<Rightarrow> bool) \<Rightarrow> elf_info loader_ops" where
  "elf_ops al =
     \<lparr>lo_load_header = elf_load_header al,
      lo_load_data = (\<lambda>rproc. elf_load al),
      lo_locate_rsc_table = elf_locate_rsc_table,
      lo_release = elf_release,
      lo_get_entry = elf_get_entry,
      lo_get_load_state = elf_get_load_state\<rparr>"

end
