(* ===== verification/Remoteproc_Load.thy ===== *)
theory Remoteproc_Load
  imports Elf_Loader Rsc_Table
begin

text \<open>
  Loading firmware: \<open>remoteproc_load\<close>, \<open>remoteproc_load_noblock\<close> and the functions they use, of
  \<open>lib/remoteproc/remoteproc.c\<close>.

  The image store belongs to the application and is the parameter \<open>store\<close> (\<open>image_store_ops\<close>); what
  it returns through \<open>img_data\<close> is a list of bytes. \<open>loaders\<close> gives the loader behind a pointer; the
  one of \<open>ELF_OPS\<close> is the ELF loader. The loops call the loader and the store until these are done,
  which nothing bounds: \<open>fuel\<close> is the number of rounds after which the model gives up with the fault
  \<open>Hang\<close>.
\<close>

definition SUPPORT_SEEK :: u32 where "SUPPORT_SEEK = 1"
definition ELF_OPS :: ptr where "ELF_OPS = 0x220"

record image_store_ops =
  so_open :: "rproc_world \<Rightarrow> int \<times> u8 list option \<times> rproc_world"
  so_close :: "rproc_world \<Rightarrow> rproc_world"
  so_load :: "u64 \<Rightarrow> u64 \<Rightarrow> u8 list option \<Rightarrow> u64 \<Rightarrow> ptr \<Rightarrow> rproc_world \<Rightarrow>
    (int \<times> u8 list option \<times> rproc_world) cres"
  so_features :: u32

text \<open>The conversion of a \<open>size_t\<close> to \<open>int\<close>.\<close>

definition int_of_size :: "u64 \<Rightarrow> int" where
  "int_of_size x = signed_take_bit 31 (uint x)"

text \<open>Opening and closing the store, with the count of open images.\<close>

definition store_open :: "image_store_ops \<Rightarrow> rproc_world \<Rightarrow> int \<times> u8 list option \<times> rproc_world" where
  "store_open store w =
     (case so_open store w of (ret, img, w') \<Rightarrow>
        (ret, img, if 0 < ret then w'\<lparr>w_open := w_open w' + 1\<rparr> else w'))"

definition store_close :: "image_store_ops \<Rightarrow> rproc_world \<Rightarrow> rproc_world" where
  "store_close store w = (let w' = so_close store w in w'\<lparr>w_open := w_open w' - 1\<rparr>)"

text \<open>Buffers of \<open>metal_allocate_memory\<close>.\<close>

definition alloc_bytes :: "rproc_env \<Rightarrow> u64 \<Rightarrow> rproc_world \<Rightarrow> ptr \<times> rproc_world" where
  "alloc_bytes env n w =
     (let p = pe_malloc env n w in (p, if p = NULL then w else w\<lparr>w_bytes := p # w_bytes w\<rparr>))"

definition free_bytes :: "ptr \<Rightarrow> rproc_world \<Rightarrow> rproc_world cres" where
  "free_bytes p w =
     (if p = NULL then Inr w
      else if p \<in> set (w_bytes w) then Inr (w\<lparr>w_bytes := remove1 p (w_bytes w)\<rparr>)
      else Inl Bad_pointer)"

subsection \<open>Helpers\<close>

definition remoteproc_check_fw_format :: "u8 list option \<Rightarrow> u64 \<Rightarrow> ptr cres" where
  "remoteproc_check_fw_format img len =
     (if len = 0 then Inr NULL
      else cbind (elf_identify img len) (\<lambda>r. Inr (if r = 0 then ELF_OPS else NULL)))"

text \<open>
  On an error the code has overwritten its only pointer to the buffer by the error code when it
  frees it.
\<close>

definition remoteproc_get_rsc_table ::
  "rproc_env \<Rightarrow> remoteproc_ops \<Rightarrow> image_store_ops \<Rightarrow> u64 \<Rightarrow> u64 \<Rightarrow> remoteproc \<Rightarrow> rproc_world \<Rightarrow>
   (ptr \<times> remoteproc \<times> rproc_world) cres" where
  "remoteproc_get_rsc_table env ops store off len rp w =
     (case alloc_bytes env len w of (p, w1) \<Rightarrow>
      if p = NULL then Inr (RPROC_ERR_PTR (- RPROC_ENOMEM), rp, w1) else
      cbind (so_load store off len None RPROC_LOAD_ANYADDR NULL w1) (\<lambda>(ret, img, w2).
      if ret < 0 \<or> ret < int_of_size len \<or> img = None then
        (let e = RPROC_ERR_PTR (- RPROC_EINVAL) in cbind (free_bytes e w2) (\<lambda>w3. Inr (e, rp, w3)))
      else
        cbind (sub_bytes (the img) 0 (unat len)) (\<lambda>bs.
        cbind (handle_rsc_table env ops p len NULL rp (w2\<lparr>w_mem := wr_bytes (w_mem w2) p bs\<rparr>)) (\<lambda>(ret', rp', w3).
        if ret' < 0 then
          (let e = RPROC_ERR_PTR ret' in cbind (free_bytes e w3) (\<lambda>w4. Inr (e, rp', w4)))
        else Inr (p, rp', w3)))))"

subsection \<open>Loading at once\<close>

text \<open>
  The variables of \<open>remoteproc_load\<close>: the data at hand and the range of the image it covers, the last
  state of the loader, the loader's own variables, and the I/O region mapped last.
\<close>

record 'i load_st =
  ls_img :: "u8 list option"
  ls_offset :: u64
  ls_len :: u64
  ls_state :: int
  ls_vars :: "'i elf_ld"
  ls_io :: ptr

text \<open>A loader is called on its variables; the blocks it holds are counted in the world.\<close>

definition loader_call ::
  "('i elf_ld \<Rightarrow> (int \<times> 'i elf_ld) cres) \<Rightarrow> 'i load_st \<Rightarrow> rproc_world \<Rightarrow>
   (int \<times> 'i load_st \<times> rproc_world) cres" where
  "loader_call f st w =
     cbind (f ((ls_vars st)\<lparr>hs_live := w_loader w\<rparr>)) (\<lambda>(ret, v).
       Inr (ret, st\<lparr>ls_vars := v\<rparr>, w\<lparr>w_loader := hs_live v\<rparr>))"

text \<open>The loop over the headers. \<open>Some ret\<close> is the way to the label \<open>error2\<close>.\<close>

fun load_headers_loop ::
  "nat \<Rightarrow> 'i loader_ops \<Rightarrow> image_store_ops \<Rightarrow> 'i load_st \<Rightarrow> rproc_world \<Rightarrow>
   (int option \<times> 'i load_st \<times> rproc_world) cres" where
  "load_headers_loop 0 ld store st w = Inl Hang"
| "load_headers_loop (Suc fuel) ld store st w =
     cbind (loader_call (lo_load_header ld (ls_img st) (ls_offset st) (ls_len st) (ls_state st)) st w)
       (\<lambda>(ret, st0, w1).
     let st1 = st0\<lparr>ls_state := ret\<rparr>;
         noffset = hs_noffset (ls_vars st1); nlen = hs_nlen (ls_vars st1) in
     if ret < 0 then Inr (Some ret, st1, w1)
     else if ret AND RPROC_LOADER_READY_TO_LOAD \<noteq> 0 \<and>
             (nlen = 0 \<or> (ls_offset st1 + ls_len st1 < noffset \<and> so_features store AND SUPPORT_SEEK = 0))
     then Inr (None, st1, w1)
     else
       cbind (so_load store noffset nlen None RPROC_LOAD_ANYADDR NULL w1) (\<lambda>(ret', img, w2).
        if ret' < int_of_size nlen then Inr (Some ret', st1\<lparr>ls_img := img\<rparr>, w2)
        else load_headers_loop fuel ld store
               (st1\<lparr>ls_img := img, ls_offset := noffset, ls_len := nlen\<rparr>) w2))"

text \<open>Looking for the resource table; the result is \<open>rsc_table\<close>, \<open>rsc_da\<close> and \<open>rsc_size\<close>.\<close>

definition load_locate_rsc ::
  "rproc_env \<Rightarrow> remoteproc_ops \<Rightarrow> image_store_ops \<Rightarrow> 'i loader_ops \<Rightarrow> 'i load_st \<Rightarrow> ptr \<times> u64 \<times> u64 \<Rightarrow>
   remoteproc \<Rightarrow> rproc_world \<Rightarrow> ((ptr \<times> u64 \<times> u64) \<times> remoteproc \<times> rproc_world) cres" where
  "load_locate_rsc env ops store ld st r rp w =
     (case r of (rsc_table, rsc_da, rsc_size) \<Rightarrow>
      cbind (lo_locate_rsc_table ld (hs_info (ls_vars st)) rsc_da (ls_offset st) rsc_size)
        (\<lambda>(ret, da, off, sz).
      if ret = 0 \<and> 0 < sz then
        cbind (remoteproc_get_rsc_table env ops store off sz rp w) (\<lambda>(t, rp', w'). Inr ((t, da, sz), rp', w'))
      else Inr ((rsc_table, da, sz), rp, w)))"

text \<open>
  One segment: map its target, load the data, and fill the rest with the padding value. \<open>Some ret\<close>
  is the way to \<open>error3\<close>.
\<close>

definition load_segment ::
  "rproc_env \<Rightarrow> remoteproc_ops \<Rightarrow> image_store_ops \<Rightarrow> 'i load_st \<Rightarrow> remoteproc \<Rightarrow> rproc_world \<Rightarrow>
   (int option \<times> 'i load_st \<times> remoteproc \<times> rproc_world) cres" where
  "load_segment env ops store st rp w =
     (let v = ls_vars st; nlen = hs_nlen v; nmemsize = ld_nmemsize v in
      cbind (remoteproc_mmap (pe_io env) ops (Some rp) (Some METAL_BAD_PHYS) (Some (ld_da v)) nmemsize 0
               (Some (ls_io st)) w) (\<lambda>(_, pa', _, io', rp', w1).
      let pa = the pa'; io = the io'; rp1 = the rp';
          st1 = st\<lparr>ls_img := None, ls_io := io\<rparr> in
      if pa = METAL_BAD_PHYS \<or> io = NULL then Inr (Some (- RPROC_EINVAL), st1, rp1, w1)
      else
        cbind (if 0 < nlen then so_load store (hs_noffset v) nlen None pa io w1
               else Inr (int_of_size nlen, None, w1)) (\<lambda>(ret, img, w2).
         if ret \<noteq> int_of_size nlen then Inr (Some (- RPROC_EINVAL), st1\<lparr>ls_img := img\<rparr>, rp1, w2)
         else if nlen < nmemsize then
           (let off = io_phys_to_offset (pe_io env) io (pa + nlen);
                m = snd (io_block_set (pe_io env) io off (the (ld_padding v))
                           (int_of_size (nmemsize - nlen)) (w_mem w2)) in
            Inr (None, st1\<lparr>ls_img := img\<rparr>, rp1, w2\<lparr>w_mem := m\<rparr>))
         else Inr (None, st1\<lparr>ls_img := img\<rparr>, rp1, w2))))"

text \<open>The loop over the data.\<close>

fun load_data_loop ::
  "nat \<Rightarrow> rproc_env \<Rightarrow> remoteproc_ops \<Rightarrow> image_store_ops \<Rightarrow> 'i loader_ops \<Rightarrow> 'i load_st \<Rightarrow> remoteproc \<Rightarrow>
   rproc_world \<Rightarrow> (int option \<times> 'i load_st \<times> remoteproc \<times> rproc_world) cres" where
  "load_data_loop 0 env ops store ld st rp w = Inl Hang"
| "load_data_loop (Suc fuel) env ops store ld st rp w =
     (let st0 = st\<lparr>ls_vars := (ls_vars st)\<lparr>hs_noffset := 0, hs_nlen := 0, ld_da := RPROC_LOAD_ANYADDR,
                    ld_padding := Some (ucast (pe_stack env)), ld_nmemsize := 0\<rparr>\<rparr> in
      cbind (loader_call (lo_load_data ld rp (ls_img st0) (ls_offset st0) (ls_len st0) (ls_state st0)) st0 w)
        (\<lambda>(ret, st1, w1).
      if ret < 0 then Inr (Some ret, st1, rp, w1)
      else
        let st2 = st1\<lparr>ls_state := ret\<rparr>; v = ls_vars st2 in
        if ld_da v \<noteq> RPROC_LOAD_ANYADDR then
          cbind (load_segment env ops store st2 rp w1) (\<lambda>(r, st3, rp3, w3).
          case r of Some e \<Rightarrow> Inr (Some e, st3, rp3, w3)
          | None \<Rightarrow> load_data_loop fuel env ops store ld st3 rp3 w3)
        else if hs_nlen v \<noteq> 0 then
          cbind (so_load store (hs_noffset v) (hs_nlen v) (ls_img st2) RPROC_LOAD_ANYADDR NULL w1) (\<lambda>(ret', img, w2).
           if ret' < int_of_size (hs_nlen v) then
             (if ret AND RPROC_LOADER_POST_DATA_LOAD \<noteq> 0 then Inr (None, st2\<lparr>ls_img := img\<rparr>, rp, w2)
              else Inr (Some ret', st2\<lparr>ls_img := img\<rparr>, rp, w2))
           else load_data_loop fuel env ops store ld
                  (st2\<lparr>ls_img := img, ls_offset := hs_noffset v, ls_len := hs_nlen v\<rparr>) rp w2)
        else Inr (None, st2, rp, w1)))"

text \<open>Writing the parsed resource table to its place in the memory of the remote.\<close>

definition load_update_rsc ::
  "rproc_env \<Rightarrow> remoteproc_ops \<Rightarrow> ptr \<times> u64 \<times> u64 \<Rightarrow> ptr \<Rightarrow> remoteproc \<Rightarrow> rproc_world \<Rightarrow>
   (remoteproc \<times> rproc_world) cres" where
  "load_update_rsc env ops r io0 rp w =
     (case r of (cp, rsc_da, rsc_size) \<Rightarrow>
      if cp = NULL then Inr (rp, w) else
      cbind (remoteproc_mmap (pe_io env) ops (Some rp) None (Some rsc_da) rsc_size 0 (Some io0) w)
        (\<lambda>(va, _, _, io', rp', w1).
      let io = the io'; rp1 = the rp' in
      if va \<noteq> NULL then
        (let off = io_virt_to_offset (pe_io env) io va;
             m = snd (io_block_write (pe_io env) io off (rd_bytes (w_mem w1) cp (unat rsc_size))
                        (int_of_size rsc_size) (w_mem w1)) in
         cbind (free_bytes cp (w1\<lparr>w_mem := m\<rparr>)) (\<lambda>w2.
           Inr (rp1\<lparr>rp_rsc_table := va, rp_rsc_len := rsc_size, rp_rsc_io := io\<rparr>, w2)))
      else cbind (free_bytes cp w1) (\<lambda>w2. Inr (rp1, w2))))"

definition release_info :: "'i loader_ops \<Rightarrow> 'i option \<Rightarrow> rproc_world \<Rightarrow> rproc_world" where
  "release_info ld info w = w\<lparr>w_loader := lo_release ld info (w_loader w)\<rparr>"

text \<open>From the header loop on; the loader is known and the store is open.\<close>

definition load_image ::
  "nat \<Rightarrow> rproc_env \<Rightarrow> remoteproc_ops \<Rightarrow> image_store_ops \<Rightarrow> 'i loader_ops \<Rightarrow> bool \<Rightarrow> u8 list option \<Rightarrow> u64 \<Rightarrow>
   remoteproc \<Rightarrow> rproc_world \<Rightarrow> ((int \<times> 'i option) \<times> remoteproc \<times> rproc_world) cres" where
  "load_image fuel env ops store ld want img len rp w =
     (let v0 = \<lparr>hs_info = None, hs_noffset = pe_stack env, hs_nlen = pe_stack env, hs_live = w_loader w,
                ld_da = pe_stack env, ld_padding = Some (ucast (pe_stack env)), ld_nmemsize = pe_stack env\<rparr>;
          st0 = \<lparr>ls_img = img, ls_offset = 0, ls_len = len, ls_state = RPROC_LOADER_NOT_READY,
                 ls_vars = v0, ls_io = NULL\<rparr> in
      cbind (load_headers_loop fuel ld store st0 w) (\<lambda>(r1, st1, w1).
      case r1 of
        Some ret \<Rightarrow> Inr ((ret, None), rp, store_close store (release_info ld (hs_info (ls_vars st1)) w1))
      | None \<Rightarrow>
      cbind (load_locate_rsc env ops store ld st1 (NULL, pe_stack env, 0) rp w1) (\<lambda>(rsc1, rp2, w2).
      cbind (load_data_loop fuel env ops store ld (st1\<lparr>ls_offset := 0, ls_len := 0\<rparr>) rp2 w2)
        (\<lambda>(r3, st3, rp3, w3).
      case r3 of
        Some ret \<Rightarrow>
          cbind (free_bytes (fst rsc1) w3) (\<lambda>w4.
          Inr ((ret, None), rp3, store_close store (release_info ld (hs_info (ls_vars st3)) w4)))
      | None \<Rightarrow>
      cbind (if snd (snd rsc1) = 0 then load_locate_rsc env ops store ld st3 rsc1 rp3 w3
             else Inr (rsc1, rp3, w3)) (\<lambda>(rsc4, rp4, w4).
      cbind (load_update_rsc env ops rsc4 (ls_io st3) rp4 w4) (\<lambda>(rp5, w5).
      cbind (lo_get_entry ld (hs_info (ls_vars st3))) (\<lambda>entry.
      let rp6 = rp5\<lparr>rp_bootaddr := entry, rp_state := RPROC_READY\<rparr>;
          w6 = (if want then w5 else release_info ld (hs_info (ls_vars st3)) w5) in
      Inr ((0, if want then hs_info (ls_vars st3) else None), rp6, store_close store w6))))))))"

definition remoteproc_load ::
  "nat \<Rightarrow> rproc_env \<Rightarrow> remoteproc_ops \<Rightarrow> (ptr \<Rightarrow> 'i loader_ops) \<Rightarrow> image_store_ops option \<Rightarrow> bool \<Rightarrow>
   remoteproc option \<Rightarrow> rproc_world \<Rightarrow> ((int \<times> 'i option) \<times> remoteproc option \<times> rproc_world) cres" where
  "remoteproc_load fuel env ops loaders store_ops want rproc w =
     (case rproc of None \<Rightarrow> Inr ((- RPROC_ENODEV, None), None, w)
      | Some rp \<Rightarrow>
     cbind (rp_locked (\<lambda>rp w.
       if rp_state rp \<noteq> RPROC_READY \<and> rp_state rp \<noteq> RPROC_CONFIGURED then Inr ((- RPROC_EINVAL, None), rp, w)
       else case store_ops of None \<Rightarrow> Inr ((- RPROC_EINVAL, None), rp, w)
       | Some store \<Rightarrow>
       (case store_open store w of (ret, img, w1) \<Rightarrow>
        if ret \<le> 0 then Inr ((- RPROC_EINVAL, None), rp, w1)
        else if img = None then Inl Assert_failed
        else
        let len = word_of_int ret in
        cbind (if rp_loader rp = NULL then remoteproc_check_fw_format img len else Inr (rp_loader rp)) (\<lambda>loader.
        if loader = NULL then Inr ((- RPROC_EINVAL, None), rp, store_close store w1)
        else load_image fuel env ops store (loaders loader) want img len (rp\<lparr>rp_loader := loader\<rparr>) w1))) rp w)
     (\<lambda>(r, rp', w'). Inr (r, Some rp', w')))"

subsection \<open>Loading piece by piece\<close>

text \<open>
  What the pointers \<open>pa\<close>, \<open>io\<close>, \<open>noffset\<close>, \<open>nlen\<close>, \<open>nmlen\<close> and \<open>padding\<close> of
  \<open>remoteproc_load_noblock\<close> refer to. Each stage goes on to the next, to the label \<open>out\<close> or, with a
  result, to \<open>error1\<close>.
\<close>

record nb_out =
  no_pa :: u64
  no_io :: ptr
  no_noffset :: u64
  no_nlen :: u64
  no_nmlen :: u64
  no_padding :: u8

datatype nb_next = Nb_go | Nb_out | Nb_error1 int

text \<open>Calling the loader on the variables of the caller; \<open>da\<close> is local.\<close>

definition nb_vars :: "nb_out \<Rightarrow> 'i option \<Rightarrow> u64 \<Rightarrow> nat \<Rightarrow> 'i elf_ld" where
  "nb_vars o' info da live =
     \<lparr>hs_info = info, hs_noffset = no_noffset o', hs_nlen = no_nlen o', hs_live = live,
      ld_da = da, ld_padding = Some (no_padding o'), ld_nmemsize = no_nmlen o'\<rparr>"

definition nb_store :: "'i elf_ld \<Rightarrow> nb_out \<Rightarrow> nb_out" where
  "nb_store v o' = o'\<lparr>no_noffset := hs_noffset v, no_nlen := hs_nlen v, no_nmlen := ld_nmemsize v,
                      no_padding := the (ld_padding v)\<rparr>"

definition nb_headers ::
  "'i loader_ops \<Rightarrow> u8 list option \<Rightarrow> u64 \<Rightarrow> u64 \<Rightarrow> int \<Rightarrow> 'i option \<Rightarrow> nb_out \<Rightarrow> rproc_world \<Rightarrow>
   (nb_next \<times> int \<times> 'i option \<times> nb_out \<times> rproc_world) cres" where
  "nb_headers ld img off len lst info o' w =
     (if lst AND RPROC_LOADER_READY_TO_LOAD = 0 \<and> lst AND RPROC_LOADER_LOAD_COMPLETE = 0 then
        cbind (lo_load_header ld img off len lst (nb_vars o' info RPROC_LOAD_ANYADDR (w_loader w))) (\<lambda>(ret, v).
        let o1 = nb_store v o'; w1 = w\<lparr>w_loader := hs_live v\<rparr> in
        if ret < 0 then Inr (Nb_error1 ret, lst, hs_info v, o1, w1)
        else if no_nlen o1 \<noteq> 0 \<and> ret AND RPROC_LOADER_READY_TO_LOAD = 0
        then Inr (Nb_out, ret, hs_info v, o1, w1)
        else Inr (Nb_go, ret, hs_info v, o1, w1))
      else Inr (Nb_go, lst, info, o', w))"

definition nb_data ::
  "rproc_env \<Rightarrow> remoteproc_ops \<Rightarrow> 'i loader_ops \<Rightarrow> u8 list option \<Rightarrow> u64 \<Rightarrow> u64 \<Rightarrow> int \<Rightarrow> 'i option \<Rightarrow> nb_out \<Rightarrow>
   remoteproc \<Rightarrow> rproc_world \<Rightarrow> (nb_next \<times> int \<times> 'i option \<times> nb_out \<times> remoteproc \<times> rproc_world) cres" where
  "nb_data env ops ld img off len lst info o' rp w =
     (if lst AND RPROC_LOADER_READY_TO_LOAD \<noteq> 0 \<or> lst AND RPROC_LOADER_POST_DATA_LOAD \<noteq> 0 then
        cbind (lo_load_data ld rp img off len lst (nb_vars o' info RPROC_LOAD_ANYADDR (w_loader w))) (\<lambda>(ret, v).
        let o1 = nb_store v o'; w1 = w\<lparr>w_loader := hs_live v\<rparr> in
        if ret < 0 then Inr (Nb_error1 ret, lst, hs_info v, o1, rp, w1)
        else
          cbind (if ld_da v \<noteq> RPROC_LOAD_ANYADDR then
                   cbind (remoteproc_mmap (pe_io env) ops (Some rp) (Some METAL_BAD_PHYS) (Some (ld_da v))
                            (no_nmlen o1) 0 (Some (no_io o1)) w1) (\<lambda>(_, pa', _, io', rp', w2).
                     Inr (the pa' = METAL_BAD_PHYS, o1\<lparr>no_pa := the pa', no_io := the io'\<rparr>, the rp', w2))
                 else Inr (False, o1, rp, w1)) (\<lambda>(unmapped, o2, rp2, w2).
          if unmapped then Inr (Nb_error1 (- RPROC_EINVAL), ret, hs_info v, o2, rp2, w2)
          else Inr (if no_nlen o2 \<noteq> 0 then Nb_out else Nb_go, ret, hs_info v, o2, rp2, w2)))
      else Inr (Nb_go, lst, info, o', rp, w))"

text \<open>The resource table, once it is in the memory of the remote.\<close>

definition nb_rsc ::
  "rproc_env \<Rightarrow> remoteproc_ops \<Rightarrow> u64 \<Rightarrow> u64 \<Rightarrow> nb_out \<Rightarrow> remoteproc \<Rightarrow> rproc_world \<Rightarrow>
   (int option \<times> nb_out \<times> remoteproc \<times> rproc_world) cres" where
  "nb_rsc env ops rsc_da rsc_size o' rp w =
     (case alloc_bytes env rsc_size w of (p, w0) \<Rightarrow>
      if p = NULL then Inr (Some (- RPROC_ENOMEM), o', rp, w0) else
      cbind (remoteproc_mmap (pe_io env) ops (Some rp) None (Some rsc_da) rsc_size 0 (Some (no_io o')) w0)
        (\<lambda>(va, _, _, io', rp', w1).
      let io = the io'; o1 = o'\<lparr>no_io := io\<rparr>; rp1 = the rp' in
      if io = NULL then cbind (free_bytes p w1) (\<lambda>w2. Inr (Some 0, o1, rp1, w2))
      else
      let off = io_virt_to_offset (pe_io env) io va;
          (ret, bs) = io_block_read (pe_io env) io off (int_of_size rsc_size) (w_mem w1);
          w2 = w1\<lparr>w_mem := wr_bytes (w_mem w1) p bs\<rparr> in
      if ret \<noteq> int_of_size rsc_size then cbind (free_bytes p w2) (\<lambda>w3. Inr (Some ret, o1, rp1, w3))
      else
      cbind (remoteproc_parse_rsc_table env ops p rsc_size rp1 w2) (\<lambda>(ret', rp2, w3).
      if ret' < 0 then cbind (free_bytes p w3) (\<lambda>w4. Inr (Some ret', o1, rp2, w4))
      else
      let m = snd (io_block_write (pe_io env) io off (rd_bytes (w_mem w3) p (unat rsc_size))
                     (int_of_size rsc_size) (w_mem w3)) in
      cbind (free_bytes p (w3\<lparr>w_mem := m\<rparr>)) (\<lambda>w4.
        Inr (None, o1, rp2\<lparr>rp_rsc_table := va, rp_rsc_len := rsc_size\<rparr>, w4)))))"

definition nb_complete ::
  "rproc_env \<Rightarrow> remoteproc_ops \<Rightarrow> 'i loader_ops \<Rightarrow> int \<Rightarrow> 'i option \<Rightarrow> nb_out \<Rightarrow> remoteproc \<Rightarrow> rproc_world \<Rightarrow>
   (nb_next \<times> nb_out \<times> remoteproc \<times> rproc_world) cres" where
  "nb_complete env ops ld lst info o' rp w =
     (if lst AND RPROC_LOADER_LOAD_COMPLETE \<noteq> 0 then
        cbind (lo_locate_rsc_table ld info (pe_stack env) (pe_stack env) (pe_stack env)) (\<lambda>(ret, rsc_da, _, rsc_size).
        cbind (if ret = 0 \<and> 0 < rsc_size then nb_rsc env ops rsc_da rsc_size o' rp w
               else Inr (None, o', rp, w)) (\<lambda>(e, o1, rp1, w1).
        case e of Some r \<Rightarrow> Inr (Nb_error1 r, o1, rp1, w1)
        | None \<Rightarrow>
            cbind (lo_get_entry ld info) (\<lambda>entry.
            Inr (Nb_out, o1, rp1\<lparr>rp_bootaddr := entry\<rparr>, w1))))
      else Inr (Nb_out, o', rp, w))"

text \<open>
  The selection of the loader and of the state to continue from. \<open>Inl\<close> of a result ends the call;
  \<open>Inr\<close> gives the loader, the decoding information and the state.
\<close>

definition nb_select ::
  "(ptr \<Rightarrow> 'i loader_ops) \<Rightarrow> u8 list option \<Rightarrow> u64 \<Rightarrow> u64 \<Rightarrow> 'i option option \<Rightarrow> remoteproc \<Rightarrow>
   ((int + ptr \<times> 'i option \<times> int) \<times> remoteproc) cres" where
  "nb_select loaders img off len img_info rp =
     (if rp_state rp \<noteq> RPROC_READY then Inr (Inl (- RPROC_EINVAL), rp)
      else if rp_loader rp = NULL \<and> (img = None \<or> off \<noteq> 0 \<or> len = 0) then Inr (Inl (- RPROC_EINVAL), rp)
      else cbind (if rp_loader rp = NULL then remoteproc_check_fw_format img len else Inr (rp_loader rp)) (\<lambda>l.
      if l = NULL then Inr (Inl (- RPROC_EINVAL), rp)
      else
        (let rp1 = rp\<lparr>rp_loader := l\<rparr> in
         case img_info of
           Some (Some i) \<Rightarrow>
             (let lst = lo_get_load_state (loaders l) (Some i) in
              if lst < 0 then Inr (Inl (- RPROC_EINVAL), rp1) else Inr (Inr (l, Some i, lst), rp1))
         | _ \<Rightarrow> Inr (Inr (l, None, 0), rp1))))"

text \<open>
  \<open>img_info\<close> is \<open>None\<close> for a NULL pointer and otherwise what it points to. \<open>outs\<close> is \<open>None\<close> when one
  of the pointers that are asserted is NULL. On the way through \<open>error1\<close> the decoding information is
  released while \<open>img_info\<close> still refers to it.
\<close>

definition remoteproc_load_noblock ::
  "rproc_env \<Rightarrow> remoteproc_ops \<Rightarrow> (ptr \<Rightarrow> 'i loader_ops) \<Rightarrow> u8 list option \<Rightarrow> u64 \<Rightarrow> u64 \<Rightarrow> 'i option option \<Rightarrow>
   nb_out option \<Rightarrow> remoteproc option \<Rightarrow> rproc_world \<Rightarrow>
   ((int \<times> 'i option option \<times> nb_out option) \<times> remoteproc option \<times> rproc_world) cres" where
  "remoteproc_load_noblock env ops loaders img off len img_info outs rproc w =
     (case rproc of None \<Rightarrow> Inr ((- RPROC_ENODEV, img_info, outs), None, w)
      | Some rp \<Rightarrow>
     case outs of None \<Rightarrow> Inl Assert_failed
     | Some o0 \<Rightarrow>
     cbind (rp_locked (\<lambda>rp w.
       cbind (nb_select loaders img off len img_info rp) (\<lambda>(sel, rp0).
       case sel of Inl ret \<Rightarrow> Inr ((ret, img_info, outs), rp0, w)
       | Inr (l, info0, lst0) \<Rightarrow>
       let ld = loaders l in
       cbind (nb_headers ld img off len lst0 info0 (o0\<lparr>no_nlen := 0\<rparr>) w) (\<lambda>(n1, lst1, info1, o1, w1).
       cbind (case n1 of Nb_go \<Rightarrow> nb_data env ops ld img off len lst1 info1 o1 rp0 w1
              | _ \<Rightarrow> Inr (n1, lst1, info1, o1, rp0, w1)) (\<lambda>(n2, lst2, info2, o2, rp2, w2).
       cbind (case n2 of Nb_go \<Rightarrow> nb_complete env ops ld lst2 info2 o2 rp2 w2
              | _ \<Rightarrow> Inr (n2, o2, rp2, w2)) (\<lambda>(n3, o3, rp3, w3).
       case n3 of
         Nb_error1 ret \<Rightarrow> Inr ((ret, img_info, Some o3), rp3, release_info ld info2 w3)
       | _ \<Rightarrow>
           (case img_info of
              Some _ \<Rightarrow> Inr ((0, Some info2, Some o3), rp3, w3)
            | None \<Rightarrow> Inr ((0, None, Some o3), rp3, release_info ld info2 w3))))))) rp w)
     (\<lambda>(r, rp', w'). Inr (r, Some rp', w')))"

end
