(* ===== verification/Remoteproc_Life.thy ===== *)
theory Remoteproc_Life
  imports Remoteproc Rproc_Virtio_Alloc
begin

text \<open>
  The life cycle of a remote processor. The locale \<open>rproc_platform\<close> states what the functions of a
  platform must leave alone: the state, the mutex and the table of operations, which only
  \<open>remoteproc.c\<close> changes. Under it the calls refine the abstract life cycle \<open>life_next\<close>.
\<close>

subsection \<open>The abstract life cycle\<close>

text \<open>\<open>Mmap da size attribute\<close> asks for the memory at a device address, as the loader does for a segment.\<close>

datatype rproc_call = Config ptr | Start | Stop | Shutdown | Mmap u64 u64 u32

fun life_next :: "rproc_call \<Rightarrow> remoteproc_state \<Rightarrow> remoteproc_state set" where
  "life_next (Config d) s = (if s = RPROC_OFFLINE then {RPROC_READY} else {s})"
| "life_next Start s = (if s = RPROC_READY then {RPROC_RUNNING} else {s})"
| "life_next Stop s = (if s = RPROC_OFFLINE then {s} else {RPROC_STOPPED})"
| "life_next Shutdown s = {s, RPROC_OFFLINE}"
| "life_next (Mmap da sz attr) s = {s}"

fun life_path :: "remoteproc_state \<Rightarrow> rproc_call list \<Rightarrow> remoteproc_state \<Rightarrow> bool" where
  "life_path s [] t = (s = t)"
| "life_path s (c # cs) t = (\<exists>u \<in> life_next c s. life_path u cs t)"

definition rproc_exec ::
  "io_ops \<Rightarrow> remoteproc_ops \<Rightarrow> rproc_call \<Rightarrow> remoteproc option \<Rightarrow> rproc_world \<Rightarrow> (int \<times> remoteproc option \<times> rproc_world) cres" where
  "rproc_exec io ops c rproc w =
     (case c of Config d \<Rightarrow> remoteproc_config ops d rproc w
      | Start \<Rightarrow> remoteproc_start ops rproc w
      | Stop \<Rightarrow> remoteproc_stop ops rproc w
      | Shutdown \<Rightarrow> remoteproc_shutdown ops rproc w
      | Mmap da sz attr \<Rightarrow>
          cbind (remoteproc_mmap io ops rproc (Some METAL_BAD_PHYS) (Some da) sz attr (Some NULL) w)
            (\<lambda>(va, _, _, _, rproc', w'). Inr (if va = NULL then -1 else 0, rproc', w')))"

fun rproc_run ::
  "io_ops \<Rightarrow> remoteproc_ops \<Rightarrow> rproc_call list \<Rightarrow> remoteproc option \<Rightarrow> rproc_world \<Rightarrow>
   (int list \<times> remoteproc option \<times> rproc_world) cres" where
  "rproc_run io ops [] rproc w = Inr ([], rproc, w)"
| "rproc_run io ops (c # cs) rproc w =
     cbind (rproc_exec io ops c rproc w) (\<lambda>(ret, rproc', w').
     cbind (rproc_run io ops cs rproc' w') (\<lambda>(rets, rproc'', w''). Inr (ret # rets, rproc'', w'')))"

subsection \<open>The contract of a platform\<close>

definition rp_ctl :: "remoteproc \<Rightarrow> remoteproc_state \<times> bool \<times> bool \<times> ptr" where
  "rp_ctl rp = (rp_state rp, rp_lock rp, rp_lock_live rp, rp_ops rp)"

text \<open>Between calls: the mutex is initialised and free, and the operations are set.\<close>

definition rp_idle :: "remoteproc \<Rightarrow> bool" where
  "rp_idle rp \<longleftrightarrow> rp_lock_live rp \<and> \<not> rp_lock rp \<and> rp_ops rp \<noteq> NULL"

definition mmap_keeps ::
  "(remoteproc \<Rightarrow> rproc_world \<Rightarrow> bool) \<Rightarrow> remoteproc_ops \<Rightarrow> bool" where
  "mmap_keeps pinv ops \<longleftrightarrow>
     (\<forall>f rp pa da sz attr io w. op_mmap ops = Some f \<longrightarrow> pinv rp w \<longrightarrow>
        (\<exists>va pa' da' io' rp' w'. f rp pa da sz attr (Some io) w = Inr (va, pa', da', io', rp', w') \<and>
           pinv rp' w' \<and> rp_ctl rp' = rp_ctl rp))"

definition op_keeps :: "(remoteproc \<Rightarrow> rproc_world \<Rightarrow> bool) \<Rightarrow> (remoteproc \<Rightarrow> rproc_world \<Rightarrow> rproc_result) option \<Rightarrow> bool" where
  "op_keeps pinv fo \<longleftrightarrow>
     (\<forall>f rp w. fo = Some f \<longrightarrow> pinv rp w \<longrightarrow>
        (\<exists>r rp' w'. f rp w = Inr (r, rp', w') \<and> pinv rp' w' \<and> rp_ctl rp' = rp_ctl rp))"

text \<open>\<open>pinv\<close> is the invariant of the platform's own data.\<close>

locale rproc_platform =
  fixes ops :: remoteproc_ops and pinv :: "remoteproc \<Rightarrow> rproc_world \<Rightarrow> bool"
  assumes inv_lock: "pinv (rp\<lparr>rp_lock := l\<rparr>) w = pinv rp w"
    and inv_state: "pinv (rp\<lparr>rp_state := s\<rparr>) w = pinv rp w"
    and config_keeps: "op_keeps pinv (map_option (\<lambda>f rp w. f rp d w) (op_config ops))"
    and start_keeps: "op_keeps pinv (op_start ops)"
    and stop_keeps: "op_keeps pinv (op_stop ops)"
    and shutdown_keeps: "op_keeps pinv (op_shutdown ops)"
    and map_keeps: "mmap_keeps pinv ops"
begin

text \<open>A call of a function that may be missing, with the lock held.\<close>

lemma optional_call:
  assumes "op_keeps pinv fo" and "pinv rp w" and "rp_idle rp"
  obtains r rp' w' where "(case fo of Some f \<Rightarrow> f (rp\<lparr>rp_lock := True\<rparr>) w | None \<Rightarrow> Inr (d, rp\<lparr>rp_lock := True\<rparr>, w)) = Inr (r, rp', w')"
    and "pinv rp' w'" and "rp_lock_live rp'" and "rp_ops rp' \<noteq> NULL" and "rp_state rp' = rp_state rp"
proof (cases fo)
  case None
  then show thesis
    using assms(2,3) by (intro that [of d "rp\<lparr>rp_lock := True\<rparr>" w]) (auto simp: inv_lock rp_idle_def)
next
  case (Some f)
  then obtain r rp' w' where "f (rp\<lparr>rp_lock := True\<rparr>) w = Inr (r, rp', w')" "pinv rp' w'"
      "rp_ctl rp' = rp_ctl (rp\<lparr>rp_lock := True\<rparr>)"
    using assms(1,2) unfolding op_keeps_def by (metis inv_lock)
  then show thesis using Some assms(3) by (intro that [of r rp' w']) (auto simp: rp_ctl_def rp_idle_def)
qed

lemma config_run:
  assumes "rp_idle rp" and "pinv rp w"
  shows "\<exists>ret rp' w'. remoteproc_config ops d (Some rp) w = Inr (ret, Some rp', w') \<and> rp_idle rp' \<and> pinv rp' w' \<and>
    rp_state rp' \<in> life_next (Config d) (rp_state rp) \<and>
    (rp_state rp \<noteq> RPROC_OFFLINE \<longrightarrow> ret = - RPROC_EINVAL \<and> rp' = rp \<and> w' = w)"
proof -
  obtain r rp1 w1 where c: "(case map_option (\<lambda>f rp w. f rp d w) (op_config ops) of
      Some f \<Rightarrow> f (rp\<lparr>rp_lock := True\<rparr>) w | None \<Rightarrow> Inr (0, rp\<lparr>rp_lock := True\<rparr>, w)) = Inr (r, rp1, w1)"
    and k: "pinv rp1 w1" "rp_lock_live rp1" "rp_ops rp1 \<noteq> NULL"
    by (rule optional_call [OF config_keeps [of d] assms(2,1), of 0])
  then have "(case op_config ops of Some f \<Rightarrow> f (rp\<lparr>rp_lock := True\<rparr>) d w
      | None \<Rightarrow> Inr (0, rp\<lparr>rp_lock := True\<rparr>, w)) = Inr (r, rp1, w1)" by (cases "op_config ops") auto
  then show ?thesis using k
    using assms by (auto simp: remoteproc_config_def rp_locked_def rp_idle_def rp_check_ops_def inv_lock inv_state)
qed

lemma start_run:
  assumes "rp_idle rp" and "pinv rp w" and "op_start ops \<noteq> None"
  shows "\<exists>ret rp' w'. remoteproc_start ops (Some rp) w = Inr (ret, Some rp', w') \<and> rp_idle rp' \<and> pinv rp' w' \<and>
    rp_state rp' \<in> life_next Start (rp_state rp) \<and>
    (rp_state rp \<noteq> RPROC_READY \<longrightarrow> ret = - RPROC_EINVAL \<and> rp' = rp \<and> w' = w)"
proof -
  obtain r rp1 w1 where c: "(case op_start ops of Some f \<Rightarrow> f (rp\<lparr>rp_lock := True\<rparr>) w
      | None \<Rightarrow> Inr (0, rp\<lparr>rp_lock := True\<rparr>, w)) = Inr (r, rp1, w1)"
    and k: "pinv rp1 w1" "rp_lock_live rp1" "rp_ops rp1 \<noteq> NULL"
    by (rule optional_call [OF start_keeps assms(2,1), of 0])
  then show ?thesis
    using assms by (auto simp: remoteproc_start_def rp_locked_def rp_idle_def rp_check_ops_def inv_lock inv_state)
qed

lemma stop_run:
  assumes "rp_idle rp" and "pinv rp w"
  shows "\<exists>ret rp' w'. remoteproc_stop ops (Some rp) w = Inr (ret, Some rp', w') \<and> rp_idle rp' \<and> pinv rp' w' \<and>
    rp_state rp' \<in> life_next Stop (rp_state rp)"
proof -
  obtain r rp1 w1 where c: "(case op_stop ops of Some f \<Rightarrow> f (rp\<lparr>rp_lock := True\<rparr>) w
      | None \<Rightarrow> Inr (- RPROC_ENODEV, rp\<lparr>rp_lock := True\<rparr>, w)) = Inr (r, rp1, w1)"
    and k: "pinv rp1 w1" "rp_lock_live rp1" "rp_ops rp1 \<noteq> NULL"
    by (rule optional_call [OF stop_keeps assms(2,1), of "- RPROC_ENODEV"])
  then show ?thesis
    using assms by (auto simp: remoteproc_stop_def rp_locked_def rp_idle_def rp_check_ops_def inv_lock inv_state)
qed

lemma shutdown_run:
  assumes "rp_idle rp" and "pinv rp w"
  shows "\<exists>ret rp' w'. remoteproc_shutdown ops (Some rp) w = Inr (ret, Some rp', w') \<and> rp_idle rp' \<and> pinv rp' w' \<and>
    rp_state rp' = (if ret = 0 then RPROC_OFFLINE else rp_state rp)"
proof (cases "rp_state rp = RPROC_OFFLINE")
  case True
  then show ?thesis
    using assms by (auto simp: remoteproc_shutdown_def rp_locked_def rp_idle_def inv_lock)
next
  case False
  let ?rp = "rp\<lparr>rp_lock := True\<rparr>"
  obtain r1 rp1 w1 where s: "(if rp_state rp \<noteq> RPROC_STOPPED
      then case op_stop ops of Some f \<Rightarrow> f ?rp w | None \<Rightarrow> Inr (0, ?rp, w) else Inr (0, ?rp, w)) = Inr (r1, rp1, w1)"
    and k1: "pinv rp1 w1" "rp_lock_live rp1" "rp_ops rp1 \<noteq> NULL" "rp_state rp1 = rp_state rp"
  proof (cases "rp_state rp = RPROC_STOPPED")
    case True
    then show thesis using assms by (intro that [of 0 ?rp w]) (auto simp: inv_lock rp_idle_def)
  next
    case False
    obtain r1 rp1 w1 where "(case op_stop ops of Some f \<Rightarrow> f ?rp w | None \<Rightarrow> Inr (0, ?rp, w)) = Inr (r1, rp1, w1)"
      "pinv rp1 w1" "rp_lock_live rp1" "rp_ops rp1 \<noteq> NULL" "rp_state rp1 = rp_state rp"
      by (rule optional_call [OF stop_keeps assms(2,1), of 0])
    then show thesis using False by (intro that [of r1 rp1 w1]) auto
  qed
  obtain r2 rp2 w2 where h: "(case op_shutdown ops of Some f \<Rightarrow> f rp1 w1 | None \<Rightarrow> Inr (0, rp1, w1)) = Inr (r2, rp2, w2)"
    and k2: "pinv rp2 w2" "rp_lock_live rp2" "rp_ops rp2 \<noteq> NULL" "rp_state rp2 = rp_state rp"
    using shutdown_keeps k1 unfolding op_keeps_def rp_ctl_def by (cases "op_shutdown ops") fastforce+
  have "remoteproc_shutdown ops (Some rp) w =
     (if r1 = 0 then Inr (r2, Some ((if r2 = 0 then rp2\<lparr>rp_state := RPROC_OFFLINE\<rparr> else rp2)\<lparr>rp_lock := False\<rparr>), w2)
      else Inr (r1, Some (rp1\<lparr>rp_lock := False\<rparr>), w1))"
    using assms False s h k1
    by (cases "rp_state rp = RPROC_STOPPED") (auto simp: remoteproc_shutdown_def rp_locked_def rp_idle_def rp_check_ops_def)
  then show ?thesis using k1 k2 by (auto simp: rp_idle_def inv_lock inv_state)
qed

lemma mmap_run:
  assumes "rp_idle rp" and "pinv rp w"
  shows "\<exists>va pa' da' io' rp' w'. remoteproc_mmap io ops (Some rp) (Some pa) (Some da) sz attr (Some iop) w =
      Inr (va, pa', da', io', Some rp', w') \<and> rp_idle rp' \<and> pinv rp' w' \<and> rp_state rp' = rp_state rp"
proof (cases "remoteproc_get_mem io rp None pa da NULL sz")
  case (Some m)
  then show ?thesis using assms by (simp add: remoteproc_mmap_def split: prod.split)
next
  case None
  show ?thesis
  proof (cases "op_mmap ops")
    case (Some f)
    with map_keeps assms(2) obtain va pa' da' io' rp' w' where
      "f rp pa da sz attr (Some iop) w = Inr (va, pa', da', io', rp', w')" "pinv rp' w'" "rp_ctl rp' = rp_ctl rp"
      unfolding mmap_keeps_def by metis
    then show ?thesis using None Some assms(1) by (simp add: remoteproc_mmap_def rp_idle_def rp_ctl_def)
  qed (use None assms in \<open>simp add: remoteproc_mmap_def rp_idle_def\<close>)
qed

lemma exec_run:
  assumes "rp_idle rp" and "pinv rp w" and "op_start ops \<noteq> None"
  shows "\<exists>ret rp' w'. rproc_exec io ops c (Some rp) w = Inr (ret, Some rp', w') \<and> rp_idle rp' \<and> pinv rp' w' \<and>
    rp_state rp' \<in> life_next c (rp_state rp)"
proof (cases c)
  case (Config d)
  then show ?thesis using config_run [OF assms(1,2), of d] by (auto simp: rproc_exec_def)
next
  case Start
  then show ?thesis using start_run [OF assms] by (auto simp: rproc_exec_def)
next
  case Stop
  then show ?thesis using stop_run [OF assms(1,2)] by (auto simp: rproc_exec_def)
next
  case Shutdown
  then show ?thesis using shutdown_run [OF assms(1,2)] by (fastforce simp: rproc_exec_def)
next
  case (Mmap da sz attr)
  then show ?thesis
    using mmap_run [OF assms(1,2), of io METAL_BAD_PHYS da sz attr NULL] by (auto simp: rproc_exec_def)
qed

lemma calls_run:
  assumes "rp_idle rp" and "pinv rp w" and "op_start ops \<noteq> None"
  shows "\<exists>rets rp' w'. rproc_run io ops cs (Some rp) w = Inr (rets, Some rp', w') \<and> rp_idle rp' \<and> pinv rp' w' \<and>
    life_path (rp_state rp) cs (rp_state rp')"
  using assms(1,2)
proof (induction cs arbitrary: rp w)
  case (Cons c cs)
  obtain ret rp1 w1 where e: "rproc_exec io ops c (Some rp) w = Inr (ret, Some rp1, w1)" "rp_idle rp1" "pinv rp1 w1"
    "rp_state rp1 \<in> life_next c (rp_state rp)" using exec_run [OF Cons.prems assms(3)] by blast
  from Cons.IH [OF e(2,3)] e show ?case by auto
qed simp

end

end
