(* ===== verification/R5_Platform.thy ===== *)
theory R5_Platform
  imports Remoteproc_Life
begin

text \<open>
  The platform functions for a Cortex-R5 of the ZynqMP under its power management:
  \<open>apps/examples/load_fw/zynqmp_r5_lcm_rproc_example.c\<close>, one definition per function.

  The power management library and the numbers it gives to the nodes are not in the sources: they are
  the parameter \<open>pm\<close>, with what the functions do to the world. \<open>pm_io_init\<close> is the address of the
  region behind a fresh block that \<open>metal_io_init\<close> initialises with virtual address, physical
  address, size and attributes; \<open>pm_io_phys\<close> and \<open>pm_io_region_size\<close> are the accessors of libmetal, and
  \<open>pm_junk_name\<close> is what a fresh \<open>remoteproc_mem\<close> holds in the field that \<open>r5_rproc_mmap\<close> does not set. The
  private structure is the block number \<open>b\<close> at the address \<open>b + 1\<close>.
\<close>

subsection \<open>Constants and parameters\<close>

definition RPU_BASE_ADDR :: u64 where "RPU_BASE_ADDR = 0xFF9A0000"
definition RPU_GLBL_CNTL_OFFSET :: u64 where "RPU_GLBL_CNTL_OFFSET = 0"
definition SLSPLIT_BIT :: u32 where "SLSPLIT_BIT = 0x8"
definition SLCLAMP_BIT :: u32 where "SLCLAMP_BIT = 0x10"
definition TCM_COMB_BIT :: u32 where "TCM_COMB_BIT = 0x40"
definition R5_RPROC_OPS :: ptr where "R5_RPROC_OPS = 0x230"

record r5_pm =
  NODE_RPU :: u32
  NODE_RPU_0 :: u32
  NODE_RPU_1 :: u32
  NODE_TCM_0_A :: u32
  NODE_TCM_0_B :: u32
  NODE_TCM_1_A :: u32
  NODE_TCM_1_B :: u32
  XST_SUCCESS :: int
  XPm_RequestNode :: "u32 \<Rightarrow> rproc_world \<Rightarrow> rproc_world"
  XPm_RequestWakeUp :: "u32 \<Rightarrow> u64 \<Rightarrow> rproc_world \<Rightarrow> int \<times> rproc_world"
  XPm_ForcePowerDown :: "u32 \<Rightarrow> rproc_world \<Rightarrow> int \<times> rproc_world"
  pm_attr_norm :: u32
  pm_attr_device :: u32
  pm_io_init :: "nat \<Rightarrow> ptr \<Rightarrow> u64 \<Rightarrow> u64 \<Rightarrow> u32 \<Rightarrow> ptr"
  pm_io_phys :: "ptr \<Rightarrow> u64 \<Rightarrow> u64"
  pm_io_region_size :: "ptr \<Rightarrow> u64"
  pm_junk_name :: "u8 list"

subsection \<open>Initialisation and removal\<close>

definition r5_rproc_boot_addr_config :: "u64 \<Rightarrow> u32" where
  "r5_rproc_boot_addr_config bootaddr = (if bootaddr < 0x40000 then 0 else 1)"

definition r5_rproc_mode_config :: "rproc_env \<Rightarrow> r5_pm \<Rightarrow> ptr \<Rightarrow> rproc_world \<Rightarrow> rproc_world" where
  "r5_rproc_mode_config env pm rpu_io w =
     (let tmp = io_read32 (pe_io env) rpu_io RPU_GLBL_CNTL_OFFSET (w_mem w);
          tmp' = (if pv_cpu_id (w_priv w) = NODE_RPU pm
                  then ((tmp AND NOT SLSPLIT_BIT) OR TCM_COMB_BIT) OR SLCLAMP_BIT
                  else ((tmp OR SLSPLIT_BIT) AND NOT TCM_COMB_BIT) AND NOT SLCLAMP_BIT) in
      w\<lparr>w_mem := io_write32 (pe_io env) rpu_io RPU_GLBL_CNTL_OFFSET tmp' (w_mem w)\<rparr>)"

text \<open>The address of the private structure in the block \<open>b\<close>, and the block at an address.\<close>

definition priv_ptr :: "nat \<Rightarrow> ptr" where "priv_ptr b = of_nat b + 1"
definition priv_block :: "ptr \<Rightarrow> nat" where "priv_block p = unat (p - 1)"

definition r5_rproc_init ::
  "rproc_env \<Rightarrow> r5_pm \<Rightarrow> remoteproc option \<Rightarrow> ptr \<Rightarrow> rproc_world \<Rightarrow> (remoteproc option \<times> rproc_world) cres" where
  "r5_rproc_init env pm rproc arg w =
     (if arg = NULL then Inl Null_deref else
      let cpu_id = rd32 (w_mem w) arg in
      if cpu_id < NODE_RPU_0 pm \<or> NODE_RPU_1 pm < cpu_id then Inr (None, w)
      else case alloc_block env Alloc_priv w of
        (None, w1) \<Rightarrow> Inr (None, w1)
      | (Some b, w1) \<Rightarrow>
          (case rproc of None \<Rightarrow> Inl Null_deref
           | Some rp \<Rightarrow>
               (let w2 = w1\<lparr>w_priv := (w_priv w1)\<lparr>pv_cpu_id := cpu_id\<rparr>\<rparr>;
                    rp1 = rp\<lparr>rp_ops := R5_RPROC_OPS, rp_mems := [], rp_priv := priv_ptr b\<rparr>;
                    rpu_io = pm_io_init pm b RPU_BASE_ADDR RPU_BASE_ADDR 0x1000 (pm_attr_device pm) in
                Inr (Some (rp1\<lparr>rp_state := RPROC_READY\<rparr>), r5_rproc_mode_config env pm rpu_io w2))))"

definition r5_rproc_remove :: "remoteproc \<Rightarrow> rproc_world \<Rightarrow> (remoteproc \<times> rproc_world) cres" where
  "r5_rproc_remove rp w =
     (if rp_priv rp = NULL then Inr (rp, w)
      else cbind (free_block (priv_block (rp_priv rp)) w) (\<lambda>w'. Inr (rp, w')))"

subsection \<open>Memory\<close>

definition request_if :: "'x r5_pm_scheme \<Rightarrow> bool \<Rightarrow> u32 \<Rightarrow> rproc_world \<Rightarrow> rproc_world" where
  "request_if pm c node w = (if c then XPm_RequestNode pm node w else w)"

text \<open>
  The tightly coupled memories are powered up, and a device address in them is translated. \<open>None\<close> is
  the error for an unknown processor.
\<close>

definition r5_map_tcm :: "'x r5_pm_scheme \<Rightarrow> u64 \<Rightarrow> u64 \<Rightarrow> u64 \<Rightarrow> rproc_world \<Rightarrow> (u64 \<times> rproc_world) option" where
  "r5_map_tcm pm lpa lda sz w =
     (if lda \<le> 0x40000 then
        (let lda_end = lda + sz; cpu_id = pv_cpu_id (w_priv w) in
         if cpu_id = NODE_RPU_0 pm \<or> cpu_id = NODE_RPU pm then
           Some (0xFFE00000 + lda,
             request_if pm (lda \<le> 0x40000 \<and> 0x30000 \<le> lda_end) (NODE_TCM_1_B pm)
             (request_if pm (lda \<le> 0x30000 \<and> 0x20000 \<le> lda_end) (NODE_TCM_0_B pm)
             (request_if pm (lda \<le> 0x20000 \<and> 0x10000 \<le> lda_end) (NODE_TCM_1_A pm)
             (request_if pm (lda < 0x10000) (NODE_TCM_0_A pm) w))))
         else if cpu_id = NODE_RPU_1 pm then
           Some (0xFFE90000 + lda,
             request_if pm (lda \<le> 0x30000 \<and> 0x20000 \<le> lda_end) (NODE_TCM_1_B pm)
             (request_if pm (lda < 0x10000) (NODE_TCM_1_A pm) w))
         else None)
      else Some (lpa, w))"

text \<open>The region that is registered; its blocks are the one of the structure and the one of the I/O region.\<close>

definition r5_new_mem :: "'x r5_pm_scheme \<Rightarrow> u64 \<Rightarrow> u64 \<Rightarrow> u64 \<Rightarrow> ptr \<Rightarrow> nat \<Rightarrow> nat \<Rightarrow> remoteproc_mem" where
  "r5_new_mem pm lpa lda sz io bm bi =
     \<lparr>rm_da = lda, rm_pa = lpa, rm_size = sz, rm_name = pm_junk_name pm, rm_io = io, rm_blocks = [bm, bi]\<rparr>"

definition r5_rproc_mmap ::
  "rproc_env \<Rightarrow> r5_pm \<Rightarrow> remoteproc \<Rightarrow> u64 \<Rightarrow> u64 \<Rightarrow> u64 \<Rightarrow> u32 \<Rightarrow> ptr option \<Rightarrow> rproc_world \<Rightarrow>
   (ptr \<times> u64 \<times> u64 \<times> ptr option \<times> remoteproc \<times> rproc_world) cres" where
  "r5_rproc_mmap env pm rp pa da sz attribute iop w =
     (let attribute' = (if attribute = 0 then pm_attr_norm pm else attribute) in
      case r5_map_tcm pm pa da sz w of
        None \<Rightarrow> Inr (NULL, pa, da, iop, rp, w)
      | Some (lpa0, w1) \<Rightarrow>
          (let lpa = (if lpa0 = METAL_BAD_PHYS then da else lpa0) in
           if lpa = METAL_BAD_PHYS then Inr (NULL, pa, da, iop, rp, w1)
           else case alloc_block env Alloc_mem w1 of
             (None, w2) \<Rightarrow> Inr (NULL, pa, da, iop, rp, w2)
           | (Some bm, w2) \<Rightarrow>
               if iop = None then Inl Null_deref
               else (case alloc_block env Alloc_io w2 of
                 (None, w3) \<Rightarrow> cbind (free_block bm w3) (\<lambda>w4. Inr (NULL, pa, da, Some NULL, rp, w4))
               | (Some bi, w3) \<Rightarrow>
                   (let io = pm_io_init pm bi lpa lpa sz attribute' in
                    Inr (io_phys_to_virt (pe_io env) io lpa, lpa, da, Some io,
                         rp\<lparr>rp_mems := rp_mems rp @ [r5_new_mem pm lpa da sz io bm bi]\<rparr>, w3)))))"

subsection \<open>Starting and stopping\<close>

definition r5_rproc_start :: "r5_pm \<Rightarrow> remoteproc \<Rightarrow> rproc_world \<Rightarrow> rproc_result" where
  "r5_rproc_start pm rp w =
     (let resetaddr = r5_rproc_boot_addr_config (rp_bootaddr rp) in
      case XPm_RequestWakeUp pm (pv_cpu_id (w_priv w)) (ucast resetaddr) w of (ret, w') \<Rightarrow>
        Inr (if ret \<noteq> XST_SUCCESS pm then -1 else 0, rp, w'))"

definition r5_rproc_stop :: "remoteproc \<Rightarrow> rproc_world \<Rightarrow> rproc_result" where
  "r5_rproc_stop rp w = Inr (0, rp, w)"

text \<open>The power management calls of the shutdown for one region, with the addresses of the code.\<close>

definition r5_release_tcm :: "r5_pm \<Rightarrow> remoteproc_mem \<Rightarrow> rproc_world \<Rightarrow> rproc_world" where
  "r5_release_tcm pm m w =
     (let pa = rm_pa m; pa_end = pm_io_phys pm (rm_io m) (pm_io_region_size pm (rm_io m));
          cpu_id = pv_cpu_id (w_priv w) in
      if cpu_id = NODE_RPU_0 pm \<or> cpu_id = NODE_RPU pm then
        request_if pm (pa \<le> 0xFFE40000 \<and> 0xFFE30000 \<le> pa_end) (NODE_TCM_1_B pm)
        (request_if pm (pa \<le> 0xFFE30000 \<and> 0xFFE20000 \<le> pa_end) (NODE_TCM_0_B pm)
        (request_if pm (pa \<le> 0xFFE20000 \<and> 0xFFE10000 \<le> pa_end) (NODE_TCM_1_A pm)
        (request_if pm (pa < 0xFFE10000) (NODE_TCM_0_A pm) w)))
      else if cpu_id = NODE_RPU_1 pm then
        request_if pm (pa \<le> 0xFFC0000 \<and> 0xFFEB0000 \<le> pa_end) (NODE_TCM_1_B pm)
        (request_if pm (pa < 0xFFEA0000) (NODE_TCM_1_A pm) w)
      else w)"

definition free_mem_blocks :: "remoteproc_mem \<Rightarrow> rproc_world \<Rightarrow> rproc_world cres" where
  "free_mem_blocks m w =
     (case rm_blocks m of [bm, bi] \<Rightarrow> cbind (free_block bi w) (free_block bm) | _ \<Rightarrow> Inl Bad_pointer)"

fun r5_shutdown_loop ::
  "r5_pm \<Rightarrow> remoteproc_mem list \<Rightarrow> remoteproc \<Rightarrow> rproc_world \<Rightarrow> (remoteproc \<times> rproc_world) cres" where
  "r5_shutdown_loop pm [] rp w = Inr (rp, w)"
| "r5_shutdown_loop pm (m # ms) rp w =
     cbind (free_mem_blocks m (r5_release_tcm pm m w)) (\<lambda>w'.
       r5_shutdown_loop pm ms (rp\<lparr>rp_mems := ms\<rparr>) w')"

definition r5_rproc_shutdown :: "r5_pm \<Rightarrow> remoteproc \<Rightarrow> rproc_world \<Rightarrow> rproc_result" where
  "r5_rproc_shutdown pm rp w =
     cbind (r5_shutdown_loop pm (rp_mems rp) rp w) (\<lambda>(rp', w1).
     case XPm_ForcePowerDown pm (pv_cpu_id (w_priv w1)) w1 of (ret, w2) \<Rightarrow>
       Inr (if ret \<noteq> XST_SUCCESS pm then -1 else 0, rp', w2))"

definition r5_rproc_ops :: "rproc_env \<Rightarrow> r5_pm \<Rightarrow> remoteproc_ops" where
  "r5_rproc_ops env pm =
     \<lparr>op_init = Some (r5_rproc_init env pm), op_remove = Some r5_rproc_remove,
      op_mmap = Some (r5_rproc_mmap env pm), op_handle_rsc = None, op_config = None,
      op_start = Some (r5_rproc_start pm), op_stop = Some r5_rproc_stop,
      op_shutdown = Some (r5_rproc_shutdown pm), op_notify = None\<rparr>"

subsection \<open>Blocks held by the platform\<close>

definition r5_owned :: "remoteproc \<Rightarrow> nat list" where
  "r5_owned rp = priv_block (rp_priv rp) # concat (map rm_blocks (rp_mems rp))"

text \<open>The processor owns its private structure and two blocks per region; \<open>base\<close> are the blocks of others.\<close>

definition r5_inv :: "nat set \<Rightarrow> remoteproc \<Rightarrow> rproc_world \<Rightarrow> bool" where
  "r5_inv base rp w \<longleftrightarrow>
     rp_priv rp \<noteq> NULL \<and> (\<forall>m \<in> set (rp_mems rp). length (rm_blocks m) = 2) \<and>
     distinct (r5_owned rp) \<and> set (r5_owned rp) \<inter> base = {} \<and> live_blocks w = base \<union> set (r5_owned rp)"

lemma r5_inv_upd [simp]:
  "r5_inv base (rp\<lparr>rp_lock := l\<rparr>) w = r5_inv base rp w"
  "r5_inv base (rp\<lparr>rp_state := s\<rparr>) w = r5_inv base rp w"
  by (simp_all add: r5_inv_def r5_owned_def)

lemma r5_inv_blocks: "w_blocks w' = w_blocks w \<Longrightarrow> r5_inv base rp w' = r5_inv base rp w"
  by (simp add: r5_inv_def live_blocks_def)

lemma r5_inv_undo: "r5_inv base rp w \<Longrightarrow> r5_inv base rp (w\<lparr>w_blocks := w_blocks w @ [False]\<rparr>)"
  by (simp add: r5_inv_def live_blocks_def nth_append less_Suc_eq conj_disj_distribR Collect_disj_eq cong: conj_cong)

lemma r5_inv_add:
  assumes "r5_inv base rp w" and "rm_blocks m = [length (w_blocks w), Suc (length (w_blocks w))]"
  shows "r5_inv base (rp\<lparr>rp_mems := rp_mems rp @ [m]\<rparr>) (w\<lparr>w_blocks := w_blocks w @ [True, True]\<rparr>)"
proof -
  let ?n = "length (w_blocks w)"
  have "?n \<notin> live_blocks w" "Suc ?n \<notin> live_blocks w" by (auto simp: live_blocks_def)
  moreover have "live_blocks (w\<lparr>w_blocks := w_blocks w @ [True, True]\<rparr>) = insert (Suc ?n) (insert ?n (live_blocks w))"
    by (auto simp: live_blocks_def nth_append less_Suc_eq)
  ultimately show ?thesis using assms by (auto simp: r5_inv_def r5_owned_def)
qed

lemma r5_inv_free:
  assumes "r5_inv base rp w" and "rp_mems rp = m # ms"
  shows "\<exists>w'. free_mem_blocks m w = Inr w' \<and> r5_inv base (rp\<lparr>rp_mems := ms\<rparr>) w'"
proof -
  obtain bm bi where b: "rm_blocks m = [bm, bi]"
    using assms by (auto simp: r5_inv_def length_Suc_conv numeral_2_eq_2)
  define w' where "w' = w\<lparr>w_blocks := ((w_blocks w)[bi := False])[bm := False]\<rparr>"
  have l: "bi \<in> live_blocks w" "bm \<in> live_blocks w" "bm \<noteq> bi"
    using assms b by (auto simp: r5_inv_def r5_owned_def)
  then have "free_mem_blocks m w = Inr w'"
    by (simp add: free_mem_blocks_def b free_block_def live_blocks_def w'_def)
  moreover have "live_blocks w' = live_blocks w - {bi, bm}"
    using l by (auto simp: live_blocks_def w'_def nth_list_update split: if_splits)
  ultimately show ?thesis using assms b by (auto simp: r5_inv_def r5_owned_def)
qed

text \<open>What the power management promises: it does not touch the memory the C library hands out.\<close>

locale zynqmp_pm =
  fixes pm :: r5_pm
  assumes request_node: "w_blocks (XPm_RequestNode pm n w) = w_blocks w"
    and request_wakeup: "w_blocks (snd (XPm_RequestWakeUp pm n a w)) = w_blocks w"
    and force_power_down: "w_blocks (snd (XPm_ForcePowerDown pm n w)) = w_blocks w"
begin

lemma request_if_blocks [simp]: "w_blocks (request_if pm c n w) = w_blocks w"
  by (simp add: request_if_def request_node)

lemma release_tcm_blocks [simp]: "w_blocks (r5_release_tcm pm m w) = w_blocks w"
  by (simp add: r5_release_tcm_def Let_def)

lemma map_tcm_blocks: "r5_map_tcm pm lpa lda sz w = Some (lpa', w') \<Longrightarrow> w_blocks w' = w_blocks w"
  by (auto simp: r5_map_tcm_def Let_def split: if_splits)

lemma mmap_inv:
  assumes "r5_inv base rp w"
  shows "\<exists>va pa' da' io' rp' w'. r5_rproc_mmap env pm rp pa da sz attr (Some io) w = Inr (va, pa', da', io', rp', w') \<and>
    r5_inv base rp' w' \<and> rp_ctl rp' = rp_ctl rp"
proof (cases "r5_map_tcm pm pa da sz w")
  case None
  then show ?thesis using assms by (simp add: r5_rproc_mmap_def)
next
  case (Some r)
  then obtain lpa0 w1 where r: "r5_map_tcm pm pa da sz w = Some (lpa0, w1)" by (cases r) auto
  have i1: "r5_inv base rp w1" using assms r5_inv_blocks [OF map_tcm_blocks [OF r]] by simp
  define lpa where "lpa = (if lpa0 = METAL_BAD_PHYS then da else lpa0)"
  define w2 where "w2 = w1\<lparr>w_blocks := w_blocks w1 @ [True]\<rparr>"
  consider (bad) "lpa = METAL_BAD_PHYS \<or> \<not> pe_alloc env Alloc_mem w1"
    | (noio) "lpa \<noteq> METAL_BAD_PHYS" "pe_alloc env Alloc_mem w1" "\<not> pe_alloc env Alloc_io w2"
    | (ok) "lpa \<noteq> METAL_BAD_PHYS" "pe_alloc env Alloc_mem w1" "pe_alloc env Alloc_io w2" by blast
  then show ?thesis
  proof cases
    case bad
    then show ?thesis using i1 r by (auto simp: r5_rproc_mmap_def alloc_block_def lpa_def Let_def)
  next
    case noio
    have "r5_inv base rp (w1\<lparr>w_blocks := w_blocks w1 @ [False]\<rparr>)" by (rule r5_inv_undo [OF i1])
    with noio r show ?thesis
      by (simp add: r5_rproc_mmap_def alloc_block_def free_block_def lpa_def [symmetric] w2_def [symmetric] Let_def)
        (simp add: w2_def nth_append)
  next
    case ok
    have "r5_inv base (rp\<lparr>rp_mems := rp_mems rp @ [r5_new_mem pm lpa da sz io (length (w_blocks w1)) (Suc (length (w_blocks w1)))]\<rparr>)
        (w1\<lparr>w_blocks := w_blocks w1 @ [True, True]\<rparr>)" for io
      by (rule r5_inv_add [OF i1]) (simp add: r5_new_mem_def)
    with ok r show ?thesis
      by (simp add: r5_rproc_mmap_def alloc_block_def lpa_def [symmetric] w2_def [symmetric] Let_def)
        (simp add: w2_def rp_ctl_def)
  qed
qed

lemma shutdown_loop_inv:
  "r5_inv base rp w \<Longrightarrow> rp_mems rp = ms \<Longrightarrow>
   \<exists>w'. r5_shutdown_loop pm ms rp w = Inr (rp\<lparr>rp_mems := []\<rparr>, w') \<and> r5_inv base (rp\<lparr>rp_mems := []\<rparr>) w'"
proof (induction ms arbitrary: rp w)
  case Nil
  then show ?case by (cases rp) simp
next
  case (Cons m ms)
  have "r5_inv base rp (r5_release_tcm pm m w)" using Cons.prems(1) r5_inv_blocks [OF release_tcm_blocks] by blast
  from r5_inv_free [OF this Cons.prems(2)] obtain w1 where
    f: "free_mem_blocks m (r5_release_tcm pm m w) = Inr w1" "r5_inv base (rp\<lparr>rp_mems := ms\<rparr>) w1" by blast
  from Cons.IH [OF f(2)] f(1) show ?case by simp
qed

lemma shutdown_inv:
  assumes "r5_inv base rp w"
  shows "\<exists>r w'. r5_rproc_shutdown pm rp w = Inr (r, rp\<lparr>rp_mems := []\<rparr>, w') \<and> r5_inv base (rp\<lparr>rp_mems := []\<rparr>) w'"
proof -
  obtain w1 where "r5_shutdown_loop pm (rp_mems rp) rp w = Inr (rp\<lparr>rp_mems := []\<rparr>, w1)"
    "r5_inv base (rp\<lparr>rp_mems := []\<rparr>) w1" using shutdown_loop_inv [OF assms refl] by blast
  then show ?thesis
    by (simp add: r5_rproc_shutdown_def case_prod_beta r5_inv_blocks [OF force_power_down])
qed

end

sublocale zynqmp_pm \<subseteq> r5: rproc_platform "r5_rproc_ops env pm" "r5_inv base" for env base
proof unfold_locales
  show "mmap_keeps (r5_inv base) (r5_rproc_ops env pm)"
    using mmap_inv by (simp add: mmap_keeps_def r5_rproc_ops_def)
  show "op_keeps (r5_inv base) (op_shutdown (r5_rproc_ops env pm))"
    using shutdown_inv by (fastforce simp: op_keeps_def r5_rproc_ops_def rp_ctl_def)
  show "op_keeps (r5_inv base) (op_start (r5_rproc_ops env pm))"
    by (simp add: op_keeps_def r5_rproc_ops_def r5_rproc_start_def Let_def case_prod_beta
        r5_inv_blocks [OF request_wakeup])
qed (simp_all add: op_keeps_def r5_rproc_ops_def r5_rproc_stop_def)

context zynqmp_pm
begin

lemmas r5_calls_run = r5.calls_run

text \<open>Shutting down and removing a processor that is not off-line.\<close>

lemma shutdown_remove:
  assumes "rp_idle rp" and "r5_inv base rp w" and "rp_state rp \<noteq> RPROC_OFFLINE"
  shows "\<exists>ret rp' w'. remoteproc_shutdown (r5_rproc_ops env pm) (Some rp) w = Inr (ret, Some rp', w') \<and>
    (ret = 0 \<longrightarrow> (\<exists>rp'' w''. remoteproc_remove (r5_rproc_ops env pm) (Some rp') w' = Inr (0, Some rp'', w'') \<and>
       live_blocks w'' = base))"
proof -
  let ?rp = "rp\<lparr>rp_lock := True\<rparr>"
  obtain r w1 where s: "r5_rproc_shutdown pm ?rp w = Inr (r, ?rp\<lparr>rp_mems := []\<rparr>, w1)"
    and i: "r5_inv base (?rp\<lparr>rp_mems := []\<rparr>) w1"
    using shutdown_inv [of base ?rp w] assms(2) by auto
  then have b: "priv_block (rp_priv rp) \<in> live_blocks w1" "live_blocks w1 - {priv_block (rp_priv rp)} = base"
    by (auto simp: r5_inv_def r5_owned_def)
  have sh: "remoteproc_shutdown (r5_rproc_ops env pm) (Some rp) w =
      Inr (r, Some ((if r = 0 then ?rp\<lparr>rp_mems := [], rp_state := RPROC_OFFLINE\<rparr> else ?rp\<lparr>rp_mems := []\<rparr>)
        \<lparr>rp_lock := False\<rparr>), w1)"
    using assms(1,3) s
    by (simp add: remoteproc_shutdown_def rp_locked_def rp_idle_def rp_check_ops_def r5_rproc_ops_def r5_rproc_stop_def)
  define w2 where "w2 = w1\<lparr>w_blocks := (w_blocks w1)[priv_block (rp_priv rp) := False]\<rparr>"
  have "live_blocks w2 = base"
    using b by (auto simp: live_blocks_def w2_def nth_list_update split: if_splits)
  moreover have "free_block (priv_block (rp_priv rp)) w1 = Inr w2"
    using b(1) by (simp add: free_block_def live_blocks_def w2_def)
  moreover have "rp_priv rp \<noteq> NULL" using assms(2) by (simp add: r5_inv_def)
  ultimately show ?thesis
    using assms(1) unfolding sh
    by (auto simp: remoteproc_remove_def rp_locked_def rp_idle_def rp_check_ops_def r5_rproc_ops_def r5_rproc_remove_def)
qed

end

lemma r5_init_inv:
  assumes "remoteproc_init (r5_rproc_ops env pm) arg (Some rp0) w = Inr (Some rp, w1)"
    and "Suc (length (w_blocks w)) < 2 ^ 64"
  shows "rp_idle rp \<and> rp_state rp = RPROC_READY \<and> r5_inv (live_blocks w) rp w1"
proof -
  let ?n = "length (w_blocks w)"
  have "unat (priv_ptr ?n) = Suc ?n"
    using unat_of_nat_64 [OF assms(2)] by (simp add: priv_ptr_def add.commute)
  then have p0: "priv_ptr ?n \<noteq> NULL" by (metis unat_0 nat.distinct(1))
  have p: "priv_block (priv_ptr ?n) = ?n"
    unfolding priv_ptr_def priv_block_def add_diff_cancel_right'
    by (rule unat_of_nat_64 [OF Suc_lessD [OF assms(2)]])
  have l: "live_blocks v = insert ?n (live_blocks w)" "?n \<notin> live_blocks w" if "w_blocks v = w_blocks w @ [True]" for v
    using that by (auto simp: live_blocks_def nth_append less_Suc_eq)
  have "w_blocks w1 = w_blocks w @ [True]" and
    rp: "rp = zero_remoteproc\<lparr>rp_state := RPROC_READY, rp_lock_live := True, rp_ops := R5_RPROC_OPS,
      rp_mems := [], rp_priv := priv_ptr ?n\<rparr>"
    using assms(1)
    by (simp_all add: remoteproc_init_def r5_rproc_ops_def r5_rproc_init_def alloc_block_def Let_def
        r5_rproc_mode_config_def zero_remoteproc_def split: if_splits) (auto simp: zero_remoteproc_def)
  then show ?thesis
    using l [of w1] p p0 by (simp add: rp_idle_def r5_inv_def r5_owned_def R5_RPROC_OPS_def zero_remoteproc_def)
qed

text \<open>
  C6. The life cycle of a Cortex-R5. A successful initialisation leaves the processor ready, without a configuration or a load. From then on every sequence of
  configuration, start, stop, shutdown and mapping calls runs to its end without a fault or a
  deadlock and follows the abstract life cycle, in which a configuration leads from off-line straight to ready (the design document has the state configured
  in between, which no function of the code enters); the mutex is free afterwards. If the processor is
  then not off-line and its shutdown succeeds, its removal succeeds too, and exactly the memory that
  was allocated before the initialisation is allocated.
\<close>

theorem r5_life_cycle:
  assumes "zynqmp_pm pm"
    and "remoteproc_init (r5_rproc_ops env pm) arg (Some rp0) w = Inr (Some rp, w1)"
    and "Suc (length (w_blocks w)) < 2 ^ 64"
  shows "\<exists>rets rp' w'. rproc_run (pe_io env) (r5_rproc_ops env pm) cs (Some rp) w1 = Inr (rets, Some rp', w') \<and>
    \<not> rp_lock rp' \<and> life_path RPROC_READY cs (rp_state rp') \<and>
    (rp_state rp' \<noteq> RPROC_OFFLINE \<longrightarrow>
      (\<exists>ret rp'' w''. remoteproc_shutdown (r5_rproc_ops env pm) (Some rp') w' = Inr (ret, Some rp'', w'') \<and>
        (ret = 0 \<longrightarrow> (\<exists>rp3 w3. remoteproc_remove (r5_rproc_ops env pm) (Some rp'') w'' = Inr (0, Some rp3, w3) \<and>
           live_blocks w3 = live_blocks w))))"
proof -
  have i: "rp_idle rp" "rp_state rp = RPROC_READY" "r5_inv (live_blocks w) rp w1"
    using r5_init_inv [OF assms(2,3)] by auto
  obtain rets rp' w' where r: "rproc_run (pe_io env) (r5_rproc_ops env pm) cs (Some rp) w1 = Inr (rets, Some rp', w')"
    "rp_idle rp'" "r5_inv (live_blocks w) rp' w'" "life_path (rp_state rp) cs (rp_state rp')"
    using zynqmp_pm.r5_calls_run [OF assms(1) i(1,3), of env "pe_io env" cs] by (auto simp: r5_rproc_ops_def)
  then show ?thesis
    using zynqmp_pm.shutdown_remove [OF assms(1) r(2,3), of env] i(2)
    by (intro exI [of _ rets] exI [of _ rp'] exI [of _ w']) (auto simp: rp_idle_def)
qed

text \<open>A power management without any effect on the model, for a board whose node numbers start at 6.\<close>

definition quiet_pm :: r5_pm where
  "quiet_pm = \<lparr>NODE_RPU = 6, NODE_RPU_0 = 7, NODE_RPU_1 = 8, NODE_TCM_0_A = 15, NODE_TCM_0_B = 16,
     NODE_TCM_1_A = 17, NODE_TCM_1_B = 18, XST_SUCCESS = 0, XPm_RequestNode = (\<lambda>n w. w),
     XPm_RequestWakeUp = (\<lambda>n a w. (0, w)), XPm_ForcePowerDown = (\<lambda>n w. (0, w)),
     pm_attr_norm = 3, pm_attr_device = 5, pm_io_init = (\<lambda>b va pa sz attr. of_nat b + 0x100),
     pm_io_phys = (\<lambda>io off. METAL_BAD_PHYS), pm_io_region_size = (\<lambda>io. 0x1000), pm_junk_name = []\<rparr>"

interpretation quiet: zynqmp_pm quiet_pm
  by unfold_locales (simp_all add: quiet_pm_def)

lemma r5_life_cycle_witness:
  "\<exists>rp w1. remoteproc_init (r5_rproc_ops sample_env0 quiet_pm) 0x100 (Some zero_remoteproc)
       (sample_world\<lparr>w_mem := (\<lambda>a. if a = 0x100 then 7 else 0)\<rparr>) = Inr (Some rp, w1) \<and>
   (\<exists>rets rp' w'. rproc_run (pe_io sample_env0) (r5_rproc_ops sample_env0 quiet_pm)
       [Start, Mmap 0x100 0x200 0, Stop] (Some rp) w1 = Inr (rets, Some rp', w') \<and>
    \<not> rp_lock rp' \<and> life_path RPROC_READY [Start, Mmap 0x100 0x200 0, Stop] (rp_state rp') \<and>
    (rp_state rp' \<noteq> RPROC_OFFLINE \<longrightarrow>
      (\<exists>ret rp'' w''. remoteproc_shutdown (r5_rproc_ops sample_env0 quiet_pm) (Some rp') w' = Inr (ret, Some rp'', w'') \<and>
        (ret = 0 \<longrightarrow> (\<exists>rp3 w3. remoteproc_remove (r5_rproc_ops sample_env0 quiet_pm) (Some rp'') w'' = Inr (0, Some rp3, w3) \<and>
           live_blocks w3 = live_blocks (sample_world\<lparr>w_mem := (\<lambda>a. if a = 0x100 then 7 else 0)\<rparr>))))))"
proof -
  let ?w = "sample_world\<lparr>w_mem := (\<lambda>a. if a = 0x100 then 7 else 0)\<rparr>"
  have "\<exists>rp w1. remoteproc_init (r5_rproc_ops sample_env0 quiet_pm) 0x100 (Some zero_remoteproc) ?w = Inr (Some rp, w1)"
    by (simp add: remoteproc_init_def r5_rproc_ops_def r5_rproc_init_def alloc_block_def quiet_pm_def
        sample_env0_def rd_bytes_def upt_rec Let_def)
  then obtain rp w1 where
    i: "remoteproc_init (r5_rproc_ops sample_env0 quiet_pm) 0x100 (Some zero_remoteproc) ?w = Inr (Some rp, w1)" by blast
  have "Suc (length (w_blocks ?w)) < 2 ^ 64" by (simp add: sample_world_def)
  from r5_life_cycle [OF quiet.zynqmp_pm_axioms i this, of "[Start, Mmap 0x100 0x200 0, Stop]"] i
  show ?thesis by blast
qed

end
