(* ===== verification/Lcm_Platform.thy ===== *)
theory Lcm_Platform
  imports R5_Platform
begin

text \<open>
  The platforms of the \<open>load_fw\<close> example for the ZynqMP: \<open>apps/examples/load_fw/zynqmp_rpu_lcm_rproc_example.c\<close>
  and \<open>apps/examples/load_fw/zynqmp_apu_lcm_rproc_example.c\<close>, one definition per function. The power
  management library is a parameter as in \<open>R5_Platform\<close>, with the further nodes that these files use.
\<close>

record lcm_pm = r5_pm +
  NODE_APU_0 :: u32
  NODE_APU_1 :: u32
  NODE_DDR :: u32
  NODE_OCM_BANK_0 :: u32
  NODE_OCM_BANK_1 :: u32
  NODE_OCM_BANK_2 :: u32
  NODE_OCM_BANK_3 :: u32
  XPm_ReleaseNode :: "u32 \<Rightarrow> rproc_world \<Rightarrow> rproc_world"

definition RPU_RPROC_OPS :: ptr where "RPU_RPROC_OPS = 0x240"
definition APU_RPROC_OPS :: ptr where "APU_RPROC_OPS = 0x250"

definition release_if :: "lcm_pm \<Rightarrow> bool \<Rightarrow> u32 \<Rightarrow> rproc_world \<Rightarrow> rproc_world" where
  "release_if pm c node w = (if c then XPm_ReleaseNode pm node w else w)"

subsection \<open>What both platforms do\<close>

text \<open>Initialisation for a range of nodes; the two files differ in the range only.\<close>

definition lcm_init ::
  "rproc_env \<Rightarrow> u32 \<Rightarrow> u32 \<Rightarrow> ptr \<Rightarrow> remoteproc option \<Rightarrow> ptr \<Rightarrow> rproc_world \<Rightarrow> (remoteproc option \<times> rproc_world) cres" where
  "lcm_init env lo hi ops rproc arg w =
     (if arg = NULL then Inl Null_deref else
      let cpu_id = rd32 (w_mem w) arg in
      if cpu_id < lo \<or> hi < cpu_id then Inr (None, w)
      else case alloc_block env Alloc_priv w of
        (None, w1) \<Rightarrow> Inr (None, w1)
      | (Some b, w1) \<Rightarrow>
          (case rproc of None \<Rightarrow> Inl Null_deref
           | Some rp \<Rightarrow>
               Inr (Some (rp\<lparr>rp_ops := ops, rp_mems := [], rp_priv := priv_ptr b, rp_state := RPROC_READY\<rparr>),
                    w1\<lparr>w_priv := (w_priv w1)\<lparr>pv_cpu_id := cpu_id\<rparr>\<rparr>)))"

text \<open>Registering a region at \<open>lpa\<close>.\<close>

definition lcm_add_region ::
  "rproc_env \<Rightarrow> lcm_pm \<Rightarrow> remoteproc \<Rightarrow> u64 \<Rightarrow> u64 \<Rightarrow> u64 \<Rightarrow> u64 \<Rightarrow> u32 \<Rightarrow> ptr option \<Rightarrow> rproc_world \<Rightarrow>
   (ptr \<times> u64 \<times> u64 \<times> ptr option \<times> remoteproc \<times> rproc_world) cres" where
  "lcm_add_region env pm rp pa lpa da sz attribute iop w =
     (case alloc_block env Alloc_mem w of
        (None, w1) \<Rightarrow> Inr (NULL, pa, da, iop, rp, w1)
      | (Some bm, w1) \<Rightarrow>
          if iop = None then Inl Null_deref
          else (case alloc_block env Alloc_io w1 of
            (None, w2) \<Rightarrow> cbind (free_block bm w2) (\<lambda>w3. Inr (NULL, pa, da, Some NULL, rp, w3))
          | (Some bi, w2) \<Rightarrow>
              (let io = pm_io_init pm bi lpa lpa sz attribute in
               Inr (io_phys_to_virt (pe_io env) io lpa, lpa, da, Some io,
                    rp\<lparr>rp_mems := rp_mems rp @ [r5_new_mem pm lpa da sz io bm bi]\<rparr>, w2))))"

definition lcm_start :: "lcm_pm \<Rightarrow> remoteproc \<Rightarrow> rproc_world \<Rightarrow> rproc_result" where
  "lcm_start pm rp w =
     (case XPm_RequestWakeUp pm (pv_cpu_id (w_priv w)) (rp_bootaddr rp) w of (ret, w') \<Rightarrow>
        Inr (if ret \<noteq> XST_SUCCESS pm then -1 else 0, rp, w'))"

definition lcm_power_down :: "lcm_pm \<Rightarrow> remoteproc \<Rightarrow> rproc_world \<Rightarrow> rproc_result" where
  "lcm_power_down pm rp w =
     (case XPm_ForcePowerDown pm (pv_cpu_id (w_priv w)) w of (ret, w') \<Rightarrow>
        Inr (if ret \<noteq> XST_SUCCESS pm then -1 else 0, rp, w'))"

subsection \<open>The real-time processor\<close>

definition rpu_rproc_init ::
  "rproc_env \<Rightarrow> lcm_pm \<Rightarrow> remoteproc option \<Rightarrow> ptr \<Rightarrow> rproc_world \<Rightarrow> (remoteproc option \<times> rproc_world) cres" where
  "rpu_rproc_init env pm = lcm_init env (NODE_RPU_0 pm) (NODE_RPU_1 pm) RPU_RPROC_OPS"

definition rpu_rproc_remove :: "remoteproc \<Rightarrow> rproc_world \<Rightarrow> (remoteproc \<times> rproc_world) cres" where
  "rpu_rproc_remove rp w =
     (if rp_priv rp = NULL then Inr (rp, w)
      else cbind (free_block (priv_block (rp_priv rp)) w) (\<lambda>w'. Inr (rp, w')))"

definition rpu_rproc_mmap ::
  "rproc_env \<Rightarrow> lcm_pm \<Rightarrow> remoteproc \<Rightarrow> u64 \<Rightarrow> u64 \<Rightarrow> u64 \<Rightarrow> u32 \<Rightarrow> ptr option \<Rightarrow> rproc_world \<Rightarrow>
   (ptr \<times> u64 \<times> u64 \<times> ptr option \<times> remoteproc \<times> rproc_world) cres" where
  "rpu_rproc_mmap env pm rp pa da sz attribute iop w =
     (if da = METAL_BAD_PHYS \<and> pa = METAL_BAD_PHYS then Inr (NULL, pa, da, iop, rp, w)
      else
        let attribute' = (if attribute = 0 then pm_attr_norm pm else attribute) in
        case r5_map_tcm pm pa da sz w of
          None \<Rightarrow> Inr (NULL, pa, da, iop, rp, w)
        | Some (lpa, w1) \<Rightarrow> lcm_add_region env pm rp pa lpa da sz attribute' iop w1)"

definition rpu_rproc_start :: "lcm_pm \<Rightarrow> remoteproc \<Rightarrow> rproc_world \<Rightarrow> rproc_result" where
  "rpu_rproc_start pm rp w = lcm_start pm rp w"

definition rpu_rproc_stop :: "remoteproc \<Rightarrow> rproc_world \<Rightarrow> rproc_result" where
  "rpu_rproc_stop rp w = Inr (0, rp, w)"

text \<open>The nodes that the shutdown releases for a region; \<open>None\<close> for an unknown processor.\<close>

definition rpu_release_tcm :: "lcm_pm \<Rightarrow> u64 \<Rightarrow> u64 \<Rightarrow> rproc_world \<Rightarrow> rproc_world option" where
  "rpu_release_tcm pm pa pa_end w =
     (if pa \<le> 0x40000 then
        (let cpu_id = pv_cpu_id (w_priv w) in
         if cpu_id = NODE_RPU_0 pm \<or> cpu_id = NODE_RPU pm then
           Some (release_if pm (pa \<le> 0x40000 \<and> 0x30000 \<le> pa_end) (NODE_TCM_1_B pm)
             (release_if pm (pa \<le> 0x30000 \<and> 0x20000 \<le> pa_end) (NODE_TCM_0_B pm)
             (release_if pm (pa \<le> 0x20000 \<and> 0x10000 \<le> pa_end) (NODE_TCM_1_A pm)
             (release_if pm (pa < 0x10000) (NODE_TCM_0_A pm) w))))
         else if cpu_id = NODE_RPU_1 pm then
           Some (release_if pm (pa \<le> 0x30000 \<and> 0x20000 \<le> pa_end) (NODE_TCM_1_B pm)
             (release_if pm (pa < 0x10000) (NODE_TCM_1_A pm) w))
         else None)
      else Some w)"

text \<open>The loop over the regions; \<open>False\<close> when it leaves the function.\<close>

fun rpu_shutdown_loop ::
  "lcm_pm \<Rightarrow> remoteproc_mem list \<Rightarrow> remoteproc \<Rightarrow> rproc_world \<Rightarrow> (bool \<times> remoteproc \<times> rproc_world) cres" where
  "rpu_shutdown_loop pm [] rp w = Inr (True, rp, w)"
| "rpu_shutdown_loop pm (m # ms) rp w =
     (let pa = rm_pa m; pa_end = pm_io_phys pm (rm_io m) (pm_io_region_size pm (rm_io m)) in
      cbind (free_mem_blocks m w) (\<lambda>w1.
      case rpu_release_tcm pm pa pa_end w1 of
        None \<Rightarrow> Inr (False, rp\<lparr>rp_mems := ms\<rparr>, w1)
      | Some w2 \<Rightarrow> rpu_shutdown_loop pm ms (rp\<lparr>rp_mems := ms\<rparr>) w2))"

definition rpu_rproc_shutdown :: "lcm_pm \<Rightarrow> remoteproc \<Rightarrow> rproc_world \<Rightarrow> rproc_result" where
  "rpu_rproc_shutdown pm rp w =
     cbind (rpu_shutdown_loop pm (rp_mems rp) rp w) (\<lambda>(go, rp', w').
       if go then lcm_power_down pm rp' w' else Inr (0, rp', w'))"

definition zynqmp_rpu_rproc_ops :: "rproc_env \<Rightarrow> lcm_pm \<Rightarrow> remoteproc_ops" where
  "zynqmp_rpu_rproc_ops env pm =
     \<lparr>op_init = Some (rpu_rproc_init env pm), op_remove = Some rpu_rproc_remove,
      op_mmap = Some (rpu_rproc_mmap env pm), op_handle_rsc = None, op_config = None,
      op_start = Some (rpu_rproc_start pm), op_stop = Some rpu_rproc_stop,
      op_shutdown = Some (rpu_rproc_shutdown pm), op_notify = None\<rparr>"

subsection \<open>The application processor\<close>

definition apu_rproc_init ::
  "rproc_env \<Rightarrow> lcm_pm \<Rightarrow> remoteproc option \<Rightarrow> ptr \<Rightarrow> rproc_world \<Rightarrow> (remoteproc option \<times> rproc_world) cres" where
  "apu_rproc_init env pm = lcm_init env (NODE_APU_0 pm) (NODE_APU_1 pm) APU_RPROC_OPS"

definition apu_rproc_remove :: "remoteproc \<Rightarrow> rproc_world \<Rightarrow> (remoteproc \<times> rproc_world) cres" where
  "apu_rproc_remove rp w =
     (if rp_priv rp = NULL then Inr (rp, w)
      else cbind (free_block (priv_block (rp_priv rp)) w) (\<lambda>w'. Inr (rp, w')))"

definition apu_request_mem :: "lcm_pm \<Rightarrow> u64 \<Rightarrow> u64 \<Rightarrow> rproc_world \<Rightarrow> rproc_world" where
  "apu_request_mem pm lda lda_end w =
     request_if pm (0xFFFF0000 \<le> lda_end) (NODE_OCM_BANK_3 pm)
     (request_if pm (lda \<le> 0xFFFEFFFF \<and> 0xFFFE0000 \<le> lda_end) (NODE_OCM_BANK_2 pm)
     (request_if pm (lda \<le> 0xFFFDFFFF \<and> 0xFFFD0000 \<le> lda_end) (NODE_OCM_BANK_1 pm)
     (request_if pm (0xFFFC0000 \<le> lda \<and> lda < 0xFFFD0000) (NODE_OCM_BANK_0 pm)
     (request_if pm (lda_end \<le> 0x80000000) (NODE_DDR pm) w))))"

text \<open>The physical address is the one the caller gave, also when that is \<open>METAL_BAD_PHYS\<close>.\<close>

definition apu_rproc_mmap ::
  "rproc_env \<Rightarrow> lcm_pm \<Rightarrow> remoteproc \<Rightarrow> u64 \<Rightarrow> u64 \<Rightarrow> u64 \<Rightarrow> u32 \<Rightarrow> ptr option \<Rightarrow> rproc_world \<Rightarrow>
   (ptr \<times> u64 \<times> u64 \<times> ptr option \<times> remoteproc \<times> rproc_world) cres" where
  "apu_rproc_mmap env pm rp pa da sz attribute iop w =
     (if da = METAL_BAD_PHYS \<and> pa = METAL_BAD_PHYS then Inr (NULL, pa, da, iop, rp, w)
      else
        let attribute' = (if attribute = 0 then pm_attr_norm pm else attribute) in
        lcm_add_region env pm rp pa pa da sz attribute' iop (apu_request_mem pm da (da + sz) w))"

definition apu_rproc_start :: "lcm_pm \<Rightarrow> remoteproc \<Rightarrow> rproc_world \<Rightarrow> rproc_result" where
  "apu_rproc_start pm rp w = lcm_start pm rp w"

definition apu_rproc_stop :: "remoteproc \<Rightarrow> rproc_world \<Rightarrow> rproc_result" where
  "apu_rproc_stop rp w = Inr (0, rp, w)"

definition apu_release_mem :: "lcm_pm \<Rightarrow> u64 \<Rightarrow> u64 \<Rightarrow> rproc_world \<Rightarrow> rproc_world" where
  "apu_release_mem pm pa pa_end w =
     release_if pm (0xFFFF0000 \<le> pa_end) (NODE_OCM_BANK_3 pm)
     (release_if pm (pa \<le> 0xFFFEFFFF \<and> 0xFFFE0000 \<le> pa_end) (NODE_OCM_BANK_2 pm)
     (release_if pm (pa \<le> 0xFFFDFFFF \<and> 0xFFFD0000 \<le> pa_end) (NODE_OCM_BANK_1 pm)
     (release_if pm (0xFFFC0000 \<le> pa \<and> pa < 0xFFFD0000) (NODE_OCM_BANK_0 pm)
     (release_if pm (pa_end \<le> 0x7FFFFFFF) (NODE_DDR pm) w))))"

fun apu_shutdown_loop ::
  "lcm_pm \<Rightarrow> remoteproc_mem list \<Rightarrow> remoteproc \<Rightarrow> rproc_world \<Rightarrow> (remoteproc \<times> rproc_world) cres" where
  "apu_shutdown_loop pm [] rp w = Inr (rp, w)"
| "apu_shutdown_loop pm (m # ms) rp w =
     (let pa = rm_pa m; pa_end = pm_io_phys pm (rm_io m) (pm_io_region_size pm (rm_io m)) in
      cbind (free_mem_blocks m (apu_release_mem pm pa pa_end w)) (\<lambda>w1.
      apu_shutdown_loop pm ms (rp\<lparr>rp_mems := ms\<rparr>) w1))"

definition apu_rproc_shutdown :: "lcm_pm \<Rightarrow> remoteproc \<Rightarrow> rproc_world \<Rightarrow> rproc_result" where
  "apu_rproc_shutdown pm rp w =
     cbind (apu_shutdown_loop pm (rp_mems rp) rp w) (\<lambda>(rp', w'). lcm_power_down pm rp' w')"

definition zynqmp_apu_rproc_ops :: "rproc_env \<Rightarrow> lcm_pm \<Rightarrow> remoteproc_ops" where
  "zynqmp_apu_rproc_ops env pm =
     \<lparr>op_init = Some (apu_rproc_init env pm), op_remove = Some apu_rproc_remove,
      op_mmap = Some (apu_rproc_mmap env pm), op_handle_rsc = None, op_config = None,
      op_start = Some (apu_rproc_start pm), op_stop = Some apu_rproc_stop,
      op_shutdown = Some (apu_rproc_shutdown pm), op_notify = None\<rparr>"

subsection \<open>Both platforms keep the contract of the life cycle\<close>

locale zynqmp_lcm =
  fixes pm :: lcm_pm
  assumes request_node: "w_blocks (XPm_RequestNode pm n w) = w_blocks w"
    and release_node: "w_blocks (XPm_ReleaseNode pm n w) = w_blocks w"
    and request_wakeup: "w_blocks (snd (XPm_RequestWakeUp pm n a w)) = w_blocks w"
    and force_power_down: "w_blocks (snd (XPm_ForcePowerDown pm n w)) = w_blocks w"
begin

lemma request_if_blocks [simp]: "w_blocks (request_if pm c n w) = w_blocks w"
  by (simp add: request_if_def request_node)

lemma release_if_blocks [simp]: "w_blocks (release_if pm c n w) = w_blocks w"
  by (simp add: release_if_def release_node)

lemma map_tcm_blocks: "r5_map_tcm pm lpa lda sz w = Some (lpa', w') \<Longrightarrow> w_blocks w' = w_blocks w"
  by (auto simp: r5_map_tcm_def Let_def split: if_splits)

lemma release_tcm_blocks: "rpu_release_tcm pm pa pa_end w = Some w' \<Longrightarrow> w_blocks w' = w_blocks w"
  by (auto simp: rpu_release_tcm_def Let_def split: if_splits)

lemma add_region_inv:
  assumes "r5_inv base rp w"
  shows "\<exists>va pa' da' io' rp' w'. lcm_add_region env pm rp pa lpa da sz attr (Some io) w = Inr (va, pa', da', io', rp', w') \<and>
    r5_inv base rp' w' \<and> rp_ctl rp' = rp_ctl rp"
proof -
  define w2 where "w2 = w\<lparr>w_blocks := w_blocks w @ [True]\<rparr>"
  have "r5_inv base (rp\<lparr>rp_mems := rp_mems rp @ [r5_new_mem pm lpa da sz io (length (w_blocks w)) (Suc (length (w_blocks w)))]\<rparr>)
      (w\<lparr>w_blocks := w_blocks w @ [True, True]\<rparr>)" for io
    by (rule r5_inv_add [OF assms]) (simp add: r5_new_mem_def)
  then show ?thesis
    using assms r5_inv_undo [OF assms]
    by (cases "pe_alloc env Alloc_mem w"; cases "pe_alloc env Alloc_io w2")
      (simp_all add: lcm_add_region_def alloc_block_def free_block_def w2_def nth_append Let_def rp_ctl_def)
qed

lemma rpu_mmap_inv:
  assumes "r5_inv base rp w"
  shows "\<exists>va pa' da' io' rp' w'. rpu_rproc_mmap env pm rp pa da sz attr (Some io) w = Inr (va, pa', da', io', rp', w') \<and>
    r5_inv base rp' w' \<and> rp_ctl rp' = rp_ctl rp"
proof (cases "r5_map_tcm pm pa da sz w")
  case None
  then show ?thesis using assms by (simp add: rpu_rproc_mmap_def)
next
  case (Some r)
  then obtain lpa w1 where r: "r5_map_tcm pm pa da sz w = Some (lpa, w1)" by (cases r) auto
  have "r5_inv base rp w1" using assms r5_inv_blocks [OF map_tcm_blocks [OF r]] by simp
  then show ?thesis using add_region_inv assms r by (simp add: rpu_rproc_mmap_def Let_def)
qed

lemma apu_mmap_inv:
  assumes "r5_inv base rp w"
  shows "\<exists>va pa' da' io' rp' w'. apu_rproc_mmap env pm rp pa da sz attr (Some io) w = Inr (va, pa', da', io', rp', w') \<and>
    r5_inv base rp' w' \<and> rp_ctl rp' = rp_ctl rp"
proof -
  have "w_blocks (apu_request_mem pm da (da + sz) w) = w_blocks w" by (simp add: apu_request_mem_def)
  then have "r5_inv base rp (apu_request_mem pm da (da + sz) w)" using assms r5_inv_blocks by blast
  then show ?thesis using add_region_inv assms by (simp add: apu_rproc_mmap_def Let_def)
qed

lemma rpu_shutdown_loop_inv:
  "r5_inv base rp w \<Longrightarrow> rp_mems rp = ms \<Longrightarrow>
   \<exists>go rp' w'. rpu_shutdown_loop pm ms rp w = Inr (go, rp', w') \<and> r5_inv base rp' w' \<and> rp_ctl rp' = rp_ctl rp"
proof (induction ms arbitrary: rp w)
  case (Cons m ms)
  from r5_inv_free [OF Cons.prems] obtain w1 where
    f: "free_mem_blocks m w = Inr w1" "r5_inv base (rp\<lparr>rp_mems := ms\<rparr>) w1" by blast
  show ?case
  proof (cases "rpu_release_tcm pm (rm_pa m) (pm_io_phys pm (rm_io m) (pm_io_region_size pm (rm_io m))) w1")
    case None
    then show ?thesis using f by (intro exI [of _ False]) (simp add: rp_ctl_def)
  next
    case (Some w2)
    have "r5_inv base (rp\<lparr>rp_mems := ms\<rparr>) w2" using f(2) r5_inv_blocks [OF release_tcm_blocks [OF Some]] by simp
    from Cons.IH [OF this] f(1) Some show ?thesis by (simp add: rp_ctl_def)
  qed
qed auto

lemma apu_shutdown_loop_inv:
  "r5_inv base rp w \<Longrightarrow> rp_mems rp = ms \<Longrightarrow>
   \<exists>rp' w'. apu_shutdown_loop pm ms rp w = Inr (rp', w') \<and> r5_inv base rp' w' \<and> rp_ctl rp' = rp_ctl rp"
proof (induction ms arbitrary: rp w)
  case (Cons m ms)
  let ?w = "apu_release_mem pm (rm_pa m) (pm_io_phys pm (rm_io m) (pm_io_region_size pm (rm_io m))) w"
  have "r5_inv base rp ?w"
    using Cons.prems(1) r5_inv_blocks [of ?w w] by (simp add: apu_release_mem_def)
  from r5_inv_free [OF this Cons.prems(2)] obtain w1 where
    f: "free_mem_blocks m ?w = Inr w1" "r5_inv base (rp\<lparr>rp_mems := ms\<rparr>) w1" by blast
  from Cons.IH [OF f(2)] f(1) show ?case by (simp add: rp_ctl_def)
qed auto

lemma power_down_inv:
  "r5_inv base rp w \<Longrightarrow> \<exists>r w'. lcm_power_down pm rp w = Inr (r, rp, w') \<and> r5_inv base rp w'"
  by (simp add: lcm_power_down_def case_prod_beta r5_inv_blocks [OF force_power_down])

lemma start_inv: "r5_inv base rp w \<Longrightarrow> \<exists>r w'. lcm_start pm rp w = Inr (r, rp, w') \<and> r5_inv base rp w'"
  by (simp add: lcm_start_def case_prod_beta r5_inv_blocks [OF request_wakeup])

end

sublocale zynqmp_lcm \<subseteq> rpu: rproc_platform "zynqmp_rpu_rproc_ops env pm" "r5_inv base" for env base
proof unfold_locales
  show "mmap_keeps (r5_inv base) (zynqmp_rpu_rproc_ops env pm)"
    using rpu_mmap_inv by (simp add: mmap_keeps_def zynqmp_rpu_rproc_ops_def)
  show "op_keeps (r5_inv base) (op_shutdown (zynqmp_rpu_rproc_ops env pm))"
    using rpu_shutdown_loop_inv [OF _ refl] power_down_inv
    by (fastforce simp: op_keeps_def zynqmp_rpu_rproc_ops_def rpu_rproc_shutdown_def rp_ctl_def)
qed (use start_inv in \<open>fastforce simp: op_keeps_def zynqmp_rpu_rproc_ops_def rpu_rproc_start_def rpu_rproc_stop_def\<close>)+

sublocale zynqmp_lcm \<subseteq> apu: rproc_platform "zynqmp_apu_rproc_ops env pm" "r5_inv base" for env base
proof unfold_locales
  show "mmap_keeps (r5_inv base) (zynqmp_apu_rproc_ops env pm)"
    using apu_mmap_inv by (simp add: mmap_keeps_def zynqmp_apu_rproc_ops_def)
  show "op_keeps (r5_inv base) (op_shutdown (zynqmp_apu_rproc_ops env pm))"
    using apu_shutdown_loop_inv [OF _ refl] power_down_inv
    by (fastforce simp: op_keeps_def zynqmp_apu_rproc_ops_def apu_rproc_shutdown_def rp_ctl_def)
qed (use start_inv in \<open>fastforce simp: op_keeps_def zynqmp_apu_rproc_ops_def apu_rproc_start_def apu_rproc_stop_def\<close>)+

context zynqmp_lcm
begin

lemmas rpu_calls_run = rpu.calls_run
lemmas apu_calls_run = apu.calls_run

end

text \<open>Power management without effects, as in \<open>quiet_pm\<close>.\<close>

definition quiet_lcm :: lcm_pm where
  "quiet_lcm = r5_pm.extend quiet_pm
     \<lparr>NODE_APU_0 = 2, NODE_APU_1 = 3, NODE_DDR = 35, NODE_OCM_BANK_0 = 11, NODE_OCM_BANK_1 = 12,
      NODE_OCM_BANK_2 = 13, NODE_OCM_BANK_3 = 14, XPm_ReleaseNode = (\<lambda>n w. w)\<rparr>"

interpretation idle: zynqmp_lcm quiet_lcm
  by unfold_locales (simp_all add: quiet_lcm_def r5_pm.defs quiet_pm_def)

end
