(* ===== verification/Load_Fw.thy ===== *)
theory Load_Fw
  imports Remoteproc_Load Lcm_Platform
begin

text \<open>
  The example that loads firmware: the image store of \<open>apps/examples/load_fw/mem_image_store.c\<close>, the
  platform of \<open>apps/examples/load_fw/virt_rv64_rproc_example.c\<close>, and the program
  \<open>apps/examples/load_fw/load_fw.c\<close> with \<open>platform_info.c\<close>, one definition per function, for the build
  without \<open>RPU_BOOT_LINUX\<close>.

  Files are not modelled: \<open>mem_file\<close> holds what the calls of the operating system return for the image and the
  buffer as \<open>read\<close> leaves it. The devices of libmetal are the parameter \<open>rv64_env\<close>.
\<close>

subsection \<open>The image store in memory\<close>

record mem_file =
  mf_fd :: int
  mf_fstat :: int
  mf_malloc :: bool
  mf_st_size :: int
  mf_read :: int
  mf_buf :: "u8 list"

definition mem_image_open :: "mem_file \<Rightarrow> rproc_world \<Rightarrow> int \<times> u8 list option \<times> rproc_world" where
  "mem_image_open f w =
     (if mf_fd f < 0 then (-1, None, w)
      else if mf_fstat f \<noteq> 0 then (-1, None, w)
      else if \<not> mf_malloc f then (-1, None, w)
      else if mf_read f < 0 then (mf_read f, None, w)
      else (signed_take_bit 31 (mf_st_size f), Some (mf_buf f), w))"

definition mem_image_close :: "rproc_world \<Rightarrow> rproc_world" where
  "mem_image_close w = w"

text \<open>\<open>data\<close> is what the pointer of the caller refers to; no caller passes a NULL pointer for it.\<close>

definition mem_image_load ::
  "io_ops \<Rightarrow> mem_file \<Rightarrow> u64 \<Rightarrow> u64 \<Rightarrow> u8 list option \<Rightarrow> u64 \<Rightarrow> ptr \<Rightarrow> rproc_world \<Rightarrow>
   (int \<times> u8 list option \<times> rproc_world) cres" where
  "mem_image_load io f off sz data pa region w =
     (if pa = METAL_BAD_PHYS then Inr (int_of_size sz, Some (drop (unat off) (mf_buf f)), w)
      else if region = NULL then Inr (- EINVAL, data, w)
      else
        let va = io_phys_to_virt io region pa in
        if va = NULL then Inr (- EINVAL, data, w)
        else cbind (sub_bytes (mf_buf f) (unat off) (unat sz)) (\<lambda>bs.
          Inr (int_of_size sz, data, w\<lparr>w_mem := wr_bytes (w_mem w) va bs\<rparr>)))"

definition mem_image_store_ops :: "io_ops \<Rightarrow> mem_file \<Rightarrow> image_store_ops" where
  "mem_image_store_ops io f =
     \<lparr>so_open = mem_image_open f, so_close = mem_image_close, so_load = mem_image_load io f,
      so_features = SUPPORT_SEEK\<rparr>"

subsection \<open>The RISC-V platform\<close>

definition RV_NODE_APU_0 :: u32 where "RV_NODE_APU_0 = 0"
definition RV_NODE_APU_N :: u32 where "RV_NODE_APU_N = 1"
definition RV64_RPROC_OPS :: ptr where "RV64_RPROC_OPS = 0x260"

record rv64_env =
  rv_device_open :: "rproc_world \<Rightarrow> int \<times> ptr"
  rv_device_io_region :: "ptr \<Rightarrow> ptr"
  rv_io_phys :: "ptr \<Rightarrow> u64 \<Rightarrow> u64"
  rv_io_region_size :: "ptr \<Rightarrow> u64"

text \<open>The static \<open>rproc_mem\<close> before its initialisation, and the name it is given.\<close>

definition static_mem :: remoteproc_mem where
  "static_mem = \<lparr>rm_da = 0, rm_pa = 0, rm_size = 0, rm_name = replicate RPROC_MAX_NAME_LEN 0, rm_io = NULL, rm_blocks = []\<rparr>"

definition RPROC_MEM_NAME :: "u8 list" where
  "RPROC_MEM_NAME = [0x72, 0x70, 0x72, 0x6f, 0x63]"

definition rv64_rproc_init ::
  "rproc_env \<Rightarrow> rv64_env \<Rightarrow> remoteproc option \<Rightarrow> ptr \<Rightarrow> rproc_world \<Rightarrow> (remoteproc option \<times> rproc_world) cres" where
  "rv64_rproc_init env rv rproc arg w =
     (if arg = NULL then Inl Null_deref else
      let cpu_id = rd32 (w_mem w) arg in
      if cpu_id < RV_NODE_APU_0 \<or> RV_NODE_APU_N < cpu_id then Inr (None, w)
      else case alloc_block env Alloc_priv w of
        (None, w1) \<Rightarrow> Inr (None, w1)
      | (Some b, w1) \<Rightarrow>
          (case rproc of None \<Rightarrow> Inl Null_deref
           | Some rp \<Rightarrow>
               (let rp1 = rp\<lparr>rp_ops := RV64_RPROC_OPS, rp_mems := [], rp_priv := priv_ptr b, rp_state := RPROC_READY\<rparr>;
                    w2 = w1\<lparr>w_priv := (w_priv w1)\<lparr>pv_cpu_id := cpu_id\<rparr>\<rparr> in
                case rv_device_open rv w2 of (ret, dev) \<Rightarrow>
                if ret \<noteq> 0 then Inr (None, w2)
                else
                  let io = rv_device_io_region rv dev;
                      w3 = w2\<lparr>w_priv := (w_priv w2)\<lparr>pv_shm_dev := dev, pv_shm_io := io,
                             pv_open_devs := dev # pv_open_devs (w_priv w2)\<rparr>\<rparr> in
                  if io = NULL
                  then Inr (None, w3\<lparr>w_priv := (w_priv w3)\<lparr>pv_open_devs := remove1 dev (pv_open_devs (w_priv w3))\<rparr>\<rparr>)
                  else
                    let rproc_pa = rv_io_phys rv io 0;
                        m = remoteproc_init_mem (Some RPROC_MEM_NAME) rproc_pa rproc_pa (rv_io_region_size rv io) io
                              (Some static_mem) in
                    Inr (remoteproc_add_mem (Some rp1) m, w3))))"

definition rv64_rproc_remove :: "remoteproc \<Rightarrow> rproc_world \<Rightarrow> (remoteproc \<times> rproc_world) cres" where
  "rv64_rproc_remove rp w =
     (if rp_priv rp = NULL then Inr (rp, w)
      else cbind (free_block (priv_block (rp_priv rp)) w) (\<lambda>w'. Inr (rp, w')))"

definition rv64_rproc_mmap ::
  "rproc_env \<Rightarrow> remoteproc \<Rightarrow> u64 \<Rightarrow> u64 \<Rightarrow> u64 \<Rightarrow> u32 \<Rightarrow> ptr option \<Rightarrow> rproc_world \<Rightarrow>
   (ptr \<times> u64 \<times> u64 \<times> ptr option \<times> remoteproc \<times> rproc_world) cres" where
  "rv64_rproc_mmap env rp pa da sz attribute iop w =
     (if pa = METAL_BAD_PHYS \<and> da = METAL_BAD_PHYS then Inr (NULL, pa, da, iop, rp, w)
      else
        let lpa = (if pa = METAL_BAD_PHYS then da else pa);
            lda = (if da = METAL_BAD_PHYS then lpa else da);
            tmpio = pv_shm_io (w_priv w) in
        if tmpio = NULL then Inr (NULL, pa, da, iop, rp, w)
        else Inr (io_phys_to_virt (pe_io env) tmpio lpa, lpa, lda, map_option (\<lambda>_. tmpio) iop, rp, w))"

definition virt_rv64_rproc_ops :: "rproc_env \<Rightarrow> rv64_env \<Rightarrow> remoteproc_ops" where
  "virt_rv64_rproc_ops env rv =
     \<lparr>op_init = Some (rv64_rproc_init env rv), op_remove = Some rv64_rproc_remove,
      op_mmap = Some (rv64_rproc_mmap env), op_handle_rsc = None, op_config = None, op_start = None,
      op_stop = None, op_shutdown = None, op_notify = None\<rparr>"

subsection \<open>The program\<close>

text \<open>\<open>sp\<close> is the address of the argument \<open>cpu_id\<close>, which the platform reads through a pointer.\<close>

definition platform_create_proc ::
  "remoteproc_ops \<Rightarrow> ptr \<Rightarrow> u32 \<Rightarrow> rproc_world \<Rightarrow> (remoteproc option \<times> rproc_world) cres" where
  "platform_create_proc ops sp cpu_id w =
     remoteproc_init ops sp (Some zero_remoteproc) (w\<lparr>w_mem := wr32 (w_mem w) sp cpu_id\<rparr>)"

text \<open>The operations for the target of a ZynqMP build.\<close>

definition zynqmp_target_ops :: "rproc_env \<Rightarrow> lcm_pm \<Rightarrow> u32 \<Rightarrow> remoteproc_ops option" where
  "zynqmp_target_ops env pm target =
     (if NODE_RPU_0 pm \<le> target \<and> target \<le> NODE_RPU_1 pm then Some (zynqmp_rpu_rproc_ops env pm)
      else if NODE_APU_0 pm \<le> target \<and> target \<le> NODE_APU_1 pm then Some (zynqmp_apu_rproc_ops env pm)
      else None)"

text \<open>The common end of both ways of loading.\<close>

definition run_and_stop ::
  "remoteproc_ops \<Rightarrow> remoteproc option \<Rightarrow> rproc_world \<Rightarrow> (int \<times> remoteproc option \<times> rproc_world) cres" where
  "run_and_stop ops rproc w =
     cbind (remoteproc_start ops rproc w) (\<lambda>(ret, rproc1, w1).
     if ret \<noteq> 0 then Inr (ret, rproc1, w1)
     else
       cbind (remoteproc_stop ops rproc1 w1) (\<lambda>(_, rproc2, w2).
       cbind (remoteproc_shutdown ops rproc2 w2) (\<lambda>(_, rproc3, w3).
       Inr (0, rproc3, w3))))"

definition load_exectuable_block ::
  "nat \<Rightarrow> rproc_env \<Rightarrow> remoteproc_ops \<Rightarrow> (ptr \<Rightarrow> 'i loader_ops) \<Rightarrow> image_store_ops \<Rightarrow> remoteproc option \<Rightarrow>
   rproc_world \<Rightarrow> (int \<times> remoteproc option \<times> rproc_world) cres" where
  "load_exectuable_block fuel env ops loaders store rproc w =
     (if rproc = None then Inr (- EINVAL, rproc, w)
      else
        cbind (remoteproc_config ops NULL rproc w) (\<lambda>(_, rproc1, w1).
        cbind (remoteproc_load fuel env ops loaders (Some store) False rproc1 w1) (\<lambda>((ret, _), rproc2, w2).
        if ret \<noteq> 0 then Inr (ret, rproc2, w2) else run_and_stop ops rproc2 w2)))"

text \<open>The loop of the other way; \<open>Some ret\<close> is an early return.\<close>

fun noblock_loop ::
  "nat \<Rightarrow> rproc_env \<Rightarrow> remoteproc_ops \<Rightarrow> (ptr \<Rightarrow> 'i loader_ops) \<Rightarrow> image_store_ops \<Rightarrow> u8 list option \<Rightarrow> u64 \<Rightarrow> u64 \<Rightarrow>
   'i option \<Rightarrow> nb_out \<Rightarrow> remoteproc option \<Rightarrow> rproc_world \<Rightarrow> (int option \<times> remoteproc option \<times> rproc_world) cres" where
  "noblock_loop 0 env ops loaders store img off len info o0 rproc w = Inl Hang"
| "noblock_loop (Suc fuel) env ops loaders store img off len info o0 rproc w =
     cbind (remoteproc_load_noblock env ops loaders img off len (Some info)
              (Some (o0\<lparr>no_nlen := 0, no_pa := METAL_BAD_PHYS, no_io := NULL, no_nmlen := 0\<rparr>)) rproc w)
       (\<lambda>((ret, info', o'), rproc1, w1).
     let o1 = the o' in
     if ret \<noteq> 0 then Inr (Some ret, rproc1, w1)
     else if no_nlen o1 = 0 then Inr (None, rproc1, w1)
     else
       cbind (so_load store (no_noffset o1) (no_nlen o1) img (no_pa o1) (no_io o1) w1) (\<lambda>(ret', img', w2).
       if ret' \<noteq> int_of_size (no_nlen o1) then Inr (Some ret', rproc1, w2)
       else
         let w3 = (if no_nlen o1 < no_nmlen o1 \<and> no_io o1 \<noteq> NULL
                   then w2\<lparr>w_mem := snd (io_block_set (pe_io env) (no_io o1)
                          (io_phys_to_offset (pe_io env) (no_io o1) (no_pa o1 + no_nlen o1)) (no_padding o1)
                          (int_of_size (no_nmlen o1 - no_nlen o1)) (w_mem w2))\<rparr>
                   else w2) in
         noblock_loop fuel env ops loaders store img' (no_noffset o1) (no_nlen o1) (the info') o1 rproc1 w3))"

definition load_exectuable_noblock ::
  "nat \<Rightarrow> rproc_env \<Rightarrow> remoteproc_ops \<Rightarrow> (ptr \<Rightarrow> 'i loader_ops) \<Rightarrow> image_store_ops \<Rightarrow> remoteproc option \<Rightarrow>
   rproc_world \<Rightarrow> (int \<times> remoteproc option \<times> rproc_world) cres" where
  "load_exectuable_noblock fuel env ops loaders store rproc w =
     (if rproc = None then Inr (- EINVAL, rproc, w)
      else
        cbind (remoteproc_config ops NULL rproc w) (\<lambda>(_, rproc1, w1).
        case so_open store w1 of (ret, img, w2) \<Rightarrow>
        if ret \<le> 0 then Inr (- EINVAL, rproc1, w2)
        else
          let o0 = \<lparr>no_pa = METAL_BAD_PHYS, no_io = NULL, no_noffset = pe_stack env, no_nlen = 0, no_nmlen = 0,
                    no_padding = ucast (pe_stack env)\<rparr> in
          cbind (noblock_loop fuel env ops loaders store img 0 (word_of_int ret) None o0 rproc1 w2) (\<lambda>(r, rproc2, w3).
          case r of Some e \<Rightarrow> Inr (e, rproc2, w3) | None \<Rightarrow> run_and_stop ops rproc2 w3)))"

text \<open>\<open>main\<close> of the RISC-V build, once the arguments are parsed; \<open>store2\<close> opens the path NULL.\<close>

definition load_fw_main ::
  "nat \<Rightarrow> rproc_env \<Rightarrow> remoteproc_ops \<Rightarrow> (ptr \<Rightarrow> 'i loader_ops) \<Rightarrow> image_store_ops \<Rightarrow> image_store_ops \<Rightarrow> ptr \<Rightarrow> u32 \<Rightarrow>
   rproc_world \<Rightarrow> (int \<times> rproc_world) cres" where
  "load_fw_main fuel env ops loaders store store2 sp cpu_id w =
     cbind (platform_create_proc ops sp cpu_id w) (\<lambda>(rproc, w1).
     if rproc = None then Inr (-1, w1)
     else
       cbind (load_exectuable_block fuel env ops loaders store rproc w1) (\<lambda>(ret, rproc2, w2).
       if ret < 0 then cbind (remoteproc_shutdown ops rproc2 w2) (\<lambda>(_, _, w3). Inr (-1, w3))
       else
         cbind (load_exectuable_noblock fuel env ops loaders store2 rproc2 w2) (\<lambda>(ret', rproc3, w3).
         if ret' < 0 then cbind (remoteproc_shutdown ops rproc3 w3) (\<lambda>(_, _, w4). Inr (-1, w4))
         else cbind (remoteproc_remove ops rproc3 w3) (\<lambda>(_, _, w4). Inr (ret', w4)))))"

end
