(* ===== verification/Elf_Props.thy ===== *)
theory Elf_Props
  imports Elf_Loader
begin

text \<open>
  Properties of the ELF loader: the bits of its state, the iterator over the segments against a
  reference definition, and the loading of the headers from any sequence of pieces of the image.
\<close>

subsection \<open>The bits of the state\<close>

text \<open>
  While segments are loaded the state is \<open>0x10800 OR n\<close>: ready to load, headers complete, and \<open>n\<close> the
  number of the next segment; afterwards \<open>0x20800 OR n\<close>, and \<open>0x40800 OR n\<close> when all is done.
\<close>

lemma low_byte: "n < 256 \<Longrightarrow> int n AND 255 = int n"
proof -
  assume "n < 256"
  then have "take_bit 8 (int n) = int n" by (simp add: take_bit_int_eq_self)
  then show ?thesis by (simp add: take_bit_eq_mask mask_eq_exp_minus_1)
qed

lemma low_byte_and: "x AND 255 = x \<Longrightarrow> x AND m = x AND (255 AND m)" for x m :: int
  by (metis and.assoc)

lemma state_bits:
  assumes "x AND 255 = (x :: int)"
  shows "(0x10800 OR x) AND ELF_NEXT_SEGMENT_MASK = x"
    and "(0x10800 OR x) AND RPROC_LOADER_MASK = RPROC_LOADER_READY_TO_LOAD"
    and "(0x10800 OR x) AND RPROC_LOADER_READY_TO_LOAD = RPROC_LOADER_READY_TO_LOAD"
    and "(0x10800 OR x) AND ELF_STATE_HDRS_COMPLETE = ELF_STATE_HDRS_COMPLETE"
    and "(0x20800 OR x) AND RPROC_LOADER_MASK = RPROC_LOADER_POST_DATA_LOAD"
    and "(0x20800 OR x) AND RPROC_LOADER_READY_TO_LOAD = 0"
    and "(0x20800 OR x) AND RPROC_LOADER_POST_DATA_LOAD = RPROC_LOADER_POST_DATA_LOAD"
    and "(0x20800 OR x) AND ELF_STATE_HDRS_COMPLETE = ELF_STATE_HDRS_COMPLETE"
    and "(0x40800 OR x) AND ELF_STATE_HDRS_COMPLETE = ELF_STATE_HDRS_COMPLETE"
  using low_byte_and [OF assms, of "0xFF0000"] low_byte_and [OF assms, of "0x10000"]
    low_byte_and [OF assms, of "0x800"] low_byte_and [OF assms, of "0x20000"] assms
  by (simp_all add: bit.conj_disj_distrib2 elf_state_defs)

lemma state_steps:
  assumes "x AND 255 = (x :: int)" and "y AND 255 = (y :: int)"
  shows "((0x10800 OR x) AND NOT ELF_NEXT_SEGMENT_MASK) OR (y AND ELF_NEXT_SEGMENT_MASK) = 0x10800 OR y"
    and "((((0x10800 OR x) AND NOT RPROC_LOADER_MASK) OR RPROC_LOADER_POST_DATA_LOAD) AND NOT ELF_NEXT_SEGMENT_MASK) OR
      (y AND ELF_NEXT_SEGMENT_MASK) = 0x20800 OR y"
    and "((0x20800 OR x) AND NOT RPROC_LOADER_MASK) OR RPROC_LOADER_LOAD_COMPLETE = 0x40800 OR x"
proof -
  note x = low_byte_and [OF assms(1), of "NOT 255"] low_byte_and [OF assms(1), of "NOT 0xFF0000"]
  show "((0x10800 OR x) AND NOT ELF_NEXT_SEGMENT_MASK) OR (y AND ELF_NEXT_SEGMENT_MASK) = 0x10800 OR y"
    "((((0x10800 OR x) AND NOT RPROC_LOADER_MASK) OR RPROC_LOADER_POST_DATA_LOAD) AND NOT ELF_NEXT_SEGMENT_MASK) OR
      (y AND ELF_NEXT_SEGMENT_MASK) = 0x20800 OR y"
    using x assms by (simp_all add: bit.conj_disj_distrib2 elf_state_defs)
  show "((0x20800 OR x) AND NOT RPROC_LOADER_MASK) OR RPROC_LOADER_LOAD_COMPLETE = 0x40800 OR x"
    using x assms by (simp add: bit.conj_disj_distrib2 elf_state_defs ac_simps)
qed

subsection \<open>The segments\<close>

text \<open>\<open>seg_hdr ei i\<close> points to the program header \<open>i\<close>; \<open>segs\<close> are the program headers of the table.\<close>

definition seg_hdr :: "elf_info \<Rightarrow> int \<Rightarrow> u8 list" where
  "seg_hdr ei i = (case elf_get_segment_from_index ei i of Inr (Some ph) \<Rightarrow> ph | _ \<Rightarrow> [])"

definition elf_segments :: "elf_info \<Rightarrow> elf_segment list \<Rightarrow> bool" where
  "elf_segments ei segs \<longleftrightarrow>
     elf_phnum ei = Inr (int (length segs)) \<and>
     elf_get_segment_from_index ei (int (length segs)) = Inr None \<and>
     (\<forall>i < length segs. elf_get_segment_from_index ei (int i) = Inr (Some (seg_hdr ei (int i))) \<and>
        elf_parse_segment ei (seg_hdr ei (int i)) = Inr (segs ! i))"

lemma next_load_loop_eq:
  assumes "elf_segments ei segs" and "i \<le> length segs"
  shows "next_load_loop ei (int i) s =
    (case find (\<lambda>j. p_type (segs ! j) = PT_LOAD) [i..<length segs] of
       Some j \<Rightarrow> Inr (Some (seg_hdr ei (int j)), int (Suc j), Some (segs ! j))
     | None \<Rightarrow> Inr (None, int (length segs), if i < length segs then Some (last segs) else s))"
  using assms(2)
proof (induction "length segs - i" arbitrary: i s)
  case 0
  then show ?case using assms(1) by (subst next_load_loop.simps) (simp add: elf_segments_def)
next
  case (Suc n)
  then have i: "i < length segs" by simp
  have h: "elf_get_segment_from_index ei (int i) = Inr (Some (seg_hdr ei (int i)))"
    "elf_parse_segment ei (seg_hdr ei (int i)) = Inr (segs ! i)"
    using assms(1) i by (auto simp: elf_segments_def)
  have u: "[i..<length segs] = i # [Suc i..<length segs]" using i by (simp add: upt_conv_Cons)
  have "segs ! i = last segs" if "Suc i = length segs" using that by (cases segs rule: rev_cases) (auto simp: nth_append)
  then show ?case
    using h i Suc.hyps Suc.hyps(1) [of "Suc i" "Some (segs ! i)"]
    by (subst next_load_loop.simps) (auto simp: u add.commute split: option.split)
qed

text \<open>
  C31. The iterator over the segments. From program header \<open>i\<close> on \<open>elf_next_load_segment\<close> finds the
  first one of type \<open>PT_LOAD\<close>, returns its fields and the number of the header behind it; when there
  is none it returns NULL, and the fields of the last header that it passed.
\<close>

theorem elf_next_segment_exact:
  assumes "elf_segments ei segs" and "i \<le> length segs"
  shows "elf_next_load_segment ei (int i) =
    (case find (\<lambda>j. p_type (segs ! j) = PT_LOAD) [i..<length segs] of
       Some j \<Rightarrow> Inr (Some (seg_hdr ei (int j)), int (Suc j), Some (segs ! j))
     | None \<Rightarrow> Inr (None, int (length segs), if i < length segs then Some (last segs) else None))"
  unfolding elf_next_load_segment_def by (rule next_load_loop_eq [OF assms])

subsection \<open>The headers of an image\<close>

text \<open>
  A reference decoder. \<open>elf_image bs ei tab\<close>: the image \<open>bs\<close> has the file header, the tables of program and
  section headers and the section names that \<open>ei\<close> holds, all inside the image; \<open>tab k\<close> are offset and size
  of the table that is missing when \<open>k\<close> of the three are.
\<close>

definition table_at :: "u8 list \<Rightarrow> u64 \<Rightarrow> u64 \<Rightarrow> u8 list option \<Rightarrow> bool" where
  "table_at bs off n t \<longleftrightarrow>
     unat off + unat n \<le> length bs \<and> t = Some (take (unat n) (drop (unat off) bs))"

definition elf_tables :: "elf_info \<Rightarrow> nat \<Rightarrow> (u64 \<times> u64) cres" where
  "elf_tables ei k =
     (if k = 3 then cbind (elf_phoff ei) (\<lambda>off. cbind (elf_phnum ei) (\<lambda>n. cbind (elf_phentsize ei) (\<lambda>e.
        Inr (off, word_of_int n * e))))
      else if k = 2 then cbind (elf_shoff ei) (\<lambda>off. cbind (elf_shnum ei) (\<lambda>n. cbind (elf_shentsize ei) (\<lambda>e.
        Inr (off, word_of_int n * e))))
      else cbind (elf_shstrndx ei) (\<lambda>i. cbind (elf_get_section_from_index ei i) (\<lambda>h.
        case h of None \<Rightarrow> Inl Null_deref
        | Some shdr \<Rightarrow> cbind (elf_parse_section ei shdr) (\<lambda>sec.
            cbind (sh_offset sec) (\<lambda>off. cbind (sh_size sec) (\<lambda>n. Inr (off, n)))))))"

definition elf_image :: "u8 list \<Rightarrow> elf_info \<Rightarrow> (nat \<Rightarrow> u64 \<times> u64) \<Rightarrow> bool" where
  "elf_image bs ei tab \<longleftrightarrow>
     (\<exists>is64. elf_is_64 bs = Inr is64 \<and>
       (let n = (if is64 then ELF64_EHDR_SIZE else ELF32_EHDR_SIZE) in n \<le> length bs \<and> ei_ehdr ei = take n bs)) \<and>
     length bs < 2 ^ 31 \<and> ei_load_state ei = 0x10800 \<and> elf_shnum ei \<noteq> Inr 0 \<and>
     elf_tables ei 3 = Inr (tab 3) \<and> table_at bs (fst (tab 3)) (snd (tab 3)) (ei_phdrs ei) \<and>
     elf_tables ei 2 = Inr (tab 2) \<and> table_at bs (fst (tab 2)) (snd (tab 2)) (ei_shdrs ei) \<and>
     elf_tables ei 1 = Inr (tab 1) \<and> table_at bs (fst (tab 1)) (snd (tab 1)) (ei_shstrtab ei)"

text \<open>What the loader knows when \<open>k\<close> of the three tables are missing, and its state then.\<close>

definition hdr_state :: "nat \<Rightarrow> int" where
  "hdr_state k = (if k = 3 then 0x100 else if k = 2 then 0x10200 else if k = 1 then 0x10400 else 0x10800)"

definition elf_at :: "elf_info \<Rightarrow> nat \<Rightarrow> elf_info" where
  "elf_at ei k = ei\<lparr>ei_load_state := hdr_state k, ei_phdrs := (if k < 3 then ei_phdrs ei else None),
     ei_shdrs := (if k < 2 then ei_shdrs ei else None), ei_shstrtab := (if k < 1 then ei_shstrtab ei else None)\<rparr>"

lemma elf_at_sel [simp]:
  "ei_ehdr (elf_at ei k) = ei_ehdr ei" "ei_load_state (elf_at ei k) = hdr_state k"
  "ei_phdrs (elf_at ei k) = (if k < 3 then ei_phdrs ei else None)"
  "ei_shdrs (elf_at ei k) = (if k < 2 then ei_shdrs ei else None)"
  by (simp_all add: elf_at_def)

lemma elf_fields_at [simp]:
  "elf_phoff (elf_at ei k) = elf_phoff ei" "elf_phnum (elf_at ei k) = elf_phnum ei"
  "elf_phentsize (elf_at ei k) = elf_phentsize ei" "elf_shoff (elf_at ei k) = elf_shoff ei"
  "elf_shnum (elf_at ei k) = elf_shnum ei" "elf_shentsize (elf_at ei k) = elf_shentsize ei"
  "elf_shstrndx (elf_at ei k) = elf_shstrndx ei" "elf_parse_section (elf_at ei k) = elf_parse_section ei"
  by (simp_all add: elf_phoff_def elf_phnum_def elf_phentsize_def elf_shoff_def elf_shnum_def elf_shentsize_def
      elf_shstrndx_def elf_parse_section_def fun_eq_iff)

lemma elf_section_at [simp]:
  "k < 2 \<Longrightarrow> elf_get_section_from_index (elf_at ei k) i = elf_get_section_from_index ei i"
  by (cases "ei_shdrs ei") (simp_all add: elf_get_section_from_index_def)

text \<open>Data that starts with \<open>len\<close> bytes of the image from \<open>off\<close> on, and whether these cover a table.\<close>

definition window :: "u8 list \<Rightarrow> u64 \<Rightarrow> u64 \<Rightarrow> u8 list option \<Rightarrow> bool" where
  "window bs off len img \<longleftrightarrow>
     (\<exists>d. img = Some d \<and> take (unat len) d = take (unat len) (drop (unat off) bs)) \<and> unat off + unat len \<le> length bs"

text \<open>A part of such data is the part of the image.\<close>

lemma window_part:
  assumes "window bs off len (Some d)" and "k + n \<le> unat len"
  shows "sub_bytes d k n = Inr (take n (drop (unat off + k) bs))"
proof -
  have t: "take (unat len) d = take (unat len) (drop (unat off) bs)" and o: "unat off + unat len \<le> length bs"
    using assms(1) by (auto simp: window_def)
  have "min (length d) (unat len) = unat len" using arg_cong [OF t, of length] o by simp
  then have l: "unat len \<le> length d" by simp
  have "take n (drop k xs) = take n (drop k (take (unat len) xs))" for xs :: "u8 list" using assms(2) by (simp add: drop_take min_def)
  then have "take n (drop k d) = take n (drop k (drop (unat off) bs))" by (metis t)
  then show ?thesis using l assms(2) by (simp add: sub_bytes_def add.commute)
qed

definition covers :: "u64 \<Rightarrow> u64 \<Rightarrow> u64 \<times> u64 \<Rightarrow> bool" where
  "covers off len t \<longleftrightarrow> unat off \<le> unat (fst t) \<and> unat (fst t) + unat (snd t) \<le> unat off + unat len"

lemma copy_table_window:
  assumes "window bs off len img" and "table_at bs t n tab" and "\<forall>n live. al n live" and "length bs < 2 ^ 31"
  shows "elf_copy_table al img off len t n live = Inr (if covers off len (t, n) then Some tab else None)"
proof -
  have l: "length bs < 2 ^ 31" "unat off + unat len \<le> length bs" "unat t + unat n \<le> length bs"
    using assms by (auto simp: window_def table_at_def)
  then have u: "unat (off + len) = unat off + unat len" "unat (t + n) = unat t + unat n"
    by (auto intro!: unat_plus_lt)
  have c: "\<not> (t < off \<or> off + len < t + n) \<longleftrightarrow> covers off len (t, n)"
    by (auto simp: covers_def word_less_nat_alt u)
  obtain d where d: "img = Some d" using assms(1) by (auto simp: window_def)
  have "sub_bytes d (unat (t - off)) (unat n) = Inr (take (unat n) (drop (unat t) bs))" if c: "covers off len (t, n)"
  proof -
    have o: "unat (t - off) = unat t - unat off" using c by (simp add: covers_def unat_sub word_le_nat_alt)
    then show ?thesis using window_part [OF assms(1) [unfolded d], of "unat (t - off)" "unat n"] c by (auto simp: covers_def)
  qed
  then show ?thesis using c d assms by (auto simp: elf_copy_table_def table_at_def)
qed

text \<open>The stages of \<open>elf_load_header\<close> on a window; \<open>ask\<close> is the request for a missing table.\<close>

definition ask :: "u64 \<times> u64 \<Rightarrow> (elf_info, 'x) elf_hs_scheme \<Rightarrow> (elf_info, 'x) elf_hs_scheme" where
  "ask r hs = hs\<lparr>hs_noffset := fst r, hs_nlen := snd r\<rparr>"

lemma hdr_state_simps [simp]:
  "hdr_state 3 = 0x100" "hdr_state 2 = 0x10200" "hdr_state (Suc 0) = 0x10400" "hdr_state 0 = 0x10800"
  by (simp_all add: hdr_state_def)

lemma elf_at_steps:
  "elf_image bs ei tab \<Longrightarrow> elf_load_state (ELF_STATE_WAIT_FOR_SHDRS OR RPROC_LOADER_READY_TO_LOAD)
     (elf_phtable_ptr (the (ei_phdrs ei)) (elf_at ei 3)) = elf_at ei 2"
  "elf_image bs ei tab \<Longrightarrow> elf_load_state ((hdr_state 2 AND NOT ELF_STATE_MASK) OR ELF_STATE_WAIT_FOR_SHSTRTAB)
     (elf_shtable_ptr (the (ei_shdrs ei)) (elf_at ei 2)) = elf_at ei (Suc 0)"
  "elf_image bs ei tab \<Longrightarrow> elf_load_state ((hdr_state (Suc 0) AND NOT ELF_STATE_MASK) OR ELF_STATE_HDRS_COMPLETE)
     (elf_shstrtab_ptr (the (ei_shstrtab ei)) (elf_at ei (Suc 0))) = elf_at ei 0"
  by (auto simp: elf_image_def table_at_def elf_load_state_def elf_phtable_ptr_def elf_shtable_ptr_def
      elf_shstrtab_ptr_def elf_at_def elf_state_defs)

lemma phdrs_stage_at:
  assumes "elf_image bs ei tab" and "window bs off len img" and "\<forall>n live. al n live" and "k \<le> 3"
  shows "elf_phdrs_stage al img off len (elf_at ei k) hs =
     (if k = 3 then
        (if covers off len (tab 3) then Inr (None, elf_at ei 2, hs\<lparr>hs_live := hs_live hs + 1\<rparr>)
         else Inr (Some (hdr_state 3), elf_at ei 3, ask (tab 3) hs))
      else Inr (None, elf_at ei k, hs))"
proof (cases "k = 3")
  case True
  obtain phoff n e where f: "elf_phoff ei = Inr phoff" "elf_phnum ei = Inr n" "elf_phentsize ei = Inr e"
    and t: "tab 3 = (phoff, word_of_int n * e)"
    using assms(1) by (auto simp: elf_image_def elf_tables_def cbind_eq_Inr)
  have "table_at bs (fst (tab 3)) (snd (tab 3)) (ei_phdrs ei)" "length bs < 2 ^ 31"
    using assms(1) by (auto simp: elf_image_def)
  then obtain p where p: "ei_phdrs ei = Some p" and
    c: "elf_copy_table al img off len phoff (word_of_int n * e) live =
      Inr (if covers off len (tab 3) then Some (ei_phdrs ei) else None)" for live
    using copy_table_window [OF assms(2) _ assms(3)] by (auto simp: t table_at_def)
  show ?thesis
    using True f c p elf_at_steps(1) [OF assms(1)]
    by (simp add: elf_phdrs_stage_def t ask_def elf_state_defs Let_def)
next
  case False
  then show ?thesis using assms(4) by (auto simp: elf_phdrs_stage_def hdr_state_def elf_state_defs)
qed

lemma shdrs_stage_at:
  assumes "elf_image bs ei tab" and "window bs off len img" and "\<forall>n live. al n live" and "k \<le> 2"
  shows "elf_shdrs_stage al img off len (elf_at ei k) hs =
     (if k = 2 then
        (if covers off len (tab 2) then Inr (None, elf_at ei (Suc 0), hs\<lparr>hs_live := hs_live hs + 1\<rparr>)
         else Inr (Some (hdr_state 2), elf_at ei 2, ask (tab 2) hs))
      else Inr (None, elf_at ei k, hs))"
proof (cases "k = 2")
  case True
  obtain shoff n e where f: "elf_shoff ei = Inr shoff" "elf_shnum ei = Inr n" "elf_shentsize ei = Inr e"
    and t: "tab 2 = (shoff, word_of_int n * e)"
    using assms(1) by (auto simp: elf_image_def elf_tables_def cbind_eq_Inr)
  have n: "n \<noteq> 0" using assms(1) f by (auto simp: elf_image_def)
  have "table_at bs (fst (tab 2)) (snd (tab 2)) (ei_shdrs ei)" "length bs < 2 ^ 31"
    using assms(1) by (auto simp: elf_image_def)
  then obtain p where p: "ei_shdrs ei = Some p" and
    c: "elf_copy_table al img off len shoff (word_of_int n * e) live =
      Inr (if covers off len (tab 2) then Some (ei_shdrs ei) else None)" for live
    using copy_table_window [OF assms(2) _ assms(3)] by (auto simp: t table_at_def)
  have "hdr_state 2 AND ELF_STATE_WAIT_FOR_SHDRS \<noteq> 0" by (simp add: elf_state_defs)
  then show ?thesis
    using True f c p n elf_at_steps(2) [OF assms(1)]
    by (simp add: elf_shdrs_stage_def t ask_def Let_def del: hdr_state_simps)
next
  case False
  then show ?thesis using assms(4) by (auto simp: elf_shdrs_stage_def hdr_state_def elf_state_defs)
qed

lemma shstrtab_stage_at:
  assumes "elf_image bs ei tab" and "window bs off len img" and "\<forall>n live. al n live"
  shows "elf_shstrtab_stage al img off len (elf_at ei (Suc 0)) hs =
     (if covers off len (tab 1)
      then Inr (Some (hdr_state 0), elf_at ei 0, hs\<lparr>hs_live := hs_live hs + 1, hs_nlen := 0\<rparr>)
      else Inr (Some (hdr_state (Suc 0)), elf_at ei (Suc 0), ask (tab 1) hs))"
proof -
  obtain i shdr sec stoff n where f: "elf_shstrndx ei = Inr i" "elf_get_section_from_index ei i = Inr (Some shdr)"
      "elf_parse_section ei shdr = Inr sec" "sh_offset sec = Inr stoff" "sh_size sec = Inr n"
    and t: "tab 1 = (stoff, n)"
    using assms(1) by (auto simp: elf_image_def elf_tables_def cbind_eq_Inr split: option.splits)
  have "table_at bs (fst (tab 1)) (snd (tab 1)) (ei_shstrtab ei)" "length bs < 2 ^ 31"
    using assms(1) by (auto simp: elf_image_def)
  then obtain p where p: "ei_shstrtab ei = Some p" and
    c: "elf_copy_table al img off len stoff n live =
      Inr (if covers off len (tab 1) then Some (ei_shstrtab ei) else None)" for live
    using copy_table_window [OF assms(2) _ assms(3)] by (auto simp: t [unfolded One_nat_def] table_at_def)
  have s: "hdr_state (Suc 0) AND ELF_STATE_WAIT_FOR_SHSTRTAB \<noteq> 0" by (simp add: elf_state_defs)
  have h: "(hdr_state (Suc 0) AND NOT ELF_STATE_MASK) OR ELF_STATE_HDRS_COMPLETE = hdr_state 0"
    by (simp add: elf_state_defs)
  show ?thesis
    using f c p s h elf_at_steps(3) [OF assms(1)]
    by (simp add: elf_shstrtab_stage_def t [unfolded One_nat_def] ask_def Let_def del: hdr_state_simps)
qed

text \<open>\<open>elf_load_header\<close> from the tables on.\<close>

definition header_rest ::
  "(u64 \<Rightarrow> nat \<Rightarrow> bool) \<Rightarrow> u8 list option \<Rightarrow> u64 \<Rightarrow> u64 \<Rightarrow> int \<Rightarrow> elf_info \<Rightarrow> (elf_info, 'x) elf_hs_scheme \<Rightarrow>
   (int \<times> (elf_info, 'x) elf_hs_scheme) cres" where
  "header_rest al img off len lst1 ei0 hs0 =
     cbind (elf_phdrs_stage al img off len ei0 hs0) (\<lambda>(r1, ei1, hs1).
     case r1 of Some r \<Rightarrow> Inr (r, hs1\<lparr>hs_info := Some ei1\<rparr>) | None \<Rightarrow>
     cbind (elf_shdrs_stage al img off len ei1 hs1) (\<lambda>(r2, ei2, hs2).
     case r2 of Some r \<Rightarrow> Inr (r, hs2\<lparr>hs_info := Some ei2\<rparr>) | None \<Rightarrow>
     cbind (elf_shstrtab_stage al img off len ei2 hs2) (\<lambda>(r3, ei3, hs3).
     case r3 of Some r \<Rightarrow> Inr (r, hs3\<lparr>hs_info := Some ei3\<rparr>)
     | None \<Rightarrow> Inr (lst1, hs3\<lparr>hs_info := Some ei3\<rparr>))))"

text \<open>What a call leaves: \<open>k\<close> tables missing and the next one asked for, or nothing missing.\<close>

definition hdr_left :: "elf_info \<Rightarrow> (nat \<Rightarrow> u64 \<times> u64) \<Rightarrow> nat \<Rightarrow> (elf_info, 'x) elf_hs_scheme \<Rightarrow> bool" where
  "hdr_left ei tab k hs \<longleftrightarrow> hs_info hs = Some (elf_at ei k) \<and>
     (if k = 0 then hs_nlen hs = 0 else (hs_noffset hs, hs_nlen hs) = tab k)"

text \<open>A missing table that the data covers is taken and the next one looked at; one that it does not cover is asked for.\<close>

lemma header_rest_cases:
  assumes "elf_image bs ei tab" and "window bs off len img" and "\<forall>n live. al n live"
  shows "1 \<le> k \<Longrightarrow> k \<le> 3 \<Longrightarrow> \<not> covers off len (tab k) \<Longrightarrow>
      header_rest al img off len lst (elf_at ei k) hs = Inr (hdr_state k, (ask (tab k) hs)\<lparr>hs_info := Some (elf_at ei k)\<rparr>)"
    and "2 \<le> k \<Longrightarrow> k \<le> 3 \<Longrightarrow> covers off len (tab k) \<Longrightarrow>
      header_rest al img off len lst (elf_at ei k) hs = header_rest al img off len lst (elf_at ei (k - 1)) (hs\<lparr>hs_live := hs_live hs + 1\<rparr>)"
    and "covers off len (tab 1) \<Longrightarrow> header_rest al img off len lst (elf_at ei 1) hs =
      Inr (hdr_state 0, hs\<lparr>hs_live := hs_live hs + 1, hs_nlen := 0, hs_info := Some (elf_at ei 0)\<rparr>)"
proof -
  note p = phdrs_stage_at [OF assms] and s = shdrs_stage_at [OF assms] and t = shstrtab_stage_at [OF assms, unfolded One_nat_def]
  show "header_rest al img off len lst (elf_at ei k) hs = Inr (hdr_state k, (ask (tab k) hs)\<lparr>hs_info := Some (elf_at ei k)\<rparr>)"
    if k: "1 \<le> k" "k \<le> 3" "\<not> covers off len (tab k)"
  proof -
    consider "k = 3" | "k = 2" | "k = Suc 0" using k by linarith
    then show ?thesis using k(3) by cases (simp_all add: header_rest_def p s t)
  qed
  show "header_rest al img off len lst (elf_at ei k) hs = header_rest al img off len lst (elf_at ei (k - 1)) (hs\<lparr>hs_live := hs_live hs + 1\<rparr>)"
    if k: "2 \<le> k" "k \<le> 3" "covers off len (tab k)"
  proof -
    consider "k = 3" | "k = 2" using k by linarith
    then show ?thesis using k(3) by cases (simp_all add: header_rest_def p s t)
  qed
  show "header_rest al img off len lst (elf_at ei 1) hs =
      Inr (hdr_state 0, hs\<lparr>hs_live := hs_live hs + 1, hs_nlen := 0, hs_info := Some (elf_at ei 0)\<rparr>)" if "covers off len (tab 1)"
    using that by (simp add: header_rest_def p s t)
qed

lemma header_rest_at:
  assumes "elf_image bs ei tab" and "window bs off len img" and "\<forall>n live. al n live" and "1 \<le> k" and "k \<le> 3"
  shows "\<exists>k' hs'. k' \<le> k \<and> (covers off len (tab k) \<longrightarrow> k' < k) \<and>
    header_rest al img off len lst (elf_at ei k) hs = Inr (hdr_state k', hs') \<and> hdr_left ei tab k' hs' \<and>
    hs_live hs' = hs_live hs + (k - k') \<and> elf_hs.more hs' = elf_hs.more hs"
  using assms(4,5)
proof (induction k arbitrary: hs)
  case (Suc k)
  note c = header_rest_cases [OF assms(1-3)]
  consider "\<not> covers off len (tab (Suc k))" | "covers off len (tab (Suc k))" "k = 0" | "covers off len (tab (Suc k))" "1 \<le> k"
    by linarith
  then show ?case
  proof cases
    case 1
    then show ?thesis using c(1) [of "Suc k" lst hs] Suc.prems by (intro exI [of _ "Suc k"]) (simp add: hdr_left_def ask_def)
  next
    case 2
    then show ?thesis using c(3) [of lst hs] by (intro exI [of _ 0]) (simp add: hdr_left_def)
  next
    case 3
    have "header_rest al img off len lst (elf_at ei (Suc k)) hs = header_rest al img off len lst (elf_at ei k) (hs\<lparr>hs_live := hs_live hs + 1\<rparr>)"
      using c(2) [of "Suc k" lst hs] 3 Suc.prems by simp
    moreover obtain k' hs' where "k' \<le> k"
      "header_rest al img off len lst (elf_at ei k) (hs\<lparr>hs_live := hs_live hs + 1\<rparr>) = Inr (hdr_state k', hs')"
      "hdr_left ei tab k' hs'" "hs_live hs' = hs_live (hs\<lparr>hs_live := hs_live hs + 1\<rparr>) + (k - k')"
      "elf_hs.more hs' = elf_hs.more (hs\<lparr>hs_live := hs_live hs + 1\<rparr>)"
      using Suc.IH [of "hs\<lparr>hs_live := hs_live hs + 1\<rparr>", OF 3(2) Suc_leD [OF Suc.prems(2)]] by blast
    ultimately show ?thesis by (intro exI [of _ k'] exI [of _ hs']) auto
  qed
qed simp

text \<open>A call that continues, on the piece that was asked for, makes progress.\<close>

lemma header_continues:
  assumes "elf_image bs ei tab" and "window bs off len img" and "\<forall>n live. al n live" and "1 \<le> k" and "k \<le> 3"
    and "hs_info hs = Some (elf_at ei k)" and "(off, len) = tab k"
  shows "\<exists>k' hs'. k' < k \<and> elf_load_header al img off len (hdr_state k) hs = Inr (hdr_state k', hs') \<and>
    hdr_left ei tab k' hs' \<and> hs_live hs' = hs_live hs + (k - k') \<and> elf_hs.more hs' = elf_hs.more hs"
proof -
  have "hdr_state k \<noteq> ELF_STATE_INIT" using assms(4,5) by (auto simp: hdr_state_def elf_state_defs)
  then have "elf_load_header al img off len (hdr_state k) hs = header_rest al img off len (hdr_state k) (elf_at ei k) hs"
    using assms(6) by (simp add: elf_load_header_def elf_ehdr_stage_def header_rest_def)
  moreover have "covers off len (tab k)" using assms(7) [symmetric] by (simp add: covers_def)
  ultimately show ?thesis using header_rest_at [OF assms(1-5), of "hdr_state k" hs] by auto
qed

text \<open>The file header, from data that holds it.\<close>

lemma ehdr_stage_at:
  assumes "elf_image bs ei tab" and "\<forall>n live. al n live" and "window bs 0 len img" and "length (ei_ehdr ei) \<le> unat len" and "hs_info hs = None"
  shows "elf_ehdr_stage al img len ELF_STATE_INIT hs =
    Inr (None, ELF_STATE_WAIT_FOR_PHDRS, hs\<lparr>hs_info := Some (elf_at ei 3), hs_live := hs_live hs + 1\<rparr>)"
proof -
  obtain is64 where b: "elf_is_64 bs = Inr is64"
    and e: "(if is64 then ELF64_EHDR_SIZE else ELF32_EHDR_SIZE) \<le> length bs"
      "ei_ehdr ei = take (if is64 then ELF64_EHDR_SIZE else ELF32_EHDR_SIZE) bs"
    using assms(1) by (auto simp: elf_image_def Let_def)
  have l: "length (ei_ehdr ei) = (if is64 then ELF64_EHDR_SIZE else ELF32_EHDR_SIZE)" using e by simp
  have i: "elf_load_state ELF_STATE_WAIT_FOR_PHDRS ((new_elf_info (ei_ehdr ei))\<lparr>ei_ehdr := ei_ehdr ei\<rparr>) = elf_at ei 3"
    by (simp add: elf_load_state_def new_elf_info_def elf_at_def elf_state_defs)
  obtain d where d: "img = Some d" using assms(3) by (auto simp: window_def)
  have s: "EI_CLASS < length (ei_ehdr ei)" using l by (simp add: EI_CLASS_def elf_size_defs)
  have sb: "sub_bytes d 0 (length (ei_ehdr ei)) = Inr (ei_ehdr ei)"
    using window_part [OF assms(3) [unfolded d], of 0 "length (ei_ehdr ei)"] assms(4) e l by simp
  then have "length (ei_ehdr ei) \<le> length d" "take (length (ei_ehdr ei)) d = ei_ehdr ei" by (auto simp: sub_bytes_def split: if_splits)
  then have "EI_CLASS < length d" "d ! EI_CLASS = bs ! EI_CLASS" "EI_CLASS < length bs"
    using s e l by (auto dest: arg_cong [where f = "\<lambda>xs. xs ! EI_CLASS"])
  then have "elf_is_64 d = Inr is64" using b by (simp add: elf_is_64_def rd_def)
  then show ?thesis
    using assms(2,4,5) d sb l i
    by (simp add: elf_ehdr_stage_def elf_ehdr_size_def elf_info_size_def sub_bytes_def Let_def new_elf_info_def
        del: of_nat_numeral)
qed

text \<open>With the whole image at hand one call decodes all headers.\<close>

lemma header_whole:
  assumes "elf_image bs ei tab" and "\<forall>n live. al n live" and "window bs 0 len img" and "unat len = length bs"
    and "hs_info hs = None"
  shows "elf_load_header al img 0 len ELF_STATE_INIT hs =
    Inr (hdr_state 0, hs\<lparr>hs_info := Some (elf_at ei 0), hs_live := hs_live hs + 4, hs_nlen := 0\<rparr>)"
proof -
  note p = phdrs_stage_at [OF assms(1,3,2)] and s = shdrs_stage_at [OF assms(1,3,2)]
    and t = shstrtab_stage_at [OF assms(1,3,2)]
  have c: "covers 0 len (tab 1)" "covers 0 len (tab 2)" "covers 0 len (tab 3)"
    using assms(1,4) by (auto simp: covers_def elf_image_def table_at_def)
  have "length (ei_ehdr ei) \<le> unat len" using assms(1,4) by (auto simp: elf_image_def Let_def)
  then have "elf_ehdr_stage al img len ELF_STATE_INIT hs =
      Inr (None, ELF_STATE_WAIT_FOR_PHDRS, hs\<lparr>hs_info := Some (elf_at ei 3), hs_live := hs_live hs + 1\<rparr>)"
    by (rule ehdr_stage_at [OF assms(1-3) _ assms(5)])
  then show ?thesis
    using c by (simp add: elf_load_header_def p s t [unfolded One_nat_def] elf_state_defs)
qed

lemma header_starts:
  assumes "elf_image bs ei tab" and "window bs 0 len img" and "\<forall>n live. al n live"
    and "length (ei_ehdr ei) \<le> unat len" and "hs_info hs = None"
  shows "\<exists>k' hs'. k' \<le> 3 \<and> elf_load_header al img 0 len ELF_STATE_INIT hs = Inr (hdr_state k', hs') \<and>
    hdr_left ei tab k' hs' \<and> hs_live hs' = hs_live hs + (4 - k') \<and> elf_hs.more hs' = elf_hs.more hs"
proof -
  let ?hs = "hs\<lparr>hs_info := Some (elf_at ei 3), hs_live := hs_live hs + 1\<rparr>"
  have "elf_ehdr_stage al img len ELF_STATE_INIT hs = Inr (None, ELF_STATE_WAIT_FOR_PHDRS, ?hs)"
    by (rule ehdr_stage_at [OF assms(1,3,2,4,5)])
  then have "elf_load_header al img 0 len ELF_STATE_INIT hs =
      header_rest al img 0 len ELF_STATE_WAIT_FOR_PHDRS (elf_at ei 3) ?hs"
    by (simp add: elf_load_header_def header_rest_def elf_state_defs)
  moreover obtain k' hs' where "k' \<le> 3"
    "header_rest al img 0 len ELF_STATE_WAIT_FOR_PHDRS (elf_at ei 3) ?hs = Inr (hdr_state k', hs')"
    "hdr_left ei tab k' hs'" "hs_live hs' = hs_live ?hs + (3 - k')" "elf_hs.more hs' = elf_hs.more ?hs"
    using header_rest_at [OF assms(1-3), of 3 ELF_STATE_WAIT_FOR_PHDRS ?hs] by (simp only: order_refl one_le_numeral) blast
  ultimately show ?thesis by (intro exI [of _ k'] exI [of _ hs']) auto
qed

subsection \<open>The segments, one call at a time\<close>

lemma elf_segments_state [simp]: "elf_segments (ei\<lparr>ei_load_state := s\<rparr>) segs = elf_segments ei segs"
  by (simp add: elf_segments_def seg_hdr_def elf_get_segment_from_index_def elf_parse_segment_def elf_phnum_def
      cong: option.case_cong)

text \<open>The state after the segment \<open>j\<close> of \<open>n\<close>.\<close>

definition seg_state :: "nat \<Rightarrow> nat \<Rightarrow> int" where
  "seg_state n j = (if Suc j = n then 0x20800 else 0x10800) OR int (Suc j)"

lemma elf_load_next:
  assumes "elf_segments ei segs" and "length segs < 256" and "i \<le> length segs"
    and "find (\<lambda>j. p_type (segs ! j) = PT_LOAD) [i..<length segs] = Some j"
    and "hs_info ld = Some (ei\<lparr>ei_load_state := 0x10800 OR int i\<rparr>)" and "ld_padding ld = Some x"
  shows "elf_load al img off len (0x10800 OR int i) ld =
    Inr (seg_state (length segs) j, ld\<lparr>ld_padding := Some 0, ld_da := p_vaddr (segs ! j), hs_noffset := p_offset (segs ! j),
      hs_nlen := p_filesz (segs ! j), ld_nmemsize := p_memsz (segs ! j),
      hs_info := Some (ei\<lparr>ei_load_state := seg_state (length segs) j\<rparr>)\<rparr>)"
proof -
  let ?ei = "ei\<lparr>ei_load_state := 0x10800 OR int i\<rparr>"
  have "j \<in> set [i..<length segs]" using assms(4) by (auto simp: find_Some_iff)
  then have j: "j < length segs" by simp
  have b: "int i AND 255 = int i" "int (Suc j) AND 255 = int (Suc j)"
    using assms(2,3) j by (auto intro!: low_byte simp del: of_nat_Suc)
  have seg: "elf_segments ?ei segs" using assms(1) by simp
  have nx: "elf_next_load_segment ?ei (int i) = Inr (Some (seg_hdr ?ei (int j)), int (Suc j), Some (segs ! j))"
    unfolding elf_next_load_segment_def next_load_loop_eq [OF seg assms(3)] assms(4) by simp
  have ph: "elf_phnum ?ei = Inr (int (length segs))" using seg by (simp add: elf_segments_def)
  have st: "((if int (Suc j) = int (length segs)
        then ((0x10800 OR int i) AND NOT RPROC_LOADER_MASK) OR RPROC_LOADER_POST_DATA_LOAD else 0x10800 OR int i)
      AND NOT ELF_NEXT_SEGMENT_MASK) OR (int (Suc j) AND ELF_NEXT_SEGMENT_MASK) = seg_state (length segs) j"
    using state_steps [OF b] by (simp only: seg_state_def of_nat_eq_iff split: if_split) simp
  have "elf_load al img off len (0x10800 OR int i) ld =
      elf_load_segment ?ei (ld\<lparr>ld_padding := Some 0\<rparr>)"
    using assms(5,6) state_bits [OF b(1)] by (simp add: elf_load_def Let_def elf_state_defs)
  also have "\<dots> = Inr (seg_state (length segs) j, ld\<lparr>ld_padding := Some 0, ld_da := p_vaddr (segs ! j), hs_noffset := p_offset (segs ! j),
      hs_nlen := p_filesz (segs ! j), ld_nmemsize := p_memsz (segs ! j),
      hs_info := Some (ei\<lparr>ei_load_state := seg_state (length segs) j\<rparr>)\<rparr>)"
    using nx ph st state_bits(1) [OF b(1)]
    by (simp add: elf_load_segment_def Let_def elf_load_state_def del: of_nat_Suc)
  finally show ?thesis .
qed

lemma elf_load_end:
  assumes "n < 256" and "hs_info ld = Some (ei\<lparr>ei_load_state := 0x20800 OR int n\<rparr>)" and "ld_padding ld = Some x"
  shows "elf_load al img off len (0x20800 OR int n) ld =
    Inr (0x40800 OR int n, ld\<lparr>ld_padding := Some 0, hs_nlen := 0,
      hs_info := Some (ei\<lparr>ei_load_state := 0x40800 OR int n\<rparr>)\<rparr>)"
proof -
  have b: "int n AND 255 = int n" by (rule low_byte [OF assms(1)])
  show ?thesis
    using assms(2,3) state_bits [OF b] state_steps [OF b b]
    by (simp add: elf_load_def elf_load_post_def Let_def elf_load_state_def elf_state_defs)
qed

end
