(* ===== verification/Load_Props.thy ===== *)
theory Load_Props
  imports Load_Fw Elf_Props Rproc_Mem_Props
begin

text \<open>
  Loading an ELF image into the memory of a remote processor. The locale \<open>image_store\<close> states what a
  store must do for an image; the store of the example in \<open>mem_image_store.c\<close> keeps it. Under it
  \<open>remoteproc_load\<close> puts every loadable segment in its place and releases all it has allocated.
\<close>

subsection \<open>Image stores\<close>

text \<open>
  The store holds the image \<open>bs\<close> and hands out its first \<open>n0\<close> bytes when it is opened. Data that is fetched starts with
  the bytes asked for; data with a target goes there.
\<close>

locale image_store =
  fixes iops :: io_ops and store :: image_store_ops and bs :: "u8 list" and n0 :: nat
  assumes image_size: "length bs < 2 ^ 31"
    and first_size: "n0 \<le> length bs"
    and opens: "so_open store w = (int n0, Some (take n0 bs), w)"
    and closes: "so_close store w = w"
    and seeks: "so_features store AND SUPPORT_SEEK \<noteq> 0"
    and load_data: "unat off + unat n \<le> length bs \<Longrightarrow>
      \<exists>d. so_load store off n img RPROC_LOAD_ANYADDR NULL w = Inr (int_of_size n, Some d, w) \<and>
        take (unat n) d = take (unat n) (drop (unat off) bs)"
    and load_to: "pa \<noteq> RPROC_LOAD_ANYADDR \<Longrightarrow> io \<noteq> NULL \<Longrightarrow> io_phys_to_virt iops io pa \<noteq> NULL \<Longrightarrow>
      unat off + unat n \<le> length bs \<Longrightarrow>
      so_load store off n img pa io w = Inr (int_of_size n, img,
        w\<lparr>w_mem := wr_bytes (w_mem w) (io_phys_to_virt iops io pa) (take (unat n) (drop (unat off) bs))\<rparr>)"

text \<open>A file that could be opened and read as a whole.\<close>

definition mem_file_holds :: "mem_file \<Rightarrow> u8 list \<Rightarrow> bool" where
  "mem_file_holds f bs \<longleftrightarrow> 0 \<le> mf_fd f \<and> mf_fstat f = 0 \<and> mf_malloc f \<and> 0 \<le> mf_read f \<and>
     mf_st_size f = int (length bs) \<and> mf_buf f = bs \<and> length bs < 2 ^ 31"

locale mem_image =
  fixes f :: mem_file and bs :: "u8 list"
  assumes holds: "mem_file_holds f bs"

sublocale mem_image \<subseteq> image_store io "mem_image_store_ops io f" bs "length bs" for io
  using holds
  by unfold_locales
    (auto simp: mem_file_holds_def mem_image_store_ops_def mem_image_open_def mem_image_close_def mem_image_load_def
      SUPPORT_SEEK_def RPROC_LOAD_ANYADDR_def METAL_BAD_PHYS_def sub_bytes_def signed_take_bit_id Let_def)

subsection \<open>The headers\<close>

context image_store
begin

text \<open>One round: when tables are missing the next one is fetched from the store.\<close>

lemma headers_round:
  assumes "elf_image bs ei tab" and "\<forall>k \<in> {1, 2, 3}. snd (tab k) \<noteq> 0" and "k' \<le> 3" and left: "hdr_left ei tab k' v'"
    and call: "loader_call (lo_load_header (elf_ops al) (ls_img st) (ls_offset st) (ls_len st) (ls_state st)) st w =
      Inr (hdr_state k', st\<lparr>ls_vars := v'\<rparr>, w')"
  shows "\<exists>img. (0 < k' \<longrightarrow> window bs (fst (tab k')) (snd (tab k')) img) \<and>
    load_headers_loop (Suc f) (elf_ops al) store st w =
    (let st1 = st\<lparr>ls_vars := v', ls_state := hdr_state k'\<rparr> in
     if k' = 0 then Inr (None, st1, w')
     else load_headers_loop f (elf_ops al) store
       (st1\<lparr>ls_img := img, ls_offset := fst (tab k'), ls_len := snd (tab k')\<rparr>) w')"
proof (cases "k' = 0")
  case True
  then show ?thesis using call left by (simp add: hdr_left_def elf_state_defs Let_def)
next
  case False
  then have k3: "k' \<in> {1, 2, 3}" using assms(3) by auto
  then have t: "unat (fst (tab k')) + unat (snd (tab k')) \<le> length bs" "snd (tab k') \<noteq> 0"
    using assms(1,2) by (auto simp: elf_image_def table_at_def)
  have n: "hs_noffset v' = fst (tab k')" "hs_nlen v' = snd (tab k')" using left False by (auto simp: hdr_left_def split_pairs)
  have pos: "0 \<le> hdr_state k'" by (simp add: hdr_state_def)
  obtain d where d: "so_load store (fst (tab k')) (snd (tab k')) None RPROC_LOAD_ANYADDR NULL w' =
      Inr (int_of_size (snd (tab k')), Some d, w')" "take (unat (snd (tab k'))) d = take (unat (snd (tab k'))) (drop (unat (fst (tab k'))) bs)"
    using load_data [OF t(1)] by blast
  then have "window bs (fst (tab k')) (snd (tab k')) (Some d)" using t(1) by (simp add: window_def)
  then show ?thesis using False call n t(2) seeks d(1) pos by (intro exI [of _ "Some d"]) (simp add: Let_def)
qed

lemma headers_loop_from:
  assumes "elf_image bs ei tab" and "\<forall>k \<in> {1, 2, 3}. snd (tab k) \<noteq> 0" and "\<forall>n live. al n live"
  shows "1 \<le> k \<Longrightarrow> k \<le> 3 \<Longrightarrow> k \<le> fuel \<Longrightarrow> window bs (ls_offset st) (ls_len st) (ls_img st) \<Longrightarrow>
    (ls_offset st, ls_len st) = tab k \<Longrightarrow> ls_state st = hdr_state k \<Longrightarrow> hs_info (ls_vars st) = Some (elf_at ei k) \<Longrightarrow>
    \<exists>st'. load_headers_loop fuel (elf_ops al) store st w = Inr (None, st', w\<lparr>w_loader := w_loader w + k\<rparr>) \<and>
      hs_info (ls_vars st') = Some (elf_at ei 0) \<and> ls_state st' = hdr_state 0 \<and> ls_io st' = ls_io st"
proof (induction k arbitrary: fuel st w rule: less_induct)
  case (less k)
  then obtain f where f: "fuel = Suc f" by (cases fuel) auto
  let ?v = "(ls_vars st)\<lparr>hs_live := w_loader w\<rparr>"
  have info: "hs_info ?v = Some (elf_at ei k)" using less.prems(7) by simp
  obtain k' v' where k': "k' < k"
    and h: "elf_load_header al (ls_img st) (ls_offset st) (ls_len st) (hdr_state k) ?v = Inr (hdr_state k', v')"
    and left: "hdr_left ei tab k' v'" and live: "hs_live v' = hs_live ?v + (k - k')"
    using header_continues [OF assms(1) less.prems(4) assms(3) less.prems(1,2) info less.prems(5)] by blast
  let ?w = "w\<lparr>w_loader := w_loader w + (k - k')\<rparr>" and ?st = "st\<lparr>ls_vars := v', ls_state := hdr_state k'\<rparr>"
  have "loader_call (lo_load_header (elf_ops al) (ls_img st) (ls_offset st) (ls_len st) (ls_state st)) st w =
      Inr (hdr_state k', st\<lparr>ls_vars := v'\<rparr>, ?w)"
    using h live by (simp add: loader_call_def elf_ops_def less.prems(6))
  then obtain img where win: "0 < k' \<longrightarrow> window bs (fst (tab k')) (snd (tab k')) img"
    and r: "load_headers_loop fuel (elf_ops al) store st w =
      (let st1 = ?st in if k' = 0 then Inr (None, st1, ?w) else load_headers_loop f (elf_ops al) store
         (st1\<lparr>ls_img := img, ls_offset := fst (tab k'), ls_len := snd (tab k')\<rparr>) ?w)"
    using headers_round [OF assms(1,2) _ left, of al st w ?w f] k' less.prems(2) unfolding f by auto
  show ?case
  proof (cases "k' = 0")
    case True
    then show ?thesis using r left by (simp add: hdr_left_def)
  next
    case False
    let ?st' = "?st\<lparr>ls_img := img, ls_offset := fst (tab k'), ls_len := snd (tab k')\<rparr>"
    have "hs_info v' = Some (elf_at ei k')" using left by (simp add: hdr_left_def)
    then obtain st' where "load_headers_loop f (elf_ops al) store ?st' ?w =
        Inr (None, st', ?w\<lparr>w_loader := w_loader ?w + k'\<rparr>)" "hs_info (ls_vars st') = Some (elf_at ei 0)"
        "ls_state st' = hdr_state 0" "ls_io st' = ls_io ?st'"
      using less.IH [OF k', of f ?st' ?w] False k' less.prems(2,3) win by (auto simp: f)
    then show ?thesis using r k' False by (intro exI [of _ st']) (simp add: Let_def)
  qed
qed

text \<open>The whole loop, from the image as the store opens it.\<close>

lemma headers_loop_run:
  assumes "elf_image bs ei tab" and "\<forall>k \<in> {1, 2, 3}. snd (tab k) \<noteq> 0" and "\<forall>n live. al n live" and "4 \<le> fuel"
    and "length (ei_ehdr ei) \<le> n0" and "ls_img st = Some (take n0 bs)" and "ls_offset st = 0" and "ls_len st = of_nat n0"
    and "ls_state st = RPROC_LOADER_NOT_READY" and "hs_info (ls_vars st) = None"
  shows "\<exists>st'. load_headers_loop fuel (elf_ops al) store st w = Inr (None, st', w\<lparr>w_loader := w_loader w + 4\<rparr>) \<and>
      hs_info (ls_vars st') = Some (elf_at ei 0) \<and> ls_state st' = hdr_state 0 \<and> ls_io st' = ls_io st"
proof -
  obtain f where f: "fuel = Suc f" "3 \<le> f" using assms(4) by (cases fuel) auto
  have len: "unat (ls_len st) = n0" using assms(8) image_size first_size by (simp add: unat_of_nat_64)
  have win: "window bs 0 (ls_len st) (ls_img st)" using len first_size assms(6) by (simp add: window_def)
  have eh: "length (ei_ehdr ei) \<le> unat (ls_len st)" using assms(5) len by simp
  let ?v = "(ls_vars st)\<lparr>hs_live := w_loader w\<rparr>"
  obtain k' v' where k': "k' \<le> 3"
    and h: "elf_load_header al (ls_img st) 0 (ls_len st) ELF_STATE_INIT ?v = Inr (hdr_state k', v')"
    and left: "hdr_left ei tab k' v'" and live: "hs_live v' = hs_live ?v + (4 - k')"
    using header_starts [OF assms(1) win assms(3) eh, of ?v] assms(10) by auto
  let ?w = "w\<lparr>w_loader := w_loader w + (4 - k')\<rparr>" and ?st = "st\<lparr>ls_vars := v', ls_state := hdr_state k'\<rparr>"
  have "loader_call (lo_load_header (elf_ops al) (ls_img st) (ls_offset st) (ls_len st) (ls_state st)) st w =
      Inr (hdr_state k', st\<lparr>ls_vars := v'\<rparr>, ?w)"
    using h live assms(7,9) by (simp add: loader_call_def elf_ops_def elf_state_defs)
  then obtain img where win': "0 < k' \<longrightarrow> window bs (fst (tab k')) (snd (tab k')) img"
    and r: "load_headers_loop fuel (elf_ops al) store st w =
      (let st1 = ?st in if k' = 0 then Inr (None, st1, ?w) else load_headers_loop f (elf_ops al) store
         (st1\<lparr>ls_img := img, ls_offset := fst (tab k'), ls_len := snd (tab k')\<rparr>) ?w)"
    using headers_round [OF assms(1,2) k' left, of al st w ?w f] unfolding f by auto
  have info: "hs_info v' = Some (elf_at ei k')" using left by (simp add: hdr_left_def)
  show ?thesis
  proof (cases "k' = 0")
    case True
    then show ?thesis using r info by simp
  next
    case False
    let ?st' = "?st\<lparr>ls_img := img, ls_offset := fst (tab k'), ls_len := snd (tab k')\<rparr>"
    show ?thesis
      using headers_loop_from [OF assms(1-3), of k' f ?st' ?w] False k' f(2) win' info r by (auto simp: Let_def)
  qed
qed

end

subsection \<open>The segments\<close>

text \<open>
  Where a segment goes: the pointer that the device address has in the region which holds the block,
  and the bytes: those of the file and zeros up to the size in memory.
\<close>

definition seg_va :: "io_ops \<Rightarrow> remoteproc \<Rightarrow> elf_segment \<Rightarrow> ptr" where
  "seg_va io rp s =
     (case remoteproc_get_mem io rp None METAL_BAD_PHYS (p_vaddr s) NULL (p_memsz s) of
        Some m \<Rightarrow> io_phys_to_virt io (rm_io m) (remoteproc_datopa m (p_vaddr s)) | None \<Rightarrow> NULL)"

definition seg_bytes :: "u8 list \<Rightarrow> elf_segment \<Rightarrow> u8 list" where
  "seg_bytes bs s = take (unat (p_filesz s)) (drop (unat (p_offset s)) bs) @
     replicate (unat (p_memsz s) - unat (p_filesz s)) 0"

text \<open>The segment has its bytes in the image, and its block lies in a registered region.\<close>

definition seg_fits :: "io_ops \<Rightarrow> u8 list \<Rightarrow> remoteproc \<Rightarrow> elf_segment \<Rightarrow> bool" where
  "seg_fits io bs rp s \<longleftrightarrow>
     unat (p_offset s) + unat (p_filesz s) \<le> length bs \<and> unat (p_filesz s) \<le> unat (p_memsz s) \<and>
     0 < unat (p_memsz s) \<and> unat (p_memsz s) < 2 ^ 31 \<and> seg_va io rp s \<noteq> NULL \<and>
     (\<exists>m base. m \<in> set (rp_mems rp) \<and> rm_io m \<noteq> NULL \<and>
        metal_region io (rm_io m) base (rm_pa m) (unat (rm_size m)) \<and>
        unat (rm_da m) \<le> unat (p_vaddr s) \<and>
        unat (p_vaddr s) + unat (p_memsz s) \<le> unat (rm_da m) + unat (rm_size m))"

lemma wr_bytes_Nil [simp]: "wr_bytes m p [] = m"
  by (simp add: wr_bytes_def)

lemma wr_bytes_append:
  assumes "length a + length b < 2 ^ 64"
  shows "wr_bytes (wr_bytes m p a) (p + of_nat (length a)) b = wr_bytes m p (a @ b)"
proof
  fix x
  let ?a = "of_nat (length a) :: u64"
  have u: "unat ?a = length a" using assms by (simp add: unat_of_nat_64)
  have e: "x - (p + ?a) = x - p - ?a" by (simp add: diff_diff_add)
  have d: "unat (x - p - ?a) = (if length a \<le> unat (x - p) then unat (x - p) - length a else unat (x - p) + 2 ^ 64 - length a)"
    by (subst unat_sub_if') (simp add: u)
  show "wr_bytes (wr_bytes m p a) (p + ?a) b x = wr_bytes m p (a @ b) x"
    using assms by (auto simp: wr_bytes_def e d nth_append not_less)
qed

lemma int_of_size_small: "unat n < 2 ^ 31 \<Longrightarrow> int_of_size n = int (unat n)"
proof -
  assume "unat n < 2 ^ 31"
  then have "int (unat n) < int (2 ^ 31)" by (simp only: of_nat_less_iff)
  then have "uint n < 2 ^ 31" by simp
  then show ?thesis by (simp add: int_of_size_def signed_take_bit_id)
qed

text \<open>Nothing of the processor but its regions decides where a segment goes.\<close>

lemma get_mem_mems: "rp_mems rp' = rp_mems rp \<Longrightarrow> remoteproc_get_mem io rp' = remoteproc_get_mem io rp"
  by (simp add: fun_eq_iff remoteproc_get_mem_def)

lemma seg_va_mems: "rp_mems rp' = rp_mems rp \<Longrightarrow> seg_va io rp' = seg_va io rp"
  by (simp add: fun_eq_iff seg_va_def get_mem_mems [of rp' rp])

lemma seg_fits_mems: "rp_mems rp' = rp_mems rp \<Longrightarrow> seg_fits io bs rp' = seg_fits io bs rp"
  by (simp add: fun_eq_iff seg_fits_def seg_va_mems [of rp' rp])

lemma seg_da_given:
  assumes "mems_ok (rp_mems rp)" and "seg_fits iops bs rp s"
  shows "p_vaddr s \<noteq> RPROC_LOAD_ANYADDR"
  using assms not_bad_phys [of "p_vaddr s"]
  by (force simp: seg_fits_def mems_ok_def RPROC_LOAD_ANYADDR_def METAL_BAD_PHYS_def)

text \<open>The block of a fitting segment: its region, its offset there, and what \<open>remoteproc_mmap\<close> gives for it.\<close>

lemma segment_mapped:
  assumes "mems_ok (rp_mems rp)" and "seg_fits iops bs rp s"
  obtains m :: remoteproc_mem and base off pa where "metal_region iops (rm_io m) base (rm_pa m) (unat (rm_size m))" and "rm_io m \<noteq> NULL"
    and "pa \<noteq> METAL_BAD_PHYS" and "pa - rm_pa m = off" and "unat off + unat (p_memsz s) \<le> unat (rm_size m)"
    and "io_phys_to_virt iops (rm_io m) pa = base + off" and "seg_va iops rp s = base + off"
    and "\<And>io w. remoteproc_mmap iops ops (Some rp) (Some METAL_BAD_PHYS) (Some (p_vaddr s)) (p_memsz s) 0 (Some io) w =
      Inr (base + off, Some pa, Some (p_vaddr s), Some (rm_io m), Some rp, w)"
proof -
  obtain m base where m: "m \<in> set (rp_mems rp)" "rm_io m \<noteq> NULL"
      "metal_region iops (rm_io m) base (rm_pa m) (unat (rm_size m))"
      "unat (rm_da m) \<le> unat (p_vaddr s)"
      "unat (p_vaddr s) + unat (p_memsz s) \<le> unat (rm_da m) + unat (rm_size m)"
    and s: "0 < unat (p_memsz s)"
    using assms(2) unfolding seg_fits_def by blast
  define pa where "pa = remoteproc_datopa m (p_vaddr s)"
  define off where "off = p_vaddr s - rm_da m"
  note d = datopa_inside [OF assms(1) m(1) s m(4,5), folded pa_def off_def]
  have g: "remoteproc_get_mem iops rp None METAL_BAD_PHYS (p_vaddr s) va (p_memsz s) = Some m" for va
    by (rule get_mem_da [OF assms(1) m(1) s m(4,5)])
  have sz: "unat off + unat (p_memsz s) \<le> unat (rm_size m)" using d(2) m(4,5) by simp
  have "unat (rm_pa m) + unat (rm_size m) < 2 ^ 64" using assms(1) m(1) by (simp add: mems_ok_def)
  then have pa: "pa \<noteq> METAL_BAD_PHYS" by (intro not_bad_phys) (use d(1,2) sz s m(4) in simp)
  have da: "p_vaddr s \<noteq> METAL_BAD_PHYS" by (rule not_bad_phys) (use assms(1) m s in \<open>auto simp: mems_ok_def\<close>)
  have va: "io_phys_to_virt iops (rm_io m) pa = base + off" "seg_va iops rp s = base + off"
    using metal_region.phys_to_virt [OF m(3), of pa] d(3) sz s by (auto simp: seg_va_def g pa_def)
  have "remoteproc_mmap iops ops (Some rp) (Some METAL_BAD_PHYS) (Some (p_vaddr s)) (p_memsz s) 0 (Some io) w =
      Inr (base + off, Some pa, Some (p_vaddr s), Some (rm_io m), Some rp, w)" for io w
    using g pa da va by (simp add: remoteproc_mmap_def pa_def [symmetric])
  moreover have "pa - rm_pa m = off" by (rule d(3))
  ultimately show thesis using that m(2,3) pa sz va by blast
qed

text \<open>The part of a segment that is not in the file is filled with zeros.\<close>

lemma segment_padded:
  assumes r: "metal_region iops io base ppa sz" and "pa - ppa = off" and "unat off + unat memsz \<le> sz"
    and "unat memsz < 2 ^ 31" and "filesz < memsz"
  shows "snd (io_block_set iops io (io_phys_to_offset iops io (pa + filesz)) 0 (int_of_size (memsz - filesz)) mem) =
    wr_bytes mem (base + off + of_nat (unat filesz)) (replicate (unat memsz - unat filesz) 0)"
proof -
  let ?n = "unat filesz" and ?k = "unat memsz - unat filesz"
  have s63: "sz < 2 ^ 63" by (rule metal_region.size_fits [OF r])
  have lt: "?n < unat memsz" using assms(5) by (simp add: word_less_nat_alt)
  have k: "unat (memsz - filesz) = ?k" using lt by (simp add: unat_sub word_le_nat_alt)
  have o: "pa + filesz - ppa = off + filesz" using assms(2) by (simp add: algebra_simps)
  have u: "unat (off + filesz) = unat off + ?n" by (rule unat_plus_lt) (use assms(3) s63 lt in simp)
  have "io_phys_to_offset iops io (pa + filesz) = off + filesz"
    using metal_region.phys_to_offset [OF r, of "pa + filesz"] o u assms(3) lt by simp
  moreover have "io_block_set iops io (off + filesz) 0 (int ?k) mem =
      (int ?k, wr_bytes mem (base + (off + filesz)) (replicate ?k 0))"
    by (rule metal_region.block_set [OF r]) (use u assms(3) lt in simp)
  moreover have "int_of_size (memsz - filesz) = int ?k"
    using int_of_size_small [of "memsz - filesz"] k assms(4) by simp
  ultimately show ?thesis by (simp add: add.assoc)
qed

text \<open>The bytes of the file and the padding together.\<close>

lemma segment_stored:
  assumes "seg_fits iops bs rp s"
  shows "(if p_filesz s < p_memsz s
      then wr_bytes (wr_bytes m va (take (unat (p_filesz s)) (drop (unat (p_offset s)) bs))) (va + of_nat (unat (p_filesz s)))
        (replicate (unat (p_memsz s) - unat (p_filesz s)) 0)
      else wr_bytes m va (take (unat (p_filesz s)) (drop (unat (p_offset s)) bs))) = wr_bytes m va (seg_bytes bs s)"
  using assms wr_bytes_append [of "take (unat (p_filesz s)) (drop (unat (p_offset s)) bs)"
      "replicate (unat (p_memsz s) - unat (p_filesz s)) 0" m va]
  by (auto simp: seg_fits_def seg_bytes_def word_less_nat_alt not_less)

context image_store
begin

text \<open>One segment is loaded into its place.\<close>

lemma load_segment_run:
  assumes "mems_ok (rp_mems rp)" and "seg_fits iops bs rp s" and "pe_io env = iops"
    and "ls_vars st = v" and "ld_da v = p_vaddr s" and "hs_noffset v = p_offset s" and "hs_nlen v = p_filesz s"
    and "ld_nmemsize v = p_memsz s" and "ld_padding v = Some 0"
  shows "\<exists>st'. load_segment env ops store st rp w =
      Inr (None, st', rp, w\<lparr>w_mem := wr_bytes (w_mem w) (seg_va iops rp s) (seg_bytes bs s)\<rparr>) \<and>
    ls_vars st' = v \<and> ls_state st' = ls_state st"
proof (rule segment_mapped [OF assms(1,2)])
  fix m :: remoteproc_mem and base off pa
  assume r: "metal_region iops (rm_io m) base (rm_pa m) (unat (rm_size m))" "rm_io m \<noteq> NULL"
    and pa: "pa \<noteq> METAL_BAD_PHYS" "pa - rm_pa m = off" and sz: "unat off + unat (p_memsz s) \<le> unat (rm_size m)"
    and va: "io_phys_to_virt iops (rm_io m) pa = base + off" "seg_va iops rp s = base + off"
    and mm: "\<And>io w. remoteproc_mmap iops ops (Some rp) (Some METAL_BAD_PHYS) (Some (p_vaddr s)) (p_memsz s) 0 (Some io) w =
      Inr (base + off, Some pa, Some (p_vaddr s), Some (rm_io m), Some rp, w)"
  have s: "unat (p_offset s) + unat (p_filesz s) \<le> length bs" "unat (p_filesz s) \<le> unat (p_memsz s)"
      "unat (p_memsz s) < 2 ^ 31" "seg_va iops rp s \<noteq> NULL"
    using assms(2) unfolding seg_fits_def by blast+
  let ?n = "unat (p_filesz s)" and ?k = "unat (p_memsz s) - unat (p_filesz s)"
  let ?data = "take ?n (drop (unat (p_offset s)) bs)"
  have load: "(if 0 < p_filesz s then so_load store (p_offset s) (p_filesz s) None pa (rm_io m) w
      else Inr (int_of_size (p_filesz s), None, w)) =
    Inr (int_of_size (p_filesz s), None, w\<lparr>w_mem := wr_bytes (w_mem w) (base + off) ?data\<rparr>)"
    using load_to [of pa "rm_io m" "p_offset s" "p_filesz s" None w] pa(1) r(2) s(1,4) va
    by (cases "p_filesz s = 0") (simp_all add: RPROC_LOAD_ANYADDR_def METAL_BAD_PHYS_def word_neq_0_conv)
  note pad = segment_padded [OF r(1) pa(2) sz s(3), of "p_filesz s"]
  note mem = segment_stored [OF assms(2), of "w_mem w" "base + off"]
  show ?thesis
    unfolding va(2) mem [symmetric] using assms(3-9) mm load pa r(2) pad [of "w_mem w"]
    by (cases "p_filesz s = 0"; cases "p_filesz s < p_memsz s")
      (simp_all add: load_segment_def Let_def pad word_neq_0_conv)
qed

end

text \<open>The segments to load from \<open>i\<close> on, and memory once they are loaded.\<close>

definition loadable :: "elf_segment list \<Rightarrow> nat \<Rightarrow> elf_segment list" where
  "loadable segs i = map ((!) segs) (filter (\<lambda>j. p_type (segs ! j) = PT_LOAD) [i..<length segs])"

definition mem_loaded :: "io_ops \<Rightarrow> u8 list \<Rightarrow> remoteproc \<Rightarrow> elf_segment list \<Rightarrow> mem \<Rightarrow> mem" where
  "mem_loaded io bs rp ss m = fold (\<lambda>s m. wr_bytes m (seg_va io rp s) (seg_bytes bs s)) ss m"

lemma mem_loaded_mems: "rp_mems rp' = rp_mems rp \<Longrightarrow> mem_loaded io bs rp' = mem_loaded io bs rp"
  by (simp add: fun_eq_iff mem_loaded_def seg_va_mems [of rp' rp])

lemma find_upt_filter:
  "find P [i..<n] = Some j \<Longrightarrow> filter P [i..<n] = j # filter P [Suc j..<n] \<and> i \<le> j \<and> j < n \<and> P j"
proof (induction "n - i" arbitrary: i)
  case (Suc k)
  then have i: "[i..<n] = i # [Suc i..<n]" by (simp add: upt_conv_Cons)
  show ?case
  proof (cases "P i")
    case True
    then show ?thesis using Suc.prems Suc.hyps(2) i by auto
  next
    case False
    then have "find P [Suc i..<n] = Some j" using Suc.prems by (simp add: i)
    moreover have "k = n - Suc i" using Suc.hyps(2) by simp
    ultimately show ?thesis using Suc.hyps(1) [of "Suc i"] False by (simp add: i)
  qed
qed simp

context image_store
begin

lemma data_loop_end:
  assumes "n < 256" and "hs_info (ls_vars st) = Some (ei\<lparr>ei_load_state := 0x20800 OR int n\<rparr>)"
    and "ls_state st = 0x20800 OR int n" and "0 < fuel"
  shows "\<exists>st'. load_data_loop fuel env ops store (elf_ops al) st rp w = Inr (None, st', rp, w) \<and>
    hs_info (ls_vars st') = Some (ei\<lparr>ei_load_state := 0x40800 OR int n\<rparr>)"
proof -
  obtain f where f: "fuel = Suc f" using assms(4) by (cases fuel) auto
  have pos: "0 \<le> 0x40800 OR int n" by simp
  have "w\<lparr>w_loader := w_loader w\<rparr> = w" by simp
  then show ?thesis
    using elf_load_end [OF assms(1)] assms(2,3) pos
    by (simp add: f loader_call_def elf_ops_def Let_def RPROC_LOAD_ANYADDR_def)
qed

text \<open>One round loads the next segment.\<close>

lemma data_loop_step:
  assumes "elf_segments ei segs" and "length segs < 256" and "mems_ok (rp_mems rp)" and "pe_io env = iops"
    and "i \<le> length segs" and j: "find (\<lambda>j. p_type (segs ! j) = PT_LOAD) [i..<length segs] = Some j"
    and fits: "seg_fits iops bs rp (segs ! j)"
    and "hs_info (ls_vars st) = Some (ei\<lparr>ei_load_state := 0x10800 OR int i\<rparr>)" and "ls_state st = 0x10800 OR int i"
  shows "\<exists>st'. load_data_loop (Suc f) env ops store (elf_ops al) st rp w = load_data_loop f env ops store (elf_ops al) st' rp
      (w\<lparr>w_mem := wr_bytes (w_mem w) (seg_va iops rp (segs ! j)) (seg_bytes bs (segs ! j))\<rparr>) \<and>
    hs_info (ls_vars st') = Some (ei\<lparr>ei_load_state := seg_state (length segs) j\<rparr>) \<and> ls_state st' = seg_state (length segs) j"
proof -
  let ?s = "segs ! j" and ?ei = "ei\<lparr>ei_load_state := seg_state (length segs) j\<rparr>" and ?n = "length segs"
  have da: "p_vaddr ?s \<noteq> RPROC_LOAD_ANYADDR" by (rule seg_da_given [OF assms(3) fits])
  let ?st0 = "st\<lparr>ls_vars := (ls_vars st)\<lparr>hs_noffset := 0, hs_nlen := 0, ld_da := RPROC_LOAD_ANYADDR,
    ld_padding := Some (ucast (pe_stack env)), ld_nmemsize := 0\<rparr>\<rparr>"
  let ?v = "(ls_vars ?st0)\<lparr>hs_live := w_loader w, ld_padding := Some 0, ld_da := p_vaddr ?s, hs_noffset := p_offset ?s,
    hs_nlen := p_filesz ?s, ld_nmemsize := p_memsz ?s, hs_info := Some ?ei\<rparr>"
  have call: "loader_call (lo_load_data (elf_ops al) rp (ls_img ?st0) (ls_offset ?st0) (ls_len ?st0) (ls_state ?st0)) ?st0 w =
      Inr (seg_state ?n j, ?st0\<lparr>ls_vars := ?v\<rparr>, w)"
    using elf_load_next [OF assms(1,2,5) j, of "(ls_vars ?st0)\<lparr>hs_live := w_loader w\<rparr>"] assms(8,9)
    by (simp add: loader_call_def elf_ops_def)
  have pos: "0 \<le> seg_state ?n j" by (simp add: seg_state_def)
  let ?st2 = "?st0\<lparr>ls_vars := ?v, ls_state := seg_state ?n j\<rparr>"
  obtain st3 where "load_segment env ops store ?st2 rp w =
      Inr (None, st3, rp, w\<lparr>w_mem := wr_bytes (w_mem w) (seg_va iops rp ?s) (seg_bytes bs ?s)\<rparr>)"
    and "ls_vars st3 = ?v" "ls_state st3 = seg_state ?n j"
    using load_segment_run [OF assms(3) fits assms(4), of ?st2 ?v] by auto
  then show ?thesis using call pos da by (intro exI [of _ st3]) (simp add: Let_def)
qed

lemma data_loop_run:
  assumes "elf_segments ei segs" and "length segs < 256" and "segs \<noteq> []" and "p_type (last segs) = PT_LOAD"
    and "mems_ok (rp_mems rp)" and "pe_io env = iops"
    and "\<forall>s \<in> set segs. p_type s = PT_LOAD \<longrightarrow> seg_fits iops bs rp s"
  shows "i < length segs \<Longrightarrow> hs_info (ls_vars st) = Some (ei\<lparr>ei_load_state := 0x10800 OR int i\<rparr>) \<Longrightarrow>
    ls_state st = 0x10800 OR int i \<Longrightarrow> Suc (length segs - i) \<le> fuel \<Longrightarrow>
    \<exists>st'. load_data_loop fuel env ops store (elf_ops al) st rp w =
        Inr (None, st', rp, w\<lparr>w_mem := mem_loaded iops bs rp (loadable segs i) (w_mem w)\<rparr>) \<and>
      hs_info (ls_vars st') = Some (ei\<lparr>ei_load_state := 0x40800 OR int (length segs)\<rparr>)"
proof (induction "length segs - i" arbitrary: i st w fuel rule: less_induct)
  case less
  let ?P = "\<lambda>j. p_type (segs ! j) = PT_LOAD" and ?n = "length segs"
  obtain f where f: "fuel = Suc f" "?n - i \<le> f" using less.prems(4) by (cases fuel) auto
  have "?P (?n - 1)" using assms(3,4) by (simp add: last_conv_nth)
  then obtain j where j: "find ?P [i..<?n] = Some j"
    using less.prems(1) by (cases "find ?P [i..<?n]") (auto simp: find_None_iff)
  note fj = find_upt_filter [OF j]
  let ?w = "w\<lparr>w_mem := wr_bytes (w_mem w) (seg_va iops rp (segs ! j)) (seg_bytes bs (segs ! j))\<rparr>"
  have "seg_fits iops bs rp (segs ! j)" using assms(7) fj by auto
  then obtain st3 where step: "load_data_loop fuel env ops store (elf_ops al) st rp w = load_data_loop f env ops store (elf_ops al) st3 rp ?w"
    and st3: "hs_info (ls_vars st3) = Some (ei\<lparr>ei_load_state := seg_state ?n j\<rparr>)" "ls_state st3 = seg_state ?n j"
    using data_loop_step [OF assms(1,2,5,6) less_imp_le [OF less.prems(1)] j _ less.prems(2,3), of f ops al w] unfolding f(1) by blast
  have load: "mem_loaded iops bs rp (loadable segs i) (w_mem w) = mem_loaded iops bs rp (loadable segs (Suc j)) (w_mem ?w)"
    using fj by (simp add: mem_loaded_def loadable_def)
  show ?case
  proof (cases "Suc j = ?n")
    case True
    have "loadable segs (Suc j) = []" using True by (simp add: loadable_def)
    moreover have "0 < f" using f(2) less.prems(1) by simp
    ultimately show ?thesis
      using step load data_loop_end [OF assms(2), of st3 ei f env ops al rp ?w] st3 True
      by (simp add: seg_state_def mem_loaded_def)
  next
    case False
    then have sj: "Suc j < ?n" using fj by simp
    have "?n - Suc j < ?n - i" "Suc (?n - Suc j) \<le> f" using fj sj f(2) by linarith+
    then show ?thesis
      using less.hyps [of "Suc j" st3 f ?w] sj st3 False step load by (simp add: seg_state_def)
  qed
qed

text \<open>What makes an image fit a processor: it is an ELF file whose headers are inside the image, with a segment to load at the
  end of its program headers and no resource table, and all loadable segments fit.\<close>

end

definition elf_fits :: "io_ops \<Rightarrow> u8 list \<Rightarrow> elf_info \<Rightarrow> (nat \<Rightarrow> u64 \<times> u64) \<Rightarrow> elf_segment list \<Rightarrow> remoteproc \<Rightarrow> bool" where
  "elf_fits io bs ei tab segs rp \<longleftrightarrow>
     take SELFMAG bs = ELFMAG \<and> elf_image bs ei tab \<and> (\<forall>k \<in> {1, 2, 3}. snd (tab k) \<noteq> 0) \<and>
     elf_segments ei segs \<and> length segs < 256 \<and> segs \<noteq> [] \<and> p_type (last segs) = PT_LOAD \<and>
     elf_get_section_from_name ei RSC_TABLE_SECTION = Inr None \<and>
     mems_ok (rp_mems rp) \<and> (\<forall>s \<in> set segs. p_type s = PT_LOAD \<longrightarrow> seg_fits io bs rp s)"

lemma elf_at_0: "elf_image bs ei tab \<Longrightarrow> elf_at ei 0 = ei"
  by (simp add: elf_at_def elf_image_def)

lemma locate_none:
  assumes "elf_get_section_from_name ei RSC_TABLE_SECTION = Inr None" and "s AND ELF_STATE_HDRS_COMPLETE \<noteq> 0"
  shows "elf_locate_rsc_table (Some (ei\<lparr>ei_load_state := s\<rparr>)) da off sz = Inr (0, da, off, 0)"
proof -
  have "elf_get_section_from_name (ei\<lparr>ei_load_state := s\<rparr>) RSC_TABLE_SECTION = Inr None"
    using assms(1) by (simp add: elf_get_section_from_name_def elf_shnum_def cong: option.case_cong)
  then show ?thesis using assms(2) by (simp add: elf_locate_rsc_table_def)
qed

context image_store
begin

lemma load_image_run:
  assumes "elf_fits iops bs ei tab segs rp" and "\<forall>n live. al n live" and "pe_io env = iops"
    and "length segs + 4 \<le> fuel" and "elf_get_entry (Some ei) = Inr entry" and "length (ei_ehdr ei) \<le> n0"
  shows "load_image fuel env ops store (elf_ops al) False (Some (take n0 bs)) (of_nat n0) rp w =
    Inr ((0, None), rp\<lparr>rp_bootaddr := entry, rp_state := RPROC_READY\<rparr>,
      store_close store (w\<lparr>w_mem := mem_loaded iops bs rp (loadable segs 0) (w_mem w)\<rparr>))"
proof -
  note a = assms(1) [unfolded elf_fits_def]
  let ?n = "length segs"
  define v0 :: "elf_info elf_ld" where "v0 = \<lparr>hs_info = None, hs_noffset = pe_stack env, hs_nlen = pe_stack env, hs_live = w_loader w,
                ld_da = pe_stack env, ld_padding = Some (ucast (pe_stack env)), ld_nmemsize = pe_stack env\<rparr>"
  define st0 where "st0 = \<lparr>ls_img = Some (take n0 bs), ls_offset = 0, ls_len = of_nat n0, ls_state = RPROC_LOADER_NOT_READY,
                 ls_vars = v0, ls_io = NULL\<rparr>"
  have st0: "ls_img st0 = Some (take n0 bs)" "ls_offset st0 = 0" "ls_len st0 = of_nat n0"
    "ls_state st0 = RPROC_LOADER_NOT_READY" "hs_info (ls_vars st0) = None" by (simp_all add: st0_def v0_def)
  have e0: "elf_at ei 0 = ei\<lparr>ei_load_state := 0x10800 OR int 0\<rparr>" "elf_at ei 0 = ei\<lparr>ei_load_state := 0x10800\<rparr>"
    by (cases ei, use a in \<open>simp add: elf_at_def elf_image_def\<close>)+
  define w1 where "w1 = w\<lparr>w_loader := w_loader w + 4\<rparr>"
  obtain st1 where h: "load_headers_loop fuel (elf_ops al) store st0 w = Inr (None, st1, w1)"
    and st1: "hs_info (ls_vars st1) = Some (elf_at ei 0)" "ls_state st1 = hdr_state 0"
    unfolding w1_def using headers_loop_run [OF _ _ assms(2) _ assms(6) st0, of tab fuel w] a assms(4) by auto
  have l1: "load_locate_rsc env ops store (elf_ops al) st1 (NULL, pe_stack env, 0) rp w1 = Inr ((NULL, pe_stack env, 0), rp, w1)"
    using locate_none [of ei "0x10800"] a st1(1)
    by (simp add: load_locate_rsc_def elf_ops_def e0(2) elf_state_defs)
  let ?st1 = "st1\<lparr>ls_offset := 0, ls_len := 0\<rparr>"
  define w3 where "w3 = w1\<lparr>w_mem := mem_loaded iops bs rp (loadable segs 0) (w_mem w1)\<rparr>"
  obtain st3 where d: "load_data_loop fuel env ops store (elf_ops al) ?st1 rp w1 = Inr (None, st3, rp, w3)"
    and st3: "hs_info (ls_vars st3) = Some (ei\<lparr>ei_load_state := 0x40800 OR int ?n\<rparr>)"
    unfolding w3_def using data_loop_run [of ei segs rp env 0 ?st1 fuel ops al w1] a assms(3,4) st1 e0(1) by auto
  have "(0x40800 OR int ?n) AND ELF_STATE_HDRS_COMPLETE \<noteq> 0"
    using state_bits(9) [OF low_byte, of ?n] a by (simp add: elf_state_defs)
  then have l2: "load_locate_rsc env ops store (elf_ops al) st3 (NULL, pe_stack env, 0) rp w3 = Inr ((NULL, pe_stack env, 0), rp, w3)"
    using locate_none [of ei "0x40800 OR int ?n"] a st3 by (simp add: load_locate_rsc_def elf_ops_def)
  have g: "elf_get_entry (Some (ei\<lparr>ei_load_state := 0x40800 OR int ?n\<rparr>)) = Inr entry"
    using assms(5) by (simp add: elf_get_entry_def)
  have rel: "release_info (elf_ops al) (hs_info (ls_vars st3)) w3 =
      w\<lparr>w_mem := mem_loaded iops bs rp (loadable segs 0) (w_mem w)\<rparr>"
    using a st3 by (simp add: release_info_def elf_ops_def elf_release_def elf_image_def table_at_def w3_def w1_def)
  show ?thesis
    unfolding load_image_def Let_def v0_def [symmetric] st0_def [symmetric]
    using h l1 d l2 g rel st3 by (simp add: load_update_rsc_def elf_ops_def)
qed

end

lemma load_image_ready:
  assumes "image_store iops store bs n0" and "elf_fits iops bs ei tab segs rp" and "elf_get_entry (Some ei) = Inr entry"
    and "\<forall>n live. al n live" and "pe_io env = iops" and "loaders ELF_OPS = elf_ops al" and "length segs + 4 \<le> fuel"
    and "rp_lock_live rp" and "\<not> rp_lock rp" and "rp_state rp = RPROC_READY" and "rp_loader rp = NULL"
    and "length (ei_ehdr ei) \<le> n0"
  shows "remoteproc_load fuel env ops loaders (Some store) False (Some rp) w =
    Inr ((0, None), Some (rp\<lparr>rp_loader := ELF_OPS, rp_bootaddr := entry, rp_state := RPROC_READY\<rparr>),
      w\<lparr>w_mem := mem_loaded iops bs rp (loadable segs 0) (w_mem w)\<rparr>)"
proof -
  note i = image_store.opens [OF assms(1)] image_store.closes [OF assms(1)] image_store.image_size [OF assms(1)]
  let ?rp = "rp\<lparr>rp_lock := True, rp_loader := ELF_OPS\<rparr>" and ?w = "w\<lparr>w_open := w_open w + 1\<rparr>"
  have fits: "elf_fits iops bs ei tab segs ?rp" using assms(2) by (simp add: elf_fits_def seg_fits_mems [of ?rp rp])
  have ml: "mem_loaded iops bs ?rp = mem_loaded iops bs rp" by (rule mem_loaded_mems) simp
  have "4 \<le> length (ei_ehdr ei)" using assms(2) by (auto simp: elf_fits_def elf_image_def elf_size_defs Let_def split: if_splits)
  then have n: "4 \<le> n0" using assms(12) by simp
  have l: "n0 \<le> length bs" "unat (of_nat n0 :: u64) = n0"
    using image_store.first_size [OF assms(1)] i(3) unat_of_nat_64 [of n0] by auto
  then have n': "of_nat n0 \<noteq> (0 :: u64)" using n by (metis unat_0 not_numeral_le_zero)
  have id: "remoteproc_check_fw_format (Some (take n0 bs)) (of_nat n0) = Inr ELF_OPS"
    using assms(2) n n' l
    by (simp add: remoteproc_check_fw_format_def elf_identify_def sub_bytes_def SELFMAG_def elf_fits_def min_def)
  have "load_image fuel env ops store (elf_ops al) False (Some (take n0 bs)) (of_nat n0) ?rp ?w =
      Inr ((0, None), ?rp\<lparr>rp_bootaddr := entry, rp_state := RPROC_READY\<rparr>,
        w\<lparr>w_mem := mem_loaded iops bs rp (loadable segs 0) (w_mem w)\<rparr>)"
    using image_store.load_image_run [OF assms(1) fits assms(4,5,7,3,12), of ops ?w] i(2)
    by (simp add: store_close_def ml)
  then show ?thesis
    using assms(6,8-11) i(1) n id
    by (simp add: remoteproc_load_def rp_locked_def store_open_def Let_def ELF_OPS_def)
qed

text \<open>
  C4. Loading an ELF image without a resource table. The image has no section \<open>.resource_table\<close>, fewer than 256 program headers, the last of
  them loadable, and program header, section header and name tables that are not empty and lie inside the image, which is smaller than 2 GiB. For such an image, a processor that is ready, has no loader yet and registered regions
  in which all loadable segments fit, a store that can seek and hands out at least the file header when it is
  opened and further pieces when it is asked for them, and enough memory for the loader, \<open>remoteproc_load\<close> succeeds: every loadable segment is in its
  place in memory, the bytes of the file followed by zeros; the boot address is the entry point of
  the image, the ELF loader is set, the processor is ready, the mutex is free, the store is closed and all memory of the
  loader is released. Nothing else in the processor or in the world changes.
\<close>

theorem load_elf_image:
  assumes "image_store iops store bs n0" and "elf_fits iops bs ei tab segs rp" and "elf_get_entry (Some ei) = Inr entry"
    and "\<forall>n live. al n live" and "pe_io env = iops" and "loaders ELF_OPS = elf_ops al" and "length segs + 4 \<le> fuel"
    and "rp_lock_live rp" and "\<not> rp_lock rp" and "rp_state rp = RPROC_READY" and "rp_loader rp = NULL"
    and "length (ei_ehdr ei) \<le> n0"
  shows "remoteproc_load fuel env ops loaders (Some store) False (Some rp) w =
    Inr ((0, None), Some (rp\<lparr>rp_loader := ELF_OPS, rp_bootaddr := entry, rp_state := RPROC_READY\<rparr>),
      w\<lparr>w_mem := mem_loaded iops bs rp (loadable segs 0) (w_mem w)\<rparr>)"
  by (rule load_image_ready [where al = al and loaders = loaders, OF assms])

subsection \<open>A small image\<close>

text \<open>A file of at most 2 GiB that is read as a whole.\<close>

definition file_of :: "u8 list \<Rightarrow> mem_file" where
  "file_of bs = \<lparr>mf_fd = 3, mf_fstat = 0, mf_malloc = True, mf_st_size = int (length (take 0x7FFFFFFF bs)), mf_read = 0,
     mf_buf = take 0x7FFFFFFF bs\<rparr>"

interpretation whole_file: mem_image "file_of bs" "take 0x7FFFFFFF bs" for bs
  by unfold_locales (simp add: mem_file_holds_def file_of_def)

text \<open>
  A 32-bit image with one segment, four bytes for the device address \<open>0x1000\<close> that take up eight bytes of memory,
  and one section, the section names.
\<close>

definition small_ehdr :: "u8 list" where
  "small_ehdr = [0x7f, 0x45, 0x4c, 0x46, 1, 1, 1, 0, 0, 0, 0, 0, 0, 0, 0, 0, 2, 0, 40, 0, 1, 0, 0, 0, 4, 16, 0, 0, 52, 0, 0, 0,
     84, 0, 0, 0, 0, 0, 0, 0, 52, 0, 32, 0, 1, 0, 40, 0, 1, 0, 0, 0]"

definition small_phdrs :: "u8 list" where
  "small_phdrs = [1, 0, 0, 0, 128, 0, 0, 0, 0, 16, 0, 0, 0, 16, 0, 0, 4, 0, 0, 0, 8, 0, 0, 0, 7, 0, 0, 0, 4, 0, 0, 0]"

definition small_shdrs :: "u8 list" where
  "small_shdrs = [0, 0, 0, 0, 3, 0, 0, 0, 0, 0, 0, 0, 0, 0, 0, 0, 124, 0, 0, 0, 4, 0, 0, 0, 0, 0, 0, 0, 0, 0, 0, 0, 1, 0, 0, 0,
     0, 0, 0, 0]"

definition small_elf :: "u8 list" where
  "small_elf = small_ehdr @ small_phdrs @ small_shdrs @ [0x2e, 0x73, 0, 0] @ [1, 2, 3, 4]"

definition small_info :: elf_info where
  "small_info = \<lparr>ei_ehdr = small_ehdr, ei_load_state = 0x10800, ei_phdrs = Some small_phdrs, ei_shdrs = Some small_shdrs,
     ei_shstrtab = Some [0x2e, 0x73, 0, 0]\<rparr>"

definition small_tab :: "nat \<Rightarrow> u64 \<times> u64" where
  "small_tab k = (if k = 3 then (52, 32) else if k = 2 then (84, 40) else (124, 4))"

definition small_seg :: elf_segment where
  "small_seg = \<lparr>p_type = PT_LOAD, p_offset = 128, p_vaddr = 0x1000, p_paddr = 0x1000, p_filesz = 4, p_memsz = 8\<rparr>"

definition small_rp :: remoteproc where
  "small_rp = zero_remoteproc\<lparr>rp_lock_live := True, rp_state := RPROC_READY, rp_mems :=
     [\<lparr>rm_da = 0x1000, rm_pa = 0x9000, rm_size = 0x100, rm_name = [], rm_io = 1, rm_blocks = []\<rparr>]\<rparr>"

lemma small_lengths [simp]: "length small_ehdr = 52" "length small_phdrs = 32" "length small_shdrs = 40" "length small_elf = 132"
  by (simp_all add: small_ehdr_def small_phdrs_def small_shdrs_def small_elf_def)

lemma small_sel [simp]:
  "ei_ehdr small_info = small_ehdr" "ei_load_state small_info = 0x10800" "ei_phdrs small_info = Some small_phdrs"
  "ei_shdrs small_info = Some small_shdrs" "ei_shstrtab small_info = Some [0x2e, 0x73, 0, 0]"
  by (simp_all add: small_info_def)

lemma small_class [simp]: "elf_is_64 small_ehdr = Inr False"
  by (simp add: elf_is_64_def small_ehdr_def rd_def EI_CLASS_def ELFCLASS64_def)

lemma small_header [simp]:
  "elf_phoff small_info = Inr 52" "elf_phnum small_info = Inr 1" "elf_phentsize small_info = Inr 32"
  "elf_shoff small_info = Inr 84" "elf_shnum small_info = Inr 1" "elf_shentsize small_info = Inr 40"
  "elf_shstrndx small_info = Inr 0" "elf_get_entry (Some small_info) = Inr 0x1004"
  by (simp_all add: elf_phoff_def elf_phnum_def elf_phentsize_def elf_shoff_def elf_shnum_def elf_shentsize_def
      elf_shstrndx_def elf_get_entry_def fld_addr_def fld16_def fld32_def sub_bytes_def)
    (simp_all add: small_ehdr_def)

lemma small_image: "elf_image small_elf small_info small_tab"
proof -
  have c: "elf_is_64 small_elf = Inr False"
    by (simp add: elf_is_64_def small_elf_def small_ehdr_def rd_def EI_CLASS_def ELFCLASS64_def)
  have t: "elf_tables small_info 1 = Inr (124, 4)"
    by (simp add: elf_tables_def elf_get_section_from_index_def elf_parse_section_def fld32_def sub_bytes_def)
      (simp add: small_shdrs_def)
  show ?thesis
    using c t
    by (simp add: elf_image_def elf_tables_def table_at_def small_tab_def elf_size_defs)
      (auto simp: small_elf_def)
qed

lemma small_segments: "elf_segments small_info [small_seg]"
  by (simp add: elf_segments_def seg_hdr_def elf_get_segment_from_index_def elf_parse_segment_def)
    (simp add: small_phdrs_def fld32_def fld_addr_def sub_bytes_def small_seg_def PT_LOAD_def)

lemma small_va: "seg_va (flat_region 0x2000 0x9000 0x100) small_rp small_seg = 0x2000"
  by (simp add: seg_va_def remoteproc_get_mem_def small_rp_def small_seg_def zero_remoteproc_def METAL_BAD_PHYS_def
      remoteproc_datopa_def flat_region_def flat_io_def)

lemma small_bytes: "seg_bytes small_elf small_seg = [1, 2, 3, 4, 0, 0, 0, 0]"
proof -
  have "replicate 4 0 = [0, 0, 0, 0 :: u8]" by (simp add: numeral_eq_Suc)
  then show ?thesis by (simp add: seg_bytes_def small_seg_def small_elf_def)
qed

lemma small_loadable: "loadable [small_seg] 0 = [small_seg]"
  by (simp add: loadable_def small_seg_def upt_rec)

lemma small_fits: "elf_fits (flat_region 0x2000 0x9000 0x100) small_elf small_info small_tab [small_seg] small_rp"
proof -
  have "elf_get_section_from_name small_info RSC_TABLE_SECTION = Inr None"
    by (simp add: elf_get_section_from_name_def fld32_def sub_bytes_def RSC_TABLE_SECTION_def)
      (simp add: small_shdrs_def)
  moreover have "seg_fits (flat_region 0x2000 0x9000 0x100) small_elf small_rp small_seg"
    using flat.metal_region_axioms [where b = "0x2000" and p = "0x9000" and n = "0x100" and io = "1"]
    small_va by (auto simp: seg_fits_def small_seg_def small_rp_def)
  moreover have "take SELFMAG small_elf = ELFMAG" by (simp add: SELFMAG_def ELFMAG_def small_elf_def small_ehdr_def)
  moreover have "mems_ok (rp_mems small_rp)" by (simp add: mems_ok_def small_rp_def)
  ultimately show ?thesis
    using small_image small_segments by (simp add: elf_fits_def small_tab_def small_seg_def)
qed

lemma small_store: "image_store io (mem_image_store_ops io (file_of small_elf)) small_elf (length small_elf)"
  using whole_file.image_store_axioms [of io small_elf] by simp

lemma elf_next_segment_exact_witness:
  "elf_next_load_segment small_info 0 = Inr (Some (seg_hdr small_info 0), 1, Some small_seg) \<and>
   elf_next_load_segment small_info 1 = Inr (None, 1, None)"
  using elf_next_segment_exact [OF small_segments, of 0] elf_next_segment_exact [OF small_segments, of 1]
  by (simp add: upt_rec small_seg_def)

lemma load_elf_image_witness:
  "\<forall>ops. \<exists>m. remoteproc_load 5 (sample_env0\<lparr>pe_io := flat_region 0x2000 0x9000 0x100\<rparr>) ops (\<lambda>_. elf_ops (\<lambda>n live. True))
      (Some (mem_image_store_ops (flat_region 0x2000 0x9000 0x100) (file_of small_elf))) False (Some small_rp) sample_world =
    Inr ((0, None), Some (small_rp\<lparr>rp_loader := ELF_OPS, rp_bootaddr := 0x1004, rp_state := RPROC_READY\<rparr>),
      sample_world\<lparr>w_mem := m\<rparr>) \<and>
    rd_bytes m 0x2000 8 = [1, 2, 3, 4, 0, 0, 0, 0]"
proof
  fix ops
  let ?io = "flat_region 0x2000 0x9000 0x100"
  let ?m = "mem_loaded ?io small_elf small_rp (loadable [small_seg] 0) (w_mem sample_world)"
  have "remoteproc_load 5 (sample_env0\<lparr>pe_io := ?io\<rparr>) ops (\<lambda>_. elf_ops (\<lambda>n live. True))
      (Some (mem_image_store_ops ?io (file_of small_elf))) False (Some small_rp) sample_world =
    Inr ((0, None), Some (small_rp\<lparr>rp_loader := ELF_OPS, rp_bootaddr := 0x1004, rp_state := RPROC_READY\<rparr>),
      sample_world\<lparr>w_mem := ?m\<rparr>)"
    by (rule load_elf_image [OF small_store small_fits]) (simp_all add: small_rp_def zero_remoteproc_def)
  moreover have "rd_bytes ?m 0x2000 8 = [1, 2, 3, 4, 0, 0, 0, 0]"
    by (simp add: small_loadable mem_loaded_def small_va small_bytes rd_wr_same)
  ultimately show "\<exists>m. remoteproc_load 5 (sample_env0\<lparr>pe_io := ?io\<rparr>) ops (\<lambda>_. elf_ops (\<lambda>n live. True))
      (Some (mem_image_store_ops ?io (file_of small_elf))) False (Some small_rp) sample_world =
    Inr ((0, None), Some (small_rp\<lparr>rp_loader := ELF_OPS, rp_bootaddr := 0x1004, rp_state := RPROC_READY\<rparr>),
      sample_world\<lparr>w_mem := m\<rparr>) \<and> rd_bytes m 0x2000 8 = [1, 2, 3, 4, 0, 0, 0, 0]"
    by blast
qed

end
