(* ===== verification/Load_Fw_Props.thy ===== *)
theory Load_Fw_Props
  imports Load_Props
begin

text \<open>
  The program \<open>load_fw\<close> on its platforms: what becomes of an image that the loader accepts.
\<close>

text \<open>
  The RISC-V platform of \<open>load_fw\<close> sets no \<open>start\<close> operation. For an image that fits, the program loads
  all of it and then calls the operation through a NULL pointer; it never returns.
\<close>

theorem rv64_start_faults:
  assumes "image_store iops store bs n0" and "elf_fits iops bs ei tab segs rp" and "elf_get_entry (Some ei) = Inr entry"
    and "\<forall>n live. al n live" and "pe_io env = iops" and "loaders ELF_OPS = elf_ops al" and "length segs + 4 \<le> fuel"
    and "rp_lock_live rp" and "\<not> rp_lock rp" and "rp_state rp = RPROC_READY" and "rp_loader rp = NULL"
    and "length (ei_ehdr ei) \<le> n0"
  shows "load_exectuable_block fuel env (virt_rv64_rproc_ops env rv) loaders store (Some rp) w = Inl Null_deref"
proof -
  have "remoteproc_load fuel env (virt_rv64_rproc_ops env rv) loaders (Some store) False (Some rp) w =
    Inr ((0, None), Some (rp\<lparr>rp_loader := ELF_OPS, rp_bootaddr := entry, rp_state := RPROC_READY\<rparr>),
      w\<lparr>w_mem := mem_loaded iops bs rp (loadable segs 0) (w_mem w)\<rparr>)"
    by (rule load_image_ready [where al = al and loaders = loaders, OF assms])
  moreover have "remoteproc_config (virt_rv64_rproc_ops env rv) NULL (Some rp) w = Inr (- RPROC_EINVAL, Some rp, w)"
    using assms(8-10) by (simp add: remoteproc_config_def rp_locked_def)
  ultimately show ?thesis
    using assms(8-10)
    by (simp add: load_exectuable_block_def run_and_stop_def remoteproc_start_def rp_locked_def rp_check_ops_def
        virt_rv64_rproc_ops_def)
qed

lemma rv64_start_faults_witness:
  "\<forall>rv. load_exectuable_block 5 (sample_env0\<lparr>pe_io := flat_region 0x2000 0x9000 0x100\<rparr>)
      (virt_rv64_rproc_ops (sample_env0\<lparr>pe_io := flat_region 0x2000 0x9000 0x100\<rparr>) rv) (\<lambda>_. elf_ops (\<lambda>n live. True))
      (mem_image_store_ops (flat_region 0x2000 0x9000 0x100) (file_of small_elf)) (Some small_rp) sample_world =
    Inl Null_deref"
  by (intro allI rv64_start_faults [OF small_store small_fits]) (simp_all add: small_rp_def zero_remoteproc_def)

text \<open>
  The application processor of the ZynqMP. Its \<open>mmap\<close> registers the physical address that the caller gave,
  and the loader gives none: no segment without a registered region is ever loaded, whatever the
  outcome of the allocations.
\<close>

theorem apu_segment_rejected:
  assumes "rp_ops rp \<noteq> NULL"
    and "remoteproc_get_mem (pe_io env) rp None METAL_BAD_PHYS (ld_da (ls_vars st)) NULL (ld_nmemsize (ls_vars st)) = None"
  shows "\<exists>st' rp' w'. load_segment env (zynqmp_apu_rproc_ops env pm) store st rp w = Inr (Some (- RPROC_EINVAL), st', rp', w')"
proof -
  let ?da = "ld_da (ls_vars st)" and ?n = "ld_nmemsize (ls_vars st)"
  have "\<exists>va da' io' rp' w'. remoteproc_mmap (pe_io env) (zynqmp_apu_rproc_ops env pm) (Some rp) (Some METAL_BAD_PHYS) (Some ?da) ?n 0
      (Some (ls_io st)) w = Inr (va, Some METAL_BAD_PHYS, da', Some io', Some rp', w')"
    using assms
    by (auto simp: remoteproc_mmap_def zynqmp_apu_rproc_ops_def apu_rproc_mmap_def lcm_add_region_def alloc_block_def
        free_block_def Let_def split: option.split)
  then show ?thesis by (auto simp: load_segment_def Let_def)
qed

definition apu_st :: "elf_info load_st" where
  "apu_st = \<lparr>ls_img = None, ls_offset = 0, ls_len = 0, ls_state = 0x20801,
     ls_vars = \<lparr>hs_info = Some small_info, hs_noffset = 128, hs_nlen = 4, hs_live = 4,
       ld_da = 0x1000, ld_padding = Some 0, ld_nmemsize = 8\<rparr>,
     ls_io = NULL\<rparr>"

lemma apu_segment_rejected_witness:
  "\<exists>st' rp' w'. load_segment sample_env0 (zynqmp_apu_rproc_ops sample_env0 quiet_lcm)
      (mem_image_store_ops (pe_io sample_env0) (file_of small_elf)) apu_st
      (small_rp\<lparr>rp_ops := APU_RPROC_OPS, rp_mems := []\<rparr>) sample_world = Inr (Some (- RPROC_EINVAL), st', rp', w')"
  by (rule apu_segment_rejected) (simp_all add: APU_RPROC_OPS_def remoteproc_get_mem_def)

end
