(* ===== verification/Noblock_Props.thy ===== *)
theory Noblock_Props
  imports Load_Props
begin

text \<open>
  Loading piece by piece: \<open>remoteproc_load_noblock\<close> of \<open>lib/remoteproc/remoteproc.c\<close>, driven by the loop of
  \<open>load_exectuable_noblock\<close> in \<open>load_fw.c\<close> over an image store, does what \<open>remoteproc_load\<close> does; the
  decoding information of the loader is kept. A segment without bytes in the file ends the loop too early,
  and the region of a resource table in the image is not stored.
\<close>

subsection \<open>The loader\<close>

text \<open>When all segments are loaded the call for the headers has nothing to do.\<close>

lemma header_done:
  assumes "n < 256" and "hs_info hs = Some (ei\<lparr>ei_load_state := 0x20800 OR int n\<rparr>)"
  shows "elf_load_header al img off len (0x20800 OR int n) hs = Inr (0x20800 OR int n, hs)"
proof -
  note b = low_byte [OF assms(1)]
  have ne: "0x20800 OR int n \<noteq> c" if "c AND 0x20000 = 0" for c
    using state_bits(7) [OF b] that by (auto simp: elf_state_defs)
  have "(0x20800 OR int n) AND ELF_STATE_WAIT_FOR_SHDRS = 0" "(0x20800 OR int n) AND ELF_STATE_WAIT_FOR_SHSTRTAB = 0"
    using low_byte_and [OF b, of "0x200"] low_byte_and [OF b, of "0x400"]
    by (simp_all add: elf_state_defs bit.conj_disj_distrib2)
  moreover have "0x20800 OR int n \<noteq> ELF_STATE_INIT" "0x20800 OR int n \<noteq> ELF_STATE_WAIT_FOR_PHDRS"
    by (rule ne, simp add: elf_state_defs)+
  moreover have "hs\<lparr>hs_info := Some (ei\<lparr>ei_load_state := 0x20800 OR int n\<rparr>)\<rparr> = hs" using assms(2) by (cases hs) simp
  ultimately show ?thesis
    using assms(2)
    by (simp add: elf_load_header_def elf_ehdr_stage_def elf_phdrs_stage_def elf_shdrs_stage_def elf_shstrtab_stage_def)
qed

subsection \<open>One call\<close>

text \<open>The target of a fitting segment: where the store writes it, and what padding it does.\<close>

definition seg_target :: "io_ops \<Rightarrow> remoteproc \<Rightarrow> elf_segment \<Rightarrow> u64 \<Rightarrow> ptr \<Rightarrow> bool" where
  "seg_target iops rp s pa io \<longleftrightarrow>
     pa \<noteq> METAL_BAD_PHYS \<and> io \<noteq> NULL \<and> io_phys_to_virt iops io pa = seg_va iops rp s \<and>
     (p_filesz s < p_memsz s \<longrightarrow> (\<forall>mem.
        snd (io_block_set iops io (io_phys_to_offset iops io (pa + p_filesz s)) 0
               (int_of_size (p_memsz s - p_filesz s)) mem) =
        wr_bytes mem (seg_va iops rp s + of_nat (unat (p_filesz s)))
          (replicate (unat (p_memsz s) - unat (p_filesz s)) 0)))"

lemma segment_target:
  assumes "mems_ok (rp_mems rp)" and "seg_fits iops bs rp s"
  obtains pa io where "seg_target iops rp s pa io"
    and "\<And>io0 w. remoteproc_mmap iops ops (Some rp) (Some METAL_BAD_PHYS) (Some (p_vaddr s)) (p_memsz s) 0 (Some io0) w =
      Inr (seg_va iops rp s, Some pa, Some (p_vaddr s), Some io, Some rp, w)"
proof (rule segment_mapped [OF assms, of ops])
  fix m :: remoteproc_mem and base off pa
  assume r: "metal_region iops (rm_io m) base (rm_pa m) (unat (rm_size m))" "rm_io m \<noteq> NULL"
    and pa: "pa \<noteq> METAL_BAD_PHYS" "pa - rm_pa m = off" and sz: "unat off + unat (p_memsz s) \<le> unat (rm_size m)"
    and va: "io_phys_to_virt iops (rm_io m) pa = base + off" "seg_va iops rp s = base + off"
    and mm: "\<And>io w. remoteproc_mmap iops ops (Some rp) (Some METAL_BAD_PHYS) (Some (p_vaddr s)) (p_memsz s) 0 (Some io) w =
      Inr (base + off, Some pa, Some (p_vaddr s), Some (rm_io m), Some rp, w)"
  have "unat (p_memsz s) < 2 ^ 31" using assms(2) by (simp add: seg_fits_def)
  then have "seg_target iops rp s pa (rm_io m)"
    using segment_padded [OF r(1) pa(2) sz] r(2) pa(1) va by (simp add: seg_target_def)
  then show thesis using that mm va by simp
qed

text \<open>What a call asks for: the bytes of a segment, to be stored at its target.\<close>

definition nb_asks :: "io_ops \<Rightarrow> remoteproc \<Rightarrow> elf_segment \<Rightarrow> nb_out \<Rightarrow> bool" where
  "nb_asks iops rp s o' \<longleftrightarrow> seg_target iops rp s (no_pa o') (no_io o') \<and> no_noffset o' = p_offset s \<and>
     no_nlen o' = p_filesz s \<and> no_nmlen o' = p_memsz s \<and> no_padding o' = 0"

lemma nb_data_segment:
  assumes "elf_segments ei segs" and "length segs < 256" and "mems_ok (rp_mems rp)" and "pe_io env = iops"
    and "i \<le> length segs" and j: "find (\<lambda>j. p_type (segs ! j) = PT_LOAD) [i..<length segs] = Some j"
    and fits: "seg_fits iops bs rp (segs ! j)"
  shows "\<exists>o''. nb_data env ops (elf_ops al) img off len (0x10800 OR int i) (Some (ei\<lparr>ei_load_state := 0x10800 OR int i\<rparr>)) o' rp w =
      Inr (if p_filesz (segs ! j) \<noteq> 0 then Nb_out else Nb_go, seg_state (length segs) j,
        Some (ei\<lparr>ei_load_state := seg_state (length segs) j\<rparr>), o'', rp, w) \<and>
    nb_asks iops rp (segs ! j) o''"
proof -
  let ?ei = "ei\<lparr>ei_load_state := 0x10800 OR int i\<rparr>"
  let ?v = "nb_vars o' (Some ?ei) RPROC_LOAD_ANYADDR (w_loader w)"
  have v: "hs_info ?v = Some ?ei" "ld_padding ?v = Some (no_padding o')" "hs_live ?v = w_loader w" by (simp_all add: nb_vars_def)
  note ld = elf_load_next [OF assms(1,2,5) j v(1,2)]
  have b: "int i AND 255 = int i" by (rule low_byte) (use assms(2,5) in simp)
  have pos: "0 \<le> seg_state (length segs) j" by (simp add: seg_state_def)
  have da: "p_vaddr (segs ! j) \<noteq> RPROC_LOAD_ANYADDR" by (rule seg_da_given [OF assms(3) fits])
  obtain pa io where t: "seg_target iops rp (segs ! j) pa io"
    and mm: "\<And>io0 w. remoteproc_mmap iops ops (Some rp) (Some METAL_BAD_PHYS) (Some (p_vaddr (segs ! j)))
      (p_memsz (segs ! j)) 0 (Some io0) w =
      Inr (seg_va iops rp (segs ! j), Some pa, Some (p_vaddr (segs ! j)), Some io, Some rp, w)"
    using segment_target [OF assms(3) fits, of ops] by blast
  have "pa \<noteq> METAL_BAD_PHYS" using t by (simp add: seg_target_def)
  then show ?thesis
    using ld pos da t mm v assms(4) state_bits(3) [OF b]
    by (simp add: nb_data_def elf_ops_def Let_def nb_store_def nb_asks_def elf_state_defs)
qed

text \<open>A processor that a piece can be loaded into.\<close>

definition nb_ready :: "remoteproc \<Rightarrow> bool" where
  "nb_ready rp \<longleftrightarrow> rp_lock_live rp \<and> \<not> rp_lock rp \<and> rp_state rp = RPROC_READY"

lemma seg_state_bits:
  assumes "Suc j < 256"
  shows "seg_state n j AND RPROC_LOADER_LOAD_COMPLETE = 0" and "0 \<le> seg_state n j"
  using low_byte_and [OF low_byte [OF assms], of "0x40000"]
  by (simp_all add: seg_state_def elf_state_defs bit.conj_disj_distrib2)

lemma nb_complete_not_yet:
  "lst AND RPROC_LOADER_LOAD_COMPLETE = 0 \<Longrightarrow> nb_complete env ops ld lst info o' rp w = Inr (Nb_out, o', rp, w)"
  by (simp add: nb_complete_def)

lemma nb_select_next:
  assumes "loaders ELF_OPS = elf_ops al" and "nb_ready rp" and "rp_loader rp = ELF_OPS" and "0 \<le> ei_load_state ei"
  shows "nb_select loaders img off len (Some (Some ei)) (rp\<lparr>rp_lock := True\<rparr>) =
    Inr (Inr (ELF_OPS, Some ei, ei_load_state ei), rp\<lparr>rp_lock := True\<rparr>)"
proof -
  have "rp\<lparr>rp_lock := True, rp_loader := ELF_OPS\<rparr> = rp\<lparr>rp_lock := True\<rparr>" using assms(3) by (cases rp) simp
  then show ?thesis
    using assms by (simp add: nb_select_def nb_ready_def ELF_OPS_def elf_ops_def elf_get_load_state_def Let_def)
qed

lemma rp_unlocked: "nb_ready rp \<Longrightarrow> rp\<lparr>rp_lock := False\<rparr> = rp"
  by (cases rp) (simp add: nb_ready_def)

text \<open>The fields of a processor that decide where a segment goes.\<close>

lemma nb_asks_mems: "rp_mems rp' = rp_mems rp \<Longrightarrow> nb_asks iops rp' s o' = nb_asks iops rp s o'"
  by (simp add: nb_asks_def seg_target_def seg_va_mems [of rp' rp])

text \<open>The first call, on the whole image: the headers are decoded and the first segment is asked for.\<close>

lemma noblock_first:
  assumes "elf_fits iops bs ei tab segs rp" and "\<forall>n live. al n live" and "pe_io env = iops" and "loaders ELF_OPS = elf_ops al"
    and "nb_ready rp" and "rp_loader rp = NULL"
    and j: "find (\<lambda>j. p_type (segs ! j) = PT_LOAD) [0..<length segs] = Some j"
  shows "\<exists>o''. remoteproc_load_noblock env ops loaders (Some bs) 0 (of_nat (length bs)) (Some None) (Some o0) (Some rp) w =
      Inr ((0, Some (Some (ei\<lparr>ei_load_state := seg_state (length segs) j\<rparr>)), Some o''), Some (rp\<lparr>rp_loader := ELF_OPS\<rparr>),
        w\<lparr>w_loader := w_loader w + 4\<rparr>) \<and> nb_asks iops rp (segs ! j) o''"
proof -
  note a = assms(1) [unfolded elf_fits_def]
  let ?rp = "rp\<lparr>rp_lock := True, rp_loader := ELF_OPS\<rparr>" and ?len = "of_nat (length bs) :: u64"
  let ?w = "w\<lparr>w_loader := w_loader w + 4\<rparr>" and ?s = "segs ! j"
  have im: "elf_image bs ei tab" using a by blast
  have n: "4 \<le> length bs" "length bs < 2 ^ 31"
    using im by (auto simp: elf_image_def elf_size_defs Let_def split: if_splits)
  have len: "unat ?len = length bs" using n(2) by (simp add: unat_of_nat_64)
  then have win: "window bs 0 ?len (Some bs)" by (simp add: window_def)
  have len0: "?len \<noteq> 0" using n(1) len by (metis unat_0 not_numeral_le_zero)
  have sel: "nb_select loaders (Some bs) 0 ?len (Some None) (rp\<lparr>rp_lock := True\<rparr>) = Inr (Inr (ELF_OPS, None, 0), ?rp)"
    using a assms(5,6) len len0 n(1)
    by (simp add: nb_select_def nb_ready_def remoteproc_check_fw_format_def elf_identify_def sub_bytes_def SELFMAG_def ELF_OPS_def)
  let ?v = "nb_vars (o0\<lparr>no_nlen := 0\<rparr>) None RPROC_LOAD_ANYADDR (w_loader w)"
  have h: "nb_headers (elf_ops al) (Some bs) 0 ?len 0 None (o0\<lparr>no_nlen := 0\<rparr>) w =
      Inr (Nb_go, hdr_state 0, Some (elf_at ei 0), o0\<lparr>no_nlen := 0\<rparr>, ?w)"
    using header_whole [OF im assms(2) win len, of ?v]
    by (simp add: nb_headers_def elf_ops_def elf_state_defs nb_vars_def nb_store_def Let_def)
  have j': "j < length segs" "p_type ?s = PT_LOAD" using j by (auto simp: find_Some_iff)
  have fits: "seg_fits iops bs ?rp ?s" using a j' by (simp add: seg_fits_mems [of ?rp rp])
  have e0: "elf_at ei 0 = ei\<lparr>ei_load_state := 0x10800 OR int 0\<rparr>"
    using im by (cases ei) (simp add: elf_at_def elf_image_def)
  obtain o'' where d: "nb_data env ops (elf_ops al) (Some bs) 0 ?len (hdr_state 0) (Some (elf_at ei 0)) (o0\<lparr>no_nlen := 0\<rparr>) ?rp ?w =
      Inr (if p_filesz ?s \<noteq> 0 then Nb_out else Nb_go, seg_state (length segs) j,
        Some (ei\<lparr>ei_load_state := seg_state (length segs) j\<rparr>), o'', ?rp, ?w)" and o: "nb_asks iops ?rp ?s o''"
    using nb_data_segment [of ei segs ?rp env iops 0 j bs ops al "Some bs" 0 ?len "o0\<lparr>no_nlen := 0\<rparr>" ?w] a assms(3) j fits
    by (auto simp: e0)
  have sb: "Suc j < 256" using j' a by simp
  show ?thesis
    using assms(4,5) rp_unlocked [OF assms(5)] sel h d o
    by (intro exI [of _ o'']) (simp add: remoteproc_load_noblock_def rp_locked_def nb_ready_def nb_asks_mems [of ?rp rp] Let_def
      nb_complete_not_yet [OF seg_state_bits(1) [OF sb]])
qed

text \<open>A call between two segments.\<close>

lemma noblock_next:
  assumes "elf_segments ei segs" and "length segs < 256" and "mems_ok (rp_mems rp)" and "pe_io env = iops"
    and "loaders ELF_OPS = elf_ops al" and "nb_ready rp" and "rp_loader rp = ELF_OPS"
    and "i \<le> length segs" and j: "find (\<lambda>j. p_type (segs ! j) = PT_LOAD) [i..<length segs] = Some j"
    and fits: "seg_fits iops bs rp (segs ! j)"
  shows "\<exists>o''. remoteproc_load_noblock env ops loaders img off len (Some (Some (ei\<lparr>ei_load_state := 0x10800 OR int i\<rparr>)))
        (Some o0) (Some rp) w =
      Inr ((0, Some (Some (ei\<lparr>ei_load_state := seg_state (length segs) j\<rparr>)), Some o''), Some rp, w) \<and>
    nb_asks iops rp (segs ! j) o''"
proof -
  let ?rp = "rp\<lparr>rp_lock := True\<rparr>" and ?s = "segs ! j" and ?ei = "ei\<lparr>ei_load_state := 0x10800 OR int i\<rparr>"
  have b: "int i AND 255 = int i" by (rule low_byte) (use assms(2,8) in simp)
  have sel: "nb_select loaders img off len (Some (Some ?ei)) ?rp = Inr (Inr (ELF_OPS, Some ?ei, 0x10800 OR int i), ?rp)"
    using nb_select_next [where loaders = loaders, OF assms(5-7), of ?ei] by simp
  have h: "nb_headers (elf_ops al) img off len (0x10800 OR int i) (Some ?ei) (o0\<lparr>no_nlen := 0\<rparr>) w =
      Inr (Nb_go, 0x10800 OR int i, Some ?ei, o0\<lparr>no_nlen := 0\<rparr>, w)"
    using state_bits(3) [OF b] by (simp add: nb_headers_def elf_state_defs)
  have fits': "seg_fits iops bs ?rp ?s" using fits by (simp add: seg_fits_mems [of ?rp rp])
  obtain o'' where d: "nb_data env ops (elf_ops al) img off len (0x10800 OR int i) (Some ?ei) (o0\<lparr>no_nlen := 0\<rparr>) ?rp w =
      Inr (if p_filesz ?s \<noteq> 0 then Nb_out else Nb_go, seg_state (length segs) j,
        Some (ei\<lparr>ei_load_state := seg_state (length segs) j\<rparr>), o'', ?rp, w)" and o: "nb_asks iops ?rp ?s o''"
    using nb_data_segment [of ei segs ?rp env iops i j bs ops al img off len "o0\<lparr>no_nlen := 0\<rparr>" w] assms(1-4,8) j fits' by auto
  have "j < length segs" using j by (auto simp: find_Some_iff)
  then have sb: "Suc j < 256" using assms(2) by simp
  show ?thesis
    using assms(5,6) rp_unlocked [OF assms(6)] sel h d o
    by (intro exI [of _ o'']) (simp add: remoteproc_load_noblock_def rp_locked_def nb_ready_def nb_asks_mems [of ?rp rp] Let_def
      nb_complete_not_yet [OF seg_state_bits(1) [OF sb]])
qed

text \<open>The last call sets the boot address and asks for nothing.\<close>

lemma noblock_end:
  assumes "n < 256" and "elf_get_section_from_name ei RSC_TABLE_SECTION = Inr None" and "elf_get_entry (Some ei) = Inr entry"
    and "loaders ELF_OPS = elf_ops al" and "nb_ready rp" and "rp_loader rp = ELF_OPS"
  shows "\<exists>info o''. remoteproc_load_noblock env ops loaders img off len (Some (Some (ei\<lparr>ei_load_state := 0x20800 OR int n\<rparr>)))
        (Some o0) (Some rp) w = Inr ((0, info, Some o''), Some (rp\<lparr>rp_bootaddr := entry\<rparr>), w) \<and> no_nlen o'' = 0"
proof -
  let ?rp = "rp\<lparr>rp_lock := True\<rparr>" and ?ei = "ei\<lparr>ei_load_state := 0x20800 OR int n\<rparr>"
  let ?ei' = "ei\<lparr>ei_load_state := 0x40800 OR int n\<rparr>"
  note b = low_byte [OF assms(1)]
  have bits: "(0x20800 OR int n) AND RPROC_LOADER_LOAD_COMPLETE = 0" "(0x40800 OR int n) AND RPROC_LOADER_LOAD_COMPLETE \<noteq> 0"
    using low_byte_and [OF b, of "0x40000"] by (simp_all add: elf_state_defs bit.conj_disj_distrib2)
  have sel: "nb_select loaders img off len (Some (Some ?ei)) ?rp = Inr (Inr (ELF_OPS, Some ?ei, 0x20800 OR int n), ?rp)"
    using nb_select_next [where loaders = loaders, OF assms(4-6), of ?ei] by simp
  have h: "\<exists>o1. nb_headers (elf_ops al) img off len (0x20800 OR int n) (Some ?ei) (o0\<lparr>no_nlen := 0\<rparr>) w =
      Inr (Nb_go, 0x20800 OR int n, Some ?ei, o1, w) \<and> no_nlen o1 = 0"
    using header_done [OF assms(1), of "nb_vars (o0\<lparr>no_nlen := 0\<rparr>) (Some ?ei) RPROC_LOAD_ANYADDR (w_loader w)" ei al img off len]
      state_bits(6) [OF b] bits(1)
    by (simp add: nb_headers_def elf_ops_def nb_vars_def nb_store_def Let_def)
  have d: "\<exists>o2. nb_data env ops (elf_ops al) img off len (0x20800 OR int n) (Some ?ei) o1 ?rp w =
      Inr (Nb_go, 0x40800 OR int n, Some ?ei', o2, ?rp, w) \<and> no_nlen o2 = 0" for o1
    using elf_load_end [OF assms(1), of "nb_vars o1 (Some ?ei) RPROC_LOAD_ANYADDR (w_loader w)" ei _ al img off len] state_bits(7) [OF b]
    by (simp add: nb_data_def elf_ops_def nb_vars_def nb_store_def Let_def elf_state_defs)
  have hc: "(0x40800 OR int n) AND ELF_STATE_HDRS_COMPLETE \<noteq> 0" using state_bits(9) [OF b] by (simp add: elf_state_defs)
  have "elf_get_entry (Some ?ei') = Inr entry" using assms(3) by (simp add: elf_get_entry_def)
  then have c: "nb_complete env ops (elf_ops al) (0x40800 OR int n) (Some ?ei') o2 ?rp w = Inr (Nb_out, o2, ?rp\<lparr>rp_bootaddr := entry\<rparr>, w)" for o2
    using locate_none [OF assms(2) hc] bits(2) by (simp add: nb_complete_def elf_ops_def)
  obtain o1 where h1: "nb_headers (elf_ops al) img off len (0x20800 OR int n) (Some ?ei) (o0\<lparr>no_nlen := 0\<rparr>) w =
      Inr (Nb_go, 0x20800 OR int n, Some ?ei, o1, w)" using h by blast
  obtain o2 where d2: "nb_data env ops (elf_ops al) img off len (0x20800 OR int n) (Some ?ei) o1 ?rp w =
      Inr (Nb_go, 0x40800 OR int n, Some ?ei', o2, ?rp, w)" "no_nlen o2 = 0" using d by blast
  show ?thesis
    using assms(4,5) rp_unlocked [OF assms(5)] sel h1 d2 c by (simp add: remoteproc_load_noblock_def rp_locked_def nb_ready_def Let_def)
qed

subsection \<open>The loop of load-fw\<close>

context image_store
begin

text \<open>A round in which a segment is asked for stores it and goes on.\<close>

lemma noblock_round:
  assumes "pe_io env = iops"
    and "remoteproc_load_noblock env ops loaders img off len (Some info)
      (Some (o0\<lparr>no_nlen := 0, no_pa := METAL_BAD_PHYS, no_io := NULL, no_nmlen := 0\<rparr>)) rproc w =
      Inr ((0, Some info', Some o'), rproc', w1)"
    and "nb_asks iops rp s o'" and fits: "seg_fits iops bs rp s" and "p_filesz s \<noteq> 0"
  shows "noblock_loop (Suc f) env ops loaders store img off len info o0 rproc w =
    noblock_loop f env ops loaders store img (p_offset s) (p_filesz s) info' o' rproc'
      (w1\<lparr>w_mem := wr_bytes (w_mem w1) (seg_va iops rp s) (seg_bytes bs s)\<rparr>)"
proof -
  note o = assms(3) [unfolded nb_asks_def seg_target_def]
  have s: "unat (p_offset s) + unat (p_filesz s) \<le> length bs" "unat (p_filesz s) \<le> unat (p_memsz s)"
      "unat (p_memsz s) < 2 ^ 31" "seg_va iops rp s \<noteq> NULL"
    using fits unfolding seg_fits_def by blast+
  let ?n = "unat (p_filesz s)" and ?k = "unat (p_memsz s) - unat (p_filesz s)" and ?va = "seg_va iops rp s"
  let ?data = "take ?n (drop (unat (p_offset s)) bs)"
  have load: "so_load store (p_offset s) (p_filesz s) img (no_pa o') (no_io o') w1 =
      Inr (int_of_size (p_filesz s), img, w1\<lparr>w_mem := wr_bytes (w_mem w1) ?va ?data\<rparr>)"
    using load_to [of "no_pa o'" "no_io o'" "p_offset s" "p_filesz s" img w1] o s
    by (simp add: RPROC_LOAD_ANYADDR_def METAL_BAD_PHYS_def)
  note mem = segment_stored [OF fits, of "w_mem w1" ?va]
  show ?thesis
    unfolding mem [symmetric] using assms(1,2,5) o load
    by (cases "p_filesz s < p_memsz s") (simp_all add: Let_def)
qed

text \<open>The rounds after the segment \<open>j\<close>.\<close>

lemma noblock_rest:
  assumes "elf_segments ei segs" and "length segs < 256" and "segs \<noteq> []" and "p_type (last segs) = PT_LOAD"
    and "mems_ok (rp_mems rp)" and "pe_io env = iops" and "loaders ELF_OPS = elf_ops al"
    and "\<forall>s \<in> set segs. p_type s = PT_LOAD \<longrightarrow> seg_fits iops bs rp s \<and> p_filesz s \<noteq> 0"
    and "elf_get_section_from_name ei RSC_TABLE_SECTION = Inr None" and "elf_get_entry (Some ei) = Inr entry"
    and "nb_ready rp" and "rp_loader rp = ELF_OPS"
  shows "j < length segs \<Longrightarrow> length segs - j \<le> fuel \<Longrightarrow>
    noblock_loop fuel env ops loaders store img off len (Some (ei\<lparr>ei_load_state := seg_state (length segs) j\<rparr>)) o0 (Some rp) w =
      Inr (None, Some (rp\<lparr>rp_bootaddr := entry\<rparr>), w\<lparr>w_mem := mem_loaded iops bs rp (loadable segs (Suc j)) (w_mem w)\<rparr>)"
proof (induction "length segs - j" arbitrary: j off len o0 w fuel rule: less_induct)
  case less
  let ?P = "\<lambda>j. p_type (segs ! j) = PT_LOAD" and ?n = "length segs"
  let ?o = "o0\<lparr>no_nlen := 0, no_pa := METAL_BAD_PHYS, no_io := NULL, no_nmlen := 0\<rparr>"
  obtain f where f: "fuel = Suc f" "?n - Suc j \<le> f" using less.prems by (cases fuel) auto
  show ?case
  proof (cases "Suc j = ?n")
    case True
    have "loadable segs (Suc j) = []" "seg_state ?n j = 0x20800 OR int ?n"
      using True by (simp_all add: loadable_def seg_state_def del: of_nat_Suc)
    then show ?thesis
      using noblock_end [where loaders = loaders, OF assms(2,9,10,7,11,12), of env ops img off len ?o w]
      by (auto simp: f mem_loaded_def)
  next
    case False
    then have sj: "Suc j < ?n" using less.prems by simp
    have "?P (?n - 1)" using assms(3,4) by (simp add: last_conv_nth)
    then obtain k where k: "find ?P [Suc j..<?n] = Some k" using sj by (cases "find ?P [Suc j..<?n]") (auto simp: find_None_iff)
    note fk = find_upt_filter [OF k]
    have fits: "seg_fits iops bs rp (segs ! k)" "p_filesz (segs ! k) \<noteq> 0" using assms(8) fk by auto
    have st: "seg_state ?n j = 0x10800 OR int (Suc j)" using False by (simp add: seg_state_def)
    obtain o' where call: "remoteproc_load_noblock env ops loaders img off len
          (Some (Some (ei\<lparr>ei_load_state := seg_state ?n j\<rparr>))) (Some ?o) (Some rp) w =
        Inr ((0, Some (Some (ei\<lparr>ei_load_state := seg_state ?n k\<rparr>)), Some o'), Some rp, w)" and o': "nb_asks iops rp (segs ! k) o'"
      unfolding st
      using noblock_next [where loaders = loaders and img = img and off = off and len = len and ops = ops and w = w,
          OF assms(1,2,5,6,7,11,12) less_imp_le [OF sj] k fits(1)] by blast
    let ?w = "w\<lparr>w_mem := wr_bytes (w_mem w) (seg_va iops rp (segs ! k)) (seg_bytes bs (segs ! k))\<rparr>"
    have "?n - k < ?n - j" "?n - k \<le> f" "k < ?n" using fk sj f(2) by linarith+
    then have "noblock_loop f env ops loaders store img (p_offset (segs ! k)) (p_filesz (segs ! k))
        (Some (ei\<lparr>ei_load_state := seg_state ?n k\<rparr>)) o' (Some rp) ?w =
      Inr (None, Some (rp\<lparr>rp_bootaddr := entry\<rparr>), ?w\<lparr>w_mem := mem_loaded iops bs rp (loadable segs (Suc k)) (w_mem ?w)\<rparr>)"
      by (intro less.hyps)
    moreover have "mem_loaded iops bs rp (loadable segs (Suc j)) (w_mem w) = mem_loaded iops bs rp (loadable segs (Suc k)) (w_mem ?w)"
      using fk by (simp add: mem_loaded_def loadable_def)
    ultimately show ?thesis
      using noblock_round [OF assms(6) call o' fits, of f] by (simp add: f)
  qed
qed

end

lemma noblock_run:
  assumes "image_store iops store bs (length bs)" and "elf_fits iops bs ei tab segs rp" and "elf_get_entry (Some ei) = Inr entry"
    and "\<forall>s \<in> set segs. p_type s = PT_LOAD \<longrightarrow> p_filesz s \<noteq> 0"
    and "\<forall>n live. al n live" and "pe_io env = iops" and "loaders ELF_OPS = elf_ops al" and "Suc (length segs) \<le> fuel"
    and "nb_ready rp" and "rp_loader rp = NULL"
  shows "noblock_loop fuel env ops loaders store (Some bs) 0 (of_nat (length bs)) None o0 (Some rp) w =
    Inr (None, Some (rp\<lparr>rp_loader := ELF_OPS, rp_bootaddr := entry\<rparr>),
      w\<lparr>w_loader := w_loader w + 4, w_mem := mem_loaded iops bs rp (loadable segs 0) (w_mem w)\<rparr>)"
proof -
  note a = assms(2) [unfolded elf_fits_def]
  let ?P = "\<lambda>j. p_type (segs ! j) = PT_LOAD" and ?n = "length segs" and ?rp = "rp\<lparr>rp_loader := ELF_OPS\<rparr>"
  obtain f where f: "fuel = Suc f" "?n \<le> f" using assms(8) by (cases fuel) auto
  have "?P (?n - 1)" "0 < ?n" using a by (auto simp: last_conv_nth)
  then obtain j where j: "find ?P [0..<?n] = Some j" by (cases "find ?P [0..<?n]") (auto simp: find_None_iff)
  note fj = find_upt_filter [OF j]
  have fits: "seg_fits iops bs rp (segs ! j)" "p_filesz (segs ! j) \<noteq> 0" using a assms(4) fj by auto
  have all: "\<forall>s \<in> set segs. p_type s = PT_LOAD \<longrightarrow> seg_fits iops bs ?rp s \<and> p_filesz s \<noteq> 0"
    using a assms(4) by (simp add: seg_fits_mems [of ?rp rp])
  obtain o' where call: "remoteproc_load_noblock env ops loaders (Some bs) 0 (of_nat (length bs)) (Some None)
        (Some (o0\<lparr>no_nlen := 0, no_pa := METAL_BAD_PHYS, no_io := NULL, no_nmlen := 0\<rparr>)) (Some rp) w =
      Inr ((0, Some (Some (ei\<lparr>ei_load_state := seg_state ?n j\<rparr>)), Some o'), Some ?rp, w\<lparr>w_loader := w_loader w + 4\<rparr>)"
    and o': "nb_asks iops rp (segs ! j) o'"
    using noblock_first [where loaders = loaders and ops = ops and w = w, OF assms(2,5,6,7,9,10) j] by blast
  let ?w = "w\<lparr>w_loader := w_loader w + 4, w_mem := wr_bytes (w_mem w) (seg_va iops rp (segs ! j)) (seg_bytes bs (segs ! j))\<rparr>"
  have "noblock_loop f env ops loaders store (Some bs) (p_offset (segs ! j)) (p_filesz (segs ! j))
        (Some (ei\<lparr>ei_load_state := seg_state ?n j\<rparr>)) o' (Some ?rp) ?w =
      Inr (None, Some (?rp\<lparr>rp_bootaddr := entry\<rparr>), ?w\<lparr>w_mem := mem_loaded iops bs ?rp (loadable segs (Suc j)) (w_mem ?w)\<rparr>)"
    by (rule image_store.noblock_rest [where al = al, OF assms(1)])
      (use a all assms(3,6,7,9) fj f(2) in \<open>simp_all add: nb_ready_def\<close>)
  moreover have "mem_loaded iops bs rp (loadable segs 0) (w_mem w) = mem_loaded iops bs rp (loadable segs (Suc j)) (w_mem ?w)"
    using fj by (simp add: mem_loaded_def loadable_def)
  ultimately show ?thesis
    using image_store.noblock_round [OF assms(1,6) call o' fits, of f]
    by (simp add: f mem_loaded_mems [of ?rp rp])
qed

text \<open>
  C5. Loading piece by piece. Take an ELF image without a resource table (no section \<open>.resource_table\<close>), with fewer than 256 program
  headers, the last of them loadable, with tables that are not empty and lie inside the image, whose loadable segments lie in the registered regions
  of the processor and all have bytes in the file. Over a store that hands out the whole image, and for a ready processor without a loader,
  the loop of \<open>load_fw\<close> around \<open>remoteproc_load_noblock\<close> ends and leaves the processor
  and the memory that \<open>remoteproc_load\<close> leaves: every segment in its place, padded with zeros, the boot
  address the entry point of the image, and the mutex free. The one difference is the decoding
  information, whose four blocks stay with the caller. With a resource table the two differ (\<open>noblock_keeps_rsc_io\<close>, \<open>load_sets_rsc_io\<close>).
\<close>

theorem noblock_load_agrees:
  assumes "image_store iops store bs (length bs)" and "elf_fits iops bs ei tab segs rp" and "elf_get_entry (Some ei) = Inr entry"
    and "\<forall>s \<in> set segs. p_type s = PT_LOAD \<longrightarrow> p_filesz s \<noteq> 0"
    and "\<forall>n live. al n live" and "pe_io env = iops" and "loaders ELF_OPS = elf_ops al" and "length segs + 4 \<le> fuel"
    and "nb_ready rp" and "rp_loader rp = NULL"
  shows "\<exists>rp' w'. remoteproc_load fuel env ops loaders (Some store) False (Some rp) w = Inr ((0, None), Some rp', w') \<and>
    noblock_loop fuel env ops loaders store (Some bs) 0 (of_nat (length bs)) None o0 (Some rp) w =
      Inr (None, Some rp', w'\<lparr>w_loader := w_loader w + 4\<rparr>) \<and>
    rp_bootaddr rp' = entry \<and> \<not> rp_lock rp' \<and> w_mem w' = mem_loaded iops bs rp (loadable segs 0) (w_mem w)"
proof -
  let ?rp = "rp\<lparr>rp_loader := ELF_OPS, rp_bootaddr := entry\<rparr>" and ?w = "w\<lparr>w_mem := mem_loaded iops bs rp (loadable segs 0) (w_mem w)\<rparr>"
  note r = assms(9) [unfolded nb_ready_def]
  have eh: "length (ei_ehdr ei) \<le> length bs" using assms(2) by (auto simp: elf_fits_def elf_image_def Let_def)
  have "rp\<lparr>rp_loader := ELF_OPS, rp_bootaddr := entry, rp_state := RPROC_READY\<rparr> = ?rp" using r by (cases rp) simp
  then have "remoteproc_load fuel env ops loaders (Some store) False (Some rp) w = Inr ((0, None), Some ?rp, ?w)"
    using load_image_ready [where al = al and loaders = loaders, OF assms(1-3,5-8), of ops w] r eh assms(10) by simp
  moreover have "noblock_loop fuel env ops loaders store (Some bs) 0 (of_nat (length bs)) None o0 (Some rp) w =
      Inr (None, Some ?rp, ?w\<lparr>w_loader := w_loader w + 4\<rparr>)"
    using noblock_run [where al = al and loaders = loaders, OF assms(1-7) _ assms(9,10), of fuel ops o0 w] assms(8) by simp
  ultimately show ?thesis using r by (intro exI [of _ ?rp] exI [of _ ?w]) simp
qed

lemma noblock_load_agrees_witness:
  "\<forall>ops o0. \<exists>rp' w'. noblock_loop 5 (sample_env0\<lparr>pe_io := flat_region 0x2000 0x9000 0x100\<rparr>) ops (\<lambda>_. elf_ops (\<lambda>n live. True))
      (mem_image_store_ops (flat_region 0x2000 0x9000 0x100) (file_of small_elf)) (Some small_elf) 0 132 None o0 (Some small_rp)
      sample_world = Inr (None, Some rp', w') \<and> rp_bootaddr rp' = 0x1004 \<and> rd_bytes (w_mem w') 0x2000 8 = [1, 2, 3, 4, 0, 0, 0, 0]"
proof (intro allI)
  fix ops o0
  let ?io = "flat_region 0x2000 0x9000 0x100" and ?l = "\<lambda>_. elf_ops (\<lambda>n live. True)"
  let ?env = "sample_env0\<lparr>pe_io := ?io\<rparr>" and ?st = "mem_image_store_ops ?io (file_of small_elf)"
  have "\<exists>rp' w'. remoteproc_load 5 ?env ops ?l (Some ?st) False (Some small_rp) sample_world = Inr ((0, None), Some rp', w') \<and>
    noblock_loop 5 ?env ops ?l ?st (Some small_elf) 0 (of_nat (length small_elf)) None o0 (Some small_rp) sample_world =
      Inr (None, Some rp', w'\<lparr>w_loader := w_loader sample_world + 4\<rparr>) \<and>
    rp_bootaddr rp' = 0x1004 \<and> \<not> rp_lock rp' \<and>
    w_mem w' = mem_loaded ?io small_elf small_rp (loadable [small_seg] 0) (w_mem sample_world)"
    by (rule noblock_load_agrees [OF small_store small_fits])
      (simp_all add: small_rp_def zero_remoteproc_def small_seg_def nb_ready_def)
  then show "\<exists>rp' w'. noblock_loop 5 ?env ops ?l ?st (Some small_elf) 0 132 None o0 (Some small_rp) sample_world =
      Inr (None, Some rp', w') \<and> rp_bootaddr rp' = 0x1004 \<and> rd_bytes (w_mem w') 0x2000 8 = [1, 2, 3, 4, 0, 0, 0, 0]"
    by (force simp: small_loadable mem_loaded_def small_va small_bytes rd_wr_same)
qed

text \<open>
  A first loadable segment without bytes in the file makes the call ask for nothing, and the loop takes that
  for the end: it reports success, with no segment loaded and the boot address as it was.
\<close>

theorem noblock_stops_early:
  assumes "elf_fits iops bs ei tab segs rp" and "\<forall>n live. al n live" and "pe_io env = iops" and "loaders ELF_OPS = elf_ops al"
    and "nb_ready rp" and "rp_loader rp = NULL"
    and "find (\<lambda>j. p_type (segs ! j) = PT_LOAD) [0..<length segs] = Some j" and "p_filesz (segs ! j) = 0"
  shows "noblock_loop (Suc f) env ops loaders store (Some bs) 0 (of_nat (length bs)) None o0 (Some rp) w =
    Inr (None, Some (rp\<lparr>rp_loader := ELF_OPS\<rparr>), w\<lparr>w_loader := w_loader w + 4\<rparr>)"
  using noblock_first [where loaders = loaders and ops = ops and w = w, OF assms(1-7),
      of "o0\<lparr>no_nlen := 0, no_pa := METAL_BAD_PHYS, no_io := NULL, no_nmlen := 0\<rparr>"] assms(8)
  by (auto simp: nb_asks_def)

subsection \<open>The region of the resource table\<close>

text \<open>Operations of a platform that leave the field \<open>rsc_io\<close> alone.\<close>

definition ops_keep_rsc_io :: "remoteproc_ops \<Rightarrow> bool" where
  "ops_keep_rsc_io ops \<longleftrightarrow>
     (\<forall>f rp pa da sz attr io w va pa' da' io' rp' w'. op_mmap ops = Some f \<longrightarrow>
        f rp pa da sz attr io w = Inr (va, pa', da', io', rp', w') \<longrightarrow> rp_rsc_io rp' = rp_rsc_io rp) \<and>
     (\<forall>f rp rsc len w ret rp' w'. op_handle_rsc ops = Some f \<longrightarrow> f rp rsc len w = Inr (ret, rp', w') \<longrightarrow> rp_rsc_io rp' = rp_rsc_io rp)"

lemma keep_mmapD:
  "ops_keep_rsc_io ops \<Longrightarrow> op_mmap ops = Some f \<Longrightarrow> f rp pa da sz attr io w = Inr (va, pa', da', io', rp', w') \<Longrightarrow> rp_rsc_io rp' = rp_rsc_io rp"
  unfolding ops_keep_rsc_io_def by blast

lemma keep_handleD:
  "ops_keep_rsc_io ops \<Longrightarrow> op_handle_rsc ops = Some f \<Longrightarrow> f rp rsc len w = Inr (ret, rp', w') \<Longrightarrow> rp_rsc_io rp' = rp_rsc_io rp"
  unfolding ops_keep_rsc_io_def by (elim conjE) metis

lemma cbindE:
  assumes "cbind m f = Inr r"
  obtains a where "m = Inr a" "f a = Inr r"
  using assms by (cases m) auto

lemma mmap_rsc_io:
  assumes "ops_keep_rsc_io ops" and "remoteproc_mmap io ops (Some rp) pa da sz attr iop w = Inr (va, pa', da', io', rp', w')"
  shows "rp_rsc_io (the rp') = rp_rsc_io rp"
  using assms(2)
  by (auto simp: remoteproc_mmap_def Let_def cbind_eq_Inr split: option.splits if_splits dest: keep_mmapD [OF assms(1)])

lemma allocate_rsc_io: "assign_id env rsc i rp w = Inr (rp', w') \<Longrightarrow> rp_rsc_io rp' = rp_rsc_io rp"
  by (auto simp: assign_id_def remoteproc_allocate_id_def Let_def cbind_eq_Inr split: if_splits)

lemma vring_ids_rsc_io: "vring_ids_loop env rsc n i rp w = Inr (rp', w') \<Longrightarrow> rp_rsc_io rp' = rp_rsc_io rp"
proof (induction n arbitrary: i rp w)
  case (Suc n)
  then show ?case by (auto simp: cbind_eq_Inr dest!: allocate_rsc_io)
qed simp

lemma rsc_entry_rsc_io:
  assumes "ops_keep_rsc_io ops" and "handle_rsc_entry env ops rsc st rp w = Inr (ret, rp', w')"
  shows "rp_rsc_io rp' = rp_rsc_io rp"
proof -
  have "rp_rsc_io rp' = rp_rsc_io rp" if "handle_carve_out_rsc env ops rsc rp w = Inr (ret, rp', w')"
    using that mmap_rsc_io [OF assms(1)] by (auto simp: handle_carve_out_rsc_def Let_def cbind_eq_Inr split: if_splits)
  moreover have "rp_rsc_io rp' = rp_rsc_io rp" if "handle_vdev_rsc env rsc rp w = Inr (ret, rp', w')"
    using that by (auto simp: handle_vdev_rsc_def cbind_eq_Inr dest!: allocate_rsc_io vring_ids_rsc_io)
  moreover have "rp_rsc_io rp' = rp_rsc_io rp" if "handle_vendor_rsc ops rsc rp w = Inr (ret, rp', w')"
    using that keep_handleD [OF assms(1)]
    by (auto simp: handle_vendor_rsc_def rp_check_ops_def cbind_eq_Inr split: option.splits if_splits)
  ultimately show ?thesis using assms(2) by (auto simp: handle_rsc_entry_def Let_def split: if_splits)
qed

lemma rsc_loop_rsc_io:
  assumes "ops_keep_rsc_io ops"
  shows "rsc_table_loop env ops t io i st rp w = Inr (ret, rp', w') \<Longrightarrow> rp_rsc_io rp' = rp_rsc_io rp"
proof (induction "2 ^ 32 - i" arbitrary: i st rp w rule: less_induct)
  case less
  let ?rsc = "t + ucast (rt_offset (w_mem w) t i)"
  consider "(ret, rp', w') = (st, rp, w)" | "rp' = rp"
    | st1 rp1 w1 where "i < unat (rt_num (w_mem w) t)" "handle_rsc_entry env ops ?rsc st rp w = Inr (st1, rp1, w1)"
        "rp' = rp1 \<or> (\<exists>st2. rsc_table_loop env ops t io (Suc i) st2 rp1 w1 = Inr (ret, rp', w'))"
    using less.prems unfolding rsc_table_loop.simps [of env ops t io i st rp w] by (auto simp: Let_def elim!: cbindE split: if_splits) blast+
  then show ?case
  proof cases
    case 3
    then have "2 ^ 32 - Suc i < 2 ^ 32 - i" using unsigned_less [of "rt_num (w_mem w) t", where 'a = nat] by simp
    then show ?thesis using 3(3) less.hyps [of "Suc i"] rsc_entry_rsc_io [OF assms 3(2)] by auto
  qed simp_all
qed

lemma rsc_table_rsc_io:
  "ops_keep_rsc_io ops \<Longrightarrow> handle_rsc_table env ops t sz io rp w = Inr (ret, rp', w') \<Longrightarrow> rp_rsc_io rp' = rp_rsc_io rp"
  by (auto simp: handle_rsc_table_def Let_def split: if_splits dest: rsc_loop_rsc_io)

lemma nb_rsc_rsc_io:
  assumes "ops_keep_rsc_io ops" and "nb_rsc env ops da sz o' rp w = Inr (ret, o1, rp', w')"
  shows "rp_rsc_io rp' = rp_rsc_io rp"
  using assms(2) mmap_rsc_io [OF assms(1)]
  by (auto simp: nb_rsc_def remoteproc_parse_rsc_table_def Let_def cbind_eq_Inr split: prod.splits if_splits dest!: rsc_table_rsc_io [OF assms(1)])

lemma nb_data_rsc_io:
  assumes "ops_keep_rsc_io ops" and "nb_data env ops ld img off len lst info o' rp w = Inr (n, lst', info', o1, rp', w')"
  shows "rp_rsc_io rp' = rp_rsc_io rp"
  using assms(2) mmap_rsc_io [OF assms(1)] by (auto simp: nb_data_def Let_def cbind_eq_Inr split: if_splits)

lemma nb_complete_rsc_io:
  assumes "ops_keep_rsc_io ops" and "nb_complete env ops ld lst info o' rp w = Inr (n, o1, rp', w')"
  shows "rp_rsc_io rp' = rp_rsc_io rp"
  using assms(2) nb_rsc_rsc_io [OF assms(1)] by (auto simp: nb_complete_def Let_def cbind_eq_Inr split: if_splits option.splits)

lemma nb_select_rsc_io: "nb_select loaders img off len img_info rp = Inr (sel, rp') \<Longrightarrow> rp_rsc_io rp' = rp_rsc_io rp"
  by (auto simp: nb_select_def Let_def cbind_eq_Inr split: if_splits option.splits)

lemma rp_locked_rsc_io:
  assumes "rp_locked body rp w = Inr (r, rp', w')"
  obtains l rp1 where "body (rp\<lparr>rp_lock := l\<rparr>) w = Inr (r, rp1, w')" "rp_rsc_io rp' = rp_rsc_io rp1"
  using assms by (auto simp: rp_locked_def cbind_eq_Inr split: if_splits)

text \<open>
  For an image with a resource table the two ways of loading differ: \<open>remoteproc_load\<close> stores the region in which the table lies,
  and \<open>remoteproc_load_noblock\<close> leaves the field as it was.
\<close>

theorem noblock_keeps_rsc_io:
  assumes "ops_keep_rsc_io ops" and "remoteproc_load_noblock env ops loaders img off len img_info outs (Some rp) w = Inr (r, Some rp', w')"
  shows "rp_rsc_io rp' = rp_rsc_io rp"
proof -
  note kept = nb_select_rsc_io nb_data_rsc_io [OF assms(1)] nb_complete_rsc_io [OF assms(1)]
  obtain o0 where o: "outs = Some o0" using assms(2) by (cases outs) (simp_all add: remoteproc_load_noblock_def)
  show ?thesis using assms(2) unfolding remoteproc_load_noblock_def o
    by (auto elim!: cbindE rp_locked_rsc_io split: option.splits sum.splits nb_next.splits prod.splits if_splits dest!: kept simp: Let_def)
qed

theorem load_sets_rsc_io:
  assumes "load_update_rsc env ops (cp, da, sz) io0 rp w = Inr (rp', w')" and "cp \<noteq> NULL"
    and "remoteproc_mmap (pe_io env) ops (Some rp) None (Some da) sz 0 (Some io0) w = Inr (va, pa', da', io', rp1, w1)" and "va \<noteq> NULL"
  shows "rp_rsc_io rp' = the io' \<and> rp_rsc_table rp' = va"
  using assms by (auto simp: load_update_rsc_def Let_def cbind_eq_Inr)

end
