(* ===== verification/Spec2Isabelle.thy ===== *)
theory Spec2Isabelle
  imports Flood_Props Sample_Props Rpc_Demo System_Helpers Port_Rpmsg Rpmsg_Props Virtio_Dispatch Rsc_Table_Props Load_Fw_Props Noblock_Props
begin

text \<open>
  A verification library of OpenAMP, the framework by which two processors without a common operating
  system exchange messages and by which one of them starts the other. Paths are relative to \<open>src/\<close>.

  \<^bold>\<open>The program.\<close> From the bottom up:

  \<^item> A \<^emph>\<open>virtqueue\<close> (\<open>lib/virtio\<close>) is a pair of rings in shared memory. The driver offers buffers and
    collects them again, the device takes them and gives them back; an event index tells when to notify the other side.
  \<^item> \<^emph>\<open>rpmsg\<close> (\<open>lib/rpmsg\<close>) carries messages between endpoints over two virtqueues, one for each
    direction, with buffers from a pool that the master owns. Endpoints have addresses from a bitmap and are announced by a name service.
  \<^item> \<^emph>\<open>remoteproc\<close> (\<open>lib/remoteproc\<close>) manages the other processor: its life cycle, its memory regions, the resource
    table that describes its virtio devices, loading an ELF image into its memory, and notifications. The
    virtio devices of rpmsg are those of remoteproc: their status, features and configuration lie in the resource table.
  \<^item> The \<^emph>\<open>proxy\<close> (\<open>lib/proxy\<close>) sends the file operations of one processor as rpmsg messages
    to a server on the other one (\<open>apps/examples/rpc_demo/rpc_demod.c\<close>).
  \<^item> A \<^emph>\<open>port\<close> (\<open>apps/machine\<close>, \<open>apps/system/*/machine\<close>) provides the operations of a processor on one machine, and the functions by
    which an application sets up the platform, creates its rpmsg device and waits for messages.
  \<^item> \<open>apps/examples/load_fw\<close> is a program that loads and starts a processor. The other programs under \<open>apps/examples\<close> and \<open>apps/tests\<close> come in pairs, a service
    and its client: echo, sample echo, matrix multiplication, file operations, and the tests with their flood of messages.

  \<^bold>\<open>The model.\<close> Each C function is one definition with the name of the function (a prefix where several files share a name);
  a loop or a block that needs a name of its own is a further definition beside it. Structures are records, stored integers are words of
  their width, pointers are 64-bit addresses (the data model is LP64; on the 32-bit Cortex-A9 and Cortex-R5 \<open>unsigned long\<close> is narrower, but
  the constants of their ports fit). Errors that the code returns are values; what has no defined outcome
  is a \<open>c_fault\<close>: an access outside an array, a NULL or dangling pointer, a failed assertion, a wait that never ends.
  State is passed explicitly: \<open>virtqueue\<close> and \<open>vring_mem\<close> for a queue and its rings, \<open>rpmsg_virtio_device\<close> for rpmsg, \<open>remoteproc\<close>
  and \<open>rproc_world\<close> for a processor, \<open>rpc_world\<close> and \<open>rpc_server\<close> for the proxy. Shared memory is a map from addresses to bytes.

  Code that is not in the sources is a parameter: libmetal (\<open>bitmap_ops\<close>, \<open>io_ops\<close>, \<open>port_env\<close>), the power management library,
  the operating system, callbacks of the application, the outcome of every allocation, the contents of uninitialised memory, and what the other processor does while this one waits.
  Device registers are memory that the other side may change meanwhile. What the code relies on is stated as the assumptions of a locale, and every locale is interpreted.

  \<^bold>\<open>Theories.\<close>

  \<^item> \<open>Prelude\<close>: types, faults, checked arrays, lemmas on words and lists. \<open>Metal\<close>: bytes in memory; the locales \<open>metal_bitmap\<close> and \<open>metal_region\<close>
    for libmetal, interpreted on arrays of longs and on a directly mapped block.
  \<^item> \<open>Vring\<close> (\<open>virtio_ring.h\<close>), \<open>Virtqueue\<close> (\<open>virtqueue.h\<close>, \<open>virtqueue.c\<close>), \<open>Virtio\<close> (\<open>virtio.h\<close>, \<open>virtio.c\<close>): the definitions, and the layout of a vring.
    \<open>Ring\<close> and \<open>Virtqueue_Inv\<close>: rings, chains and the abstract queue \<open>avq\<close>, which says where each descriptor is. \<open>Virtqueue_Proto\<close>: the locale
    \<open>vq_contract\<close>, a simulation of every operation, interpreted on the model. \<open>Virtqueue_Sys\<close>: from
    creation on every interleaving of legal calls refines the abstract queue; buffers come in order, cookies are not duplicated,
    the chains in the descriptor table never overlap, no fault occurs, no kick is lost; and what happens outside of the contract.
  \<^item> \<open>Rpmsg\<close> (\<open>rpmsg.h\<close>, \<open>rpmsg_internal.h\<close>, \<open>rpmsg.c\<close>) and \<open>Rpmsg_Inv\<close>: endpoints, addresses, and their invariant over the locales
    \<open>rpmsg_transport\<close> and \<open>rpmsg_mgmt\<close>. \<open>Rpmsg_Virtio\<close> (\<open>rpmsg_virtio.h\<close>, \<open>rpmsg_virtio.c\<close>): the transport. \<open>Rpmsg_Pool\<close>: the buffer pool and messages in memory.
    \<open>Rpmsg_Tx\<close>: the send channel of the master on top of the abstract queue. \<open>Rpmsg_Props\<close>: a message that is sent is appended to
    the channel, and the first one there is delivered unchanged to its endpoint; creating and destroying endpoints keeps the invariant.
  \<^item> \<open>Remoteproc_Virtio\<close> (\<open>remoteproc_virtio.c\<close>), \<open>Virtio_Dispatch\<close> (its functions as an implementation of the locale \<open>virtio_dispatch\<close>), \<open>Rproc_Virtio_Props\<close>
    (configuration, features, hand-shake) and \<open>Rproc_Virtio_Alloc\<close> (nothing is leaked or freed twice).
  \<^item> \<open>Remoteproc\<close> (\<open>remoteproc.h\<close>, \<open>remoteproc.c\<close>), \<open>Remoteproc_Life\<close> (the locale \<open>rproc_platform\<close> of what the operations of a platform keep; every
    sequence of calls follows an abstract life cycle), \<open>Rproc_Mem_Props\<close> (regions, identifiers, notifications against reference definitions).
  \<^item> \<open>Rsc_Table\<close> (\<open>rsc_table_parser.c\<close>, and the functions of \<open>remoteproc.c\<close> on tables) and \<open>Rsc_Table_Props\<close>: the search against a
    reference definition, where the check of the length fails, identifiers.
  \<^item> \<open>Elf_Loader\<close> (\<open>elf_loader.h\<close>, \<open>elf_loader.c\<close>), \<open>Elf_Props\<close>, \<open>Remoteproc_Load\<close> (\<open>remoteproc_load\<close>, \<open>remoteproc_load_noblock\<close>) and \<open>Load_Props\<close>: for an
    image store that keeps the locale \<open>image_store\<close> a fitting image without a resource table (\<open>elf_fits\<close> has the conditions) ends in memory segment by segment. \<open>Noblock_Props\<close>: loading piece by piece leaves the same
    processor and memory, stops early at a segment without bytes in the file, and does not store the region of a resource table, which \<open>remoteproc_load\<close> does.
  \<^item> \<open>R5_Platform\<close>, \<open>Lcm_Platform\<close>, \<open>Load_Fw\<close> and \<open>Load_Fw_Props\<close>: the platforms and the program of \<open>apps/examples/load_fw\<close>.
  \<^item> \<open>Retarget\<close> (\<open>rpmsg_retarget.c\<close>), \<open>Rpc_Server\<close> (\<open>rpc_demod.c\<close>), \<open>Rpc_System\<close> (both joined by a channel) and \<open>Rpc_Props\<close>: each file
    operation has the effect of that of the server's system.
  \<^item> \<open>Port_Base\<close>, \<open>Bare_Ports\<close>, \<open>Linux_Ports\<close>, \<open>Port_Tables\<close> and \<open>Port_Rpmsg\<close>: the six ports and their five resource tables, with what the copies of a function have in common
    defined once. \<open>Port_Tables\<close> also proves that the parser accepts the tables, \<open>Port_Props\<close> what a port waits for
    (locale \<open>kick_handler\<close>) and which devices it gives back, \<open>Port_Setup\<close> what \<open>platform_init\<close> sets up, \<open>Port_Rpmsg\<close> which ports cannot create an rpmsg device.

  \<^item> \<open>System_Helpers\<close>: the set-up code of the boards (\<open>helper.c\<close>); the locale \<open>gic_distributor\<close> for the interrupt controller.
  \<^item> \<open>Rpc_Demo\<close> (\<open>rpc_demo.c\<close>): the client of the proxy, and that its work on a file is that of a local program.
  \<^item> \<open>App_Base\<close>, \<open>Echo_Apps\<close> and \<open>Matrix_Apps\<close>: the functions of the other examples and of the tests; what the copies have in common is in \<open>App_Base\<close>. \<open>Matrix_Apps\<close> also proves that the
    loops compute the product. \<open>App_Link\<close> joins a client and a service by a channel of bounded capacity, and states in the locale \<open>answering_service\<close> what a client relies on. \<open>App_Props\<close>
    interprets it by the services, and shows that the clients of echo and matrix multiplication succeed; \<open>Flood_Props\<close> (locale \<open>steady_service\<close>) that every package of the flood comes back once and in order;
    \<open>Sample_Props\<close> the sample from start to end.

  \<^bold>\<open>Fuel.\<close> A loop that ends after a number of rounds known beforehand recurses on it: chains of descriptors on the size of the ring, vrings and table entries on
  their number, the wait for a buffer on \<open>RPMSG_TICK_COUNT\<close>. Loops that nothing bounds take a number of rounds and give \<open>Hang\<close> when it is used up: the waits for the other processor
  (status, answer, kick), the loop over received messages, the two loops of the loader. Theorems about them do not assume that they return:
  \<open>wait_remote_ready_exact\<close>, \<open>handshake_completes\<close> and \<open>linux_r5_poll_exact\<close> say at which round they do, \<open>rt_open_served\<close> and its like hold for every fuel above the
  round in which the server answers, and \<open>load_elf_image\<close> and \<open>noblock_load_agrees\<close> for one that is at least the number of rounds that the image needs. The programs return when the fuel exceeds the polls that an answer takes, for the flood together with
  the capacity of the channel.

  \<^bold>\<open>Builds.\<close> Both roles of virtio are compiled in; debug assertions of the virtqueue are a parameter. The Cortex-R5 and RISC-V ports are those with \<open>RPMSG_NO_IPI\<close> (the others do not compile), the ZynqMP
  port for Linux the one with interrupts, the generic one that without \<open>RPMSG_IPI\<close>.

  \<^bold>\<open>Not modelled.\<close> Log output and \<open>virtqueue_dump\<close>; the text of what programs print; parsing of arguments, whose results no port uses; cache maintenance; interrupts that arrive inside of a library
  function, except where it waits; the shell commands of RT-Thread around \<open>main\<close>. \<open>apps/machine/zynq7/platform_info_remoteproc_master.c\<close> is written for headers that the repository no longer has, and is
  not built. Libmetal, the libraries of the vendors and the C library are parameters.
\<close>

end
